(* ===== verification/Prelude.thy ===== *)
theory Prelude
  imports Complex_Main
begin

text \<open>
  Shared collections and generic lemmas of the development: the named theorem
  collections that the component theories fill, and facts on lists and options
  that several of them use.
\<close>

named_theorems js_num \<open>evaluation of JavaScript number operations on finite operands\<close>
named_theorems js_str \<open>evaluation of JavaScript string operations\<close>
named_theorems pos_defs \<open>definitions unfolded when an operation is executed\<close>

section \<open>Lists as JavaScript arrays\<close>

text \<open>\<open>Array.prototype.find\<close>: the first element that satisfies the predicate.\<close>

abbreviation find_first :: "('a \<Rightarrow> bool) \<Rightarrow> 'a list \<Rightarrow> 'a option" where
  "find_first \<equiv> List.find"

lemma find_Some_iff_ex: "(\<exists>x. find_first P xs = Some x) \<longleftrightarrow> (\<exists>x\<in>set xs. P x)"
  by (induction xs) auto

lemma find_None_all: "find_first P xs = None \<longleftrightarrow> (\<forall>x\<in>set xs. \<not> P x)"
  by (induction xs) auto

lemma find_SomeD: "find_first P xs = Some x \<Longrightarrow> x \<in> set xs \<and> P x"
  by (induction xs) (auto split: if_splits)

text \<open>An array updated in place at the elements with a given key.\<close>

lemma map_fst_map_same:
  "(\<And>x. x \<in> set xs \<Longrightarrow> g (f x) = g x) \<Longrightarrow> map g (map f xs) = map g xs"
  by (induction xs) auto

lemma distinct_map_filter: "distinct (map f xs) \<Longrightarrow> distinct (map f (filter P xs))"
  by (induction xs) auto

lemma length_filter_le_suc: "length (filter P xs) \<le> length xs"
  by (rule length_filter_le)

lemma filter_map_comm:
  "(\<And>x. P (f x) = P x) \<Longrightarrow> filter P (map f xs) = map f (filter P xs)"
  by (induction xs) auto

text \<open>\<open>Array.prototype.slice(start, start + n)\<close> on non-negative bounds.\<close>

definition window :: "nat \<Rightarrow> nat \<Rightarrow> 'a list \<Rightarrow> 'a list" where
  "window start n xs = take n (drop start xs)"

lemma length_window: "length (window start n xs) = min n (length xs - start)"
  by (auto simp: window_def)

lemma window_subset: "set (window start n xs) \<subseteq> set xs"
  unfolding window_def using set_take_subset set_drop_subset by fast

text \<open>Consecutive windows of one size, read until the list is used up, are the list.\<close>

lemma concat_windows:
  "concat (map (\<lambda>i. window (i * n) n xs) [0..<k]) = take (k * n) xs"
proof (induction k)
  case 0
  show ?case by simp
next
  case (Suc k)
  have "take (Suc k * n) xs = take (k * n) xs @ take n (drop (k * n) xs)"
    by (simp add: take_add[symmetric] add.commute)
  with Suc show ?case by (simp add: window_def)
qed

section \<open>Options\<close>

text \<open>The \<open>??\<close> of TypeScript: the default where the value is missing.\<close>

definition opt_default :: "'a \<Rightarrow> 'a option \<Rightarrow> 'a" where
  "opt_default d x = (case x of None \<Rightarrow> d | Some y \<Rightarrow> y)"

lemma opt_default_simps [simp]:
  "opt_default d None = d"
  "opt_default d (Some y) = y"
  by (simp_all add: opt_default_def)

end
