(* ===== verification/Js_Number.thy ===== *)
theory Js_Number
  imports Prelude
begin

text \<open>
  The numbers of TypeScript: IEEE 754 binary64, as every amount, quantity and rate of the
  program is one. A finite number is the rational it denotes; the arithmetic operations
  compute the exact result and round it to the nearest double, ties to even. The two
  zeros are one value: no operation of the program tells them apart.
\<close>

datatype jsnum = NaN | PInf | NInf | Fin rat

section \<open>Rounding\<close>

text \<open>Binary logarithms: \<open>ilog n\<close> of a positive integer, \<open>flog2 x\<close> of a positive
  rational.\<close>

fun ilog :: "int \<Rightarrow> int" where
  "ilog n = (if n < 2 then 0 else 1 + ilog (n div 2))"

declare ilog.simps [simp del]

lemma powi2_pos [simp]: "0 < (2::rat) powi k"
  by (simp add: zero_less_power_int)

lemma powi2_Suc: "(2::rat) powi (k + 1) = 2 * 2 powi k"
  by (simp add: power_int_add)

lemma ilog_nonneg: "0 \<le> ilog n"
proof (induction n rule: ilog.induct)
  case (1 n)
  then show ?case by (auto simp: ilog.simps [of n])
qed

lemma ilog_bounds: "0 < n \<Longrightarrow> 2 ^ nat (ilog n) \<le> n \<and> n < 2 * 2 ^ nat (ilog n)"
proof (induction n rule: ilog.induct)
  case (1 n)
  show ?case
  proof (cases "n < 2")
    case True
    with "1.prems" show ?thesis by (simp add: ilog.simps [of n])
  next
    case False
    with "1.IH" have "2 ^ nat (ilog (n div 2)) \<le> n div 2 \<and> n div 2 < 2 * 2 ^ nat (ilog (n div 2))"
      by simp
    then have "2 * 2 ^ nat (ilog (n div 2)) \<le> n \<and> n < 2 * (2 * 2 ^ nat (ilog (n div 2)))"
      by linarith
    moreover have "nat (1 + ilog (n div 2)) = Suc (nat (ilog (n div 2)))"
      using ilog_nonneg [of "n div 2"] by simp
    ultimately show ?thesis using False by (simp add: ilog.simps [of n])
  qed
qed

lemma ilog_bounds_rat:
  assumes "0 < n"
  shows "2 powi ilog n \<le> rat_of_int n" and "rat_of_int n < 2 powi (ilog n + 1)"
proof -
  have pw: "(2::rat) powi ilog n = of_int (2 ^ nat (ilog n))"
    using ilog_nonneg [of n] by (simp add: power_int_def)
  from ilog_bounds [OF assms] show "2 powi ilog n \<le> rat_of_int n"
    unfolding pw by (simp only: of_int_le_iff)
  from ilog_bounds [OF assms] have "rat_of_int n < of_int (2 * 2 ^ nat (ilog n))"
    by (simp only: of_int_less_iff)
  then show "rat_of_int n < 2 powi (ilog n + 1)" unfolding powi2_Suc pw by simp
qed

definition flog2 :: "rat \<Rightarrow> int" where
  "flog2 x = (let (a, b) = quotient_of x; k = ilog a - ilog b
              in if 2 powi k \<le> x then k else k - 1)"

lemma flog2_bounds:
  assumes "0 < x"
  shows "2 powi flog2 x \<le> x" and "x < 2 powi (flog2 x + 1)"
proof -
  obtain a b where q: "quotient_of x = (a, b)" by (cases "quotient_of x")
  then have b: "0 < b" and x: "x = of_int a / of_int b"
    by (auto simp: quotient_of_denom_pos quotient_of_div)
  with assms have a: "0 < a" by (simp add: zero_less_divide_iff)
  note pa = ilog_bounds_rat [OF a] and rb = ilog_bounds_rat [OF b]
  have "x < 2 powi (ilog a + 1) / 2 powi ilog b"
    unfolding x using pa rb a b by (intro frac_less) (auto simp: less_imp_le)
  also have "\<dots> = 2 powi (ilog a - ilog b + 1)"
    by (simp add: power_int_diff power_int_add)
  finally have up: "x < 2 powi (ilog a - ilog b + 1)" .
  have "(2::rat) powi (ilog a - ilog b - 1) = 2 powi ilog a / 2 powi (ilog b + 1)"
    by (simp add: power_int_diff power_int_add)
  also have "\<dots> \<le> x" unfolding x using pa rb a b by (intro frac_le) (auto simp: less_imp_le)
  finally have lo: "2 powi (ilog a - ilog b - 1) \<le> x" .
  have fl: "flog2 x = (if 2 powi (ilog a - ilog b) \<le> x then ilog a - ilog b
                       else ilog a - ilog b - 1)"
    by (simp add: flog2_def q)
  show "2 powi flog2 x \<le> x" using lo by (simp add: fl)
  show "x < 2 powi (flog2 x + 1)" using up by (auto simp: fl)
qed

lemma powi2_mono: "m \<le> n \<Longrightarrow> (2::rat) powi m \<le> 2 powi n"
  by (rule power_int_increasing) auto

lemma powi2_less_iff: "(2::rat) powi m < 2 powi n \<longleftrightarrow> m < n"
  by (metis linorder_not_less order_less_irrefl powi2_mono power_int_strict_increasing
      less_le_trans one_less_numeral_iff semiring_norm(76))

lemma flog2_unique:
  assumes "2 powi k \<le> x" and "x < 2 powi (k + 1)"
  shows "flog2 x = k"
proof -
  have x: "0 < x" using assms(1) powi2_pos [of k] by linarith
  have "(2::rat) powi k < 2 powi (flog2 x + 1)"
    using assms(1) flog2_bounds(2) [OF x] by linarith
  moreover have "(2::rat) powi flog2 x < 2 powi (k + 1)"
    using assms(2) flog2_bounds(1) [OF x] by linarith
  ultimately show ?thesis by (simp add: powi2_less_iff)
qed

lemma flog2_mono: "0 < x \<Longrightarrow> x \<le> y \<Longrightarrow> flog2 x \<le> flog2 y"
proof -
  assume x: "0 < x" and xy: "x \<le> y"
  have "(2::rat) powi flog2 x < 2 powi (flog2 y + 1)"
    using flog2_bounds(1) [OF x] flog2_bounds(2) [of y] x xy by linarith
  then show ?thesis by (simp add: powi2_less_iff)
qed

text \<open>Rounding to an integer, ties to even.\<close>

definition rhe :: "rat \<Rightarrow> int" where
  "rhe y = (let f = \<lfloor>y\<rfloor>; d = y - of_int f
            in if d < 1 / 2 then f else if 1 / 2 < d then f + 1
               else if even f then f else f + 1)"

lemma rhe_error: "\<bar>of_int (rhe y) - y\<bar> \<le> 1 / 2"
proof -
  have "of_int \<lfloor>y\<rfloor> \<le> y" "y < of_int \<lfloor>y\<rfloor> + 1" by linarith+
  then show ?thesis by (auto simp: rhe_def Let_def)
qed

lemma rhe_of_int [simp]: "rhe (of_int n) = n"
  by (simp add: rhe_def)

lemma rhe_mono:
  assumes "x \<le> y"
  shows "rhe x \<le> rhe y"
proof (cases "\<lfloor>x\<rfloor> = \<lfloor>y\<rfloor>")
  case True
  with assms show ?thesis by (auto simp: rhe_def Let_def)
next
  case False
  moreover have "\<lfloor>x\<rfloor> \<le> \<lfloor>y\<rfloor>" using assms by (rule floor_mono)
  ultimately have "\<lfloor>x\<rfloor> + 1 \<le> \<lfloor>y\<rfloor>" by simp
  moreover have "rhe x \<le> \<lfloor>x\<rfloor> + 1" and "\<lfloor>y\<rfloor> \<le> rhe y"
    by (simp_all add: rhe_def Let_def)
  ultimately show ?thesis by simp
qed

lemma rhe_ge: "of_int n \<le> y \<Longrightarrow> n \<le> rhe y"
  using rhe_mono [of "of_int n" y] by simp

lemma rhe_le: "y \<le> of_int n \<Longrightarrow> rhe y \<le> n"
  using rhe_mono [of y "of_int n"] by simp

lemma rhe_minus: "rhe (- y) = - rhe y"
proof (cases "y = of_int \<lfloor>y\<rfloor>")
  case True
  then show ?thesis using rhe_of_int [of "\<lfloor>y\<rfloor>"] rhe_of_int [of "- \<lfloor>y\<rfloor>"] by simp
next
  case False
  have lt: "of_int \<lfloor>y\<rfloor> < y" using False by linarith
  have fl: "\<lfloor>- y\<rfloor> = - \<lfloor>y\<rfloor> - 1"
    using lt by (intro floor_unique) linarith+
  show ?thesis by (auto simp: rhe_def Let_def fl)
qed

text \<open>The exponent of the last place of a double near \<open>x\<close> (the smallest is \<open>-1074\<close>), and
  the nearest double as a rational, were the exponent not bounded above.\<close>

definition ulp_exp :: "rat \<Rightarrow> int" where
  "ulp_exp x = max (flog2 \<bar>x\<bar> - 52) (- 1074)"

definition rnd_rat :: "rat \<Rightarrow> rat" where
  "rnd_rat x = (if x = 0 then 0
                else of_int (rhe (x / 2 powi ulp_exp x)) * 2 powi ulp_exp x)"

definition max_pow :: rat where
  "max_pow = 2 ^ 1024"

lemma max_pow_code [code]: "max_pow = 179769313486231590772930519078902473361797697894230657273430081157732675805500963132708477322407536021120113879871393357658789768814416622492847430639474124377767893424865485276302219601246094119453082952085005768838150682342462881473913110540827237163350510684586298239947245938479716304835356329624224137216"
  by (simp add: max_pow_def)

text \<open>The value that an arithmetic operation with the exact result \<open>x\<close> returns.\<close>

definition rnd :: "rat \<Rightarrow> jsnum" where
  "rnd x = (let y = rnd_rat x
            in if max_pow \<le> y then PInf else if y \<le> - max_pow then NInf else Fin y)"

lemma rnd_rat_0 [simp]: "rnd_rat 0 = 0"
  by (simp add: rnd_rat_def)

lemma rnd_rat_minus: "rnd_rat (- x) = - rnd_rat x"
  by (simp add: rnd_rat_def ulp_exp_def rhe_minus)

lemma rnd_rat_error: "\<bar>rnd_rat x - x\<bar> \<le> 2 powi ulp_exp x / 2"
proof (cases "x = 0")
  case True
  then show ?thesis by (simp add: less_imp_le)
next
  case False
  let ?u = "(2::rat) powi ulp_exp x"
  have "rnd_rat x - x = (of_int (rhe (x / ?u)) - x / ?u) * ?u"
    using False by (simp add: rnd_rat_def left_diff_distrib)
  then have "\<bar>rnd_rat x - x\<bar> = \<bar>of_int (rhe (x / ?u)) - x / ?u\<bar> * ?u"
    by (simp add: abs_mult)
  also have "\<dots> \<le> 1 / 2 * ?u"
    by (intro mult_right_mono rhe_error) (simp add: less_imp_le)
  finally show ?thesis by simp
qed

text \<open>A product of an integer of at most 53 bits and a power of two is a double: rounding
  leaves it alone.\<close>

definition dbl_form :: "rat \<Rightarrow> bool" where
  "dbl_form x \<longleftrightarrow> (\<exists>m e. \<bar>m\<bar> \<le> 2 ^ 53 \<and> - 1074 \<le> e \<and> x = of_int m * 2 powi e)"

lemma powi_split: "k \<le> e \<Longrightarrow> (2::rat) powi e = of_int (2 ^ nat (e - k)) * 2 powi k"
proof -
  assume "k \<le> e"
  define n where "n = nat (e - k)"
  have e: "e = int n + k" using \<open>k \<le> e\<close> by (simp add: n_def)
  have "(2::rat) powi e = 2 ^ n * 2 powi k" unfolding e by (simp add: power_int_add)
  then show ?thesis by (simp add: n_def)
qed

lemma rnd_rat_scaled:
  assumes "ulp_exp x \<le> k" and "x = of_int n * 2 powi k"
  shows "rnd_rat x = x"
proof (cases "x = 0")
  case False
  let ?u = "ulp_exp x"
  have xu: "x = of_int (n * 2 ^ nat (k - ?u)) * 2 powi ?u"
    using assms(2) powi_split [OF assms(1)] by simp
  then have "x / 2 powi ?u = of_int (n * 2 ^ nat (k - ?u))"
    using powi2_pos [of ?u] by (metis less_irrefl nonzero_mult_div_cancel_right)
  then have "rnd_rat x = of_int (n * 2 ^ nat (k - ?u)) * 2 powi ?u"
    using False by (simp only: rnd_rat_def rhe_of_int) simp
  also have "\<dots> = x"
    using assms(2) powi_split [OF assms(1)] by simp
  finally show ?thesis .
qed simp

lemma rnd_rat_dbl:
  assumes "dbl_form x"
  shows "rnd_rat x = x"
proof (cases "x = 0")
  case False
  obtain m e where m: "\<bar>m\<bar> \<le> 2 ^ 53" and e: "- 1074 \<le> e" and x: "x = of_int m * 2 powi e"
    using assms by (auto simp: dbl_form_def)
  have ax: "\<bar>x\<bar> = of_int \<bar>m\<bar> * 2 powi e" using x by (simp add: abs_mult)
  have xpos: "0 < \<bar>x\<bar>" using False by simp
  show ?thesis
  proof (cases "\<bar>m\<bar> = 2 ^ 53")
    case False
    with m have "\<bar>m\<bar> < 2 ^ 53" by simp
    then have "(of_int \<bar>m\<bar> :: rat) < of_int (2 ^ 53)" by (simp only: of_int_less_iff)
    then have "\<bar>x\<bar> < 2 powi 53 * 2 powi e" unfolding ax
      by (intro mult_strict_right_mono) simp_all
    then have "\<bar>x\<bar> < 2 powi (e + 53)" by (simp add: power_int_add mult.commute)
    with flog2_bounds(1) [OF xpos] have "(2::rat) powi flog2 \<bar>x\<bar> < 2 powi (e + 53)" by linarith
    then have "flog2 \<bar>x\<bar> < e + 53" by (simp only: powi2_less_iff)
    with e have "ulp_exp x \<le> e" by (simp add: ulp_exp_def)
    then show ?thesis using x by (rule rnd_rat_scaled)
  next
    case True
    then have ax': "\<bar>x\<bar> = 2 powi (e + 53)" by (simp add: ax power_int_add mult.commute)
    have "flog2 \<bar>x\<bar> = e + 53"
      unfolding ax' by (rule flog2_unique) (simp_all add: powi2_less_iff)
    with e have "ulp_exp x \<le> e + 1" by (simp add: ulp_exp_def)
    moreover have "x = of_int (sgn m * 2 ^ 52) * 2 powi (e + 1)"
    proof -
      have "m = sgn m * 2 ^ 53" using True by (metis mult_sgn_abs)
      then have "(of_int m :: rat) = of_int (sgn m * 2 ^ 52) * 2" by simp
      then show ?thesis unfolding x powi2_Suc by simp
    qed
    ultimately show ?thesis by (rule rnd_rat_scaled)
  qed
qed simp

lemma rnd_rat_mant:
  assumes "x \<noteq> 0"
  shows "\<bar>rhe (x / 2 powi ulp_exp x)\<bar> \<le> 2 ^ 53"
proof -
  let ?u = "(2::rat) powi ulp_exp x"
  have "\<bar>x\<bar> < 2 powi (flog2 \<bar>x\<bar> + 1)" using assms flog2_bounds(2) [of "\<bar>x\<bar>"] by simp
  also have "\<dots> \<le> 2 powi (ulp_exp x + 53)" by (rule powi2_mono) (simp add: ulp_exp_def)
  also have "\<dots> = 2 ^ 53 * ?u" by (simp add: power_int_add mult.commute)
  finally have "\<bar>x\<bar> < 2 ^ 53 * ?u" .
  then have "x < 2 ^ 53 * ?u" "- x < 2 ^ 53 * ?u" by linarith+
  then have "x / ?u \<le> of_int (2 ^ 53)" "of_int (- (2 ^ 53)) \<le> x / ?u"
    by (simp_all add: field_simps)
  then have "rhe (x / ?u) \<le> 2 ^ 53" "- (2 ^ 53) \<le> rhe (x / ?u)"
    by (auto intro: rhe_le rhe_ge)
  then show ?thesis by simp
qed

lemma dbl_form_rnd_rat: "dbl_form (rnd_rat x)"
proof (cases "x = 0")
  case True
  then show ?thesis unfolding dbl_form_def by (intro exI [of _ 0]) auto
next
  case False
  have "- 1074 \<le> ulp_exp x" by (simp add: ulp_exp_def)
  with False rnd_rat_mant [OF False] show ?thesis
    unfolding dbl_form_def rnd_rat_def by auto
qed

lemma rnd_rat_idem [simp]: "rnd_rat (rnd_rat x) = rnd_rat x"
  by (rule rnd_rat_dbl) (rule dbl_form_rnd_rat)

lemma dbl_form_int: "\<bar>i\<bar> \<le> 2 ^ 53 \<Longrightarrow> dbl_form (of_int i)"
  unfolding dbl_form_def by (intro exI [of _ i] exI [of _ 0]) simp

lemma rnd_rat_int: "\<bar>i\<bar> \<le> 2 ^ 53 \<Longrightarrow> rnd_rat (of_int i) = of_int i"
  by (intro rnd_rat_dbl dbl_form_int)

lemma rnd_rat_nonneg: "0 \<le> x \<Longrightarrow> 0 \<le> rnd_rat x"
  by (auto simp: rnd_rat_def less_imp_le intro!: mult_nonneg_nonneg rhe_ge [of 0, simplified])

lemma rnd_rat_le_pow:
  assumes "0 < x"
  shows "rnd_rat x \<le> 2 powi (ulp_exp x + 53)"
proof -
  have "rhe (x / 2 powi ulp_exp x) \<le> 2 ^ 53" using rnd_rat_mant [of x] assms by simp
  then have "(of_int (rhe (x / 2 powi ulp_exp x)) :: rat) \<le> of_int (2 ^ 53)"
    by (simp only: of_int_le_iff)
  then have "of_int (rhe (x / 2 powi ulp_exp x)) * (2::rat) powi ulp_exp x
      \<le> 2 ^ 53 * 2 powi ulp_exp x"
    by (intro mult_right_mono) (simp_all add: less_imp_le)
  also have "\<dots> = 2 powi (ulp_exp x + 53)" by (simp add: power_int_add mult.commute)
  finally show ?thesis using assms by (simp add: rnd_rat_def)
qed

lemma rnd_rat_mono_pos:
  assumes x: "0 < x" and xy: "x \<le> y"
  shows "rnd_rat x \<le> rnd_rat y"
proof (cases "ulp_exp x = ulp_exp y")
  case True
  have "x / 2 powi ulp_exp x \<le> y / 2 powi ulp_exp x"
    using xy by (intro divide_right_mono) (simp_all add: less_imp_le)
  from rhe_mono [OF this] show ?thesis
    using x xy True by (simp add: rnd_rat_def less_imp_le)
next
  case False
  have mono: "flog2 \<bar>x\<bar> \<le> flog2 \<bar>y\<bar>" using x xy by (simp add: flog2_mono)
  with False have lt: "ulp_exp x + 1 \<le> ulp_exp y" and uy: "ulp_exp y = flog2 y - 52"
    using x xy by (auto simp: ulp_exp_def max_def split: if_splits)
  have "rnd_rat x \<le> 2 powi (ulp_exp x + 53)" using x by (rule rnd_rat_le_pow)
  also have "\<dots> \<le> 2 powi (ulp_exp y + 52)" using lt by (intro powi2_mono) simp
  also have "\<dots> = 2 ^ 52 * 2 powi ulp_exp y" by (simp add: power_int_add mult.commute)
  also have "\<dots> \<le> rnd_rat y"
  proof -
    have "(2::rat) powi (ulp_exp y + 52) \<le> y" using flog2_bounds(1) [of y] x xy uy by simp
    then have "of_int (2 ^ 52) \<le> y / 2 powi ulp_exp y"
      by (simp add: power_int_add field_simps)
    from rhe_ge [OF this] have "(of_int (2 ^ 52) :: rat) \<le> of_int (rhe (y / 2 powi ulp_exp y))"
      by (simp only: of_int_le_iff)
    then have "2 ^ 52 * (2::rat) powi ulp_exp y
        \<le> of_int (rhe (y / 2 powi ulp_exp y)) * 2 powi ulp_exp y"
      by (intro mult_right_mono) (simp_all add: less_imp_le)
    then show ?thesis using x xy by (simp add: rnd_rat_def)
  qed
  finally show ?thesis .
qed

lemma rnd_rat_mono:
  assumes "x \<le> y"
  shows "rnd_rat x \<le> rnd_rat y"
proof -
  consider "0 < x" | "x \<le> 0" "0 \<le> y" | "y < 0" by linarith
  then show ?thesis
  proof cases
    case 1
    then show ?thesis using assms by (rule rnd_rat_mono_pos)
  next
    case 2
    then show ?thesis
      using rnd_rat_nonneg [of y] rnd_rat_nonneg [of "- x"] by (simp add: rnd_rat_minus)
  next
    case 3
    then have "rnd_rat (- y) \<le> rnd_rat (- x)" using assms by (intro rnd_rat_mono_pos) simp_all
    then show ?thesis by (simp add: rnd_rat_minus)
  qed
qed

section \<open>Arithmetic\<close>

definition is_fin :: "jsnum \<Rightarrow> bool" where
  "is_fin a = (case a of Fin x \<Rightarrow> True | _ \<Rightarrow> False)"

definition inf_of :: "bool \<Rightarrow> jsnum" where
  "inf_of pos = (if pos then PInf else NInf)"

instantiation jsnum :: "{zero, one, plus, minus, uminus, times, inverse}"
begin

definition zero_jsnum :: jsnum where
  "zero_jsnum = Fin 0"

definition one_jsnum :: jsnum where
  "one_jsnum = Fin 1"

fun uminus_jsnum :: "jsnum \<Rightarrow> jsnum" where
  "uminus_jsnum NaN = NaN"
| "uminus_jsnum PInf = NInf"
| "uminus_jsnum NInf = PInf"
| "uminus_jsnum (Fin x) = Fin (- x)"

fun plus_jsnum :: "jsnum \<Rightarrow> jsnum \<Rightarrow> jsnum" where
  "plus_jsnum (Fin x) (Fin y) = rnd (x + y)"
| "plus_jsnum NaN b = NaN"
| "plus_jsnum a NaN = NaN"
| "plus_jsnum PInf NInf = NaN"
| "plus_jsnum NInf PInf = NaN"
| "plus_jsnum PInf b = PInf"
| "plus_jsnum a PInf = PInf"
| "plus_jsnum NInf b = NInf"
| "plus_jsnum a NInf = NInf"

definition minus_jsnum :: "jsnum \<Rightarrow> jsnum \<Rightarrow> jsnum" where
  "minus_jsnum a b = a + (- b)"

fun times_jsnum :: "jsnum \<Rightarrow> jsnum \<Rightarrow> jsnum" where
  "times_jsnum (Fin x) (Fin y) = rnd (x * y)"
| "times_jsnum NaN b = NaN"
| "times_jsnum a NaN = NaN"
| "times_jsnum (Fin x) b = (if x = 0 then NaN else inf_of ((b = PInf) = (0 < x)))"
| "times_jsnum a (Fin y) = (if y = 0 then NaN else inf_of ((a = PInf) = (0 < y)))"
| "times_jsnum a b = inf_of (a = b)"

fun divide_jsnum :: "jsnum \<Rightarrow> jsnum \<Rightarrow> jsnum" where
  "divide_jsnum (Fin x) (Fin y) =
     (if y = 0 then (if x = 0 then NaN else inf_of (0 < x)) else rnd (x / y))"
| "divide_jsnum NaN b = NaN"
| "divide_jsnum a NaN = NaN"
| "divide_jsnum (Fin x) b = Fin 0"
| "divide_jsnum a (Fin y) = inf_of ((a = PInf) = (0 \<le> y))"
| "divide_jsnum a b = NaN"

definition inverse_jsnum :: "jsnum \<Rightarrow> jsnum" where
  "inverse_jsnum a = divide (Fin 1) a"

instance ..

end

instantiation jsnum :: ord
begin

fun less_jsnum :: "jsnum \<Rightarrow> jsnum \<Rightarrow> bool" where
  "less_jsnum (Fin x) (Fin y) = (x < y)"
| "less_jsnum NaN b = False"
| "less_jsnum a NaN = False"
| "less_jsnum PInf b = False"
| "less_jsnum a PInf = True"
| "less_jsnum a NInf = False"
| "less_jsnum NInf b = True"

definition less_eq_jsnum :: "jsnum \<Rightarrow> jsnum \<Rightarrow> bool" where
  "less_eq_jsnum a b = (a < b \<or> (a = b \<and> a \<noteq> NaN))"

instance ..

end

text \<open>\<open>a === b\<close>: as equality, but for \<open>NaN\<close>.\<close>

definition js_eq :: "jsnum \<Rightarrow> jsnum \<Rightarrow> bool" where
  "js_eq a b = (a = b \<and> a \<noteq> NaN)"

text \<open>A number as a condition, and \<open>a || d\<close>.\<close>

definition truthy :: "jsnum \<Rightarrow> bool" where
  "truthy a = (a \<noteq> NaN \<and> a \<noteq> Fin 0)"

definition num_or :: "jsnum \<Rightarrow> jsnum \<Rightarrow> jsnum" where
  "num_or a d = (if truthy a then a else d)"

text \<open>\<open>(a || d)\<close> where \<open>a\<close> may be \<open>undefined\<close>.\<close>

definition opt_num_or :: "jsnum option \<Rightarrow> jsnum \<Rightarrow> jsnum" where
  "opt_num_or a d = (case a of None \<Rightarrow> d | Some v \<Rightarrow> num_or v d)"

section \<open>Math\<close>

fun js_round :: "jsnum \<Rightarrow> jsnum" where
  "js_round (Fin x) = Fin (of_int \<lfloor>x + 1 / 2\<rfloor>)"
| "js_round a = a"

fun js_floor :: "jsnum \<Rightarrow> jsnum" where
  "js_floor (Fin x) = Fin (of_int \<lfloor>x\<rfloor>)"
| "js_floor a = a"

fun js_ceil :: "jsnum \<Rightarrow> jsnum" where
  "js_ceil (Fin x) = Fin (of_int \<lceil>x\<rceil>)"
| "js_ceil a = a"

fun js_abs :: "jsnum \<Rightarrow> jsnum" where
  "js_abs (Fin x) = Fin \<bar>x\<bar>"
| "js_abs NInf = PInf"
| "js_abs a = a"

definition js_max :: "jsnum \<Rightarrow> jsnum \<Rightarrow> jsnum" where
  "js_max a b = (if a = NaN \<or> b = NaN then NaN else if a < b then b else a)"

definition js_min :: "jsnum \<Rightarrow> jsnum \<Rightarrow> jsnum" where
  "js_min a b = (if a = NaN \<or> b = NaN then NaN else if b < a then b else a)"

text \<open>The remainder \<open>a % b\<close>: the sign of the dividend.\<close>

fun js_mod :: "jsnum \<Rightarrow> jsnum \<Rightarrow> jsnum" where
  "js_mod (Fin x) (Fin y) =
     (if y = 0 then NaN
      else Fin (x - \<bar>y\<bar> * of_int (if 0 \<le> x then \<lfloor>x / \<bar>y\<bar>\<rfloor> else \<lceil>x / \<bar>y\<bar>\<rceil>)))"
| "js_mod (Fin x) PInf = Fin x"
| "js_mod (Fin x) NInf = Fin x"
| "js_mod a b = NaN"

text \<open>\<open>reduce((sum, x) => sum + x, init)\<close>.\<close>

definition js_sum :: "jsnum \<Rightarrow> jsnum list \<Rightarrow> jsnum" where
  "js_sum init xs = foldl (+) init xs"

abbreviation jint :: "int \<Rightarrow> jsnum" where
  "jint i \<equiv> Fin (of_int i)"

section \<open>Exactness and range\<close>

text \<open>A number that a double can hold.\<close>

definition js_wf :: "jsnum \<Rightarrow> bool" where
  "js_wf a = (case a of Fin x \<Rightarrow> rnd x = Fin x | _ \<Rightarrow> True)"

lemma js_wf_simps [simp]:
  "js_wf NaN" "js_wf PInf" "js_wf NInf" "js_wf (Fin x) \<longleftrightarrow> rnd x = Fin x"
  by (simp_all add: js_wf_def)

lemma rnd_cases:
  obtains "rnd x = PInf" "max_pow \<le> rnd_rat x"
  | "rnd x = NInf" "rnd_rat x \<le> - max_pow"
  | "rnd x = Fin (rnd_rat x)" "\<bar>rnd_rat x\<bar> < max_pow"
proof -
  consider "max_pow \<le> rnd_rat x" | "rnd_rat x \<le> - max_pow" | "\<bar>rnd_rat x\<bar> < max_pow"
    by linarith
  then show ?thesis
  proof cases
    case 2
    moreover have "0 < max_pow" by (simp add: max_pow_def)
    ultimately show ?thesis using that(2) by (simp add: rnd_def Let_def)
  qed (use that in \<open>auto simp: rnd_def Let_def abs_less_iff\<close>)
qed

lemma js_wf_rnd [simp]: "js_wf (rnd x)"
  by (rule rnd_cases [of x]) (auto simp: rnd_def Let_def)

lemma rnd_not_NaN [simp]: "rnd x \<noteq> NaN" "NaN \<noteq> rnd x"
  by (auto simp: rnd_def Let_def)

lemma rnd_dbl: "dbl_form x \<Longrightarrow> \<bar>x\<bar> < max_pow \<Longrightarrow> rnd x = Fin x"
  by (auto simp: rnd_def rnd_rat_dbl Let_def abs_less_iff)

lemma rnd_int: "\<bar>i\<bar> \<le> 2 ^ 53 \<Longrightarrow> rnd (of_int i) = jint i"
proof -
  assume i: "\<bar>i\<bar> \<le> 2 ^ 53"
  then have "(of_int \<bar>i\<bar> :: rat) \<le> of_int (2 ^ 53)" by (simp only: of_int_le_iff)
  then have "\<bar>of_int i :: rat\<bar> < max_pow" by (simp add: max_pow_code)
  with i show ?thesis by (intro rnd_dbl dbl_form_int)
qed

lemma rnd_0 [simp]: "rnd 0 = Fin 0"
  by (simp add: rnd_def max_pow_def)

lemma rnd_minus: "rnd (- x) = - rnd x"
proof -
  have "0 < max_pow" by (simp add: max_pow_def)
  then show ?thesis by (auto simp: rnd_def Let_def rnd_rat_minus)
qed

lemma rnd_numeral [js_num]:
  "numeral n \<le> (2::int) ^ 53 \<Longrightarrow> rnd (numeral n) = Fin (numeral n)"
  using rnd_int [of "numeral n"] by simp

text \<open>Sums, differences and products of integers are exact as long as they stay within the
  safe range of \<open>2 ^ 53\<close>.\<close>

lemma jint_add [js_num]: "\<bar>i + j\<bar> \<le> 2 ^ 53 \<Longrightarrow> jint i + jint j = jint (i + j)"
  using rnd_int [of "i + j"] by simp

lemma jint_diff [js_num]: "\<bar>i - j\<bar> \<le> 2 ^ 53 \<Longrightarrow> jint i - jint j = jint (i - j)"
  using rnd_int [of "i - j"] by (simp add: minus_jsnum_def)

lemma jint_mult [js_num]: "\<bar>i * j\<bar> \<le> 2 ^ 53 \<Longrightarrow> jint i * jint j = jint (i * j)"
  using rnd_int [of "i * j"] by simp

lemma floor_half [simp]: "\<lfloor>1 / 2 :: rat\<rfloor> = 0"
  by (simp add: floor_eq_iff)

lemma js_round_jint [simp]: "js_round (jint i) = jint i"
proof -
  have "\<lfloor>rat_of_int i + 1 / 2\<rfloor> = i" by (rule floor_unique) simp_all
  then show ?thesis by simp
qed

lemma js_floor_jint [simp]: "js_floor (jint i) = jint i"
  by simp

lemma js_round_int: "js_round (Fin x) = jint \<lfloor>x + 1 / 2\<rfloor>"
  by simp

lemma le_Fin [simp]: "Fin x \<le> Fin y \<longleftrightarrow> x \<le> y"
  by (auto simp: less_eq_jsnum_def)

lemma le_jsnum_simps [simp]:
  "\<not> NaN \<le> a" "\<not> a \<le> NaN" "Fin x \<le> PInf" "NInf \<le> Fin x" "\<not> PInf \<le> Fin x" "\<not> Fin x \<le> NInf"
  "PInf \<le> PInf" "NInf \<le> NInf" "NInf \<le> PInf" "\<not> PInf \<le> NInf"
  by (cases a; auto simp: less_eq_jsnum_def)+

lemma js_le_trans: "(a::jsnum) \<le> b \<Longrightarrow> b \<le> c \<Longrightarrow> a \<le> c"
  by (cases a; cases b; cases c) auto

lemma js_le_total: "a \<noteq> NaN \<Longrightarrow> b \<noteq> NaN \<Longrightarrow> (a::jsnum) \<le> b \<or> b \<le> a"
  by (cases a; cases b) auto

lemma js_less_le_not: "a \<noteq> NaN \<Longrightarrow> b \<noteq> NaN \<Longrightarrow> (a::jsnum) < b \<longleftrightarrow> \<not> b \<le> a"
  by (cases a; cases b) auto

lemma rnd_mono: "x \<le> y \<Longrightarrow> rnd x \<le> rnd y"
proof -
  assume "x \<le> y"
  then have "rnd_rat x \<le> rnd_rat y" by (rule rnd_rat_mono)
  moreover have "0 < max_pow" by (simp add: max_pow_def)
  ultimately show ?thesis by (auto simp: rnd_def Let_def)
qed

lemma rnd_nonneg: "0 \<le> x \<Longrightarrow> Fin 0 \<le> rnd x"
  using rnd_mono [of 0 x] by simp

lemma js_add_nonneg: "Fin 0 \<le> a \<Longrightarrow> Fin 0 \<le> b \<Longrightarrow> Fin 0 \<le> a + b"
  by (cases a; cases b) (auto intro: rnd_nonneg)

lemma js_mult_nonneg: "Fin 0 \<le> a \<Longrightarrow> Fin 0 \<le> b \<Longrightarrow> is_fin a \<Longrightarrow> is_fin b \<Longrightarrow> Fin 0 \<le> a * b"
  by (cases a; cases b) (auto intro: rnd_nonneg simp: is_fin_def)

lemma js_round_nonneg: "Fin 0 \<le> a \<Longrightarrow> Fin 0 \<le> js_round a"
  by (cases a) auto

lemma js_round_mono: "a \<le> b \<Longrightarrow> js_round a \<le> js_round b"
  by (cases a; cases b) (auto intro!: floor_mono)

lemma js_round_idem [simp]: "js_round (js_round a) = js_round a"
proof (cases a)
  case (Fin x)
  have "\<lfloor>rat_of_int \<lfloor>x + 1 / 2\<rfloor> + 1 / 2\<rfloor> = \<lfloor>x + 1 / 2\<rfloor>" by (rule floor_unique) simp_all
  then show ?thesis by (simp add: Fin)
qed simp_all

lemma js_max_ge1: "b \<noteq> NaN \<Longrightarrow> a \<noteq> NaN \<Longrightarrow> a \<le> js_max a b"
  by (cases a; cases b) (auto simp: js_max_def)

lemma js_max_ge2: "b \<noteq> NaN \<Longrightarrow> a \<noteq> NaN \<Longrightarrow> b \<le> js_max a b"
  by (cases a; cases b) (auto simp: js_max_def)

lemma js_min_le1: "b \<noteq> NaN \<Longrightarrow> a \<noteq> NaN \<Longrightarrow> js_min a b \<le> a"
  by (cases a; cases b) (auto simp: js_min_def)

lemma js_min_le2: "b \<noteq> NaN \<Longrightarrow> a \<noteq> NaN \<Longrightarrow> js_min a b \<le> b"
  by (cases a; cases b) (auto simp: js_min_def)

lemma js_max_Fin [js_num]: "js_max (Fin x) (Fin y) = Fin (max x y)"
  by (auto simp: js_max_def max_def)

lemma js_min_Fin [js_num]: "js_min (Fin x) (Fin y) = Fin (min x y)"
  by (auto simp: js_min_def min_def)

lemma js_sum_Nil [simp]: "js_sum i [] = i"
  by (simp add: js_sum_def)

lemma js_sum_Cons [simp]: "js_sum i (x # xs) = js_sum (i + x) xs"
  by (simp add: js_sum_def)

text \<open>A sum of integers is exact when no partial sum leaves the safe range.\<close>

lemma js_sum_jint:
  assumes "\<And>k. k \<le> length xs \<Longrightarrow> \<bar>i + sum_list (take k xs)\<bar> \<le> 2 ^ 53"
  shows "js_sum (jint i) (map jint xs) = jint (i + sum_list xs)"
  using assms
proof (induction xs arbitrary: i)
  case Nil
  then show ?case by simp
next
  case (Cons x xs)
  have "\<bar>i + x\<bar> \<le> 2 ^ 53" using Cons.prems [of 1] by simp
  then have step: "jint i + jint x = jint (i + x)" by (rule jint_add)
  have "\<bar>i + x + sum_list (take k xs)\<bar> \<le> 2 ^ 53" if "k \<le> length xs" for k
    using Cons.prems [of "Suc k"] that by (simp add: add.assoc)
  then have "js_sum (jint (i + x)) (map jint xs) = jint (i + x + sum_list xs)"
    by (rule Cons.IH)
  with step show ?case by (simp only: list.map js_sum_Cons sum_list.Cons add.assoc)
qed

text \<open>Non-negative integers: it is enough that the whole sum is in the safe range.\<close>

lemma sum_list_take_le:
  fixes xs :: "int list"
  assumes "\<forall>x\<in>set xs. 0 \<le> x"
  shows "0 \<le> sum_list (take k xs)" and "sum_list (take k xs) \<le> sum_list xs"
proof -
  have nn: "0 \<le> sum_list ys" if "set ys \<subseteq> set xs" for ys
    using that assms by (intro sum_list_nonneg) auto
  show "0 \<le> sum_list (take k xs)" by (rule nn) (rule set_take_subset)
  have "sum_list xs = sum_list (take k xs) + sum_list (drop k xs)"
    by (metis append_take_drop_id sum_list_append)
  with nn [OF set_drop_subset, of k] show "sum_list (take k xs) \<le> sum_list xs" by simp
qed

lemma js_sum_jint_nonneg:
  assumes "\<forall>x\<in>set xs. 0 \<le> x" and "0 \<le> i" and "i + sum_list xs \<le> 2 ^ 53"
  shows "js_sum (jint i) (map jint xs) = jint (i + sum_list xs)"
proof (rule js_sum_jint)
  fix k
  show "\<bar>i + sum_list (take k xs)\<bar> \<le> 2 ^ 53"
    using sum_list_take_le [OF assms(1), of k] assms(2,3) by linarith
qed

text \<open>The relative error of one rounding, away from the subnormal numbers.\<close>

lemma rnd_rat_rel:
  assumes "2 powi (- 1022) \<le> \<bar>x\<bar>"
  shows "\<bar>rnd_rat x - x\<bar> \<le> \<bar>x\<bar> / 2 ^ 53"
proof -
  have pos: "0 < \<bar>x\<bar>" using assms powi2_pos [of "- 1022"] by linarith
  have "(2::rat) powi (- 1022) < 2 powi (flog2 \<bar>x\<bar> + 1)"
    using assms flog2_bounds(2) [OF pos] by linarith
  then have "- 1022 < flog2 \<bar>x\<bar> + 1" by (simp only: powi2_less_iff)
  then have u: "ulp_exp x = flog2 \<bar>x\<bar> - 52" by (simp add: ulp_exp_def)
  have "\<bar>rnd_rat x - x\<bar> \<le> 2 powi ulp_exp x / 2" by (rule rnd_rat_error)
  also have "\<dots> = 2 powi flog2 \<bar>x\<bar> / 2 ^ 53" unfolding u by (simp add: power_int_diff)
  also have "\<dots> \<le> \<bar>x\<bar> / 2 ^ 53"
    using flog2_bounds(1) [OF pos] by (intro divide_right_mono) simp_all
  finally show ?thesis .
qed

lemma rnd_Fin: "\<bar>x\<bar> \<le> 2 ^ 1023 \<Longrightarrow> rnd x = Fin (rnd_rat x)"
proof -
  assume x: "\<bar>x\<bar> \<le> 2 ^ 1023"
  have "dbl_form (2 ^ 1023)" unfolding dbl_form_def
    by (intro exI [of _ 1] exI [of _ 1023]) simp
  then have fix1: "rnd_rat (2 ^ 1023) = 2 ^ 1023" by (rule rnd_rat_dbl)
  have "rnd_rat x \<le> 2 ^ 1023" using rnd_rat_mono [of x "2 ^ 1023"] x fix1 by linarith
  moreover have "- (2 ^ 1023) \<le> rnd_rat x"
    using rnd_rat_mono [of "- (2 ^ 1023)" x] x fix1 rnd_rat_minus [of "2 ^ 1023"] by linarith
  moreover have "(2::rat) ^ 1023 < max_pow" by (simp add: max_pow_code)
  ultimately show ?thesis by (simp add: rnd_def)
qed

lemma rnd_rat_err: "\<bar>rnd_rat x - x\<bar> \<le> \<bar>x\<bar> / 2 ^ 53 + 1 / 2 ^ 60"
proof (cases "2 powi (- 1022) \<le> \<bar>x\<bar>")
  case True
  have "(0::rat) \<le> 1 / 2 ^ 60" by simp
  with rnd_rat_rel [OF True] show ?thesis by linarith
next
  case False
  show ?thesis
  proof (cases "x = 0")
    case True
    then show ?thesis by simp
  next
    case x: False
    then have "(2::rat) powi flog2 \<bar>x\<bar> \<le> \<bar>x\<bar>" by (intro flog2_bounds) simp
    with False have "(2::rat) powi flog2 \<bar>x\<bar> < 2 powi (- 1022)" by linarith
    then have "flog2 \<bar>x\<bar> < - 1022" by (simp only: powi2_less_iff)
    then have "ulp_exp x = - 1074" by (simp add: ulp_exp_def)
    then have "\<bar>rnd_rat x - x\<bar> \<le> 2 powi (- 1074) / 2" using rnd_rat_error [of x] by simp
    also have "\<dots> \<le> 2 powi (- 60)" using powi2_mono [of "- 1074" "- 60"] powi2_pos [of "- 1074"] by linarith
    also have "(2::rat) powi (- 60) = 1 / 2 ^ 60" by simp
    finally show ?thesis by (simp add: add_increasing)
  qed
qed

end
