(* ===== verification/Js_Value.thy ===== *)
theory Js_Value
  imports Js_Number "HOL-Library.Sublist"
begin

text \<open>
  Strings and structured values of TypeScript. A string is the list of its UTF-16 code
  units, which is what \<open>length\<close>, \<open>slice\<close> and indexing count; the texts of the program are
  largely Arabic, so a code unit is a number and not an Isabelle \<open>char\<close>. ASCII literals are
  written \<open>js ''...''\<close>. A value of type \<open>unknown\<close> is a \<open>json\<close>.
\<close>

type_synonym jstr = "nat list"

definition js :: "string \<Rightarrow> jstr" where
  "js s = map of_char s"

lemma js_Nil [simp]: "js [] = []"
  by (simp add: js_def)

lemma js_Cons [simp]: "js (c # cs) = of_char c # js cs"
  by (simp add: js_def)

section \<open>Operations on strings\<close>

definition starts_with :: "jstr \<Rightarrow> jstr \<Rightarrow> bool" where
  "starts_with s p = prefix p s"

definition ends_with :: "jstr \<Rightarrow> jstr \<Rightarrow> bool" where
  "ends_with s p = suffix p s"

text \<open>\<open>s.includes(p)\<close>.\<close>

fun str_includes :: "jstr \<Rightarrow> jstr \<Rightarrow> bool" where
  "str_includes [] p = (p = [])"
| "str_includes (c # s) p = (prefix p (c # s) \<or> str_includes s p)"

lemma str_includes_sublist: "str_includes s p \<longleftrightarrow> sublist p s"
  by (induction s) (auto simp: sublist_Cons_right)

lemma str_includes_Nil [simp]: "str_includes s []"
  by (cases s) auto

text \<open>\<open>s.indexOf(p)\<close>, and what follows its first occurrence.\<close>

fun index_of :: "jstr \<Rightarrow> jstr \<Rightarrow> nat option" where
  "index_of [] p = (if p = [] then Some 0 else None)"
| "index_of (c # s) p = (if prefix p (c # s) then Some 0 else map_option Suc (index_of s p))"

lemma index_of_includes: "index_of s p \<noteq> None \<longleftrightarrow> str_includes s p"
  by (induction s) auto

text \<open>White space of \<open>trim\<close>.\<close>

definition is_space :: "nat \<Rightarrow> bool" where
  "is_space c = (9 \<le> c \<and> c \<le> 13 \<or> c = 32 \<or> c = 160 \<or> c = 5760 \<or> 8192 \<le> c \<and> c \<le> 8202
     \<or> c = 8232 \<or> c = 8233 \<or> c = 8239 \<or> c = 8287 \<or> c = 12288 \<or> c = 65279)"

definition trim_start :: "jstr \<Rightarrow> jstr" where
  "trim_start s = dropWhile is_space s"

definition trim_end :: "jstr \<Rightarrow> jstr" where
  "trim_end s = rev (dropWhile is_space (rev s))"

definition trim :: "jstr \<Rightarrow> jstr" where
  "trim s = trim_end (trim_start s)"

text \<open>\<open>s.slice(-n)\<close>, \<open>s.slice(0, -1)\<close> and \<open>s.repeat(n)\<close>.\<close>

definition slice_last :: "nat \<Rightarrow> jstr \<Rightarrow> jstr" where
  "slice_last n s = drop (length s - n) s"

definition str_repeat :: "jstr \<Rightarrow> nat \<Rightarrow> jstr" where
  "str_repeat s n = concat (replicate n s)"

definition pad_start :: "nat \<Rightarrow> nat \<Rightarrow> jstr \<Rightarrow> jstr" where
  "pad_start n c s = replicate (n - length s) c @ s"

text \<open>\<open>s.replace(/c/g, r)\<close> for one code unit.\<close>

definition replace_char :: "nat \<Rightarrow> jstr \<Rightarrow> jstr \<Rightarrow> jstr" where
  "replace_char c r s = concat (map (\<lambda>d. if d = c then r else [d]) s)"

text \<open>\<open>s.replace(p, r)\<close> for a string \<open>p\<close>: the first occurrence.\<close>

definition replace_first :: "jstr \<Rightarrow> jstr \<Rightarrow> jstr \<Rightarrow> jstr" where
  "replace_first p r s = (case index_of s p of None \<Rightarrow> s
     | Some i \<Rightarrow> take i s @ r @ drop (i + length p) s)"

text \<open>\<open>s.split(c)\<close> on one code unit, and \<open>xs.join(sep)\<close>.\<close>

fun split_on :: "nat \<Rightarrow> jstr \<Rightarrow> jstr list" where
  "split_on c [] = [[]]"
| "split_on c (d # s) = (if d = c then [] # split_on c s
     else (case split_on c s of [] \<Rightarrow> [[d]] | w # ws \<Rightarrow> (d # w) # ws))"

fun join :: "jstr \<Rightarrow> jstr list \<Rightarrow> jstr" where
  "join sep [] = []"
| "join sep [w] = w"
| "join sep (w # v # ws) = w @ sep @ join sep (v # ws)"

lemma split_on_ne [simp]: "split_on c s \<noteq> []"
  by (induction s) (auto split: list.splits)

lemma join_split_on: "join [c] (split_on c s) = s"
proof (induction s)
  case Nil
  then show ?case by simp
next
  case (Cons d s)
  obtain w ws where ws: "split_on c s = w # ws" using split_on_ne by (cases "split_on c s") auto
  with Cons show ?case by (cases ws) auto
qed

lemma split_on_no_sep: "w \<in> set (split_on c s) \<Longrightarrow> c \<notin> set w"
  by (induction s arbitrary: w) (force split: if_splits list.splits)+

lemma split_on_append: "c \<notin> set w \<Longrightarrow> split_on c (w @ c # s) = w # split_on c s"
  by (induction w) auto

lemma split_on_atom: "c \<notin> set w \<Longrightarrow> split_on c w = [w]"
  by (induction w) auto

lemma split_on_join:
  "ws \<noteq> [] \<Longrightarrow> \<forall>w\<in>set ws. c \<notin> set w \<Longrightarrow> split_on c (join [c] ws) = ws"
  by (induction "[c]" ws rule: join.induct) (auto simp: split_on_atom split_on_append)

section \<open>Digits\<close>

definition is_digit :: "nat \<Rightarrow> bool" where
  "is_digit c = (48 \<le> c \<and> c \<le> 57)"

text \<open>The decimal digits of a natural number, and \<open>String(i)\<close> of a safe integer.\<close>

fun show_nat :: "nat \<Rightarrow> jstr" where
  "show_nat n = (if n < 10 then [48 + n] else show_nat (n div 10) @ [48 + n mod 10])"

declare show_nat.simps [simp del]

definition show_int :: "int \<Rightarrow> jstr" where
  "show_int i = (if i < 0 then 45 # show_nat (nat (- i)) else show_nat (nat i))"

lemma show_nat_digits: "\<forall>c\<in>set (show_nat n). is_digit c"
proof (induction n rule: show_nat.induct)
  case (1 n)
  then show ?case by (auto simp: show_nat.simps [of n] is_digit_def)
qed

lemma show_nat_ne [simp]: "show_nat n \<noteq> []"
  by (subst show_nat.simps) simp

definition read_nat :: "jstr \<Rightarrow> nat" where
  "read_nat s = foldl (\<lambda>n c. 10 * n + (c - 48)) 0 s"

lemma read_show_nat [simp]: "read_nat (show_nat n) = n"
proof (induction n rule: show_nat.induct)
  case (1 n)
  then show ?case by (auto simp: show_nat.simps [of n] read_nat_def)
qed

lemma show_nat_inj: "show_nat m = show_nat n \<Longrightarrow> m = n"
  using read_show_nat by metis

section \<open>Values of unknown shape\<close>

datatype json =
    JUndef
  | JNull
  | JBool bool
  | JNum jsnum
  | JStr jstr
  | JArr "json list"
  | JObj "(jstr \<times> json) list"

text \<open>\<open>o[k]\<close> on an object whose own properties are listed in insertion order.\<close>

definition obj_get :: "(jstr \<times> json) list \<Rightarrow> jstr \<Rightarrow> json" where
  "obj_get o' k = (case map_of o' k of None \<Rightarrow> JUndef | Some v \<Rightarrow> v)"

fun json_truthy :: "json \<Rightarrow> bool" where
  "json_truthy JUndef = False"
| "json_truthy JNull = False"
| "json_truthy (JBool b) = b"
| "json_truthy (JNum n) = truthy n"
| "json_truthy (JStr s) = (s \<noteq> [])"
| "json_truthy (JArr xs) = True"
| "json_truthy (JObj ps) = True"

text \<open>\<open>o[k] = v\<close>: the property keeps its place when it exists and is added last when not.\<close>

fun obj_put :: "jstr \<Rightarrow> 'a \<Rightarrow> (jstr \<times> 'a) list \<Rightarrow> (jstr \<times> 'a) list" where
  "obj_put k v [] = [(k, v)]"
| "obj_put k v ((k', v') # ps) = (if k = k' then (k, v) # ps else (k', v') # obj_put k v ps)"

lemma map_of_obj_put [simp]: "map_of (obj_put k v ps) = (map_of ps)(k \<mapsto> v)"
  by (induction ps) (auto simp: fun_eq_iff)

lemma keys_obj_put: "fst ` set (obj_put k v ps) = insert k (fst ` set ps)"
  by (metis dom_fun_upd dom_map_of_conv_image_fst map_of_obj_put option.discI)

lemma distinct_obj_put: "distinct (map fst ps) \<Longrightarrow> distinct (map fst (obj_put k v ps))"
proof (induction ps)
  case (Cons p ps)
  then show ?case using keys_obj_put [of k v ps] by (cases p) auto
qed simp

end
