(* ===== verification/Domain.thy ===== *)
theory Domain
  imports Js_Value
begin

text \<open>
  The data model of the frontend: the interfaces of \<open>core/types.ts\<close> and of
  \<open>core/api/types.ts\<close> as records, their string unions as datatypes. A field that TypeScript
  marks with \<open>?\<close> is an option. Record fields carry a prefix, since several interfaces share
  field names.
\<close>

datatype view = V_dashboard | V_sales | V_products | V_inventory | V_reports | V_settings
  | V_invoices | V_customers | V_finance | V_shifts

record product =
  p_id :: jstr
  p_name :: jstr
  p_price :: jsnum
  p_cost :: jsnum
  p_stock :: jsnum
  p_minStock :: jsnum
  p_wholesalePrice :: jsnum
  p_category :: jstr
  p_image :: jstr
  p_barcode :: jstr
  p_supplier :: "jstr option"
  p_description :: "jstr option"
  p_customDetails :: "(jstr \<times> json) list option"

record customer =
  c_id :: jstr
  c_name :: jstr
  c_phone :: jstr
  c_totalPurchases :: jsnum
  c_debt :: jsnum
  c_installmentDebt :: jsnum
  c_lastVisit :: jstr
  c_points :: jsnum
  c_notes :: "jstr option"

record supplier =
  s_id :: jstr
  s_name :: jstr
  s_companyName :: jstr
  s_phone :: jstr
  s_balance :: jsnum
  s_notes :: "jstr option"

datatype expense_category = E_rent | E_salary | E_bills | E_maintenance | E_other

record expense =
  e_id :: jstr
  e_title :: jstr
  e_amount :: jsnum
  e_category :: expense_category
  e_date :: jstr
  e_notes :: "jstr option"

text \<open>\<open>CartItem extends Product\<close>: a record extension.\<close>

record cart_item = product +
  i_qty :: jsnum
  i_itemDiscount :: "jsnum option"
  i_saleId :: "jstr option"

record sale_item =
  l_pid :: jsnum
  l_id :: jstr
  l_name :: jstr
  l_qty :: jsnum
  l_price :: jsnum
  l_cost :: jsnum
  l_discount :: "jsnum option"
  l_total :: jsnum
  l_returnedQty :: jsnum

record installment =
  n_number :: jsnum
  n_dueDate :: jstr
  n_amount :: jsnum
  n_status :: jstr
  n_paidAt :: "jsnum option"

record installment_plan =
  ip_totalAmount :: jsnum
  ip_downPayment :: jsnum
  ip_months :: jsnum
  ip_startDate :: jstr
  ip_schedule :: "installment list"

datatype payment_method = Cash | Card | Credit | Split | Installment

datatype sale_status = Completed | Pending | Returned | Cancelled

record sale =
  x_id :: jstr
  x_customer :: jstr
  x_customerId :: "jstr option"
  x_staffId :: "jstr option"
  x_staffName :: "jstr option"
  x_date :: jstr
  x_timestamp :: int
  x_subtotal :: jsnum
  x_discount :: jsnum
  x_vat :: jsnum
  x_total :: jsnum
  x_paymentMethod :: payment_method
  x_splitDetails :: "(jstr \<times> jsnum) list option"
  x_installmentPlan :: "installment_plan option"
  x_status :: sale_status
  x_note :: "jstr option"
  x_itemsCount :: jsnum
  x_items :: "sale_item list"
  x_pointsRedeemed :: "jsnum option"
  x_pointsEarned :: "jsnum option"
  x_pointsAwarded :: "jsnum option"

datatype movement_type = M_sale | M_restock | M_return | M_adjustment | M_loss

record stock_movement =
  m_id :: "jsnum option"
  m_productId :: jstr
  m_productName :: jstr
  m_type :: movement_type
  m_qty :: jsnum
  m_reason :: "jstr option"
  m_timestamp :: int

record category_field =
  cf_name :: jstr
  cf_type :: jstr
  cf_options :: "jstr list option"

record category_def =
  cd_id :: jstr
  cd_name :: jstr
  cd_fields :: "category_field list option"

record shift =
  h_id :: jstr
  h_staffId :: jstr
  h_staffName :: jstr
  h_openTime :: int
  h_closeTime :: "int option"
  h_openingBalance :: jsnum
  h_closingBalance :: jsnum
  h_expectedBalance :: jsnum
  h_variance :: jsnum
  h_status :: jstr
  h_totalSales :: jsnum
  h_cashSales :: jsnum
  h_salesCount :: jsnum
  h_note :: "jstr option"

datatype cash_direction = Cash_in | Cash_out

record cash_movement =
  k_id :: jstr
  k_shiftId :: jstr
  k_type :: cash_direction
  k_amount :: jsnum
  k_reason :: jstr
  k_staffId :: jstr
  k_staffName :: jstr
  k_timestamp :: int

section \<open>Preferences\<close>

datatype font_size = Fs_small | Fs_normal | Fs_large | Fs_xl | Fs_2xl

datatype ui_theme = Dark | Light

record app_preferences =
  a_storeName :: jstr
  a_storePhone :: jstr
  a_storeAddress :: jstr
  a_storeLogo :: "jstr option"
  a_vatRate :: jsnum
  a_taxRate :: jsnum
  a_currency :: jstr
  a_receiptFooter :: jstr
  a_defaultPrinter :: jstr
  a_accentColor :: jstr
  a_compactMode :: bool
  a_fontSize :: font_size
  a_theme :: ui_theme
  a_enableSound :: bool
  a_animationsEnabled :: bool
  a_language :: jstr
  a_lowStockTrigger :: jsnum
  a_allowNegativeStock :: bool
  a_quickSell :: bool
  a_defaultPayment :: jstr
  a_autoPrint :: bool
  a_autoPrintFormat :: jstr
  a_thermalPaperSize :: jstr
  a_printCopies :: "jsnum option"
  a_adminPin :: jstr
  a_autoLockTime :: jsnum
  a_dailySalesTarget :: jsnum
  a_geminiApiKey :: jstr
  a_geminiApiKeys :: "jstr list"
  a_receiptPrinter :: jstr
  a_labelPrinter :: jstr
  a_lastBackupDate :: "jstr option"
  a_requireShift :: bool
  a_autoBackup :: bool
  a_cloudAutoSync :: bool
  a_aiProvider :: jstr
  a_aiModel :: jstr
  a_aiRotationMode :: jstr
  a_groqApiKey :: jstr

text \<open>The Arabic default receipt footer, in code units.\<close>

definition footer_ar :: jstr where
  "footer_ar = [1588, 1603, 1585, 1575, 1611, 32, 1604, 1586, 1610, 1575, 1585, 1578, 1603, 1605]"

definition DEFAULT_PREFS :: app_preferences where
  "DEFAULT_PREFS = \<lparr>
     a_storeName = js ''Beidar Store'', a_storePhone = [], a_storeAddress = js ''Baghdad'',
     a_storeLogo = None, a_vatRate = Fin 0, a_taxRate = Fin 0, a_currency = js ''IQD'',
     a_receiptFooter = footer_ar, a_defaultPrinter = js ''System'',
     a_accentColor = js ''#306D29'', a_compactMode = False, a_fontSize = Fs_normal,
     a_theme = Dark, a_enableSound = True, a_animationsEnabled = True,
     a_language = js ''ar'', a_lowStockTrigger = Fin 5, a_allowNegativeStock = False,
     a_quickSell = False, a_defaultPayment = js ''cash'', a_autoPrint = False,
     a_autoPrintFormat = js ''thermal'', a_thermalPaperSize = js ''80mm'',
     a_printCopies = None, a_adminPin = [], a_autoLockTime = Fin 0,
     a_dailySalesTarget = Fin 1000000, a_geminiApiKey = [], a_geminiApiKeys = [],
     a_receiptPrinter = [], a_labelPrinter = [], a_lastBackupDate = None,
     a_requireShift = False, a_autoBackup = False, a_cloudAutoSync = False,
     a_aiProvider = js ''gemini'', a_aiModel = js ''gemma-4-31b-it'',
     a_aiRotationMode = js ''failover'', a_groqApiKey = [] \<rparr>"

section \<open>Rows of the backend API\<close>

record parked_sale =
  ps_id :: int
  ps_items_json :: jstr
  ps_customer_name :: jstr
  ps_customer_id :: jstr
  ps_note :: jstr
  ps_total :: jsnum
  ps_items_count :: int
  ps_created_at :: int

record purchase_order_item =
  oi_id :: "jsnum option"
  oi_productId :: jstr
  oi_productName :: jstr
  oi_quantity :: jsnum
  oi_receivedQty :: jsnum
  oi_unitCost :: jsnum
  oi_total :: jsnum

record purchase_order =
  o_id :: "jstr option"
  o_supplierId :: jstr
  o_supplierName :: "jstr option"
  o_status :: "jstr option"
  o_totalAmount :: "jsnum option"
  o_paidAmount :: "jsnum option"
  o_note :: "jstr option"
  o_createdAt :: "jsnum option"
  o_receivedAt :: "jsnum option"
  o_items :: "purchase_order_item list"

record receive_order_item =
  ri_productId :: jstr
  ri_receivedQty :: jsnum

record product_stats =
  t_totalStock :: jsnum
  t_totalValue :: jsnum
  t_totalCost :: jsnum
  t_profit :: jsnum

record invoice_stats =
  is_count :: jsnum
  is_total :: jsnum
  is_pending :: jsnum
  is_returns :: jsnum

end
