(* ===== verification/Machines.thy ===== *)
theory Machines
  imports Prelude
begin

text \<open>
  The interface every stateful component of the frontend offers to the rest of the
  development: a step function on its state, driven by events, and an invariant that the
  events it accepts keep. The run of a component over a sequence of events is a left fold,
  and an invariant of one step is an invariant of every run.
\<close>

definition run :: "('s \<Rightarrow> 'e \<Rightarrow> 's) \<Rightarrow> 's \<Rightarrow> 'e list \<Rightarrow> 's" where
  "run step s es = foldl step s es"

lemma run_Nil [simp]: "run step s [] = s"
  by (simp add: run_def)

lemma run_Cons [simp]: "run step s (e # es) = run step (step s e) es"
  by (simp add: run_def)

lemma run_append: "run step s (es @ fs) = run step (run step s es) fs"
  by (simp add: run_def)

locale machine =
  fixes step :: "'s \<Rightarrow> 'e \<Rightarrow> 's"
    and inv :: "'s \<Rightarrow> bool"
    and accepted :: "'e \<Rightarrow> bool"
  assumes step_inv: "inv s \<Longrightarrow> accepted e \<Longrightarrow> inv (step s e)"
begin

lemma run_inv: "inv s \<Longrightarrow> \<forall>e\<in>set es. accepted e \<Longrightarrow> inv (run step s es)"
  by (induction es arbitrary: s) (auto simp: step_inv)

lemma run_inv_prefix:
  "inv s \<Longrightarrow> \<forall>e\<in>set (es @ fs). accepted e \<Longrightarrow> inv (run step s es)"
  by (rule run_inv) auto

end

text \<open>A machine whose events also leave an observation of the state alone.\<close>

locale framed_machine = machine +
  fixes obs :: "'s \<Rightarrow> 'o"
  assumes step_obs: "inv s \<Longrightarrow> accepted e \<Longrightarrow> obs (step s e) = obs s"
begin

lemma run_obs: "inv s \<Longrightarrow> \<forall>e\<in>set es. accepted e \<Longrightarrow> obs (run step s es) = obs s"
  by (induction es arbitrary: s) (auto simp: step_inv step_obs)

end

text \<open>A machine with a measure that no accepted event decreases.\<close>

locale monotone_machine = machine +
  fixes lvl :: "'s \<Rightarrow> nat"
  assumes step_lvl: "inv s \<Longrightarrow> accepted e \<Longrightarrow> lvl s \<le> lvl (step s e)"
begin

lemma run_lvl: "inv s \<Longrightarrow> \<forall>e\<in>set es. accepted e \<Longrightarrow> lvl s \<le> lvl (run step s es)"
proof (induction es arbitrary: s)
  case Nil
  then show ?case by simp
next
  case (Cons e es)
  then have "lvl (step s e) \<le> lvl (run step (step s e) es)" by (simp add: step_inv)
  with Cons.prems show ?case using step_lvl [of s e] by simp
qed

end

end
