(* ===== verification/Cart.thy ===== *)
theory Cart
  imports Domain Machines
begin

text \<open>
  The cart of the point of sale, \<open>features/pos/hooks/useCart.ts\<close>: its React state, the
  amounts computed from it, its actions, and the three effects that restore it from
  \<open>localStorage\<close>, save it there and reset the received amount. Text under a storage key is
  represented by what it parses to; a cart is read as it was written, which is so for finite numbers
  (\<open>JSON.stringify\<close> writes NaN and the infinities as \<open>null\<close>). An action is followed by the effects whose
  dependencies changed, until nothing changes (\<open>settle\<close>), as React schedules them. Dependencies are compared as values; React compares arrays
  and objects by reference and may run the effect that saves once more, which changes nothing but Zen mode on an empty
  cart (\<open>effects_settle\<close>).
\<close>

section \<open>State\<close>

record cart_state =
  u_cart :: "cart_item list"
  u_selectedCustomer :: "customer option"
  u_discount :: jsnum
  u_paymentMethod :: payment_method
  u_isZenMode :: bool
  u_receivedAmount :: jsnum
  u_justAddedId :: "jstr option"

definition cart_initial :: cart_state where
  "cart_initial = \<lparr> u_cart = [], u_selectedCustomer = None, u_discount = Fin 0,
     u_paymentMethod = Cash, u_isZenMode = False, u_receivedAmount = Fin 0,
     u_justAddedId = None \<rparr>"

datatype saved_cart = Cart_garbage | Cart_no_array | Cart_items "cart_item list"

datatype saved_customer = Customer_garbage | Customer_json jstr jstr

record cart_store =
  ls_cart :: "saved_cart option"
  ls_discount :: "jsnum option"
  ls_customer :: "saved_customer option"
  ls_paymentMethod :: "payment_method option"

definition empty_store :: cart_store where
  "empty_store = \<lparr> ls_cart = None, ls_discount = None, ls_customer = None,
     ls_paymentMethod = None \<rparr>"

section \<open>Computed values\<close>

definition add_line :: "jsnum \<Rightarrow> cart_item \<Rightarrow> jsnum" where
  "add_line acc item =
     (acc + p_price item * i_qty item) - opt_num_or (i_itemDiscount item) (Fin 0)"

definition subtotal :: "cart_item list \<Rightarrow> jsnum" where
  "subtotal c = js_round (foldl add_line (Fin 0) c)"

definition effectiveDiscount :: "cart_state \<Rightarrow> jsnum" where
  "effectiveDiscount u = js_min (u_discount u) (subtotal (u_cart u))"

definition taxableTotal :: "cart_state \<Rightarrow> jsnum" where
  "taxableTotal u = js_max (Fin 0) (subtotal (u_cart u) - effectiveDiscount u)"

definition vat :: "jsnum option \<Rightarrow> cart_state \<Rightarrow> jsnum" where
  "vat taxRate u = js_round (taxableTotal u * (opt_num_or taxRate (Fin 0) / Fin 100))"

definition total :: "jsnum option \<Rightarrow> cart_state \<Rightarrow> jsnum" where
  "total taxRate u = js_round (taxableTotal u + vat taxRate u)"

definition change :: "jsnum option \<Rightarrow> cart_state \<Rightarrow> jsnum" where
  "change taxRate u = js_round (js_max (Fin 0) (u_receivedAmount u - total taxRate u))"

definition itemsCount :: "cart_item list \<Rightarrow> jsnum" where
  "itemsCount c = foldl (\<lambda>acc item. acc + i_qty item) (Fin 0) c"

section \<open>Effects\<close>

text \<open>Restoring on mount. An exception of \<open>JSON.parse\<close> ends the effect; what was queued
  before it stays. The second component tells whether \<open>onCartRestored\<close> is called.\<close>

definition restored_customer :: "jstr \<Rightarrow> jstr \<Rightarrow> customer" where
  "restored_customer i n = \<lparr> c_id = i, c_name = n, c_phone = [], c_totalPurchases = Fin 0,
     c_debt = Fin 0, c_installmentDebt = Fin 0, c_lastVisit = [], c_points = Fin 0,
     c_notes = None \<rparr>"

definition restore_cart :: "cart_store \<Rightarrow> cart_item list option" where
  "restore_cart ls = (case ls_cart ls of Some (Cart_items xs) \<Rightarrow> (if xs = [] then None else Some xs)
     | _ \<Rightarrow> None)"

definition restore_effect :: "cart_store \<Rightarrow> cart_state \<Rightarrow> cart_state \<times> bool" where
  "restore_effect ls u =
     (if ls_cart ls = Some Cart_garbage then (u, False)
      else
        let restored = restore_cart ls \<noteq> None;
            u1 = (case restore_cart ls of Some xs \<Rightarrow> u\<lparr>u_cart := xs\<rparr> | None \<Rightarrow> u);
            u2 = (case ls_discount ls of
                    Some d \<Rightarrow> (if restored then u1\<lparr>u_discount := d\<rparr> else u1)
                  | None \<Rightarrow> u1)
        in if ls_customer ls = Some Customer_garbage then (u2, False)
           else
             let u3 = (case ls_customer ls of
                         Some (Customer_json i n) \<Rightarrow>
                           (if i \<noteq> [] \<and> n \<noteq> []
                            then u2\<lparr>u_selectedCustomer := Some (restored_customer i n)\<rparr> else u2)
                       | _ \<Rightarrow> u2);
                 u4 = (case ls_paymentMethod ls of
                         Some m \<Rightarrow> u3\<lparr>u_paymentMethod := m\<rparr> | None \<Rightarrow> u3)
             in (u4\<lparr>u_isZenMode := False\<rparr>, restored))"

text \<open>Saving: what the effect of a render with the state \<open>u\<close> writes, and the updates it
  queues.\<close>

definition save_store :: "cart_state \<Rightarrow> cart_store \<Rightarrow> cart_store" where
  "save_store u ls =
     (if u_cart u \<noteq> []
      then ls\<lparr> ls_cart := Some (Cart_items (u_cart u)), ls_discount := Some (u_discount u),
               ls_paymentMethod := Some (u_paymentMethod u),
               ls_customer := (case u_selectedCustomer u of
                   Some c \<Rightarrow> Some (Customer_json (c_id c) (c_name c))
                 | None \<Rightarrow> ls_customer ls) \<rparr>
      else ls\<lparr> ls_cart := None, ls_discount := None, ls_customer := None,
               ls_paymentMethod := None \<rparr>)"

definition save_updates :: "cart_state \<Rightarrow> cart_state \<Rightarrow> cart_state" where
  "save_updates u v =
     (if u_cart u \<noteq> [] then v
      else v\<lparr> u_paymentMethod := Cash, u_discount := Fin 0, u_isZenMode := False \<rparr>)"

definition received_updates :: "cart_state \<Rightarrow> cart_state \<Rightarrow> cart_state" where
  "received_updates u v = (if u_cart u = [] then v\<lparr>u_receivedAmount := Fin 0\<rparr> else v)"

definition save_deps :: "cart_state \<Rightarrow> cart_item list \<times> jsnum \<times> customer option \<times> payment_method" where
  "save_deps u = (u_cart u, u_discount u, u_selectedCustomer u, u_paymentMethod u)"

text \<open>One commit: the render went from \<open>old\<close> to \<open>u\<close>; the effects whose dependencies
  changed run in the order of their declaration.\<close>

definition commit :: "cart_state \<Rightarrow> cart_state \<Rightarrow> cart_store \<Rightarrow> cart_state \<times> cart_store" where
  "commit old u ls =
     (let saves = save_deps old \<noteq> save_deps u;
          resets = length (u_cart old) \<noteq> length (u_cart u);
          v1 = (if saves then save_updates u u else u);
          v2 = (if resets then received_updates u v1 else v1)
      in (v2, if saves then save_store u ls else ls))"

lemma commit_fst_cart [simp]: "u_cart (fst (commit old u ls)) = u_cart u"
  by (simp add: commit_def Let_def save_updates_def received_updates_def)

lemma commit_twice: "fst (commit u (fst (commit old u ls)) ls') = fst (commit old u ls)"
  by (auto simp: commit_def Let_def save_updates_def received_updates_def save_deps_def)

lemma commit_same [simp]: "commit u u ls = (u, ls)"
  by (simp add: commit_def Let_def)

function settle :: "cart_state \<Rightarrow> cart_state \<Rightarrow> cart_store \<Rightarrow> cart_state \<times> cart_store" where
  "settle old u ls =
     (if u = old then (u, ls)
      else settle u (fst (commit old u ls)) (snd (commit old u ls)))"
  by pat_completeness auto
termination
  by (relation "measure (\<lambda>(old, u, ls). if u = old then 0
         else if fst (commit old u ls) = u then 1 else (2::nat))")
    (simp_all add: case_prod_beta commit_twice)

declare settle.simps [simp del]

section \<open>Actions\<close>

datatype cart_event =
    Add_to_cart product
  | Update_qty jstr jsnum
  | Set_item_quantity jstr jsnum
  | Remove_from_cart jstr
  | Clear_cart
  | Set_discount jsnum
  | Set_payment_method payment_method
  | Set_zen_mode bool
  | Set_selected_customer "customer option"
  | Set_received_amount jsnum
  | Set_cart "cart_item list"
  | Highlight_timeout

definition new_item :: "product \<Rightarrow> cart_item" where
  "new_item p = product.extend p (cart_item.fields (Fin 1) (Some (Fin 0)) (Some []))"

definition addToCart :: "product \<Rightarrow> cart_item list \<Rightarrow> cart_item list" where
  "addToCart p prev =
     (if find_first (\<lambda>item. p_id item = p_id p) prev \<noteq> None
      then map (\<lambda>item. if p_id item = p_id p then item\<lparr>i_qty := i_qty item + Fin 1\<rparr> else item) prev
      else prev @ [new_item p])"

text \<open>The literal \<open>0.001\<close> of the source is the double next to it.\<close>

definition qty_epsilon :: jsnum where
  "qty_epsilon = rnd (1 / 1000)"

definition updateQty :: "jstr \<Rightarrow> jsnum \<Rightarrow> cart_item list \<Rightarrow> cart_item list" where
  "updateQty i delta prev =
     filter (\<lambda>item. qty_epsilon < i_qty item)
       (map (\<lambda>item. if p_id item = i then item\<lparr>i_qty := i_qty item + delta\<rparr> else item) prev)"

definition setItemQuantity :: "jstr \<Rightarrow> jsnum \<Rightarrow> cart_item list \<Rightarrow> cart_item list" where
  "setItemQuantity i q prev =
     (if q \<le> Fin 0 then filter (\<lambda>item. p_id item \<noteq> i) prev
      else map (\<lambda>item. if p_id item = i then item\<lparr>i_qty := q\<rparr> else item) prev)"

definition removeFromCart :: "jstr \<Rightarrow> cart_item list \<Rightarrow> cart_item list" where
  "removeFromCart i prev = filter (\<lambda>item. p_id item \<noteq> i) prev"

definition clearCart :: "cart_state \<Rightarrow> cart_state" where
  "clearCart u = u\<lparr> u_cart := [], u_discount := Fin 0, u_paymentMethod := Cash,
     u_selectedCustomer := None, u_receivedAmount := Fin 0 \<rparr>"

fun apply_event :: "cart_event \<Rightarrow> cart_state \<Rightarrow> cart_state" where
  "apply_event (Add_to_cart p) u =
     u\<lparr>u_justAddedId := Some (p_id p), u_cart := addToCart p (u_cart u)\<rparr>"
| "apply_event (Update_qty i d) u = u\<lparr>u_cart := updateQty i d (u_cart u)\<rparr>"
| "apply_event (Set_item_quantity i q) u = u\<lparr>u_cart := setItemQuantity i q (u_cart u)\<rparr>"
| "apply_event (Remove_from_cart i) u = u\<lparr>u_cart := removeFromCart i (u_cart u)\<rparr>"
| "apply_event Clear_cart u = clearCart u"
| "apply_event (Set_discount d) u = u\<lparr>u_discount := d\<rparr>"
| "apply_event (Set_payment_method m) u = u\<lparr>u_paymentMethod := m\<rparr>"
| "apply_event (Set_zen_mode b) u = u\<lparr>u_isZenMode := b\<rparr>"
| "apply_event (Set_selected_customer c) u = u\<lparr>u_selectedCustomer := c\<rparr>"
| "apply_event (Set_received_amount a) u = u\<lparr>u_receivedAmount := a\<rparr>"
| "apply_event (Set_cart xs) u = u\<lparr>u_cart := xs\<rparr>"
| "apply_event Highlight_timeout u = u\<lparr>u_justAddedId := None\<rparr>"

definition cart_step :: "cart_state \<times> cart_store \<Rightarrow> cart_event \<Rightarrow> cart_state \<times> cart_store" where
  "cart_step s e = settle (fst s) (apply_event e (fst s)) (snd s)"

text \<open>Mounting the hook. All three effects belong to the first render, whose state is
  \<open>cart_initial\<close>; what they queue is applied together, and the hook settles.\<close>

definition mount :: "cart_store \<Rightarrow> cart_state \<times> cart_store" where
  "mount ls =
     (let u0 = cart_initial;
          u1 = fst (restore_effect ls u0);
          ls1 = save_store u0 ls;
          u2 = received_updates u0 (save_updates u0 u1)
      in settle u0 u2 ls1)"

lemmas cart_defs [pos_defs] = addToCart_def updateQty_def setItemQuantity_def
  removeFromCart_def clearCart_def
lemmas amount_defs = subtotal_def effectiveDiscount_def taxableTotal_def vat_def total_def
  change_def

section \<open>The effects settle\<close>

lemma commit_store_idem:
  "snd (commit u (fst (commit old u ls)) (snd (commit old u ls))) = snd (commit old u ls)"
  by (auto simp: commit_def Let_def save_updates_def received_updates_def save_deps_def
      save_store_def)

lemma commit_idem:
  "commit u (fst (commit old u ls)) (snd (commit old u ls)) = commit old u ls"
  by (rule prod_eqI) (simp_all add: commit_twice commit_store_idem)

lemma settle_commit: "settle old u ls = commit old u ls"
proof (induction old u ls rule: settle.induct)
  case (1 old u ls)
  show ?case
  proof (cases "u = old")
    case True
    then show ?thesis by (subst settle.simps) simp
  next
    case False
    then have "settle old u ls = commit u (fst (commit old u ls)) (snd (commit old u ls))"
      using "1.IH" by (subst settle.simps) simp
    then show ?thesis by (simp only: commit_idem)
  qed
qed

lemma cart_step_commit: "cart_step (u, ls) e = commit u (apply_event e u) ls"
  by (simp add: cart_step_def settle_commit)

section \<open>What the store holds\<close>

text \<open>The store mirrors the cart, the discount and the method of a cart that is not empty;
  an empty cart has no entry, no discount and the cash method.\<close>

definition mirrors :: "cart_state \<times> cart_store \<Rightarrow> bool" where
  "mirrors s = (case s of (u, ls) \<Rightarrow>
     if u_cart u = [] then ls = empty_store \<and> u_discount u = Fin 0 \<and> u_paymentMethod u = Cash
     else ls_cart ls = Some (Cart_items (u_cart u)) \<and> ls_discount ls = Some (u_discount u)
       \<and> ls_paymentMethod ls = Some (u_paymentMethod u)
       \<and> (\<forall>c. u_selectedCustomer u = Some c
              \<longrightarrow> ls_customer ls = Some (Customer_json (c_id c) (c_name c))))"

lemma commit_mirrors:
  assumes "mirrors (old, ls)"
  shows "mirrors (commit old u ls)"
proof (cases "save_deps old = save_deps u")
  case True
  with assms show ?thesis
    by (auto simp: commit_def Let_def received_updates_def mirrors_def save_deps_def)
next
  case False
  then show ?thesis
    by (auto simp: commit_def Let_def received_updates_def mirrors_def save_updates_def
        save_store_def empty_store_def)
qed

section \<open>Well-formed carts\<close>

text \<open>No two lines for one product, and every quantity is a positive number.\<close>

definition cart_ok :: "cart_item list \<Rightarrow> bool" where
  "cart_ok xs = (distinct (map p_id xs) \<and> (\<forall>item\<in>set xs. Fin 0 < i_qty item))"

lemma new_item_simps [simp]:
  "p_id (new_item p) = p_id p" "p_price (new_item p) = p_price p"
  "i_qty (new_item p) = Fin 1" "i_itemDiscount (new_item p) = Some (Fin 0)"
  by (simp_all add: new_item_def product.defs cart_item.defs)

lemma qty_epsilon_value: "qty_epsilon = Fin (1152921504606847 / 1152921504606846976)"
  unfolding qty_epsilon_def by code_simp

lemma qty_epsilon_pos: "qty_epsilon < q \<Longrightarrow> Fin 0 < q"
  by (cases q) (simp_all add: qty_epsilon_value)

lemma js_pos_add1: "Fin 0 < q \<Longrightarrow> Fin 0 < q + Fin 1"
proof (cases q)
  case (Fin x)
  assume "Fin 0 < q"
  with Fin have "0 < x" by simp
  then have "Fin 1 \<le> rnd (x + 1)"
    using rnd_mono [of 1 "x + 1"] rnd_numeral [of num.One] by simp
  then show ?thesis using Fin by (cases "rnd (x + 1)") auto
qed simp_all

lemma cart_ok_add: "cart_ok xs \<Longrightarrow> cart_ok (addToCart p xs)"
proof (cases "find_first (\<lambda>item. p_id item = p_id p) xs = None")
  case True
  moreover assume "cart_ok xs"
  ultimately show ?thesis by (auto simp: cart_ok_def addToCart_def find_None_all)
next
  case False
  assume ok: "cart_ok xs"
  let ?f = "\<lambda>item. if p_id item = p_id p then item\<lparr>i_qty := i_qty item + Fin 1\<rparr> else item"
  have "map p_id (map ?f xs) = map p_id xs" by (rule map_fst_map_same) simp
  with ok False show ?thesis
    by (auto simp: cart_ok_def addToCart_def js_pos_add1 simp del: map_map)
qed

lemma cart_ok_update: "cart_ok xs \<Longrightarrow> cart_ok (updateQty i d xs)"
proof -
  assume ok: "cart_ok xs"
  let ?f = "\<lambda>item. if p_id item = i then item\<lparr>i_qty := i_qty item + d\<rparr> else item"
  have "map p_id (map ?f xs) = map p_id xs" by (rule map_fst_map_same) simp
  then have "distinct (map p_id (map ?f xs))" using ok by (simp only: cart_ok_def)
  then have "distinct (map p_id (updateQty i d xs))"
    unfolding updateQty_def by (rule distinct_map_filter)
  then show ?thesis by (auto simp: cart_ok_def updateQty_def dest: qty_epsilon_pos)
qed

lemma cart_ok_set:
  assumes "cart_ok xs" and "q \<noteq> NaN"
  shows "cart_ok (setItemQuantity i q xs)"
proof (cases "q \<le> Fin 0")
  case True
  with assms show ?thesis
    by (auto simp: cart_ok_def setItemQuantity_def intro: distinct_map_filter)
next
  case False
  then have "Fin 0 < q" using assms(2) by (cases q) auto
  moreover have "map p_id (map (\<lambda>item. if p_id item = i then item\<lparr>i_qty := q\<rparr> else item) xs)
      = map p_id xs"
    by (rule map_fst_map_same) simp
  ultimately show ?thesis using assms False
    by (auto simp: cart_ok_def setItemQuantity_def simp del: map_map)
qed

lemma cart_ok_filter: "cart_ok xs \<Longrightarrow> cart_ok (filter P xs)"
  by (auto simp: cart_ok_def intro: distinct_map_filter)

lemma cart_ok_Nil [simp]: "cart_ok []"
  by (simp add: cart_ok_def)

lemma cart_ok_remove: "cart_ok xs \<Longrightarrow> cart_ok (removeFromCart i xs)"
  by (simp add: removeFromCart_def cart_ok_filter)

lemmas cart_ok_intros = cart_ok_add cart_ok_update cart_ok_set cart_ok_remove

text \<open>The events a caller may send: a quantity that is a number, a replacement cart that is
  well formed.\<close>

fun accepted_event :: "cart_event \<Rightarrow> bool" where
  "accepted_event (Set_item_quantity i q) = (q \<noteq> NaN)"
| "accepted_event (Set_cart xs) = cart_ok xs"
| "accepted_event e = True"

lemma apply_event_ok: "cart_ok (u_cart u) \<Longrightarrow> accepted_event e \<Longrightarrow> cart_ok (u_cart (apply_event e u))"
  by (cases e) (simp_all add: cart_ok_intros clearCart_def)

definition cart_inv :: "cart_state \<times> cart_store \<Rightarrow> bool" where
  "cart_inv s = (mirrors s \<and> cart_ok (u_cart (fst s)))"

lemma cart_step_inv: "cart_inv s \<Longrightarrow> accepted_event e \<Longrightarrow> cart_inv (cart_step s e)"
  by (cases s) (simp add: cart_inv_def cart_step_commit commit_mirrors apply_event_ok)

interpretation cart_machine: machine cart_step cart_inv accepted_event
  by unfold_locales (rule cart_step_inv)

section \<open>The cart as a map from products to quantities\<close>

text \<open>The contract the pages rely on: the cart is a finite map from product ids to
  quantities, and each action is an update of that map.\<close>

locale quantity_map =
  fixes abs :: "'c \<Rightarrow> jstr \<Rightarrow> jsnum option"
    and ok :: "'c \<Rightarrow> bool"
    and put :: "product \<Rightarrow> 'c \<Rightarrow> 'c"
    and bump :: "jstr \<Rightarrow> jsnum \<Rightarrow> 'c \<Rightarrow> 'c"
    and assign :: "jstr \<Rightarrow> jsnum \<Rightarrow> 'c \<Rightarrow> 'c"
    and drop_id :: "jstr \<Rightarrow> 'c \<Rightarrow> 'c"
  assumes put_ok: "ok c \<Longrightarrow> ok (put p c)"
    and bump_ok: "ok c \<Longrightarrow> ok (bump i d c)"
    and assign_ok: "ok c \<Longrightarrow> q \<noteq> NaN \<Longrightarrow> ok (assign i q c)"
    and drop_ok: "ok c \<Longrightarrow> ok (drop_id i c)"
    and abs_put: "ok c \<Longrightarrow> abs (put p c) = (abs c)(p_id p \<mapsto>
          (case abs c (p_id p) of None \<Rightarrow> Fin 1 | Some q \<Rightarrow> q + Fin 1))"
    and abs_bump: "ok c \<Longrightarrow> abs (bump i d c) j =
          (case abs c j of None \<Rightarrow> None
           | Some q \<Rightarrow> (let q' = (if j = i then q + d else q)
                       in if qty_epsilon < q' then Some q' else None))"
    and abs_assign: "ok c \<Longrightarrow> abs (assign i q c) j =
          (if j \<noteq> i then abs c j
           else if q \<le> Fin 0 then None else map_option (\<lambda>_. q) (abs c i))"
    and abs_drop: "ok c \<Longrightarrow> abs (drop_id i c) = (abs c)(i := None)"
begin

lemma put_then_drop: "ok c \<Longrightarrow> abs (drop_id (p_id p) (put p c)) = abs (drop_id (p_id p) c)"
  by (simp add: abs_drop abs_put put_ok)

lemma put_present: "ok c \<Longrightarrow> abs (put p c) (p_id p) \<noteq> None"
  by (simp add: abs_put)

lemma put_other: "ok c \<Longrightarrow> j \<noteq> p_id p \<Longrightarrow> abs (put p c) j = abs c j"
  by (simp add: abs_put)

lemma put_commute:
  "ok c \<Longrightarrow> p_id p \<noteq> p_id r \<Longrightarrow> abs (put p (put r c)) = abs (put r (put p c))"
  by (simp add: abs_put put_ok fun_upd_twist)

lemma assign_zero_drops: "ok c \<Longrightarrow> abs (assign i (Fin 0) c) = abs (drop_id i c)"
  by (rule ext) (simp add: abs_assign abs_drop)

lemma assign_read: "ok c \<Longrightarrow> abs c i \<noteq> None \<Longrightarrow> Fin 0 < q \<Longrightarrow> abs (assign i q c) i = Some q"
  by (cases q) (auto simp: abs_assign)

end

definition qty_map :: "cart_item list \<Rightarrow> jstr \<Rightarrow> jsnum option" where
  "qty_map xs = map_of (map (\<lambda>item. (p_id item, i_qty item)) xs)"

lemma qty_map_Nil [simp]: "qty_map [] = Map.empty"
  by (simp add: qty_map_def)

lemma qty_map_Cons [simp]: "qty_map (x # xs) = (qty_map xs)(p_id x \<mapsto> i_qty x)"
  by (simp add: qty_map_def)

lemma qty_map_append: "qty_map (xs @ ys) = qty_map ys ++ qty_map xs"
  by (simp add: qty_map_def)

lemma qty_map_None: "qty_map xs j = None \<longleftrightarrow> j \<notin> p_id ` set xs"
  by (induction xs) auto

lemma qty_map_map:
  "(\<And>x. p_id (f x) = p_id x) \<Longrightarrow> (\<And>x. p_id x = j \<Longrightarrow> i_qty (f x) = g (i_qty x))
   \<Longrightarrow> qty_map (map f xs) j = map_option g (qty_map xs j)"
  by (induction xs) auto

lemma qty_map_filter:
  "distinct (map p_id xs) \<Longrightarrow> (\<And>x. x \<in> set xs \<Longrightarrow> p_id x = j \<Longrightarrow> P x = Q (i_qty x))
   \<Longrightarrow> qty_map (filter P xs) j =
       (case qty_map xs j of None \<Rightarrow> None | Some q \<Rightarrow> if Q q then Some q else None)"
proof (induction xs)
  case (Cons x xs)
  then have IH: "qty_map (filter P xs) j =
      (case qty_map xs j of None \<Rightarrow> None | Some q \<Rightarrow> if Q q then Some q else None)"
    by simp
  show ?case
  proof (cases "p_id x = j")
    case True
    with Cons.prems have "qty_map xs j = None" and "P x = Q (i_qty x)"
      by (auto simp: qty_map_None)
    with True IH show ?thesis by simp
  qed (simp add: IH)
qed simp

lemma cart_ok_distinct: "cart_ok xs \<Longrightarrow> distinct (map p_id xs)"
  by (simp add: cart_ok_def)

lemma qty_map_add:
  "qty_map (addToCart p xs) =
     (qty_map xs)(p_id p \<mapsto> (case qty_map xs (p_id p) of None \<Rightarrow> Fin 1 | Some q \<Rightarrow> q + Fin 1))"
proof (cases "find_first (\<lambda>item. p_id item = p_id p) xs = None")
  case True
  then have none: "qty_map xs (p_id p) = None" by (auto simp: find_None_all qty_map_None)
  have "qty_map (addToCart p xs) j = ((qty_map xs)(p_id p \<mapsto> Fin 1)) j" for j
    using True none by (cases "qty_map xs j") (auto simp: addToCart_def qty_map_append map_add_def)
  with none show ?thesis by auto
next
  case False
  then have "\<exists>x\<in>set xs. p_id x = p_id p" unfolding find_None_all by blast
  then have "p_id p \<in> p_id ` set xs" by (auto intro: rev_image_eqI)
  then obtain q where q: "qty_map xs (p_id p) = Some q"
    using qty_map_None [of xs "p_id p"] by auto
  let ?f = "\<lambda>item. if p_id item = p_id p then item\<lparr>i_qty := i_qty item + Fin 1\<rparr> else item"
  have "qty_map (map ?f xs) j = ((qty_map xs)(p_id p \<mapsto> q + Fin 1)) j" for j
  proof (cases "j = p_id p")
    case True
    have "qty_map (map ?f xs) j = map_option (\<lambda>q. q + Fin 1) (qty_map xs j)"
      by (rule qty_map_map) (simp_all add: True)
    then show ?thesis using True q by simp
  next
    case False
    have "qty_map (map ?f xs) j = map_option (\<lambda>q. q) (qty_map xs j)"
      by (rule qty_map_map) (use False in auto)
    then show ?thesis using False by (simp add: option.map_ident)
  qed
  then show ?thesis using False q by (auto simp: addToCart_def)
qed

lemma qty_map_updateQty:
  assumes "cart_ok xs"
  shows "qty_map (updateQty i d xs) j =
    (case qty_map xs j of None \<Rightarrow> None
     | Some q \<Rightarrow> (let q' = (if j = i then q + d else q)
                 in if qty_epsilon < q' then Some q' else None))"
proof -
  let ?f = "\<lambda>item. if p_id item = i then item\<lparr>i_qty := i_qty item + d\<rparr> else item"
  have "map p_id (map ?f xs) = map p_id xs" by (rule map_fst_map_same) simp
  with assms have "distinct (map p_id (map ?f xs))" by (simp only: cart_ok_def)
  then have "qty_map (updateQty i d xs) j =
      (case qty_map (map ?f xs) j of None \<Rightarrow> None
       | Some q \<Rightarrow> if qty_epsilon < q then Some q else None)"
    unfolding updateQty_def by (rule qty_map_filter) simp
  moreover have "qty_map (map ?f xs) j = map_option (\<lambda>q. if j = i then q + d else q) (qty_map xs j)"
    by (rule qty_map_map) auto
  ultimately show ?thesis by (simp add: Let_def split: option.splits)
qed

lemma qty_map_drop:
  assumes "cart_ok xs"
  shows "qty_map (removeFromCart i xs) = (qty_map xs)(i := None)"
proof
  fix j
  have "qty_map (removeFromCart i xs) j =
      (case qty_map xs j of None \<Rightarrow> None | Some q \<Rightarrow> if j \<noteq> i then Some q else None)"
    unfolding removeFromCart_def
    by (rule qty_map_filter [OF cart_ok_distinct [OF assms]]) auto
  then show "qty_map (removeFromCart i xs) j = ((qty_map xs)(i := None)) j"
    by (auto split: option.splits)
qed

lemma qty_map_setItem:
  assumes "cart_ok xs"
  shows "qty_map (setItemQuantity i q xs) j =
    (if j \<noteq> i then qty_map xs j
     else if q \<le> Fin 0 then None else map_option (\<lambda>_. q) (qty_map xs i))"
proof (cases "q \<le> Fin 0")
  case True
  then have "setItemQuantity i q xs = removeFromCart i xs"
    by (simp add: setItemQuantity_def removeFromCart_def)
  with assms True show ?thesis by (simp add: qty_map_drop)
next
  case False
  let ?f = "\<lambda>item. if p_id item = i then item\<lparr>i_qty := q\<rparr> else item"
  have "qty_map (map ?f xs) j = map_option (\<lambda>r. if j = i then q else r) (qty_map xs j)"
    by (rule qty_map_map) auto
  with False show ?thesis by (auto simp: setItemQuantity_def option.map_ident)
qed

interpretation cart_map: quantity_map qty_map cart_ok addToCart updateQty setItemQuantity
  removeFromCart
  by unfold_locales
    (simp_all add: cart_ok_intros qty_map_add qty_map_updateQty qty_map_setItem qty_map_drop)

section \<open>Amounts\<close>

lemma opt_num_or_jint [simp]:
  "opt_num_or None (Fin 0) = Fin 0"
  "opt_num_or (Some (Fin x)) (Fin 0) = Fin x"
  by (simp_all add: opt_num_or_def num_or_def truthy_def)

text \<open>Lines whose price, quantity and discount are non-negative whole numbers, as amounts in
  IQD are; the lines are given beside the numbers they hold.\<close>

fun whole_line :: "cart_item \<Rightarrow> int \<times> int \<times> int \<Rightarrow> bool" where
  "whole_line item (p, q, d) =
     (p_price item = jint p \<and> i_qty item = jint q \<and> opt_num_or (i_itemDiscount item) (Fin 0) = jint d
      \<and> 0 \<le> p \<and> 0 \<le> q \<and> 0 \<le> d)"

definition gross :: "(int \<times> int \<times> int) list \<Rightarrow> int" where
  "gross zs = (\<Sum>(p, q, d)\<leftarrow>zs. p * q)"

definition line_discounts :: "(int \<times> int \<times> int) list \<Rightarrow> int" where
  "line_discounts zs = (\<Sum>(p, q, d)\<leftarrow>zs. d)"

lemma add_line_whole:
  assumes "whole_line item (p, q, d)" and "p * q \<le> 2 ^ 53"
    and "\<bar>s + p * q\<bar> \<le> 2 ^ 53" and "\<bar>s + p * q - d\<bar> \<le> 2 ^ 53"
  shows "add_line (jint s) item = jint (s + p * q - d)"
proof -
  have "jint p * jint q = jint (p * q)" using assms(1,2) by (intro jint_mult) simp
  moreover have "jint s + jint (p * q) = jint (s + p * q)" using assms(3) by (rule jint_add)
  moreover have "jint (s + p * q) - jint d = jint (s + p * q - d)" using assms(4) by (rule jint_diff)
  ultimately show ?thesis using assms(1) by (simp only: add_line_def whole_line.simps)
qed

lemma gross_nonneg: "list_all2 whole_line c zs \<Longrightarrow> 0 \<le> gross zs \<and> 0 \<le> line_discounts zs"
  by (induction rule: list_all2_induct) (auto simp: gross_def line_discounts_def)

lemma fold_lines_whole:
  assumes "list_all2 whole_line c zs"
    and "- (2 ^ 53) \<le> s - line_discounts zs" and "s + gross zs \<le> 2 ^ 53"
    and "gross zs \<le> 2 ^ 53"
  shows "foldl add_line (jint s) c = jint (s + gross zs - line_discounts zs)"
  using assms
proof (induction c zs arbitrary: s rule: list_all2_induct)
  case Nil
  then show ?case by (simp add: gross_def line_discounts_def)
next
  case (Cons item c z zs)
  obtain p q d where z: "z = (p, q, d)" by (cases z)
  have nn: "0 \<le> p * q" "0 \<le> d" using Cons.hyps(1) z by auto
  have g: "gross (z # zs) = p * q + gross zs" "line_discounts (z # zs) = d + line_discounts zs"
    by (simp_all add: gross_def line_discounts_def z)
  have tl: "0 \<le> gross zs" "0 \<le> line_discounts zs" using gross_nonneg Cons.hyps(2) by auto
  note b = Cons.prems [unfolded g]
  have "p * q \<le> 2 ^ 53" "\<bar>s + p * q\<bar> \<le> 2 ^ 53" "\<bar>s + p * q - d\<bar> \<le> 2 ^ 53"
    unfolding abs_le_iff using b nn tl by linarith+
  then have "add_line (jint s) item = jint (s + p * q - d)"
    using Cons.hyps(1) by (intro add_line_whole) (simp_all only: z)
  moreover have "foldl add_line (jint (s + p * q - d)) c
      = jint (s + p * q - d + gross zs - line_discounts zs)"
    by (rule Cons.IH) (use b nn tl in linarith)+
  ultimately show ?case by (simp add: g algebra_simps)
qed

definition whole_cart :: "cart_item list \<Rightarrow> (int \<times> int \<times> int) list \<Rightarrow> bool" where
  "whole_cart c zs =
     (list_all2 whole_line c zs \<and> gross zs \<le> 2 ^ 52 \<and> line_discounts zs \<le> 2 ^ 52)"

lemma subtotal_whole:
  assumes "whole_cart c zs"
  shows "subtotal c = jint (gross zs - line_discounts zs)"
proof -
  have "foldl add_line (jint 0) c = jint (0 + gross zs - line_discounts zs)"
    by (rule fold_lines_whole) (use assms in \<open>auto simp: whole_cart_def\<close>)
  then have "foldl add_line (Fin 0) c = jint (gross zs - line_discounts zs)"
    by (simp only: of_int_0 add_0)
  then show ?thesis by (simp only: subtotal_def js_round_jint)
qed

lemma js_min_jint [js_num]: "js_min (jint i) (jint j) = jint (min i j)"
  by (simp add: js_min_Fin of_int_min)

lemma js_max_jint [js_num]: "js_max (jint i) (jint j) = jint (max i j)"
  by (simp add: js_max_Fin of_int_max)

lemma taxable_whole:
  assumes "whole_cart (u_cart u) zs" and "u_discount u = jint disc" and "0 \<le> disc"
  shows "taxableTotal u = jint (max 0 (gross zs - line_discounts zs - disc))"
proof -
  define sub where "sub = gross zs - line_discounts zs"
  have sub: "subtotal (u_cart u) = jint sub" using subtotal_whole [OF assms(1)] by (simp only: sub_def)
  have bound: "\<bar>sub\<bar> \<le> 2 ^ 52" using assms(1) gross_nonneg [of "u_cart u" zs]
    unfolding whole_cart_def sub_def by auto
  have eff: "effectiveDiscount u = jint (min disc sub)"
    by (simp only: effectiveDiscount_def assms(2) sub js_min_jint)
  have "jint sub - jint (min disc sub) = jint (sub - min disc sub)"
    by (rule jint_diff) (use bound assms(3) in auto)
  then have "taxableTotal u = js_max (jint 0) (jint (sub - min disc sub))"
    by (simp only: taxableTotal_def eff sub of_int_0)
  also have "\<dots> = jint (max 0 (sub - min disc sub))" by (simp only: js_max_jint)
  also have "max 0 (sub - min disc sub) = max 0 (sub - disc)" by auto
  finally show ?thesis by (simp only: sub_def)
qed

lemma taxable_nonneg:
  "subtotal (u_cart u) - effectiveDiscount u \<noteq> NaN \<Longrightarrow> Fin 0 \<le> taxableTotal u"
  unfolding taxableTotal_def by (rule js_max_ge1) simp_all

text \<open>A whole amount below \<open>2 ^ 40\<close>, taxed at a whole percentage up to 100.\<close>

lemma percent_error:
  assumes r: "0 \<le> r" "r \<le> 100"
  shows "\<exists>y. jint r / Fin 100 = Fin y \<and> 0 \<le> y \<and> \<bar>y - of_int r / 100\<bar> \<le> of_int r / 100 / 2 ^ 53"
proof (cases "r = 0")
  case True
  then show ?thesis by simp
next
  case False
  define x :: rat where "x = of_int r / 100"
  have "1 \<le> r" using False r by simp
  then have "(1::rat) \<le> of_int r" by (simp only: of_int_1_le_iff)
  then have lo: "1 / 100 \<le> x" by (simp add: x_def)
  have "(of_int r :: rat) \<le> 100" using r(2) by (metis of_int_le_iff of_int_numeral)
  then have hi: "x \<le> 1" by (simp add: x_def)
  have "(2::rat) powi (- 1022) \<le> 2 powi (- 7)" by (rule powi2_mono) simp
  also have "(2::rat) powi (- 7) = 1 / 128" by simp
  finally have "2 powi (- 1022) \<le> \<bar>x\<bar>" using lo by linarith
  then have err: "\<bar>rnd_rat x - x\<bar> \<le> \<bar>x\<bar> / 2 ^ 53" by (rule rnd_rat_rel)
  have "(1::rat) \<le> 2 ^ 1023" by simp
  then have "\<bar>x\<bar> \<le> 2 ^ 1023" using lo hi by linarith
  then have "rnd x = Fin (rnd_rat x)" by (rule rnd_Fin)
  moreover have "0 \<le> rnd_rat x" using lo by (intro rnd_rat_nonneg) linarith
  ultimately show ?thesis using err lo unfolding x_def by (intro exI [of _ "rnd_rat x"]) (auto simp: x_def)
qed

lemma js_round_error: "\<bar>rat_of_int \<lfloor>x + 1 / 2\<rfloor> - x\<bar> \<le> 1 / 2"
  by linarith

lemma vat_whole:
  assumes T: "taxableTotal u = jint t" "0 \<le> t" "t \<le> 2 ^ 40"
    and r: "0 \<le> r" "r \<le> 100"
  obtains v where "vat (Some (jint r)) u = jint v" "0 \<le> v"
    "\<bar>rat_of_int v - of_int t * of_int r / 100\<bar> \<le> 1 / 2 + 1 / 2 ^ 11"
proof -
  obtain y where y: "jint r / Fin 100 = Fin y" "0 \<le> y"
    and ye: "\<bar>y - of_int r / 100\<bar> \<le> of_int r / 100 / 2 ^ 53"
    using percent_error [OF r] by blast
  define w where "w = of_int t * y"
  have t0: "(0::rat) \<le> of_int t" using T(2) by simp
  have "(of_int t :: rat) \<le> of_int (2 ^ 40)" using T(3) by (simp only: of_int_le_iff)
  then have t40: "(of_int t :: rat) \<le> 2 ^ 40" by simp
  have r1: "(of_int r :: rat) / 100 \<le> 1" "0 \<le> (of_int r :: rat) / 100"
    using r by (simp_all add: of_int_le_iff [of r 100, simplified])
  have "w - of_int t * (of_int r / 100) = of_int t * (y - of_int r / 100)"
    unfolding w_def by (simp only: right_diff_distrib)
  then have "\<bar>w - of_int t * (of_int r / 100)\<bar> = of_int t * \<bar>y - of_int r / 100\<bar>"
    using t0 by (simp only: abs_mult abs_of_nonneg)
  also have "\<dots> \<le> 2 ^ 40 * (1 / 2 ^ 53)"
    using ye r1 t0 t40 by (intro mult_mono) (auto intro: order_trans [OF ye])
  finally have we: "\<bar>w - of_int t * (of_int r / 100)\<bar> \<le> 1 / 2 ^ 13" by simp
  have "of_int t * (of_int r / 100) \<le> (2::rat) ^ 40 * 1"
    by (rule mult_mono) (use t0 t40 r1 in simp_all)
  moreover have "0 \<le> of_int t * (of_int r / (100::rat))"
    using t0 r1(2) by (rule mult_nonneg_nonneg)
  ultimately have tr: "of_int t * (of_int r / 100) \<le> (2::rat) ^ 40 * 1"
    "0 \<le> of_int t * (of_int r / (100::rat))" .
  have w0: "0 \<le> w" using t0 y(2) by (simp add: w_def)
  have w41: "w \<le> 2 ^ 41"
  proof -
    have "w \<le> of_int t * (of_int r / 100) + 1 / 2 ^ 13" using we unfolding abs_le_iff by linarith
    also have "\<dots> \<le> 2 ^ 40 * 1 + 1 / 2 ^ 13" using tr(1) by (rule add_right_mono)
    also have "\<dots> \<le> (2::rat) ^ 41" by simp
    finally show ?thesis .
  qed
  have re: "\<bar>rnd_rat w - w\<bar> \<le> 1 / 2 ^ 12 + 1 / 2 ^ 60"
  proof -
    have "\<bar>rnd_rat w - w\<bar> \<le> w / 2 ^ 53 + 1 / 2 ^ 60" using rnd_rat_err [of w] w0 by simp
    also have "w / 2 ^ 53 \<le> 2 ^ 41 / 2 ^ 53" using w41 by (rule divide_right_mono) simp
    finally show ?thesis by simp
  qed
  have "\<bar>w\<bar> \<le> 2 ^ 1023"
  proof -
    have "(2::rat) ^ 41 \<le> 2 ^ 1023" by (rule power_increasing) simp_all
    then show ?thesis using w0 w41 by linarith
  qed
  then have rw: "rnd w = Fin (rnd_rat w)" by (rule rnd_Fin)
  define v where "v = \<lfloor>rnd_rat w + 1 / 2\<rfloor>"
  have "vat (Some (jint r)) u = jint v"
    using T(1) y(1) rw by (simp add: vat_def v_def w_def)
  moreover have "0 \<le> v" using rnd_rat_nonneg [OF w0] by (simp add: v_def)
  moreover have "\<bar>rat_of_int v - of_int t * of_int r / 100\<bar> \<le> 1 / 2 + 1 / 2 ^ 11"
  proof -
    have "\<bar>rat_of_int v - of_int t * (of_int r / 100)\<bar>
        \<le> \<bar>rat_of_int v - rnd_rat w\<bar> + \<bar>rnd_rat w - w\<bar> + \<bar>w - of_int t * (of_int r / 100)\<bar>"
      by linarith
    also have "\<dots> \<le> 1 / 2 + (1 / 2 ^ 12 + 1 / 2 ^ 60) + 1 / 2 ^ 13"
      using js_round_error [of "rnd_rat w"] re we unfolding v_def by (intro add_mono)
    also have "\<dots> \<le> (1 / 2 + 1 / 2 ^ 11 :: rat)" by simp
    finally show ?thesis by simp
  qed
  ultimately show ?thesis by (rule that)
qed

lemma total_parts:
  assumes tax: "taxableTotal u = jint t" and t: "0 \<le> t" "t \<le> 2 ^ 40" and r: "0 \<le> r" "r \<le> 100"
  obtains v where "vat (Some (jint r)) u = jint v" "total (Some (jint r)) u = jint (t + v)" "0 \<le> v"
    "\<bar>rat_of_int v - of_int t * of_int r / 100\<bar> \<le> 1 / 2 + 1 / 2 ^ 11"
proof -
  obtain v where v: "vat (Some (jint r)) u = jint v" "0 \<le> v"
    "\<bar>rat_of_int v - of_int t * of_int r / 100\<bar> \<le> 1 / 2 + 1 / 2 ^ 11"
    using tax t r by (rule vat_whole)
  have "rat_of_int v \<le> of_int t * of_int r / 100 + (1 / 2 + 1 / 2 ^ 11)"
    using v(3) unfolding abs_le_iff by linarith
  also have "of_int t * of_int r / (100::rat) \<le> of_int (2 ^ 40) * 100 / 100"
    using t r by (intro divide_right_mono mult_mono) simp_all
  finally have "rat_of_int v \<le> 2 ^ 50" by simp
  then have "v \<le> 2 ^ 50" by (metis of_int_le_iff of_int_numeral of_int_power)
  then have "jint t + jint v = jint (t + v)" using t v(2) by (intro jint_add) simp
  then have "total (Some (jint r)) u = jint (t + v)"
    by (simp only: total_def tax v(1) js_round_jint)
  with v show ?thesis using that by blast
qed

section \<open>Mounting on a stored cart\<close>

lemma save_initial [simp]: "save_store cart_initial ls = empty_store"
  by (simp add: save_store_def cart_initial_def empty_store_def)

lemma mount_commit:
  "mount ls = commit cart_initial ((fst (restore_effect ls cart_initial))
     \<lparr>u_paymentMethod := Cash, u_discount := Fin 0, u_isZenMode := False, u_receivedAmount := Fin 0\<rparr>)
     empty_store"
  by (simp add: mount_def Let_def settle_commit received_updates_def save_updates_def
      cart_initial_def [THEN arg_cong [where f = u_cart], simplified])

lemma mount_mirrors: "mirrors (mount ls)"
  unfolding mount_commit by (rule commit_mirrors) (simp add: mirrors_def cart_initial_def)

text \<open>What a comparison of the dependencies by reference may add to a commit, one more run of the save effect.\<close>

lemma run_mirrors: "mirrors (run cart_step (mount ls) es)"
proof (induction es rule: rev_induct)
  case Nil
  show ?case using mount_mirrors [of ls] by simp
next
  case (snoc e es)
  then show ?case by (cases "run cart_step (mount ls) es") (simp add: run_append cart_step_commit commit_mirrors)
qed

lemma saving_again:
  assumes "mirrors (u, ls)"
  shows "save_store u ls = ls" "save_updates u u = (if u_cart u = [] then u\<lparr>u_isZenMode := False\<rparr> else u)"
  using assms by (auto simp: mirrors_def save_store_def save_updates_def empty_store_def split: option.splits if_splits)

definition stored_ok :: "cart_store \<Rightarrow> bool" where
  "stored_ok ls = (case ls_cart ls of Some (Cart_items xs) \<Rightarrow> cart_ok xs | _ \<Rightarrow> True)"

lemma restore_effect_cart:
  "u_cart (fst (restore_effect ls u)) =
     (case restore_cart ls of Some xs \<Rightarrow> xs | None \<Rightarrow> u_cart u)"
  by (auto simp: restore_effect_def restore_cart_def Let_def split: option.splits
      saved_cart.splits saved_customer.splits)

lemma mount_cart: "u_cart (fst (mount ls)) = (case restore_cart ls of Some xs \<Rightarrow> xs | None \<Rightarrow> [])"
  by (simp add: mount_commit restore_effect_cart cart_initial_def split: option.splits)

lemma mount_ok: "stored_ok ls \<Longrightarrow> cart_ok (u_cart (fst (mount ls)))"
  by (auto simp: mount_cart stored_ok_def restore_cart_def split: option.splits saved_cart.splits)

lemma mount_inv: "stored_ok ls \<Longrightarrow> cart_inv (mount ls)"
  using mount_mirrors [of ls] by (simp add: cart_inv_def mount_ok)

text \<open>What a reload of the page does to the state of a settled cart.\<close>

lemma commit_nonempty:
  "u_cart u \<noteq> [] \<Longrightarrow> fst (commit old u ls) = u"
  by (simp add: commit_def Let_def save_updates_def received_updates_def)

lemma reload_state:
  assumes "mirrors (u, ls)" and "u_cart u \<noteq> []"
    and "ls_customer ls = Some (Customer_json i n)" and "i \<noteq> []" and "n \<noteq> []"
  shows "fst (mount ls) = cart_initial\<lparr>u_cart := u_cart u,
           u_selectedCustomer := Some (restored_customer i n)\<rparr>"
proof -
  have eff: "fst (restore_effect ls cart_initial) = cart_initial\<lparr>u_cart := u_cart u,
      u_discount := u_discount u, u_selectedCustomer := Some (restored_customer i n),
      u_paymentMethod := u_paymentMethod u, u_isZenMode := False\<rparr>"
    using assms by (simp add: restore_effect_def mirrors_def restore_cart_def)
  show ?thesis unfolding mount_commit eff
    by (subst commit_nonempty) (use assms(2) in \<open>simp_all add: cart_initial_def\<close>)
qed

section \<open>Properties\<close>

definition sample_product :: product where
  "sample_product = \<lparr> p_id = js ''p1'', p_name = js ''Test'', p_price = Fin 100, p_cost = Fin 50,
     p_stock = Fin 10, p_minStock = Fin 5, p_wholesalePrice = Fin 80, p_category = js ''T'',
     p_image = [], p_barcode = js ''123'', p_supplier = None, p_description = None,
     p_customDetails = None \<rparr>"

definition sample_customer :: customer where
  "sample_customer = restored_customer (js ''c1'') (js ''Ali'')"

definition sample_state :: cart_state where
  "sample_state = cart_initial\<lparr>u_cart := [(new_item sample_product)\<lparr>i_qty := Fin 3\<rparr>],
     u_discount := Fin 50, u_paymentMethod := Card, u_selectedCustomer := Some sample_customer\<rparr>"

definition sample_store :: cart_store where
  "sample_store = save_store sample_state empty_store"

lemma sample_simps [simp]:
  "u_cart sample_state = [(new_item sample_product)\<lparr>i_qty := Fin 3\<rparr>]"
  "u_discount sample_state = Fin 50" "u_paymentMethod sample_state = Card"
  "u_selectedCustomer sample_state = Some sample_customer"
  "p_price sample_product = Fin 100" "c_id sample_customer = js ''c1''"
  "c_name sample_customer = js ''Ali''"
  by (simp_all add: sample_state_def sample_product_def sample_customer_def restored_customer_def)

lemma sample_mirrors: "mirrors (sample_state, sample_store)"
  by (simp add: mirrors_def sample_store_def save_store_def)

text \<open>C1. Whatever well-formed cart was stored, after mounting and after any sequence of
  actions (with numeric quantities and well-formed replacement carts) no product has two
  lines, every quantity is positive, and the storage mirrors the cart, its discount and its
  payment method, or is empty with the cart.\<close>

theorem cart_run_invariant:
  assumes "stored_ok ls" and "\<forall>e\<in>set es. accepted_event e"
  shows "cart_inv (run cart_step (mount ls) es)"
  using mount_inv [OF assms(1)] assms(2) by (rule cart_machine.run_inv)

theorem cart_run_invariant_witness:
  "cart_inv (run cart_step (mount empty_store)
     [Add_to_cart sample_product, Update_qty (js ''p1'') (Fin 2), Set_discount (Fin 5),
      Set_item_quantity (js ''p1'') (Fin 0)])"
  by (rule cart_run_invariant) (simp_all add: stored_ok_def empty_store_def)

text \<open>C12. The effects of the cart settle: an update brings one render whose effects run, and the render their own
  updates bring changes nothing more. Whatever was stored and done before, even the save effect run once more with
  nothing changed, as React does for a new array that is equal, writes what is stored and changes nothing but Zen mode
  on an empty cart, so no loop of renders is possible.\<close>

theorem effects_settle:
  "settle old v ls = commit old v ls
   \<and> (let (u, st) = run cart_step (mount ls) es
      in save_store u st = st \<and> save_updates u u = (if u_cart u = [] then u\<lparr>u_isZenMode := False\<rparr> else u))"
  using saving_again [of "fst (run cart_step (mount ls) es)" "snd (run cart_step (mount ls) es)"] run_mirrors [of ls es]
  by (simp add: settle_commit case_prod_beta)

text \<open>C2. With whole, non-negative prices, quantities, line discounts and cart discount, up to $2^{52}$ before
  and $2^{40}$ after the discounts, and a
  whole tax rate from 0 to 100, the amounts are exact integers: the tax is within half a
  unit (and the rounding error of the rate) of the true tax, and the total is the discounted
  amount, never below zero, plus the tax.\<close>

theorem total_whole:
  assumes "whole_cart (u_cart u) zs" and "u_discount u = jint disc" and "0 \<le> disc"
    and "0 \<le> r" and "r \<le> 100"
    and "t = max 0 (gross zs - line_discounts zs - disc)" and "t \<le> 2 ^ 40"
  shows "\<exists>v. vat (Some (jint r)) u = jint v \<and> total (Some (jint r)) u = jint (t + v)
           \<and> 0 \<le> v \<and> \<bar>rat_of_int v - of_int t * of_int r / 100\<bar> \<le> 1 / 2 + 1 / 2 ^ 11"
proof -
  have tax: "taxableTotal u = jint t" unfolding assms(6) by (rule taxable_whole) fact+
  have "0 \<le> t" using assms(6) by simp
  then show ?thesis using total_parts [OF tax _ assms(7,4,5)] by blast
qed

theorem total_whole_witness:
  "\<exists>v. vat (Some (jint 15)) (sample_state\<lparr>u_discount := jint 50\<rparr>) = jint v
     \<and> total (Some (jint 15)) (sample_state\<lparr>u_discount := jint 50\<rparr>) = jint (250 + v)
     \<and> 0 \<le> v \<and> \<bar>rat_of_int v - of_int 250 * of_int 15 / 100\<bar> \<le> 1 / 2 + 1 / 2 ^ 11"
  by (rule total_whole [where zs = "[(100, 3, 0)]" and disc = 50])
    (simp_all add: whole_cart_def gross_def line_discounts_def)

text \<open>C3. The total is never negative: for every cart, discount and tax rate that is not
  negative, infinite or NaN, it is a non-negative number or NaN (which takes a NaN or an
  infinite amount in the cart).\<close>

theorem total_nonneg:
  assumes "0 \<le> y"
  shows "total (Some (Fin y)) u = NaN \<or> Fin 0 \<le> total (Some (Fin y)) u"
proof -
  define a where "a = taxableTotal u"
  have rate: "opt_num_or (Some (Fin y)) (Fin 0) / Fin 100 = rnd (y / 100)"
    by simp
  have q: "Fin 0 \<le> rnd (y / 100)" using assms by (intro rnd_nonneg) simp
  have a: "a = NaN \<or> Fin 0 \<le> a"
    unfolding a_def using taxable_nonneg [of u] by (auto simp: taxableTotal_def js_max_def)
  have prod: "a * rnd (y / 100) = NaN \<or> Fin 0 \<le> a * rnd (y / 100)"
    using a q by (cases a; cases "rnd (y / 100)") (auto simp: inf_of_def intro: rnd_nonneg)
  then have v: "vat (Some (Fin y)) u = NaN \<or> Fin 0 \<le> vat (Some (Fin y)) u"
    unfolding vat_def rate a_def [symmetric] using js_round_nonneg by auto
  then have "a + vat (Some (Fin y)) u = NaN \<or> Fin 0 \<le> a + vat (Some (Fin y)) u"
    using a by (cases a; cases "vat (Some (Fin y)) u") (auto intro: rnd_nonneg)
  then show ?thesis unfolding total_def a_def [symmetric] using js_round_nonneg by auto
qed

theorem total_nonneg_witness:
  "total (Some (Fin 15)) sample_state = NaN \<or> Fin 0 \<le> total (Some (Fin 15)) sample_state"
  by (rule total_nonneg) simp

text \<open>C4. The cart refines a map from product ids to quantities: adding a product puts it at one
  or adds one, changing a quantity by a delta drops what falls to 0.001 or less, setting a
  quantity overwrites it and drops it at zero or below, removing drops it; every other
  product keeps its quantity.\<close>

theorem cart_refines_map:
  assumes "cart_ok c"
  shows "qty_map (addToCart p c) = (qty_map c)(p_id p \<mapsto>
           (case qty_map c (p_id p) of None \<Rightarrow> Fin 1 | Some q \<Rightarrow> q + Fin 1))
    \<and> qty_map (updateQty i d c) j = (case qty_map c j of None \<Rightarrow> None
           | Some q \<Rightarrow> (let q' = (if j = i then q + d else q)
                       in if qty_epsilon < q' then Some q' else None))
    \<and> qty_map (setItemQuantity i q c) j = (if j \<noteq> i then qty_map c j
           else if q \<le> Fin 0 then None else map_option (\<lambda>_. q) (qty_map c i))
    \<and> qty_map (removeFromCart i c) = (qty_map c)(i := None)"
  by (intro conjI cart_map.abs_put cart_map.abs_bump cart_map.abs_assign cart_map.abs_drop)
    fact+

theorem cart_refines_map_witness:
  "cart_ok [new_item sample_product]
   \<and> qty_map (addToCart sample_product [new_item sample_product]) (p_id sample_product) = Some (Fin 2)"
proof -
  have ok: "cart_ok [new_item sample_product]" by (simp add: cart_ok_def)
  have "Fin 1 + Fin 1 = Fin 2" using jint_add [of 1 1] by simp
  with ok cart_refines_map [OF ok, of sample_product "[]" "Fin 0" "[]" "Fin 0"]
  show ?thesis by simp
qed

text \<open>A reload in the middle of a sale: the cart and the chosen customer's id and name come
  back, but the saved discount and payment method do not; the effect that saves the still
  empty cart of the first render clears them, after the restoring effect has set them.\<close>

lemma reload_drops_discount:
  assumes "mirrors (u, ls)" and "u_cart u \<noteq> []"
    and "u_selectedCustomer u = Some c" and "c_id c \<noteq> []" and "c_name c \<noteq> []"
  shows "u_cart (fst (mount ls)) = u_cart u
    \<and> u_selectedCustomer (fst (mount ls)) = Some (restored_customer (c_id c) (c_name c))
    \<and> u_discount (fst (mount ls)) = Fin 0 \<and> u_paymentMethod (fst (mount ls)) = Cash"
proof -
  have "ls_customer ls = Some (Customer_json (c_id c) (c_name c))"
    using assms(1,2,3) by (simp add: mirrors_def)
  from reload_state [OF assms(1,2) this assms(4,5)]
  show ?thesis by (simp add: cart_initial_def)
qed

lemma reload_drops_discount_witness:
  "u_discount sample_state = Fin 50 \<and> u_paymentMethod sample_state = Card
   \<and> u_cart (fst (mount sample_store)) = u_cart sample_state
   \<and> u_discount (fst (mount sample_store)) = Fin 0
   \<and> u_paymentMethod (fst (mount sample_store)) = Cash"
  using reload_drops_discount [OF sample_mirrors, of sample_customer] by simp

text \<open>A customer who was chosen and then taken back is still in the storage: with a cart
  that is not empty, the save effect writes a customer but never removes one, and the next
  reload selects that customer again.\<close>

lemma deselected_customer_restored:
  assumes "mirrors (u, ls)" and "u_cart u \<noteq> []"
    and "u_selectedCustomer u = Some c" and "c_id c \<noteq> []" and "c_name c \<noteq> []"
    and "(v, ls') = cart_step (u, ls) (Set_selected_customer None)"
  shows "u_selectedCustomer v = None
    \<and> u_selectedCustomer (fst (mount ls')) = Some (restored_customer (c_id c) (c_name c))"
proof -
  let ?u = "u\<lparr>u_selectedCustomer := None\<rparr>"
  have step: "(v, ls') = commit u ?u ls" using assms(6) by (simp add: cart_step_commit)
  then have v: "v = ?u" using commit_nonempty [of ?u u ls] assms(2)
    by (metis fst_conv cart_state.ext_inject cart_state.surjective cart_state.update_convs(2))
  have m: "mirrors (?u, ls')" using commit_mirrors [OF assms(1), of ?u] step v by simp
  have "ls_customer ls = Some (Customer_json (c_id c) (c_name c))"
    using assms(1,2,3) by (simp add: mirrors_def)
  moreover have "save_deps u \<noteq> save_deps ?u" using assms(3) by (simp add: save_deps_def)
  ultimately have "ls_customer ls' = Some (Customer_json (c_id c) (c_name c))"
    using step assms(2) by (simp add: commit_def save_store_def)
  from reload_state [OF m _ this assms(4,5)] assms(2) v show ?thesis
    by (simp add: cart_initial_def)
qed

lemma deselected_customer_restored_witness:
  "u_selectedCustomer (fst (cart_step (sample_state, sample_store) (Set_selected_customer None))) = None
   \<and> u_selectedCustomer (fst (mount (snd (cart_step (sample_state, sample_store)
        (Set_selected_customer None))))) = Some sample_customer"
  using deselected_customer_restored [OF sample_mirrors, of sample_customer, OF _ _ _ _ surjective_pairing [symmetric]]
  by (simp add: sample_customer_def restored_customer_def)

end
