(* ===== verification/Js_Text.thy ===== *)
theory Js_Text
  imports Js_Value
begin

text \<open>
  Numbers as text: \<open>Number(s)\<close>, \<open>parseFloat(s)\<close>, \<open>String(n)\<close>, \<open>toFixed\<close> and the grouped
  \<open>Intl.NumberFormat('en-US')\<close>, on the decimal literals of the language. A literal denotes
  a rational, which is rounded to a double.
\<close>

section \<open>Reading\<close>

definition digits_of :: "jstr \<Rightarrow> jstr" where
  "digits_of s = takeWhile is_digit s"

definition after_digits :: "jstr \<Rightarrow> jstr" where
  "after_digits s = dropWhile is_digit s"

text \<open>The value of \<open>whole.frac\<close>.\<close>

definition decimal_value :: "jstr \<Rightarrow> jstr \<Rightarrow> rat" where
  "decimal_value w f = (of_nat (read_nat w) * 10 ^ length f + of_nat (read_nat f)) / 10 ^ length f"

text \<open>An optional sign: whether it is a minus, and what follows.\<close>

definition sign_of :: "jstr \<Rightarrow> bool \<times> jstr" where
  "sign_of s = (if prefix [45] s then (True, tl s) else if prefix [43] s then (False, tl s) else (False, s))"

text \<open>An exponent part, and what follows it; without a digit there is no exponent part.\<close>

definition read_exponent :: "jstr \<Rightarrow> int \<times> jstr" where
  "read_exponent s = (case s of
     c # r \<Rightarrow>
       (if c = 101 \<or> c = 69 then
          let (neg, r') = sign_of r;
              e = int (read_nat (digits_of r'))
          in if digits_of r' = [] then (0, s) else (if neg then - e else e, after_digits r')
        else (0, s))
   | [] \<Rightarrow> (0, []))"

text \<open>The longest prefix that is an unsigned decimal literal: its value, and the rest.\<close>

definition read_unsigned :: "jstr \<Rightarrow> (rat \<times> jstr) option" where
  "read_unsigned s =
     (let w = digits_of s; r = after_digits s;
          (f, r') = (if prefix [46] r then (digits_of (tl r), after_digits (tl r)) else ([], r))
      in if w = [] \<and> f = [] then None
         else let (e, r'') = read_exponent r' in Some (decimal_value w f * 10 powi e, r''))"

definition infinity_text :: jstr where
  "infinity_text = js ''Infinity''"

definition read_signed :: "jstr \<Rightarrow> (jsnum \<times> jstr) option" where
  "read_signed s =
     (let (neg, t) = sign_of s
      in if prefix infinity_text t
         then Some (if neg then NInf else PInf, drop (length infinity_text) t)
         else map_option (\<lambda>(x, r). (rnd (if neg then - x else x), r)) (read_unsigned t))"

text \<open>\<open>parseFloat\<close>: the longest prefix, after leading white space.\<close>

definition parse_float :: "jstr \<Rightarrow> jsnum" where
  "parse_float s = (case read_signed (trim_start s) of None \<Rightarrow> NaN | Some (x, _) \<Rightarrow> x)"

text \<open>Digits of a literal with a radix prefix \<open>0x\<close>, \<open>0o\<close> or \<open>0b\<close>.\<close>

definition radix_digit :: "nat \<Rightarrow> nat option" where
  "radix_digit c = (if is_digit c then Some (c - 48)
     else if 97 \<le> c \<and> c \<le> 102 then Some (c - 87)
     else if 65 \<le> c \<and> c \<le> 70 then Some (c - 55) else None)"

definition read_radix :: "nat \<Rightarrow> jstr \<Rightarrow> jsnum" where
  "read_radix b s =
     (if s \<noteq> [] \<and> list_all (\<lambda>c. case radix_digit c of None \<Rightarrow> False | Some d \<Rightarrow> d < b) s
      then rnd (of_nat (foldl (\<lambda>n c. b * n + the (radix_digit c)) 0 s)) else NaN)"

text \<open>\<open>Number(s)\<close>: the whole trimmed text, zero when it is empty.\<close>

definition js_number :: "jstr \<Rightarrow> jsnum" where
  "js_number s =
     (let t = trim s
      in if t = [] then Fin 0
         else if prefix (js ''0x'') t \<or> prefix (js ''0X'') t then read_radix 16 (drop 2 t)
         else if prefix (js ''0o'') t \<or> prefix (js ''0O'') t then read_radix 8 (drop 2 t)
         else if prefix (js ''0b'') t \<or> prefix (js ''0B'') t then read_radix 2 (drop 2 t)
         else (case read_signed t of Some (x, []) \<Rightarrow> x | _ \<Rightarrow> NaN))"

section \<open>Writing\<close>

definition zeros :: "nat \<Rightarrow> jstr" where
  "zeros n = replicate n 48"

text \<open>The decimal exponent: \<open>10 powi (n - 1) \<le> x < 10 powi n\<close> for positive \<open>x\<close>.\<close>

definition dec_exp :: "rat \<Rightarrow> int" where
  "dec_exp x = (let (a, b) = quotient_of x;
                    d = int (length (show_nat (nat a))) - int (length (show_nat (nat b)))
                in if 10 powi d \<le> x then d + 1 else d)"

text \<open>The shortest decimal significand that rounds to \<open>x\<close>, of at most 17 digits, with the
  exponent of its decimal point.\<close>

fun shortest_from :: "nat \<Rightarrow> nat \<Rightarrow> rat \<Rightarrow> nat \<times> int" where
  "shortest_from 0 k x = (nat (rhe x), dec_exp x)"
| "shortest_from (Suc fuel) k x =
     (let n = dec_exp x; s = \<lfloor>x / 10 powi (n - int k) + 1 / 2\<rfloor>
      in if rnd (of_int s * 10 powi (n - int k)) = Fin x
         then (if s = 10 ^ k then (10 ^ (k - 1), n + 1) else (nat s, n))
         else shortest_from fuel (Suc k) x)"

definition positional :: "nat \<Rightarrow> int \<Rightarrow> jstr" where
  "positional s n =
     (let ds = show_nat s; k = length ds
      in if int k \<le> n \<and> n \<le> 21 then ds @ zeros (nat n - k)
         else if 0 < n \<and> n \<le> 21 then take (nat n) ds @ 46 # drop (nat n) ds
         else if - 6 < n \<and> n \<le> 0 then [48, 46] @ zeros (nat (- n)) @ ds
         else (case ds of [] \<Rightarrow> [] | d # r \<Rightarrow> d # (if r = [] then [] else 46 # r)
                 @ 101 # (if 0 < n then 43 # show_nat (nat (n - 1)) else 45 # show_nat (nat (1 - n)))))"

text \<open>\<open>String(n)\<close>. A safe integer prints its digits.\<close>

definition unsigned_to_string :: "rat \<Rightarrow> jstr" where
  "unsigned_to_string x =
     (if of_int \<lfloor>x\<rfloor> = x \<and> x \<le> 2 ^ 53 then show_nat (nat \<lfloor>x\<rfloor>)
      else (let (s, n) = shortest_from 17 1 x in positional s n))"

fun num_to_string :: "jsnum \<Rightarrow> jstr" where
  "num_to_string NaN = js ''NaN''"
| "num_to_string PInf = js ''Infinity''"
| "num_to_string NInf = js ''-Infinity''"
| "num_to_string (Fin x) = (if x < 0 then 45 # unsigned_to_string (- x) else unsigned_to_string x)"

text \<open>\<open>n.toFixed(d)\<close> below \<open>10 ^ 21\<close>: the nearest multiple of \<open>10 ^ - d\<close> to the exact value,
  the larger of two.\<close>

definition fixed_digits :: "nat \<Rightarrow> nat \<Rightarrow> jstr" where
  "fixed_digits d n =
     (if d = 0 then show_nat n
      else show_nat (n div 10 ^ d) @ 46 # pad_start d 48 (show_nat (n mod 10 ^ d)))"

fun to_fixed :: "nat \<Rightarrow> jsnum \<Rightarrow> jstr" where
  "to_fixed d (Fin x) =
     (if 10 ^ 21 \<le> \<bar>x\<bar> then num_to_string (Fin x)
      else (if x < 0 then [45] else []) @ fixed_digits d (nat \<lfloor>\<bar>x\<bar> * 10 ^ d + 1 / 2\<rfloor>))"
| "to_fixed d a = num_to_string a"

text \<open>Digits in groups of three, from the right.\<close>

fun group_rev :: "jstr \<Rightarrow> jstr" where
  "group_rev (a # b # c # d # s) = a # b # c # 44 # group_rev (d # s)"
| "group_rev s = s"

definition group_thousands :: "jstr \<Rightarrow> jstr" where
  "group_thousands s = rev (group_rev (rev s))"

definition strip_zeros :: "jstr \<Rightarrow> jstr" where
  "strip_zeros s = rev (dropWhile (\<lambda>c. c = 48) (rev s))"

text \<open>\<open>new Intl.NumberFormat('en-US', {maximumFractionDigits: d}).format(x)\<close> of a finite
  number: rounded half away from zero, grouped, without trailing zeros.\<close>

definition format_en :: "nat \<Rightarrow> rat \<Rightarrow> jstr" where
  "format_en d x =
     (let n = nat \<lfloor>\<bar>x\<bar> * 10 ^ d + 1 / 2\<rfloor>;
          frac = strip_zeros (pad_start d 48 (show_nat (n mod 10 ^ d)))
      in (if x < 0 then [45] else []) @ group_thousands (show_nat (n div 10 ^ d))
         @ (if d = 0 \<or> frac = [] then [] else 46 # frac))"

text \<open>\<open>String(v)\<close>.\<close>

fun js_string :: "json \<Rightarrow> jstr" where
  "js_string JUndef = js ''undefined''"
| "js_string JNull = js ''null''"
| "js_string (JBool b) = (if b then js ''true'' else js ''false'')"
| "js_string (JNum n) = num_to_string n"
| "js_string (JStr s) = s"
| "js_string (JArr xs) = join [44] (map (\<lambda>x. if x = JUndef \<or> x = JNull then [] else js_string x) xs)"
| "js_string (JObj ps) = js ''[object Object]''"

section \<open>Reading what was written\<close>

lemma read_nat_append: "read_nat (xs @ ys) = read_nat xs * 10 ^ length ys + read_nat ys"
proof -
  have gen: "foldl (\<lambda>n c. 10 * n + (c - 48)) m ys = m * 10 ^ length ys + read_nat ys" for m
    unfolding read_nat_def
  proof (induction ys arbitrary: m rule: rev_induct)
    case Nil
    then show ?case by simp
  next
    case (snoc y ys)
    show ?case using snoc.IH [of m] by (simp add: algebra_simps)
  qed
  show ?thesis using gen [of "read_nat xs"] by (simp add: read_nat_def)
qed

lemma read_zeros [simp]: "read_nat (replicate n 48) = 0"
  by (induction n) (simp_all add: read_nat_def)

lemma read_pad [simp]: "read_nat (pad_start d 48 s) = read_nat s"
  by (simp add: pad_start_def read_nat_append)

lemma remove_commas_group: "44 \<notin> set s \<Longrightarrow> filter (\<lambda>c. c \<noteq> 44) (group_rev s) = s"
  by (induction s rule: group_rev.induct) auto

lemma remove_commas_thousands:
  "44 \<notin> set s \<Longrightarrow> filter (\<lambda>c. c \<noteq> 44) (group_thousands s) = s"
  by (simp add: group_thousands_def remove_commas_group rev_filter [symmetric])

lemma comma_not_digit: "\<forall>c\<in>set s. is_digit c \<Longrightarrow> (44::nat) \<notin> set s"
  by (auto simp: is_digit_def)

lemma digits_of_split:
  "\<forall>c\<in>set w. is_digit c \<Longrightarrow> (\<forall>c r'. r = c # r' \<longrightarrow> \<not> is_digit c)
   \<Longrightarrow> digits_of (w @ r) = w \<and> after_digits (w @ r) = r"
  unfolding digits_of_def after_digits_def
  by (induction w) (cases r; auto)+

lemma read_unsigned_decimal:
  assumes "\<forall>c\<in>set w. is_digit c" and "\<forall>c\<in>set f. is_digit c" and "w \<noteq> []"
  shows "read_unsigned (w @ 46 # f) = Some (decimal_value w f, [])"
proof -
  have "digits_of (w @ 46 # f) = w \<and> after_digits (w @ 46 # f) = 46 # f"
    using assms(1) by (intro digits_of_split) (auto simp: is_digit_def)
  moreover have "digits_of f = f \<and> after_digits f = []"
    using digits_of_split [OF assms(2), of "[]"] by simp
  ultimately show ?thesis using assms(3)
    by (simp add: read_unsigned_def read_exponent_def)
qed

lemma digit_not_sign: "is_digit c \<Longrightarrow> c \<noteq> 45 \<and> c \<noteq> 43 \<and> c \<noteq> 73 \<and> \<not> is_space c"
  by (auto simp: is_digit_def is_space_def)

lemma read_signed_decimal:
  assumes "\<forall>c\<in>set w. is_digit c" and "\<forall>c\<in>set f. is_digit c" and "w \<noteq> []"
  shows "read_signed (w @ 46 # f) = Some (rnd (decimal_value w f), [])"
    and "read_signed (45 # w @ 46 # f) = Some (rnd (- decimal_value w f), [])"
proof -
  obtain c r where w: "w = c # r" using assms(3) by (cases w) auto
  then have c: "c \<noteq> 45" "c \<noteq> 43" "c \<noteq> 73" using assms(1) digit_not_sign by auto
  have "\<not> prefix infinity_text (w @ 46 # f)" using c w by (simp add: infinity_text_def)
  then show "read_signed (w @ 46 # f) = Some (rnd (decimal_value w f), [])"
    and "read_signed (45 # w @ 46 # f) = Some (rnd (- decimal_value w f), [])"
    using c read_unsigned_decimal [OF assms]
    by (auto simp: read_signed_def sign_of_def w infinity_text_def)
qed

lemma trim_id: "s \<noteq> [] \<Longrightarrow> \<not> is_space (hd s) \<Longrightarrow> \<not> is_space (last s) \<Longrightarrow> trim s = s"
proof -
  assume s: "s \<noteq> []" and h: "\<not> is_space (hd s)" and l: "\<not> is_space (last s)"
  have "trim_start s = s" using s h by (cases s) (auto simp: trim_start_def)
  moreover have "trim_end s = s" using s l by (cases s rule: rev_cases) (auto simp: trim_end_def)
  ultimately show ?thesis by (simp add: trim_def)
qed

lemma trim_space_end: "\<forall>c\<in>set t. is_space c \<Longrightarrow> trim (s @ t) = trim s"
proof -
  assume t: "\<forall>c\<in>set t. is_space c"
  have te: "trim_end (r @ t) = trim_end r" for r
    using t by (simp add: trim_end_def) (subst dropWhile_append2; simp)
  have "trim_start (s @ t) = trim_start s @ t \<or> trim_start (s @ t) = [] \<and> trim_start s = []"
    using t unfolding trim_start_def dropWhile_append by (auto simp: dropWhile_eq_Nil_conv)
  then show ?thesis by (auto simp: trim_def te)
qed

lemma decimal_not_radix: "\<forall>c\<in>set w. is_digit c \<Longrightarrow> w \<noteq> [] \<Longrightarrow> \<not> is_digit x \<Longrightarrow> x \<noteq> 46
  \<Longrightarrow> \<not> prefix [48, x] (w @ 46 # f)"
  by (cases w; cases "tl w") auto

text \<open>A decimal literal with a point is read as the nearest double to what it denotes.\<close>

lemma js_number_decimal:
  assumes w: "\<forall>c\<in>set w. is_digit c" and f: "\<forall>c\<in>set f. is_digit c" and ne: "w \<noteq> []" "f \<noteq> []"
  shows "js_number (w @ 46 # f) = rnd (decimal_value w f)"
    and "js_number (45 # w @ 46 # f) = rnd (- decimal_value w f)"
proof -
  have l: "\<not> is_space (last f)" and h: "\<not> is_space (hd w)"
    using w f ne digit_not_sign by (simp_all add: list.set_sel)
  have t: "trim (w @ 46 # f) = w @ 46 # f" "trim (45 # w @ 46 # f) = 45 # w @ 46 # f"
    using l h ne by (intro trim_id; simp add: is_space_def)+
  have r: "\<not> prefix [48, x] (w @ 46 # f)" if "x \<in> {120, 88, 111, 79, 98, 66}" for x
    using w ne(1) by (rule decimal_not_radix) (use that in \<open>auto simp: is_digit_def\<close>)
  show "js_number (w @ 46 # f) = rnd (decimal_value w f)"
    unfolding js_number_def t Let_def read_signed_decimal(1) [OF w f ne(1)] using r ne by simp
  show "js_number (45 # w @ 46 # f) = rnd (- decimal_value w f)"
    unfolding js_number_def t Let_def read_signed_decimal(2) [OF w f ne(1)] by simp
qed

lemma group_rev_Nil [simp]: "group_rev s = [] \<longleftrightarrow> s = []"
  by (cases s rule: group_rev.cases) auto

lemma hd_rev_group: "s \<noteq> [] \<Longrightarrow> last (group_rev s) = last s"
  by (induction s rule: group_rev.induct) (auto split: if_splits)

lemma hd_group_thousands: "s \<noteq> [] \<Longrightarrow> hd (group_thousands s) = hd s"
  by (simp add: group_thousands_def hd_rev hd_rev_group last_rev)

lemma replace_char_Nil: "replace_char c [] s = filter (\<lambda>d. d \<noteq> c) s"
  by (induction s) (auto simp: replace_char_def)

lemma format_en_int:
  assumes "0 \<le> d"
  shows "format_en 3 (of_int d) = group_thousands (show_nat (nat d))"
proof -
  have "\<lfloor>\<bar>of_int d :: rat\<bar> * 10 ^ 3 + 1 / 2\<rfloor> = d * 1000"
    using assms by (intro floor_unique) auto
  then have n: "nat \<lfloor>\<bar>of_int d :: rat\<bar> * 10 ^ 3 + 1 / 2\<rfloor> = nat d * 1000"
    using assms by (simp add: nat_mult_distrib)
  have "strip_zeros (pad_start 3 48 (show_nat 0)) = []"
    by (simp add: strip_zeros_def pad_start_def show_nat.simps [of 0] eval_nat_numeral)
  then show ?thesis using assms unfolding format_en_def n Let_def by simp
qed

lemma num_to_string_int:
  assumes "\<bar>i\<bar> \<le> 2 ^ 53"
  shows "num_to_string (jint i) = show_int i"
proof -
  have "\<bar>rat_of_int i\<bar> \<le> 2 ^ 53" using assms by (metis of_int_abs of_int_le_iff of_int_numeral of_int_power)
  then show ?thesis
    by (cases "i < 0") (simp_all add: unsigned_to_string_def show_int_def flip: of_int_minus)
qed

end
