(* ===== verification/Money.thy ===== *)
theory Money
  imports Domain Js_Text
begin

text \<open>
  The shared helpers of \<open>core/utils.ts\<close>: money in cents (parsing, formatting, cart totals and
  discounts), dates, preferences that are written to \<open>localStorage\<close>, CSV cells, markup removal,
  identifiers and the sizes of a compressed image.
\<close>

section \<open>Money\<close>

definition formatCurrency :: "jsnum \<Rightarrow> jstr \<Rightarrow> jstr" where
  "formatCurrency amount cur =
     (case amount of Fin x \<Rightarrow> format_en 2 x @ 32 # cur | _ \<Rightarrow> js ''0 '' @ cur)"

text \<open>The remainder of cents is printed by \<open>toString\<close>, the whole part grouped.\<close>

definition formatCents :: "jsnum \<Rightarrow> jstr \<Rightarrow> jstr" where
  "formatCents cents cur =
     (case cents of
        Fin c \<Rightarrow>
          (let absCents = js_abs cents;
               remCents = js_mod absCents (Fin 100);
               formattedDollars = (case js_floor (absCents / Fin 100) of
                  Fin d \<Rightarrow> format_en 3 d | e \<Rightarrow> num_to_string e)
           in (if c < 0 then [45] else []) @ formattedDollars @ 46 # pad_start 2 48 (num_to_string remCents)
              @ 32 # cur)
      | _ \<Rightarrow> js ''0.00 '' @ cur)"

text \<open>A line of \<open>calculateCartTotal\<close>: price, quantity and an optional discount.\<close>

record total_line =
  tl_price :: jsnum
  tl_qty :: jsnum
  tl_itemDiscount :: "jsnum option"

definition line_cents :: "jsnum \<Rightarrow> total_line \<Rightarrow> jsnum" where
  "line_cents acc item =
     (let itemPriceCents = js_round (tl_price item * Fin 100);
          itemDiscountCents = js_round (opt_num_or (tl_itemDiscount item) (Fin 0) * Fin 100);
          lineTotalCents = js_round (itemPriceCents * tl_qty item) - itemDiscountCents
      in acc + lineTotalCents)"

definition calculateCartTotal :: "total_line list \<Rightarrow> jsnum" where
  "calculateCartTotal items = js_round (foldl line_cents (Fin 0) items) / Fin 100"

definition calculateDiscount :: "jsnum \<Rightarrow> jsnum \<Rightarrow> jsnum" where
  "calculateDiscount amount discountPercent =
     (let amountCents = js_round (amount * Fin 100);
          discountCents = js_round (amountCents * (discountPercent / Fin 100))
      in discountCents / Fin 100)"

datatype cents_input = In_missing | In_number jsnum | In_text jstr

definition parseCentsFromInput :: "cents_input \<Rightarrow> jsnum" where
  "parseCentsFromInput i =
     (case i of
        In_missing \<Rightarrow> Fin 0
      | In_number n \<Rightarrow> (if is_fin n then js_round (n * Fin 100) else Fin 0)
      | In_text s \<Rightarrow>
          (let cleanStr = replace_char 44 [] (trim s)
           in if cleanStr = [] then Fin 0
              else (let parsed = js_number cleanStr
                    in if is_fin parsed then js_round (parsed * Fin 100) else Fin 0)))"

subsection \<open>Amounts of whole cents\<close>

text \<open>The double nearest to an amount of cents.\<close>

definition of_cents :: "int \<Rightarrow> jsnum" where
  "of_cents p = rnd (of_int p / 100)"

lemma floor_near: "\<bar>z - of_int p\<bar> < 1 / 2 \<Longrightarrow> \<lfloor>z + 1 / 2\<rfloor> = (p::int)" for z :: rat
  by (intro floor_unique; linarith)

lemma rnd_near:
  fixes x :: rat
  assumes "\<bar>x\<bar> \<le> 2 ^ 60"
  obtains y where "rnd x = Fin y" and "\<bar>y - x\<bar> \<le> \<bar>x\<bar> / 2 ^ 53 + 1 / 2 ^ 60"
proof
  have "\<bar>x\<bar> \<le> 2 ^ 1023" using assms
    by (rule order_trans) (rule power_increasing, simp_all)
  then show "rnd x = Fin (rnd_rat x)" by (rule rnd_Fin)
  show "\<bar>rnd_rat x - x\<bar> \<le> \<bar>x\<bar> / 2 ^ 53 + 1 / 2 ^ 60" by (rule rnd_rat_err)
qed

lemma cents_back:
  assumes p: "\<bar>p\<bar> \<le> 2 ^ 50"
  shows "js_round (of_cents p * Fin 100) = jint p"
proof -
  let ?p = "of_int p :: rat"
  have p': "\<bar>?p\<bar> \<le> 2 ^ 50" using p by (metis of_int_abs of_int_le_iff of_int_numeral of_int_power)
  then have "\<bar>?p / 100\<bar> \<le> 2 ^ 60" by simp
  then obtain y where y: "rnd (?p / 100) = Fin y" and ye: "\<bar>y - ?p / 100\<bar> \<le> \<bar>?p / 100\<bar> / 2 ^ 53 + 1 / 2 ^ 60"
    by (rule rnd_near)
  have a: "\<bar>?p / 100\<bar> = \<bar>?p\<bar> / 100" by simp
  have e1: "\<bar>y * 100 - ?p\<bar> \<le> 1 / 8 + 1 / 1000" using ye p' unfolding a abs_le_iff by simp linarith
  then have "\<bar>y * 100\<bar> \<le> 2 ^ 51" using p' unfolding abs_le_iff by simp
  then have yb: "\<bar>y * 100\<bar> \<le> 2 ^ 60" by simp
  then obtain z where z: "rnd (y * 100) = Fin z" and ze: "\<bar>z - y * 100\<bar> \<le> \<bar>y * 100\<bar> / 2 ^ 53 + 1 / 2 ^ 60"
    by (rule rnd_near)
  have "\<bar>z - y * 100\<bar> \<le> 1 / 4 + 1 / 1000" using ze \<open>\<bar>y * 100\<bar> \<le> 2 ^ 51\<close> by simp
  then have "\<bar>z - ?p\<bar> < 1 / 2" using e1 unfolding abs_le_iff abs_less_iff by linarith
  then have "\<lfloor>z + 1 / 2\<rfloor> = p" by (rule floor_near)
  then show ?thesis by (simp add: of_cents_def y z)
qed

lemma of_cents_mono: "p \<le> q \<Longrightarrow> of_cents p \<le> of_cents q"
  unfolding of_cents_def by (rule rnd_mono) (simp add: divide_right_mono)

lemma jint_div_100: "jint p / Fin 100 = of_cents p"
  by (simp add: of_cents_def)

subsection \<open>Totals and discounts are exact in cents\<close>

text \<open>A line with a price and a discount of whole cents and a whole quantity, and its value.\<close>

definition cents_line :: "int \<times> int \<times> int \<Rightarrow> total_line" where
  "cents_line l = (case l of (p, q, d) \<Rightarrow>
     \<lparr> tl_price = of_cents p, tl_qty = jint q, tl_itemDiscount = (if d = 0 then None else Some (of_cents d)) \<rparr>)"

definition line_value :: "int \<times> int \<times> int \<Rightarrow> int" where
  "line_value l = (case l of (p, q, d) \<Rightarrow> p * q - d)"

text \<open>A line in whole cents of any sign: each amount, and price by quantity, up to $2^{50}$; the discount may
  exceed the line.\<close>

definition within_cents :: "int \<times> int \<times> int \<Rightarrow> bool" where
  "within_cents l = (case l of (p, q, d) \<Rightarrow> \<bar>p\<bar> \<le> 2 ^ 50 \<and> \<bar>q\<bar> \<le> 2 ^ 50 \<and> \<bar>p * q\<bar> \<le> 2 ^ 50 \<and> \<bar>d\<bar> \<le> 2 ^ 50)"

lemma opt_cents: "\<bar>d\<bar> \<le> 2 ^ 50 \<Longrightarrow> js_round (opt_num_or (if d = 0 then None else Some (of_cents d)) (Fin 0) * Fin 100) = jint d"
proof (cases "d = 0")
  case True
  then show ?thesis by (simp add: opt_num_or_def)
next
  case False
  assume d: "\<bar>d\<bar> \<le> 2 ^ 50"
  show ?thesis
  proof (cases "truthy (of_cents d)")
    case True
    then show ?thesis using False cents_back [OF d] by (simp add: opt_num_or_def num_or_def)
  next
    case nt: False
    then have "of_cents d = Fin 0" by (auto simp: truthy_def of_cents_def)
    with cents_back [OF d] False show ?thesis by simp
  qed
qed

lemma line_cents_exact:
  assumes l: "within_cents l" and a: "\<bar>a\<bar> \<le> 2 ^ 51"
  shows "line_cents (jint a) (cents_line l) = jint (a + line_value l)"
proof -
  obtain p q d where pqd: "l = (p, q, d)" by (cases l)
  have r: "\<bar>p\<bar> \<le> 2 ^ 50" "\<bar>p * q\<bar> \<le> 2 ^ 50" "\<bar>d\<bar> \<le> 2 ^ 50"
    using l by (auto simp: within_cents_def pqd)
  have pr: "js_round (of_cents p * Fin 100) = jint p" by (rule cents_back) (use r in simp)
  have dr: "js_round (opt_num_or (if d = 0 then None else Some (of_cents d)) (Fin 0) * Fin 100) = jint d"
    by (rule opt_cents) (use r in simp)
  have "jint p * jint q = jint (p * q)" by (rule jint_mult) (use r in simp)
  then have m: "js_round (jint p * jint q) = jint (p * q)" by simp
  have s: "jint (p * q) - jint d = jint (p * q - d)" by (rule jint_diff) (use r in \<open>simp add: abs_le_iff\<close>)
  have "jint a + jint (p * q - d) = jint (a + (p * q - d))"
    by (rule jint_add) (use r a in \<open>simp add: abs_le_iff\<close>)
  then show ?thesis using pr dr m s by (simp add: line_cents_def cents_line_def line_value_def pqd Let_def)
qed

lemma fold_lines_exact:
  assumes "\<forall>l\<in>set ls. within_cents l" and "\<bar>a\<bar> + sum_list (map (\<lambda>l. \<bar>line_value l\<bar>) ls) \<le> 2 ^ 51"
  shows "foldl line_cents (jint a) (map cents_line ls) = jint (a + sum_list (map line_value ls))"
  using assms
proof (induction ls arbitrary: a)
  case (Cons l ls)
  have rest: "0 \<le> sum_list (map (\<lambda>l. \<bar>line_value l\<bar>) ls)" by (rule sum_list_nonneg) auto
  have "line_cents (jint a) (cents_line l) = jint (a + line_value l)"
    by (rule line_cents_exact) (use Cons.prems rest in auto)
  moreover have "\<bar>a + line_value l\<bar> + sum_list (map (\<lambda>l. \<bar>line_value l\<bar>) ls) \<le> 2 ^ 51"
    using Cons.prems(2) abs_triangle_ineq [of a "line_value l"] by simp
  ultimately show ?case using Cons.IH [of "a + line_value l"] Cons.prems(1) by (simp add: add.assoc)
qed simp

text \<open>C5. The cart total of the money helpers has no floating point drift: for any number of lines
  whose prices and discounts are the doubles nearest to whole cents and whose quantities are whole,
  of any sign, with discounts that may exceed their lines, the result is the double nearest to the exact
  total in cents. Prices, quantities, discounts and price by quantity are up to $2^{50}$ in size, the values
  of all lines together up to $2^{51}$.\<close>

theorem cart_total_exact:
  assumes "\<forall>l\<in>set ls. within_cents l" and "sum_list (map (\<lambda>l. \<bar>line_value l\<bar>) ls) \<le> 2 ^ 51"
  shows "calculateCartTotal (map cents_line ls) = of_cents (sum_list (map line_value ls))"
proof -
  have "foldl line_cents (jint 0) (map cents_line ls) = jint (0 + sum_list (map line_value ls))"
    by (rule fold_lines_exact) (use assms in auto)
  then show ?thesis by (simp add: calculateCartTotal_def of_cents_def)
qed

theorem cart_total_exact_witness:
  "calculateCartTotal (map cents_line [(10, 1, 0), (20, 1, 0), (1999, 3, 150), (100, 1, 500)]) = of_cents 5477"
  using cart_total_exact [of "[(10, 1, 0), (20, 1, 0), (1999, 3, 150), (100, 1, 500)]"]
  by (simp add: within_cents_def line_value_def)

lemma round_near_le: "\<bar>z - w\<bar> \<le> e \<Longrightarrow> \<bar>of_int \<lfloor>z + 1 / 2\<rfloor> - w\<bar> \<le> 1 / 2 + e" for z :: rat
  by linarith

text \<open>A percentage discount of an amount in whole cents is between zero and the amount, and is
  the rounding to a double of a number of whole cents that is within half a cent (and the drift of a
  thousandth) of the exact percentage.\<close>

lemma discount_in_cents:
  assumes a: "0 \<le> a" "a \<le> 2 ^ 40" and pct: "0 \<le> pct" "pct \<le> 100"
  shows "\<exists>d. calculateDiscount (of_cents a) (Fin pct) = of_cents d \<and> 0 \<le> d \<and> d \<le> a
     \<and> \<bar>of_int d - of_int a * pct / 100\<bar> \<le> 1 / 2 + 1 / 1000"
proof -
  let ?a = "of_int a :: rat"
  have aq: "0 \<le> ?a" "?a \<le> 2 ^ 40" using a by (simp, metis of_int_le_iff of_int_numeral of_int_power)
  have "\<bar>pct / 100\<bar> \<le> 2 ^ 60" using pct by simp
  then obtain t where t: "rnd (pct / 100) = Fin t" and te: "\<bar>t - pct / 100\<bar> \<le> \<bar>pct / 100\<bar> / 2 ^ 53 + 1 / 2 ^ 60"
    by (rule rnd_near)
  have t01: "0 \<le> t" "t \<le> 1"
    using rnd_mono [of 0 "pct / 100"] rnd_mono [of "pct / 100" 1] pct rnd_numeral [of num.One] t
    by simp_all
  have at: "0 \<le> ?a * t" "?a * t \<le> ?a" using aq t01 by (simp_all add: mult_left_le)
  then have "\<bar>?a * t\<bar> \<le> 2 ^ 60" using aq by simp
  then obtain z where z: "rnd (?a * t) = Fin z" and ze: "\<bar>z - ?a * t\<bar> \<le> \<bar>?a * t\<bar> / 2 ^ 53 + 1 / 2 ^ 60"
    by (rule rnd_near)
  have "rnd ?a = Fin ?a" by (rule rnd_int) (use a in simp)
  then have z01: "0 \<le> z" "z \<le> ?a" using rnd_mono [OF at(1)] rnd_mono [OF at(2)] z by simp_all
  define d where "d = \<lfloor>z + 1 / 2\<rfloor>"
  have d: "0 \<le> d" "d \<le> a" unfolding d_def using z01 by linarith+
  have "\<bar>t - pct / 100\<bar> \<le> 1 / 2 ^ 52" using te pct by simp
  then have "?a * \<bar>t - pct / 100\<bar> \<le> 2 ^ 40 * (1 / 2 ^ 52)" using aq by (intro mult_mono) auto
  moreover have "\<bar>?a * t - ?a * pct / 100\<bar> = ?a * \<bar>t - pct / 100\<bar>"
  proof -
    have "?a * t - ?a * pct / 100 = ?a * (t - pct / 100)" by (simp add: right_diff_distrib)
    then show ?thesis using aq(1) by (simp only: abs_mult abs_of_nonneg)
  qed
  ultimately have "\<bar>?a * t - ?a * pct / 100\<bar> \<le> 1 / 4000" by simp
  moreover have "\<bar>z - ?a * t\<bar> \<le> 1 / 4000" using ze at aq by simp
  ultimately have "\<bar>z - ?a * pct / 100\<bar> \<le> 1 / 1000" unfolding abs_le_iff by linarith
  then have near: "\<bar>of_int d - ?a * pct / 100\<bar> \<le> 1 / 2 + 1 / 1000" unfolding d_def by (rule round_near_le)
  have "js_round (of_cents a * Fin 100) = jint a" by (rule cents_back) (use a in simp)
  then have "calculateDiscount (of_cents a) (Fin pct) = of_cents d"
    by (simp add: calculateDiscount_def t z d_def of_cents_def)
  with d near show ?thesis by blast
qed

lemma discount_in_cents_witness:
  "\<exists>d. calculateDiscount (of_cents 1555) (Fin 15) = of_cents d \<and> 0 \<le> d \<and> d \<le> 1555
     \<and> \<bar>of_int d - of_int 1555 * 15 / 100\<bar> \<le> (1 / 2 + 1 / 1000 :: rat)"
  using discount_in_cents [of 1555 15] by simp

subsection \<open>Printing and parsing cents\<close>

lemma floor_rnd_div:
  assumes "0 \<le> n" "n \<le> 2 ^ 50"
  shows "js_floor (jint n / Fin 100) = jint (n div 100)"
proof -
  let ?n = "of_int n :: rat" and ?k = "n div 100"
  have nq: "0 \<le> ?n" "?n \<le> 2 ^ 50" using assms by (simp, metis of_int_le_iff of_int_numeral of_int_power)
  have "n = 100 * ?k + n mod 100" and "n mod 100 \<le> 99" by simp_all
  then have "n \<le> 100 * ?k + 99" and "100 * ?k \<le> n" by linarith+
  then have "?n \<le> of_int (100 * ?k + 99)" and "of_int (100 * ?k) \<le> ?n" by (simp_all only: of_int_le_iff)
  then have up: "?n / 100 \<le> of_int ?k + 99 / 100" and lo: "of_int ?k \<le> ?n / 100" by simp_all
  have "\<bar>?n / 100\<bar> \<le> 2 ^ 60" using nq by simp
  then obtain y where y: "rnd (?n / 100) = Fin y" and ye: "\<bar>y - ?n / 100\<bar> \<le> \<bar>?n / 100\<bar> / 2 ^ 53 + 1 / 2 ^ 60"
    by (rule rnd_near)
  have "?k \<le> n" using assms(1) by (simp add: zdiv_mono2 [of n 1 100, simplified])
  moreover have "0 \<le> ?k" using assms(1) by (simp add: pos_imp_zdiv_nonneg_iff)
  ultimately have "\<bar>?k\<bar> \<le> 2 ^ 53" using assms by simp
  then have "rnd (of_int ?k) = jint ?k" by (rule rnd_int)
  then have "of_int ?k \<le> y" using rnd_mono [OF lo] y by simp
  moreover have "\<bar>?n / 100\<bar> = ?n / 100" using nq by simp
  then have "y < of_int ?k + 1" using ye up nq unfolding abs_le_iff by simp
  ultimately have "\<lfloor>y\<rfloor> = ?k" by (intro floor_unique)
  then show ?thesis by (simp add: y)
qed

lemma mod_cents:
  assumes "0 \<le> n"
  shows "js_mod (jint n) (Fin 100) = jint (n mod 100)"
proof -
  have "\<lfloor>of_int n / (100::rat)\<rfloor> = n div 100" using floor_divide_of_int_eq [of n 100] by simp
  moreover have "rat_of_int n - 100 * of_int (n div 100) = of_int (n mod 100)"
    by (metis minus_mult_div_eq_mod of_int_diff of_int_mult of_int_numeral)
  ultimately show ?thesis using assms by simp
qed

lemma digits_pad: "\<forall>c\<in>set (pad_start d 48 (show_nat n)). is_digit c"
  using show_nat_digits by (auto simp: pad_start_def is_digit_def)

lemma length_pad_cents: "n < 100 \<Longrightarrow> length (pad_start 2 48 (show_nat n)) = 2"
  by (auto simp: pad_start_def show_nat.simps [of n] show_nat.simps [of "n div 10"])

lemma pad_ne: "pad_start d 48 (show_nat n) \<noteq> []"
  by (simp add: pad_start_def)

text \<open>The printed form of an amount in cents.\<close>

lemma formatCents_int:
  assumes "\<bar>c\<bar> \<le> 2 ^ 50"
  shows "formatCents (jint c) cur = (if c < 0 then [45] else [])
     @ group_thousands (show_nat (nat (\<bar>c\<bar> div 100))) @ 46 # pad_start 2 48 (show_nat (nat (\<bar>c\<bar> mod 100))) @ 32 # cur"
proof -
  have fl: "js_floor (jint \<bar>c\<bar> / Fin 100) = jint (\<bar>c\<bar> div 100)" by (rule floor_rnd_div) (use assms in auto)
  have md: "js_mod (jint \<bar>c\<bar>) (Fin 100) = jint (\<bar>c\<bar> mod 100)" by (rule mod_cents) simp
  have "0 \<le> \<bar>c\<bar> mod 100 \<and> \<bar>c\<bar> mod 100 < 100" by simp
  then have ns: "num_to_string (jint (\<bar>c\<bar> mod 100)) = show_nat (nat (\<bar>c\<bar> mod 100))"
    by (subst num_to_string_int) (auto simp: show_int_def)
  have fe: "format_en 3 (of_int (\<bar>c\<bar> div 100)) = group_thousands (show_nat (nat (\<bar>c\<bar> div 100)))"
    by (rule format_en_int) (simp add: pos_imp_zdiv_nonneg_iff)
  have ab: "js_abs (jint c) = jint \<bar>c\<bar>" by simp
  show ?thesis unfolding formatCents_def Let_def ab fl md by (simp only: jsnum.case ns fe) simp
qed

lemma trim_printed:
  assumes "x \<noteq> []" and "\<not> is_space (hd x)" and "f \<noteq> []" and "\<forall>c\<in>set f. is_digit c"
  shows "trim (x @ 46 # f @ [32]) = x @ 46 # f"
proof -
  have "trim ((x @ 46 # f) @ [32]) = trim (x @ 46 # f)" by (rule trim_space_end) (simp add: is_space_def)
  also have "\<dots> = x @ 46 # f"
    by (rule trim_id) (use assms digit_not_sign in \<open>auto simp: hd_append\<close>)
  finally show ?thesis by simp
qed

text \<open>Printing and parsing an amount agree: the text that \<open>formatCents\<close> produces for a whole number
  of cents, grouped thousands and all, is parsed by \<open>parseCentsFromInput\<close> back to the same number of
  cents, for amounts up to \<open>2 ^ 50\<close> cents of either sign.\<close>

lemma parse_format_cents:
  assumes "\<bar>c\<bar> \<le> 2 ^ 50"
  shows "parseCentsFromInput (In_text (formatCents (jint c) [])) = jint c"
proof -
  define w where "w = show_nat (nat (\<bar>c\<bar> div 100))"
  define f where "f = pad_start 2 48 (show_nat (nat (\<bar>c\<bar> mod 100)))"
  define sgn where "sgn = (if c < 0 then [45] else [] :: jstr)"
  have m: "0 \<le> \<bar>c\<bar> mod 100" "\<bar>c\<bar> mod 100 < 100" by simp_all
  have w: "w \<noteq> []" "\<forall>x\<in>set w. is_digit x" unfolding w_def using show_nat_digits by auto
  have f: "f \<noteq> []" "\<forall>x\<in>set f. is_digit x" unfolding f_def using digits_pad pad_ne by auto
  have lf: "length f = 2" unfolding f_def by (rule length_pad_cents) (use m in linarith)
  have printed: "formatCents (jint c) [] = (sgn @ group_thousands w) @ 46 # f @ [32]"
    unfolding formatCents_int [OF assms] w_def f_def sgn_def by simp
  have gne: "group_thousands w \<noteq> []" using w by (simp add: group_thousands_def)
  have ns: "\<not> is_space (hd (sgn @ group_thousands w))"
    using w digit_not_sign by (auto simp: sgn_def hd_append gne hd_group_thousands is_space_def)
  have tr: "trim (formatCents (jint c) []) = (sgn @ group_thousands w) @ 46 # f"
    unfolding printed by (rule trim_printed) (use gne ns f in auto)
  have "(44::nat) \<notin> set w" and "(44::nat) \<notin> set f" using w f comma_not_digit by blast+
  then have fw: "filter (\<lambda>d. d \<noteq> 44) (group_thousands w) = w" and ff: "filter (\<lambda>d. d \<noteq> 44) f = f"
    by (auto simp: remove_commas_thousands intro!: filter_True)
  have cl: "replace_char 44 [] (trim (formatCents (jint c) [])) = sgn @ w @ 46 # f"
    unfolding tr replace_char_Nil by (simp add: fw ff sgn_def)
  have "100 * (\<bar>c\<bar> div 100) + \<bar>c\<bar> mod 100 = \<bar>c\<bar>" by simp
  then have "rat_of_int (100 * (\<bar>c\<bar> div 100) + \<bar>c\<bar> mod 100) = of_int \<bar>c\<bar>" by (simp only:)
  then have dv: "decimal_value w f = of_int \<bar>c\<bar> / 100"
  proof -
    have "read_nat w = nat (\<bar>c\<bar> div 100)" "read_nat f = nat (\<bar>c\<bar> mod 100)" by (simp_all add: w_def f_def)
    moreover have "0 \<le> \<bar>c\<bar> div 100" by (simp add: pos_imp_zdiv_nonneg_iff)
    moreover have "rat_of_int \<bar>c\<bar> = 100 * of_int (\<bar>c\<bar> div 100) + of_int (\<bar>c\<bar> mod 100)"
      using \<open>rat_of_int (100 * (\<bar>c\<bar> div 100) + \<bar>c\<bar> mod 100) = of_int \<bar>c\<bar>\<close>
      by (simp only: of_int_add of_int_mult of_int_numeral)
    ultimately show ?thesis using m by (simp only: decimal_value_def lf) (simp add: field_simps)
  qed
  have "js_number (sgn @ w @ 46 # f) = of_cents c"
    using js_number_decimal [OF w(2) f(2) w(1) f(1)]
    by (cases "c < 0") (simp_all add: sgn_def dv of_cents_def)
  moreover have "is_fin (of_cents c)"
    using cents_back [OF assms] by (cases "of_cents c") (simp_all add: is_fin_def inf_of_def)
  ultimately show ?thesis using cents_back [OF assms] cl
    by (simp add: parseCentsFromInput_def Let_def)
qed

lemma parse_format_cents_witness:
  "parseCentsFromInput (In_text (formatCents (jint (- 123456789)) [])) = jint (- 123456789)"
  using parse_format_cents [of "- 123456789"] by simp

end
