(* ===== verification/Utils.thy ===== *)
theory Utils
  imports Domain Js_Text
begin

text \<open>
  The helpers of \<open>core/utils.ts\<close> that are not about money: local dates, preferences on their way
  to \<open>localStorage\<close>, parsing what is stored there, identifiers, CSV cells, markup removal and the
  size a picture is reduced to.
\<close>

section \<open>Local dates\<close>

text \<open>What \<open>getFullYear\<close>, \<open>getMonth\<close> and \<open>getDate\<close> return for a date in local time.\<close>

record local_date =
  d_year :: int
  d_month :: nat
  d_day :: nat

definition getLocalDateString :: "local_date \<Rightarrow> jstr" where
  "getLocalDateString d =
     show_int (d_year d) @ 45 # pad_start 2 48 (show_nat (d_month d + 1))
       @ 45 # pad_start 2 48 (show_nat (d_day d))"

text \<open>The comparison of two strings by code units.\<close>

abbreviation str_less :: "jstr \<Rightarrow> jstr \<Rightarrow> bool" where
  "str_less \<equiv> ord_class.lexordp"

lemma str_less_append:
  "length a = length b \<Longrightarrow> str_less (a @ x) (b @ y) \<longleftrightarrow> str_less a b \<or> a = b \<and> str_less x y"
  by (induction a b rule: list_induct2) auto

lemma read_nat_Cons: "read_nat (c # s) = (c - 48) * 10 ^ length s + read_nat s"
  using read_nat_append [of "[c]" s] by (simp add: read_nat_def)

lemma read_nat_bound: "\<forall>c\<in>set s. is_digit c \<Longrightarrow> read_nat s < 10 ^ length s"
proof (induction s)
  case Nil
  then show ?case by (simp add: read_nat_def)
next
  case (Cons c s)
  then have "c - 48 \<le> 9" "read_nat s < 10 ^ length s" by (auto simp: is_digit_def)
  then have "(c - 48) * 10 ^ length s \<le> 9 * 10 ^ length s" by (intro mult_le_mono) auto
  then have "(c - 48) * 10 ^ length s + read_nat s < 10 * 10 ^ length s"
    using \<open>read_nat s < 10 ^ length s\<close> by linarith
  then show ?case by (simp add: read_nat_Cons)
qed

text \<open>Numbers of the same width are ordered as their texts are.\<close>

lemma digits_less_step:
  assumes "(p::nat) < k" "q < k"
  shows "m * k + p < n * k + q \<longleftrightarrow> m < n \<or> m = n \<and> p < q"
proof (cases "m < n")
  case True
  then have "Suc m * k \<le> n * k" by (intro mult_le_mono) auto
  then show ?thesis using assms True by simp
next
  case False
  show ?thesis
  proof (cases "m = n")
    case True
    then show ?thesis by simp
  next
    case ne: False
    then have "Suc n * k \<le> m * k" using False by (intro mult_le_mono) auto
    then show ?thesis using assms False ne by simp
  qed
qed

lemma str_less_digits:
  "length a = length b \<Longrightarrow> \<forall>c\<in>set a. is_digit c \<Longrightarrow> \<forall>c\<in>set b. is_digit c
   \<Longrightarrow> str_less a b \<longleftrightarrow> read_nat a < read_nat b"
proof (induction a b rule: list_induct2)
  case Nil
  then show ?case by simp
next
  case (Cons x xs y ys)
  have "read_nat xs < 10 ^ length ys" "read_nat ys < 10 ^ length ys"
    using Cons.prems Cons.hyps read_nat_bound [of xs] read_nat_bound [of ys] by auto
  then have "read_nat (x # xs) < read_nat (y # ys) \<longleftrightarrow> x - 48 < y - 48 \<or> x - 48 = y - 48 \<and> read_nat xs < read_nat ys"
    unfolding read_nat_Cons Cons.hyps by (rule digits_less_step)
  moreover have "48 \<le> x" "48 \<le> y" using Cons.prems by (auto simp: is_digit_def)
  ultimately show ?case using Cons by (auto simp: less_diff_iff eq_diff_iff)
qed

lemma length_show_nat: "0 < k \<Longrightarrow> n < 10 ^ k \<Longrightarrow> length (show_nat n) \<le> k"
proof (induction k arbitrary: n)
  case 0
  then show ?case by simp
next
  case (Suc k)
  show ?case
  proof (cases "n < 10")
    case True
    then show ?thesis by (simp add: show_nat.simps [of n])
  next
    case False
    then have "0 < k" using Suc.prems by (cases k) auto
    moreover have "n div 10 < 10 ^ k" using Suc.prems by (simp add: div_less_iff_less_mult mult.commute)
    ultimately show ?thesis using Suc.IH [of "n div 10"] False by (simp add: show_nat.simps [of n])
  qed
qed

lemma length_show_nat_ge: "10 ^ k \<le> n \<Longrightarrow> k < length (show_nat n)"
proof (induction k arbitrary: n)
  case 0
  then show ?case by simp
next
  case (Suc k)
  then have "10 ^ k \<le> n div 10" by (simp add: less_eq_div_iff_mult_less_eq mult.commute)
  moreover have "\<not> n < 10"
  proof
    assume "n < 10"
    moreover have "1 \<le> (10::nat) ^ k" by simp
    ultimately show False using Suc.prems unfolding power_Suc by linarith
  qed
  ultimately show ?case using Suc.IH [of "n div 10"] by (simp add: show_nat.simps [of n])
qed

definition date_ok :: "local_date \<Rightarrow> bool" where
  "date_ok d = (1000 \<le> d_year d \<and> d_year d \<le> 9999 \<and> d_month d < 12 \<and> 1 \<le> d_day d \<and> d_day d \<le> 31)"

definition date_less :: "local_date \<Rightarrow> local_date \<Rightarrow> bool" where
  "date_less a b = (d_year a < d_year b \<or> d_year a = d_year b \<and>
     (d_month a < d_month b \<or> d_month a = d_month b \<and> d_day a < d_day b))"

lemma pad2:
  assumes "n < 100"
  shows "length (pad_start 2 48 (show_nat n)) = 2" and "\<forall>c\<in>set (pad_start 2 48 (show_nat n)). is_digit c"
  using length_show_nat [of 2 n] assms show_nat_digits by (auto simp: pad_start_def is_digit_def)

lemma year4:
  assumes "1000 \<le> y" "y \<le> 9999"
  shows "length (show_int y) = 4" and "\<forall>c\<in>set (show_int y). is_digit c" and "read_nat (show_int y) = nat y"
proof -
  have "1000 \<le> nat y" "nat y < 10000" using assms by linarith+
  then have "length (show_nat (nat y)) = 4"
    using length_show_nat [of 4 "nat y"] length_show_nat_ge [of 3 "nat y"] by simp
  then show "length (show_int y) = 4" and "\<forall>c\<in>set (show_int y). is_digit c" and "read_nat (show_int y) = nat y"
    using assms show_nat_digits by (auto simp: show_int_def)
qed

text \<open>Local date strings sort as the dates do: for dates of four-digit years, comparing the texts by
  code units compares the dates, so the string comparisons of the program are date comparisons.\<close>

lemma date_strings_sorted:
  assumes "date_ok a" and "date_ok b"
  shows "str_less (getLocalDateString a) (getLocalDateString b) \<longleftrightarrow> date_less a b"
proof -
  have ya: "1000 \<le> d_year a" "d_year a \<le> 9999" and yb: "1000 \<le> d_year b" "d_year b \<le> 9999"
    and m: "Suc (d_month a) < 100" "Suc (d_month b) < 100" and d: "d_day a < 100" "d_day b < 100"
    using assms by (auto simp: date_ok_def)
  have eq: "(x = y) = (read_nat x = read_nat y)" if "length x = length y" "\<forall>c\<in>set x. is_digit c" "\<forall>c\<in>set y. is_digit c"
    for x y :: jstr
  proof -
    have "str_less x y \<or> x = y \<or> str_less y x" by (rule lexordp_linear)
    then show ?thesis using str_less_digits [of x y] str_less_digits [of y x] that by auto
  qed
  note less = str_less_digits and years = year4 [OF ya] year4 [OF yb]
  note months = pad2 [OF m(1)] pad2 [OF m(2)] and days = pad2 [OF d(1)] pad2 [OF d(2)]
  show ?thesis
    using ya yb unfolding getLocalDateString_def date_less_def
    by (simp add: str_less_append less years months days eq eq_nat_nat_iff)
qed

lemma date_strings_sorted_witness:
  "str_less (getLocalDateString \<lparr> d_year = 2024, d_month = 8, d_day = 30 \<rparr>)
     (getLocalDateString \<lparr> d_year = 2024, d_month = 9, d_day = 1 \<rparr>)"
  by (subst date_strings_sorted) (auto simp: date_ok_def date_less_def)

section \<open>Preferences on their way to localStorage\<close>

definition MASKED :: jstr where
  "MASKED = js ''********''"

definition secretKeys :: "jstr list" where
  "secretKeys = [js ''adminPin'', js ''geminiApiKey'', js ''geminiApiKeys'', js ''groqApiKey'',
     js ''AdminPin'', js ''GeminiAPIKey'', js ''GeminiAPIKeys'', js ''GroqAPIKey'']"

definition masked :: "json \<Rightarrow> json" where
  "masked v = (case v of JArr _ \<Rightarrow> JArr [JStr MASKED] | _ \<Rightarrow> JStr MASKED)"

definition mask_key :: "(jstr \<times> json) list \<Rightarrow> jstr \<Rightarrow> (jstr \<times> json) list" where
  "mask_key sanitized key =
     (if key \<in> fst ` set sanitized then obj_put key (masked (obj_get sanitized key)) sanitized else sanitized)"

definition sanitizePrefsForStorage :: "(jstr \<times> json) list \<Rightarrow> (jstr \<times> json) list" where
  "sanitizePrefsForStorage prefs = foldl mask_key prefs secretKeys"

lemma map_of_mask_key:
  "map_of (mask_key o' k) j = (if j = k then map_option masked (map_of o' j) else map_of o' j)"
  using map_of_eq_None_iff [of o' k]
  by (cases "map_of o' k") (auto simp: mask_key_def obj_get_def)

lemma keys_mask_key: "map fst (mask_key o' k) = map fst o'"
proof -
  have "k \<in> fst ` set o' \<Longrightarrow> map fst (obj_put k v o') = map fst o'" for v
    by (induction o') force+
  then show ?thesis by (auto simp: mask_key_def)
qed

lemma masked_idem: "masked (masked v) = masked v"
  by (cases v) (auto simp: masked_def)

lemma foldl_mask:
  "map_of (foldl mask_key o' ks) j = (if j \<in> set ks then map_option masked (map_of o' j) else map_of o' j)"
  by (induction ks arbitrary: o')
    (auto simp: map_of_mask_key option.map_comp o_def masked_idem)

lemma keys_foldl_mask: "map fst (foldl mask_key o' ks) = map fst o'"
  by (induction ks arbitrary: o') (auto simp: keys_mask_key)

lemma secret_names:
  "set secretKeys = {js ''adminPin'', js ''geminiApiKey'', js ''geminiApiKeys'', js ''groqApiKey'',
     js ''AdminPin'', js ''GeminiAPIKey'', js ''GeminiAPIKeys'', js ''GroqAPIKey''}"
  by (simp only: secretKeys_def list.set)

text \<open>C6. No secret reaches the disk: in the preferences that are mirrored to \<open>localStorage\<close> every
  property named like a secret (PIN, API keys, in both spellings of the backend) holds the mask,
  or an array of the mask, while every other property, the property names and their order are
  unchanged.\<close>

theorem prefs_secrets_masked:
  "map fst (sanitizePrefsForStorage prefs) = map fst prefs
   \<and> map_of (sanitizePrefsForStorage prefs) k
       = (if k \<in> {js ''adminPin'', js ''geminiApiKey'', js ''geminiApiKeys'', js ''groqApiKey'',
               js ''AdminPin'', js ''GeminiAPIKey'', js ''GeminiAPIKeys'', js ''GroqAPIKey''}
          then map_option (\<lambda>v. case v of JArr _ \<Rightarrow> JArr [JStr MASKED] | _ \<Rightarrow> JStr MASKED) (map_of prefs k)
          else map_of prefs k)"
  unfolding secret_names [symmetric]
  by (simp add: sanitizePrefsForStorage_def foldl_mask keys_foldl_mask masked_def [abs_def])

section \<open>Stored values\<close>

text \<open>\<open>localStorage.getItem(key)\<close> and \<open>JSON.parse\<close>, which throws (\<open>None\<close>) on other texts.\<close>

definition safeJSONParse :: "(jstr \<Rightarrow> 'a option) \<Rightarrow> (jstr \<Rightarrow> jstr option) \<Rightarrow> jstr \<Rightarrow> 'a \<Rightarrow> 'a" where
  "safeJSONParse parse storage key fallback =
     (case storage key of
        None \<Rightarrow> fallback
      | Some item \<Rightarrow> if item = [] then fallback
          else (case parse item of None \<Rightarrow> fallback | Some v \<Rightarrow> v))"

lemma safeJSONParse_total:
  "safeJSONParse parse storage key fallback \<noteq> fallback \<Longrightarrow>
   \<exists>item. storage key = Some item \<and> item \<noteq> [] \<and> parse item = Some (safeJSONParse parse storage key fallback)"
  by (auto simp: safeJSONParse_def split: option.splits if_splits)

section \<open>Identifiers\<close>

text \<open>\<open>n.toString(36)\<close>.\<close>

fun show_36 :: "nat \<Rightarrow> jstr" where
  "show_36 n = (let d = n mod 36; c = (if d < 10 then 48 + d else 87 + d)
                in if n < 36 then [c] else show_36 (n div 36) @ [c])"

declare show_36.simps [simp del]

text \<open>\<open>uuid\<close> is what \<open>crypto.randomUUID\<close> returns where it exists, \<open>rand\<close> is
  \<open>Math.random().toString(36)\<close>.\<close>

definition generateId :: "jstr option \<Rightarrow> nat \<Rightarrow> jstr \<Rightarrow> jstr" where
  "generateId uuid now rand =
     (case uuid of
        Some u \<Rightarrow> hd (split_on 45 u)
      | None \<Rightarrow> show_36 now @ take 7 (drop 2 rand))"

lemma generateId_uuid:
  "45 \<notin> set g \<Longrightarrow> generateId (Some (g @ 45 # r)) now rand = g"
  by (simp add: generateId_def split_on_append)

section \<open>CSV cells\<close>

text \<open>The class \<open>[=+\-@\t\r\n|%]\<close> of \<open>sanitizeCSVCell\<close>.\<close>

definition formula_start :: "nat \<Rightarrow> bool" where
  "formula_start c = (c \<in> {61, 43, 45, 64, 9, 13, 10, 124, 37})"

definition sanitizeCSVCell :: "json \<Rightarrow> jstr" where
  "sanitizeCSVCell value =
     (if value = JUndef \<or> value = JNull then []
      else (let str = js_string value; trimmed = trim_start str
            in if trimmed \<noteq> [] \<and> formula_start (hd trimmed) then 39 # str else str))"

text \<open>What a spreadsheet takes for a formula: the first visible code unit.\<close>

definition is_formula :: "jstr \<Rightarrow> bool" where
  "is_formula s = (trim_start s \<noteq> [] \<and> formula_start (hd (trim_start s)))"

lemma guard_not_formula: "\<not> is_formula (if trim_start s \<noteq> [] \<and> formula_start (hd (trim_start s)) then 39 # s else s)"
  by (auto simp: is_formula_def formula_start_def trim_start_def is_space_def)

text \<open>No cell of any value is read as a formula by a spreadsheet: the first visible character of
  a sanitized cell is never one of the trigger characters, a cell without a trigger is unchanged,
  and one with a trigger only gains the leading quote.\<close>

lemma csv_cell_no_formula:
  "\<not> is_formula (sanitizeCSVCell v)
   \<and> (sanitizeCSVCell v = js_string v \<or> sanitizeCSVCell v = 39 # js_string v
      \<or> sanitizeCSVCell v = [] \<and> v \<in> {JUndef, JNull})"
proof -
  have "\<not> is_formula []" by (simp add: is_formula_def trim_start_def)
  moreover note guard_not_formula [of "js_string v"]
  ultimately show ?thesis by (cases "v = JUndef \<or> v = JNull") (auto simp: sanitizeCSVCell_def Let_def)
qed

section \<open>Removing markup\<close>

definition word_char :: "nat \<Rightarrow> bool" where
  "word_char c = (is_digit c \<or> 65 \<le> c \<and> c \<le> 90 \<or> 97 \<le> c \<and> c \<le> 122 \<or> c = 95)"

definition ascii_lower :: "nat \<Rightarrow> nat" where
  "ascii_lower c = (if 65 \<le> c \<and> c \<le> 90 then c + 32 else c)"

text \<open>A literal of a regular expression with the flag \<open>i\<close>.\<close>

definition ci_prefix :: "jstr \<Rightarrow> jstr \<Rightarrow> bool" where
  "ci_prefix p s = prefix p (map ascii_lower s)"

definition script_close :: jstr where
  "script_close = js ''</script>''"

text \<open>What follows the first closing tag: the class \<open>[^<]*\<close> and the guarded repetition stop there
  and nowhere before.\<close>

fun after_close :: "jstr \<Rightarrow> jstr option" where
  "after_close [] = None"
| "after_close (c # s) = (if ci_prefix script_close (c # s) then Some (drop 8 s) else after_close s)"

definition script_match :: "jstr \<Rightarrow> jstr option" where
  "script_match s =
     (if ci_prefix (js ''<script'') s \<and> (drop 7 s = [] \<or> \<not> word_char (hd (drop 7 s)))
      then after_close (drop 7 s) else None)"

lemma after_close_length: "after_close s = Some r \<Longrightarrow> length r \<le> length s"
  by (induction s) (auto split: if_splits)

lemma script_match_length: "script_match (c # s) = Some r \<Longrightarrow> length r < length (c # s)"
  using after_close_length [of "drop 7 (c # s)" r]
  by (auto simp: script_match_def split: if_splits)

function strip_scripts :: "jstr \<Rightarrow> jstr" where
  "strip_scripts [] = []"
| "strip_scripts (c # s) = (case script_match (c # s) of
     Some r \<Rightarrow> strip_scripts r | None \<Rightarrow> c # strip_scripts s)"
  by pat_completeness auto

termination
  by (relation "measure length") (use script_match_length in \<open>auto dest: script_match_length\<close>)

text \<open>The rest after a match of \<open><[^>]+>\<close> at the start.\<close>

definition tag_match :: "jstr \<Rightarrow> jstr option" where
  "tag_match s =
     (case s of
        c # d # r \<Rightarrow> (if c = 60 \<and> d \<noteq> 62 \<and> 62 \<in> set r then Some (tl (dropWhile (\<lambda>x. x \<noteq> 62) r)) else None)
      | _ \<Rightarrow> None)"

lemma tag_match_length: "tag_match (c # s) = Some r \<Longrightarrow> length r < length (c # s)"
proof -
  assume m: "tag_match (c # s) = Some r"
  then obtain d t where s: "s = d # t" and r: "r = tl (dropWhile (\<lambda>x. x \<noteq> 62) t)"
    by (auto simp: tag_match_def split: list.splits if_splits)
  have "length (dropWhile (\<lambda>x. x \<noteq> 62) t) \<le> length t" by (rule length_dropWhile_le)
  then show ?thesis using s r by simp
qed

function strip_tags :: "jstr \<Rightarrow> jstr" where
  "strip_tags [] = []"
| "strip_tags (c # s) = (case tag_match (c # s) of
     Some r \<Rightarrow> strip_tags r | None \<Rightarrow> c # strip_tags s)"
  by pat_completeness auto

termination
  by (relation "measure length") (use tag_match_length in \<open>auto dest: tag_match_length\<close>)

definition sanitizeInput :: "jstr \<Rightarrow> jstr" where
  "sanitizeInput input = (if input = [] then [] else trim (strip_tags (strip_scripts input)))"

text \<open>A match of \<open><[^>]+>\<close> anywhere.\<close>

definition has_tag :: "jstr \<Rightarrow> bool" where
  "has_tag s = (\<exists>a b c. s = a @ 60 # b @ 62 # c \<and> b \<noteq> [] \<and> 62 \<notin> set b)"

lemma has_tag_Cons:
  "has_tag (c # t) \<longleftrightarrow> c = 60 \<and> (\<exists>b r. t = b @ 62 # r \<and> b \<noteq> [] \<and> 62 \<notin> set b) \<or> has_tag t"
  unfolding has_tag_def by (auto simp: Cons_eq_append_conv) blast+

lemma has_tag_Nil [simp]: "\<not> has_tag []"
  by (simp add: has_tag_def)

lemma tag_match_iff:
  "tag_match (c # s) \<noteq> None \<longleftrightarrow> c = 60 \<and> (\<exists>b r. s = b @ 62 # r \<and> b \<noteq> [] \<and> 62 \<notin> set b)"
proof
  assume "tag_match (c # s) \<noteq> None"
  then obtain d t where c: "c = 60" and s: "s = d # t" and d: "d \<noteq> 62" and t: "62 \<in> set t"
    by (auto simp: tag_match_def split: list.splits if_splits)
  from t obtain b r where "t = b @ 62 # r" and "62 \<notin> set b" by (metis split_list_first)
  with c s d have "s = (d # b) @ 62 # r \<and> d # b \<noteq> [] \<and> 62 \<notin> set (d # b)" by simp
  with c show "c = 60 \<and> (\<exists>b r. s = b @ 62 # r \<and> b \<noteq> [] \<and> 62 \<notin> set b)" by blast
next
  assume "c = 60 \<and> (\<exists>b r. s = b @ 62 # r \<and> b \<noteq> [] \<and> 62 \<notin> set b)"
  then obtain b r where c: "c = 60" and s: "s = b @ 62 # r" and b: "b \<noteq> []" "62 \<notin> set b" by blast
  then show "tag_match (c # s) \<noteq> None" by (cases b) (auto simp: tag_match_def)
qed

lemma strip_tags_subset: "set (strip_tags s) \<subseteq> set s"
proof (induction s rule: strip_tags.induct)
  case 1
  then show ?case by simp
next
  case (2 c s)
  show ?case
  proof (cases "tag_match (c # s)")
    case None
    then show ?thesis using 2 by auto
  next
    case (Some r)
    then have "set r \<subseteq> set s"
      by (auto simp: tag_match_def split: list.splits if_splits dest!: list.set_sel(2) [rotated] set_dropWhileD)
    then show ?thesis using 2 Some by auto
  qed
qed

lemma strip_tags_no_tag: "\<not> has_tag (strip_tags s)"
proof (induction s rule: strip_tags.induct)
  case 1
  then show ?case by simp
next
  case (2 c s)
  show ?case
  proof (cases "tag_match (c # s)")
    case None
    have "\<not> (c = 60 \<and> (\<exists>b r. strip_tags s = b @ 62 # r \<and> b \<noteq> [] \<and> 62 \<notin> set b))"
    proof
      assume a: "c = 60 \<and> (\<exists>b r. strip_tags s = b @ 62 # r \<and> b \<noteq> [] \<and> 62 \<notin> set b)"
      then obtain b r where b: "strip_tags s = b @ 62 # r" "b \<noteq> []" "62 \<notin> set b" by blast
      have "62 \<in> set s" using strip_tags_subset [of s] b(1) by auto
      then obtain d t where s: "s = d # t" by (cases s) auto
      have "d = 62" using a None \<open>62 \<in> set s\<close> unfolding s tag_match_def by (auto split: if_splits)
      then have "tag_match s = None" unfolding s tag_match_def by (cases t) auto
      then have "hd (strip_tags s) = 62" unfolding s using \<open>d = 62\<close> by simp
      then show False using b by (cases b) auto
    qed
    then show ?thesis using 2 None by (simp add: has_tag_Cons)
  next
    case (Some r)
    then show ?thesis using 2 by simp
  qed
qed

lemma strip_tags_id: "\<not> has_tag s \<Longrightarrow> strip_tags s = s"
proof (induction s)
  case (Cons c s)
  then have "tag_match (c # s) = None" using tag_match_iff [of c s] by (auto simp: has_tag_Cons)
  with Cons show ?case by (simp add: has_tag_Cons)
qed simp

lemma ascii_lower_low: "ascii_lower c = n \<Longrightarrow> n < 97 \<Longrightarrow> c = n"
  by (auto simp: ascii_lower_def split: if_splits)

lemma after_close_end: "after_close s = Some r \<Longrightarrow> 62 \<in> set s"
proof (induction s)
  case (Cons c s)
  show ?case
  proof (cases "ci_prefix script_close (c # s)")
    case True
    then have "62 \<in> ascii_lower ` set (c # s)"
      unfolding ci_prefix_def by (auto dest!: set_mono_prefix simp: script_close_def)
    then obtain x where "x \<in> set (c # s)" and x: "ascii_lower x = 62" by (metis imageE)
    then show ?thesis using ascii_lower_low [OF x] by simp
  next
    case False
    with Cons show ?thesis by auto
  qed
qed simp

lemma script_match_tag: "script_match s = Some r \<Longrightarrow> has_tag s"
proof -
  assume m: "script_match s = Some r"
  then have p: "ci_prefix (js ''<script'') s" and e: "62 \<in> set (drop 7 s)"
    by (auto simp: script_match_def dest: after_close_end split: if_splits)
  from p obtain c d t where s: "s = c # d # t" and c: "ascii_lower c = 60" and d: "ascii_lower d = 115"
    by (auto simp: ci_prefix_def prefix_def map_eq_Cons_conv Cons_eq_append_conv)
  have "drop 7 s = drop 5 t" by (simp add: s)
  with e have t: "62 \<in> set t" using set_drop_subset by fastforce
  have "c = 60" using ascii_lower_low [OF c] by simp
  moreover have "d \<noteq> 62" using d by (auto simp: ascii_lower_def)
  ultimately have "tag_match (c # d # t) \<noteq> None" using t by (simp add: tag_match_def)
  then show ?thesis using tag_match_iff [of c "d # t"] unfolding s has_tag_Cons [of c] by blast
qed

lemma strip_scripts_id: "\<not> has_tag s \<Longrightarrow> strip_scripts s = s"
proof (induction s)
  case (Cons c s)
  then have "script_match (c # s) = None" using script_match_tag [of "c # s"] by (cases "script_match (c # s)") auto
  with Cons show ?case by (simp add: has_tag_Cons)
qed simp

lemma trim_parts: obtains a b where "s = a @ trim s @ b"
proof -
  obtain a where a: "s = a @ trim_start s" unfolding trim_start_def by (metis takeWhile_dropWhile_id)
  have "rev (trim_start s) = takeWhile is_space (rev (trim_start s)) @ rev (trim s)"
    by (simp add: trim_def trim_end_def)
  then have "trim_start s = trim s @ rev (takeWhile is_space (rev (trim_start s)))"
    by (metis rev_append rev_rev_ident)
  with a show thesis using that by metis
qed

lemma has_tag_trim: "has_tag (trim s) \<Longrightarrow> has_tag s"
proof -
  assume "has_tag (trim s)"
  moreover obtain x y where s: "s = x @ trim s @ y" by (rule trim_parts)
  ultimately obtain a b c where "s = x @ (a @ 60 # b @ 62 # c) @ y" and b: "b \<noteq> []" "62 \<notin> set b"
    unfolding has_tag_def by metis
  then have "s = (x @ a) @ 60 # b @ 62 # (c @ y)" by simp
  with b show ?thesis unfolding has_tag_def by blast
qed

lemma trim_idem: "trim (trim s) = trim s"
proof (cases "trim s = []")
  case True
  show ?thesis unfolding True by (simp add: trim_def trim_start_def trim_end_def)
next
  case False
  have "\<not> is_space (last (trim s))"
    using False hd_dropWhile [of is_space "rev (trim_start s)"]
    by (simp add: trim_def trim_end_def last_rev)
  moreover have "\<not> is_space (hd (trim s))"
  proof -
    obtain b where "trim_start s = trim s @ b"
      by (metis rev_append rev_rev_ident takeWhile_dropWhile_id trim_def trim_end_def)
    then have "hd (trim_start s) = hd (trim s)" and "trim_start s \<noteq> []" using False by auto
    then show ?thesis using hd_dropWhile [of is_space s] by (simp add: trim_start_def)
  qed
  ultimately show ?thesis using False by (intro trim_id)
qed

text \<open>Sanitized text contains no element: no substring of the result matches the expression of a tag
  (and so no script element is left), whatever nesting or overlap the input used to hide one, and
  sanitizing twice changes nothing.\<close>

lemma sanitized_no_tag:
  "\<not> has_tag (sanitizeInput s) \<and> sanitizeInput (sanitizeInput s) = sanitizeInput s"
proof -
  have n: "\<not> has_tag (sanitizeInput s)"
    using strip_tags_no_tag has_tag_trim by (auto simp: sanitizeInput_def)
  have "trim (sanitizeInput s) = sanitizeInput s"
    by (simp add: sanitizeInput_def trim_idem) (simp add: trim_def trim_start_def trim_end_def)
  then show ?thesis using n
    by (simp add: sanitizeInput_def [of "sanitizeInput s"] strip_scripts_id strip_tags_id)
qed

text \<open>An unterminated element is not one: it is left as it is.\<close>

lemma unclosed_tag_survives: "62 \<notin> set s \<Longrightarrow> trim s = s \<Longrightarrow> sanitizeInput s = s"
proof -
  assume g: "62 \<notin> set s" and t: "trim s = s"
  have "\<not> has_tag s" using g by (auto simp: has_tag_def)
  then show ?thesis using t by (simp add: sanitizeInput_def strip_scripts_id strip_tags_id)
qed

section \<open>Reducing a picture\<close>

text \<open>The size on the canvas: first the width is limited, then the height.\<close>

definition max_height :: jsnum where
  "max_height = Fin 400"

definition resize :: "jsnum \<Rightarrow> jsnum \<Rightarrow> jsnum \<Rightarrow> jsnum \<times> jsnum" where
  "resize maxWidth width height =
     (let (w, h) = (if maxWidth < width then (maxWidth, height * maxWidth / width) else (width, height))
      in if max_height < h then (w * max_height / h, max_height) else (w, h))"

datatype compress_result = Img_rejected jstr | Img_resolved jstr

text \<open>The browser decodes the source (\<open>decode\<close> gives the size of the image, or the load error),
  may refuse a context, and encodes a canvas of a size at a quality; encoding may throw.\<close>

definition compressImage ::
  "(jstr \<Rightarrow> (jsnum \<times> jsnum) option) \<Rightarrow> bool \<Rightarrow> (jsnum \<times> jsnum \<Rightarrow> jsnum \<Rightarrow> jstr option)
   \<Rightarrow> json \<Rightarrow> jsnum \<Rightarrow> jsnum \<Rightarrow> compress_result" where
  "compressImage decode has_context encode base64 maxWidth quality =
     (case base64 of
        JStr src \<Rightarrow>
          (if src = [] then Img_rejected (js ''Invalid image data'')
           else (case decode src of
              None \<Rightarrow> Img_rejected [1601, 1588, 1604, 32, 1578, 1581, 1605, 1610,
                1604, 32, 1575, 1604, 1589, 1608, 1585, 1577, 32,
  45, 32, 1580, 1585, 1576, 32, 1589, 1608, 1585, 1577, 32, 1571, 1582, 1585, 1609]
            | Some (w, h) \<Rightarrow>
                (let dims = resize maxWidth w h
                 in if \<not> has_context then Img_rejected [1601, 1588, 1604, 32, 1573, 1606,
                   1588, 1575, 1569, 32, 1587, 1610, 1575, 1602, 32, 1575, 1604,
  1585, 1587, 1605]
                    else (case encode dims quality of
                       None \<Rightarrow> Img_rejected [1601, 1588, 1604, 32, 1590, 1594, 1591,
                         32, 1575, 1604, 1589, 1608, 1585, 1577]
                     | Some result \<Rightarrow>
                         (let sizeKB = jint (int (length result)) * Fin (3 / 4) / Fin 1024
                          in if Fin 500 < sizeKB
                             then (case encode dims (Fin (3602879701896397 / 9007199254740992)) of
                                None \<Rightarrow> Img_rejected [1601, 1588, 1604, 32, 1590,
                                  1594, 1591, 32, 1575, 1604, 1589, 1608, 1585, 1577]
                              | Some lowerQuality \<Rightarrow> Img_resolved lowerQuality)
                             else Img_resolved result)))))
      | _ \<Rightarrow> Img_rejected (js ''Invalid image data''))"

lemma rnd_le_int: "x \<le> of_int n \<Longrightarrow> \<bar>n\<bar> \<le> 2 ^ 53 \<Longrightarrow> 0 \<le> x \<Longrightarrow> \<exists>y. rnd x = Fin y \<and> 0 \<le> y \<and> y \<le> of_int n"
proof -
  assume x: "x \<le> of_int n" and n: "\<bar>n\<bar> \<le> 2 ^ 53" and p: "0 \<le> x"
  have "rnd x \<le> jint n" using rnd_mono [OF x] rnd_int [OF n] by simp
  moreover have "Fin 0 \<le> rnd x" using p by (rule rnd_nonneg)
  ultimately show ?thesis by (cases "rnd x") auto
qed

text \<open>A compressed picture fits its frame: whatever the size of the image, the canvas is at most
  \<open>maxWidth\<close> wide and 400 high, with the rounding of both scalings taken into account.\<close>

lemma resize_fits:
  assumes m: "1 \<le> m" "m \<le> 2 ^ 20" and w: "1 \<le> w" "w \<le> 2 ^ 20" and h: "1 \<le> h" "h \<le> 2 ^ 20"
  shows "\<exists>a b. resize (jint m) (jint w) (jint h) = (Fin a, Fin b) \<and> 0 \<le> a \<and> a \<le> of_int m \<and> 0 \<le> b \<and> b \<le> 400"
proof -
  have second: "\<exists>a b. (if max_height < Fin h1 then (jint w1 * max_height / Fin h1, max_height) else (jint w1, Fin h1))
       = (Fin a, Fin b) \<and> 0 \<le> a \<and> a \<le> of_int m \<and> 0 \<le> b \<and> b \<le> 400"
    if w1: "1 \<le> w1" "w1 \<le> m" and h1: "0 \<le> h1" for w1 :: int and h1 :: rat
  proof (cases "400 < h1")
    case True
    have "jint w1 * jint 400 = jint (w1 * 400)" by (rule jint_mult) (use w1 m in simp)
    then have e: "jint w1 * max_height = Fin (of_int w1 * 400)" by (simp add: max_height_def)
    have "of_int w1 * 400 \<le> of_int w1 * h1" using True w1 by (intro mult_left_mono) auto
    then have "of_int w1 * 400 / h1 \<le> of_int w1" using True by (simp add: field_simps)
    then obtain y where "rnd (of_int w1 * 400 / h1) = Fin y" "0 \<le> y" "y \<le> of_int w1"
      using rnd_le_int [of "of_int w1 * 400 / h1" w1] True w1 m by auto
    then show ?thesis using True w1 e by (auto simp: max_height_def intro: order_trans)
  next
    case False
    then show ?thesis using w1 h1 by (auto simp: max_height_def)
  qed
  show ?thesis
  proof (cases "m < w")
    case True
    have "h * m \<le> 2 ^ 20 * 2 ^ 20" using h m by (intro mult_mono) auto
    then have "jint h * jint m = jint (h * m)" using h m by (intro jint_mult) simp
    then have e: "jint h * jint m / jint w = rnd (of_int (h * m) / of_int w)" using w by simp
    have "h * m \<le> h * w" using True h by (intro mult_left_mono) auto
    then have "rat_of_int (h * m) \<le> of_int (h * w)" by (simp only: of_int_le_iff)
    then have "rat_of_int (h * m) / of_int w \<le> of_int h" using w by (simp add: field_simps)
    then obtain y where "rnd (of_int (h * m) / of_int w) = Fin y" "0 \<le> y"
      using rnd_le_int [of "of_int (h * m) / of_int w" h] h m w by auto
    then show ?thesis using second [of m y] True m e by (simp add: resize_def)
  next
    case False
    then show ?thesis using second [of w "of_int h"] w h by (simp add: resize_def)
  qed
qed

lemma resize_fits_witness:
  "\<exists>a b. resize (jint 400) (jint 4032) (jint 3024) = (Fin a, Fin b) \<and> 0 \<le> a \<and> a \<le> of_int 400 \<and> 0 \<le> b \<and> b \<le> 400"
  using resize_fits [of 400 4032 3024] by simp

end
