(* ===== verification/Export.thy ===== *)
theory Export
  imports Utils
begin

text \<open>
  The exports of \<open>core/export.ts\<close>: CSV files for spreadsheets, the HTML table that is printed, and
  the reports on sales, inventory, customers and finance that call them. What an export does to the
  outside is a list of effects.
\<close>

record export_column =
  col_key :: jstr
  col_header :: jstr

record export_options =
  op_filename :: jstr
  op_title :: "jstr option"
  op_subtitle :: "jstr option"
  op_storeName :: "jstr option"

datatype export_effect =
    Download jstr jstr
  | AppendContainer jstr
  | Wait nat
  | PrintWindow
  | RemoveContainer

text \<open>\<open>s || d\<close> for a string that may be missing or empty.\<close>

definition str_or :: "jstr option \<Rightarrow> jstr \<Rightarrow> jstr" where
  "str_or s d = (case s of None \<Rightarrow> d | Some t \<Rightarrow> if t = [] then d else t)"

section \<open>Escaping one code unit at a time\<close>

text \<open>The interface of an escaping function: no code is a prefix of another, so the escaped text can be
  read back.\<close>

locale char_escape =
  fixes esc :: "nat \<Rightarrow> jstr"
  assumes code_ne: "esc c \<noteq> []"
    and prefix_free: "esc c @ x = esc d @ y \<Longrightarrow> c = d"
begin

lemma escape_inj: "concat (map esc s) = concat (map esc t) \<Longrightarrow> s = t"
proof (induction s arbitrary: t)
  case Nil
  then show ?case using code_ne by (cases t) auto
next
  case (Cons c s)
  obtain d u where t: "t = d # u" using code_ne Cons.prems by (cases t) auto
  have e: "esc c @ concat (map esc s) = esc d @ concat (map esc u)" using Cons.prems t by simp
  then have "c = d" by (rule prefix_free)
  with e Cons.IH [of u] t show ?case by simp
qed

lemma escape_avoids: "(\<And>c. a \<notin> set (esc c)) \<Longrightarrow> a \<notin> set (concat (map esc s))"
  by (induction s) auto

end

section \<open>CSV\<close>

definition csv_guard :: "json \<Rightarrow> jstr" where
  "csv_guard value =
     (let stringValue = (if value = JUndef \<or> value = JNull then [] else js_string value);
          trimmed = trim_start stringValue
      in if trimmed \<noteq> [] \<and> formula_start (hd trimmed) then 39 # stringValue else stringValue)"

definition quoteCSVCell :: "json \<Rightarrow> jstr" where
  "quoteCSVCell value = 34 # replace_char 34 [34, 34] (csv_guard value) @ [34]"

definition crlf :: jstr where
  "crlf = [13, 10]"

definition csv_text :: "json list list \<Rightarrow> jstr" where
  "csv_text rows = join crlf (map (\<lambda>row. join [44] (map quoteCSVCell row)) rows)"

definition downloadCSV :: "jstr \<Rightarrow> jstr \<Rightarrow> export_effect" where
  "downloadCSV content filename = Download filename (65279 # content)"

definition header_row :: "export_column list \<Rightarrow> json list" where
  "header_row columns = map (\<lambda>c. JStr (col_header c)) columns"

definition excel_cell :: "(jstr \<times> json) list \<Rightarrow> export_column \<Rightarrow> json" where
  "excel_cell item c =
     (case obj_get item (col_key c) of
        JUndef \<Rightarrow> JStr [] | JNull \<Rightarrow> JStr []
      | JBool b \<Rightarrow> JStr (if b then [1606, 1593, 1605] else [1604, 1575])
      | v \<Rightarrow> v)"

text \<open>\<open>date\<close> is today in the Arabic locale, \<open>isoDate\<close> is the ISO time stamp.\<close>

definition csv_metadata :: "jstr \<Rightarrow> export_options \<Rightarrow> json list list" where
  "csv_metadata date options =
     [[JStr (str_or (op_storeName options) [1575, 1604, 1605, 1578, 1580, 1585])],
      [JStr ([1575, 1604, 1578, 1602, 1585, 1610, 1585, 58,
        32] @ str_or (op_title options) [1578, 1602, 1585, 1610, 1585])],
      [JStr ([1575, 1604, 1578, 1575, 1585, 1610, 1582, 58, 32] @ date)],
      [JStr (str_or (op_subtitle options) [])],
      [JStr []]]"

definition exportToExcel ::
  "jstr \<Rightarrow> jstr \<Rightarrow> (jstr \<times> json) list list \<Rightarrow> export_column list \<Rightarrow> export_options \<Rightarrow> export_effect list" where
  "exportToExcel date isoDate data columns options =
     (let rows = map (\<lambda>item. map (excel_cell item) columns) data;
          csv = csv_text (csv_metadata date options @ [header_row columns] @ rows);
          filenameDate = hd (split_on 84 isoDate)
      in [downloadCSV csv (op_filename options @ 95 # filenameDate @ js ''.csv'')])"

record export_sheet =
  sh_name :: jstr
  sh_data :: "(jstr \<times> json) list list"
  sh_columns :: "export_column list"

definition sheet_cell :: "(jstr \<times> json) list \<Rightarrow> export_column \<Rightarrow> json" where
  "sheet_cell item c = (case obj_get item (col_key c) of JUndef \<Rightarrow> JStr [] | JNull \<Rightarrow> JStr [] | v \<Rightarrow> v)"

definition exportMultiSheetExcel :: "jstr \<Rightarrow> export_sheet list \<Rightarrow> export_options \<Rightarrow> export_effect list" where
  "exportMultiSheetExcel isoDate sheets options =
     map (\<lambda>s. downloadCSV
           (csv_text (header_row (sh_columns s) # map (\<lambda>item. map (sheet_cell item) (sh_columns s)) (sh_data s)))
           (op_filename options @ 95 # sh_name s @ 95 # hd (split_on 84 isoDate) @ js ''.csv''))
       sheets"

section \<open>The printed table\<close>

definition escapeHTML :: "jstr \<Rightarrow> jstr" where
  "escapeHTML s =
     replace_char 39 (js ''&#039;'') (replace_char 34 (js ''&quot;'') (replace_char 62 (js ''&gt;'')
       (replace_char 60 (js ''&lt;'') (replace_char 38 (js ''&amp;'') s))))"

definition th_cell :: "export_column \<Rightarrow> jstr" where
  "th_cell c = js ''<th class=\"px-4 py-2 border border-gray-300 bg-gray-100 font-bold text-gray-700\">''
     @ escapeHTML (col_header c) @ js ''</th>''"

definition td_cell :: "(jstr \<times> json) list \<Rightarrow> export_column \<Rightarrow> jstr" where
  "td_cell item c =
     (let val = obj_get item (col_key c);
          displayVal = (if val = JUndef \<or> val = JNull then [] else escapeHTML (js_string val))
      in js ''<td class=\"px-4 py-2 border border-gray-300 text-gray-800 text-center\">'' @ displayVal @ js ''</td>'')"

definition tr_row :: "export_column list \<Rightarrow> nat \<Rightarrow> (jstr \<times> json) list \<Rightarrow> jstr" where
  "tr_row columns idx item =
     js ''<tr class=\"'' @ (if idx mod 2 = 0 then js ''bg-white'' else js ''bg-gray-50'') @ js ''\">''
       @ concat (map (td_cell item) columns) @ js ''</tr>''"

text \<open>The lines of the template.\<close>

definition html_part1 :: "jstr list" where
  "html_part1 =
    [[],
     js ''        <style>'',
     js ''            @page { size: A4 landscape; margin: 10mm; }'',
     js ''            #print-container {'',
     js ''                font-family: 'IBM Plex Sans Arabic', 'Inter', system-ui, sans-serif !important;'',
     js ''                background: white !important;'',
     js ''                color: black !important;'',
     js ''            }'',
     [],
     [],
     js ''            #print-container table { page-break-inside: auto; }'',
     js ''            #print-container tr { page-break-inside: avoid; page-break-after: auto; }'',
     js ''        </style>'',
     js ''        '',
     js ''        <!-- Header -->'',
     js ''        <div class=\"flex justify-between items-start mb-8 border-b-2 border-gray-800 pb-4\">'',
     js ''            <div class=\"text-right\">'']"

definition html_part2 :: "jstr list" where
  "html_part2 =
    [js ''            </div>'',
     js ''            <div class=\"text-center\">'']"

definition html_part3 :: "jstr list" where
  "html_part3 =
    [js ''            </div>'',
     js ''            <div class=\"text-left w-32\"></div>'',
     js ''        </div>'',
     [],
     js ''        <!-- Table -->'',
     js ''        <div class=\"w-full\">'',
     js ''            <table class=\"w-full text-sm border-collapse\">'',
     js ''                <thead>'']"

definition html_part4 :: "jstr list" where
  "html_part4 =
    [js ''                </thead>'',
     js ''                <tbody>'']"

definition html_part5 :: "jstr list" where
  "html_part5 =
    [js ''                </tbody>'',
     js ''            </table>'',
     js ''        </div>'',
     [],
     js ''        <!-- Footer -->'',
     js ''        <div class=\"mt-8 pt-4 border-t border-gray-200 text-center text-xs text-gray-400 flex justify-between\">'',
     js ''            <span>'' @ [1578, 1605] @ js '' '' @ [1575, 1587, 1578, 1582, 1585, 1575,
       1580] @ js '' '' @ [1575, 1604, 1578, 1602, 1585, 1610, 1585] @ js '' '' @ [1576, 1608,
       1575, 1587, 1591, 1577] @ js '' '' @ [1575, 1604, 1606, 1592, 1575, 1605] @ js ''</span>'']"

definition html_part6 :: "jstr list" where
  "html_part6 =
    [js ''        </div>'',
     js ''    '']"

definition pdf_html ::
  "jstr \<Rightarrow> (jstr \<times> json) list list \<Rightarrow> export_column list \<Rightarrow> export_options \<Rightarrow> jstr" where
  "pdf_html date data columns options =
     (let storeName = escapeHTML (str_or (op_storeName options) [1575, 1604, 1605, 1578, 1580,
       1585]);
          title = escapeHTML (str_or (op_title options) [1578, 1602, 1585, 1610, 1585]);
          subtitle = escapeHTML (str_or (op_subtitle options) []);
          tableHeader = concat (map th_cell columns);
          tableRows = concat (map (\<lambda>(item, idx). tr_row columns idx item) (zip data [0..<length data]))
      in join [10]
           (html_part1
            @ [js ''                <h1 class=\"text-2xl font-bold text-gray-900\">'' @ storeName @ js ''</h1>'']
            @ [js ''                <p class=\"text-gray-500 text-sm mt-1\">'' @ [1578, 1575, 1585,
              1610, 1582] @ js '' '' @ [1575, 1604, 1591, 1576, 1575, 1593,
              1577] @ js '': '' @ date @ js ''</p>'']
            @ html_part2
            @ [js ''                <h2 class=\"text-xl font-bold text-gray-800\">'' @ title @ js ''</h2>'']
            @ [js ''                <p class=\"text-gray-600 mt-1\">'' @ subtitle @ js ''</p>'']
            @ html_part3
            @ [js ''                    <tr>'' @ tableHeader @ js ''</tr>'']
            @ html_part4
            @ [js ''                    '' @ tableRows]
            @ html_part5
            @ [js ''            <span>'' @ [1593, 1583, 1583] @ js '' '' @ [1575, 1604, 1587,
              1580, 1604, 1575, 1578] @ js '': '' @ show_nat (length data) @ js ''</span>'']
            @ html_part6))"

definition exportToPDF ::
  "jstr \<Rightarrow> (jstr \<times> json) list list \<Rightarrow> export_column list \<Rightarrow> export_options \<Rightarrow> export_effect list" where
  "exportToPDF date data columns options =
     [AppendContainer (pdf_html date data columns options), Wait 100, PrintWindow, RemoveContainer]"

section \<open>What a spreadsheet reads\<close>

text \<open>A reader of quoted CSV: the contents of a quoted cell and what follows, then cells and rows.\<close>

fun read_quoted :: "jstr \<Rightarrow> (jstr \<times> jstr) option" where
  "read_quoted [] = None"
| "read_quoted [c] = (if c = 34 then Some ([], []) else None)"
| "read_quoted (c # d # s) =
     (if c = 34 then (if d = 34 then map_option (\<lambda>(f, r). (34 # f, r)) (read_quoted s) else Some ([], d # s))
      else map_option (\<lambda>(f, r). (c # f, r)) (read_quoted (d # s)))"

fun read_csv :: "nat \<Rightarrow> jstr \<Rightarrow> jstr list list option" where
  "read_csv 0 s = None"
| "read_csv (Suc n) s =
     (if \<not> prefix [34] s then None
      else (case read_quoted (tl s) of
         None \<Rightarrow> None
       | Some (f, r) \<Rightarrow>
           if r = [] then Some [[f]]
           else if prefix [44] r
           then (case read_csv n (tl r) of Some (row # rows) \<Rightarrow> Some ((f # row) # rows) | _ \<Rightarrow> None)
           else if prefix crlf r then map_option (\<lambda>rows. [f] # rows) (read_csv n (drop 2 r))
           else None))"

definition csv_code :: "nat \<Rightarrow> jstr" where
  "csv_code c = (if c = 34 then [34, 34] else [c])"

interpretation csv: char_escape csv_code
  by unfold_locales (auto simp: csv_code_def split: if_splits)

lemma replace_csv: "replace_char 34 [34, 34] s = concat (map csv_code s)"
  by (simp add: replace_char_def csv_code_def [abs_def])

lemma read_quoted_code:
  "(r = [] \<or> hd r \<noteq> 34) \<Longrightarrow> read_quoted (concat (map csv_code s) @ 34 # r) = Some (s, r)"
proof (induction s)
  case Nil
  then show ?case by (cases r) auto
next
  case (Cons c s)
  show ?case
  proof (cases "c = 34")
    case True
    with Cons show ?thesis by (simp add: csv_code_def)
  next
    case False
    obtain d t where "concat (map csv_code s) @ 34 # r = d # t"
      by (cases "concat (map csv_code s) @ 34 # r") auto
    moreover have "csv_code c = [c]" using False by (simp add: csv_code_def)
    moreover have "read_quoted (concat (map csv_code s) @ 34 # r) = Some (s, r)" using Cons by blast
    ultimately show ?thesis using False by simp
  qed
qed

lemma csv_text_step:
  "csv_text ((v # row) # rows) = 34 # concat (map csv_code (csv_guard v)) @ 34 #
     (if row = [] then (if rows = [] then [] else crlf @ csv_text rows) else 44 # csv_text (row # rows))"
  by (cases row; cases rows) (simp_all add: csv_text_def quoteCSVCell_def replace_csv)

lemma read_csv_text:
  "rows \<noteq> [] \<Longrightarrow> [] \<notin> set rows \<Longrightarrow> sum_list (map length rows) \<le> n
   \<Longrightarrow> read_csv n (csv_text rows) = Some (map (map csv_guard) rows)"
proof (induction n arbitrary: rows)
  case 0
  then show ?case by (cases rows) auto
next
  case (Suc n)
  obtain a rest where a: "rows = a # rest" and "a \<noteq> []" using Suc.prems by (cases rows) auto
  then obtain v row where "a = v # row" by (cases a) auto
  with a have rows: "rows = (v # row) # rest" by simp
  let ?tl = "if row = [] then (if rest = [] then [] else crlf @ csv_text rest) else 44 # csv_text (row # rest)"
  have "read_quoted (concat (map csv_code (csv_guard v)) @ 34 # ?tl) = Some (csv_guard v, ?tl)"
    by (rule read_quoted_code) (simp add: crlf_def)
  moreover have "row \<noteq> [] \<Longrightarrow> read_csv n (csv_text (row # rest)) = Some (map (map csv_guard) (row # rest))"
    using Suc rows by (intro Suc.IH) auto
  moreover have "rest \<noteq> [] \<Longrightarrow> row = [] \<Longrightarrow> read_csv n (csv_text rest) = Some (map (map csv_guard) rest)"
    using Suc rows by (intro Suc.IH) auto
  ultimately show ?case by (auto simp: rows csv_text_step crlf_def)
qed

text \<open>C7. An exported sheet is read back cell by cell: a reader of quoted CSV finds in the text of any
  table, whatever quotes, commas and line breaks the values contain, exactly the rows and cells that
  were exported, each guarded, and none of them is read as a formula.\<close>

theorem csv_read_back:
  assumes "rows \<noteq> []" and "[] \<notin> set rows" and "sum_list (map length rows) \<le> n"
  shows "read_csv n (csv_text rows) = Some (map (map csv_guard) rows)
     \<and> (\<forall>row\<in>set (map (map csv_guard) rows). \<forall>c\<in>set row. \<not> is_formula c)"
proof -
  have "\<not> is_formula (csv_guard v)" for v
    using guard_not_formula by (simp add: csv_guard_def Let_def)
  then show ?thesis using read_csv_text [OF assms] by auto
qed

theorem csv_read_back_witness:
  "read_csv 3 (csv_text [[JStr (js ''=1+1''), JStr (js ''a\"b,c'')], [JNum (Fin 5)]])
     = Some (map (map csv_guard) [[JStr (js ''=1+1''), JStr (js ''a\"b,c'')], [JNum (Fin 5)]])"
  using csv_read_back [of "[[JStr (js ''=1+1''), JStr (js ''a\"b,c'')], [JNum (Fin 5)]]" 3] by simp

section \<open>What the printed page contains\<close>

definition html_code :: "nat \<Rightarrow> jstr" where
  "html_code c =
     (if c = 38 then js ''&amp;'' else if c = 60 then js ''&lt;'' else if c = 62 then js ''&gt;''
      else if c = 34 then js ''&quot;'' else if c = 39 then js ''&#039;'' else [c])"

interpretation html: char_escape html_code
  by unfold_locales (auto simp: html_code_def split: if_splits)

lemma replace_concat: "replace_char c r (concat (map f s)) = concat (map (\<lambda>x. replace_char c r (f x)) s)"
  by (induction s) (simp_all add: replace_char_def)

lemma escapeHTML_code: "escapeHTML s = concat (map html_code s)"
proof -
  have "replace_char 38 (js ''&amp;'') s = concat (map (\<lambda>x. replace_char 38 (js ''&amp;'') [x]) s)"
    using replace_concat [of 38 _ "\<lambda>x. [x]" s] by simp
  then have "escapeHTML s = concat (map (\<lambda>x. escapeHTML [x]) s)"
    by (simp add: escapeHTML_def replace_concat)
  moreover have "escapeHTML [x] = html_code x" for x
    by (simp add: escapeHTML_def replace_char_def html_code_def)
  ultimately show ?thesis by simp
qed

lemma escape_avoids_markup: "a \<in> {34, 39, 60, 62} \<Longrightarrow> a \<notin> set (escapeHTML s)"
  unfolding escapeHTML_code by (rule html.escape_avoids) (auto simp: html_code_def)

text \<open>Escaping for the printed page is one pass, in spite of its five replacements: each character
  becomes its own entity, no markup character is left, and different texts stay different.\<close>

lemma escapeHTML_one_pass:
  "escapeHTML s = concat (map html_code s)
   \<and> set (escapeHTML s) \<inter> {34, 39, 60, 62} = {}
   \<and> (escapeHTML s = escapeHTML t \<longleftrightarrow> s = t)"
  using escapeHTML_code html.escape_inj escape_avoids_markup by auto

lemma count_lt_escape [simp]: "count_list (escapeHTML s) 60 = 0"
  using escape_avoids_markup [of 60 s] by (simp add: count_list_0_iff)

lemma count_lt_td [simp]: "count_list (td_cell item c) 60 = 2"
  by (simp add: td_cell_def Let_def)

lemma count_lt_th [simp]: "count_list (th_cell c) 60 = 2"
  by (simp add: th_cell_def)

lemma count_lt_concat: "(\<And>x. count_list (f x) 60 = k) \<Longrightarrow> count_list (concat (map f xs)) 60 = length xs * k"
  by (induction xs) simp_all

lemma count_lt_tr [simp]: "count_list (tr_row columns idx item) 60 = 2 + 2 * length columns"
  by (simp add: tr_row_def count_lt_concat [where k = 2] mult.commute)

lemma count_lt_join: "count_list (join [10] ls) 60 = sum_list (map (\<lambda>l. count_list l 60) ls)"
  by (induction "[10] :: jstr" ls rule: join.induct) simp_all

lemma count_lt_digits [simp]: "count_list (show_nat n) 60 = 0"
  using show_nat_digits [of n] by (auto simp: count_list_0_iff is_digit_def)

text \<open>C8. No value can add markup to the printed page: the number of tags that are opened depends only on
  the numbers of rows and columns, whatever the cells, headers, store name, title and subtitle
  contain.\<close>

theorem pdf_no_injection:
  "count_list (pdf_html date data columns options) 60
     = count_list (pdf_html date [] [] options') 60 + 2 * length columns + length data * (2 + 2 * length columns)"
proof -
  have "count_list (concat (map (\<lambda>(item, idx). tr_row columns idx item) (zip data [0..<length data]))) 60
      = length (zip data [0..<length data]) * (2 + 2 * length columns)"
    by (rule count_lt_concat) auto
  then show ?thesis
    by (simp add: pdf_html_def Let_def count_lt_join count_lt_concat [where k = 2])
qed

text \<open>A negative number is guarded like a formula: it is exported as text.\<close>

lemma negative_number_quoted: "x < 0 \<Longrightarrow> \<exists>s. csv_guard (JNum (Fin x)) = 39 # 45 # s"
  by (simp add: csv_guard_def trim_start_def is_space_def formula_start_def)

section \<open>Reports\<close>

datatype report_format = Excel | Pdf

text \<open>Both formats go through the same rows, columns and options.\<close>

definition export_table ::
  "jstr \<Rightarrow> jstr \<Rightarrow> report_format \<Rightarrow> (jstr \<times> json) list list \<Rightarrow> export_column list \<Rightarrow> export_options \<Rightarrow> export_effect list" where
  "export_table date isoDate fmt data columns options =
     (if fmt = Excel then exportToExcel date isoDate data columns options
      else exportToPDF date data columns options)"

abbreviation col :: "jstr \<Rightarrow> jstr \<Rightarrow> export_column" where
  "col k h \<equiv> \<lparr> col_key = k, col_header = h \<rparr>"

definition in_currency :: "jstr \<Rightarrow> jstr \<Rightarrow> jstr" where
  "in_currency label currency = label @ 32 # 40 # currency @ [41]"

record sale_row =
  sr_id :: jstr
  sr_date :: jstr
  sr_customer :: "jstr option"
  sr_total :: jsnum
  sr_status :: jstr

definition statusLabels :: "(jstr \<times> jstr) list" where
  "statusLabels = [(js ''completed'', [1605, 1603, 1578, 1605, 1604]), (js ''pending'', [1605,
    1593, 1604, 1602]),
     (js ''cancelled'', [1605, 1604, 1594, 1610]), (js ''returned'', [1605, 1585, 1578, 1580,
       1593])]"

definition sales_columns :: "jstr \<Rightarrow> export_column list" where
  "sales_columns currency =
     [col (js ''id'') [1585, 1602, 1605, 32, 1575, 1604, 1601, 1575, 1578, 1608, 1585, 1577],
      col (js ''date'') [1575, 1604, 1578, 1575, 1585, 1610, 1582],
      col (js ''customer'') [1575, 1604, 1593, 1605, 1610, 1604],
      col (js ''total'') (in_currency [1575, 1604, 1573, 1580, 1605, 1575, 1604, 1610] currency),
      col (js ''status'') [1575, 1604, 1581, 1575, 1604, 1577]]"

text \<open>\<open>locale_date\<close> formats a date text in the Arabic locale.\<close>

definition sale_cells :: "(jstr \<Rightarrow> jstr) \<Rightarrow> sale_row \<Rightarrow> (jstr \<times> json) list" where
  "sale_cells locale_date s =
     [(js ''id'', JStr (sr_id s)),
      (js ''date'', JStr (locale_date (sr_date s))),
      (js ''customer'', JStr (str_or (sr_customer s) [1586, 1576, 1608, 1606, 32, 1593, 1575,
        1605])),
      (js ''total'', JNum (sr_total s)),
      (js ''status'', JStr (case map_of statusLabels (sr_status s) of None \<Rightarrow> sr_status s | Some l \<Rightarrow> l))]"

definition exportSalesReport ::
  "(jstr \<Rightarrow> jstr) \<Rightarrow> jstr \<Rightarrow> jstr \<Rightarrow> sale_row list \<Rightarrow> report_format \<Rightarrow> jstr \<Rightarrow> jstr option \<Rightarrow> export_effect list" where
  "exportSalesReport locale_date date isoDate sales fmt currency storeName =
     export_table date isoDate fmt (map (sale_cells locale_date) sales) (sales_columns currency)
       \<lparr> op_filename = [1578, 1602, 1585, 1610, 1585, 95, 1575, 1604, 1605, 1576, 1610,
         1593, 1575, 1578],
         op_title = Some [1578, 1602, 1585, 1610, 1585, 32, 1575, 1604, 1605, 1576, 1610, 1593,
           1575, 1578],
         op_subtitle = Some ([1573, 1580, 1605, 1575, 1604, 1610, 58,
           32] @ show_nat (length sales) @ [32, 1601, 1575, 1578, 1608, 1585, 1577]),
         op_storeName = storeName \<rparr>"

record stock_row =
  kr_id :: jstr
  kr_name :: jstr
  kr_stock :: jsnum
  kr_minStock :: "jsnum option"
  kr_cost :: "jsnum option"
  kr_price :: jsnum

definition inventory_columns :: "jstr \<Rightarrow> export_column list" where
  "inventory_columns currency =
     [col (js ''name'') [1575, 1604, 1605, 1606, 1578, 1580],
      col (js ''stock'') [1575, 1604, 1603, 1605, 1610, 1577],
      col (js ''minStock'') [1575, 1604, 1581, 1583, 32, 1575, 1604, 1571, 1583, 1606, 1609],
      col (js ''cost'') (in_currency [1575, 1604, 1578, 1603, 1604, 1601, 1577] currency),
      col (js ''price'') (in_currency [1575, 1604, 1587, 1593, 1585] currency),
      col (js ''value'') (in_currency [1575, 1604, 1602, 1610, 1605, 1577] currency)]"

definition stock_value :: "stock_row \<Rightarrow> jsnum" where
  "stock_value p = js_round (kr_stock p * kr_price p)"

text \<open>\<open>locale_num\<close> is \<open>toLocaleString\<close> of a number.\<close>

definition stock_cells :: "(jsnum \<Rightarrow> jstr) \<Rightarrow> stock_row \<Rightarrow> (jstr \<times> json) list" where
  "stock_cells locale_num p =
     [(js ''id'', JStr (kr_id p)), (js ''name'', JStr (kr_name p)), (js ''stock'', JNum (kr_stock p)),
      (js ''minStock'', JNum (opt_num_or (kr_minStock p) (Fin 0))),
      (js ''cost'', JNum (opt_num_or (kr_cost p) (Fin 0))),
      (js ''price'', JNum (kr_price p)),
      (js ''value'', JStr (locale_num (stock_value p)))]"

definition inventory_total :: "stock_row list \<Rightarrow> jsnum" where
  "inventory_total products = js_sum (Fin 0) (map stock_value products)"

definition exportInventoryReport ::
  "(jsnum \<Rightarrow> jstr) \<Rightarrow> jstr \<Rightarrow> jstr \<Rightarrow> stock_row list \<Rightarrow> report_format \<Rightarrow> jstr \<Rightarrow> jstr option \<Rightarrow> export_effect list" where
  "exportInventoryReport locale_num date isoDate products fmt currency storeName =
     export_table date isoDate fmt (map (stock_cells locale_num) products) (inventory_columns currency)
       \<lparr> op_filename = [1578, 1602, 1585, 1610, 1585, 95, 1575, 1604, 1605, 1582, 1586,
         1608, 1606],
         op_title = Some [1578, 1602, 1585, 1610, 1585, 32, 1575, 1604, 1605, 1582, 1586, 1608,
           1606],
         op_subtitle = Some ([1573, 1580, 1605, 1575, 1604, 1610, 32, 1602, 1610, 1605, 1577, 32,
           1575, 1604, 1605, 1582,
  1586, 1608, 1606, 58, 32] @ locale_num (inventory_total products) @ 32 # currency),
         op_storeName = storeName \<rparr>"

record customer_row =
  ur_id :: jstr
  ur_name :: jstr
  ur_phone :: "jstr option"
  ur_email :: "jstr option"
  ur_debt :: "jsnum option"

definition customer_columns :: "jstr \<Rightarrow> export_column list" where
  "customer_columns currency =
     [col (js ''name'') [1575, 1587, 1605, 32, 1575, 1604, 1593, 1605, 1610, 1604],
      col (js ''phone'') [1575, 1604, 1607, 1575, 1578, 1601],
      col (js ''email'') [1575, 1604, 1576, 1585, 1610, 1583],
      col (js ''debt'') (in_currency [1575, 1604, 1585, 1589, 1610, 1583] currency)]"

definition customer_cells :: "customer_row \<Rightarrow> (jstr \<times> json) list" where
  "customer_cells c =
     [(js ''id'', JStr (ur_id c)), (js ''name'', JStr (ur_name c)),
      (js ''phone'', JStr (str_or (ur_phone c) [45])),
      (js ''email'', JStr (str_or (ur_email c) [45])),
      (js ''debt'', JNum (opt_num_or (ur_debt c) (Fin 0)))]"

definition exportCustomersReport ::
  "jstr \<Rightarrow> jstr \<Rightarrow> customer_row list \<Rightarrow> report_format \<Rightarrow> jstr \<Rightarrow> jstr option \<Rightarrow> export_effect list" where
  "exportCustomersReport date isoDate customers fmt currency storeName =
     export_table date isoDate fmt (map customer_cells customers) (customer_columns currency)
       \<lparr> op_filename = [1578, 1602, 1585, 1610, 1585, 95, 1575, 1604, 1593, 1605, 1604,
         1575, 1569],
         op_title = Some [1578, 1602, 1585, 1610, 1585, 32, 1575, 1604, 1593, 1605, 1604, 1575,
           1569],
         op_subtitle = Some ([1593, 1583, 1583, 32, 1575, 1604, 1593, 1605, 1604, 1575, 1569, 58,
           32] @ show_nat (length customers)),
         op_storeName = storeName \<rparr>"

record finance_summary =
  fs_revenue :: jsnum
  fs_cogs :: jsnum
  fs_grossProfit :: jsnum
  fs_expenses :: jsnum
  fs_netProfit :: jsnum
  fs_profitMargin :: jsnum

definition summary_row :: "jstr \<Rightarrow> json \<Rightarrow> (jstr \<times> json) list" where
  "summary_row item value = [(js ''item'', JStr item), (js ''value'', value)]"

definition summary_rows :: "finance_summary \<Rightarrow> (jstr \<times> json) list list" where
  "summary_rows data =
     [summary_row [1573, 1580, 1605, 1575, 1604, 1610, 32, 1575, 1604, 1573, 1610, 1585, 1575,
       1583, 1575, 1578] (JNum (fs_revenue data)),
      summary_row [1578, 1603, 1604, 1601, 1577, 32, 1575, 1604, 1576, 1590, 1575, 1593, 1577,
        32, 1575, 1604,
  1605, 1576, 1575, 1593, 1577] (JNum (- fs_cogs data)),
      summary_row [1573, 1580, 1605, 1575, 1604, 1610, 32, 1575, 1604, 1585, 1576,
        1581] (JNum (fs_grossProfit data)),
      summary_row [1575, 1604, 1605, 1589, 1585, 1608, 1601, 1575, 1578, 32, 1575, 1604, 1578,
        1588, 1594, 1610,
  1604, 1610, 1577] (JNum (- fs_expenses data)),
      summary_row [1589, 1575, 1601, 1610, 32, 1575, 1604, 1585, 1576,
        1581] (JNum (fs_netProfit data)),
      summary_row [1607, 1575, 1605, 1588, 32, 1575, 1604, 1585, 1576, 1581, 32,
        37] (JStr (num_to_string (fs_profitMargin data) @ [37]))]"

definition expense_row :: "jstr \<times> jsnum \<Rightarrow> (jstr \<times> json) list" where
  "expense_row e = [(js ''category'', JStr (fst e)), (js ''amount'', JNum (snd e))]"

definition exportFinancialSummary ::
  "jstr \<Rightarrow> jstr \<Rightarrow> finance_summary \<Rightarrow> (jstr \<times> jsnum) list \<Rightarrow> report_format \<Rightarrow> jstr \<Rightarrow> jstr \<Rightarrow> jstr option \<Rightarrow> export_effect list" where
  "exportFinancialSummary date isoDate data expensesData fmt dateRange currency storeName =
     (let columns = [col (js ''item'') [1575, 1604, 1576, 1606, 1583],
                     col (js ''value'') (in_currency [1575, 1604, 1602, 1610, 1605,
                       1577] currency)];
          expenseColumns = [col (js ''category'') [1601, 1574, 1577, 32, 1575, 1604, 1605, 1589,
            1585, 1608, 1601],
                            col (js ''amount'') (in_currency [1575, 1604, 1605, 1576, 1604,
                              1594] currency)];
          options = \<lparr> op_filename = [1575, 1604, 1578, 1602, 1585, 1610, 1585, 95, 1575,
            1604, 1605, 1575, 1604, 1610],
                      op_title = Some [1575, 1604, 1578, 1602, 1585, 1610, 1585, 32, 1575, 1604,
                        1605, 1575, 1604, 1610],
                      op_subtitle = Some dateRange, op_storeName = storeName \<rparr>
      in if fmt = Excel
         then exportMultiSheetExcel isoDate
           [\<lparr> sh_name = [1575, 1604, 1605, 1604, 1582, 1589, 32, 1575, 1604, 1605, 1575,
             1604, 1610], sh_data = summary_rows data, sh_columns = columns \<rparr>,
            \<lparr> sh_name = [1578, 1601, 1575, 1589, 1610, 1604, 32, 1575, 1604, 1605, 1589,
              1585, 1608, 1601, 1575, 1578], sh_data = map expense_row expensesData,
              sh_columns = expenseColumns \<rparr>] options
         else exportToPDF date (summary_rows data) columns options)"

end
