(* ===== verification/Logger.thy ===== *)
theory Logger
  imports Utils Machines
begin

text \<open>
  The logger of \<open>core/logger.ts\<close>: masking of phone numbers, redaction of sensitive properties, the
  buffer of the last hundred entries, and what is written to the console.
\<close>

datatype log_level = L_debug | L_info | L_warn | L_error

text \<open>A value of type \<open>unknown\<close>: JSON values, \<open>Error\<close> objects (name, message, stack) and other values,
  of which only the text matters. A value that refers to itself is represented by its finite
  unfoldings: the traversal stops at a fixed depth.\<close>

datatype log_value =
    V_undef
  | V_null
  | V_bool bool
  | V_num jsnum
  | V_str jstr
  | V_err jstr jstr "jstr option"
  | V_arr "log_value list"
  | V_obj "(jstr \<times> log_value) list"
  | V_other jstr

record log_entry =
  g_level :: log_level
  g_message :: jstr
  g_timestamp :: int
  g_data :: log_value
  g_context :: "jstr option"

definition MAX_BUFFER_SIZE :: nat where
  "MAX_BUFFER_SIZE = 100"

section \<open>Phone numbers\<close>

definition stars :: "nat \<Rightarrow> jstr" where
  "stars n = str_repeat [42] n"

definition maskPhone :: "jstr \<Rightarrow> jstr" where
  "maskPhone phone =
     (let cleaned = trim phone; len = length cleaned
      in if cleaned = [] then []
         else if len \<le> 4 then js ''***''
         else if len \<le> 7 then take 2 cleaned @ js ''****'' @ slice_last 1 cleaned
         else (let prefixLen = (if starts_with cleaned [43] then 5 else 4);
                   suffixLen = 3;
                   maskedCount = int len - prefixLen - suffixLen
               in if maskedCount \<le> 0 then take 2 cleaned @ js ''****'' @ slice_last 2 cleaned
                  else take (nat prefixLen) cleaned @ stars (nat maskedCount)
                    @ slice_last (nat suffixLen) cleaned))"

text \<open>The number part \<open>7[0-9]{8,9}\<close> at the start: its length.\<close>

definition number_part :: "jstr \<Rightarrow> nat option" where
  "number_part s =
     (let n = length (takeWhile is_digit (tl s))
      in if prefix [55] s \<and> 8 \<le> n then Some (1 + min 9 n) else None)"

text \<open>The alternatives of the country or trunk prefix, in the order the expression tries them.\<close>

definition prefix_lengths :: "jstr \<Rightarrow> nat list" where
  "prefix_lengths s =
     (if prefix (js ''+964'') s then [4] else []) @ (if prefix (js ''964'') s then [3] else [])
       @ (if prefix [48] s then [1] else []) @ [0]"

definition phone_match :: "jstr \<Rightarrow> nat option" where
  "phone_match s =
     (case find_first (\<lambda>k. number_part (drop k s) \<noteq> None) (prefix_lengths s) of
        None \<Rightarrow> None
      | Some k \<Rightarrow> map_option (\<lambda>n. k + n) (number_part (drop k s)))"

lemma phone_match_pos: "phone_match s = Some n \<Longrightarrow> 0 < n"
  by (auto simp: phone_match_def number_part_def Let_def split: option.splits if_splits)

text \<open>\<open>s.replace(PHONE_REGEX, maskPhone)\<close>.\<close>

function mask_phones :: "jstr \<Rightarrow> jstr" where
  "mask_phones s =
     (case s of
        [] \<Rightarrow> []
      | c # t \<Rightarrow> (case phone_match s of
          None \<Rightarrow> c # mask_phones t
        | Some n \<Rightarrow> maskPhone (take n s) @ mask_phones (drop n s)))"
  by pat_completeness auto

termination
  by (relation "measure length") (auto dest: phone_match_pos)

declare mask_phones.simps [simp del]

lemma mask_phones_Nil [simp]: "mask_phones [] = []"
  by (simp add: mask_phones.simps)

definition phone_number :: "jstr \<Rightarrow> jstr \<Rightarrow> bool" where
  "phone_number cc ds \<longleftrightarrow> cc \<in> {[], [48], js ''964'', js ''+964''} \<and> (\<forall>c\<in>set ds. is_digit c)
     \<and> (length ds = 8 \<or> length ds = 9)"

lemma number_part_at:
  assumes "\<forall>c\<in>set ds. is_digit c" and "length ds = 8 \<or> length ds = 9" and "b = [] \<or> \<not> is_digit (hd b)"
  shows "number_part (55 # ds @ b) = Some (1 + length ds)"
proof -
  have "takeWhile is_digit (ds @ b) = ds" using assms(1,3) by (cases b) (auto simp: takeWhile_append)
  then show ?thesis using assms(2) by (auto simp: number_part_def Let_def)
qed

lemma phone_match_at:
  assumes "phone_number cc ds" and "b = [] \<or> \<not> is_digit (hd b)"
  shows "phone_match (cc @ 55 # ds @ b) = Some (length (cc @ 55 # ds))"
proof -
  have "number_part (55 # ds @ b) = Some (1 + length ds)"
    using assms by (intro number_part_at) (auto simp: phone_number_def)
  then show ?thesis using assms(1)
    by (auto simp: phone_number_def phone_match_def prefix_lengths_def)
qed

lemma mask_phones_skip:
  assumes "\<forall>c\<in>set a. \<not> is_digit c \<and> c \<noteq> 43"
  shows "mask_phones (a @ s) = a @ mask_phones s"
  using assms
proof (induction a)
  case (Cons c a)
  then have "phone_match ((c # a) @ s) = None"
    by (auto simp: phone_match_def prefix_lengths_def number_part_def is_digit_def)
  with Cons show ?case by (subst mask_phones.simps) simp
qed simp

lemma mask_phones_at:
  "phone_match s = Some n \<Longrightarrow> s \<noteq> [] \<Longrightarrow> mask_phones s = maskPhone (take n s) @ mask_phones (drop n s)"
  by (subst mask_phones.simps) (cases s, simp_all)

text \<open>How many characters stay visible at the front.\<close>

definition shown :: "jstr \<Rightarrow> nat" where
  "shown cc = (if prefix [43] cc then 5 else 4)"

lemma phone_number_length: "phone_number cc ds \<Longrightarrow> 9 \<le> length (cc @ 55 # ds) \<and> shown cc + 3 < length (cc @ 55 # ds)"
  by (auto simp: phone_number_def shown_def)

lemma phone_number_trim:
  assumes "phone_number cc ds"
  shows "trim (cc @ 55 # ds) = cc @ 55 # ds"
proof (rule trim_id)
  have ds: "ds \<noteq> []" "\<forall>c\<in>set ds. is_digit c" using assms by (auto simp: phone_number_def)
  then have "is_digit (last ds)" by simp
  then show "\<not> is_space (last (cc @ 55 # ds))" using ds(1) digit_not_sign by auto
  show "\<not> is_space (hd (cc @ 55 # ds))" using assms by (auto simp: phone_number_def is_space_def)
qed simp

lemma maskPhone_number:
  assumes "phone_number cc ds"
  shows "maskPhone (cc @ 55 # ds) = take (shown cc) (cc @ 55 # ds)
    @ stars (length (cc @ 55 # ds) - shown cc - 3) @ slice_last 3 (cc @ 55 # ds)"
proof -
  define p where "p = cc @ 55 # ds"
  have t: "trim p = p" and l: "9 \<le> length p" "shown cc + 3 < length p" and ne: "p \<noteq> []"
    using phone_number_trim [OF assms] phone_number_length [OF assms] by (simp_all add: p_def)
  have k: "(if starts_with p [43] then 5 else 4) = int (shown cc)"
    using assms by (auto simp: p_def shown_def starts_with_def phone_number_def)
  have m: "nat (int (length p) - int (shown cc) - 3) = length p - shown cc - 3" by simp
  have "maskPhone p = take (shown cc) p @ stars (length p - shown cc - 3) @ slice_last 3 p"
    unfolding maskPhone_def Let_def t k m using l ne by simp
  then show ?thesis by (simp only: p_def)
qed

text \<open>Phone numbers are masked in free text: an Iraqi number in any of the accepted spellings (bare, with
  trunk zero, with country code) inside any text is replaced by itself with everything between its
  first four (five after a plus) and last three characters starred out, and the text around it is
  left to be processed as before.\<close>

lemma phone_masked_in_text:
  assumes "phone_number cc ds" and "\<forall>c\<in>set a. \<not> is_digit c \<and> c \<noteq> 43" and "b = [] \<or> \<not> is_digit (hd b)"
  shows "mask_phones (a @ (cc @ 55 # ds) @ b)
     = a @ (take (shown cc) (cc @ 55 # ds) @ stars (length (cc @ 55 # ds) - shown cc - 3)
            @ slice_last 3 (cc @ 55 # ds)) @ mask_phones b"
proof -
  define p where "p = cc @ 55 # ds"
  have "p \<noteq> []" by (simp add: p_def)
  have "phone_match (p @ b) = Some (length p)" using phone_match_at [OF assms(1,3)] by (simp add: p_def)
  then have "mask_phones (p @ b) = maskPhone p @ mask_phones b"
    using mask_phones_at [of "p @ b" "length p"] \<open>p \<noteq> []\<close> by simp
  then have "mask_phones (a @ p @ b) = a @ maskPhone p @ mask_phones b"
    using mask_phones_skip [OF assms(2)] by simp
  then show ?thesis using maskPhone_number [OF assms(1)] by (simp only: p_def append_assoc)
qed

lemma phone_masked_in_text_witness:
  "mask_phones (js ''tel 07701234567.'') = js ''tel 0770****567'' @ mask_phones (js ''.'')"
  using phone_masked_in_text [of "[48]" "js ''701234567''" "js ''tel ''" "js ''.''"]
  by (simp add: phone_number_def is_digit_def shown_def stars_def str_repeat_def slice_last_def eval_nat_numeral)

section \<open>Redaction\<close>

definition lower_in :: "jstr \<Rightarrow> jstr list \<Rightarrow> bool" where
  "lower_in key ws = (map ascii_lower key \<in> set ws)"

definition sensitive_key :: "jstr \<Rightarrow> bool" where
  "sensitive_key key = lower_in key
     [js ''pin'', js ''password'', js ''secret'', js ''token'', js ''apikey'', js ''authorization'',
      js ''privatekey'', js ''accesstoken'', js ''refreshtoken'']"

definition phone_key :: "jstr \<Rightarrow> bool" where
  "phone_key key =
     (str_includes (map ascii_lower key) (js ''phone'') \<or> str_includes (map ascii_lower key) (js ''mobile''))"

definition NESTED :: jstr where
  "NESTED = js ''[NESTED_OBJECT]''"

definition REDACTED :: jstr where
  "REDACTED = js ''[REDACTED]''"

definition scrub :: "nat \<Rightarrow> jstr \<Rightarrow> log_value" where
  "scrub depth s = (if 5 < depth then V_str NESTED else V_str (mask_phones s))"

fun sanitizeLogData :: "log_value \<Rightarrow> nat \<Rightarrow> log_value"
  and sanitizeEntry :: "jstr \<times> log_value \<Rightarrow> nat \<Rightarrow> jstr \<times> log_value" where
  "sanitizeLogData V_undef depth = V_undef"
| "sanitizeLogData V_null depth = V_null"
| "sanitizeLogData (V_str s) depth = scrub depth s"
| "sanitizeLogData (V_num n) depth = (if 5 < depth then V_str NESTED else V_num n)"
| "sanitizeLogData (V_bool b) depth = (if 5 < depth then V_str NESTED else V_bool b)"
| "sanitizeLogData (V_err name msg stack) depth =
     (if 5 < depth then V_str NESTED
      else V_obj [(js ''name'', V_str name), (js ''message'', scrub (depth + 1) msg),
             (js ''stack'', case stack of None \<Rightarrow> V_undef
                | Some st \<Rightarrow> if st = [] then V_undef else scrub (depth + 1) st)])"
| "sanitizeLogData (V_arr xs) depth =
     (if 5 < depth then V_str NESTED else V_arr (map (\<lambda>x. sanitizeLogData x (depth + 1)) xs))"
| "sanitizeLogData (V_obj ps) depth =
     (if 5 < depth then V_str NESTED else V_obj (map (\<lambda>p. sanitizeEntry p (depth + 1)) ps))"
| "sanitizeLogData (V_other s) depth = (if 5 < depth then V_str NESTED else V_str s)"
| "sanitizeEntry (key, v) depth =
     (if sensitive_key key then (key, V_str REDACTED)
      else (case v of
         V_str s \<Rightarrow> (key, if phone_key key then V_str (maskPhone s) else scrub depth s)
       | _ \<Rightarrow> (key, sanitizeLogData v depth)))"

section \<open>The buffer and the console\<close>

definition addToBuffer :: "log_entry list \<Rightarrow> log_entry \<Rightarrow> log_entry list" where
  "addToBuffer buffer entry =
     (let pushed = buffer @ [entry] in if MAX_BUFFER_SIZE < length pushed then tl pushed else pushed)"

datatype console_call =
    GroupCollapsed jstr jstr
  | ConsoleData log_value
  | GroupEnd
  | ConsoleLog jstr jstr

definition STYLES :: "log_level \<Rightarrow> jstr" where
  "STYLES lv = (case lv of
     L_debug \<Rightarrow> js ''color: #9CA3AF; font-weight: normal;''
   | L_info \<Rightarrow> js ''color: #3B82F6; font-weight: bold;''
   | L_warn \<Rightarrow> js ''color: #F59E0B; font-weight: bold;''
   | L_error \<Rightarrow> js ''color: #EF4444; font-weight: bold;'')"

definition ICONS :: "log_level \<Rightarrow> jstr" where
  "ICONS lv = (case lv of L_debug \<Rightarrow> [55357, 56589] | L_info \<Rightarrow> [8505, 65039]
     | L_warn \<Rightarrow> [9888, 65039] | L_error \<Rightarrow> [10060])"

record log_call =
  lc_level :: log_level
  lc_message :: jstr
  lc_data :: log_value
  lc_context :: "jstr option"
  lc_now :: int
  lc_clock :: jstr

definition log_entry_of :: "log_call \<Rightarrow> log_entry" where
  "log_entry_of c = \<lparr> g_level = lc_level c, g_message = mask_phones (lc_message c), g_timestamp = lc_now c,
     g_data = sanitizeLogData (lc_data c) 0, g_context = lc_context c \<rparr>"

text \<open>What a call writes to the console; \<open>lc_clock\<close> is the formatted time.\<close>

definition console_output :: "bool \<Rightarrow> log_call \<Rightarrow> console_call list" where
  "console_output is_production c =
     (let e = log_entry_of c; lv = lc_level c in
      if is_production \<and> lv \<noteq> L_warn \<and> lv \<noteq> L_error then []
      else (let pre = ICONS lv @ 32 # 91 # lc_clock c @ 93 #
                  (case lc_context c of None \<Rightarrow> [] | Some x \<Rightarrow> if x = [] then [] else 32 # 91 # x @ [93]);
                line = js ''%c'' @ pre @ 32 # g_message e
            in if g_data e \<noteq> V_undef
               then [GroupCollapsed line (STYLES lv), ConsoleData (g_data e), GroupEnd]
               else [ConsoleLog line (STYLES lv)]))"

definition log_js :: "bool \<Rightarrow> log_entry list \<Rightarrow> log_call \<Rightarrow> log_entry list \<times> console_call list" where
  "log_js is_production buffer c = (addToBuffer buffer (log_entry_of c), console_output is_production c)"

text \<open>The public object: logging at a level, reading and clearing the buffer, a fixed context.\<close>

datatype logger_op = Log log_call | ClearLogs

definition logger_step :: "log_entry list \<Rightarrow> logger_op \<Rightarrow> log_entry list" where
  "logger_step buffer op' = (case op' of Log c \<Rightarrow> fst (log_js False buffer c) | ClearLogs \<Rightarrow> [])"

definition getLogs :: "log_entry list \<Rightarrow> log_entry list" where
  "getLogs buffer = buffer"

definition withContext :: "jstr \<Rightarrow> log_call \<Rightarrow> logger_op" where
  "withContext context' c = Log (c \<lparr> lc_context := Some context' \<rparr>)"

section \<open>What the log may contain\<close>

text \<open>No sensitive property anywhere holds anything but the placeholder.\<close>

fun log_safe :: "log_value \<Rightarrow> bool" where
  "log_safe (V_arr xs) = (\<forall>x\<in>set xs. log_safe x)"
| "log_safe (V_obj ps) = (\<forall>p\<in>set ps. (sensitive_key (fst p) \<longrightarrow> snd p = V_str REDACTED) \<and> log_safe (snd p))"
| "log_safe (V_err name msg stack) = False"
| "log_safe v = True"

fun log_height :: "log_value \<Rightarrow> nat" where
  "log_height (V_arr xs) = Suc (foldr max (map log_height xs) 0)"
| "log_height (V_obj ps) = Suc (foldr max (map (\<lambda>p. log_height (snd p)) ps) 0)"
| "log_height v = 0"

lemma foldr_max_le: "(\<And>x. x \<in> set xs \<Longrightarrow> f x \<le> n) \<Longrightarrow> foldr max (map f xs) 0 \<le> (n::nat)"
  by (induction xs) auto

lemma scrub_safe [simp]: "log_safe (scrub d s)" "log_height (scrub d s) = 0"
  by (simp_all add: scrub_def)

lemma err_keys [simp]: "\<not> sensitive_key (js ''name'')" "\<not> sensitive_key (js ''message'')" "\<not> sensitive_key (js ''stack'')"
  by (simp_all add: sensitive_key_def lower_in_def ascii_lower_def)

lemma sanitize_safe:
  "log_safe (sanitizeLogData v d)"
  "(sensitive_key (fst (sanitizeEntry p d)) \<longrightarrow> snd (sanitizeEntry p d) = V_str REDACTED)
    \<and> log_safe (snd (sanitizeEntry p d))"
proof (induction v d and p d rule: sanitizeLogData_sanitizeEntry.induct)
  case (6 name msg stack depth)
  then show ?case by (auto split: option.splits simp del: js_Cons js_Nil)
next
  case (10 key v depth)
  then show ?case by (cases v) auto
qed (auto simp: scrub_def)

lemma sanitize_height:
  "d \<le> 6 \<Longrightarrow> log_height (sanitizeLogData v d) \<le> 6 - d"
  "d \<le> 6 \<Longrightarrow> log_height (snd (sanitizeEntry p d)) \<le> 6 - d"
proof (induction v d and p d rule: sanitizeLogData_sanitizeEntry.induct)
  case (6 name msg stack depth)
  then show ?case by (auto split: option.splits)
next
  case (7 xs depth)
  show ?case
  proof (cases "5 < depth")
    case False
    then have "log_height (sanitizeLogData x (depth + 1)) \<le> 5 - depth" if "x \<in> set xs" for x
      using 7(1) [OF False that] by simp
    then have "foldr max (map (log_height \<circ> (\<lambda>x. sanitizeLogData x (depth + 1))) xs) 0 \<le> 5 - depth"
      by (intro foldr_max_le) simp
    then show ?thesis using False by simp
  qed simp
next
  case (8 ps depth)
  show ?case
  proof (cases "5 < depth")
    case False
    then have "log_height (snd (sanitizeEntry p (depth + 1))) \<le> 5 - depth" if "p \<in> set ps" for p
      using 8(1) [OF False that] by simp
    then have "foldr max (map ((\<lambda>p. log_height (snd p)) \<circ> (\<lambda>p. sanitizeEntry p (depth + 1))) ps) 0 \<le> 5 - depth"
      by (intro foldr_max_le) simp
    then show ?thesis using False by (simp add: comp_def)
  qed simp
next
  case (10 key v depth)
  then show ?case by (cases v) auto
qed (auto simp: scrub_def)

text \<open>C9. Data that is logged is redacted at every level of nesting: whatever value is passed, no
  sensitive property of the logged copy holds anything but the placeholder, no \<open>Error\<close> object is
  kept, and the copy is at most six levels deep.\<close>

theorem logged_data_redacted:
  "log_safe (sanitizeLogData v 0) \<and> log_height (sanitizeLogData v 0) \<le> 6"
  using sanitize_safe(1) sanitize_height(1) [of 0] by simp

section \<open>The buffer keeps the last entries\<close>

definition last_n :: "nat \<Rightarrow> 'a list \<Rightarrow> 'a list" where
  "last_n n xs = drop (length xs - n) xs"

lemma addToBuffer_last: "addToBuffer (last_n MAX_BUFFER_SIZE xs) e = last_n MAX_BUFFER_SIZE (xs @ [e])"
proof (cases "length xs < 100")
  case True
  then show ?thesis by (simp add: addToBuffer_def last_n_def MAX_BUFFER_SIZE_def)
next
  case False
  then have "Suc (length xs) - 100 = Suc (length xs - 100)" by simp
  with False show ?thesis
    by (simp add: addToBuffer_def last_n_def MAX_BUFFER_SIZE_def Suc_diff_le drop_Suc tl_drop tl_append2)
qed

text \<open>The entries a sequence of operations leaves: those logged since the last clearing.\<close>

fun logged_since :: "log_entry list \<Rightarrow> logger_op list \<Rightarrow> log_entry list" where
  "logged_since es [] = es"
| "logged_since es (Log c # ops) = logged_since (es @ [log_entry_of c]) ops"
| "logged_since es (ClearLogs # ops) = logged_since [] ops"

lemma run_logger: "run logger_step (last_n MAX_BUFFER_SIZE es) ops = last_n MAX_BUFFER_SIZE (logged_since es ops)"
proof (induction ops arbitrary: es)
  case (Cons op' ops)
  show ?case
  proof (cases op')
    case (Log c)
    then show ?thesis using Cons by (simp add: logger_step_def log_js_def addToBuffer_last)
  next
    case ClearLogs
    have "[] = last_n MAX_BUFFER_SIZE ([] :: log_entry list)" by (simp add: last_n_def)
    then show ?thesis using Cons [of "[]"] ClearLogs by (simp add: logger_step_def)
  qed
qed simp

definition buffer_ok :: "log_entry list \<Rightarrow> bool" where
  "buffer_ok b = (length b \<le> MAX_BUFFER_SIZE \<and> (\<forall>e\<in>set b. log_safe (g_data e)))"

interpretation log_machine: machine logger_step buffer_ok "\<lambda>_. True"
proof
  fix b op'
  assume b: "buffer_ok b"
  show "buffer_ok (logger_step b op')"
  proof (cases op')
    case (Log c)
    have "log_safe (g_data (log_entry_of c))" using sanitize_safe(1) by (simp add: log_entry_of_def)
    then show ?thesis using b Log
      by (cases b) (auto simp: buffer_ok_def logger_step_def log_js_def addToBuffer_def Let_def)
  next
    case ClearLogs
    then show ?thesis by (simp add: logger_step_def buffer_ok_def)
  qed
qed

text \<open>The log buffer is a ring of the last hundred entries: after any sequence of calls and clearings
  it holds exactly the last hundred entries logged since the last clearing, in order, each with its
  data redacted.\<close>

lemma log_buffer_ring:
  "run logger_step [] ops = last_n MAX_BUFFER_SIZE (logged_since [] ops)
   \<and> length (run logger_step [] ops) \<le> 100
   \<and> (\<forall>e\<in>set (run logger_step [] ops). log_safe (g_data e))"
proof -
  have "run logger_step [] ops = last_n MAX_BUFFER_SIZE (logged_since [] ops)"
    using run_logger [of "[]" ops] by (simp add: last_n_def)
  moreover have "buffer_ok (run logger_step [] ops)"
    by (rule log_machine.run_inv) (simp_all add: buffer_ok_def)
  ultimately show ?thesis by (simp add: buffer_ok_def MAX_BUFFER_SIZE_def)
qed

lemma log_buffer_ring_witness:
  "length (run logger_step [] (replicate 250 (Log \<lparr> lc_level = L_info, lc_message = js ''scan'',
     lc_data = V_obj [(js ''pin'', V_str (js ''1234''))], lc_context = None, lc_now = 0, lc_clock = [] \<rparr>))) \<le> 100"
  using log_buffer_ring by blast

end
