(* ===== verification/License.thy ===== *)
theory License
  imports Domain Machines
begin

text \<open>
  The licence service: the edge functions under \<open>supabase/functions\<close> (activate, verify, delete
  account) on the table \<open>licenses\<close> of \<open>supabase_setup.sql\<close>. A handler is split where it awaits the
  database, so that requests can interleave. Every database request may be refused by the server:
  whether it was is an argument of the handler. Times are milliseconds.
\<close>

section \<open>The table\<close>

datatype license_status = Ls_active | Ls_suspended | Ls_other jstr

record license =
  ls_id :: nat
  ls_key :: jstr
  ls_status :: license_status
  ls_user :: "jstr option"
  ls_bound_at :: "int option"
  ls_expires_at :: "int option"
  ls_features :: json
  ls_last_check_in :: "int option"

type_synonym license_table = "license list"

text \<open>The primary key and the unique key.\<close>

definition table_ok :: "license_table \<Rightarrow> bool" where
  "table_ok t = (distinct (map ls_id t) \<and> distinct (map ls_key t))"

definition update_where :: "(license \<Rightarrow> bool) \<Rightarrow> (license \<Rightarrow> license) \<Rightarrow> license_table \<Rightarrow> license_table" where
  "update_where P f t = map (\<lambda>r. if P r then f r else r) t"

text \<open>\<open>.single()\<close> and \<open>.maybeSingle()\<close>: no row, an error on several.\<close>

definition single_row :: "license list \<Rightarrow> license option" where
  "single_row rs = (case rs of [r] \<Rightarrow> Some r | _ \<Rightarrow> None)"

section \<open>Responses\<close>

record license_response =
  rp_status :: nat
  rp_licensed :: bool
  rp_message :: jstr
  rp_expiry :: "int option"
  rp_features :: "json option"

definition refuse :: "nat \<Rightarrow> jstr \<Rightarrow> license_response" where
  "refuse code msg = \<lparr> rp_status = code, rp_licensed = False, rp_message = msg, rp_expiry = None, rp_features = None \<rparr>"

definition features_or_empty :: "json \<Rightarrow> json" where
  "features_or_empty f = (if json_truthy f then f else JObj [])"

definition grant :: "jstr \<Rightarrow> license \<Rightarrow> license_response" where
  "grant msg l = \<lparr> rp_status = 200, rp_licensed = True, rp_message = msg, rp_expiry = ls_expires_at l,
     rp_features = Some (features_or_empty (ls_features l)) \<rparr>"

section \<open>Activation\<close>

definition msg_required :: jstr where "msg_required = [1605, 1601, 1578, 1575, 1581, 32, 1575,
  1604, 1578, 1585, 1582, 1610, 1589, 32, 1608, 1605,
  1593, 1585, 1601, 32, 1575, 1604, 1605, 1587, 1578, 1582, 1583, 1605, 32, 1605, 1591, 1604,
  1608, 1576, 1575, 1606]"
definition msg_unknown :: jstr where "msg_unknown = [1605, 1601, 1578, 1575, 1581, 32, 1575,
  1604, 1578, 1585, 1582, 1610, 1589, 32, 1594, 1610,
  1585, 32, 1605, 1608, 1580, 1608, 1583]"
definition msg_inactive :: jstr where "msg_inactive = [1575, 1604, 1578, 1585, 1582, 1610, 1589,
  32, 1594, 1610, 1585, 32, 1606, 1588, 1591, 32, 1571,
  1608, 32, 1578, 1605, 32, 1581, 1592, 1585, 1607]"
definition msg_other_account :: jstr where "msg_other_account = [1607, 1584, 1575, 32, 1575,
  1604, 1578, 1585, 1582, 1610, 1589, 32, 1605, 1585, 1578, 1576,
  1591, 32, 1576, 1581, 1587, 1575, 1576, 32, 1570, 1582, 1585, 32, 1576, 1575, 1604, 1601, 1593,
  1604]"
definition msg_bind_failed :: jstr where "msg_bind_failed = [1601, 1588, 1604, 32, 1578, 1601,
  1593, 1610, 1604, 32, 1575, 1604, 1578, 1585, 1582, 1610,
  1589, 32, 1601, 1610, 32, 1602, 1575, 1593, 1583, 1577, 32, 1575, 1604, 1576, 1610, 1575, 1606,
  1575, 1578]"
definition msg_activated :: jstr where "msg_activated = [1578, 1605, 32, 1578, 1601, 1593, 1610,
  1604, 32, 1575, 1604, 1578, 1585, 1582, 1610, 1589, 32,
  1576, 1606, 1580, 1575, 1581]"

record activation =
  av_key :: jstr
  av_user :: jstr
  av_now :: int

text \<open>Up to the binding: a response, or the licence to bind. \<open>upper\<close> is \<open>toUpperCase\<close>.\<close>

definition activate_check :: "(jstr \<Rightarrow> jstr) \<Rightarrow> bool \<Rightarrow> license_table \<Rightarrow> activation \<Rightarrow> license_response + license" where
  "activate_check upper fetch_ok t rq =
     (if av_key rq = [] \<or> av_user rq = [] then Inl (refuse 400 msg_required)
      else (case (if fetch_ok then single_row (filter (\<lambda>r. ls_key r = upper (av_key rq)) t) else None) of
         None \<Rightarrow> Inl (refuse 200 msg_unknown)
       | Some l \<Rightarrow>
           if ls_status l \<noteq> Ls_active then Inl (refuse 200 msg_inactive)
           else if ls_user l \<notin> {None, Some [], Some (av_user rq)} then Inl (refuse 200 msg_other_account)
           else Inr l))"

definition bind_row :: "activation \<Rightarrow> license \<Rightarrow> license" where
  "bind_row rq r = r \<lparr> ls_user := Some (av_user rq), ls_bound_at := Some (av_now rq),
     ls_last_check_in := Some (av_now rq) \<rparr>"

definition activate_bind :: "bool \<Rightarrow> license_table \<Rightarrow> activation \<Rightarrow> license \<Rightarrow> license_table \<times> license_response" where
  "activate_bind update_ok t rq l =
     (if update_ok then (update_where (\<lambda>r. ls_id r = ls_id l) (bind_row rq) t, grant msg_activated l)
      else (t, refuse 500 msg_bind_failed))"

definition activate_license ::
  "(jstr \<Rightarrow> jstr) \<Rightarrow> bool \<Rightarrow> bool \<Rightarrow> license_table \<Rightarrow> activation \<Rightarrow> license_table \<times> license_response" where
  "activate_license upper fetch_ok update_ok t rq =
     (case activate_check upper fetch_ok t rq of
        Inl r \<Rightarrow> (t, r)
      | Inr l \<Rightarrow> activate_bind update_ok t rq l)"

section \<open>Verification\<close>

definition msg_user_required :: jstr where "msg_user_required = [1605, 1593, 1585, 1601, 32,
  1575, 1604, 1605, 1587, 1578, 1582, 1583, 1605, 32, 1605, 1591,
  1604, 1608, 1576]"
definition msg_none_active :: jstr where "msg_none_active = [1604, 1575, 32, 1610, 1608, 1580,
  1583, 32, 1578, 1585, 1582, 1610, 1589, 32, 1606, 1588, 1591,
  32, 1605, 1585, 1578, 1576, 1591, 32, 1576, 1581, 1587, 1575, 1576, 1603]"
definition msg_expired :: jstr where "msg_expired = [1575, 1606, 1578, 1607, 1578, 32, 1589,
  1604, 1575, 1581, 1610, 1577, 32, 1575, 1604, 1578,
  1585, 1582, 1610, 1589, 32, 1575, 1604, 1582, 1575, 1589, 32, 1576, 1603]"
definition msg_valid :: jstr where "msg_valid = [1575, 1604, 1578, 1585, 1582, 1610, 1589, 32,
  1606, 1588, 1591, 32, 1608, 1589, 1575, 1604, 1581]"

definition expired :: "int \<Rightarrow> license \<Rightarrow> bool" where
  "expired now l = (case ls_expires_at l of None \<Rightarrow> False | Some e \<Rightarrow> e < now)"

definition verify_license :: "bool \<Rightarrow> bool \<Rightarrow> license_table \<Rightarrow> jstr \<Rightarrow> int \<Rightarrow> license_table \<times> license_response" where
  "verify_license fetch_ok update_ok t user now =
     (if user = [] then (t, refuse 400 msg_user_required)
      else (case (if fetch_ok then single_row (filter (\<lambda>r. ls_user r = Some user \<and> ls_status r = Ls_active) t)
                  else None) of
         None \<Rightarrow> (t, refuse 200 msg_none_active)
       | Some l \<Rightarrow>
           if expired now l then (t, refuse 200 msg_expired)
           else (if update_ok then update_where (\<lambda>r. ls_id r = ls_id l) (\<lambda>r. r \<lparr> ls_last_check_in := Some now \<rparr>) t else t,
                 grant msg_valid l)))"

section \<open>Account deletion\<close>

record account_response =
  ac_status :: nat
  ac_success :: bool
  ac_text :: jstr

text \<open>\<open>get_user\<close> is the authentication service on the bearer token; \<open>delete_user\<close> deletes the user
  or returns the text of an error. With the user goes the reference to it: the foreign key of the licences is declared
  with \<open>ON DELETE SET NULL\<close> (\<open>supabase_setup.sql\<close>).\<close>

definition delete_account ::
  "(jstr \<Rightarrow> jstr option) \<Rightarrow> (jstr \<Rightarrow> jstr option) \<Rightarrow> bool \<Rightarrow> license_table \<Rightarrow> jstr option \<Rightarrow> license_table \<times> account_response" where
  "delete_account get_user delete_user update_ok t authHeader =
     (case authHeader of
        None \<Rightarrow> (t, \<lparr> ac_status = 401, ac_success = False, ac_text = js ''Missing Authorization header'' \<rparr>)
      | Some h \<Rightarrow>
          if h = [] then (t, \<lparr> ac_status = 401, ac_success = False, ac_text = js ''Missing Authorization header'' \<rparr>)
          else (case get_user (replace_first (js ''Bearer '') [] h) of
             None \<Rightarrow> (t, \<lparr> ac_status = 401, ac_success = False, ac_text = js ''Unauthorized or invalid session'' \<rparr>)
           | Some userId \<Rightarrow>
               (let t' = (if update_ok
                          then update_where (\<lambda>r. ls_user r = Some userId)
                                 (\<lambda>r. r \<lparr> ls_user := None, ls_bound_at := None, ls_status := Ls_suspended \<rparr>) t
                          else t)
                in (case delete_user userId of
                      Some e \<Rightarrow> (t', \<lparr> ac_status = 500, ac_success = False, ac_text = js ''Failed to delete user: '' @ e \<rparr>)
                    | None \<Rightarrow> (update_where (\<lambda>r. ls_user r = Some userId) (\<lambda>r. r \<lparr> ls_user := None \<rparr>) t',
                        \<lparr> ac_status = 200, ac_success = True, ac_text = js ''Account deleted successfully'' \<rparr>)))))"

section \<open>Requests one after another\<close>

datatype license_op =
    Activate bool bool activation
  | Verify bool bool jstr int
  | Delete_account jstr bool

text \<open>The effect of an operation on the table; a deletion is by its authenticated user.\<close>

definition license_step :: "(jstr \<Rightarrow> jstr) \<Rightarrow> license_table \<Rightarrow> license_op \<Rightarrow> license_table" where
  "license_step upper t op' = (case op' of
     Activate f u rq \<Rightarrow> fst (activate_license upper f u t rq)
   | Verify f u user now \<Rightarrow> fst (verify_license f u t user now)
   | Delete_account user u \<Rightarrow> fst (delete_account (\<lambda>_. Some user) (\<lambda>_. None) u t (Some (js ''Bearer x''))))"

definition row_identity :: "license \<Rightarrow> nat \<times> jstr \<times> int option \<times> json" where
  "row_identity r = (ls_id r, ls_key r, ls_expires_at r, ls_features r)"

lemma map_update_where: "(\<And>r. g (f r) = g r) \<Longrightarrow> map g (update_where P f t) = map g t"
  by (simp add: update_where_def)

lemma released_twice:
  "update_where (\<lambda>r. ls_user r = Some u) g (update_where (\<lambda>r. ls_user r = Some u)
     (\<lambda>r. r \<lparr> ls_user := None, ls_bound_at := None, ls_status := Ls_suspended \<rparr>) t)
   = update_where (\<lambda>r. ls_user r = Some u) (\<lambda>r. r \<lparr> ls_user := None, ls_bound_at := None, ls_status := Ls_suspended \<rparr>) t"
  by (simp add: update_where_def)

lemma bind_row_identity [simp]: "row_identity (bind_row rq r) = row_identity r"
  by (simp add: row_identity_def bind_row_def)

lemma step_identity: "map row_identity (license_step upper t op') = map row_identity t"
proof (cases op')
  case (Activate f u rq)
  then show ?thesis
    by (auto simp: license_step_def activate_license_def activate_bind_def map_update_where split: sum.splits)
next
  case (Verify f u user now)
  have "row_identity (r \<lparr> ls_last_check_in := c \<rparr>) = row_identity r" for r c by (simp add: row_identity_def)
  with Verify show ?thesis
    by (auto simp: license_step_def verify_license_def map_update_where split: option.splits)
next
  case (Delete_account user u)
  have "row_identity (r \<lparr> ls_user := None, ls_bound_at := None, ls_status := Ls_suspended \<rparr>) = row_identity r"
    "row_identity (r \<lparr> ls_user := None \<rparr>) = row_identity r" for r
    by (simp_all add: row_identity_def)
  with Delete_account show ?thesis
    by (auto simp: license_step_def delete_account_def map_update_where Let_def)
qed

lemma table_ok_identity: "map row_identity t = map row_identity t' \<Longrightarrow> table_ok t \<Longrightarrow> table_ok t'"
proof -
  assume e: "map row_identity t = map row_identity t'" and t: "table_ok t"
  have "map fst (map row_identity t) = map fst (map row_identity t')"
    and "map (fst \<circ> snd) (map row_identity t) = map (fst \<circ> snd) (map row_identity t')" using e by simp_all
  then have "map ls_id t = map ls_id t'" "map ls_key t = map ls_key t'"
    by (simp_all add: row_identity_def comp_def)
  with t show ?thesis by (simp add: table_ok_def)
qed

interpretation license_frame: framed_machine "license_step upper" table_ok "\<lambda>_. True" "map row_identity" for upper
proof
  show "table_ok t \<Longrightarrow> table_ok (license_step upper t op')" for t op'
    using table_ok_identity step_identity by metis
  show "map row_identity (license_step upper t op') = map row_identity t" for t op'
    by (rule step_identity)
qed

text \<open>The owner of the licence with an id.\<close>

definition owned :: "nat \<Rightarrow> jstr \<Rightarrow> license_table \<Rightarrow> bool" where
  "owned i u t = (\<exists>r\<in>set t. ls_id r = i \<and> ls_user r = Some u)"

lemma table_row_unique: "table_ok t \<Longrightarrow> r \<in> set t \<Longrightarrow> r' \<in> set t \<Longrightarrow> ls_id r = ls_id r' \<Longrightarrow> r = r'"
  by (auto simp: table_ok_def distinct_map inj_on_def)

lemma single_row_filter: "single_row (filter P t) = Some r \<Longrightarrow> r \<in> set t \<and> P r"
  by (cases "filter P t") (auto simp: single_row_def filter_eq_Cons_iff split: list.splits)

lemma activate_check_Inr:
  "activate_check upper f t rq = Inr l \<Longrightarrow> l \<in> set t \<and> ls_key l = upper (av_key rq) \<and> ls_status l = Ls_active
     \<and> av_user rq \<noteq> [] \<and> ls_user l \<in> {None, Some [], Some (av_user rq)}"
  by (auto simp: activate_check_def dest!: single_row_filter split: if_splits option.splits)

lemma update_where_row:
  "r \<in> set (update_where P f t) \<longleftrightarrow> (\<exists>s\<in>set t. r = (if P s then f s else s))"
  by (auto simp: update_where_def)

lemma filter_unique_key: "distinct (map f s) \<Longrightarrow> x \<in> set s \<Longrightarrow> filter (\<lambda>r. f r = f x) s = [x]"
proof (induction s)
  case (Cons y s)
  then show ?case by (cases "x = y") (auto simp: filter_empty_conv image_iff)
qed simp

lemma owned_update:
  assumes "r \<in> set t" "ls_id r = i" "ls_user r = Some u" "P r \<Longrightarrow> ls_user (f r) = Some u"
    "\<And>s. ls_id (f s) = ls_id s"
  shows "owned i u (update_where P f t)"
proof -
  have "(if P r then f r else r) \<in> set (update_where P f t)" using assms(1) by (auto simp: update_where_def)
  then show ?thesis using assms unfolding owned_def by (intro bexI [of _ "if P r then f r else r"]) auto
qed

interpretation license_owner: machine "license_step upper" "\<lambda>t. table_ok t \<and> owned i u t \<and> u \<noteq> []"
  "\<lambda>op'. \<forall>b. op' \<noteq> Delete_account u b" for upper i u
proof
  fix t op'
  assume inv: "table_ok t \<and> owned i u t \<and> u \<noteq> []" and acc: "\<forall>b. op' \<noteq> Delete_account u b"
  then obtain r where r: "r \<in> set t" "ls_id r = i" "ls_user r = Some u" by (auto simp: owned_def)
  have ok: "table_ok (license_step upper t op')" using inv license_frame.step_inv by blast
  have "owned i u (license_step upper t op')"
  proof (cases op')
    case (Activate f b rq)
    show ?thesis
    proof (cases "activate_check upper f t rq")
      case (Inl x)
      then show ?thesis using inv Activate by (simp add: license_step_def activate_license_def)
    next
      case (Inr l)
      note l = activate_check_Inr [OF Inr]
      have same: "ls_user (bind_row rq r) = Some u" if "ls_id r = ls_id l"
      proof -
        have "r = l" using table_row_unique inv r(1) l that by blast
        then show ?thesis using l r(3) inv by (auto simp: bind_row_def)
      qed
      have "owned i u (update_where (\<lambda>r. ls_id r = ls_id l) (bind_row rq) t)"
        using r(1,2,3) by (rule owned_update) (simp_all add: same, simp add: bind_row_def)
      then show ?thesis using Inr Activate inv
        by (simp add: license_step_def activate_license_def activate_bind_def)
    qed
  next
    case (Verify f b user now)
    have "owned i u (update_where P (\<lambda>s. s \<lparr> ls_last_check_in := Some now \<rparr>) t)" for P
      using r by (rule owned_update) (use r in simp_all)
    then show ?thesis using Verify inv
      by (auto simp: license_step_def verify_license_def split: option.splits)
  next
    case (Delete_account user b)
    then have "user \<noteq> u" using acc by auto
    have "owned i u (update_where (\<lambda>s. ls_user s = Some user)
        (\<lambda>s. s \<lparr> ls_user := None, ls_bound_at := None, ls_status := Ls_suspended \<rparr>) t)"
      "owned i u (update_where (\<lambda>s. ls_user s = Some user) (\<lambda>s. s \<lparr> ls_user := None \<rparr>) t)"
      using r(1,2,3) by (rule owned_update, use r \<open>user \<noteq> u\<close> in simp_all)+
    then show ?thesis using inv Delete_account
      by (simp add: license_step_def delete_account_def Let_def released_twice)
  qed
  with ok inv show "table_ok (license_step upper t op') \<and> owned i u (license_step upper t op') \<and> u \<noteq> []" by simp
qed

text \<open>C10. A bound licence cannot be taken over: when requests are served one at a time, whatever
  activations, verifications and deletions of other accounts follow, and whichever of their database
  requests fail, a licence that is bound to a user stays bound to that user.\<close>

theorem bound_license_kept:
  assumes "table_ok t" and "owned i u t" and "u \<noteq> []" and "\<forall>op'\<in>set ops. \<forall>b. op' \<noteq> Delete_account u b"
  shows "owned i u (run (license_step upper) t ops)"
  using license_owner.run_inv [of t i u ops upper] assms by blast

definition sample_license :: "nat \<Rightarrow> jstr \<Rightarrow> jstr option \<Rightarrow> license" where
  "sample_license i k u = \<lparr> ls_id = i, ls_key = k, ls_status = Ls_active, ls_user = u, ls_bound_at = None,
     ls_expires_at = None, ls_features = JNull, ls_last_check_in = None \<rparr>"

theorem bound_license_kept_witness:
  "owned 1 (js ''u'') (run (license_step (\<lambda>k. k)) [sample_license 1 (js ''K'') (Some (js ''u''))]
     [Activate True True \<lparr> av_key = js ''K'', av_user = js ''v'', av_now = 5 \<rparr>, Delete_account (js ''v'') True])"
  by (rule bound_license_kept) (auto simp: table_ok_def owned_def sample_license_def)

section \<open>What the functions promise each other\<close>

text \<open>Activation and verification agree: when an activation is granted and the user has no other active
  licence, verifying that user at any time before the expiry is granted too, with the expiry and the
  features that the activation reported.\<close>

lemma activate_then_verify:
  assumes ok: "table_ok t" and act: "activate_license upper f u t rq = (t', r)" and "rp_licensed r"
    and alone: "\<forall>l\<in>set t. ls_user l = Some (av_user rq) \<longrightarrow> ls_status l = Ls_active \<longrightarrow> ls_key l = upper (av_key rq)"
    and "case rp_expiry r of None \<Rightarrow> True | Some e \<Rightarrow> now \<le> e"
  shows "\<exists>t'' r'. verify_license True u' t' (av_user rq) now = (t'', r') \<and> rp_licensed r'
     \<and> rp_expiry r' = rp_expiry r \<and> rp_features r' = rp_features r"
proof -
  obtain l where l: "activate_check upper f t rq = Inr l" and u: "u"
    and t': "t' = update_where (\<lambda>r. ls_id r = ls_id l) (bind_row rq) t" and r: "r = grant msg_activated l"
    using act \<open>rp_licensed r\<close>
    by (auto simp: activate_license_def activate_bind_def refuse_def activate_check_def
        split: sum.splits if_splits option.splits)
  note facts = activate_check_Inr [OF l]
  let ?b = "bind_row rq l" and ?P = "\<lambda>r. ls_user r = Some (av_user rq) \<and> ls_status r = Ls_active"
  have only: "s = l" if "s \<in> set t" "?P (if ls_id s = ls_id l then bind_row rq s else s)" for s
  proof (cases "ls_id s = ls_id l")
    case True
    then show ?thesis using table_row_unique [OF ok] that(1) facts by blast
  next
    case False
    then have "ls_key s = ls_key l" using that alone facts by auto
    then show ?thesis using ok that(1) facts by (auto simp: table_ok_def distinct_map inj_on_def)
  qed
  have "filter ?P t' = [?b]"
  proof -
    obtain xs ys where t: "t = xs @ l # ys" using facts by (auto simp: in_set_conv_decomp)
    have d: "l \<notin> set xs" "l \<notin> set ys" using ok by (auto simp: t table_ok_def)
    have "\<forall>s\<in>set xs \<union> set ys. \<not> ?P (if ls_id s = ls_id l then bind_row rq s else s)"
      using only d unfolding t by (metis Un_iff in_set_conv_decomp set_append set_ConsD list.set_intros(2))
    then have "filter ?P (map (\<lambda>s. if ls_id s = ls_id l then bind_row rq s else s) zs) = []"
      if "set zs \<subseteq> set xs \<union> set ys" for zs using that unfolding filter_empty_conv set_map by blast
    from this [of xs] this [of ys] show ?thesis
      using facts by (simp add: t' t update_where_def) (simp add: bind_row_def)
  qed
  then have "verify_license True u' t' (av_user rq) now
      = (if u' then update_where (\<lambda>r. ls_id r = ls_id ?b) (\<lambda>r. r \<lparr> ls_last_check_in := Some now \<rparr>) t' else t', grant msg_valid ?b)"
    using facts assms(5)
    by (auto simp: verify_license_def single_row_def expired_def bind_row_def r grant_def split: option.splits)
  then show ?thesis by (auto simp: grant_def r bind_row_def)
qed

lemma activate_then_verify_witness:
  "\<exists>t'' r'. verify_license True True (fst (activate_license (\<lambda>k. k) True True [sample_license 1 (js ''K'') None]
      \<lparr> av_key = js ''K'', av_user = js ''u'', av_now = 3 \<rparr>)) (js ''u'') 9 = (t'', r') \<and> rp_licensed r'
     \<and> rp_expiry r' = None \<and> rp_features r' = Some (JObj [])"
  using activate_then_verify [of "[sample_license 1 (js ''K'') None]" "\<lambda>k. k" True True
      "\<lparr> av_key = js ''K'', av_user = js ''u'', av_now = 3 \<rparr>"
      "fst (activate_license (\<lambda>k. k) True True [sample_license 1 (js ''K'') None] \<lparr> av_key = js ''K'', av_user = js ''u'', av_now = 3 \<rparr>)"
      "grant msg_activated (sample_license 1 (js ''K'') None)" 9 True]
  by (simp add: table_ok_def sample_license_def activate_license_def activate_check_def activate_bind_def
      single_row_def grant_def features_or_empty_def)

text \<open>A second licence locks the user out: after a user has activated two different active licences,
  both activations being granted, verification of that user is refused.\<close>

lemma two_licenses_lock_out:
  assumes ok: "table_ok t" and l: "l \<in> set t" "l' \<in> set t" "l \<noteq> l'"
    and st: "ls_status l = Ls_active" "ls_status l' = Ls_active" and free: "ls_user l = None" "ls_user l' = None"
    and key: "ls_key l = upper k" "ls_key l' = upper k'" "k \<noteq> []" "k' \<noteq> []" and u: "u \<noteq> []"
  shows "\<exists>t1 t2 r1 r2. activate_license upper True True t \<lparr> av_key = k, av_user = u, av_now = n \<rparr> = (t1, r1)
     \<and> activate_license upper True True t1 \<lparr> av_key = k', av_user = u, av_now = n' \<rparr> = (t2, r2)
     \<and> rp_licensed r1 \<and> rp_licensed r2 \<and> \<not> rp_licensed (snd (verify_license f b t2 u now))"
proof -
  have single: "single_row (filter (\<lambda>r. ls_key r = ls_key x) s) = Some x" if "table_ok s" "x \<in> set s" for s x
    using filter_unique_key [of ls_key s x] that by (simp add: table_ok_def single_row_def)
  let ?a = "\<lparr> av_key = k, av_user = u, av_now = n \<rparr>" and ?a' = "\<lparr> av_key = k', av_user = u, av_now = n' \<rparr>"
  let ?t1 = "update_where (\<lambda>r. ls_id r = ls_id l) (bind_row ?a) t"
  let ?t2 = "update_where (\<lambda>r. ls_id r = ls_id l') (bind_row ?a') ?t1"
  have ne: "ls_id l \<noteq> ls_id l'" using table_row_unique [OF ok l(1,2)] l(3) by blast
  have c1: "activate_check upper True t ?a = Inr l"
    using single [OF ok l(1)] st free key u by (simp add: activate_check_def)
  have ok1: "table_ok ?t1" using ok table_ok_identity [of t ?t1] map_update_where [of row_identity] by simp
  have in1: "l' \<in> set ?t1" using l ne by (auto simp: update_where_def)
  have c2: "activate_check upper True ?t1 ?a' = Inr l'"
    using single [OF ok1 in1] st free key u by (simp add: activate_check_def)
  let ?P = "\<lambda>r. ls_user r = Some u \<and> ls_status r = Ls_active"
  have m1: "bind_row ?a l \<in> set (filter ?P ?t2)"
    using l ne st by (auto simp: update_where_def bind_row_def image_iff intro!: bexI [of _ l])
  have m2: "bind_row ?a' l' \<in> set (filter ?P ?t2)"
    using l ne st by (auto simp: update_where_def bind_row_def image_iff intro!: bexI [of _ l'])
  have "bind_row ?a l \<noteq> bind_row ?a' l'" using ne by (metis bind_row_identity fst_conv row_identity_def)
  then have "single_row (filter ?P ?t2) = None"
    using m1 m2 by (cases "filter ?P ?t2" rule: list.exhaust; cases "tl (filter ?P ?t2)") (auto simp: single_row_def)
  then have "\<not> rp_licensed (snd (verify_license f b ?t2 u now))"
    using u by (simp add: verify_license_def refuse_def)
  then show ?thesis using c1 c2 by (simp add: activate_license_def activate_bind_def grant_def)
qed

lemma two_licenses_lock_out_witness:
  "\<exists>t1 t2 r1 r2. activate_license (\<lambda>k. k) True True [sample_license 1 (js ''A'') None, sample_license 2 (js ''B'') None]
        \<lparr> av_key = js ''A'', av_user = js ''u'', av_now = 0 \<rparr> = (t1, r1)
     \<and> activate_license (\<lambda>k. k) True True t1 \<lparr> av_key = js ''B'', av_user = js ''u'', av_now = 1 \<rparr> = (t2, r2)
     \<and> rp_licensed r1 \<and> rp_licensed r2 \<and> \<not> rp_licensed (snd (verify_license True True t2 (js ''u'') 2))"
  by (rule two_licenses_lock_out [of _ "sample_license 1 (js ''A'') None" "sample_license 2 (js ''B'') None"])
    (auto simp: table_ok_def sample_license_def)

section \<open>Requests at the same time\<close>

text \<open>An activation waits, has decided on a licence it has read, or has answered. A step is one
  database request of one activation; the server may refuse it.\<close>

datatype phase =
    Waiting activation
  | Decided activation license
  | Finished activation license_response

type_synonym cloud = "license_table \<times> phase list"

inductive cloud_step :: "(jstr \<Rightarrow> jstr) \<Rightarrow> cloud \<Rightarrow> cloud \<Rightarrow> bool" for upper where
  fetch: "i < length ps \<Longrightarrow> ps ! i = Waiting rq \<Longrightarrow>
    cloud_step upper (t, ps) (t, ps[i := (case activate_check upper f t rq of
       Inl r \<Rightarrow> Finished rq r | Inr l \<Rightarrow> Decided rq l)])"
| bind: "i < length ps \<Longrightarrow> ps ! i = Decided rq l \<Longrightarrow> activate_bind u t rq l = (t', r) \<Longrightarrow>
    cloud_step upper (t, ps) (t', ps[i := Finished rq r])"

inductive_cases cloud_stepE: "cloud_step upper (t, ps) c"

fun request_of :: "phase \<Rightarrow> activation" where
  "request_of (Waiting rq) = rq"
| "request_of (Decided rq l) = rq"
| "request_of (Finished rq r) = rq"

text \<open>What every interleaving keeps: the rows and their status are the original ones, a decision
  concerns a row with the requested key, and the owner of a row is the original one or one that
  requested it.\<close>

definition fixed_part :: "license \<Rightarrow> nat \<times> jstr \<times> license_status" where
  "fixed_part r = (ls_id r, ls_key r, ls_status r)"

definition entitled :: "(jstr \<Rightarrow> jstr) \<Rightarrow> activation list \<Rightarrow> license \<Rightarrow> license \<Rightarrow> bool" where
  "entitled upper rqs r0 r = (fixed_part r = fixed_part r0 \<and>
     (ls_user r = ls_user r0
      \<or> (\<exists>rq\<in>set rqs. ls_key r0 = upper (av_key rq) \<and> ls_status r0 = Ls_active \<and> ls_user r = Some (av_user rq))))"

definition decided_ok :: "(jstr \<Rightarrow> jstr) \<Rightarrow> license_table \<Rightarrow> activation list \<Rightarrow> phase \<Rightarrow> bool" where
  "decided_ok upper t0 rqs p = (request_of p \<in> set rqs \<and>
     (case p of Decided rq l \<Rightarrow> (\<exists>r0\<in>set t0. ls_id r0 = ls_id l \<and> ls_key r0 = upper (av_key rq) \<and> ls_status r0 = Ls_active)
      | _ \<Rightarrow> True))"

definition cloud_inv :: "(jstr \<Rightarrow> jstr) \<Rightarrow> license_table \<Rightarrow> activation list \<Rightarrow> cloud \<Rightarrow> bool" where
  "cloud_inv upper t0 rqs c = (list_all2 (entitled upper rqs) t0 (fst c) \<and> (\<forall>p\<in>set (snd c). decided_ok upper t0 rqs p))"

lemma cloud_inv_step:
  assumes ok: "table_ok t0" and inv: "cloud_inv upper t0 rqs c" and step: "cloud_step upper c c'"
  shows "cloud_inv upper t0 rqs c'"
  using step
proof (cases rule: cloud_step.cases)
  case (fetch i ps rq t f)
  have p: "decided_ok upper t0 rqs (ps ! i)" and es: "list_all2 (entitled upper rqs) t0 t"
    using inv fetch nth_mem [of i ps] by (auto simp: cloud_inv_def)
  have "decided_ok upper t0 rqs (case activate_check upper f t rq of Inl r \<Rightarrow> Finished rq r | Inr l \<Rightarrow> Decided rq l)"
  proof (cases "activate_check upper f t rq")
    case (Inl r)
    then show ?thesis using p fetch by (simp add: decided_ok_def)
  next
    case (Inr l)
    note l = activate_check_Inr [OF this]
    then obtain k where "k < length t" "l = t ! k" by (auto simp: in_set_conv_nth)
    then have "t0 ! k \<in> set t0" "fixed_part l = fixed_part (t0 ! k)"
      using es by (auto simp: list_all2_conv_all_nth entitled_def)
    then show ?thesis using p fetch l Inr
      by (auto simp: decided_ok_def fixed_part_def intro!: bexI [of _ "t0 ! k"])
  qed
  then show ?thesis using inv fetch by (auto simp: cloud_inv_def dest!: set_update_subset_insert [THEN subsetD])
next
  case (bind i ps rq l u t t' r)
  have p: "decided_ok upper t0 rqs (Decided rq l)" and es: "list_all2 (entitled upper rqs) t0 t"
    using inv bind nth_mem [of i ps] by (auto simp: cloud_inv_def)
  then obtain r0 where rq: "rq \<in> set rqs" and r0: "r0 \<in> set t0" "ls_id r0 = ls_id l"
      "ls_key r0 = upper (av_key rq)" "ls_status r0 = Ls_active"
    by (auto simp: decided_ok_def)
  have "list_all2 (entitled upper rqs) t0 t'"
  proof (cases u)
    case True
    have row: "entitled upper rqs s0 (if ls_id s = ls_id l then bind_row rq s else s)"
      if s0: "s0 \<in> set t0" and e: "entitled upper rqs s0 s" for s0 s
    proof (cases "ls_id s = ls_id l")
      case True
      then have "s0 = r0" using table_row_unique [OF ok s0 r0(1)] e r0(2) by (auto simp: entitled_def fixed_part_def)
      with True e rq r0 show ?thesis by (auto simp: entitled_def fixed_part_def bind_row_def)
    qed (use e in simp)
    have "t' = update_where (\<lambda>r. ls_id r = ls_id l) (bind_row rq) t"
      using bind True by (simp add: activate_bind_def)
    moreover have "list_all2 (\<lambda>s0 s. entitled upper rqs s0 (if ls_id s = ls_id l then bind_row rq s else s)) t0 t"
      by (rule list.rel_mono_strong [OF es]) (rule row)
    ultimately show ?thesis by (simp only: update_where_def list_all2_map2)
  next
    case False
    then show ?thesis using bind es by (simp add: activate_bind_def)
  qed
  moreover have "decided_ok upper t0 rqs (Finished rq r)" using rq by (simp add: decided_ok_def)
  ultimately show ?thesis using inv bind
    by (auto simp: cloud_inv_def dest!: set_update_subset_insert [THEN subsetD])
qed

text \<open>C11. However concurrent activations interleave and whichever of their requests fail, no licence ends up
  with a user that did not ask for it: every row keeps its key and status, and its owner is the
  original one or the user of a request for exactly that active licence.\<close>

theorem concurrent_owner_entitled:
  assumes "table_ok t0" and "(cloud_step upper)\<^sup>*\<^sup>* (t0, map Waiting rqs) (t, ps)"
  shows "list_all2 (entitled upper rqs) t0 t"
proof -
  have "cloud_inv upper t0 rqs (t0, map Waiting rqs)"
    by (auto simp: cloud_inv_def decided_ok_def entitled_def list_all2_same)
  with assms(2) have "cloud_inv upper t0 rqs (t, ps)"
    by (induction rule: rtranclp_induct) (auto intro: cloud_inv_step [OF assms(1)])
  then show ?thesis by (simp add: cloud_inv_def)
qed

text \<open>Two users can both be told that one licence is theirs: there is an interleaving of two activations
  of a free licence in which both are granted, although the licence is bound to the second user only.\<close>

lemma activation_race:
  assumes "table_ok t" and "l \<in> set t" and "ls_status l = Ls_active" and "ls_user l = None"
    and "upper k = ls_key l" and "k \<noteq> []" and "v \<noteq> []" and "w \<noteq> []"
  shows "\<exists>t' ra rb. (cloud_step upper)\<^sup>*\<^sup>* (t, [Waiting \<lparr> av_key = k, av_user = v, av_now = n \<rparr>, Waiting \<lparr> av_key = k, av_user = w, av_now = n' \<rparr>])
       (t', [Finished \<lparr> av_key = k, av_user = v, av_now = n \<rparr> ra, Finished \<lparr> av_key = k, av_user = w, av_now = n' \<rparr> rb])
     \<and> rp_licensed ra \<and> rp_licensed rb \<and> owned (ls_id l) w t' \<and> (v \<noteq> w \<longrightarrow> \<not> owned (ls_id l) v t')"
proof -
  let ?a = "\<lparr> av_key = k, av_user = v, av_now = n \<rparr>" and ?b = "\<lparr> av_key = k, av_user = w, av_now = n' \<rparr>"
  let ?P = "\<lambda>r. ls_id r = ls_id l"
  let ?t1 = "update_where ?P (bind_row ?a) t" and ?g = "grant msg_activated l"
  let ?t2 = "update_where ?P (bind_row ?b) ?t1"
  have row: "single_row (filter (\<lambda>r. ls_key r = ls_key l) t) = Some l"
    using filter_unique_key [of ls_key t l] assms by (simp add: table_ok_def single_row_def)
  have ca: "activate_check upper True t ?a = Inr l" and cb: "activate_check upper True t ?b = Inr l"
    using row assms by (simp_all add: activate_check_def)
  have s1: "cloud_step upper (t, [Waiting ?a, Waiting ?b]) (t, [Decided ?a l, Waiting ?b])"
    using cloud_step.fetch [of 0 "[Waiting ?a, Waiting ?b]" ?a upper t True] ca by simp
  have s2: "cloud_step upper (t, [Decided ?a l, Waiting ?b]) (t, [Decided ?a l, Decided ?b l])"
    using cloud_step.fetch [of 1 "[Decided ?a l, Waiting ?b]" ?b upper t True] cb by simp
  have s3: "cloud_step upper (t, [Decided ?a l, Decided ?b l]) (?t1, [Finished ?a ?g, Decided ?b l])"
    using cloud_step.bind [of 0 "[Decided ?a l, Decided ?b l]" ?a l True t ?t1 ?g upper] by (simp add: activate_bind_def)
  have s4: "cloud_step upper (?t1, [Finished ?a ?g, Decided ?b l]) (?t2, [Finished ?a ?g, Finished ?b ?g])"
    using cloud_step.bind [of 1 "[Finished ?a ?g, Decided ?b l]" ?b l True ?t1 ?t2 ?g upper] by (simp add: activate_bind_def)
  have "bind_row ?b (bind_row ?a l) \<in> set ?t2"
    using assms(2) by (auto simp: update_where_def bind_row_def image_iff intro!: bexI [of _ l])
  moreover have "ls_id (bind_row ?b (bind_row ?a l)) = ls_id l" "ls_user (bind_row ?b (bind_row ?a l)) = Some w"
    by (simp_all add: bind_row_def)
  ultimately have "owned (ls_id l) w ?t2" unfolding owned_def by blast
  moreover have "ls_user r = Some w" if "r \<in> set ?t2" "ls_id r = ls_id l" for r
    using that by (auto simp: update_where_def bind_row_def split: if_splits)
  then have "v \<noteq> w \<longrightarrow> \<not> owned (ls_id l) v ?t2" by (auto simp: owned_def)
  moreover have "rp_licensed ?g" by (simp add: grant_def)
  ultimately show ?thesis using s1 s2 s3 s4 by (meson converse_rtranclp_into_rtranclp rtranclp.rtrancl_refl)
qed

lemma activation_race_witness:
  "\<exists>t' ra rb. (cloud_step (\<lambda>k. k))\<^sup>*\<^sup>*
       ([sample_license 1 (js ''K'') None],
        [Waiting \<lparr> av_key = js ''K'', av_user = js ''v'', av_now = 0 \<rparr>, Waiting \<lparr> av_key = js ''K'', av_user = js ''w'', av_now = 1 \<rparr>])
       (t', [Finished \<lparr> av_key = js ''K'', av_user = js ''v'', av_now = 0 \<rparr> ra, Finished \<lparr> av_key = js ''K'', av_user = js ''w'', av_now = 1 \<rparr> rb])
     \<and> rp_licensed ra \<and> rp_licensed rb \<and> owned 1 (js ''w'') t' \<and> \<not> owned 1 (js ''v'') t'"
  using activation_race [of "[sample_license 1 (js ''K'') None]" "sample_license 1 (js ''K'') None" "\<lambda>k. k" "js ''K''" "js ''v''" "js ''w''" 0 1]
  by (simp add: table_ok_def sample_license_def)

theorem concurrent_owner_entitled_witness:
  "list_all2 (entitled (\<lambda>k. k) [\<lparr> av_key = js ''K'', av_user = js ''v'', av_now = 0 \<rparr>])
     [sample_license 1 (js ''K'') None]
     (fst (activate_bind True [sample_license 1 (js ''K'') None] \<lparr> av_key = js ''K'', av_user = js ''v'', av_now = 0 \<rparr> (sample_license 1 (js ''K'') None)))"
proof -
  let ?t = "[sample_license 1 (js ''K'') None]" and ?rq = "\<lparr> av_key = js ''K'', av_user = js ''v'', av_now = 0 \<rparr>"
  let ?l = "sample_license 1 (js ''K'') None"
  have ca: "activate_check (\<lambda>k. k) True ?t ?rq = Inr ?l"
    by (simp add: activate_check_def single_row_def sample_license_def)
  have s1: "cloud_step (\<lambda>k. k) (?t, map Waiting [?rq]) (?t, [Decided ?rq ?l])"
    using cloud_step.fetch [of 0 "[Waiting ?rq]" ?rq "\<lambda>k. k" ?t True] ca by simp
  have s2: "cloud_step (\<lambda>k. k) (?t, [Decided ?rq ?l])
      (fst (activate_bind True ?t ?rq ?l), [Finished ?rq (snd (activate_bind True ?t ?rq ?l))])"
    using cloud_step.bind [of 0 "[Decided ?rq ?l]" ?rq ?l True ?t "fst (activate_bind True ?t ?rq ?l)" "snd (activate_bind True ?t ?rq ?l)" "\<lambda>k. k"] by simp
  have ok: "table_ok ?t" by (simp add: table_ok_def)
  from s1 s2 have "(cloud_step (\<lambda>k. k))\<^sup>*\<^sup>* (?t, map Waiting [?rq])
      (fst (activate_bind True ?t ?rq ?l), [Finished ?rq (snd (activate_bind True ?t ?rq ?l))])"
    by (meson converse_rtranclp_into_rtranclp rtranclp.rtrancl_refl)
  then show ?thesis by (rule concurrent_owner_entitled [OF ok])
qed

text \<open>Deleting an account releases its licences: after a deletion whose database request went through,
  verification of the user is refused, and no licence the user had can be activated by anyone.\<close>

lemma deleted_account_released:
  assumes ok: "table_ok t" and l: "l \<in> set t" "ls_user l = Some u" "ls_key l = upper (av_key rq)"
  shows "\<not> rp_licensed (snd (activate_license upper f b (license_step upper t (Delete_account u True)) rq))
     \<and> \<not> rp_licensed (snd (verify_license f' b' (license_step upper t (Delete_account u True)) u now))"
proof -
  let ?f = "\<lambda>r. r \<lparr> ls_user := None, ls_bound_at := None, ls_status := Ls_suspended \<rparr>"
  let ?t = "update_where (\<lambda>r. ls_user r = Some u) ?f t"
  have t: "license_step upper t (Delete_account u True) = ?t"
    by (simp add: license_step_def delete_account_def Let_def released_twice)
  have ok': "table_ok ?t" unfolding t [symmetric]
    by (rule table_ok_identity [OF step_identity [symmetric] ok])
  have none: "ls_user r \<noteq> Some u" if "r \<in> set ?t" for r using that by (auto simp: update_where_def split: if_splits)
  have "filter (\<lambda>r. ls_user r = Some u \<and> ls_status r = Ls_active) ?t = []" using none by (auto simp: filter_empty_conv)
  then have v: "\<not> rp_licensed (snd (verify_license f' b' ?t u now))"
    by (simp add: verify_license_def refuse_def single_row_def)
  have fl: "?f l \<in> set ?t" using l by (auto simp: update_where_def image_iff intro!: bexI [of _ l])
  have "\<not> rp_licensed (snd (activate_license upper f b ?t rq))"
  proof (cases "activate_check upper f ?t rq")
    case (Inl r)
    then show ?thesis by (auto simp: activate_license_def activate_check_def refuse_def split: if_splits option.splits)
  next
    case (Inr x)
    note x = activate_check_Inr [OF Inr]
    then have "ls_key x = ls_key (?f l)" and "x \<in> set ?t" using l by simp_all
    moreover have "inj_on ls_key (set ?t)" using ok' by (simp add: table_ok_def distinct_map)
    ultimately have "x = ?f l" using fl by (metis inj_onD)
    with x show ?thesis by simp
  qed
  with v t show ?thesis by simp
qed

lemma deleted_account_released_witness:
  "\<not> rp_licensed (snd (activate_license (\<lambda>k. k) True True
       (license_step (\<lambda>k. k) [sample_license 1 (js ''K'') (Some (js ''u''))] (Delete_account (js ''u'') True))
       \<lparr> av_key = js ''K'', av_user = js ''v'', av_now = 1 \<rparr>))"
  using deleted_account_released [of "[sample_license 1 (js ''K'') (Some (js ''u''))]" "sample_license 1 (js ''K'') (Some (js ''u''))"
    "js ''u''" "\<lambda>k. k" "\<lparr> av_key = js ''K'', av_user = js ''v'', av_now = 1 \<rparr>" True True]
  by (simp add: table_ok_def sample_license_def)

text \<open>The error of the update is not looked at: when it fails the account goes all the same, and its licence is left
  active and without an owner, for whoever activates it next.\<close>

lemma failed_release_frees_license:
  assumes "table_ok t" "l \<in> set t" "ls_user l = Some u" "ls_status l = Ls_active" "ls_key l = upper k" "k \<noteq> []" "v \<noteq> []"
  shows "rp_licensed (snd (activate_license upper True True
      (fst (delete_account (\<lambda>_. Some u) (\<lambda>_. None) False t (Some (js ''Bearer x'')))) \<lparr> av_key = k, av_user = v, av_now = n \<rparr>))"
proof -
  let ?f = "\<lambda>r. if ls_user r = Some u then r\<lparr>ls_user := None\<rparr> else r"
  have t: "fst (delete_account (\<lambda>_. Some u) (\<lambda>_. None) False t (Some (js ''Bearer x''))) = map ?f t"
    by (simp add: delete_account_def update_where_def js_def)
  have "distinct (map ls_key (map ?f t))" using assms(1) by (simp add: table_ok_def comp_def if_distrib cong: if_cong)
  moreover have "l\<lparr>ls_user := None\<rparr> \<in> set (map ?f t)" using assms(2,3) by (force simp: image_iff)
  ultimately have "filter (\<lambda>r. ls_key r = upper k) (map ?f t) = [l\<lparr>ls_user := None\<rparr>]"
    using filter_unique_key [of ls_key "map ?f t" "l\<lparr>ls_user := None\<rparr>"] assms(5) by simp
  then have "activate_check upper True (map ?f t) \<lparr> av_key = k, av_user = v, av_now = n \<rparr> = Inr (l\<lparr>ls_user := None\<rparr>)"
    using assms(4,6,7) by (simp add: activate_check_def single_row_def)
  then show ?thesis unfolding t by (simp add: activate_license_def activate_bind_def grant_def)
qed

text \<open>An expired licence is activated all the same.\<close>

lemma expired_license_activated:
  assumes "table_ok t" "l \<in> set t" "ls_status l = Ls_active" "ls_user l = None" "ls_key l = upper k" "k \<noteq> []" "u \<noteq> []"
    and "expired now l"
  shows "rp_licensed (snd (activate_license upper True True t \<lparr> av_key = k, av_user = u, av_now = now \<rparr>))"
proof -
  have "single_row (filter (\<lambda>r. ls_key r = ls_key l) t) = Some l"
    using filter_unique_key [of ls_key t l] assms by (simp add: table_ok_def single_row_def)
  then show ?thesis using assms by (simp add: activate_license_def activate_check_def activate_bind_def grant_def)
qed

end
