(* ===== verification/AppShell.thy ===== *)
theory AppShell
  imports Utils Machines
begin

text \<open>
  The shell of the application: the store of \<open>store/appStore.ts\<close> with its notifications, the
  response interceptor of \<open>core/api/client.ts\<close>, the start-up check of
  \<open>hooks/useAppInitialization.ts\<close>, the theme, the global shortcuts, the automatic backup and the
  confirm dialog. Times are milliseconds.
\<close>

section \<open>The store\<close>

datatype life_cycle = Splash | Cloud_auth | License_screen | Login_screen | App_screen

datatype toast_kind = T_success | T_error | T_info

record app_store =
  st_activeView :: view
  st_theme :: ui_theme
  st_palette :: bool
  st_aiChat :: bool
  st_shortcuts :: bool
  st_online :: bool
  st_appState :: life_cycle
  st_lastNotify :: "jstr \<times> int"
  st_toasts :: "(toast_kind \<times> jstr \<times> int) list"
  st_dataTheme :: "ui_theme option"
  st_storage :: "(jstr \<times> jstr) list"

definition view_name :: "view \<Rightarrow> jstr" where
  "view_name v = (case v of V_dashboard \<Rightarrow> js ''dashboard'' | V_sales \<Rightarrow> js ''sales'' | V_products \<Rightarrow> js ''products''
     | V_inventory \<Rightarrow> js ''inventory'' | V_reports \<Rightarrow> js ''reports'' | V_settings \<Rightarrow> js ''settings''
     | V_invoices \<Rightarrow> js ''invoices'' | V_customers \<Rightarrow> js ''customers'' | V_finance \<Rightarrow> js ''finance''
     | V_shifts \<Rightarrow> js ''shifts'')"

definition initial_store :: "bool \<Rightarrow> (jstr \<times> jstr) list \<Rightarrow> app_store" where
  "initial_store onLine storage = \<lparr> st_activeView = V_dashboard, st_theme = Dark, st_palette = False,
     st_aiChat = False, st_shortcuts = False, st_online = onLine, st_appState = Splash,
     st_lastNotify = ([], 0), st_toasts = [], st_dataTheme = None, st_storage = storage \<rparr>"

definition remove_item :: "jstr \<Rightarrow> (jstr \<times> jstr) list \<Rightarrow> (jstr \<times> jstr) list" where
  "remove_item k = filter (\<lambda>p. fst p \<noteq> k)"

definition setActiveView :: "view \<Rightarrow> app_store \<Rightarrow> app_store" where
  "setActiveView v s = s \<lparr> st_activeView := v,
     st_storage := obj_put (js ''beidar_last_view'') (view_name v) (st_storage s) \<rparr>"

definition toggleTheme :: "app_store \<Rightarrow> app_store" where
  "toggleTheme s = (let newTheme = (if st_theme s = Dark then Light else Dark)
                    in s \<lparr> st_theme := newTheme, st_dataTheme := Some newTheme \<rparr>)"

definition notify :: "jstr \<Rightarrow> toast_kind \<Rightarrow> int \<Rightarrow> app_store \<Rightarrow> app_store" where
  "notify message kind now s =
     (if fst (st_lastNotify s) = message \<and> now - snd (st_lastNotify s) < 2000 then s
      else s \<lparr> st_lastNotify := (message, now), st_toasts := st_toasts s @ [(kind, message, now)] \<rparr>)"

definition clearAuthSession :: "app_store \<Rightarrow> app_store" where
  "clearAuthSession s = s \<lparr>
     st_storage := remove_item (js ''beidar_last_activity'') (remove_item (js ''beidar_auth_token'')
       (remove_item (js ''beidar_auth_session'') (st_storage s))),
     st_appState := Login_screen \<rparr>"

text \<open>What the persistence middleware keeps.\<close>

definition partialize :: "app_store \<Rightarrow> view \<times> ui_theme" where
  "partialize s = (st_activeView s, st_theme s)"

datatype store_op =
    Set_view view
  | Toggle_theme
  | Set_palette bool
  | Set_ai_chat bool
  | Set_shortcuts bool
  | Notify jstr toast_kind int
  | Set_online bool
  | Set_app_state life_cycle
  | Clear_auth

definition store_step :: "app_store \<Rightarrow> store_op \<Rightarrow> app_store" where
  "store_step s op' = (case op' of
     Set_view v \<Rightarrow> setActiveView v s
   | Toggle_theme \<Rightarrow> toggleTheme s
   | Set_palette b \<Rightarrow> s \<lparr> st_palette := b \<rparr>
   | Set_ai_chat b \<Rightarrow> s \<lparr> st_aiChat := b \<rparr>
   | Set_shortcuts b \<Rightarrow> s \<lparr> st_shortcuts := b \<rparr>
   | Notify m k now \<Rightarrow> notify m k now s
   | Set_online b \<Rightarrow> s \<lparr> st_online := b \<rparr>
   | Set_app_state a \<Rightarrow> s \<lparr> st_appState := a \<rparr>
   | Clear_auth \<Rightarrow> clearAuthSession s)"

subsection \<open>Notifications\<close>

text \<open>Consecutive toasts with one text are two seconds apart, and the last one is the one remembered.\<close>

fun spaced :: "(toast_kind \<times> jstr \<times> int) list \<Rightarrow> bool" where
  "spaced ((k, m, t) # (k', m', t') # ts) = ((m = m' \<longrightarrow> 2000 \<le> t' - t) \<and> spaced ((k', m', t') # ts))"
| "spaced ts = True"

definition toasts_ok :: "app_store \<Rightarrow> bool" where
  "toasts_ok s = (spaced (st_toasts s) \<and> (st_toasts s \<noteq> [] \<longrightarrow> st_lastNotify s = snd (last (st_toasts s))))"

lemma spaced_snoc:
  "spaced (ts @ [(k, m, t)]) \<longleftrightarrow> spaced ts
     \<and> (ts \<noteq> [] \<longrightarrow> fst (snd (last ts)) = m \<longrightarrow> 2000 \<le> t - snd (snd (last ts)))"
  by (induction ts rule: spaced.induct) auto

interpretation store_machine: machine store_step toasts_ok "\<lambda>_. True"
proof
  fix s op'
  assume ok: "toasts_ok s"
  show "toasts_ok (store_step s op')"
  proof (cases op')
    case (Notify m k now)
    then show ?thesis using ok by (auto simp: store_step_def notify_def toasts_ok_def spaced_snoc)
  qed (use ok in \<open>simp_all add: store_step_def toasts_ok_def setActiveView_def toggleTheme_def clearAuthSession_def Let_def\<close>)
qed

text \<open>Notifications are not repeated: whatever operations the store performs, two toasts shown one after
  the other with the same text are at least two seconds apart.\<close>

lemma toasts_deduplicated:
  "spaced (st_toasts (run store_step (initial_store onLine storage) ops))"
proof -
  have "toasts_ok (run store_step (initial_store onLine storage) ops)"
    by (rule store_machine.run_inv) (simp_all add: toasts_ok_def initial_store_def)
  then show ?thesis by (simp add: toasts_ok_def)
qed

section \<open>The response interceptor\<close>

record 'a api_response =
  ar_status :: int
  ar_data :: 'a
  ar_error :: "jstr option"
  ar_message :: "jstr option"

definition first_text :: "jstr option \<Rightarrow> jstr option \<Rightarrow> jstr \<Rightarrow> jstr" where
  "first_text a b d = (case a of
     Some (c # s) \<Rightarrow> c # s
   | _ \<Rightarrow> (case b of Some (c # s) \<Rightarrow> c # s | _ \<Rightarrow> d))"

text \<open>The thrown message, or the data.\<close>

definition handleResponse :: "'a api_response \<Rightarrow> app_store \<Rightarrow> app_store \<times> (jstr + 'a)" where
  "handleResponse response s =
     (if ar_status response = 401 then (clearAuthSession s, Inl (js ''Unauthorized''))
      else if 400 \<le> ar_status response
      then (s, Inl (first_text (ar_error response) (ar_message response) (js ''API Error: '' @ show_int (ar_status response))))
      else (s, Inr (ar_data response)))"

text \<open>\<open>request\<close>: the request either rejects or yields a response.\<close>

definition request :: "jstr + 'a api_response \<Rightarrow> app_store \<Rightarrow> app_store \<times> (jstr + 'a)" where
  "request response s = (case response of Inl e \<Rightarrow> (s, Inl e) | Inr r \<Rightarrow> handleResponse r s)"

definition session_keys :: "jstr list" where
  "session_keys = [js ''beidar_auth_session'', js ''beidar_auth_token'', js ''beidar_last_activity'']"

lemma map_of_remove: "map_of (remove_item k ps) = (map_of ps)(k := None)"
  by (induction ps) (auto simp: remove_item_def fun_eq_iff)

text \<open>An unauthorized response always ends the session: a response with status 401 throws, leaves no
  session key in storage and shows the login screen, while other storage is kept; every other status
  leaves the store alone, and data is returned exactly for the statuses below 400.\<close>

lemma unauthorized_ends_session:
  "(ar_status r = 401 \<longrightarrow>
      st_appState (fst (handleResponse r s)) = Login_screen
      \<and> (\<forall>k. map_of (st_storage (fst (handleResponse r s))) k
           = (if k \<in> set session_keys then None else map_of (st_storage s) k)))
   \<and> (ar_status r \<noteq> 401 \<longrightarrow> fst (handleResponse r s) = s)
   \<and> ((\<exists>d. snd (handleResponse r s) = Inr d) \<longleftrightarrow> ar_status r < 400)"
  by (auto simp: handleResponse_def clearAuthSession_def session_keys_def map_of_remove)

lemma unauthorized_ends_session_witness:
  "map_of (st_storage (fst (handleResponse \<lparr> ar_status = 401, ar_data = (), ar_error = None, ar_message = None \<rparr>
     (initial_store True [(js ''beidar_auth_session'', [1]), (js ''beidar_language'', [2])])))) (js ''beidar_language'') = Some [2]"
  using unauthorized_ends_session [of "\<lparr> ar_status = 401, ar_data = (), ar_error = None, ar_message = None \<rparr>"
    "initial_store True [(js ''beidar_auth_session'', [1]), (js ''beidar_language'', [2])]"]
  by (simp add: session_keys_def initial_store_def)

section \<open>Start-up\<close>

text \<open>A backend call that the check awaits: it throws, or answers.\<close>

datatype answer = Throws | Yes | No

definition checkAuthStatus :: "answer \<Rightarrow> answer \<Rightarrow> answer \<Rightarrow> life_cycle" where
  "checkAuthStatus lan_connected licensed logged_in =
     (if lan_connected = Yes then Login_screen
      else if licensed = Yes then Login_screen
      else if logged_in = No then Cloud_auth
      else License_screen)"

text \<open>The check completes at most once; the safety timer fires only before that. Between them the user
  may move on.\<close>

datatype boot_event = Timer_fires | Check_done answer answer answer | User_moves life_cycle

record boot =
  bt_state :: life_cycle
  bt_timer :: bool
  bt_checking :: bool

definition boot_start :: boot where
  "boot_start = \<lparr> bt_state = Splash, bt_timer = True, bt_checking = True \<rparr>"

definition boot_step :: "boot \<Rightarrow> boot_event \<Rightarrow> boot" where
  "boot_step b e = (case e of
     Timer_fires \<Rightarrow>
       (if bt_timer b then b \<lparr> bt_timer := False,
          bt_state := (if bt_state b = Splash then License_screen else bt_state b) \<rparr> else b)
   | Check_done lan lic cloud \<Rightarrow>
       (if bt_checking b then b \<lparr> bt_checking := False, bt_timer := False, bt_state := checkAuthStatus lan lic cloud \<rparr>
        else b)
   | User_moves a \<Rightarrow> b \<lparr> bt_state := a \<rparr>)"

definition boot_ok :: "boot \<Rightarrow> bool" where
  "boot_ok b = (bt_state b = Splash \<longrightarrow> bt_timer b \<and> bt_checking b)"

lemma check_not_splash [simp]: "checkAuthStatus a b c \<noteq> Splash"
  by (simp add: checkAuthStatus_def)

interpretation boot_machine: machine boot_step boot_ok "\<lambda>e. e \<noteq> User_moves Splash"
  by unfold_locales (auto simp: boot_ok_def boot_step_def split: boot_event.splits)

text \<open>The application never hangs on the splash screen: in every order of events, as soon as the check
  has completed or the timer has fired, the splash screen is gone for good.\<close>

lemma splash_left:
  assumes "\<forall>e\<in>set es. e \<noteq> User_moves Splash"
    and "Timer_fires \<in> set es \<or> (\<exists>a b c. Check_done a b c \<in> set es)"
  shows "bt_state (run boot_step boot_start es) \<noteq> Splash"
proof -
  have fired: "\<not> bt_timer (run boot_step b es) \<or> \<not> bt_checking (run boot_step b es)"
    if "Timer_fires \<in> set es \<or> (\<exists>a b c. Check_done a b c \<in> set es) \<or> \<not> bt_timer b \<or> \<not> bt_checking b" for b es
    using that
  proof (induction es arbitrary: b)
    case (Cons e es)
    show ?case unfolding run_Cons
      by (rule Cons.IH) (use Cons.prems in \<open>cases e; auto simp: boot_step_def\<close>)
  qed simp
  have "boot_ok (run boot_step boot_start es)"
    by (rule boot_machine.run_inv) (use assms(1) in \<open>simp_all add: boot_ok_def boot_start_def\<close>)
  then show ?thesis using fired [of es boot_start] assms(2) by (auto simp: boot_ok_def)
qed

lemma splash_left_witness:
  "bt_state (run boot_step boot_start [Timer_fires, Check_done Throws No No]) \<noteq> Splash"
  using splash_left [of "[Timer_fires, Check_done Throws No No]"] by simp

text \<open>A check that completes late interrupts the user: when the timer has fired and the user has reached
  the application in the meantime, the completion of the check takes the screen away again, to one of
  the entry screens.\<close>

lemma late_check_interrupts:
  "bt_state (run boot_step boot_start [Timer_fires, User_moves App_screen, Check_done lan lic cloud])
     \<in> {Login_screen, Cloud_auth, License_screen}"
  by (simp add: boot_step_def boot_start_def checkAuthStatus_def)

section \<open>Global shortcuts\<close>

record key_event =
  ky_key :: jstr
  ky_ctrl :: bool
  ky_meta :: bool
  ky_shift :: bool
  ky_tag :: jstr

datatype shortcut = Ignored | Prevented | Toggle_palette | Toggle_shortcuts | Navigate view

definition VIEW_MAP :: "(jstr \<times> view) list" where
  "VIEW_MAP = [(js ''F1'', V_dashboard), (js ''F2'', V_sales), (js ''F3'', V_products), (js ''F4'', V_inventory),
     (js ''F5'', V_invoices), (js ''F6'', V_customers), (js ''F7'', V_finance), (js ''F8'', V_reports)]"

definition shortcut_handler :: "key_event \<Rightarrow> shortcut" where
  "shortcut_handler e =
     (if ky_key e = js ''F5'' \<or> ky_ctrl e \<and> (ky_key e = js ''r'' \<or> ky_key e = js ''R'') then Prevented
      else if ky_key e = js ''F12'' \<or> ky_ctrl e \<and> ky_shift e \<and> (ky_key e = js ''i'' \<or> ky_key e = js ''I'') then Prevented
      else if (ky_meta e \<or> ky_ctrl e) \<and> ky_key e = js ''k'' then Toggle_palette
      else if ky_key e = js ''?'' \<and> \<not> ky_ctrl e \<and> \<not> ky_meta e \<and> ky_tag e \<notin> {js ''INPUT'', js ''TEXTAREA''}
      then Toggle_shortcuts
      else (case map_of VIEW_MAP (ky_key e) of None \<Rightarrow> Ignored | Some v \<Rightarrow> Navigate v))"

text \<open>The listener is attached in the application only.\<close>

definition on_key :: "life_cycle \<Rightarrow> key_event \<Rightarrow> shortcut" where
  "on_key a e = (if a = App_screen then shortcut_handler e else Ignored)"

text \<open>The function keys select the views, except that F5 never does: with any modifiers, F1 to F4 and F6
  to F8 navigate to their views in the application, and no key event at all navigates to the invoices,
  although the map of views and the help page assign them F5.\<close>

lemma function_keys_navigate:
  "(map_of VIEW_MAP (ky_key e) = Some v \<longrightarrow> ky_key e \<noteq> js ''F5'' \<longrightarrow> on_key App_screen e = Navigate v)
   \<and> on_key a e \<noteq> Navigate V_invoices"
  by (auto simp: on_key_def shortcut_handler_def VIEW_MAP_def split: if_splits)

lemma function_keys_navigate_witness:
  "on_key App_screen \<lparr> ky_key = js ''F2'', ky_ctrl = False, ky_meta = False, ky_shift = True, ky_tag = js ''BODY'' \<rparr> = Navigate V_sales"
  using function_keys_navigate [of "\<lparr> ky_key = js ''F2'', ky_ctrl = False, ky_meta = False, ky_shift = True, ky_tag = js ''BODY'' \<rparr>" V_sales]
  by (simp add: VIEW_MAP_def)

section \<open>Theme\<close>

definition sizeMap :: "font_size \<Rightarrow> jstr" where
  "sizeMap f = (case f of Fs_small \<Rightarrow> js ''13px'' | Fs_normal \<Rightarrow> js ''15px'' | Fs_large \<Rightarrow> js ''17px''
     | Fs_xl \<Rightarrow> js ''19px'' | Fs_2xl \<Rightarrow> js ''22px'')"

definition brand_green :: jstr where
  "brand_green = js ''#306D29''"

definition default_greens :: "jstr list" where
  "default_greens = [js ''emerald'', js ''#10B981'', js ''#10b981'', js ''#059669'', js ''#047857'', js ''#84B179'', js ''#346739'']"

definition resolve_color :: "jstr \<Rightarrow> jstr" where
  "resolve_color accent =
     (let color = (if accent = [] then brand_green else accent)
      in if color \<in> set default_greens then brand_green else color)"

text \<open>\<open>parseInt(s, 16)\<close>: white space, a sign, an optional \<open>0x\<close>, and the longest run of digits;
  \<open>None\<close> is NaN.\<close>

definition hex_run :: "jstr \<Rightarrow> jstr" where
  "hex_run s = takeWhile (\<lambda>c. radix_digit c \<noteq> None) s"

definition hex_value :: "jstr \<Rightarrow> int" where
  "hex_value ds = foldl (\<lambda>n c. 16 * n + int (the (radix_digit c))) 0 ds"

definition parseInt16 :: "jstr \<Rightarrow> int option" where
  "parseInt16 s =
     (let (neg, t) = sign_of (trim_start s);
          u = (if prefix (js ''0x'') t \<or> prefix (js ''0X'') t then drop 2 t else t);
          ds = hex_run u
      in if ds = [] then None else Some (if neg then - hex_value ds else hex_value ds))"

definition slice :: "nat \<Rightarrow> nat \<Rightarrow> jstr \<Rightarrow> jstr" where
  "slice a b s = take (b - a) (drop a s)"

record css_theme =
  css_fontSize :: jstr
  css_dataTheme :: ui_theme
  css_primary :: jstr
  css_rgb :: jstr
  css_dim :: jstr

definition useTheme :: "app_preferences \<Rightarrow> css_theme" where
  "useTheme prefs =
     (let color = resolve_color (a_accentColor prefs);
          rgb = (case (parseInt16 (slice 1 3 color), parseInt16 (slice 3 5 color), parseInt16 (slice 5 7 color)) of
             (Some r, Some g, Some b) \<Rightarrow> show_int r @ 44 # show_int g @ 44 # show_int b
           | _ \<Rightarrow> js ''5,150,105'')
      in \<lparr> css_fontSize = sizeMap (a_fontSize prefs), css_dataTheme = a_theme prefs, css_primary = color,
           css_rgb = rgb, css_dim = js ''rgba('' @ rgb @ js '',0.25)'' \<rparr>)"

definition hex_char :: "nat \<Rightarrow> bool" where
  "hex_char c = (radix_digit c \<noteq> None)"

lemma hex_char_not_sign: "hex_char c \<Longrightarrow> c \<noteq> 45 \<and> c \<noteq> 43 \<and> c \<noteq> 120 \<and> c \<noteq> 88 \<and> \<not> is_space c"
  by (auto simp: hex_char_def radix_digit_def is_digit_def is_space_def split: if_splits)

lemma parseInt16_pair:
  assumes "hex_char a" "hex_char b"
  shows "parseInt16 [a, b] = Some (16 * int (the (radix_digit a)) + int (the (radix_digit b)))"
  using assms hex_char_not_sign [of a] hex_char_not_sign [of b]
  by (auto simp: parseInt16_def sign_of_def trim_start_def hex_run_def hex_value_def hex_char_def Let_def)

text \<open>The accent colour is decomposed correctly: for every colour of the form \<open>#rrggbb\<close> that is not one
  of the replaced greens, the three channels of the style are the values of its pairs of digits.\<close>

lemma accent_color_channels:
  assumes "\<forall>c\<in>{r1, r2, g1, g2, b1, b2}. hex_char c"
    and "a_accentColor prefs = [35, r1, r2, g1, g2, b1, b2]" and "a_accentColor prefs \<notin> set default_greens"
  defines "ch \<equiv> \<lambda>x y. show_int (16 * int (the (radix_digit x)) + int (the (radix_digit y)))"
  shows "css_primary (useTheme prefs) = a_accentColor prefs
     \<and> css_rgb (useTheme prefs) = ch r1 r2 @ 44 # ch g1 g2 @ 44 # ch b1 b2"
  using assms parseInt16_pair [of r1 r2] parseInt16_pair [of g1 g2] parseInt16_pair [of b1 b2]
  by (simp add: useTheme_def resolve_color_def slice_def Let_def eval_nat_numeral)

lemma accent_color_channels_witness:
  "css_rgb (useTheme (DEFAULT_PREFS \<lparr> a_accentColor := js ''#0fA010'' \<rparr>)) = show_int 15 @ 44 # show_int 160 @ 44 # show_int 16"
  using accent_color_channels [of 48 102 65 48 49 48 "DEFAULT_PREFS \<lparr> a_accentColor := js ''#0fA010'' \<rparr>"]
  by (simp add: hex_char_def radix_digit_def is_digit_def default_greens_def)

section \<open>Automatic backup\<close>

text \<open>The hook starts one backup in a session, five seconds after the first render that asks for it,
  with the preferences of that render. What it stores has its secrets masked
  (\<open>sanitizePrefsForStorage\<close> on the record).\<close>

definition stored_prefs :: "app_preferences \<Rightarrow> app_preferences" where
  "stored_prefs p = p \<lparr> a_adminPin := MASKED, a_geminiApiKey := MASKED, a_geminiApiKeys := [MASKED], a_groqApiKey := MASKED \<rparr>"

record backup_state =
  bk_prefs :: app_preferences
  bk_called :: bool
  bk_running :: "app_preferences option"
  bk_stored :: "app_preferences option"
  bk_sent :: "app_preferences list"
  bk_done :: nat

definition backup_start :: "app_preferences \<Rightarrow> backup_state" where
  "backup_start p = \<lparr> bk_prefs = p, bk_called = False, bk_running = None, bk_stored = None, bk_sent = [], bk_done = 0 \<rparr>"

datatype backup_event =
    Render life_cycle jstr
  | Backup_done jstr
  | Backup_failed
  | User_sets app_preferences

definition backup_step :: "backup_state \<Rightarrow> backup_event \<Rightarrow> backup_state" where
  "backup_step s e = (case e of
     Render a today \<Rightarrow>
       (if a \<noteq> App_screen \<or> \<not> a_autoBackup (bk_prefs s) then s
        else if (case a_lastBackupDate (bk_prefs s) of None \<Rightarrow> False | Some d \<Rightarrow> starts_with d today) then s
        else if bk_called s then s
        else s \<lparr> bk_called := True, bk_running := Some (bk_prefs s) \<rparr>)
   | Backup_done now \<Rightarrow>
       (case bk_running s of
          None \<Rightarrow> s
        | Some prefs \<Rightarrow>
            (let updated = prefs \<lparr> a_lastBackupDate := Some now \<rparr>
             in s \<lparr> bk_running := None, bk_prefs := updated, bk_stored := Some (stored_prefs updated),
                    bk_sent := bk_sent s @ [updated], bk_done := bk_done s + 1 \<rparr>))
   | Backup_failed \<Rightarrow> s \<lparr> bk_running := None \<rparr>
   | User_sets p \<Rightarrow> s \<lparr> bk_prefs := p \<rparr>)"

definition backup_ok :: "backup_state \<Rightarrow> bool" where
  "backup_ok s = (bk_done s \<le> 1 \<and> (bk_running s \<noteq> None \<longrightarrow> bk_done s = 0 \<and> bk_called s)
     \<and> (bk_done s = 1 \<longrightarrow> bk_called s))"

interpretation backup_machine: machine backup_step backup_ok "\<lambda>_. True"
  by unfold_locales
    (auto simp: backup_ok_def backup_step_def Let_def split: backup_event.splits option.splits if_splits)

text \<open>There is at most one automatic backup in a session, however often the preferences change, days
  pass or renders happen.\<close>

lemma one_backup_per_session:
  "bk_done (run backup_step (backup_start p) es) \<le> 1"
proof -
  have "backup_ok (run backup_step (backup_start p) es)"
    by (rule backup_machine.run_inv) (simp_all add: backup_ok_def backup_start_def)
  then show ?thesis by (simp add: backup_ok_def)
qed

text \<open>A backup undoes what the user changed meanwhile: preferences saved between the start and the end of
  an automatic backup are overwritten, in the state, in storage and in the backend, by the
  preferences from before plus the date.\<close>

lemma backup_reverts_preferences:
  assumes "a_autoBackup p" and "a_lastBackupDate p = None"
  shows "bk_prefs (run backup_step (backup_start p) [Render App_screen today, User_sets q, Backup_done now])
       = p \<lparr> a_lastBackupDate := Some now \<rparr>
     \<and> bk_sent (run backup_step (backup_start p) [Render App_screen today, User_sets q, Backup_done now])
       = [p \<lparr> a_lastBackupDate := Some now \<rparr>]
     \<and> bk_stored (run backup_step (backup_start p) [Render App_screen today, User_sets q, Backup_done now])
       = Some (stored_prefs (p \<lparr> a_lastBackupDate := Some now \<rparr>))"
  using assms by (simp add: backup_step_def backup_start_def Let_def)

lemma backup_reverts_preferences_witness:
  "a_storeName (bk_prefs (run backup_step (backup_start (DEFAULT_PREFS \<lparr> a_autoBackup := True \<rparr>))
     [Render App_screen (js ''2024-01-01''), User_sets (DEFAULT_PREFS \<lparr> a_storeName := js ''New'' \<rparr>), Backup_done (js ''2024-01-01T00:00:05'')]))
   = js ''Beidar Store''"
  using backup_reverts_preferences [of "DEFAULT_PREFS \<lparr> a_autoBackup := True \<rparr>" "js ''2024-01-01''"
    "DEFAULT_PREFS \<lparr> a_storeName := js ''New'' \<rparr>" "js ''2024-01-01T00:00:05''"]
  by (simp add: DEFAULT_PREFS_def)

section \<open>The confirm dialog\<close>

datatype modal_type = Mt_confirm | Mt_warning | Mt_error | Mt_info

record 'k confirm_state =
  cn_open :: bool
  cn_title :: jstr
  cn_message :: jstr
  cn_type :: "modal_type option"
  cn_confirmText :: "jstr option"
  cn_onConfirm :: "'k option"

definition confirm_initial :: "'k confirm_state" where
  "confirm_initial = \<lparr> cn_open = False, cn_title = [], cn_message = [], cn_type = None, cn_confirmText = None, cn_onConfirm = None \<rparr>"

record 'k confirm_options =
  co_title :: jstr
  co_message :: jstr
  co_type :: "modal_type option"
  co_confirmText :: "jstr option"
  co_onConfirm :: 'k

definition openConfirm :: "'k confirm_options \<Rightarrow> 'k confirm_state \<Rightarrow> 'k confirm_state" where
  "openConfirm o' s = \<lparr> cn_open = True, cn_title = co_title o', cn_message = co_message o', cn_type = co_type o',
     cn_confirmText = co_confirmText o', cn_onConfirm = Some (co_onConfirm o') \<rparr>"

definition closeConfirm :: "'k confirm_state \<Rightarrow> 'k confirm_state" where
  "closeConfirm s = s \<lparr> cn_open := False \<rparr>"

lemma confirm_last_wins:
  "openConfirm o' (closeConfirm (openConfirm p s)) = openConfirm o' s'"
  by (simp add: openConfirm_def)

end
