(* ===== verification/Auth.thy ===== *)
theory Auth
  imports AppShell
begin

text \<open>
  Authentication: the provider of \<open>core/AuthContext.tsx\<close> (session restore, login, logout,
  permissions, idle timeout) and the routes of \<open>routes/index.tsx\<close> that it guards. The backend answers
  are arguments of the events. Times are milliseconds, timeouts whole minutes.
\<close>

record staff =
  sf_id :: jstr
  sf_name :: jstr
  sf_username :: jstr
  sf_mustChangePin :: bool
  sf_role :: jstr

record auth_result =
  rs_success :: bool
  rs_staff :: "staff option"
  rs_permissions :: "jstr list option"
  rs_requirePinChange :: bool

text \<open>What is stored under the session key: nothing, something that is not JSON or has no user id, or a
  session.\<close>

datatype stored_session = No_session | Unparsable | No_user | Session staff "jstr list"

definition DEFAULT_IDLE_TIMEOUT :: int where
  "DEFAULT_IDLE_TIMEOUT = 60"

definition WARNING_BEFORE_LOGOUT :: int where
  "WARNING_BEFORE_LOGOUT = 5"

record auth =
  au_user :: "staff option"
  au_perms :: "jstr list"
  au_pinChange :: bool
  au_warning :: bool
  au_remaining :: int
  au_timeout :: int
  au_stored :: stored_session
  au_activity :: "int option"
  au_lastStaff :: "jstr option"
  au_restoring :: bool
  au_refreshes :: nat

definition auth_initial :: "stored_session \<Rightarrow> int option \<Rightarrow> jstr option \<Rightarrow> auth" where
  "auth_initial stored act last_staff = \<lparr> au_user = None, au_perms = [], au_pinChange = False,
     au_warning = False, au_remaining = DEFAULT_IDLE_TIMEOUT, au_timeout = DEFAULT_IDLE_TIMEOUT,
     au_stored = stored, au_activity = act, au_lastStaff = last_staff, au_restoring = False, au_refreshes = 0 \<rparr>"

section \<open>The provider\<close>

text \<open>The effect on mounting starts the restore of a stored session.\<close>

definition load_session :: "auth \<Rightarrow> auth" where
  "load_session s = (case au_stored s of
     No_session \<Rightarrow> s
   | Unparsable \<Rightarrow> s \<lparr> au_stored := No_session \<rparr>
   | No_user \<Rightarrow> s
   | Session u ps \<Rightarrow> if sf_id u = [] then s else s \<lparr> au_restoring := True \<rparr>)"

definition accept_staff :: "staff \<Rightarrow> jstr list option \<Rightarrow> auth \<Rightarrow> auth" where
  "accept_staff st ps s = s \<lparr> au_user := Some st, au_perms := opt_default [] ps,
     au_stored := Session st (opt_default [] ps), au_refreshes := au_refreshes s + 1 \<rparr>"

definition drop_session :: "auth \<Rightarrow> auth" where
  "drop_session s = s \<lparr> au_user := None, au_perms := [], au_stored := No_session \<rparr>"

text \<open>The answer of \<open>restoreSession\<close>; \<open>None\<close> is a rejected or missing answer.\<close>

definition restored :: "auth_result option \<Rightarrow> auth \<Rightarrow> auth" where
  "restored res s =
     (if \<not> au_restoring s then s
      else (let s' = s \<lparr> au_restoring := False \<rparr>
            in (case res of
                  None \<Rightarrow> drop_session s'
                | Some r \<Rightarrow> (case rs_staff r of
                     Some st \<Rightarrow> if rs_success r then accept_staff st (rs_permissions r) s' else drop_session s'
                   | None \<Rightarrow> drop_session s'))))"

definition extendSession :: "int \<Rightarrow> auth \<Rightarrow> auth" where
  "extendSession now s =
     (if au_user s = None then s
      else s \<lparr> au_activity := Some now, au_warning := False, au_remaining := au_timeout s \<rparr>)"

definition setIdleTimeout :: "int \<Rightarrow> auth \<Rightarrow> auth" where
  "setIdleTimeout minutes s =
     (if 0 < minutes then s \<lparr> au_timeout := minutes, au_remaining := minutes \<rparr> else s)"

text \<open>The two logins do the same with the answer of the backend; \<open>None\<close> is a failed call.\<close>

definition login :: "auth_result option \<Rightarrow> int \<Rightarrow> auth \<Rightarrow> auth" where
  "login res now s =
     (case res of
        None \<Rightarrow> s
      | Some r \<Rightarrow> (case rs_staff r of
           None \<Rightarrow> s
         | Some st \<Rightarrow>
             if rs_success r
             then (accept_staff st (rs_permissions r) s)
               \<lparr> au_pinChange := (au_pinChange s \<or> rs_requirePinChange r \<or> sf_mustChangePin st),
                 au_lastStaff := Some (sf_id st), au_activity := Some now \<rparr>
             else s))"

definition logout :: "auth \<Rightarrow> auth" where
  "logout s = (drop_session s) \<lparr> au_warning := False, au_activity := None \<rparr>"

definition hasPermission :: "auth \<Rightarrow> jstr \<Rightarrow> bool" where
  "hasPermission s permission =
     (case au_user s of
        None \<Rightarrow> False
      | Some u \<Rightarrow> sf_role u = js ''admin'' \<or> permission \<in> set (au_perms s))"

text \<open>The effect of the idle management when it is set up, and its check every minute.\<close>

definition idle_setup :: "int \<Rightarrow> auth \<Rightarrow> auth" where
  "idle_setup now s =
     (if au_user s = None \<or> au_timeout s = 0 then s
      else (case au_activity s of None \<Rightarrow> s \<lparr> au_activity := Some now \<rparr> | Some _ \<Rightarrow> s))"

definition idle_minutes :: "int \<Rightarrow> int option \<Rightarrow> int" where
  "idle_minutes now act = (now - opt_default 0 act) div 60000"

definition checkIdle :: "int \<Rightarrow> auth \<Rightarrow> auth" where
  "checkIdle now s =
     (if au_user s = None \<or> au_timeout s = 0 then s
      else (let remaining = au_timeout s - idle_minutes now (au_activity s);
                s1 = s \<lparr> au_remaining := max 0 remaining \<rparr>;
                s2 = (if remaining \<le> WARNING_BEFORE_LOGOUT \<and> 0 < remaining then s1 \<lparr> au_warning := True \<rparr> else s1)
            in if remaining \<le> 0 then logout s2 else s2))"

datatype auth_event =
    Load
  | Restored "auth_result option"
  | Login "auth_result option" int
  | Logout
  | Activity int
  | Set_timeout int
  | Pin_changed bool
  | Idle_setup int
  | Tick int

definition auth_step :: "auth \<Rightarrow> auth_event \<Rightarrow> auth" where
  "auth_step s e = (case e of
     Load \<Rightarrow> load_session s
   | Restored r \<Rightarrow> restored r s
   | Login r now \<Rightarrow> login r now s
   | Logout \<Rightarrow> logout s
   | Activity now \<Rightarrow> (if au_timeout s = 0 then s else extendSession now s)
   | Set_timeout m \<Rightarrow> setIdleTimeout m s
   | Pin_changed b \<Rightarrow> s \<lparr> au_pinChange := b \<rparr>
   | Idle_setup now \<Rightarrow> idle_setup now s
   | Tick now \<Rightarrow> checkIdle now s)"

lemmas auth_ops = load_session_def restored_def login_def logout_def extendSession_def setIdleTimeout_def
  idle_setup_def checkIdle_def accept_staff_def drop_session_def

section \<open>The session\<close>

definition session_ok :: "auth \<Rightarrow> bool" where
  "session_ok s = ((case au_user s of None \<Rightarrow> au_perms s = [] | Some u \<Rightarrow> au_stored s = Session u (au_perms s))
     \<and> 0 < au_timeout s)"

interpretation auth_machine: machine auth_step session_ok "\<lambda>_. True"
  by unfold_locales
    (auto simp: session_ok_def auth_step_def auth_ops Let_def split: auth_event.splits option.splits
      stored_session.splits if_splits)

text \<open>C13. The session is consistent in every run: after any sequence of restores, logins, logouts, ticks and
  activity, without a user there are no permissions and nothing is permitted, and with a user the
  stored session is that user's with exactly the permissions in force.\<close>

theorem session_consistent:
  "let s = run auth_step (auth_initial stored act last_staff) es in
     (au_user s = None \<longrightarrow> au_perms s = [] \<and> \<not> hasPermission s p)
     \<and> (au_user s = Some u \<longrightarrow> au_stored s = Session u (au_perms s))"
proof -
  have "session_ok (run auth_step (auth_initial stored act last_staff) es)"
    by (rule auth_machine.run_inv) (simp_all add: session_ok_def auth_initial_def DEFAULT_IDLE_TIMEOUT_def)
  then show ?thesis by (auto simp: session_ok_def hasPermission_def Let_def split: option.splits)
qed

definition sample_staff :: staff where
  "sample_staff = \<lparr> sf_id = js ''s1'', sf_name = js ''Ali'', sf_username = js ''ali'', sf_mustChangePin = False, sf_role = js ''cashier'' \<rparr>"

definition sample_result :: auth_result where
  "sample_result = \<lparr> rs_success = True, rs_staff = Some sample_staff, rs_permissions = Some [js ''sales''], rs_requirePinChange = False \<rparr>"

theorem session_consistent_witness:
  "\<not> hasPermission (run auth_step (auth_initial No_session None None) [Login (Some sample_result) 0, Logout]) (js ''sales'')"
  using session_consistent [of No_session None None "[Login (Some sample_result) 0, Logout]"]
  by (simp add: auth_step_def logout_def drop_session_def)

section \<open>The idle timeout\<close>

text \<open>The idle timeout is exact: with a user whose last activity is known and a timeout in minutes, the
  user is logged out by the checks exactly when one of them comes at least the timeout after the last
  activity, whatever the times of the checks; a check that comes earlier keeps the user and warns
  exactly in the last five minutes.\<close>

lemma idle_logout_exact:
  assumes "au_user s = Some u" and "au_activity s = Some a" and "0 < au_timeout s"
  shows "au_user (run auth_step s (map Tick ts)) = None \<longleftrightarrow> (\<exists>t\<in>set ts. au_timeout s * 60000 \<le> t - a)"
  using assms
proof (induction ts arbitrary: s)
  case Nil
  then show ?case by simp
next
  case (Cons t ts)
  have gone: "au_user (run auth_step s' (map Tick ts)) = None" if "au_user s' = None" for s' ts
    using that by (induction ts arbitrary: s') (auto simp: auth_step_def checkIdle_def)
  show ?case
  proof (cases "au_timeout s * 60000 \<le> t - a")
    case True
    then have "au_timeout s \<le> (t - a) div 60000" by (simp add: zdiv_mono1 less_eq_div_iff_mult_less_eq)
    then have "au_user (auth_step s (Tick t)) = None"
      using Cons.prems by (simp add: auth_step_def checkIdle_def idle_minutes_def logout_def drop_session_def Let_def)
    then show ?thesis using True gone by simp
  next
    case False
    then have "(t - a) div 60000 < au_timeout s" by (simp add: div_less_iff_less_mult)
    then have "au_user (auth_step s (Tick t)) = Some u" "au_activity (auth_step s (Tick t)) = Some a"
      "au_timeout (auth_step s (Tick t)) = au_timeout s"
      using Cons.prems by (simp_all add: auth_step_def checkIdle_def idle_minutes_def Let_def)
    then show ?thesis using Cons.IH [of "auth_step s (Tick t)"] Cons.prems False by simp
  qed
qed

lemma idle_logout_exact_witness:
  "au_user (run auth_step (auth_step (auth_initial No_session None None) (Login (Some sample_result) 0))
     (map Tick [60000, 3599999, 3600000])) = None"
  by (subst idle_logout_exact [of _ sample_staff 0])
    (simp_all add: auth_step_def login_def accept_staff_def sample_result_def auth_initial_def DEFAULT_IDLE_TIMEOUT_def)

lemma warning_in_last_minutes:
  assumes "au_user s = Some u" and "0 < au_timeout s" and "au_warning s = False"
    and "r = au_timeout s - idle_minutes now (au_activity s)"
  shows "au_warning (checkIdle now s) \<longleftrightarrow> 0 < r \<and> r \<le> 5"
  using assms by (simp add: checkIdle_def logout_def drop_session_def WARNING_BEFORE_LOGOUT_def Let_def)

text \<open>The demand to change the PIN outlives the session: once raised at a login it stays through the
  logout and any later login, so the next user is asked to change a PIN although the backend did not
  require it.\<close>

lemma pin_change_leaks:
  fixes t t' :: int
  assumes "rs_success r" and "rs_staff r = Some st" and "rs_requirePinChange r"
    and "rs_success r'" and "rs_staff r' = Some st'" and "\<not> rs_requirePinChange r'" and "\<not> sf_mustChangePin st'"
  defines "es \<equiv> [Login (Some r) t, Logout, Login (Some r') t']"
  shows "au_user (run auth_step s es) = Some st' \<and> au_pinChange (run auth_step s es)"
  using assms(1-7) by (simp add: es_def auth_step_def login_def logout_def drop_session_def accept_staff_def)

lemma pin_change_leaks_witness:
  "au_pinChange (run auth_step (auth_initial No_session None None)
     [Login (Some (sample_result \<lparr> rs_requirePinChange := True \<rparr>)) 0, Logout, Login (Some sample_result) 1])"
  using pin_change_leaks [of "sample_result \<lparr> rs_requirePinChange := True \<rparr>" sample_staff sample_result sample_staff
    "auth_initial No_session None None" 0 1]
  by (simp add: sample_result_def sample_staff_def)

section \<open>Routes\<close>

datatype page = Page view | To_dashboard

definition route_permission :: "view \<Rightarrow> jstr option" where
  "route_permission v = (case v of V_finance \<Rightarrow> Some (js ''finance'') | V_reports \<Rightarrow> Some (js ''reports'')
     | V_settings \<Rightarrow> Some (js ''settings'') | _ \<Rightarrow> None)"

definition protected_route :: "auth \<Rightarrow> jstr \<Rightarrow> view \<Rightarrow> page" where
  "protected_route s permission v =
     (if au_user s = None then To_dashboard
      else if permission \<noteq> [] \<and> \<not> hasPermission s permission then To_dashboard
      else Page v)"

definition app_route :: "auth \<Rightarrow> view \<Rightarrow> page" where
  "app_route s v = (case route_permission v of None \<Rightarrow> Page v | Some p \<Rightarrow> protected_route s p v)"

text \<open>Protected pages need their permission: finance, reports and settings are shown only to an
  authenticated user who is an administrator or holds the permission of the page; all other pages are
  shown in every state, also to nobody.\<close>

lemma protected_pages:
  "(app_route s v = Page v) =
     (if v \<in> {V_finance, V_reports, V_settings}
      then (\<exists>u. au_user s = Some u \<and> (sf_role u = js ''admin'' \<or> view_name v \<in> set (au_perms s)))
      else True)"
  by (cases v) (auto simp: app_route_def route_permission_def protected_route_def hasPermission_def view_name_def
      split: option.splits)

text \<open>The logout by the idle check is one of the provider only: the screen of the shell and the page of
  an unprotected route stay.\<close>

lemma idle_logout_keeps_page:
  "au_user (checkIdle now s) = None \<Longrightarrow> app_route (checkIdle now s) V_sales = Page V_sales"
  by (simp add: app_route_def route_permission_def)

end
