(* ===== verification/Scanner.thy ===== *)
theory Scanner
  imports Domain Machines
begin

text \<open>
  The detection of USB barcode scanners, \<open>hooks/useUsbScannerDetection.ts\<close>: a scanner is told from a
  person by the speed of the keystrokes. Times are milliseconds. The refs of the hook (buffer, time
  of the last key, count of fast keys, detection flag as of the last render) are fields of the state
  beside the React state; what the hook calls is a list of effects.
\<close>

definition DETECTION_THRESHOLD_MS :: int where
  "DETECTION_THRESHOLD_MS = 50"

definition MIN_BARCODE_LENGTH :: nat where
  "MIN_BARCODE_LENGTH = 3"

datatype scan_effect = On_scan jstr | On_usb_detected

record scanner =
  us_enabled :: bool
  us_detected :: bool
  us_lastDetection :: "int option"
  us_scanCount :: nat
  us_stored :: bool
  us_detectedRef :: bool
  us_buffer :: jstr
  us_lastKey :: int
  us_fast :: nat
  us_effects :: "scan_effect list"

definition scanner_start :: "bool \<Rightarrow> bool \<Rightarrow> int \<Rightarrow> scanner" where
  "scanner_start enabled stored now = \<lparr> us_enabled = enabled, us_detected = stored,
     us_lastDetection = (if stored then Some now else None), us_scanCount = 0, us_stored = stored,
     us_detectedRef = stored, us_buffer = [], us_lastKey = 0, us_fast = 0, us_effects = [] \<rparr>"

definition emit :: "scan_effect \<Rightarrow> scanner \<Rightarrow> scanner" where
  "emit e s = s \<lparr> us_effects := us_effects s @ [e] \<rparr>"

definition count_scan :: "scanner \<Rightarrow> scanner" where
  "count_scan s = s \<lparr> us_scanCount := us_scanCount s + 1 \<rparr>"

definition detect :: "int \<Rightarrow> scanner \<Rightarrow> scanner" where
  "detect now s = emit On_usb_detected (count_scan
     (s \<lparr> us_stored := True, us_detected := True, us_lastDetection := Some now \<rparr>))"

text \<open>A submitted buffer: whether the keys came as fast as a scanner types decides what is counted.\<close>

definition submit :: "int \<Rightarrow> scanner \<Rightarrow> scanner" where
  "submit now s =
     (if MIN_BARCODE_LENGTH \<le> length (us_buffer s)
      then emit (On_scan (us_buffer s))
        (if MIN_BARCODE_LENGTH - 1 \<le> us_fast s
         then (if \<not> us_detectedRef s then detect now s else count_scan s)
         else count_scan s)
      else s)"

definition printable :: "jstr \<Rightarrow> int \<Rightarrow> scanner \<Rightarrow> scanner" where
  "printable key timeDiff s =
     (let s1 = (if DETECTION_THRESHOLD_MS < timeDiff then s \<lparr> us_buffer := [], us_fast := 0 \<rparr> else s);
          s2 = s1 \<lparr> us_buffer := us_buffer s1 @ key \<rparr>
      in if timeDiff \<le> DETECTION_THRESHOLD_MS then s2 \<lparr> us_fast := us_fast s2 + 1 \<rparr> else s2)"

text \<open>\<open>in_field\<close>: the event comes from an input or a text area.\<close>

definition handleKeyDown :: "jstr \<Rightarrow> bool \<Rightarrow> int \<Rightarrow> scanner \<Rightarrow> scanner" where
  "handleKeyDown key in_field now s =
     (if \<not> us_enabled s \<or> in_field then s
      else (let timeDiff = now - us_lastKey s; s' = s \<lparr> us_lastKey := now \<rparr>
            in if key = js ''Enter'' then (submit now s') \<lparr> us_buffer := [], us_fast := 0 \<rparr>
               else if length key = 1 then printable key timeDiff s'
               else s'))"

definition resetDetection :: "scanner \<Rightarrow> scanner" where
  "resetDetection s = s \<lparr> us_stored := False, us_detected := False, us_lastDetection := None, us_scanCount := 0 \<rparr>"

definition markAsUsbConnected :: "int \<Rightarrow> scanner \<Rightarrow> scanner" where
  "markAsUsbConnected now s = s \<lparr> us_stored := True, us_detected := True, us_lastDetection := Some now \<rparr>"

datatype scan_event = Key jstr bool int | Rendered | Reset_detection | Mark_connected int | Set_enabled bool

definition scanner_step :: "scanner \<Rightarrow> scan_event \<Rightarrow> scanner" where
  "scanner_step s e = (case e of
     Key k f now \<Rightarrow> handleKeyDown k f now s
   | Rendered \<Rightarrow> s \<lparr> us_detectedRef := us_detected s \<rparr>
   | Reset_detection \<Rightarrow> resetDetection s
   | Mark_connected now \<Rightarrow> markAsUsbConnected now s
   | Set_enabled b \<Rightarrow> s \<lparr> us_enabled := b \<rparr>)"

lemmas scanner_ops = handleKeyDown_def submit_def printable_def detect_def count_scan_def emit_def
  resetDetection_def markAsUsbConnected_def

section \<open>Every accepted scan is a fast one\<close>

text \<open>Every character of the buffer but the first was fast, and what was handed on was long enough.\<close>

definition scan_ok :: "scan_effect \<Rightarrow> bool" where
  "scan_ok e = (case e of On_scan code \<Rightarrow> MIN_BARCODE_LENGTH \<le> length code | On_usb_detected \<Rightarrow> True)"

definition scanner_ok :: "scanner \<Rightarrow> bool" where
  "scanner_ok s = (length (us_buffer s) \<le> us_fast s + 1 \<and> us_fast s \<le> length (us_buffer s)
     \<and> list_all scan_ok (us_effects s) \<and> us_stored s = us_detected s)"

interpretation scanner_machine: machine scanner_step scanner_ok "\<lambda>_. True"
  by unfold_locales
    (auto simp: scanner_ok_def scanner_step_def scanner_ops scan_ok_def Let_def MIN_BARCODE_LENGTH_def
      split: scan_event.splits)

text \<open>Slow typing never counts as a scan: in every run, when a buffer long enough for a barcode is
  submitted, its keys have come as fast as a scanner types, so the submission either detects the scanner
  or meets one already detected; the branch for a slow barcode is never taken. Every code handed on has
  at least three characters.\<close>

lemma scans_are_fast:
  assumes "s = run scanner_step (scanner_start en stored t0) es"
  shows "(MIN_BARCODE_LENGTH \<le> length (us_buffer s) \<longrightarrow> MIN_BARCODE_LENGTH - 1 \<le> us_fast s)
     \<and> (\<forall>code. On_scan code \<in> set (us_effects s) \<longrightarrow> 3 \<le> length code)"
proof -
  have "scanner_ok s" unfolding assms
    by (rule scanner_machine.run_inv) (simp_all add: scanner_ok_def scanner_start_def)
  then show ?thesis
    by (auto simp: scanner_ok_def MIN_BARCODE_LENGTH_def list_all_iff scan_ok_def)
qed

lemma scans_are_fast_witness:
  "MIN_BARCODE_LENGTH - 1 \<le> us_fast (run scanner_step (scanner_start True False 0)
     [Key (js ''1'') False 1000, Key (js ''2'') False 1010, Key (js ''3'') False 1020])"
proof -
  have "MIN_BARCODE_LENGTH \<le> length (us_buffer (run scanner_step (scanner_start True False 0)
     [Key (js ''1'') False 1000, Key (js ''2'') False 1010, Key (js ''3'') False 1020]))"
    by code_simp
  then show ?thesis using scans_are_fast [OF refl] by blast
qed

text \<open>A code typed at the speed of a scanner, at the given times.\<close>

fun keys_at :: "(nat \<times> int) list \<Rightarrow> scan_event list" where
  "keys_at [] = []"
| "keys_at ((c, t) # ks) = Key [c] False t # keys_at ks"

fun fast_from :: "int \<Rightarrow> (nat \<times> int) list \<Rightarrow> bool" where
  "fast_from t0 [] = True"
| "fast_from t0 ((c, t) # ks) = (t - t0 \<le> DETECTION_THRESHOLD_MS \<and> fast_from t ks)"

lemma run_fast_keys:
  assumes "us_enabled s" and "fast_from (us_lastKey s) ks"
  shows "run scanner_step s (keys_at ks) = s \<lparr> us_buffer := us_buffer s @ map fst ks,
     us_lastKey := (if ks = [] then us_lastKey s else snd (last ks)), us_fast := us_fast s + length ks \<rparr>"
  using assms
proof (induction ks arbitrary: s)
  case Nil
  then show ?case by simp
next
  case (Cons k ks)
  obtain c t where k: "k = (c, t)" by (cases k)
  let ?s = "s \<lparr> us_buffer := us_buffer s @ [c], us_lastKey := t, us_fast := us_fast s + 1 \<rparr>"
  have "scanner_step s (Key [c] False t) = ?s"
    using Cons.prems by (simp add: k scanner_step_def handleKeyDown_def printable_def Let_def)
  then show ?case using Cons.IH [of ?s] Cons.prems by (simp add: k)
qed

text \<open>A scan is recognised from any state: when after a pause the keys of a code of at least three
  characters arrive within the threshold of each other, closed by Enter, the code is handed on whole, last,
  and without anything typed before; the scanner is detected (and announced once, if it was not yet),
  one scan is counted and the buffer is empty again.\<close>

lemma scan_recognised:
  assumes "us_enabled s" and "50 < t1 - us_lastKey s" and "fast_from t1 ks" and "2 \<le> length ks"
  shows "let s' = run scanner_step s (Key [c] False t1 # keys_at ks @ [Key (js ''Enter'') False t]) in
      us_effects s' = us_effects s @ (if us_detectedRef s then [] else [On_usb_detected]) @ [On_scan (c # map fst ks)]
      \<and> us_scanCount s' = us_scanCount s + 1 \<and> us_buffer s' = []
      \<and> (us_detected s' \<longleftrightarrow> us_detected s \<or> \<not> us_detectedRef s)"
proof -
  let ?s = "s \<lparr> us_buffer := [c], us_lastKey := t1, us_fast := 0 \<rparr>"
  have first: "scanner_step s (Key [c] False t1) = ?s"
    using assms(1,2) by (simp add: scanner_step_def handleKeyDown_def printable_def DETECTION_THRESHOLD_MS_def Let_def)
  have mid: "run scanner_step ?s (keys_at ks) = ?s \<lparr> us_buffer := [c] @ map fst ks,
      us_lastKey := (if ks = [] then t1 else snd (last ks)), us_fast := 0 + length ks \<rparr>"
    using run_fast_keys [of ?s ks] assms(1,3) by simp
  have "ks \<noteq> []" using assms(4) by auto
  then show ?thesis using assms(1,4)
    by (simp add: first run_append mid) (simp add: scanner_step_def scanner_ops MIN_BARCODE_LENGTH_def Let_def)
qed

lemma scan_recognised_witness:
  "us_scanCount (run scanner_step (scanner_start True False 0)
     (Key [49] False 1000 # keys_at [(50, 1010), (51, 1020)] @ [Key (js ''Enter'') False 1030])) = 1"
  using scan_recognised [of "scanner_start True False 0" 1000 "[(50, 1010), (51, 1020)]" 49 1030]
  by (simp add: scanner_start_def DETECTION_THRESHOLD_MS_def Let_def del: run_Cons)

end
