(* ===== verification/Ai.thy ===== *)
theory Ai
  imports Export Machines
begin

text \<open>
  The AI helpers of \<open>core/ai.ts\<close>: the daily quota kept in \<open>localStorage\<close>, the execution of a request
  with its classification of errors, and the features built on it. The backend is an argument: for a
  prompt it throws a message or answers a text. Dates are local date strings.
\<close>

section \<open>The daily quota\<close>

definition DAILY_AI_LIMIT :: nat where
  "DAILY_AI_LIMIT = 20"

record ai_usage =
  ai_date :: jstr
  ai_count :: nat

text \<open>What is stored: nothing (or the empty text), something that cannot be read, or a record.\<close>

datatype stored_usage = U_none | U_unreadable | U_data ai_usage

definition getUsageData :: "jstr \<Rightarrow> stored_usage \<Rightarrow> ai_usage" where
  "getUsageData today stored = (case stored of
     U_data d \<Rightarrow> if ai_date d \<noteq> today then \<lparr> ai_date = today, ai_count = 0 \<rparr> else d
   | _ \<Rightarrow> \<lparr> ai_date = today, ai_count = 0 \<rparr>)"

definition incrementUsage :: "jstr \<Rightarrow> stored_usage \<Rightarrow> stored_usage" where
  "incrementUsage today stored =
     (let d = getUsageData today stored in U_data \<lparr> ai_date = today, ai_count = ai_count d + 1 \<rparr>)"

definition isAILimitReached :: "jstr \<Rightarrow> stored_usage \<Rightarrow> bool" where
  "isAILimitReached today stored = (DAILY_AI_LIMIT \<le> ai_count (getUsageData today stored))"

section \<open>A request\<close>

datatype complexity = BASIC | COMPLEX

type_synonym ai_backend = "complexity \<Rightarrow> jstr \<Rightarrow> jstr + jstr"

definition limit_message :: jstr where
  "limit_message =
     [9888, 65039] @ js '' '' @ [1578, 1580, 1575, 1608, 1586, 1578] @ js '' '' @ [1581, 1583] @
     js '' '' @ [1575, 1604, 1575, 1587, 1578, 1582, 1583, 1575, 1605] @ js '' '' @
     [1575, 1604, 1610, 1608, 1605, 1610] @ js '' ('' @ show_nat DAILY_AI_LIMIT @ js '' '' @
     [1591, 1604, 1576] @ js ''/'' @ [1610, 1608, 1605] @ js '').'' @ [10, 10, 55357, 56580] @ js '' '' @
     [1587, 1610, 1578, 1605] @ js '' '' @ [1578, 1580, 1583, 1610, 1583] @ js '' '' @
     [1585, 1589, 1610, 1583, 1603] @ js '' '' @ [1594, 1583, 1575, 1611] @ js '' '' @
     [1578, 1604, 1602, 1575, 1574, 1610, 1575, 1611] @ js ''.'' @ [10, 55357, 56481] @ js '' '' @
     [1604, 1604, 1581, 1589, 1608, 1604] @ js '' '' @ [1593, 1604, 1609] @ js '' '' @
     [1575, 1587, 1578, 1582, 1583, 1575, 1605] @ js '' '' @ [1594, 1610, 1585] @ js '' '' @
     [1605, 1581, 1583, 1608, 1583, 1548] @ js '' '' @ [1578, 1608, 1575, 1589, 1604] @ js '' '' @
     [1605, 1593] @ js '' '' @ [1575, 1604, 1583, 1593, 1605] @ js '' '' @
     [1604, 1578, 1585, 1602, 1610, 1577] @ js '' '' @ [1582, 1591, 1578, 1603] @ js ''.''"

definition quota_message :: jstr where
  "quota_message =
     [9889] @ js '' '' @ [1578, 1605] @ js '' '' @ [1575, 1587, 1578, 1606, 1601, 1575, 1583] @
     js '' '' @ [1603, 1608, 1578, 1575] @ js '' API '' @ [1575, 1604, 1584, 1603, 1575, 1569] @
     js '' '' @ [1575, 1604, 1575, 1589, 1591, 1606, 1575, 1593, 1610] @ js ''!'' @
     [10, 10, 55357, 56522] @ js '' '' @ [1581, 1583] @ js '' '' @
     [1575, 1604, 1575, 1587, 1578, 1582, 1583, 1575, 1605] @ js '' '' @
     [1575, 1604, 1605, 1580, 1575, 1606, 1610] @ js '' '' @ [1605, 1606] @ js '' Google '' @
     [1602, 1583] @ js '' '' @ [1575, 1587, 1578, 1615, 1606, 1601, 1583] @ js ''.'' @ [10, 9200] @
     js '' '' @ [1610, 1585, 1580, 1609] @ js '' '' @ [1575, 1604, 1575, 1606, 1578, 1592, 1575,
       1585] @
     js '' '' @ [1576, 1590, 1593] @ js '' '' @ [1583, 1602, 1575, 1574, 1602] @ js '' '' @
     [1579, 1605] @ js '' '' @ [1575, 1604, 1605, 1581, 1575, 1608, 1604, 1577] @ js '' '' @
     [1605, 1580, 1583, 1583, 1575, 1611] @ js ''.'' @ [10, 55357, 56593] @ js '' '' @ [1571,
       1608] @
     js '' '' @ [1578, 1608, 1575, 1589, 1604] @ js '' '' @ [1605, 1593] @ js '' '' @
     [1575, 1604, 1605, 1591, 1608, 1585] @ js '' '' @ [1604, 1573, 1590, 1575, 1601,
       1577] @ js '' '' @
     [1605, 1601, 1578, 1575, 1581] @ js '' API '' @ [1580, 1583, 1610, 1583] @ js ''.''"

definition connection_message :: jstr where
  "connection_message =
     [55356, 57104] @ js '' '' @ [1601, 1588, 1604] @ js '' '' @
     [1575, 1604, 1575, 1578, 1589, 1575, 1604] @ js '' '' @ [1576, 1582, 1583, 1605,
       1577] @ js '' '' @
     [1575, 1604, 1584, 1603, 1575, 1569] @ js '' '' @
     [1575, 1604, 1575, 1589, 1591, 1606, 1575, 1593, 1610] @ js ''.'' @ [10, 10, 55357, 56545] @
     js '' '' @ [1578, 1571, 1603, 1583] @ js '' '' @ [1605, 1606] @ js '' '' @
     [1575, 1578, 1589, 1575, 1604, 1603] @ js '' '' @
     [1576, 1575, 1604, 1573, 1606, 1578, 1585, 1606, 1578] @ js ''.'' @ [10, 55357,
       56580] @ js '' '' @
     [1581, 1575, 1608, 1604] @ js '' '' @ [1605, 1585, 1577] @ js '' '' @ [1571, 1582, 1585, 1609] @
     js '' '' @ [1576, 1593, 1583] @ js '' '' @ [1602, 1604, 1610, 1604] @ js ''.''"

definition key_message :: jstr where
  "key_message =
     [55357, 56593] @ js '' '' @ [1582, 1591, 1571] @ js '' '' @ [1601, 1610] @ js '' '' @
     [1605, 1601, 1578, 1575, 1581] @ js '' API!'' @ [10, 10, 1610, 1585, 1580, 1609] @ js '' '' @
     [1575, 1604, 1578, 1581, 1602, 1602] @ js '' '' @ [1605, 1606] @ js '' '' @
     [1589, 1604, 1575, 1581, 1610, 1577] @ js '' '' @ [1605, 1601, 1578, 1575, 1581] @ js '' '' @
     [1575, 1604, 1584, 1603, 1575, 1569] @ js '' '' @
     [1575, 1604, 1575, 1589, 1591, 1606, 1575, 1593, 1610] @ js '' '' @ [1601, 1610] @ js '' '' @
     [1575, 1604, 1573, 1593, 1583, 1575, 1583, 1575, 1578] @ js ''.''"

definition failure_message :: "jstr \<Rightarrow> jstr" where
  "failure_message msg =
     [10060] @ js '' '' @ [1601, 1588, 1604] @ js '' '' @ [1601, 1610] @ js '' '' @
     [1575, 1604, 1581, 1589, 1608, 1604] @ js '' '' @ [1593, 1604, 1609] @ js '' '' @ [1585,
       1583] @
     js '' '' @ [1575, 1604, 1584, 1603, 1575, 1569] @ js '' '' @
     [1575, 1604, 1575, 1589, 1591, 1606, 1575, 1593, 1610] @ js ''.'' @
     [10, 10, 1575, 1604, 1582, 1591, 1571] @ js '': '' @ take 100 msg @ js ''...''"

definition error_message :: "jstr \<Rightarrow> jstr" where
  "error_message msg =
     (if str_includes msg (js ''daily_limit_exceeded'') then limit_message
      else if str_includes msg (js ''429'') \<or> str_includes msg (js ''RESOURCE_EXHAUSTED'')
        \<or> str_includes msg (js ''quota'') \<or> str_includes msg (js ''exceeded'') then quota_message
      else if str_includes msg (js ''connection_failed'') \<or> str_includes msg (js ''network'')
        \<or> str_includes msg (js ''timeout'') then connection_message
      else if str_includes msg (js ''API key'') \<or> str_includes msg (js ''invalid'')
        \<or> str_includes msg (js ''401'') \<or> str_includes msg (js ''403'') then key_message
      else failure_message msg)"

definition full_prompt :: "jstr \<Rightarrow> jstr option \<Rightarrow> jstr" where
  "full_prompt prompt systemInstruction = (case systemInstruction of
     None \<Rightarrow> prompt
   | Some sys \<Rightarrow> if sys = [] then prompt
       else sys @ [10, 10] @ js ''---'' @ [10] @ js ''User Request: '' @ prompt)"

text \<open>\<open>today\<close> is the date when the limit is checked, \<open>today'\<close> the date when the answer arrives. The
  result is the new stored usage, the prompt that was sent, if any, and the text.\<close>

definition executeAIRequest ::
  "ai_backend \<Rightarrow> jstr \<Rightarrow> jstr \<Rightarrow> stored_usage \<Rightarrow> complexity \<Rightarrow> jstr \<Rightarrow> jstr option
   \<Rightarrow> stored_usage \<times> jstr option \<times> jstr" where
  "executeAIRequest backend today today' stored cx prompt sys =
     (if isAILimitReached today stored then (stored, None, limit_message)
      else (let p = full_prompt prompt sys
            in (case backend cx p of
                  Inr result \<Rightarrow> (incrementUsage today' stored, Some p, result)
                | Inl msg \<Rightarrow> (stored, Some p, error_message msg))))"

section \<open>Features\<close>

text \<open>A feature is run in the same surroundings: backend, dates and stored usage.\<close>

record ai_env =
  av_backend :: ai_backend
  av_today :: jstr
  av_today' :: jstr
  av_stored :: stored_usage

definition ask :: "ai_env \<Rightarrow> complexity \<Rightarrow> jstr \<Rightarrow> jstr option \<Rightarrow> stored_usage \<times> jstr option \<times> jstr" where
  "ask e cx prompt sys = executeAIRequest (av_backend e) (av_today e) (av_today' e) (av_stored e) cx prompt sys"

definition map_text :: "(jstr \<Rightarrow> jstr) \<Rightarrow> stored_usage \<times> jstr option \<times> jstr \<Rightarrow> stored_usage \<times> jstr option \<times> jstr" where
  "map_text f r = (case r of (u, p, s) \<Rightarrow> (u, p, f s))"

definition generateProductDescription :: "ai_env \<Rightarrow> jstr \<Rightarrow> jstr \<Rightarrow> stored_usage \<times> jstr option \<times> jstr" where
  "generateProductDescription e name category = ask e BASIC
     ([1575, 1603, 1578, 1576] @ js '' '' @ [1608, 1589, 1601, 1575, 1611] @ js '' '' @
     [1578, 1587, 1608, 1610, 1602, 1610, 1575, 1611] @ js '' '' @ [1580, 1584, 1575, 1576, 1575,
       1611] @
     js '' '' @ [1608, 1575, 1581, 1578, 1585, 1575, 1601, 1610, 1575, 1611] @ js '' '' @
     [1604, 1604, 1605, 1606, 1578, 1580] @ js '' '' @ [1575, 1604, 1578, 1575, 1604, 1610] @
     js '': \"'' @ name @ js ''\" '' @ [1601, 1610] @ js '' '' @ [1601, 1574, 1577] @ js '' \"'' @
     category @ js ''\". '' @ [1575, 1604, 1608, 1589, 1601] @ js '' '' @ [1610, 1580,
       1576] @ js '' '' @
     [1571, 1606] @ js '' '' @ [1610, 1603, 1608, 1606] @ js '' '' @
     [1576, 1575, 1604, 1604, 1594, 1577] @ js '' '' @ [1575, 1604, 1593, 1585, 1576, 1610, 1577,
       1548] @
     js '' '' @ [1602, 1589, 1610, 1585, 1575, 1611] @ js '' ('' @ [1580, 1605, 1604, 1578, 1610,
       1606] @
     js '' '' @ [1603, 1581, 1583] @ js '' '' @ [1571, 1602, 1589, 1609] @ js '')'' @ [1548] @ js '' '' @
     [1608, 1610, 1576, 1585, 1586] @ js '' '' @ [1575, 1604, 1602, 1610, 1605,
       1577] @ js ''.'') None"

definition suggestProductEmoji :: "ai_env \<Rightarrow> jstr \<Rightarrow> jstr option \<Rightarrow> stored_usage \<times> jstr option \<times> jstr" where
  "suggestProductEmoji e name category = (av_stored e, None, [])"

definition improveText :: "ai_env \<Rightarrow> jstr \<Rightarrow> stored_usage \<times> jstr option \<times> jstr" where
  "improveText e src = map_text (replace_char 34 []) (ask e BASIC
     ([1602, 1605] @ js '' '' @ [1576, 1573, 1593, 1575, 1583, 1577] @ js '' '' @
     [1589, 1610, 1575, 1594, 1577] @ js '' '' @ [1575, 1604, 1606, 1589] @ js '' '' @
     [1575, 1604, 1578, 1575, 1604, 1610] @ js '' '' @ [1604, 1610, 1603, 1608, 1606] @ js '' '' @
     [1571, 1603, 1579, 1585] @ js '' '' @ [1575, 1581, 1578, 1585, 1575, 1601, 1610, 1577, 1548] @
     js '' '' @ [1589, 1581, 1581] @ js '' '' @ [1575, 1604, 1571, 1582, 1591, 1575,
       1569] @ js '' '' @
     [1575, 1604, 1604, 1594, 1608, 1610, 1577, 1548] @ js '' '' @ [1608, 1575, 1580, 1593, 1604,
       1607] @
     js '' '' @ [1605, 1608, 1580, 1586, 1575, 1611] @ js '' ('' @ [1576, 1575, 1604, 1604, 1594,
       1577] @
     js '' '' @ [1575, 1604, 1593, 1585, 1576, 1610, 1577] @ js ''): \"'' @ src @ js ''\"'') None)"

definition analyzeInventoryRisk :: "ai_env \<Rightarrow> product list \<Rightarrow> stored_usage \<times> jstr option \<times> jstr" where
  "analyzeInventoryRisk e lowStockItems =
     (if lowStockItems = []
      then (av_stored e, None, [9989, 32, 1575, 1604, 1605, 1582, 1586, 1608, 1606, 32, 1605,
        1605, 1578, 1575, 1586, 32, 45, 32, 1604, 1575, 32, 1606, 1608, 1575, 1602, 1589, 32,
        1581, 1585, 1580, 1577, 46])
      else (let itemsList = join [1548, 32]
                  (map (\<lambda>p. p_name p @ js '' ('' @ num_to_string (p_stock p) @ js '')'') (take 5 lowStockItems))
            in ask e BASIC ([1575, 1604, 1606, 1608, 1575, 1602,
              1589] @ js '': '' @ itemsList @ [10, 10] @ js ''**'' @
     [1575, 1604, 1605, 1591, 1604, 1608, 1576] @ js '':** '' @ [1581, 1604, 1604] @ js '' '' @
     [1575, 1604, 1605, 1582, 1586, 1608, 1606] @ js '' '' @ [1608, 1571, 1593, 1591, 1606, 1610] @
     js '' '' @ [1587, 1591, 1585] @ js '' '' @ [1608, 1575, 1581, 1583] @ js '' '' @
     [1601, 1602, 1591] @ js '' (One line) '' @ [1610, 1581, 1578, 1608, 1610] @ js '' '' @
     [1593, 1604, 1609] @ js '' '' @ [1571, 1607, 1605] @ js '' '' @ [1573, 1580, 1585, 1575,
       1569] @
     js '':'' @ [10] @ js ''['' @ [1573, 1610, 1605, 1608, 1580, 1610] @ js ''] ['' @
     [1578, 1606, 1576, 1610, 1607] @ js '' '' @ [1593, 1606] @ js '' '' @ [1571, 1582, 1591,
       1585] @
     js '' '' @ [1605, 1606, 1578, 1580] @ js ''] -> ['' @ [1606, 1589, 1610, 1581,
       1577] @ js '' '' @
     [1587, 1585, 1610, 1593, 1577] @ js '']'')
     (Some [1571, 1606, 1578, 32, 1605, 1583, 1610, 1585, 32, 1605, 1582, 1586, 1608, 1606, 32,
       1584, 1603, 1610, 46, 32, 1573, 1580, 1575, 1576, 1578, 1603, 32, 1610, 1580, 1576, 32,
       1571, 1606, 32, 1578, 1603, 1608, 1606, 32, 1587, 1591, 1585, 1575, 1611, 32, 1608, 1575,
       1581, 1583, 1575, 1611, 32, 1601, 1602, 1591, 46])))"

definition suggestProductPrice :: "ai_env \<Rightarrow> jstr \<Rightarrow> jsnum \<Rightarrow> stored_usage \<times> jstr option \<times> jstr" where
  "suggestProductPrice e name cost = map_text (filter is_digit) (ask e BASIC
     ([1575, 1604, 1605, 1606, 1578, 1580] @ js '': \"'' @ name @ js ''\"'' @ [1548] @ js '' '' @
     [1575, 1604, 1578, 1603, 1604, 1601, 1577] @ js '': '' @ num_to_string cost @ js ''. '' @
     [1575, 1602, 1578, 1585, 1581] @ js '' '' @ [1587, 1593, 1585] @ js '' '' @ [1576, 1610,
       1593] @
     js '' '' @ [1578, 1606, 1575, 1601, 1587, 1610] @ js '' '' @
     [1576, 1575, 1604, 1583, 1610, 1606, 1575, 1585] @ js '' '' @
     [1575, 1604, 1593, 1585, 1575, 1602, 1610] @ js '' (IQD) '' @ [1576, 1606, 1575, 1569, 1611] @
     js '' '' @ [1593, 1604, 1609] @ js '' '' @ [1607, 1575, 1605, 1588] @ js '' '' @
     [1585, 1576, 1581] @ js '' '' @ [1605, 1593, 1602, 1608, 1604] @ js '' (20-30%). '' @
     [1571, 1593, 1583] @ js '' '' @ [1601, 1602, 1591] @ js '' '' @ [1575, 1604, 1585, 1602,
       1605] @
     js '' '' @ [1575, 1604, 1605, 1602, 1578, 1585, 1581] @ js '' '' @ [1576, 1583, 1608, 1606] @
     js '' '' @ [1606, 1589] @ js ''.'') None)"

definition analyzeCustomerProfile :: "ai_env \<Rightarrow> jstr \<Rightarrow> jsnum \<Rightarrow> jsnum \<Rightarrow> stored_usage \<times> jstr option \<times> jstr" where
  "analyzeCustomerProfile e name totalPurchases debt = ask e BASIC
     ([55357, 56523] @ js '' '' @ [1578, 1581, 1604, 1610, 1604] @ js '' '' @ [1593, 1605, 1610,
       1604] @
     js '':'' @ [10, 8226] @ js '' '' @ [1575, 1604, 1575, 1587, 1605] @ js '': '' @ name @ [10,
       8226] @
     js '' '' @ [1575, 1604, 1605, 1588, 1578, 1585, 1610, 1575, 1578] @ js '': '' @
     num_to_string totalPurchases @ js '' '' @ [1583] @ js ''.'' @ [1593, 10, 8226] @ js '' '' @
     [1575, 1604, 1583, 1610, 1608, 1606] @ js '': '' @ num_to_string debt @ js '' '' @ [1583] @
     js ''.'' @ [1593, 10, 10] @ js ''**'' @ [1571, 1580, 1576] @ js '' '' @ [1576, 1607, 1584, 1575] @
     js '' '' @ [1575, 1604, 1578, 1606, 1587, 1610, 1602] @ js '' '' @ [1601, 1602,
       1591] @ js '':**'' @
     [10] @ js ''['' @ [11088] @ js '' VIP / '' @ [55357, 56420] @ js '' '' @ [1593, 1575, 1583, 1610] @
     js '' / '' @ [9888, 65039] @ js '' '' @ [1605, 1582, 1575, 1591, 1585, 1577] @ js ''] - '' @
     [1587, 1576, 1576] @ js '' '' @ [1575, 1604, 1578, 1589, 1606, 1610, 1601] @ js '' '' @
     [1576, 1580, 1605, 1604, 1577] @ js '' '' @ [1608, 1575, 1581, 1583, 1577, 10, 55357, 56481] @
     js '' '' @ [1578, 1608, 1589, 1610, 1577] @ js '': ['' @ [1573, 1580, 1585, 1575,
       1569] @ js '' '' @
     [1608, 1575, 1581, 1583] @ js '' '' @ [1605, 1581, 1583, 1583] @ js '']'') None"

definition expense_names :: "jstr list" where
  "expense_names = [js ''rent'', js ''salary'', js ''bills'', js ''maintenance'', js ''other'']"

text \<open>\<open>lower\<close> is \<open>toLowerCase\<close>.\<close>

definition categorizeExpense :: "(jstr \<Rightarrow> jstr) \<Rightarrow> ai_env \<Rightarrow> jstr \<Rightarrow> stored_usage \<times> jstr option \<times> jstr" where
  "categorizeExpense lower e title =
     map_text (\<lambda>res. let clean = filter (\<lambda>c. c \<noteq> 39 \<and> c \<noteq> 34) (lower (trim res))
                     in if clean \<in> set expense_names then clean else js ''other'')
       (ask e BASIC ([1593, 1606, 1608, 1575, 1606] @ js '' '' @ [1575, 1604, 1605, 1589, 1585,
         1608, 1601] @
     js '': \"'' @ title @ js ''\". '' @ [1589, 1606, 1601] @ js '' '' @ [1607, 1584, 1575] @ js '' '' @
     [1575, 1604, 1605, 1589, 1585, 1608, 1601] @ js '' '' @ [1573, 1604, 1609] @ js '' '' @
     [1608, 1575, 1581, 1583] @ js '' '' @ [1601, 1602, 1591] @ js '' '' @ [1605, 1606] @ js '' '' @
     [1575, 1604, 1605, 1601, 1575, 1578, 1610, 1581] @ js '' '' @
     [1575, 1604, 1578, 1575, 1604, 1610, 1577] @ js '' '' @
     [1576, 1575, 1604, 1573, 1606, 1580, 1604, 1610, 1586, 1610, 1577] @
     js '': 'rent', 'salary', 'bills', 'maintenance', 'other'. '' @ [1571, 1593, 1583] @ js '' '' @
     [1575, 1604, 1603, 1604, 1605, 1577] @ js '' '' @ [1601, 1602, 1591] @ js ''.'') None)"

definition writeRestockEmail :: "ai_env \<Rightarrow> jstr \<Rightarrow> jstr \<Rightarrow> stored_usage \<times> jstr option \<times> jstr" where
  "writeRestockEmail e supplierName storeName = ask e COMPLEX
     ([1575, 1603, 1578, 1576] @ js '' '' @ [1605, 1587, 1608, 1583, 1577] @ js '' '' @
     [1576, 1585, 1610, 1583] @ js '' '' @ [1573, 1604, 1603, 1578, 1585, 1608, 1606,
       1610] @ js '' '' @
     [1585, 1587, 1605, 1610] @ js '' '' @ [1608, 1605, 1581, 1578, 1585, 1605] @ js '' '' @
     [1576, 1575, 1604, 1604, 1594, 1577] @ js '' '' @ [1575, 1604, 1593, 1585, 1576, 1610, 1577] @
     js '' '' @ [1605, 1606] @ js '' '' @ [1605, 1583, 1610, 1585] @ js '' '' @
     [1605, 1578, 1580, 1585] @ js '' \"'' @ storeName @ js ''\" '' @ [1573, 1604, 1609] @ js '' '' @
     [1575, 1604, 1605, 1608, 1585, 1583] @ js '' \"'' @ supplierName @ js ''\" '' @
     [1578, 1591, 1604, 1576] @ js '' '' @ [1601, 1610, 1607] @ js '' '' @
     [1602, 1575, 1574, 1605, 1577] @ js '' '' @ [1575, 1604, 1571, 1587, 1593, 1575,
       1585] @ js '' '' @
     [1575, 1604, 1605, 1581, 1583, 1579, 1577] @ js '' '' @ [1608, 1578, 1608, 1575, 1601, 1585] @
     js '' '' @ [1576, 1590, 1575, 1593, 1577] @ js '' '' @ [1580, 1583, 1610, 1583,
       1577] @ js ''.'') None"

definition forecastSales :: "ai_env \<Rightarrow> jsnum list \<Rightarrow> stored_usage \<times> jstr option \<times> jstr" where
  "forecastSales e dailyRevenues = ask e COMPLEX
     ([55357, 56522] @ js '' '' @ [1575, 1604, 1573, 1610, 1585, 1575, 1583, 1575,
       1578] @ js '' '' @
     [1575, 1604, 1610, 1608, 1605, 1610, 1577] @ js '' ('' @ [1570, 1582, 1585] @ js '' '' @
     [1571, 1587, 1576, 1608, 1593] @ js ''): ['' @ join (js '',
       '') (map num_to_string dailyRevenues) @
     js ''] '' @ [1583] @ js ''.'' @ [1593, 10, 10] @ js ''**'' @
     [1575, 1604, 1605, 1591, 1604, 1608, 1576] @ js '' - '' @ [1571, 1580, 1576] @ js '' '' @
     [1576, 1607, 1584, 1575] @ js '' '' @ [1575, 1604, 1578, 1606, 1587, 1610, 1602] @ js '':**'' @
     [10, 55357, 56520] @ js '' '' @ [1575, 1604, 1575, 1578, 1580, 1575, 1607] @ js '': ['' @
     [1578, 1589, 1575, 1593, 1583, 1610] @ js '' '' @ [8593] @ js '' / '' @
     [1578, 1606, 1575, 1586, 1604, 1610] @ js '' '' @ [8595] @ js '' / '' @
     [1605, 1587, 1578, 1602, 1585] @ js '' '' @ [8594] @ js '']'' @ [10, 55356, 57263] @ js '' '' @
     [1575, 1604, 1578, 1608, 1602, 1593] @ js '': ['' @ [1580, 1605, 1604, 1577] @ js '' '' @
     [1608, 1575, 1581, 1583, 1577] @ js '' '' @ [1604, 1604, 1571, 1587, 1576, 1608,
       1593] @ js '' '' @
     [1575, 1604, 1602, 1575, 1583, 1605] @ js '']'' @ [10, 55357, 56481] @ js '' '' @
     [1573, 1580, 1585, 1575, 1569] @ js '': ['' @ [1606, 1589, 1610, 1581, 1577] @ js '' '' @
     [1593, 1605, 1604, 1610, 1577] @ js '' '' @ [1608, 1575, 1581, 1583, 1577] @ js '']'')
     (Some [1571, 1606, 1578, 32, 1605, 1581, 1604, 1604, 32, 1576, 1610, 1575, 1606, 1575, 1578,
       46, 32, 1571, 1580, 1576, 32, 1576, 1573, 1610, 1580, 1575, 1586, 46])"

definition daily_change :: "jsnum \<Rightarrow> jsnum \<Rightarrow> jstr" where
  "daily_change todaySales yesterdaySales =
     (if Fin 0 < todaySales \<and> Fin 0 < yesterdaySales
      then to_fixed 1 ((todaySales - yesterdaySales) / yesterdaySales * Fin 100) else [48])"

definition generateDailySummary ::
  "ai_env \<Rightarrow> jsnum \<Rightarrow> jsnum \<Rightarrow> jsnum \<Rightarrow> jstr list \<Rightarrow> jsnum \<Rightarrow> stored_usage \<times> jstr option \<times> jstr" where
  "generateDailySummary e todaySales yesterdaySales ordersCount topProducts lowStockCount =
     (let change = daily_change todaySales yesterdaySales
      in ask e BASIC
     ([55357, 56522] @ js '' '' @ [1605, 1604, 1582, 1589] @ js '' '' @ [1610, 1608, 1605, 1610] @
     js '':'' @ [10, 8226] @ js '' '' @ [1575, 1604, 1605, 1576, 1610, 1593, 1575,
       1578] @ js '': '' @
     num_to_string todaySales @ js '' '' @ [1583] @ js ''.'' @ [1593] @ js '' ('' @ change @ js ''% '' @
     [1605, 1606] @ js '' '' @ [1571, 1605, 1587] @ js '')'' @ [10, 8226] @ js '' '' @
     [1575, 1604, 1591, 1604, 1576, 1575, 1578] @ js '': '' @ num_to_string ordersCount @ [10,
       8226] @
     js '' '' @ [1575, 1604, 1571, 1603, 1579, 1585] @ js '' '' @ [1605, 1576, 1610, 1593, 1575,
       1611] @
     js '': '' @ str_or (Some (join [1548, 32] (take 3 topProducts))) [45] @ [10, 8226] @ js '' '' @
     [1606, 1608, 1575, 1602, 1589] @ js '': '' @ num_to_string lowStockCount @ [10,
       10] @ js ''**'' @
     [1571, 1580, 1576] @ js '' '' @ [1576, 1600] @ js '' 3 '' @ [1606, 1602, 1575, 1591] @ js '' '' @
     [1601, 1602, 1591] @ js '':**'' @ [10] @ js ''1. '' @ [55357, 56520] @ js '' '' @
     [1578, 1602, 1610, 1610, 1605] @ js '' '' @ [1575, 1604, 1571, 1583, 1575, 1569] @ js '' ('' @
     [1580, 1605, 1604, 1577] @ js '' '' @ [1608, 1575, 1581, 1583, 1577] @ js '')'' @ [10] @
     js ''2. '' @ [9889] @ js '' '' @ [1606, 1602, 1591, 1577] @ js '' '' @ [1602, 1608, 1577] @
     js '' '' @ [1571, 1608] @ js '' '' @ [1590, 1593, 1601, 10] @ js ''3. '' @ [55357, 56481] @
     js '' '' @ [1573, 1580, 1585, 1575, 1569] @ js '' '' @ [1608, 1575, 1581, 1583] @ js '' '' @
     [1604, 1604, 1594, 1583]) None)"

definition getQuickInsight :: "ai_env \<Rightarrow> jsnum \<Rightarrow> jsnum \<Rightarrow> jsnum \<Rightarrow> stored_usage \<times> jstr option \<times> jstr" where
  "getQuickInsight e todayRevenue ordersCount lowStockItems = ask e BASIC
     ([55357, 56522] @ js '' '' @ [1575, 1604, 1610, 1608, 1605] @ js '': '' @
     num_to_string todayRevenue @ js '' '' @ [1583] @ js ''.'' @ [1593] @ js '' | '' @
     num_to_string ordersCount @ js '' '' @ [1591, 1604, 1576] @ js '' | '' @
     num_to_string lowStockItems @ js '' '' @ [1606, 1602, 1589, 10, 10] @ js ''**'' @
     [1571, 1593, 1591, 1606, 1610] @ js '' '' @ [1585, 1572, 1610, 1577] @ js '' '' @
     [1608, 1575, 1581, 1583, 1577] @ js '' '' @ [1601, 1610] @ js '' '' @ [1587, 1591, 1585] @
     js '' '' @ [1608, 1575, 1581, 1583] @ js '' '' @ [1601, 1602, 1591] @ js '':**'' @ [10] @ js ''['' @
     [1573, 1610, 1605, 1608, 1580, 1610] @ js ''] ['' @ [1575, 1604, 1585, 1572, 1610, 1577] @
     js ''] '' @ [8594] @ js '' ['' @ [1573, 1580, 1585, 1575, 1569] @ js '' '' @
     [1608, 1575, 1581, 1583] @ js '']'' @ [10, 10, 1605, 1579, 1575, 1604] @ js '': '' @
     [55357, 56520] @ js '' '' @ [1575, 1604, 1605, 1576, 1610, 1593, 1575, 1578] @ js '' '' @
     [1602, 1608, 1610, 1577] @ js '' '' @ [8594] @ js '' '' @ [1575, 1587, 1578, 1594, 1604] @
     js '' '' @ [1575, 1604, 1586, 1582, 1605] @ js '' '' @ [1576, 1593, 1585, 1590] @ js '' '' @
     [1580, 1583, 1610, 1583]) None"

section \<open>Requests of one day\<close>

record ai_state =
  as_stored :: stored_usage
  as_sent :: "jstr list"
  as_answered :: nat

record ai_call =
  aq_complexity :: complexity
  aq_prompt :: jstr
  aq_system :: "jstr option"
  aq_today :: jstr
  aq_today' :: jstr

definition ai_step :: "ai_backend \<Rightarrow> ai_state \<Rightarrow> ai_call \<Rightarrow> ai_state" where
  "ai_step backend s c =
     (case executeAIRequest backend (aq_today c) (aq_today' c) (as_stored s) (aq_complexity c) (aq_prompt c) (aq_system c) of
        (u, p, r) \<Rightarrow> \<lparr> as_stored = u, as_sent = as_sent s @ (case p of None \<Rightarrow> [] | Some x \<Rightarrow> [x]),
          as_answered = as_answered s + (if u = as_stored s then 0 else 1) \<rparr>)"

definition used :: "jstr \<Rightarrow> ai_state \<Rightarrow> nat" where
  "used day s = ai_count (getUsageData day (as_stored s))"

lemma used_increment: "ai_count (getUsageData day (incrementUsage day u)) = ai_count (getUsageData day u) + 1"
  by (simp add: incrementUsage_def getUsageData_def [of day "U_data _"] Let_def)

lemma increment_changes: "incrementUsage day u \<noteq> u"
  using used_increment [of day u] by auto

lemma ai_step_day:
  assumes "aq_today c = day" "aq_today' c = day"
  shows "used day (ai_step b s c) = used day s \<and> as_answered (ai_step b s c) = as_answered s
     \<or> used day s < DAILY_AI_LIMIT \<and> used day (ai_step b s c) = used day s + 1 \<and> as_answered (ai_step b s c) = as_answered s + 1"
  using assms increment_changes [of day "as_stored s"] used_increment [of day "as_stored s"]
  by (auto simp: ai_step_def executeAIRequest_def isAILimitReached_def used_def Let_def split: sum.splits)

interpretation ai_machine: monotone_machine "ai_step b" "\<lambda>s. used day s \<le> DAILY_AI_LIMIT"
  "\<lambda>c :: ai_call. aq_today c = day \<and> aq_today' c = day" "used day" for b day
proof
  fix s and c :: ai_call
  assume inv: "used day s \<le> DAILY_AI_LIMIT" and acc: "aq_today c = day \<and> aq_today' c = day"
  from acc have c: "aq_today c = day" "aq_today' c = day" by auto
  show "used day (ai_step b s c) \<le> DAILY_AI_LIMIT" using ai_step_day [OF c, of b s] inv by auto
  show "used day s \<le> used day (ai_step b s c)" using ai_step_day [OF c, of b s] by auto
qed

lemma answered_used:
  "\<forall>c\<in>set cs. aq_today c = day \<and> aq_today' c = day
   \<Longrightarrow> as_answered (run (ai_step b) s cs) + used day s = as_answered s + used day (run (ai_step b) s cs)"
proof (induction cs arbitrary: s)
  case (Cons c cs)
  then have "aq_today c = day" "aq_today' c = day" by auto
  from ai_step_day [OF this, of b s] Cons.IH [of "ai_step b s c"] Cons.prems show ?case by auto
qed simp

text \<open>The daily quota holds: the requests of one day, in any number and with any answers and failures of
  the backend, have at most twenty answers together with those counted before; failures are not
  counted, and the count never goes down during the day.\<close>

lemma daily_quota:
  assumes "\<forall>c\<in>set cs. aq_today c = day \<and> aq_today' c = day" and "used day s \<le> 20"
  shows "as_answered (run (ai_step b) s cs) - as_answered s \<le> 20 - used day s
     \<and> used day s \<le> used day (run (ai_step b) s cs) \<and> used day (run (ai_step b) s cs) \<le> 20"
  using ai_machine.run_inv [of day s cs b] ai_machine.run_lvl [of day s cs b] answered_used [OF assms(1), of b s] assms
  by (simp add: DAILY_AI_LIMIT_def)

lemma daily_quota_witness:
  "as_answered (run (ai_step (\<lambda>cx p. Inr p)) \<lparr> as_stored = U_none, as_sent = [], as_answered = 0 \<rparr>
     (replicate 50 \<lparr> aq_complexity = BASIC, aq_prompt = js ''hi'', aq_system = None, aq_today = js ''d'', aq_today' = js ''d'' \<rparr>)) - 0 \<le> 20"
  using daily_quota [of "replicate 50 \<lparr> aq_complexity = BASIC, aq_prompt = js ''hi'', aq_system = None, aq_today = js ''d'', aq_today' = js ''d'' \<rparr>"
    "js ''d''" "\<lparr> as_stored = U_none, as_sent = [], as_answered = 0 \<rparr>" "\<lambda>cx p. Inr p"]
  by (simp add: used_def getUsageData_def)

text \<open>C0. An exhausted quota is suggested as a price: once the limit of the day is reached, the suggested
  price of any product is the text \<open>20\<close>, the digits of the message about the limit, and an expense is
  put into the category \<open>other\<close>; no request is sent.\<close>

theorem exhausted_quota_as_price:
  assumes "isAILimitReached (av_today e) (av_stored e)"
  shows "suggestProductPrice e name cost = (av_stored e, None, js ''20'')"
proof -
  have "filter is_digit limit_message = js ''20''"
    by (simp add: limit_message_def is_digit_def DAILY_AI_LIMIT_def show_nat.simps [of 20] show_nat.simps [of 2])
  then show ?thesis using assms by (simp add: suggestProductPrice_def ask_def executeAIRequest_def map_text_def)
qed

lemma exhausted_quota_as_price_witness:
  "suggestProductPrice \<lparr> av_backend = (\<lambda>cx p. Inr []), av_today = js ''d'', av_today' = js ''d'',
     av_stored = U_data \<lparr> ai_date = js ''d'', ai_count = 20 \<rparr> \<rparr> (js ''Tea'') (Fin 1000)
   = (U_data \<lparr> ai_date = js ''d'', ai_count = 20 \<rparr>, None, js ''20'')"
  by (subst exhausted_quota_as_price) (simp_all add: isAILimitReached_def getUsageData_def DAILY_AI_LIMIT_def)

text \<open>The category of an expense is always one of the five.\<close>

lemma categorizeExpense_total: "snd (snd (categorizeExpense lower e title)) \<in> set expense_names"
  by (auto simp: categorizeExpense_def map_text_def Let_def expense_names_def split: prod.splits)

end
