(* ===== verification/Json_Text.thy ===== *)
theory Json_Text
  imports Js_Text
begin

text \<open>
  \<open>JSON.parse\<close> and \<open>JSON.stringify\<close> on the values of the model. Parsing is by recursive descent with
  fuel: each level of nesting and each element uses one unit, so the length of the text is enough.
\<close>

section \<open>Parsing\<close>

definition json_space :: "nat \<Rightarrow> bool" where
  "json_space c = (c = 32 \<or> c = 9 \<or> c = 10 \<or> c = 13)"

definition skip :: "jstr \<Rightarrow> jstr" where
  "skip s = dropWhile json_space s"

definition hex4 :: "jstr \<Rightarrow> nat option" where
  "hex4 s = (if length s = 4 \<and> list_all (\<lambda>c. radix_digit c \<noteq> None) s
     then Some (foldl (\<lambda>n c. 16 * n + the (radix_digit c)) 0 s) else None)"

definition simple_escape :: "nat \<Rightarrow> nat option" where
  "simple_escape c = map_of [(34, 34), (92, 92), (47, 47), (98, 8), (102, 12), (110, 10), (114, 13), (116, 9)] c"

text \<open>What follows the opening quote: the contents, and the rest after the closing quote.\<close>

function json_chars :: "jstr \<Rightarrow> (jstr \<times> jstr) option" where
  "json_chars s =
     (case s of
        [] \<Rightarrow> None
      | c # t \<Rightarrow>
          if c = 34 then Some ([], t)
          else if c < 32 then None
          else if c \<noteq> 92 then map_option (\<lambda>(u, r). (c # u, r)) (json_chars t)
          else (case t of
             [] \<Rightarrow> None
           | e # t' \<Rightarrow>
               if e = 117 then (case hex4 (take 4 t') of
                   None \<Rightarrow> None
                 | Some n \<Rightarrow> map_option (\<lambda>(u, r). (n # u, r)) (json_chars (drop 4 t')))
               else (case simple_escape e of
                   None \<Rightarrow> None
                 | Some n \<Rightarrow> map_option (\<lambda>(u, r). (n # u, r)) (json_chars t'))))"
  by pat_completeness auto

termination by (relation "measure length") auto

declare json_chars.simps [simp del]

text \<open>An unsigned number: no leading zeros, digits on both sides of a point.\<close>

definition json_unsigned :: "jstr \<Rightarrow> (rat \<times> jstr) option" where
  "json_unsigned s =
     (let w = (if prefix [48] s then [48] else digits_of s); r = drop (length w) s;
          has_frac = prefix [46] r; f = (if has_frac then digits_of (tl r) else []);
          r' = (if has_frac then after_digits (tl r) else r);
          (e, r'') = read_exponent r'
      in if w = [] \<or> has_frac \<and> f = [] \<or> (r'' \<noteq> [] \<and> (hd r'' = 101 \<or> hd r'' = 69)) then None
         else Some (decimal_value w f * 10 powi e, r''))"

definition json_number :: "jstr \<Rightarrow> (json \<times> jstr) option" where
  "json_number s =
     (let neg = prefix [45] s
      in map_option (\<lambda>(x, r). (JNum (rnd (if neg then - x else x)), r)) (json_unsigned (if neg then tl s else s)))"

definition json_word :: "jstr \<Rightarrow> json \<Rightarrow> jstr \<Rightarrow> (json \<times> jstr) option" where
  "json_word w v s = (if prefix w s then Some (v, drop (length w) s) else None)"

fun json_value :: "nat \<Rightarrow> jstr \<Rightarrow> (json \<times> jstr) option"
  and json_elements :: "nat \<Rightarrow> jstr \<Rightarrow> (json list \<times> jstr) option"
  and json_members :: "nat \<Rightarrow> jstr \<Rightarrow> ((jstr \<times> json) list \<times> jstr) option" where
  "json_value 0 s = None"
| "json_value (Suc n) s =
     (let t = skip s
      in if t = [] then None
         else if hd t = 34 then map_option (\<lambda>(u, r). (JStr u, r)) (json_chars (tl t))
         else if hd t = 91 then
           (let u = skip (tl t)
            in if prefix [93] u then Some (JArr [], tl u)
               else map_option (\<lambda>(xs, r). (JArr xs, r)) (json_elements n u))
         else if hd t = 123 then
           (let u = skip (tl t)
            in if prefix [125] u then Some (JObj [], tl u)
               else map_option (\<lambda>(ps, r). (JObj (foldl (\<lambda>o' (k, v). obj_put k v o') [] ps), r)) (json_members n u))
         else if hd t = 116 then json_word (js ''true'') (JBool True) t
         else if hd t = 102 then json_word (js ''false'') (JBool False) t
         else if hd t = 110 then json_word (js ''null'') JNull t
         else json_number t)"
| "json_elements 0 s = None"
| "json_elements (Suc n) s =
     (case json_value n s of
        None \<Rightarrow> None
      | Some (v, r) \<Rightarrow>
          (let t = skip r
           in if prefix [93] t then Some ([v], tl t)
              else if prefix [44] t then map_option (\<lambda>(vs, r). (v # vs, r)) (json_elements n (tl t))
              else None))"
| "json_members 0 s = None"
| "json_members (Suc n) s =
     (let t = skip s
      in if \<not> prefix [34] t then None
         else (case json_chars (tl t) of
           None \<Rightarrow> None
         | Some (k, r) \<Rightarrow>
             (let t' = skip r
              in if \<not> prefix [58] t' then None
                 else (case json_value n (tl t') of
                    None \<Rightarrow> None
                  | Some (v, r') \<Rightarrow>
                      (let u = skip r'
                       in if prefix [125] u then Some ([(k, v)], tl u)
                          else if prefix [44] u then map_option (\<lambda>(ps, r). ((k, v) # ps, r)) (json_members n (tl u))
                          else None)))))"

text \<open>\<open>JSON.parse\<close>; it throws (\<open>None\<close>) when something follows the value.\<close>

definition json_parse :: "jstr \<Rightarrow> json option" where
  "json_parse s = (case json_value (2 * length s + 2) s of
     Some (v, r) \<Rightarrow> if skip r = [] then Some v else None
   | None \<Rightarrow> None)"

section \<open>Writing\<close>

definition hex_digit :: "nat \<Rightarrow> nat" where
  "hex_digit d = (if d < 10 then 48 + d else 87 + d)"

definition unicode_escape :: "nat \<Rightarrow> jstr" where
  "unicode_escape c = [92, 117, hex_digit (c div 4096 mod 16), hex_digit (c div 256 mod 16),
     hex_digit (c div 16 mod 16), hex_digit (c mod 16)]"

definition escape_unit :: "nat \<Rightarrow> jstr" where
  "escape_unit c = (if c = 34 then [92, 34] else if c = 92 then [92, 92] else if c = 8 then [92, 98]
     else if c = 12 then [92, 102] else if c = 10 then [92, 110] else if c = 13 then [92, 114]
     else if c = 9 then [92, 116] else if c < 32 then unicode_escape c else [c])"

definition json_quote :: "jstr \<Rightarrow> jstr" where
  "json_quote s = 34 # concat (map escape_unit s) @ [34]"

text \<open>\<open>JSON.stringify\<close>; \<open>undefined\<close> is left out of objects and is \<open>null\<close> in arrays.\<close>

fun json_text :: "json \<Rightarrow> jstr" where
  "json_text JUndef = js ''null''"
| "json_text JNull = js ''null''"
| "json_text (JBool b) = (if b then js ''true'' else js ''false'')"
| "json_text (JNum n) = (if is_fin n then num_to_string n else js ''null'')"
| "json_text (JStr s) = json_quote s"
| "json_text (JArr xs) = 91 # join [44] (map json_text xs) @ [93]"
| "json_text (JObj ps) = 123 # join [44]
     (map (\<lambda>p. json_quote (fst p) @ 58 # json_text (snd p)) (filter (\<lambda>p. snd p \<noteq> JUndef) ps)) @ [125]"

end
