(* ===== verification/StaffErrors.thy ===== *)
theory StaffErrors
  imports Json_Text Export
begin

text \<open>
  The errors of the staff backend, \<open>utils/parseStaffError.ts\<close>: a thrown value of any shape becomes a
  code, a message, a hint and a field. Go errors arrive as JSON texts, as \<open>Error\<close> objects whose message
  is such a text, or as plain objects.
\<close>

text \<open>A thrown value: a JSON value, or an \<open>Error\<close> with its message.\<close>

datatype thrown = Thrown_value json | Thrown_error jstr

text \<open>The fields are whatever the parsed value holds; a fresh error holds strings.\<close>

record staff_error =
  se_code :: json
  se_message :: json
  se_hint :: json
  se_field :: json

definition generic_hint :: jstr where
  "generic_hint =
     [1581, 1575, 1608, 1604] @ js '' '' @ [1605, 1585, 1577] @ js '' '' @ [1571, 1582, 1585, 1609] @
     js '' '' @ [1571, 1608] @ js '' '' @ [1578, 1608, 1575, 1589, 1604] @ js '' '' @ [1605, 1593] @
     js '' '' @ [1575, 1604, 1583, 1593, 1605] @ js '' '' @ [1575, 1604, 1601, 1606, 1610]"

definition unexpected :: jstr where
  "unexpected = [1581, 1583, 1579, 32, 1582, 1591, 1571, 32, 1594, 1610, 1585, 32, 1605, 1578,
    1608, 1602, 1593]"

definition unknown_code :: jstr where
  "unknown_code = js ''UNKNOWN_ERROR''"

definition hint_table :: "(jstr \<times> jstr) list" where
  "hint_table =
     [(js ''DUPLICATE_USERNAME'',
        [1580, 1585, 1576] @ js '' '' @ [1575, 1587, 1605] @ js '' '' @
        [1605, 1587, 1578, 1582, 1583, 1605] @ js '' '' @ [1570, 1582, 1585] @ js '' '' @
        [1571, 1608] @ js '' '' @ [1571, 1590, 1601] @ js '' '' @
        [1571, 1585, 1602, 1575, 1605, 1575, 1611] @ js '' '' @ [1601, 1610] @ js '' '' @
        [1575, 1604, 1606, 1607, 1575, 1610, 1577]),
      (js ''WEAK_PASSWORD'',
        [1575, 1587, 1578, 1582, 1583, 1605] @ js '' '' @ [1603, 1604, 1605, 1577] @ js '' '' @
        [1605, 1585, 1608, 1585] @ js '' '' @ [1571, 1602, 1608, 1609] @ js '' (4 '' @
        [1571, 1581, 1585, 1601] @ js '' '' @ [1593, 1604, 1609] @ js '' '' @
        [1575, 1604, 1571, 1602, 1604] @ js '')''),
      (js ''INVALID_EMAIL'',
        [1578, 1571, 1603, 1583] @ js '' '' @ [1605, 1606] @ js '' '' @ [1589, 1581, 1577] @
        js '' '' @ [1575, 1604, 1576, 1585, 1610, 1583] @ js '' '' @
        [1575, 1604, 1573, 1604, 1603, 1578, 1585, 1608, 1606, 1610] @ js '' ('' @
        [1605, 1579, 1575, 1604] @ js '': user@example.com)''),
      (js ''STAFF_INVALID_PHONE'',
        [1610, 1580, 1576] @ js '' '' @ [1571, 1606] @ js '' '' @ [1610, 1576, 1583, 1571] @
        js '' '' @ [1576, 1600] @ js '' 07 '' @ [1608, 1610, 1578, 1603, 1608, 1606] @ js '' '' @
        [1605, 1606] @ js '' 11 '' @ [1585, 1602, 1605, 1575, 1611]),
      (js ''STAFF_NOT_FOUND'',
        [1575, 1604, 1605, 1608, 1592, 1601] @ js '' '' @ [1594, 1610, 1585] @ js '' '' @
        [1605, 1608, 1580, 1608, 1583, 1548] @ js '' '' @ [1581, 1575, 1608, 1604] @ js '' '' @
        [1578, 1581, 1583, 1610, 1579] @ js '' '' @ [1575, 1604, 1602, 1575, 1574, 1605, 1577]),
      (js ''LAST_ADMIN'',
        [1571, 1590, 1601] @ js '' '' @ [1605, 1583, 1610, 1585, 1575, 1611] @ js '' '' @
        [1570, 1582, 1585] @ js '' '' @ [1571, 1608, 1604, 1575, 1611] @ js '' '' @
        [1602, 1576, 1604] @ js '' '' @ [1578, 1593, 1583, 1610, 1604] @ js '' '' @
        [1607, 1584, 1575] @ js '' '' @ [1575, 1604, 1605, 1583, 1610, 1585]),
      (js ''STAFF_HAS_SALES'',
        [1575, 1604, 1605, 1608, 1592, 1601] @ js '' '' @ [1604, 1583, 1610, 1607] @ js '' '' @
        [1587, 1580, 1604] @ js '' '' @ [1605, 1576, 1610, 1593, 1575, 1578] @ js ''. '' @
        [1610, 1615, 1606, 1589, 1581] @ js '' '' @ [1576, 1578, 1593, 1591, 1610, 1604, 1607] @
        js '' '' @ [1576, 1583, 1604, 1575, 1611] @ js '' '' @ [1605, 1606] @ js '' '' @
        [1581, 1584, 1601, 1607]),
      (js ''WEAK_PIN'',
        [1578, 1580, 1606, 1576] @ js '' '' @ [1575, 1604, 1571, 1585, 1602, 1575, 1605] @
        js '' '' @ [1575, 1604, 1587, 1607, 1604, 1577] @ js '' '' @ [1605, 1579, 1604] @
        js '' 0000 '' @ [1571, 1608] @ js '' 1234''),
      (js ''PIN_TOO_SHORT'',
        [1585, 1605, 1586] @ js '' PIN '' @ [1610, 1580, 1576] @ js '' '' @ [1571, 1606] @
        js '' '' @ [1610, 1603, 1608, 1606] @ js '' 4 '' @ [1571, 1585, 1602, 1575, 1605]),
      (js ''PIN_NOT_NUMERIC'',
        [1585, 1605, 1586] @ js '' PIN '' @ [1610, 1580, 1576] @ js '' '' @ [1571, 1606] @
        js '' '' @ [1610, 1581, 1578, 1608, 1610] @ js '' '' @ [1593, 1604, 1609] @ js '' '' @
        [1571, 1585, 1602, 1575, 1605] @ js '' '' @ [1601, 1602, 1591]),
      (js ''STAFF_INVALID_NAME'',
        [1575, 1604, 1575, 1587, 1605] @ js '' '' @ [1610, 1580, 1576] @ js '' '' @ [1571, 1606] @
        js '' '' @ [1610, 1603, 1608, 1606] @ js '' '' @ [1581, 1585, 1601, 1610, 1606] @ js '' '' @
        [1593, 1604, 1609] @ js '' '' @ [1575, 1604, 1571, 1602, 1604]),
      (js ''INVALID_USERNAME'',
        [1575, 1587, 1605] @ js '' '' @ [1575, 1604, 1605, 1587, 1578, 1582, 1583, 1605] @
        js '' '' @ [1610, 1580, 1576] @ js '' '' @ [1571, 1606] @ js '' '' @
        [1610, 1603, 1608, 1606] @ js '' 3-20 '' @ [1581, 1585, 1601, 1575, 1611]),
      (js ''PASSWORD_REQUIRED'',
        [1603, 1604, 1605, 1577] @ js '' '' @ [1575, 1604, 1605, 1585, 1608, 1585] @ js '' '' @
        [1605, 1591, 1604, 1608, 1576, 1577] @ js '' '' @ [1604, 1604, 1605, 1608, 1592, 1601] @
        js '' '' @ [1575, 1604, 1580, 1583, 1610, 1583]),
      (js ''MISSING_STAFF_ID'',
        [1581, 1583, 1579] @ js '' '' @ [1582, 1591, 1571] @ js '' '' @
        [1578, 1602, 1606, 1610, 1548] @ js '' '' @ [1581, 1575, 1608, 1604] @ js '' '' @
        [1578, 1581, 1583, 1610, 1579] @ js '' '' @ [1575, 1604, 1589, 1601, 1581, 1577]),
      (js ''DATABASE_ERROR'',
        [1581, 1583, 1579] @ js '' '' @ [1582, 1591, 1571] @ js '' '' @ [1601, 1610] @ js '' '' @
        [1602, 1575, 1593, 1583, 1577] @ js '' '' @
        [1575, 1604, 1576, 1610, 1575, 1606, 1575, 1578, 1548] @ js '' '' @
        [1581, 1575, 1608, 1604] @ js '' '' @ [1605, 1585, 1577] @ js '' '' @
        [1571, 1582, 1585, 1609])]"

definition getDefaultHint :: "jstr \<Rightarrow> jstr" where
  "getDefaultHint code = (case map_of hint_table code of None \<Rightarrow> generic_hint | Some h \<Rightarrow> h)"

definition field_table :: "(jstr \<times> jstr) list" where
  "field_table =
     [(js ''DUPLICATE_USERNAME'', js ''username''),
      (js ''INVALID_USERNAME'', js ''username''),
      (js ''WEAK_PASSWORD'', js ''password''),
      (js ''PASSWORD_REQUIRED'', js ''password''),
      (js ''INVALID_EMAIL'', js ''email''),
      (js ''STAFF_INVALID_PHONE'', js ''phone''),
      (js ''STAFF_INVALID_NAME'', js ''name''),
      (js ''WEAK_PIN'', js ''pin''),
      (js ''PIN_TOO_SHORT'', js ''pin''),
      (js ''PIN_NOT_NUMERIC'', js ''pin'')]"

definition getErrorField :: "jstr \<Rightarrow> jstr option" where
  "getErrorField code = map_of field_table code"

definition defaultError :: staff_error where
  "defaultError = \<lparr> se_code = JStr unknown_code, se_message = JStr unexpected, se_hint = JStr generic_hint, se_field = JUndef \<rparr>"

definition message_error :: "jstr \<Rightarrow> staff_error" where
  "message_error msg = \<lparr> se_code = JStr unknown_code, se_message = JStr msg,
     se_hint = JStr (getDefaultHint unknown_code), se_field = JUndef \<rparr>"

text \<open>A property of a value; on \<open>null\<close> and \<open>undefined\<close> it throws (\<open>None\<close>).\<close>

definition json_prop :: "json \<Rightarrow> jstr \<Rightarrow> json option" where
  "json_prop v k = (case v of JUndef \<Rightarrow> None | JNull \<Rightarrow> None | JObj ps \<Rightarrow> Some (obj_get ps k) | _ \<Rightarrow> Some JUndef)"

datatype parsed = Not_json | Incomplete | Structured staff_error

text \<open>The attempt to read a text as a structured error: the parse throws, or the property access on
  \<open>null\<close> does, or code or message is missing, or there is an error. A lookup of a code that is not a
  string finds no hint.\<close>

definition structured :: "jstr \<Rightarrow> parsed" where
  "structured raw =
     (case json_parse raw of
        None \<Rightarrow> Not_json
      | Some v \<Rightarrow>
          (case (json_prop v (js ''code''), json_prop v (js ''message''), json_prop v (js ''hint''), json_prop v (js ''field'')) of
             (Some c, Some m, Some h, Some f) \<Rightarrow>
               if json_truthy c \<and> json_truthy m
               then Structured \<lparr> se_code = c, se_message = m,
                      se_hint = (if json_truthy h then h else JStr (getDefaultHint (js_string c))), se_field = f \<rparr>
               else Incomplete
           | _ \<Rightarrow> Not_json))"

text \<open>A plain object.\<close>

definition object_error :: "(jstr \<times> json) list \<Rightarrow> staff_error" where
  "object_error ps =
     (let c = obj_get ps (js ''code''); m = obj_get ps (js ''message'');
          h = obj_get ps (js ''hint''); f = obj_get ps (js ''field'')
      in if json_truthy c \<and> json_truthy m
         then \<lparr> se_code = JStr (js_string c), se_message = JStr (js_string m),
                se_hint = JStr (if json_truthy h then js_string h else getDefaultHint (js_string c)),
                se_field = (if json_truthy f then JStr (js_string f) else JUndef) \<rparr>
         else if json_truthy m then message_error (js_string m)
         else defaultError)"

definition parseStaffError :: "thrown \<Rightarrow> staff_error" where
  "parseStaffError error =
     (case error of
        Thrown_error msg \<Rightarrow> (case structured msg of Structured e \<Rightarrow> e | _ \<Rightarrow> message_error msg)
      | Thrown_value v \<Rightarrow>
          if \<not> json_truthy v then defaultError
          else (case v of
             JStr s \<Rightarrow> (case structured s of
                 Structured e \<Rightarrow> e
               | Not_json \<Rightarrow> message_error s
               | Incomplete \<Rightarrow> defaultError)
           | JObj ps \<Rightarrow> object_error ps
           | _ \<Rightarrow> defaultError))"

section \<open>What the screen gets\<close>

lemma json_truthy_JStr: "json_truthy (JStr s) \<longleftrightarrow> s \<noteq> []"
  by simp

lemma hints_nonempty: "getDefaultHint c \<noteq> []"
proof -
  have "\<forall>h\<in>snd ` set hint_table. h \<noteq> []" by (simp add: hint_table_def)
  then have "map_of hint_table c = Some h \<Longrightarrow> h \<noteq> []" for h
    using map_of_SomeD [of hint_table c h] by force
  then show ?thesis by (auto simp: getDefaultHint_def generic_hint_def split: option.splits)
qed

lemma structured_complete: "structured s = Structured e \<Longrightarrow> json_truthy (se_code e) \<and> json_truthy (se_message e) \<and> json_truthy (se_hint e)"
  using hints_nonempty by (auto simp: structured_def split: option.splits if_splits)

lemma default_complete: "json_truthy (se_code defaultError) \<and> json_truthy (se_message defaultError) \<and> json_truthy (se_hint defaultError)"
  by (simp add: defaultError_def unknown_code_def unexpected_def generic_hint_def)

text \<open>A value whose text is empty although it counts as true: an array that prints as nothing.\<close>

definition prints :: "json \<Rightarrow> bool" where
  "prints v = (json_truthy v \<longrightarrow> js_string v \<noteq> [])"

text \<open>Every thrown value gives the screen something to show: the result always has a code, a message and
  a hint that are not empty, for strings (JSON or not), \<open>Error\<close> objects with a message, plain objects
  whose texts print, and everything else.\<close>

lemma staff_error_complete:
  assumes "\<And>msg. error = Thrown_error msg \<Longrightarrow> msg \<noteq> []"
    and "\<And>ps k. error = Thrown_value (JObj ps) \<Longrightarrow> prints (obj_get ps k)"
  shows "json_truthy (se_code (parseStaffError error)) \<and> json_truthy (se_message (parseStaffError error))
     \<and> json_truthy (se_hint (parseStaffError error))"
proof (cases error)
  case (Thrown_error msg)
  then show ?thesis
    using assms(1) hints_nonempty structured_complete [of msg]
    by (auto simp: parseStaffError_def message_error_def unknown_code_def split: parsed.splits)
next
  case (Thrown_value v)
  show ?thesis
  proof (cases v)
    case (JStr s)
    then show ?thesis
      using Thrown_value hints_nonempty structured_complete [of s] default_complete
      by (auto simp: parseStaffError_def message_error_def unknown_code_def split: parsed.splits)
  next
    case (JObj ps)
    then have "prints (obj_get ps k)" for k using Thrown_value assms(2) by blast
    then show ?thesis
      using Thrown_value JObj hints_nonempty default_complete
      by (auto simp: parseStaffError_def object_error_def message_error_def unknown_code_def prints_def Let_def)
  qed (use Thrown_value default_complete in \<open>auto simp: parseStaffError_def\<close>)
qed

lemma staff_error_complete_witness:
  "json_truthy (se_hint (parseStaffError (Thrown_error (js ''boom''))))"
  using staff_error_complete [of "Thrown_error (js ''boom'')"] by simp

text \<open>A JSON text without a code or a message is swallowed: the user sees the unexpected error instead of
  the text, unlike the same text inside an \<open>Error\<close>.\<close>

lemma incomplete_json_swallowed:
  "structured s = Incomplete \<Longrightarrow> s \<noteq> [] \<Longrightarrow>
   parseStaffError (Thrown_value (JStr s)) = defaultError \<and> parseStaffError (Thrown_error s) = message_error s"
  by (simp add: parseStaffError_def)

lemma error_number_incomplete: "structured (js ''42'') = Incomplete"
  by code_simp

end
