(* ===== verification/Catalog.thy ===== *)
theory Catalog
  imports Money Export
begin

text \<open>
  The product catalogue on the client: the list call of \<open>core/api/products.ts\<close>, which filters, sums and
  cuts pages out of all products of the backend, and the hooks that read it: \<open>useProducts\<close> for the
  point of sale and \<open>useInventory\<close>. \<open>lower\<close> is \<open>toLowerCase\<close>.
\<close>

definition all_ar :: jstr where
  "all_ar = [1575, 1604, 1603, 1604]"

section \<open>The list call\<close>

record paginated_products =
  pg_data :: "product list"
  pg_total :: int
  pg_totalPages :: jsnum
  pg_page :: int
  pg_stats :: product_stats

definition search_hit :: "(jstr \<Rightarrow> jstr) \<Rightarrow> jstr \<Rightarrow> product \<Rightarrow> bool" where
  "search_hit lower q p = (str_includes (lower (p_name p)) q \<or> str_includes (p_barcode p) q)"

definition by_search :: "(jstr \<Rightarrow> jstr) \<Rightarrow> jstr \<Rightarrow> product list \<Rightarrow> product list" where
  "by_search lower search ps = (if search = [] then ps else filter (search_hit lower (lower search)) ps)"

definition by_category :: "jstr \<Rightarrow> product list \<Rightarrow> product list" where
  "by_category category ps =
     (if category \<noteq> [] \<and> category \<noteq> all_ar \<and> category \<noteq> js ''all''
      then filter (\<lambda>p. p_category p = category) ps else ps)"

definition by_supplier :: "jstr \<Rightarrow> product list \<Rightarrow> product list" where
  "by_supplier supplier ps = (if supplier = [] then ps else filter (\<lambda>p. p_supplier p = Some supplier) ps)"

definition low_stock :: "product \<Rightarrow> bool" where
  "low_stock p = (p_stock p \<le> p_minStock p \<and> Fin 0 < p_stock p)"

definition out_of_stock :: "product \<Rightarrow> bool" where
  "out_of_stock p = (p_stock p \<le> Fin 0)"

definition by_status :: "jstr \<Rightarrow> product list \<Rightarrow> product list" where
  "by_status status ps =
     (if status = js ''low'' then filter low_stock ps
      else if status = js ''out'' then filter out_of_stock ps else ps)"

definition filtered_products ::
  "(jstr \<Rightarrow> jstr) \<Rightarrow> jstr \<Rightarrow> jstr \<Rightarrow> jstr \<Rightarrow> jstr \<Rightarrow> product list \<Rightarrow> product list" where
  "filtered_products lower search category supplier status ps =
     by_status status (by_supplier supplier (by_category category (by_search lower search ps)))"

definition stats_of :: "product list \<Rightarrow> product_stats" where
  "stats_of ps =
     (let totalStock = js_sum (Fin 0) (map p_stock ps);
          totalValue = js_sum (Fin 0) (map (\<lambda>p. p_price p * p_stock p) ps);
          totalCost = js_sum (Fin 0) (map (\<lambda>p. p_cost p * p_stock p) ps)
      in \<lparr> t_totalStock = totalStock, t_totalValue = totalValue, t_totalCost = totalCost,
           t_profit = totalValue - totalCost \<rparr>)"

definition list_products ::
  "(jstr \<Rightarrow> jstr) \<Rightarrow> product list \<Rightarrow> int \<Rightarrow> int \<Rightarrow> jstr \<Rightarrow> jstr \<Rightarrow> jstr \<Rightarrow> jstr \<Rightarrow> paginated_products" where
  "list_products lower allProducts page pageSize search category supplier status =
     (let filtered = filtered_products lower search category supplier status allProducts;
          total = int (length filtered);
          start = (if 0 < page then (page - 1) * pageSize else 0)
      in \<lparr> pg_data = (if 0 < pageSize then window (nat start) (nat pageSize) filtered else filtered),
           pg_total = total,
           pg_totalPages = (if 0 < pageSize then js_ceil (jint total / jint pageSize) else Fin 1),
           pg_page = page,
           pg_stats = stats_of filtered \<rparr>)"

section \<open>Pages\<close>

lemma ceil_rnd_div:
  assumes n: "0 \<le> n" "n \<le> 2 ^ 30" and k: "0 < k" "k \<le> 2 ^ 20"
  shows "js_ceil (jint n / jint k) = jint ((n + k - 1) div k)"
proof -
  let ?q = "(n + k - 1) div k" and ?x = "rat_of_int n / rat_of_int k"
  have kq: "0 < rat_of_int k" "rat_of_int k \<le> 2 ^ 20" using k by (simp, metis of_int_le_iff of_int_numeral of_int_power)
  have nq: "0 \<le> rat_of_int n" "rat_of_int n \<le> 2 ^ 30" using n by (simp, metis of_int_le_iff of_int_numeral of_int_power)
  have e: "k * ?q + (n + k - 1) mod k = n + k - 1" by simp
  have m: "0 \<le> (n + k - 1) mod k" "(n + k - 1) mod k < k" using k by simp_all
  have qk: "n \<le> k * ?q" "k * ?q \<le> n + k - 1" using e m by linarith+
  then have "rat_of_int n \<le> of_int (k * ?q)" "of_int (k * ?q) \<le> rat_of_int (n + k - 1)" by (simp_all only: of_int_le_iff)
  then have up: "?x \<le> of_int ?q" and l: "rat_of_int k * of_int ?q - of_int k + 1 \<le> of_int n"
    using kq by (simp_all add: field_simps)
  have "(rat_of_int k * of_int ?q - of_int k + 1) / of_int k \<le> ?x"
    using l kq by (intro divide_right_mono) auto
  moreover have "(a * b - a + 1) / a = b - 1 + 1 / a" if "0 < a" for a b :: rat
    using that by (simp add: field_simps)
  ultimately have lo: "of_int ?q - 1 + 1 / of_int k \<le> ?x" using kq(1) by metis
  have x0: "0 \<le> ?x" using nq kq by simp
  have "1 \<le> rat_of_int k" using k by simp
  then have "?x \<le> of_int n / 1" using nq by (intro divide_left_mono) auto
  then have xn: "?x \<le> of_int n" by simp
  have "\<bar>?x\<bar> \<le> 2 ^ 60" using x0 xn nq by simp
  then obtain y where y: "rnd ?x = Fin y" and ye: "\<bar>y - ?x\<bar> \<le> \<bar>?x\<bar> / 2 ^ 53 + 1 / 2 ^ 60" by (rule rnd_near)
  have q0: "0 \<le> ?q" using n k by (intro pos_imp_zdiv_nonneg_iff [THEN iffD2]) auto
  have "?q \<le> n" 
  proof (rule ccontr)
    assume "\<not> ?q \<le> n"
    then have "k * (n + 1) \<le> k * ?q" using k by (intro mult_left_mono) auto
    then have "k * n + k \<le> n + k - 1" using qk by (simp add: distrib_left)
    moreover have "1 * n \<le> k * n" using k n by (intro mult_right_mono) auto
    ultimately show False by simp
  qed
  then have "rnd (of_int ?q) = jint ?q" using q0 n by (intro rnd_int) simp
  then have yq: "y \<le> of_int ?q" using rnd_mono [OF up] y by simp
  have "\<bar>?x\<bar> \<le> 2 ^ 30" using x0 xn nq by simp
  then have "\<bar>y - ?x\<bar> \<le> 1 / 2 ^ 22" using ye by simp
  then have "?x - 1 / 2 ^ 22 \<le> y" by linarith
  moreover have "1 / 2 ^ 20 \<le> 1 / rat_of_int k" using kq by (intro divide_left_mono) auto
  moreover have "(1 :: rat) / 2 ^ 22 < 1 / 2 ^ 20" by simp
  ultimately have "of_int ?q - 1 < y" using lo by linarith
  then have "\<lceil>y\<rceil> = ?q" using yq by (intro ceiling_unique)
  then show ?thesis using k by (simp add: y)
qed

text \<open>The pages are the list: read with any page size, the pages one to the reported number of pages, put
  together, are exactly the filtered products in their order, and each call reports their total.\<close>

lemma pages_partition:
  assumes "0 < n" and "n \<le> 2 ^ 20" and "length (filtered_products lower q c s st ps) \<le> 2 ^ 30"
    and "pg_totalPages (list_products lower ps 1 (int n) q c s st) = jint (int k)"
  shows "concat (map (\<lambda>i. pg_data (list_products lower ps (int i + 1) (int n) q c s st)) [0..<k])
       = filtered_products lower q c s st ps
     \<and> pg_total (list_products lower ps p (int n) q c s st) = int (length (filtered_products lower q c s st ps))"
proof -
  let ?f = "filtered_products lower q c s st ps"
  have pt: "pg_totalPages (list_products lower ps 1 (int n) q c s st) = jint ((int (length ?f) + int n - 1) div int n)"
    unfolding list_products_def Let_def using assms(1-3) ceil_rnd_div [of "int (length ?f)" "int n"] by simp
  then have "rat_of_int (int k) = of_int ((int (length ?f) + int n - 1) div int n)"
    using assms(4) by (metis jsnum.inject)
  then have k: "int k = (int (length ?f) + int n - 1) div int n" by (simp only: of_int_eq_iff)
  have d: "pg_data (list_products lower ps (int i + 1) (int n) q c s st) = window (i * n) n ?f" for i
    using assms(1) by (simp add: list_products_def Let_def nat_mult_distrib)
  have "int n * int k + (int (length ?f) + int n - 1) mod int n = int (length ?f) + int n - 1" unfolding k by simp
  moreover have "(int (length ?f) + int n - 1) mod int n < int n" using assms(1) by simp
  ultimately have "int (length ?f) \<le> int n * int k" by linarith
  then have "length ?f \<le> k * n" by (metis mult.commute of_nat_le_iff of_nat_mult)
  then have "concat (map (\<lambda>i. window (i * n) n ?f) [0..<k]) = ?f" by (simp add: concat_windows)
  then show ?thesis by (simp add: d) (simp add: list_products_def Let_def)
qed

definition shelf_product :: "jstr \<Rightarrow> int \<Rightarrow> product" where
  "shelf_product name stock = \<lparr> p_id = name, p_name = name, p_price = Fin 10, p_cost = Fin 7, p_stock = jint stock,
     p_minStock = Fin 5, p_wholesalePrice = Fin 9, p_category = js ''c'', p_image = [], p_barcode = [],
     p_supplier = None, p_description = None, p_customDetails = None \<rparr>"

lemma pages_partition_witness:
  "concat (map (\<lambda>i. pg_data (list_products (\<lambda>s. s) (map (\<lambda>i. shelf_product [i] 3) [1..<6]) (int i + 1) (int 2) [] [] [] (js ''low''))) [0..<3])
     = filtered_products (\<lambda>s. s) [] [] [] (js ''low'') (map (\<lambda>i. shelf_product [i] 3) [1..<6])"
proof -
  let ?ps = "map (\<lambda>i. shelf_product [i] 3) [1..<6]"
  have l: "length (filtered_products (\<lambda>s. s) [] [] [] (js ''low'') ?ps) = 5"
    by (simp add: filtered_products_def by_status_def by_supplier_def by_category_def by_search_def low_stock_def
        shelf_product_def upt_rec [of _ 6] comp_def)
  have "pg_totalPages (list_products (\<lambda>s. s) ?ps 1 (int 2) [] [] [] (js ''low'')) = jint (int 3)"
    unfolding list_products_def Let_def using l ceil_rnd_div [of 5 2] by simp
  then show ?thesis using l pages_partition [of 2 "\<lambda>s. s" "[]" "[]" "[]" "js ''low''" ?ps 3 0] by simp
qed

text \<open>The stock filters are disjoint and exact: a product listed as low is not listed as out of stock,
  and for finite stocks a product is in one of the two lists exactly when its stock is at most its
  minimum or not positive.\<close>

lemma stock_filters_disjoint:
  "\<not> (low_stock p \<and> out_of_stock p)
   \<and> (p_stock p = Fin a \<longrightarrow> p_minStock p = Fin m \<longrightarrow> (low_stock p \<or> out_of_stock p \<longleftrightarrow> a \<le> m \<or> a \<le> 0))"
proof -
  have "\<not> (Fin 0 < x \<and> x \<le> Fin 0)" for x by (cases x) (auto simp: less_eq_jsnum_def)
  then show ?thesis by (auto simp: low_stock_def out_of_stock_def)
qed

section \<open>Statistics\<close>

text \<open>The statistics of a catalogue of whole amounts are exact: with whole non-negative prices, costs and
  stocks whose totals stay in the safe range, the reported stock, value and cost are the exact sums and
  the profit is their difference.\<close>

lemma stats_exact:
  fixes st pr co :: "product \<Rightarrow> int"
  assumes "\<forall>p\<in>set ps. p_stock p = jint (st p) \<and> p_price p = jint (pr p) \<and> p_cost p = jint (co p)
      \<and> 0 \<le> st p \<and> 0 \<le> pr p \<and> 0 \<le> co p"
    and "(\<Sum>p\<leftarrow>ps. st p) \<le> 2 ^ 53" and "(\<Sum>p\<leftarrow>ps. pr p * st p) \<le> 2 ^ 53" and "(\<Sum>p\<leftarrow>ps. co p * st p) \<le> 2 ^ 53"
  shows "stats_of ps = \<lparr> t_totalStock = jint (\<Sum>p\<leftarrow>ps. st p), t_totalValue = jint (\<Sum>p\<leftarrow>ps. pr p * st p),
     t_totalCost = jint (\<Sum>p\<leftarrow>ps. co p * st p), t_profit = jint ((\<Sum>p\<leftarrow>ps. pr p * st p) - (\<Sum>p\<leftarrow>ps. co p * st p)) \<rparr>"
proof -
  have elem: "f p \<le> (\<Sum>p\<leftarrow>ps. f p)" if "p \<in> set ps" "\<forall>p\<in>set ps. 0 \<le> f p" for p and f :: "product \<Rightarrow> int"
    using that by (intro member_le_sum_list) auto
  have exact: "js_sum (Fin 0) (map g ps) = jint (\<Sum>p\<leftarrow>ps. f p)"
    if nn: "\<forall>p\<in>set ps. 0 \<le> f p" and le: "(\<Sum>p\<leftarrow>ps. f p) \<le> 2 ^ 53" and g: "\<forall>p\<in>set ps. g p = jint (f p)"
    for f :: "product \<Rightarrow> int" and g
  proof -
    have "map g ps = map (jint \<circ> f) ps" by (rule map_cong) (use g in auto)
    then have "js_sum (Fin 0) (map g ps) = js_sum (Fin 0) (map jint (map f ps))" by (simp only: map_map)
    also have "\<dots> = jint (\<Sum>p\<leftarrow>ps. f p)" using js_sum_jint_nonneg [of "map f ps" 0] nn le by simp
    finally show ?thesis .
  qed
  have prod: "\<forall>p\<in>set ps. h p * p_stock p = jint (f p * st p)"
    if "\<forall>p\<in>set ps. h p = jint (f p) \<and> 0 \<le> f p" and "(\<Sum>p\<leftarrow>ps. f p * st p) \<le> 2 ^ 53" for h and f :: "product \<Rightarrow> int"
  proof
    fix p assume p: "p \<in> set ps"
    have "f p * st p \<le> 2 ^ 53" using elem [OF p, of "\<lambda>p. f p * st p"] that assms(1) by force
    then show "h p * p_stock p = jint (f p * st p)" using that assms(1) p by (simp only: jint_mult abs_of_nonneg mult_nonneg_nonneg)
  qed
  have s: "js_sum (Fin 0) (map p_stock ps) = jint (\<Sum>p\<leftarrow>ps. st p)" by (rule exact) (use assms in auto)
  have v: "js_sum (Fin 0) (map (\<lambda>p. p_price p * p_stock p) ps) = jint (\<Sum>p\<leftarrow>ps. pr p * st p)"
    by (rule exact) (use assms prod [of p_price pr] in auto)
  have c: "js_sum (Fin 0) (map (\<lambda>p. p_cost p * p_stock p) ps) = jint (\<Sum>p\<leftarrow>ps. co p * st p)"
    by (rule exact) (use assms prod [of p_cost co] in auto)
  have nn: "0 \<le> (\<Sum>p\<leftarrow>ps. pr p * st p)" "0 \<le> (\<Sum>p\<leftarrow>ps. co p * st p)"
    using assms(1) by (auto intro!: sum_list_nonneg)
  have "jint (\<Sum>p\<leftarrow>ps. pr p * st p) - jint (\<Sum>p\<leftarrow>ps. co p * st p)
      = jint ((\<Sum>p\<leftarrow>ps. pr p * st p) - (\<Sum>p\<leftarrow>ps. co p * st p))"
    by (rule jint_diff) (use nn assms(3,4) in \<open>simp add: abs_le_iff\<close>)
  then show ?thesis by (simp only: stats_of_def Let_def s v c)
qed

lemma stats_exact_witness:
  "stats_of [shelf_product (js ''a'') 3, shelf_product (js ''b'') 4]
     = \<lparr> t_totalStock = Fin 7, t_totalValue = Fin 70, t_totalCost = Fin 49, t_profit = Fin 21 \<rparr>"
  using stats_exact [of "[shelf_product (js ''a'') 3, shelf_product (js ''b'') 4]"
    "\<lambda>p. if p_name p = js ''a'' then 3 else 4" "\<lambda>p. 10" "\<lambda>p. 7"]
  by (simp add: shelf_product_def)

section \<open>The products of the point of sale\<close>

text \<open>\<open>useProducts\<close>: one list call without search, then filters in the client.\<close>

definition pos_products :: "(jstr \<Rightarrow> jstr) \<Rightarrow> product list option \<Rightarrow> int \<Rightarrow> jstr \<Rightarrow> product list" where
  "pos_products lower answer pageSize status =
     (case answer of None \<Rightarrow> [] | Some ps \<Rightarrow> pg_data (list_products lower ps 0 pageSize [] [] [] status))"

definition filteredProducts :: "(jstr \<Rightarrow> jstr) \<Rightarrow> jstr \<Rightarrow> jstr \<Rightarrow> product list \<Rightarrow> product list" where
  "filteredProducts lower category search products =
     (let result = (if category \<noteq> all_ar then filter (\<lambda>p. p_category p = category) products else products)
      in if search = [] then result else filter (search_hit lower (lower search)) result)"

text \<open>\<open>Array.from(new Set(xs))\<close>: the first occurrence of every element, in order.\<close>

definition set_order :: "'a list \<Rightarrow> 'a list" where
  "set_order xs = rev (remdups (rev xs))"

definition categories :: "product list \<Rightarrow> jstr list" where
  "categories products = filter (\<lambda>c. c \<noteq> []) (set_order (map p_category products))"

lemma categories_exact:
  "distinct (categories ps)"
  "set (categories ps) = p_category ` set ps - {[]}"
  by (auto simp: categories_def set_order_def)

lemma pos_products_window:
  "0 < n \<Longrightarrow> pos_products lower (Some ps) n status = take (nat n) (by_status status ps)"
  by (simp add: pos_products_def list_products_def Let_def filtered_products_def by_search_def by_category_def
      by_supplier_def window_def)

text \<open>Searching in the client finds what the backend search finds, for every category but the English
  \<open>all\<close>, which only the list call takes as no category.\<close>

lemma client_search_agrees:
  assumes "category \<noteq> []" "category \<noteq> js ''all''"
  shows "filteredProducts lower category search ps = filtered_products lower search category [] [] ps"
  using assms by (auto simp: filteredProducts_def filtered_products_def by_search_def by_category_def
      by_supplier_def by_status_def Let_def conj_commute intro!: filter_cong)

section \<open>The inventory page\<close>

record inventory_page =
  v_products :: "product list"
  v_totalItems :: int
  v_totalPages :: jsnum
  v_stats :: product_stats

definition db_filter :: "jstr \<Rightarrow> jstr" where
  "db_filter c = (if c = js ''all'' then [] else c)"

definition inventory_products ::
  "(jstr \<Rightarrow> jstr) \<Rightarrow> product list \<Rightarrow> int \<Rightarrow> int \<Rightarrow> jstr \<Rightarrow> jstr \<Rightarrow> jstr \<Rightarrow> jstr \<Rightarrow> inventory_page" where
  "inventory_products lower allProducts page pageSize search category supplier filterType =
     (let response = list_products lower allProducts (page + 1) pageSize search (db_filter category)
          (db_filter supplier) filterType
      in \<lparr> v_products = pg_data response, v_totalItems = pg_total response,
           v_totalPages = num_or (pg_totalPages response) (Fin 0), v_stats = pg_stats response \<rparr>)"

text \<open>The pages of the inventory count from zero and cover the filtered products.\<close>

lemma inventory_page_window:
  "0 < n \<Longrightarrow> v_products (inventory_products lower ps (int i) (int n) q c s st)
     = window (i * n) n (filtered_products lower q (db_filter c) (db_filter s) st ps)"
  by (simp add: inventory_products_def list_products_def Let_def nat_mult_distrib)

end
