(* ===== verification/Sales.thy ===== *)
theory Sales
  imports Cart Catalog AppShell
begin

text \<open>
  The point of sale, \<open>features/pos/views/SalesPage.tsx\<close>: checkout, parked sales, quick products, scans
  and instalments on top of the cart hook. A handler that awaits the backend is cut at the await: its
  first part adds an open request, and the answer runs the rest with the values the handler captured in
  its render. The calls that leave the page are listed in order. After every event the effects run: those
  of the cart, and the one that keeps the prices in the mode of the page. JSON text of parked items is
  represented by the lines it holds; search text, focus and the picture for the messenger are not modelled.
\<close>

section \<open>State\<close>

record sales_env =
  en_products :: "product list"
  en_customers :: "customer list"
  en_taxRate :: "jsnum option"
  en_autoPrint :: bool
  en_user :: "(jstr \<times> jstr) option"

record sales_page =
  w_cart :: cart_state
  w_store :: cart_store
  w_isWholesale :: bool
  w_isProcessing :: bool
  w_showSplitModal :: bool
  w_showInstallmentModal :: bool
  w_showParkedModal :: bool
  w_showQuickAddModal :: bool
  w_showShiftPanel :: bool
  w_newProductBarcode :: jstr
  w_instConfig :: "jsnum \<times> jsnum"
  w_quickForm :: "jstr \<times> jsnum"
  w_lastSaleForPrint :: "sale option"
  w_lastCompletedSale :: "sale option"
  w_confirm :: "bool \<times> jstr"
  w_scannedInvoice :: "sale option"

text \<open>What the page asks of the outside, in order.\<close>

datatype page_call =
    Process_sale sale
  | Park_items "cart_item list" jstr jstr jstr jsnum nat
  | Retrieve_parked int
  | Save_product product
  | Get_sale jstr
  | Calculate_plan jsnum jsnum jsnum
  | Invalidate_products
  | Invalidate_all
  | Toast jstr toast_kind
  | Beep bool

text \<open>An open request with what its continuation captured.\<close>

datatype open_request =
    Await_sale sales_env sale
  | Await_plan sales_env sales_page
  | Await_park
  | Await_retrieve sales_env
  | Await_quick_add product bool
  | Await_invoice jstr bool

record sales_world =
  g_page :: sales_page
  g_env :: sales_env
  g_open :: "open_request list"
  g_calls :: "page_call list"

definition say :: "page_call list \<Rightarrow> sales_world \<Rightarrow> sales_world" where
  "say cs W = W\<lparr>g_calls := g_calls W @ cs\<rparr>"

definition on_page :: "(sales_page \<Rightarrow> sales_page) \<Rightarrow> sales_world \<Rightarrow> sales_world" where
  "on_page f W = W\<lparr>g_page := f (g_page W)\<rparr>"

definition await :: "open_request \<Rightarrow> sales_world \<Rightarrow> sales_world" where
  "await r W = W\<lparr>g_open := g_open W @ [r]\<rparr>"

text \<open>Updates of the cart hook in one batch, followed by its effects.\<close>

definition on_cart :: "(cart_state \<Rightarrow> cart_state) \<Rightarrow> sales_page \<Rightarrow> sales_page" where
  "on_cart f p =
     (let s = settle (w_cart p) (f (w_cart p)) (w_store p) in p\<lparr>w_cart := fst s, w_store := snd s\<rparr>)"

section \<open>Prices\<close>

definition price_for :: "bool \<Rightarrow> product \<Rightarrow> jsnum" where
  "price_for isWholesale p = (if isWholesale then num_or (p_wholesalePrice p) (p_price p) else p_price p)"

definition page_addToCart :: "bool \<Rightarrow> product \<Rightarrow> sales_page \<Rightarrow> sales_page" where
  "page_addToCart isWholesale p = on_cart (apply_event (Add_to_cart (p\<lparr>p_price := price_for isWholesale p\<rparr>)))"

definition reprice :: "product list \<Rightarrow> bool \<Rightarrow> cart_item \<Rightarrow> cart_item" where
  "reprice products isWholesale item =
     (case find_first (\<lambda>p. p_id p = p_id item) products of
        None \<Rightarrow> item
      | Some original \<Rightarrow>
          (let newPrice = price_for isWholesale original
           in if \<not> js_eq newPrice (p_price item) then item\<lparr>p_price := newPrice\<rparr> else item))"

definition has_changes :: "cart_item list \<Rightarrow> cart_item list \<Rightarrow> bool" where
  "has_changes updated old = list_ex (\<lambda>(a, b). \<not> js_eq (p_price a) (p_price b)) (zip updated old)"

definition wholesale_msg :: "bool \<Rightarrow> jstr" where
  "wholesale_msg isWholesale = (if isWholesale
     then [1578, 1605, 32, 1578, 1601, 1593, 1610, 1604, 32, 1571, 1587, 1593, 1575, 1585, 32,
       1575, 1604,
  1580, 1605, 1604, 1577]
     else [1578, 1605, 32, 1578, 1601, 1593, 1610, 1604, 32, 1571, 1587, 1593, 1575, 1585, 32,
       1575, 1604,
  1605, 1601, 1585, 1583])"

text \<open>The effect on cart, mode and products. Prices come from JSON and are no \<open>NaN\<close>, so that one run
  leaves nothing to change.\<close>

definition price_effect :: "sales_world \<Rightarrow> sales_world" where
  "price_effect W =
     (let p = g_page W; cart = u_cart (w_cart p);
          updatedCart = map (reprice (en_products (g_env W)) (w_isWholesale p)) cart
      in if cart = [] then W
         else if has_changes updatedCart cart
         then say [Toast (wholesale_msg (w_isWholesale p)) T_info]
                (on_page (on_cart (apply_event (Set_cart updatedCart))) W)
         else W)"

section \<open>Checkout\<close>

record sale_extras =
  ex_paymentMethod :: "payment_method option"
  ex_status :: "sale_status option"
  ex_splitDetails :: "(jstr \<times> jsnum) list option"
  ex_installmentPlan :: "installment_plan option"

definition no_extras :: sale_extras where
  "no_extras = \<lparr> ex_paymentMethod = None, ex_status = None, ex_splitDetails = None, ex_installmentPlan = None \<rparr>"

record stamp =
  sp_id :: jstr
  sp_date :: jstr
  sp_now :: int

definition guest_ar :: jstr where
  "guest_ar = [1586, 1576, 1608, 1606, 32, 1593, 1575, 1605]"

definition line_discount :: "cart_item \<Rightarrow> jsnum" where
  "line_discount i = opt_num_or (i_itemDiscount i) (Fin 0)"

definition sale_line :: "cart_item \<Rightarrow> sale_item" where
  "sale_line i = \<lparr> l_pid = Fin 0, l_id = p_id i, l_name = p_name i, l_qty = i_qty i, l_price = p_price i,
     l_cost = p_cost i, l_discount = Some (line_discount i),
     l_total = p_price i * i_qty i - line_discount i, l_returnedQty = Fin 0 \<rparr>"

definition customer_name :: "customer option \<Rightarrow> jstr" where
  "customer_name c = (case c of Some c \<Rightarrow> (if c_name c = [] then guest_ar else c_name c) | None \<Rightarrow> guest_ar)"

definition sale_of :: "sales_env \<Rightarrow> cart_state \<Rightarrow> sale_extras \<Rightarrow> stamp \<Rightarrow> sale" where
  "sale_of env u extras tm =
     \<lparr> x_id = js ''INV-'' @ sp_id tm,
       x_customer = customer_name (u_selectedCustomer u),
       x_customerId = map_option c_id (u_selectedCustomer u),
       x_staffId = Some (case en_user env of Some (i, n) \<Rightarrow> i | None \<Rightarrow> []),
       x_staffName = Some (case en_user env of Some (i, n) \<Rightarrow> n | None \<Rightarrow> []),
       x_date = sp_date tm, x_timestamp = sp_now tm,
       x_subtotal = subtotal (u_cart u), x_discount = u_discount u,
       x_vat = vat (en_taxRate env) u, x_total = total (en_taxRate env) u,
       x_paymentMethod = opt_default (u_paymentMethod u) (ex_paymentMethod extras),
       x_splitDetails = ex_splitDetails extras, x_installmentPlan = ex_installmentPlan extras,
       x_status = opt_default (if u_paymentMethod u = Credit then Pending else Completed) (ex_status extras),
       x_note = None, x_itemsCount = itemsCount (u_cart u), x_items = map sale_line (u_cart u),
       x_pointsRedeemed = None, x_pointsEarned = None, x_pointsAwarded = None \<rparr>"

text \<open>\<open>handleCheckout\<close> of the render \<open>(env, r)\<close>.\<close>

definition handleCheckout :: "sales_env \<Rightarrow> sales_page \<Rightarrow> sale_extras \<Rightarrow> stamp \<Rightarrow> sales_world \<Rightarrow> sales_world" where
  "handleCheckout env r extras tm W =
     (if u_cart (w_cart r) = [] \<or> w_isProcessing r then W
      else let s = sale_of env (w_cart r) extras tm
           in await (Await_sale env s)
                (say [Process_sale s] (on_page (\<lambda>p. p\<lparr>w_isProcessing := True\<rparr>) W)))"

datatype process_answer = Accepted | Thrown_error jstr | Thrown_text jstr | Thrown_other

definition sold_cart :: "cart_state \<Rightarrow> cart_state" where
  "sold_cart u = u\<lparr> u_cart := [], u_discount := Fin 0, u_selectedCustomer := None, u_paymentMethod := Cash,
     u_receivedAmount := Fin 0 \<rparr>"

definition sold_msg :: jstr where
  "sold_msg = [1578, 1605, 32, 1575, 1604, 1576, 1610, 1593, 32, 1576, 1606, 1580, 1575, 1581]"

definition checkout_accepted :: "sales_env \<Rightarrow> sale \<Rightarrow> sales_world \<Rightarrow> sales_world" where
  "checkout_accepted env s W =
     say [Toast sold_msg T_success, Invalidate_products, Invalidate_all]
       (on_page (\<lambda>p. (on_cart sold_cart p)\<lparr> w_showSplitModal := False, w_showInstallmentModal := False,
           w_lastSaleForPrint := (if en_autoPrint env then Some s else w_lastSaleForPrint p),
           w_lastCompletedSale := Some s, w_isProcessing := False \<rparr>) W)"

definition shift_ar :: jstr where
  "shift_ar = [1588, 1601, 1578]"

definition process_error_msg :: jstr where
  "process_error_msg = [1581, 1583, 1579, 32, 1582, 1591, 1571, 32, 1571, 1579, 1606, 1575, 1569,
    32, 1575, 1604, 1605,
  1593, 1575, 1604, 1580, 1577]"

fun error_text :: "process_answer \<Rightarrow> jstr" where
  "error_text (Thrown_error m) = (if m = [] then process_error_msg else m)"
| "error_text (Thrown_text t) = t"
| "error_text _ = process_error_msg"

definition checkout_failed :: "process_answer \<Rightarrow> sales_world \<Rightarrow> sales_world" where
  "checkout_failed a W =
     (let errMsg = error_text a
      in say [Toast errMsg T_error]
           (on_page (\<lambda>p. p\<lparr> w_showShiftPanel :=
                (if str_includes errMsg shift_ar \<or> str_includes errMsg (js ''Shift'') then True
                 else w_showShiftPanel p), w_isProcessing := False \<rparr>) W))"

section \<open>Parked sales\<close>

definition cart_empty_msg :: jstr where
  "cart_empty_msg = [1575, 1604, 1587, 1604, 1577, 32, 1601, 1575, 1585, 1594, 1577]"

definition parked_msg :: jstr where
  "parked_msg = [1578, 1605, 32, 1578, 1593, 1604, 1610, 1602, 32, 1575, 1604, 1601, 1575, 1578,
    1608, 1585, 1577]"

definition park_failed_msg :: jstr where
  "park_failed_msg = [1601, 1588, 1604, 32, 1578, 1593, 1604, 1610, 1602, 32, 1575, 1604, 1601,
    1575, 1578, 1608,
  1585, 1577]"

text \<open>\<open>parkSale\<close> of \<open>useParkedSales\<close>: what is sent for a cart.\<close>

definition park_call :: "cart_item list \<Rightarrow> customer option \<Rightarrow> jsnum \<Rightarrow> page_call" where
  "park_call cart customer tot = Park_items cart
     (case customer of Some c \<Rightarrow> c_name c | None \<Rightarrow> []) (case customer of Some c \<Rightarrow> c_id c | None \<Rightarrow> [])
     [] tot (length cart)"

definition handleParkSale :: "sales_world \<Rightarrow> sales_world" where
  "handleParkSale W =
     (let u = w_cart (g_page W)
      in if u_cart u = [] then say [Toast cart_empty_msg T_info] W
         else await Await_park
           (say [park_call (u_cart u) (u_selectedCustomer u) (total (en_taxRate (g_env W)) u)] W))"

definition park_answer :: "bool \<Rightarrow> sales_world \<Rightarrow> sales_world" where
  "park_answer ok W =
     (if ok
      then say [Invalidate_all, Toast parked_msg T_success]
             (on_page (on_cart (\<lambda>u. u\<lparr> u_cart := [], u_selectedCustomer := None, u_discount := Fin 0 \<rparr>)) W)
      else say [Toast park_failed_msg T_error] W)"

datatype retrieve_result = Retrieved "cart_item list" jstr | Retrieve_failed

definition retrieved_msg :: jstr where
  "retrieved_msg = [1578, 1605, 32, 1575, 1587, 1578, 1585, 1580, 1575, 1593, 32, 1575, 1604,
    1601, 1575, 1578,
  1608, 1585, 1577]"

definition retrieve_failed_msg :: jstr where
  "retrieve_failed_msg = [1601, 1588, 1604, 32, 1575, 1587, 1578, 1585, 1580, 1575, 1593, 32,
    1575, 1604, 1601, 1575,
  1578, 1608, 1585, 1577]"

definition parked_customer :: "customer list \<Rightarrow> jstr \<Rightarrow> customer option" where
  "parked_customer customers i = (if i = [] then None else find_first (\<lambda>c. c_id c = i) customers)"

definition retrieve_updates :: "sales_env \<Rightarrow> cart_item list \<Rightarrow> jstr \<Rightarrow> cart_state \<Rightarrow> cart_state" where
  "retrieve_updates env items i u =
     (let u1 = u\<lparr>u_cart := items\<rparr>
      in case parked_customer (en_customers env) i of Some c \<Rightarrow> u1\<lparr>u_selectedCustomer := Some c\<rparr> | None \<Rightarrow> u1)"

definition handleRetrieveSale :: "int \<Rightarrow> sales_world \<Rightarrow> sales_world" where
  "handleRetrieveSale i W = await (Await_retrieve (g_env W)) (say [Retrieve_parked i] W)"

fun retrieve_answer :: "sales_env \<Rightarrow> retrieve_result \<Rightarrow> sales_world \<Rightarrow> sales_world" where
  "retrieve_answer env (Retrieved items i) W =
     say [Invalidate_all, Toast retrieved_msg T_success]
       (on_page (\<lambda>p. (on_cart (retrieve_updates env items i) p)\<lparr>w_showParkedModal := False\<rparr>) W)"
| "retrieve_answer env Retrieve_failed W = say [Toast retrieve_failed_msg T_error] W"

section \<open>Quick products\<close>

definition general_ar :: jstr where
  "general_ar = [1593, 1575, 1605]"

definition seconds_text :: "int \<Rightarrow> jstr" where
  "seconds_text now = show_int (now div 1000)"

definition quick_product :: "jstr \<times> jsnum \<Rightarrow> jstr \<Rightarrow> int \<Rightarrow> product" where
  "quick_product form barcode now =
     \<lparr> p_id = seconds_text now, p_name = fst form, p_price = snd form, p_cost = Fin 0, p_stock = Fin 1,
       p_minStock = Fin 5, p_wholesalePrice = Fin 0, p_category = general_ar, p_image = [],
       p_barcode = (if barcode = [] then seconds_text now else barcode),
       p_supplier = None, p_description = None, p_customDetails = None \<rparr>"

definition handleQuickAdd :: "int \<Rightarrow> sales_world \<Rightarrow> sales_world" where
  "handleQuickAdd now W =
     (let p = g_page W
      in if fst (w_quickForm p) = [] \<or> \<not> truthy (snd (w_quickForm p)) then W
         else let newProduct = quick_product (w_quickForm p) (w_newProductBarcode p) now
              in await (Await_quick_add newProduct (w_isWholesale p)) (say [Save_product newProduct] W))"

definition quick_done_msg :: jstr where
  "quick_done_msg = [1578, 1605, 32, 1573, 1590, 1575, 1601, 1577, 32, 1575, 1604, 1605, 1606,
    1578, 1580, 32, 1608,
  1576, 1610, 1593, 1607]"

definition quick_failed_msg :: jstr where
  "quick_failed_msg = [1601, 1588, 1604, 32, 1573, 1590, 1575, 1601, 1577, 32, 1575, 1604, 1605,
    1606, 1578, 1580]"

definition quick_add_answer :: "product \<Rightarrow> bool \<Rightarrow> bool \<Rightarrow> sales_world \<Rightarrow> sales_world" where
  "quick_add_answer newProduct isWholesale ok W =
     (if ok
      then say [Invalidate_products, Invalidate_all, Toast quick_done_msg T_success]
             (on_page (\<lambda>p. (page_addToCart isWholesale newProduct p)
                \<lparr>w_showQuickAddModal := False, w_quickForm := ([], Fin 0)\<rparr>) W)
      else say [Toast quick_failed_msg T_error] W)"

section \<open>Scans\<close>

record scan_result =
  rs_success :: bool
  rs_name :: "jstr option"
  rs_message :: "jstr option"

definition scanned_msg :: jstr where
  "scanned_msg = [1578, 1605, 32, 1605, 1587, 1581, 58, 32]"

definition unknown_scan_msg :: jstr where
  "unknown_scan_msg = [1605, 1587, 1581, 32, 1594, 1610, 1585, 32, 1605, 1593, 1585, 1608, 1601]"

text \<open>A template literal prints a missing name as \<open>undefined\<close>.\<close>

definition shown_name :: "jstr option \<Rightarrow> jstr" where
  "shown_name n = (case n of None \<Rightarrow> js ''undefined'' | Some s \<Rightarrow> s)"

definition or_text :: "jstr option \<Rightarrow> jstr \<Rightarrow> jstr" where
  "or_text m d = (case m of None \<Rightarrow> d | Some s \<Rightarrow> (if s = [] then d else s))"

text \<open>What the listener of remote scans does with the result; scans of the reader and of the camera end
  with the handler.\<close>

definition scan_end :: "bool \<Rightarrow> scan_result \<Rightarrow> sales_world \<Rightarrow> sales_world" where
  "scan_end remote r W =
     (if \<not> remote then W
      else if rs_success r then say [Beep True, Toast (scanned_msg @ shown_name (rs_name r)) T_success] W
      else say [Beep False, Toast (or_text (rs_message r) unknown_scan_msg) T_error] W)"

definition not_found_msg :: jstr where
  "not_found_msg = [1575, 1604, 1605, 1606, 1578, 1580, 32, 1594, 1610, 1585, 32, 1605, 1608,
    1580, 1608, 1583, 32,
  45, 32, 1571, 1603, 1605, 1604, 32, 1575, 1604, 1573, 1590, 1575, 1601, 1577, 32, 1593, 1604,
  1609, 32, 1575, 1604, 1603, 1605, 1576, 1610, 1608, 1578, 1585]"

definition invoice_of_code :: "jstr \<Rightarrow> jstr" where
  "invoice_of_code code = drop 4 (hd (split_on 124 code))"

definition handleScan :: "bool \<Rightarrow> jstr \<Rightarrow> sales_world \<Rightarrow> sales_world" where
  "handleScan remote code W =
     (if prefix (js ''INV:'') code
      then await (Await_invoice (invoice_of_code code) remote) (say [Get_sale (invoice_of_code code)] W)
      else case find_first (\<lambda>p. p_barcode p = code) (en_products (g_env W)) of
          Some found \<Rightarrow> scan_end remote \<lparr>rs_success = True, rs_name = Some (p_name found), rs_message = None\<rparr>
            (on_page (\<lambda>p. page_addToCart (w_isWholesale p) found p) W)
        | None \<Rightarrow> scan_end remote \<lparr>rs_success = True, rs_name = None, rs_message = Some not_found_msg\<rparr>
            (on_page (\<lambda>p. p\<lparr>w_confirm := (True, code)\<rparr>) W))"

datatype invoice_result = Invoice sale | No_invoice | Invoice_failed

definition no_invoice_msg :: jstr where
  "no_invoice_msg = [1575, 1604, 1601, 1575, 1578, 1608, 1585, 1577, 32, 1594, 1610, 1585, 32,
    1605, 1608, 1580,
  1608, 1583, 1577]"

definition no_invoice_result :: jstr where
  "no_invoice_result = [1601, 1575, 1578, 1608, 1585, 1577, 32, 1594, 1610, 1585, 32, 1605, 1608,
    1580, 1608, 1583, 1577]"

definition invoice_error_msg :: jstr where
  "invoice_error_msg = [1582, 1591, 1571, 32, 1601, 1610, 32, 1578, 1581, 1605, 1610, 1604, 32,
    1575, 1604, 1601, 1575,
  1578, 1608, 1585, 1577]"

definition invoice_error_result :: jstr where
  "invoice_error_result = [1582, 1591, 1571, 32, 1601, 1610, 32, 1575, 1604, 1578, 1581, 1605,
    1610, 1604]"

definition invoice_word :: jstr where
  "invoice_word = [1601, 1575, 1578, 1608, 1585, 1577, 32, 35]"

fun invoice_answer :: "jstr \<Rightarrow> bool \<Rightarrow> invoice_result \<Rightarrow> sales_world \<Rightarrow> sales_world" where
  "invoice_answer i remote (Invoice s) W =
     scan_end remote \<lparr>rs_success = True, rs_name = Some (invoice_word @ i), rs_message = None\<rparr>
       (say [Beep True] (on_page (\<lambda>p. p\<lparr>w_scannedInvoice := Some s\<rparr>) W))"
| "invoice_answer i remote No_invoice W =
     scan_end remote \<lparr>rs_success = False, rs_name = None, rs_message = Some no_invoice_result\<rparr>
       (say [Beep False, Toast no_invoice_msg T_error] W)"
| "invoice_answer i remote Invoice_failed W =
     scan_end remote \<lparr>rs_success = False, rs_name = None, rs_message = Some invoice_error_result\<rparr>
       (say [Beep False, Toast invoice_error_msg T_error] W)"

definition handleConfirmAddProduct :: "sales_page \<Rightarrow> sales_page" where
  "handleConfirmAddProduct p =
     p\<lparr> w_newProductBarcode := snd (w_confirm p), w_showQuickAddModal := True, w_confirm := (False, []) \<rparr>"

section \<open>Instalments\<close>

definition plan_failed_msg :: jstr where
  "plan_failed_msg = [1601, 1588, 1604, 32, 1581, 1587, 1575, 1576, 32, 1575, 1604, 1571, 1602,
    1587, 1575, 1591]"

definition handleInstallmentConfirm :: "sales_world \<Rightarrow> sales_world" where
  "handleInstallmentConfirm W =
     (let p = g_page W
      in await (Await_plan (g_env W) p)
           (say [Calculate_plan (total (en_taxRate (g_env W)) (w_cart p)) (fst (w_instConfig p)) (snd (w_instConfig p))] W))"

definition installment_extras :: "installment_plan \<Rightarrow> sale_extras" where
  "installment_extras plan = \<lparr> ex_paymentMethod = Some Installment, ex_status = Some Pending,
     ex_splitDetails = None, ex_installmentPlan = Some plan \<rparr>"

definition plan_answer :: "sales_env \<Rightarrow> sales_page \<Rightarrow> installment_plan option \<Rightarrow> stamp \<Rightarrow> sales_world \<Rightarrow> sales_world" where
  "plan_answer env r plan tm W =
     (case plan of Some pl \<Rightarrow> handleCheckout env r (installment_extras pl) tm W
      | None \<Rightarrow> say [Toast plan_failed_msg T_error] W)"

section \<open>Events\<close>

text \<open>The controls of the page and its modals.\<close>

datatype page_input =
    Show_split bool
  | Open_installment
  | Close_installment
  | Set_inst_config "jsnum \<times> jsnum"
  | Show_parked bool
  | Show_quick_add bool
  | Set_quick_form "jstr \<times> jsnum"
  | Confirm_add
  | Cancel_confirm
  | Close_scanned_invoice
  | Print_invoice sale
  | After_print
  | Toggle_shift_panel

fun page_control :: "page_input \<Rightarrow> sales_page \<Rightarrow> sales_page" where
  "page_control (Show_split b) p = p\<lparr>w_showSplitModal := b\<rparr>"
| "page_control Open_installment p = p\<lparr>w_instConfig := (Fin 0, Fin 3), w_showInstallmentModal := True\<rparr>"
| "page_control Close_installment p = p\<lparr>w_showInstallmentModal := False\<rparr>"
| "page_control (Set_inst_config c) p = p\<lparr>w_instConfig := c\<rparr>"
| "page_control (Show_parked b) p = p\<lparr>w_showParkedModal := b\<rparr>"
| "page_control (Show_quick_add b) p = p\<lparr>w_showQuickAddModal := b\<rparr>"
| "page_control (Set_quick_form f) p = p\<lparr>w_quickForm := f\<rparr>"
| "page_control Confirm_add p = handleConfirmAddProduct p"
| "page_control Cancel_confirm p = p\<lparr>w_confirm := (False, [])\<rparr>"
| "page_control Close_scanned_invoice p = p\<lparr>w_scannedInvoice := None\<rparr>"
| "page_control (Print_invoice s) p = p\<lparr>w_lastSaleForPrint := Some s\<rparr>"
| "page_control After_print p = p\<lparr>w_lastSaleForPrint := None\<rparr>"
| "page_control Toggle_shift_panel p = p\<lparr>w_showShiftPanel := \<not> w_showShiftPanel p\<rparr>"

datatype sales_event =
    Click_checkout sale_extras stamp
  | Click_park
  | Click_retrieve int
  | Click_quick_add int
  | Click_installment
  | Add_product product
  | Scan bool jstr
  | Cart_action cart_event
  | Set_wholesale bool
  | New_env sales_env
  | Page_input page_input
  | Sale_answered nat process_answer
  | Plan_answered nat "installment_plan option" stamp
  | Park_answered nat bool
  | Retrieve_answered nat retrieve_result
  | Quick_add_answered nat bool
  | Invoice_answered nat invoice_result

definition drop_nth :: "nat \<Rightarrow> 'a list \<Rightarrow> 'a list" where
  "drop_nth n xs = take n xs @ drop (Suc n) xs"

text \<open>The answer to the request at a position of the open ones; an answer to another kind of request
  does not exist.\<close>

definition answered :: "nat \<Rightarrow> (open_request \<Rightarrow> sales_world \<Rightarrow> sales_world option) \<Rightarrow> sales_world \<Rightarrow> sales_world" where
  "answered n k W =
     (if n < length (g_open W)
      then (case k (g_open W ! n) (W\<lparr>g_open := drop_nth n (g_open W)\<rparr>) of Some W' \<Rightarrow> W' | None \<Rightarrow> W)
      else W)"

fun sale_cont :: "process_answer \<Rightarrow> open_request \<Rightarrow> sales_world \<Rightarrow> sales_world option" where
  "sale_cont a (Await_sale env s) W = Some (if a = Accepted then checkout_accepted env s W else checkout_failed a W)"
| "sale_cont a _ W = None"

fun plan_cont :: "installment_plan option \<Rightarrow> stamp \<Rightarrow> open_request \<Rightarrow> sales_world \<Rightarrow> sales_world option" where
  "plan_cont plan tm (Await_plan env r) W = Some (plan_answer env r plan tm W)"
| "plan_cont plan tm _ W = None"

fun park_cont :: "bool \<Rightarrow> open_request \<Rightarrow> sales_world \<Rightarrow> sales_world option" where
  "park_cont ok Await_park W = Some (park_answer ok W)"
| "park_cont ok _ W = None"

fun retrieve_cont :: "retrieve_result \<Rightarrow> open_request \<Rightarrow> sales_world \<Rightarrow> sales_world option" where
  "retrieve_cont a (Await_retrieve env) W = Some (retrieve_answer env a W)"
| "retrieve_cont a _ W = None"

fun quick_cont :: "bool \<Rightarrow> open_request \<Rightarrow> sales_world \<Rightarrow> sales_world option" where
  "quick_cont ok (Await_quick_add p w) W = Some (quick_add_answer p w ok W)"
| "quick_cont ok _ W = None"

fun invoice_cont :: "invoice_result \<Rightarrow> open_request \<Rightarrow> sales_world \<Rightarrow> sales_world option" where
  "invoice_cont a (Await_invoice i remote) W = Some (invoice_answer i remote a W)"
| "invoice_cont a _ W = None"

fun sales_handler :: "sales_event \<Rightarrow> sales_world \<Rightarrow> sales_world" where
  "sales_handler (Click_checkout extras tm) W = handleCheckout (g_env W) (g_page W) extras tm W"
| "sales_handler Click_park W = handleParkSale W"
| "sales_handler (Click_retrieve i) W = handleRetrieveSale i W"
| "sales_handler (Click_quick_add now) W = handleQuickAdd now W"
| "sales_handler Click_installment W = handleInstallmentConfirm W"
| "sales_handler (Add_product p) W = on_page (\<lambda>q. page_addToCart (w_isWholesale q) p q) W"
| "sales_handler (Scan remote code) W = (if remote \<and> code = [] then W else handleScan remote code W)"
| "sales_handler (Cart_action e) W = on_page (on_cart (apply_event e)) W"
| "sales_handler (Set_wholesale b) W = on_page (\<lambda>p. p\<lparr>w_isWholesale := b\<rparr>) W"
| "sales_handler (New_env env) W = W\<lparr>g_env := env\<rparr>"
| "sales_handler (Page_input i) W = on_page (page_control i) W"
| "sales_handler (Sale_answered n a) W = answered n (sale_cont a) W"
| "sales_handler (Plan_answered n plan tm) W = answered n (plan_cont plan tm) W"
| "sales_handler (Park_answered n ok) W = answered n (park_cont ok) W"
| "sales_handler (Retrieve_answered n a) W = answered n (retrieve_cont a) W"
| "sales_handler (Quick_add_answered n ok) W = answered n (quick_cont ok) W"
| "sales_handler (Invoice_answered n a) W = answered n (invoice_cont a) W"

definition sales_step :: "sales_world \<Rightarrow> sales_event \<Rightarrow> sales_world" where
  "sales_step W e = price_effect (sales_handler e W)"

section \<open>The frame of the operations\<close>

lemma say_simps [simp]:
  "g_page (say cs W) = g_page W" "g_env (say cs W) = g_env W" "g_open (say cs W) = g_open W"
  "g_calls (say cs W) = g_calls W @ cs"
  by (simp_all add: say_def)

lemma on_page_simps [simp]:
  "g_page (on_page f W) = f (g_page W)" "g_env (on_page f W) = g_env W" "g_open (on_page f W) = g_open W"
  "g_calls (on_page f W) = g_calls W"
  by (simp_all add: on_page_def)

lemma await_simps [simp]:
  "g_page (await r W) = g_page W" "g_env (await r W) = g_env W" "g_open (await r W) = g_open W @ [r]"
  "g_calls (await r W) = g_calls W"
  by (simp_all add: await_def)

lemma on_cart_simps [simp]:
  "u_cart (w_cart (on_cart f p)) = u_cart (f (w_cart p))"
  "w_isWholesale (on_cart f p) = w_isWholesale p" "w_isProcessing (on_cart f p) = w_isProcessing p"
  "w_lastCompletedSale (on_cart f p) = w_lastCompletedSale p" "w_confirm (on_cart f p) = w_confirm p"
  "w_showShiftPanel (on_cart f p) = w_showShiftPanel p"
  by (simp_all add: on_cart_def Let_def settle_commit)

lemma commit_customer [simp]: "u_selectedCustomer (fst (commit old u ls)) = u_selectedCustomer u"
  by (simp add: commit_def Let_def save_updates_def received_updates_def)

lemma commit_discount: "u_cart u \<noteq> [] \<Longrightarrow> u_discount (fst (commit old u ls)) = u_discount u"
  by (simp add: commit_def Let_def save_updates_def received_updates_def)

lemma on_cart_customer [simp]:
  "u_selectedCustomer (w_cart (on_cart f p)) = u_selectedCustomer (f (w_cart p))"
  by (simp add: on_cart_def Let_def settle_commit)

lemma price_effect_simps [simp]:
  "g_env (price_effect W) = g_env W" "g_open (price_effect W) = g_open W"
  "w_isWholesale (g_page (price_effect W)) = w_isWholesale (g_page W)"
  "w_isProcessing (g_page (price_effect W)) = w_isProcessing (g_page W)"
  by (simp_all add: price_effect_def Let_def)

section \<open>Prices follow the mode\<close>

definition in_mode :: "product list \<Rightarrow> bool \<Rightarrow> cart_item list \<Rightarrow> bool" where
  "in_mode products isWholesale cart =
     list_all (\<lambda>item. case find_first (\<lambda>p. p_id p = p_id item) products of
        None \<Rightarrow> True | Some original \<Rightarrow> p_price item = price_for isWholesale original) cart"

definition stable :: "sales_world \<Rightarrow> bool" where
  "stable W = in_mode (en_products (g_env W)) (w_isWholesale (g_page W)) (u_cart (w_cart (g_page W)))"

definition finite_prices :: "product list \<Rightarrow> bool" where
  "finite_prices products = list_all (\<lambda>p. p_price p \<noteq> NaN \<and> p_wholesalePrice p \<noteq> NaN) products"

lemma price_for_finite: "finite_prices ps \<Longrightarrow> p \<in> set ps \<Longrightarrow> price_for w p \<noteq> NaN"
  by (auto simp: finite_prices_def price_for_def num_or_def list_all_iff)

lemma p_id_reprice [simp]: "p_id (reprice ps w item) = p_id item"
  by (simp add: reprice_def Let_def split: option.split)

lemma reprice_in_mode: "in_mode ps w (map (reprice ps w) cart)"
  by (auto simp: in_mode_def list_all_iff reprice_def Let_def js_eq_def split: option.split)

lemma reprice_id:
  assumes "in_mode ps w cart" and "item \<in> set cart"
  shows "reprice ps w item = item \<or> p_price (reprice ps w item) = p_price item"
  using assms by (auto simp: in_mode_def list_all_iff reprice_def Let_def split: option.splits)

lemma zip_map_same: "zip (map f xs) xs = map (\<lambda>x. (f x, x)) xs"
  by (induction xs) auto

lemma no_changes_in_mode:
  assumes "\<not> has_changes (map (reprice ps w) cart) cart"
  shows "in_mode ps w cart"
proof -
  have "p_price (reprice ps w item) = p_price item" if "item \<in> set cart" for item
    using assms that by (auto simp: has_changes_def zip_map_same list_ex_iff js_eq_def)
  then show ?thesis using reprice_in_mode [of ps w cart]
    by (fastforce simp: in_mode_def list_all_iff split: option.splits)
qed

lemma price_effect_in_mode: "stable (price_effect W)"
proof -
  let ?ps = "en_products (g_env W)" and ?w = "w_isWholesale (g_page W)" and ?c = "u_cart (w_cart (g_page W))"
  consider "?c = []" | "?c \<noteq> []" "has_changes (map (reprice ?ps ?w) ?c) ?c" | "\<not> has_changes (map (reprice ?ps ?w) ?c) ?c"
    by blast
  then show ?thesis
  proof cases
    case 1
    then show ?thesis by (simp add: stable_def price_effect_def Let_def in_mode_def)
  next
    case 2
    then show ?thesis using reprice_in_mode by (simp add: stable_def price_effect_def Let_def)
  next
    case 3
    then have "price_effect W = W" by (simp add: price_effect_def Let_def)
    then show ?thesis using no_changes_in_mode [OF 3] by (simp add: stable_def)
  qed
qed

text \<open>Lines in the mode of the page are left alone, unless their price is \<open>NaN\<close>.\<close>

lemma price_effect_stable:
  assumes "stable W" and "finite_prices (en_products (g_env W))"
    and "list_all (\<lambda>i. p_price i \<noteq> NaN) (u_cart (w_cart (g_page W)))"
  shows "price_effect W = W"
proof -
  let ?ps = "en_products (g_env W)" and ?w = "w_isWholesale (g_page W)" and ?c = "u_cart (w_cart (g_page W))"
  have "js_eq (p_price (reprice ?ps ?w item)) (p_price item)" if "item \<in> set ?c" for item
  proof -
    have "p_price (reprice ?ps ?w item) = p_price item"
      using reprice_id [OF _ that, of ?ps ?w] assms(1) by (auto simp: stable_def)
    then show ?thesis using assms(3) that by (auto simp: js_eq_def list_all_iff)
  qed
  then have "\<not> has_changes (map (reprice ?ps ?w) ?c) ?c"
    by (auto simp: has_changes_def zip_map_same list_ex_iff)
  then show ?thesis by (simp add: price_effect_def Let_def)
qed

section \<open>Sales in process\<close>

definition is_sale :: "open_request \<Rightarrow> bool" where
  "is_sale r = (case r of Await_sale env s \<Rightarrow> True | _ \<Rightarrow> False)"

lemma is_sale_simps [simp]:
  "is_sale (Await_sale env s)" "\<not> is_sale (Await_plan env r)" "\<not> is_sale Await_park"
  "\<not> is_sale (Await_retrieve env)" "\<not> is_sale (Await_quick_add p w)" "\<not> is_sale (Await_invoice i b)"
  by (simp_all add: is_sale_def)

definition open_sales :: "sales_world \<Rightarrow> nat" where
  "open_sales W = length (filter is_sale (g_open W))"

text \<open>The page shows that it is processing exactly while one sale is awaited.\<close>

definition one_sale :: "sales_world \<Rightarrow> bool" where
  "one_sale W = (open_sales W = (if w_isProcessing (g_page W) then 1 else 0))"

fun direct :: "sales_event \<Rightarrow> bool" where
  "direct (Plan_answered n plan tm) = False"
| "direct _ = True"

lemma open_sales_drop:
  assumes "n < length xs"
  shows "length (filter P xs) = length (filter P (drop_nth n xs)) + (if P (xs ! n) then 1 else 0)"
proof -
  have "xs = take n xs @ xs ! n # drop (Suc n) xs" using assms by (rule id_take_nth_drop)
  then have "filter P xs = filter P (take n xs @ xs ! n # drop (Suc n) xs)" by (rule arg_cong)
  then show ?thesis by (simp add: drop_nth_def)
qed

lemma scan_end_simps [simp]:
  "g_page (scan_end b r W) = g_page W" "g_env (scan_end b r W) = g_env W" "g_open (scan_end b r W) = g_open W"
  by (simp_all add: scan_end_def)

lemma page_addToCart_processing [simp]: "w_isProcessing (page_addToCart w p q) = w_isProcessing q"
  by (simp add: page_addToCart_def)

lemma page_control_frame [simp]:
  "w_isProcessing (page_control i p) = w_isProcessing p" "w_cart (page_control i p) = w_cart p"
  by (cases i; simp add: handleConfirmAddProduct_def)+

lemma handleScan_open:
  "w_isProcessing (g_page (handleScan b code W)) = w_isProcessing (g_page W)"
  "open_sales (handleScan b code W) = open_sales W"
  by (simp_all add: handleScan_def open_sales_def split: option.split)

lemma one_sale_answered:
  assumes "one_sale W"
    and "\<And>V W'. n < length (g_open W) \<Longrightarrow> g_page V = g_page W \<Longrightarrow> g_open V = drop_nth n (g_open W)
      \<Longrightarrow> k (g_open W ! n) V = Some W'
      \<Longrightarrow> open_sales W' = open_sales V \<and> (if is_sale (g_open W ! n) then \<not> w_isProcessing (g_page W')
            else w_isProcessing (g_page W') = w_isProcessing (g_page V))"
  shows "one_sale (answered n k W)"
proof (cases "n < length (g_open W)")
  case True
  let ?V = "W\<lparr>g_open := drop_nth n (g_open W)\<rparr>"
  show ?thesis
  proof (cases "k (g_open W ! n) ?V")
    case None
    then show ?thesis using assms(1) by (simp add: answered_def)
  next
    case (Some W')
    have "open_sales W' = open_sales ?V"
      "if is_sale (g_open W ! n) then \<not> w_isProcessing (g_page W')
       else w_isProcessing (g_page W') = w_isProcessing (g_page ?V)"
      using assms(2) [OF True _ _ Some] by auto
    then show ?thesis using assms(1) True Some open_sales_drop [OF True, of is_sale]
      by (auto simp: answered_def one_sale_def open_sales_def split: if_splits)
  qed
qed (use assms(1) in \<open>simp add: answered_def\<close>)

lemma handler_one_sale:
  assumes "one_sale W" and "direct e"
  shows "one_sale (sales_handler e W)"
proof (cases e)
  case (Click_checkout extras tm)
  then show ?thesis using assms(1) by (auto simp: handleCheckout_def Let_def one_sale_def open_sales_def split: if_splits)
next
  case (Sale_answered n a)
  show ?thesis unfolding Sale_answered sales_handler.simps
    by (rule one_sale_answered [OF assms(1)], case_tac "g_open W ! n")
      (auto simp: open_sales_def checkout_accepted_def checkout_failed_def Let_def split: if_splits)
next
  case (Park_answered n ok)
  show ?thesis unfolding Park_answered sales_handler.simps
    by (rule one_sale_answered [OF assms(1)], case_tac "g_open W ! n")
      (auto simp: open_sales_def park_answer_def split: if_splits)
next
  case (Retrieve_answered n a)
  show ?thesis unfolding Retrieve_answered sales_handler.simps
    by (rule one_sale_answered [OF assms(1)], case_tac "g_open W ! n"; cases a)
      (auto simp: open_sales_def)
next
  case (Quick_add_answered n ok)
  show ?thesis unfolding Quick_add_answered sales_handler.simps
    by (rule one_sale_answered [OF assms(1)], case_tac "g_open W ! n")
      (auto simp: open_sales_def quick_add_answer_def split: if_splits)
next
  case (Invoice_answered n a)
  show ?thesis unfolding Invoice_answered sales_handler.simps
    by (rule one_sale_answered [OF assms(1)], case_tac "g_open W ! n"; cases a)
      (auto simp: open_sales_def)
next
  case (Scan remote code)
  then show ?thesis using assms(1) by (simp add: one_sale_def handleScan_open)
qed (use assms in \<open>auto simp: one_sale_def handleParkSale_def handleRetrieveSale_def
  handleQuickAdd_def handleInstallmentConfirm_def open_sales_def Let_def split: if_splits\<close>)

lemma step_one_sale: "one_sale W \<Longrightarrow> direct e \<Longrightarrow> one_sale (sales_step W e)"
  using handler_one_sale [of W e] by (simp add: sales_step_def one_sale_def open_sales_def)

interpretation checkout: machine sales_step one_sale direct
  by unfold_locales (rule step_one_sale)

section \<open>Properties\<close>

definition shop_env :: sales_env where
  "shop_env = \<lparr> en_products = [sample_product], en_customers = [sample_customer], en_taxRate = None,
     en_autoPrint = False, en_user = None \<rparr>"

definition shop_page :: sales_page where
  "shop_page = \<lparr> w_cart = sample_state, w_store = sample_store, w_isWholesale = False, w_isProcessing = False,
     w_showSplitModal = False, w_showInstallmentModal = False, w_showParkedModal = False,
     w_showQuickAddModal = False, w_showShiftPanel = False, w_newProductBarcode = [],
     w_instConfig = (Fin 0, Fin 3), w_quickForm = ([], Fin 0), w_lastSaleForPrint = None,
     w_lastCompletedSale = None, w_confirm = (False, []), w_scannedInvoice = None \<rparr>"

definition shop :: sales_world where
  "shop = \<lparr> g_page = shop_page, g_env = shop_env, g_open = [], g_calls = [] \<rparr>"

definition tick :: stamp where
  "tick = \<lparr> sp_id = js ''1'', sp_date = js ''2025-01-01'', sp_now = 0 \<rparr>"

lemma shop_simps [simp]:
  "g_page shop = shop_page" "g_env shop = shop_env" "g_open shop = []" "g_calls shop = []"
  "w_cart shop_page = sample_state" "w_isWholesale shop_page = False" "w_isProcessing shop_page = False"
  "w_store shop_page = sample_store" "en_products shop_env = [sample_product]"
  "en_customers shop_env = [sample_customer]" "en_taxRate shop_env = None"
  by (simp_all add: shop_def shop_page_def shop_env_def)

lemma shop_stable: "stable shop" "finite_prices (en_products (g_env shop))" "one_sale shop"
  by (simp_all add: stable_def in_mode_def price_for_def finite_prices_def sample_product_def one_sale_def open_sales_def)

text \<open>After every event of every run, each line of the cart whose product is loaded has the price of
  that product in the mode of the page, wholesale or retail: lines from storage, from parked sales, from
  scans and from awaited quick products included.\<close>

lemma prices_follow_mode:
  "let W' = run sales_step W (es @ [e])
   in in_mode (en_products (g_env W')) (w_isWholesale (g_page W')) (u_cart (w_cart (g_page W')))"
  using price_effect_in_mode by (simp add: run_append sales_step_def stable_def)

text \<open>C15. In every run without instalment plans at most one sale is awaited, and the page shows that it is
  processing exactly while one is: the button is blocked for as long as the sale is open and is released
  when it ends, in success or failure.\<close>

theorem one_sale_at_a_time:
  assumes "open_sales W = (if w_isProcessing (g_page W) then 1 else 0)" and "list_all direct es"
  shows "open_sales (run sales_step W es) = (if w_isProcessing (g_page (run sales_step W es)) then 1 else 0)"
  using checkout.run_inv [of W es] assms by (simp add: one_sale_def list_all_iff)

theorem one_sale_at_a_time_witness:
  "open_sales (run sales_step shop [Click_checkout no_extras tick, Click_checkout no_extras tick, Click_park])
     = (if w_isProcessing (g_page (run sales_step shop [Click_checkout no_extras tick, Click_checkout no_extras tick, Click_park]))
        then 1 else 0)"
  by (rule one_sale_at_a_time) (simp_all add: open_sales_def)

text \<open>Stable pages through events that leave the cart alone.\<close>

definition calm :: "sales_world \<Rightarrow> bool" where
  "calm W = (stable W \<and> finite_prices (en_products (g_env W))
     \<and> list_all (\<lambda>i. p_price i \<noteq> NaN) (u_cart (w_cart (g_page W))))"

lemma calm_effect: "calm W \<Longrightarrow> price_effect W = W"
  by (simp add: calm_def price_effect_stable)

lemma calm_frame:
  assumes "calm W" and "g_env V = g_env W" and "w_isWholesale (g_page V) = w_isWholesale (g_page W)"
    and "u_cart (w_cart (g_page V)) = u_cart (w_cart (g_page W)) \<or> u_cart (w_cart (g_page V)) = []"
  shows "calm V"
  using assms by (auto simp: calm_def stable_def in_mode_def)

lemma step_calm:
  assumes "calm W" and "g_env (sales_handler e W) = g_env W"
    and "w_isWholesale (g_page (sales_handler e W)) = w_isWholesale (g_page W)"
    and "u_cart (w_cart (g_page (sales_handler e W))) = u_cart (w_cart (g_page W))
      \<or> u_cart (w_cart (g_page (sales_handler e W))) = []"
  shows "sales_step W e = sales_handler e W" "calm (sales_handler e W)"
  using calm_frame [OF assms] by (simp_all add: sales_step_def calm_effect)

lemma shop_calm: "calm shop"
  using shop_stable by (simp add: calm_def)

lemma step_checkout:
  assumes "calm W" and "u_cart (w_cart (g_page W)) \<noteq> []" and "\<not> w_isProcessing (g_page W)"
  shows "sales_step W (Click_checkout extras tm) =
     W\<lparr>g_page := (g_page W)\<lparr>w_isProcessing := True\<rparr>,
       g_open := g_open W @ [Await_sale (g_env W) (sale_of (g_env W) (w_cart (g_page W)) extras tm)],
       g_calls := g_calls W @ [Process_sale (sale_of (g_env W) (w_cart (g_page W)) extras tm)]\<rparr>"
    and "calm (sales_step W (Click_checkout extras tm))"
proof -
  have h: "sales_handler (Click_checkout extras tm) W = W\<lparr>g_page := (g_page W)\<lparr>w_isProcessing := True\<rparr>,
       g_open := g_open W @ [Await_sale (g_env W) (sale_of (g_env W) (w_cart (g_page W)) extras tm)],
       g_calls := g_calls W @ [Process_sale (sale_of (g_env W) (w_cart (g_page W)) extras tm)]\<rparr>"
    using assms(2,3) by (simp add: handleCheckout_def Let_def await_def say_def on_page_def)
  then show "sales_step W (Click_checkout extras tm) = W\<lparr>g_page := (g_page W)\<lparr>w_isProcessing := True\<rparr>,
       g_open := g_open W @ [Await_sale (g_env W) (sale_of (g_env W) (w_cart (g_page W)) extras tm)],
       g_calls := g_calls W @ [Process_sale (sale_of (g_env W) (w_cart (g_page W)) extras tm)]\<rparr>"
    "calm (sales_step W (Click_checkout extras tm))"
    using step_calm [OF assms(1), of "Click_checkout extras tm"] by simp_all
qed

text \<open>C16. A refused sale costs nothing: when the backend throws, whatever it throws, the cart, the stored
  cart and the mode are as before the click, the button is free again, the message is shown, and the shift
  panel opens when the message speaks of a shift.\<close>

theorem refused_sale_keeps_cart:
  assumes "calm W" and "u_cart (w_cart (g_page W)) \<noteq> []" and "\<not> w_isProcessing (g_page W)" and "a \<noteq> Accepted"
  shows "let W' = run sales_step W [Click_checkout extras tm, Sale_answered (length (g_open W)) a]
     in w_cart (g_page W') = w_cart (g_page W) \<and> w_store (g_page W') = w_store (g_page W)
        \<and> \<not> w_isProcessing (g_page W') \<and> g_open W' = g_open W
        \<and> last (g_calls W') = Toast (error_text a) T_error
        \<and> (str_includes (error_text a) shift_ar \<longrightarrow> w_showShiftPanel (g_page W'))"
proof -
  let ?V = "sales_step W (Click_checkout extras tm)"
  note v = step_checkout [OF assms(1-3), of extras tm]
  have h: "sales_handler (Sale_answered (length (g_open W)) a) ?V =
     checkout_failed a (?V\<lparr>g_open := g_open W\<rparr>)"
    using assms(4) by (simp add: v(1) answered_def drop_nth_def)
  have "sales_step ?V (Sale_answered (length (g_open W)) a) = checkout_failed a (?V\<lparr>g_open := g_open W\<rparr>)"
    unfolding h [symmetric] by (rule step_calm(1) [OF v(2)]; unfold h; simp add: checkout_failed_def Let_def)
  then show ?thesis by (simp add: v(1) checkout_failed_def Let_def)
qed

theorem refused_sale_keeps_cart_witness:
  "w_cart (g_page (run sales_step shop [Click_checkout no_extras tick, Sale_answered 0 (Thrown_text (js ''Shift''))])) = sample_state"
  using refused_sale_keeps_cart [of shop "Thrown_text (js ''Shift'')" no_extras tick] shop_calm
  by (simp add: Let_def del: run_Cons)

text \<open>The sales a list of calls posts.\<close>

definition posted :: "page_call list \<Rightarrow> sale list" where
  "posted cs = concat (map (\<lambda>c. case c of Process_sale s \<Rightarrow> [s] | _ \<Rightarrow> []) cs)"

lemma posted_simps [simp]:
  "posted [] = []" "posted (xs @ ys) = posted xs @ posted ys" "posted (Process_sale s # cs) = s # posted cs"
  "posted (Toast m k # cs) = posted cs" "posted (Invalidate_products # cs) = posted cs"
  "posted (Invalidate_all # cs) = posted cs" "posted (Calculate_plan a b c # cs) = posted cs"
  "posted (Park_items is x y z t n # cs) = posted cs" "posted (Retrieve_parked i # cs) = posted cs"
  by (simp_all add: posted_def)

lemma price_effect_posted [simp]: "posted (g_calls (price_effect W)) = posted (g_calls W)"
  by (simp add: price_effect_def Let_def)

lemma adds_keep:
  "g_open (run sales_step W (map Add_product ps)) = g_open W
   \<and> g_env (run sales_step W (map Add_product ps)) = g_env W
   \<and> posted (g_calls (run sales_step W (map Add_product ps))) = posted (g_calls W)"
  by (induction ps arbitrary: W) (simp_all add: sales_step_def)

text \<open>Products added while a sale is being processed are lost: they are not in the posted sale, which was
  made of the cart at the click, and the accepted answer empties the cart with them in it.\<close>

lemma scans_during_checkout_lost:
  assumes "calm W" and "u_cart (w_cart (g_page W)) \<noteq> []" and "\<not> w_isProcessing (g_page W)"
  shows "let W' = run sales_step W (Click_checkout extras tm # map Add_product ps @ [Sale_answered (length (g_open W)) Accepted]);
             s = sale_of (g_env W) (w_cart (g_page W)) extras tm
     in u_cart (w_cart (g_page W')) = [] \<and> posted (g_calls W') = posted (g_calls W) @ [s]
        \<and> map l_id (x_items s) = map p_id (u_cart (w_cart (g_page W)))"
proof -
  let ?V = "sales_step W (Click_checkout extras tm)"
  let ?U = "run sales_step ?V (map Add_product ps)"
  note v = step_checkout [OF assms, of extras tm]
  have o': "g_open ?U = g_open W @ [Await_sale (g_env W) (sale_of (g_env W) (w_cart (g_page W)) extras tm)]"
    and c: "posted (g_calls ?U) = posted (g_calls W) @ [sale_of (g_env W) (w_cart (g_page W)) extras tm]"
    using adds_keep [of ?V ps] by (simp_all add: v(1))
  have "sales_handler (Sale_answered (length (g_open W)) Accepted) ?U =
      checkout_accepted (g_env W) (sale_of (g_env W) (w_cart (g_page W)) extras tm) (?U\<lparr>g_open := g_open W\<rparr>)"
    by (simp add: answered_def o' drop_nth_def)
  then have "u_cart (w_cart (g_page (sales_step ?U (Sale_answered (length (g_open W)) Accepted)))) = []
    \<and> posted (g_calls (sales_step ?U (Sale_answered (length (g_open W)) Accepted))) = posted (g_calls ?U)"
    by (simp add: sales_step_def checkout_accepted_def sold_cart_def price_effect_def Let_def)
  moreover have "map l_id (x_items (sale_of (g_env W) (w_cart (g_page W)) extras tm)) = map p_id (u_cart (w_cart (g_page W)))"
    by (simp add: sale_of_def sale_line_def)
  ultimately show ?thesis by (simp add: Let_def run_append c)
qed

lemma scans_during_checkout_lost_witness:
  "u_cart (w_cart (g_page (run sales_step shop (Click_checkout no_extras tick # map Add_product [sample_product] @ [Sale_answered 0 Accepted])))) = []"
  using scans_during_checkout_lost [of shop no_extras tick "[sample_product]"] shop_calm
  by (simp add: Let_def del: run_Cons)

text \<open>Instalment sales are not protected by the processing flag: the handler calls the checkout of the
  render of its click after an await, so that confirming twice before the first plan arrives posts the same
  cart as two sales, each under a number of its own.\<close>

lemma installment_posts_twice:
  assumes "calm W" and "u_cart (w_cart (g_page W)) \<noteq> []" and "\<not> w_isProcessing (g_page W)" and "g_open W = []"
  shows "posted (g_calls (run sales_step W [Click_installment, Click_installment,
            Plan_answered 0 (Some plan) t1, Plan_answered 0 (Some plan) t2]))
       = posted (g_calls W) @ [sale_of (g_env W) (w_cart (g_page W)) (installment_extras plan) t1,
                               sale_of (g_env W) (w_cart (g_page W)) (installment_extras plan) t2]"
proof -
  let ?r = "Await_plan (g_env W) (g_page W)"
  let ?s = "\<lambda>t. sale_of (g_env W) (w_cart (g_page W)) (installment_extras plan) t"
  have click: "sales_step V Click_installment = handleInstallmentConfirm V" "calm (handleInstallmentConfirm V)" if "calm V" for V
    using step_calm [OF that, of Click_installment] by (simp_all add: handleInstallmentConfirm_def Let_def)
  let ?V = "handleInstallmentConfirm (handleInstallmentConfirm W)"
  have V: "calm ?V" "g_page ?V = g_page W" "g_env ?V = g_env W" "g_open ?V = [?r, ?r]" "posted (g_calls ?V) = posted (g_calls W)"
    using click(2) [OF click(2) [OF assms(1)]] assms(4) by (simp_all add: handleInstallmentConfirm_def Let_def)
  have answer: "calm (sales_step U (Plan_answered 0 (Some plan) t))
      \<and> posted (g_calls (sales_step U (Plan_answered 0 (Some plan) t))) = posted (g_calls U) @ [?s t]
      \<and> g_open (sales_step U (Plan_answered 0 (Some plan) t)) = rs @ [Await_sale (g_env W) (?s t)]
      \<and> w_cart (g_page (sales_step U (Plan_answered 0 (Some plan) t))) = w_cart (g_page U)"
    if "calm U" "g_open U = ?r # rs" for U rs t
  proof -
    have h: "sales_handler (Plan_answered 0 (Some plan) t) U
        = handleCheckout (g_env W) (g_page W) (installment_extras plan) t (U\<lparr>g_open := rs\<rparr>)"
      using that(2) by (simp add: answered_def drop_nth_def plan_answer_def)
    show ?thesis
      using step_calm [OF that(1), of "Plan_answered 0 (Some plan) t", unfolded h] assms(2,3)
      by (simp add: handleCheckout_def Let_def)
  qed
  show ?thesis
    using answer [OF V(1,4), of t1] answer [of "sales_step ?V (Plan_answered 0 (Some plan) t1)" "[Await_sale (g_env W) (?s t1)]" t2] V(5)
    by (simp add: click(1) [OF assms(1)] click(1) [OF click(2) [OF assms(1)]])
qed

lemma installment_posts_twice_witness:
  "\<exists>plan. length (posted (g_calls (run sales_step shop [Click_installment, Click_installment,
      Plan_answered 0 (Some plan) tick, Plan_answered 0 (Some plan) tick]))) = 2"
  using installment_posts_twice [of shop _ tick tick] shop_calm by (simp del: run_Cons)

text \<open>Parking and retrieving gives the lines back, and the customer when one of that number is loaded, but
  not the discount: the parked total was computed with it, the retrieved cart has none. A customer selected
  when a sale without one is retrieved stays selected.\<close>

lemma park_round_trip:
  assumes "calm W" and "u_cart (w_cart (g_page W)) \<noteq> []" and "g_open W = []"
    and "u_selectedCustomer (w_cart (g_page W)) = Some c" and "c_id c \<noteq> []"
    and "find_first (\<lambda>d. c_id d = c_id c) (en_customers (g_env W)) = Some c"
  shows "let W' = run sales_step W [Click_park, Park_answered 0 True, Click_retrieve i,
                  Retrieve_answered 0 (Retrieved (u_cart (w_cart (g_page W))) (c_id c))]
     in u_cart (w_cart (g_page W')) = u_cart (w_cart (g_page W))
        \<and> u_selectedCustomer (w_cart (g_page W')) = Some c
        \<and> u_discount (w_cart (g_page W')) = Fin 0
        \<and> Park_items (u_cart (w_cart (g_page W))) (c_name c) (c_id c) []
            (total (en_taxRate (g_env W)) (w_cart (g_page W))) (length (u_cart (w_cart (g_page W)))) \<in> set (g_calls W')"
proof -
  let ?items = "u_cart (w_cart (g_page W))" and ?env = "g_env W"
  let ?call = "Park_items ?items (c_name c) (c_id c) [] (total (en_taxRate ?env) (w_cart (g_page W))) (length ?items)"
  let ?W1 = "sales_step W Click_park"
  have W1: "?W1 = await Await_park (say [?call] W)" "calm ?W1"
    using step_calm [OF assms(1), of Click_park] assms(2,4) by (simp_all add: handleParkSale_def Let_def park_call_def)
  let ?W2 = "sales_step ?W1 (Park_answered 0 True)"
  have h2: "sales_handler (Park_answered 0 True) ?W1 = park_answer True (?W1\<lparr>g_open := []\<rparr>)"
    by (simp add: W1(1) answered_def drop_nth_def assms(3))
  have W2: "?W2 = park_answer True (?W1\<lparr>g_open := []\<rparr>)" "calm ?W2"
    using step_calm [OF W1(2), of "Park_answered 0 True", unfolded h2] by (simp_all add: park_answer_def)
  have f2: "g_open ?W2 = []" "g_env ?W2 = ?env" "?call \<in> set (g_calls ?W2)" "u_cart (w_cart (g_page ?W2)) = []"
    "w_isWholesale (g_page ?W2) = w_isWholesale (g_page W)"
    unfolding W2(1) by (simp_all add: park_answer_def W1(1))
  have d2: "u_discount (w_cart (g_page ?W2)) = Fin 0"
    unfolding W2(1) using assms(2)
    by (simp add: park_answer_def W1(1) on_cart_def Let_def settle_commit commit_def save_updates_def
        received_updates_def save_deps_def)
  let ?W3 = "sales_step ?W2 (Click_retrieve i)"
  have W3: "?W3 = await (Await_retrieve ?env) (say [Retrieve_parked i] ?W2)"
    using step_calm [OF W2(2), of "Click_retrieve i"] by (simp add: handleRetrieveSale_def f2)
  let ?V = "retrieve_answer ?env (Retrieved ?items (c_id c)) (?W3\<lparr>g_open := []\<rparr>)"
  have h4: "sales_handler (Retrieve_answered 0 (Retrieved ?items (c_id c))) ?W3 = ?V"
    by (simp add: W3 answered_def drop_nth_def f2(1))
  have V: "u_cart (w_cart (g_page ?V)) = ?items" "g_env ?V = ?env" "w_isWholesale (g_page ?V) = w_isWholesale (g_page W)"
    "u_selectedCustomer (w_cart (g_page ?V)) = Some c" "?call \<in> set (g_calls ?V)"
    using assms(5,6) f2 by (simp_all add: W3 retrieve_updates_def parked_customer_def Let_def)
  have "u_discount (w_cart (g_page ?V)) = Fin 0"
    using assms(2,5,6) d2 by (simp add: W3 retrieve_updates_def parked_customer_def Let_def on_cart_def settle_commit commit_discount)
  moreover have "calm ?V" using calm_frame [OF assms(1) V(2,3)] V(1) by blast
  ultimately show ?thesis using V h4 by (simp add: sales_step_def [of ?W3] calm_effect)
qed

lemma park_round_trip_witness:
  "u_discount (w_cart (g_page (run sales_step shop [Click_park, Park_answered 0 True, Click_retrieve 7,
     Retrieve_answered 0 (Retrieved (u_cart sample_state) (js ''c1''))]))) = Fin 0"
  using park_round_trip [of shop sample_customer 7] shop_calm by (simp add: Let_def del: run_Cons)

section \<open>The lines of a sale of whole amounts\<close>

definition net :: "int \<times> int \<times> int \<Rightarrow> int" where
  "net z = (case z of (p, q, d) \<Rightarrow> p * q - d)"

lemma sum_net: "sum_list (map net zs) = gross zs - line_discounts zs"
  by (induction zs) (auto simp: net_def gross_def line_discounts_def)

lemma sale_line_whole:
  assumes "whole_line x (p, q, d)" and "p * q \<le> 2 ^ 52" and "d \<le> 2 ^ 52"
  shows "l_total (sale_line x) = jint (p * q - d)"
proof -
  have nn: "0 \<le> p * q" "0 \<le> d" using assms(1) by auto
  have "jint p * jint q = jint (p * q)" using assms(2) nn by (intro jint_mult) simp
  moreover have "jint (p * q) - jint d = jint (p * q - d)" using assms(2,3) nn by (intro jint_diff) simp
  ultimately show ?thesis
    using assms(1) by (simp only: sale_line_def line_discount_def sale_item.simps whole_line.simps)
qed

lemma gross_append:
  "gross (xs @ ys) = gross xs + gross ys" "line_discounts (xs @ ys) = line_discounts xs + line_discounts ys"
  by (simp_all add: gross_def line_discounts_def)

lemma gross_Cons:
  "gross ((p, q, d) # zs) = p * q + gross zs" "line_discounts ((p, q, d) # zs) = d + line_discounts zs"
  by (simp_all add: gross_def line_discounts_def)

lemma sale_lines_whole:
  assumes "list_all2 whole_line c zs" and "gross zs \<le> 2 ^ 52" and "line_discounts zs \<le> 2 ^ 52"
  shows "map (\<lambda>i. l_total (sale_line i)) c = map jint (map net zs)"
  using assms
proof (induction c zs rule: list_all2_induct)
  case (Cons x xs y ys)
  obtain p q d where y: "y = (p, q, d)" by (cases y)
  have nn: "0 \<le> p * q" "0 \<le> d" "0 \<le> gross ys" "0 \<le> line_discounts ys"
    using Cons.hyps y gross_nonneg [OF Cons.hyps(2)] by auto
  have b: "p * q \<le> 2 ^ 52" "d \<le> 2 ^ 52" "gross ys \<le> 2 ^ 52" "line_discounts ys \<le> 2 ^ 52"
    using Cons.prems nn unfolding y gross_Cons by linarith+
  have "l_total (sale_line x) = jint (p * q - d)"
    using Cons.hyps(1) b y by (intro sale_line_whole) simp_all
  then show ?case using Cons.IH b by (simp add: net_def y)
qed simp

lemma sale_lines_sum:
  assumes "whole_cart c zs"
  shows "js_sum (Fin 0) (map (\<lambda>i. l_total (sale_line i)) c) = jint (gross zs - line_discounts zs)"
proof -
  have w: "list_all2 whole_line c zs" "gross zs \<le> 2 ^ 52" "line_discounts zs \<le> 2 ^ 52"
    using assms by (simp_all add: whole_cart_def)
  have "\<bar>0 + sum_list (take k (map net zs))\<bar> \<le> 2 ^ 53" for k
  proof -
    have "0 \<le> gross (take k zs) \<and> 0 \<le> line_discounts (take k zs)"
      "0 \<le> gross (drop k zs) \<and> 0 \<le> line_discounts (drop k zs)"
      by (rule gross_nonneg [OF list_all2_takeI [OF w(1)]], rule gross_nonneg [OF list_all2_dropI [OF w(1)]])
    moreover have "gross (take k zs) + gross (drop k zs) = gross zs"
      "line_discounts (take k zs) + line_discounts (drop k zs) = line_discounts zs"
      by (simp_all flip: gross_append)
    ultimately show ?thesis using w(2,3) unfolding take_map sum_net abs_le_iff by auto
  qed
  then have "js_sum (jint 0) (map jint (map net zs)) = jint (0 + sum_list (map net zs))" by (intro js_sum_jint)
  then show ?thesis using sale_lines_whole [OF w] by (simp only: of_int_0 add_0 sum_net)
qed

text \<open>The tax of a taxable amount in whole units, at any rate from 0 to 100.\<close>

lemma vat_near:
  assumes tax: "taxableTotal u = jint t" and t: "0 \<le> t" "t \<le> 2 ^ 41"
    and rate: "opt_num_or taxRate (Fin 0) = Fin y" "0 \<le> y" "y \<le> 100"
  obtains v where "vat taxRate u = jint v" "total taxRate u = jint (t + v)" "0 \<le> v"
    "\<bar>rat_of_int v - of_int t * y / 100\<bar> \<le> 1 / 2 + 1 / 1000"
proof -
  let ?t = "of_int t :: rat"
  have tq: "0 \<le> ?t" "?t \<le> 2 ^ 41" using t by (simp, metis of_int_le_iff of_int_numeral of_int_power)
  have "\<bar>y / 100\<bar> \<le> 2 ^ 60" using rate by simp
  then obtain q where q: "rnd (y / 100) = Fin q" and qe: "\<bar>q - y / 100\<bar> \<le> \<bar>y / 100\<bar> / 2 ^ 53 + 1 / 2 ^ 60"
    by (rule rnd_near)
  have q01: "0 \<le> q" "q \<le> 1"
    using rnd_mono [of 0 "y / 100"] rnd_mono [of "y / 100" 1] rate rnd_numeral [of num.One] q by simp_all
  have tqb: "0 \<le> ?t * q" "?t * q \<le> ?t" using tq q01 by (simp_all add: mult_left_le)
  then have "\<bar>?t * q\<bar> \<le> 2 ^ 60" using tq by simp
  then obtain z where z: "rnd (?t * q) = Fin z" and ze: "\<bar>z - ?t * q\<bar> \<le> \<bar>?t * q\<bar> / 2 ^ 53 + 1 / 2 ^ 60"
    by (rule rnd_near)
  have "rnd ?t = Fin ?t" by (rule rnd_int) (use t in simp)
  then have z01: "0 \<le> z" "z \<le> ?t" using rnd_mono [OF tqb(1)] rnd_mono [OF tqb(2)] z by simp_all
  define v where "v = \<lfloor>z + 1 / 2\<rfloor>"
  have v: "0 \<le> v" "v \<le> t" unfolding v_def using z01 by linarith+
  have "\<bar>q - y / 100\<bar> \<le> 1 / 2 ^ 53 + 1 / 2 ^ 60" using qe rate by simp
  then have "?t * \<bar>q - y / 100\<bar> \<le> 2 ^ 41 * (1 / 2 ^ 53 + 1 / 2 ^ 60)" using tq by (intro mult_mono) auto
  moreover have "\<bar>?t * q - ?t * y / 100\<bar> = ?t * \<bar>q - y / 100\<bar>"
  proof -
    have "?t * q - ?t * y / 100 = ?t * (q - y / 100)" by (simp add: right_diff_distrib)
    then show ?thesis using tq(1) by (simp only: abs_mult abs_of_nonneg)
  qed
  ultimately have "\<bar>?t * q - ?t * y / 100\<bar> \<le> 1 / 4000" by simp
  moreover have "\<bar>z - ?t * q\<bar> \<le> 1 / 4000" using ze tqb tq by simp
  ultimately have "\<bar>z - ?t * y / 100\<bar> \<le> 1 / 1000" unfolding abs_le_iff by linarith
  then have near: "\<bar>rat_of_int v - ?t * y / 100\<bar> \<le> 1 / 2 + 1 / 1000" unfolding v_def by (rule round_near_le)
  have vat: "vat taxRate u = jint v" using tax rate(1) q z by (simp add: vat_def v_def)
  have "jint t + jint v = jint (t + v)" using t v by (intro jint_add) simp
  then have "total taxRate u = jint (t + v)" by (simp only: total_def tax vat js_round_jint)
  with vat v(1) near show ?thesis using that by blast
qed

text \<open>C14. The posted sale adds up: for prices, quantities and discounts that are whole and not negative, with
  prices by quantities of at most $2^{40}$ and line discounts of at most $2^{52}$ together, and a tax rate that is missing or anything from 0 to 100, the
  totals of the lines sum to the subtotal, the total is the subtotal less the discount, at least zero, plus a whole
  tax that is not negative and within half a unit (and the drift of a thousandth) of the exact tax, and every line
  carries the quantity and the price of the cart.\<close>

theorem posted_sale_adds_up:
  assumes "whole_cart (u_cart u) zs" and "u_discount u = jint disc" and "0 \<le> disc"
    and "opt_num_or (en_taxRate env) (Fin 0) = Fin y" and "0 \<le> y" and "y \<le> 100" and "gross zs \<le> 2 ^ 40"
  shows "js_sum (Fin 0) (map l_total (x_items (sale_of env u extras tm))) = x_subtotal (sale_of env u extras tm)
     \<and> x_subtotal (sale_of env u extras tm) = jint (gross zs - line_discounts zs)
     \<and> (\<exists>v. x_vat (sale_of env u extras tm) = jint v
          \<and> x_total (sale_of env u extras tm) = jint (max 0 (gross zs - line_discounts zs - disc) + v)
          \<and> 0 \<le> v \<and> \<bar>rat_of_int v - of_int (max 0 (gross zs - line_discounts zs - disc)) * y / 100\<bar> \<le> 1 / 2 + 1 / 1000)
     \<and> map (\<lambda>l. (l_qty l, l_price l)) (x_items (sale_of env u extras tm)) = map (\<lambda>i. (i_qty i, p_price i)) (u_cart u)"
proof -
  let ?t = "max 0 (gross zs - line_discounts zs - disc)"
  have sub: "subtotal (u_cart u) = jint (gross zs - line_discounts zs)" using assms(1) by (rule subtotal_whole)
  have tax: "taxableTotal u = jint ?t" by (rule taxable_whole) fact+
  have "0 \<le> gross zs \<and> 0 \<le> line_discounts zs" using assms(1) gross_nonneg by (auto simp: whole_cart_def)
  then have "?t \<le> 2 ^ 41" using assms(3,7) by simp
  from vat_near [OF tax _ this assms(4-6)]
  obtain v where "vat (en_taxRate env) u = jint v" "total (en_taxRate env) u = jint (?t + v)" "0 \<le> v"
    "\<bar>rat_of_int v - of_int ?t * y / 100\<bar> \<le> 1 / 2 + 1 / 1000" by (metis max.cobounded1)
  moreover have "js_sum (Fin 0) (map l_total (map sale_line (u_cart u))) = jint (gross zs - line_discounts zs)"
    using sale_lines_sum [OF assms(1)] by (simp add: comp_def)
  ultimately show ?thesis using sub by (simp add: sale_of_def comp_def sale_line_def)
qed

theorem posted_sale_adds_up_witness:
  "x_total (sale_of (shop_env\<lparr>en_taxRate := Some (Fin (15 / 2))\<rparr>) (sample_state\<lparr>u_discount := jint 50\<rparr>) no_extras tick) = jint 269
    \<and> x_total (sale_of shop_env (sample_state\<lparr>u_discount := jint 50\<rparr>) no_extras tick) = jint 250"
proof
  have cart: "whole_cart (u_cart (sample_state\<lparr>u_discount := jint 50\<rparr>)) [(100, 3, 0)]"
    by (simp add: whole_cart_def gross_def line_discounts_def)
  let ?S = "\<lambda>r. sale_of (shop_env\<lparr>en_taxRate := r\<rparr>) (sample_state\<lparr>u_discount := jint 50\<rparr>) no_extras tick"
  have one: "\<exists>v. x_vat (?S r) = jint v \<and> x_total (?S r) = jint (250 + v) \<and> 0 \<le> v \<and> \<bar>rat_of_int v - 250 * y / 100\<bar> \<le> 1 / 2 + 1 / 1000"
    if "opt_num_or r (Fin 0) = Fin y" "0 \<le> y" "y \<le> 100" for r y
    using posted_sale_adds_up [OF cart, of 50 "shop_env\<lparr>en_taxRate := r\<rparr>" y no_extras tick] that
    by (auto simp: gross_def line_discounts_def)
  from one [of "Some (Fin (15 / 2))" "15 / 2"] obtain v where v: "x_vat (?S (Some (Fin (15 / 2)))) = jint v"
      "x_total (?S (Some (Fin (15 / 2)))) = jint (250 + v)" "\<bar>rat_of_int v - 75 / 4\<bar> \<le> 1 / 2 + 1 / 1000"
    by auto
  from v(3) have "18 < rat_of_int v" "rat_of_int v < 20" unfolding abs_le_iff by linarith+
  then have "v = 19" by simp
  with v(2) show "x_total (?S (Some (Fin (15 / 2)))) = jint 269" by simp
  from one [of None 0] obtain v where v: "x_total (?S None) = jint (250 + v)" "\<bar>rat_of_int v\<bar> \<le> 1 / 2 + 1 / 1000" by auto
  from v(2) have "- 1 < rat_of_int v" "rat_of_int v < 1" unfolding abs_le_iff by linarith+
  then have "v = 0" by simp
  moreover have none: "shop_env\<lparr>en_taxRate := None\<rparr> = shop_env" by (simp add: shop_env_def)
  ultimately show "x_total (sale_of shop_env (sample_state\<lparr>u_discount := jint 50\<rparr>) no_extras tick) = jint 250"
    using v(1) unfolding none by simp
qed

end
