(* ===== verification/PrintQueue.thy ===== *)
theory PrintQueue
  imports AppShell
begin

text \<open>
  Silent receipt printing of the point of sale, \<open>features/pos/components/sales/SalesModals.tsx\<close>: the sale
  to print is handed over as a prop, a print runs asynchronously, and two refs keep the sale printed last
  and one sale that waits. The effect of the component runs after every render; it is iterated until it
  changes nothing (\<open>settle_prints\<close>). A picture that is captured and sent to the printer is one request
  whose outcome is an event.
\<close>

section \<open>State\<close>

text \<open>The preferences that matter, and the key that turns printing into a simulation.\<close>

record print_config =
  pc_autoPrint :: bool
  pc_format :: jstr
  pc_receiptPrinter :: "jstr option"
  pc_simulate :: bool

datatype print_call =
    Bitmap_receipt jstr jstr
  | Generate_pdf jstr
  | Print_toast jstr toast_kind

record print_queue =
  q_lastSaleForPrint :: "sale option"
  q_isSilentPrinting :: bool
  q_simulatingSale :: "sale option"
  q_lastPrinted :: "jstr option"
  q_pending :: "sale option"
  q_running :: "sale option"
  q_calls :: "print_call list"
  q_started :: "jstr list"

definition print_start :: print_queue where
  "print_start = \<lparr> q_lastSaleForPrint = None, q_isSilentPrinting = False, q_simulatingSale = None,
     q_lastPrinted = None, q_pending = None, q_running = None, q_calls = [], q_started = [] \<rparr>"

definition silent :: "print_config \<Rightarrow> bool" where
  "silent cf = (pc_autoPrint cf \<and> pc_format cf = js ''thermal'')"

definition has_printer :: "print_config \<Rightarrow> bool" where
  "has_printer cf = (case pc_receiptPrinter cf of None \<Rightarrow> False | Some p \<Rightarrow> trim p \<noteq> [])"

definition print_say :: "print_call \<Rightarrow> print_queue \<Rightarrow> print_queue" where
  "print_say c s = s\<lparr>q_calls := q_calls s @ [c]\<rparr>"

definition onAfterPrint :: "print_queue \<Rightarrow> print_queue" where
  "onAfterPrint s = s\<lparr>q_lastSaleForPrint := None\<rparr>"

section \<open>A print\<close>

definition no_printer_msg :: jstr where
  "no_printer_msg = [9888, 65039, 32, 1604, 1605, 32, 1610, 1578, 1605, 32, 1578, 1581, 1583,
    1610, 1583, 32, 1591,
  1575, 1576, 1593, 1577, 32, 1575, 1604, 1573, 1610, 1589, 1575, 1604, 1575, 1578, 32, 1601,
  1610, 32, 1575, 1604, 1573, 1593, 1583, 1575, 1583, 1575, 1578]"

definition simulate_msg :: jstr where
  "simulate_msg = [9989, 32, 1608, 1590, 1593, 32, 1575, 1604, 1605, 1581, 1575, 1603, 1575,
    1577, 58, 32, 1610,
  1578, 1605, 32, 1593, 1585, 1590, 32, 1575, 1604, 1601, 1575, 1578, 1608, 1585, 1577, 32, 1593,
  1604, 1609, 32, 1575, 1604, 1588, 1575, 1588, 1577]"

text \<open>\<open>handleSilentBitmapPrint\<close> up to its first await. The \<open>finally\<close> block also runs after the return of
  the simulation.\<close>

definition handleSilentBitmapPrint :: "print_config \<Rightarrow> print_queue \<Rightarrow> print_queue" where
  "handleSilentBitmapPrint cf s =
     (case q_lastSaleForPrint s of
        None \<Rightarrow> s
      | Some sale \<Rightarrow>
          if \<not> silent cf then s
          else if \<not> has_printer cf \<and> \<not> pc_simulate cf
          then onAfterPrint (print_say (Print_toast no_printer_msg T_error) s)
          else if pc_simulate cf
          then onAfterPrint ((print_say (Print_toast simulate_msg T_info) s)
                 \<lparr> q_simulatingSale := Some sale, q_isSilentPrinting := False \<rparr>)
          else s\<lparr> q_isSilentPrinting := True, q_running := Some sale, q_started := q_started s @ [x_id sale] \<rparr>)"

datatype print_outcome = Printed | Print_failed jstr bool

definition printed_msg :: jstr where
  "printed_msg = [10003, 32, 1578, 1605, 1578, 32, 1575, 1604, 1591, 1576, 1575, 1593, 1577, 32,
    1576, 1606, 1580,
  1575, 1581]"

definition offline_msg :: "jstr \<Rightarrow> jstr" where
  "offline_msg p = [10060, 32, 1575, 1604, 1591, 1575, 1576, 1593, 1577, 32, 34] @ p @ [34, 32,
    1594, 1610, 1585, 32, 1605, 1578, 1589, 1604, 1577]"

definition print_failed_msg :: "jstr \<Rightarrow> jstr" where
  "print_failed_msg m = [10060, 32, 1601, 1588, 1604, 1578, 32, 1575, 1604, 1591, 1576, 1575,
    1593, 1577, 58, 32] @ take 50 m"

definition pdf_saved_msg :: jstr where
  "pdf_saved_msg = [10003, 32, 1578, 1605, 32, 1581, 1601, 1592, 32, 1575, 1604, 1601, 1575,
    1578, 1608, 1585, 1577,
  32, 1603, 1605, 1604, 1601, 32, 80, 68, 70, 32, 1603, 1576, 1583, 1610, 1604, 32, 1604, 1604,
  1591, 1576, 1575, 1593, 1577]"

definition printer_name :: "print_config \<Rightarrow> jstr" where
  "printer_name cf = (case pc_receiptPrinter cf of None \<Rightarrow> [] | Some p \<Rightarrow> p)"

definition print_error_toast :: "print_config \<Rightarrow> jstr \<Rightarrow> print_call" where
  "print_error_toast cf errorMsg =
     (if str_includes errorMsg (js ''OpenPrinter'') \<or> str_includes errorMsg (js ''printer'')
      then Print_toast (offline_msg (printer_name cf)) T_error
      else Print_toast (print_failed_msg errorMsg) T_error)"

text \<open>The rest of the print: sent to the printer, or, when capture or printer fail, the PDF fallback; then
  the \<open>finally\<close> block.\<close>

definition print_ended :: "print_config \<Rightarrow> print_outcome \<Rightarrow> print_queue \<Rightarrow> print_queue" where
  "print_ended cf out s =
     (case q_running s of
        None \<Rightarrow> s
      | Some sale \<Rightarrow>
          let s1 = (case out of
                Printed \<Rightarrow> print_say (Print_toast printed_msg T_success)
                             (print_say (Bitmap_receipt (printer_name cf) (x_id sale)) s)
              | Print_failed m pdf \<Rightarrow>
                  (let e = print_say (print_error_toast cf m) s
                   in if x_id sale = [] then e
                      else let f = print_say (Generate_pdf (x_id sale)) e
                           in if pdf then print_say (Print_toast pdf_saved_msg T_success) f else f))
          in onAfterPrint (s1\<lparr> q_running := None, q_isSilentPrinting := False \<rparr>))"

section \<open>The effect\<close>

definition print_effect :: "print_config \<Rightarrow> print_queue \<Rightarrow> print_queue" where
  "print_effect cf s =
     (case q_lastSaleForPrint s of
        Some sale \<Rightarrow>
          if silent cf
          then if q_lastPrinted s = Some (x_id sale) then s
               else if q_isSilentPrinting s then s\<lparr>q_pending := Some sale\<rparr>
               else handleSilentBitmapPrint cf (s\<lparr>q_lastPrinted := Some (x_id sale)\<rparr>)
          else s
      | None \<Rightarrow>
          case (q_isSilentPrinting s, q_pending s) of
            (False, Some pending) \<Rightarrow> s\<lparr> q_pending := None, q_lastSaleForPrint := Some pending \<rparr>
          | _ \<Rightarrow> s\<lparr>q_lastPrinted := None\<rparr>)"

text \<open>How far the effect is from rest.\<close>

definition fresh_sale :: "print_queue \<Rightarrow> bool" where
  "fresh_sale s = (case q_lastSaleForPrint s of None \<Rightarrow> False | Some sale \<Rightarrow> q_lastPrinted s \<noteq> Some (x_id sale))"

definition print_work :: "print_queue \<Rightarrow> nat" where
  "print_work s =
     (if q_isSilentPrinting s
      then (if fresh_sale s \<and> q_pending s \<noteq> q_lastSaleForPrint s then 1 else 0)
           + (if q_lastSaleForPrint s = None \<and> q_lastPrinted s \<noteq> None then 1 else 0)
      else (if q_pending s \<noteq> None then 4 else 0) + (if fresh_sale s then 3 else 0)
           + (if q_lastSaleForPrint s = None \<and> q_pending s = None \<and> q_lastPrinted s \<noteq> None then 1 else 0))"

lemmas print_defs = print_effect_def handleSilentBitmapPrint_def onAfterPrint_def print_say_def

lemma print_effect_work: "print_effect cf s \<noteq> s \<Longrightarrow> print_work (print_effect cf s) < print_work s"
  by (cases s; cases "q_lastSaleForPrint s"; cases "q_pending s"; cases "q_isSilentPrinting s")
    (auto simp: print_defs print_work_def fresh_sale_def split: if_splits)

function settle_prints :: "print_config \<Rightarrow> print_queue \<Rightarrow> print_queue" where
  "settle_prints cf s = (if print_effect cf s = s then s else settle_prints cf (print_effect cf s))"
  by pat_completeness auto
termination
  by (relation "measure (\<lambda>(cf, s). print_work s)") (simp_all add: print_effect_work)

declare settle_prints.simps [simp del]

lemma settle_prints_rest: "print_effect cf (settle_prints cf s) = settle_prints cf s"
proof (induction cf s rule: settle_prints.induct)
  case (1 cf s)
  then show ?case by (subst (1 2) settle_prints.simps) auto
qed

datatype print_event = Hand_over sale | Print_end print_outcome | Close_simulation

fun print_handler :: "print_config \<Rightarrow> print_event \<Rightarrow> print_queue \<Rightarrow> print_queue" where
  "print_handler cf (Hand_over sale) s = s\<lparr>q_lastSaleForPrint := Some sale\<rparr>"
| "print_handler cf (Print_end out) s = print_ended cf out s"
| "print_handler cf Close_simulation s =
     (if q_simulatingSale s = None then s else onAfterPrint (s\<lparr>q_simulatingSale := None\<rparr>))"

definition print_step :: "print_config \<Rightarrow> print_queue \<Rightarrow> print_event \<Rightarrow> print_queue" where
  "print_step cf s e = settle_prints cf (print_handler cf e s)"

section \<open>What is printed\<close>

text \<open>Settings under which receipts are printed silently on a printer.\<close>

definition prints_silently :: "print_config \<Rightarrow> bool" where
  "prints_silently cf = (silent cf \<and> has_printer cf \<and> \<not> pc_simulate cf)"

definition queue_ok :: "print_queue \<Rightarrow> bool" where
  "queue_ok s = ((\<forall>i. q_lastPrinted s = Some i \<longrightarrow> i \<in> set (q_started s)) \<and> q_simulatingSale s = None
     \<and> (q_isSilentPrinting s \<longleftrightarrow> q_running s \<noteq> None))"

text \<open>A sale that has been printed or is still on its way.\<close>

definition on_its_way :: "sale \<Rightarrow> print_queue \<Rightarrow> bool" where
  "on_its_way sale s = (x_id sale \<in> set (q_started s) \<or> q_lastSaleForPrint s = Some sale
     \<or> q_lastSaleForPrint s = None \<and> q_pending s = Some sale)"

lemma print_effect_ok:
  assumes "prints_silently cf" and "queue_ok s"
  shows "queue_ok (print_effect cf s)"
  using assms
  by (cases s; cases "q_lastSaleForPrint s"; cases "q_pending s"; cases "q_isSilentPrinting s")
    (auto simp: print_defs queue_ok_def prints_silently_def split: if_splits)

lemma print_effect_way:
  assumes "prints_silently cf" and "queue_ok s" and "on_its_way sale s"
  shows "on_its_way sale (print_effect cf s)"
  using assms
  by (cases s; cases "q_lastSaleForPrint s"; cases "q_pending s"; cases "q_isSilentPrinting s")
    (auto simp: print_defs queue_ok_def on_its_way_def prints_silently_def split: if_splits)

lemma settle_ok: "prints_silently cf \<Longrightarrow> queue_ok s \<Longrightarrow> queue_ok (settle_prints cf s)"
proof (induction cf s rule: settle_prints.induct)
  case (1 cf s)
  then show ?case using print_effect_ok by (subst settle_prints.simps) auto
qed

lemma settle_way:
  "prints_silently cf \<Longrightarrow> queue_ok s \<Longrightarrow> on_its_way sale s \<Longrightarrow> on_its_way sale (settle_prints cf s)"
proof (induction cf s rule: settle_prints.induct)
  case (1 cf s)
  then show ?case using print_effect_ok print_effect_way by (subst settle_prints.simps) auto
qed

lemma print_ended_simps [simp]:
  "q_lastPrinted (print_ended cf out s) = q_lastPrinted s" "q_started (print_ended cf out s) = q_started s"
  "q_simulatingSale (print_ended cf out s) = q_simulatingSale s" "q_pending (print_ended cf out s) = q_pending s"
  "q_running (print_ended cf out s) = None"
  "q_isSilentPrinting (print_ended cf out s) = (q_running s = None \<and> q_isSilentPrinting s)"
  "q_lastSaleForPrint (print_ended cf out s) = (if q_running s = None then q_lastSaleForPrint s else None)"
  by (simp_all add: print_ended_def onAfterPrint_def print_say_def Let_def split: option.split print_outcome.split)

lemma print_handler_ok: "queue_ok s \<Longrightarrow> queue_ok (print_handler cf e s)"
  by (cases e) (auto simp: queue_ok_def)

text \<open>At rest a sale on its way has been started or waits while another one prints.\<close>

lemma way_at_rest:
  assumes "prints_silently cf" and "queue_ok s" and "on_its_way sale s" and "print_effect cf s = s"
  shows "x_id sale \<in> set (q_started s) \<or> q_isSilentPrinting s \<and> q_pending s = Some sale"
proof -
  note rest = arg_cong [OF assms(4), of q_lastSaleForPrint] arg_cong [OF assms(4), of q_isSilentPrinting]
    arg_cong [OF assms(4), of q_pending]
  consider "x_id sale \<in> set (q_started s)" | "q_lastSaleForPrint s = Some sale"
    | "q_lastSaleForPrint s = None" "q_pending s = Some sale"
    using assms(3) by (auto simp: on_its_way_def)
  then show ?thesis
  proof cases
    case 2
    then show ?thesis using rest assms(1,2)
      by (cases "q_lastPrinted s = Some (x_id sale)"; cases "q_isSilentPrinting s")
        (simp_all add: print_defs queue_ok_def prints_silently_def)
  next
    case 3
    then show ?thesis using rest by (cases "q_isSilentPrinting s") (simp_all add: print_defs)
  qed simp
qed

definition queue_inv :: "print_config \<Rightarrow> sale \<Rightarrow> print_queue \<Rightarrow> bool" where
  "queue_inv cf sale s = (queue_ok s \<and> on_its_way sale s \<and> print_effect cf s = s)"

fun no_handover :: "print_event \<Rightarrow> bool" where
  "no_handover (Hand_over s) = False"
| "no_handover _ = True"

lemma print_step_inv:
  assumes "prints_silently cf" and "queue_inv cf sale s" and "no_handover e"
  shows "queue_inv cf sale (print_step cf s e)"
proof -
  have ok: "queue_ok s" "on_its_way sale s" using assms(2) by (simp_all add: queue_inv_def)
  have r: "x_id sale \<in> set (q_started s) \<or> q_isSilentPrinting s \<and> q_pending s = Some sale"
    using way_at_rest [OF assms(1) ok] assms(2) by (simp add: queue_inv_def)
  have "on_its_way sale (print_handler cf e s)"
    using r ok assms(3) by (cases e) (auto simp: on_its_way_def queue_ok_def)
  then show ?thesis
    using print_handler_ok [OF ok(1)] settle_ok settle_way assms(1)
    by (simp add: queue_inv_def print_step_def settle_prints_rest)
qed

definition queue_rest :: "print_config \<Rightarrow> print_queue \<Rightarrow> bool" where
  "queue_rest cf s = (prints_silently cf \<longrightarrow> queue_ok s)"

lemma print_step_ok: "queue_rest cf s \<Longrightarrow> queue_rest cf (print_step cf s e)"
  by (simp add: queue_rest_def print_step_def print_handler_ok settle_ok)

interpretation prints: machine "print_step cf" "queue_rest cf" "\<lambda>e. True"
  by unfold_locales (rule print_step_ok)

interpretation prints_way: machine "print_step cf"
  "\<lambda>s. prints_silently cf \<and> queue_inv cf sale s" no_handover
  by unfold_locales (simp add: print_step_inv)

lemma hand_over_inv:
  assumes "prints_silently cf" and "queue_ok s"
  shows "queue_inv cf sale (print_step cf s (Hand_over sale))"
proof -
  let ?s = "s\<lparr>q_lastSaleForPrint := Some sale\<rparr>"
  have "queue_ok ?s" "on_its_way sale ?s" using assms(2) by (simp_all add: queue_ok_def on_its_way_def)
  then show ?thesis using assms(1) settle_ok settle_way
    by (simp add: queue_inv_def print_step_def settle_prints_rest)
qed

section \<open>Properties\<close>

text \<open>C17. The receipt handed over last is never lost: with silent printing on a printer, whatever happened
  before, once no print runs any more its print has been started, however the prints in between ended.\<close>

theorem latest_receipt_printed:
  assumes "prints_silently cf" and "\<forall>e\<in>set es. no_handover e"
    and "s = run (print_step cf) print_start (es0 @ Hand_over sale # es)" and "\<not> q_isSilentPrinting s"
  shows "x_id sale \<in> set (q_started s)"
proof -
  let ?s0 = "run (print_step cf) print_start es0"
  have "queue_rest cf ?s0" by (rule prints.run_inv) (simp_all add: queue_rest_def queue_ok_def print_start_def)
  then have "queue_ok ?s0" using assms(1) by (simp add: queue_rest_def)
  then have "prints_silently cf \<and> queue_inv cf sale (run (print_step cf) (print_step cf ?s0 (Hand_over sale)) es)"
    using assms(1,2) by (intro prints_way.run_inv) (simp_all add: hand_over_inv)
  then have i: "queue_ok s" "on_its_way sale s" "print_effect cf s = s"
    by (simp_all add: queue_inv_def assms(3) run_append)
  then show ?thesis using way_at_rest [OF assms(1) i] assms(4) by simp
qed

definition print_of :: "nat \<Rightarrow> sale" where
  "print_of n = \<lparr> x_id = [n], x_customer = [], x_customerId = None, x_staffId = None, x_staffName = None,
     x_date = [], x_timestamp = 0, x_subtotal = Fin 0, x_discount = Fin 0, x_vat = Fin 0, x_total = Fin 0,
     x_paymentMethod = Cash, x_splitDetails = None, x_installmentPlan = None, x_status = Completed,
     x_note = None, x_itemsCount = Fin 0, x_items = [], x_pointsRedeemed = None, x_pointsEarned = None,
     x_pointsAwarded = None \<rparr>"

definition till :: print_config where
  "till = \<lparr> pc_autoPrint = True, pc_format = js ''thermal'', pc_receiptPrinter = Some [80, 79, 83], pc_simulate = False \<rparr>"

lemma till_silent: "prints_silently till"
  using trim_id [of "[80, 79, 83]"]
  by (simp add: prints_silently_def silent_def has_printer_def till_def is_space_def)

text \<open>How the effect settles in the situations of a print queue.\<close>

lemma settle_rest: "print_effect cf s = s \<Longrightarrow> settle_prints cf s = s"
  by (subst settle_prints.simps) simp

lemma settle_more: "print_effect cf s = t \<Longrightarrow> settle_prints cf t = u \<Longrightarrow> settle_prints cf s = u"
  using settle_prints.simps [of cf s] settle_rest [of cf s] by (cases "t = s") simp_all

lemma settle_start:
  assumes "prints_silently cf" and "q_lastSaleForPrint s = Some x" and "q_lastPrinted s \<noteq> Some (x_id x)"
    and "\<not> q_isSilentPrinting s"
  shows "settle_prints cf s = s\<lparr> q_lastPrinted := Some (x_id x), q_isSilentPrinting := True, q_running := Some x,
     q_started := q_started s @ [x_id x] \<rparr>"
proof (rule settle_more [OF _ settle_rest])
  show "print_effect cf s = s\<lparr> q_lastPrinted := Some (x_id x), q_isSilentPrinting := True, q_running := Some x,
     q_started := q_started s @ [x_id x] \<rparr>"
    using assms by (simp add: print_defs prints_silently_def)
qed (use assms in \<open>simp add: print_effect_def prints_silently_def\<close>)

lemma settle_wait:
  assumes "prints_silently cf" and "q_lastSaleForPrint s = Some x" and "q_lastPrinted s \<noteq> Some (x_id x)"
    and "q_isSilentPrinting s"
  shows "settle_prints cf s = s\<lparr> q_pending := Some x \<rparr>"
proof (rule settle_more [OF _ settle_rest])
  show "print_effect cf s = s\<lparr> q_pending := Some x \<rparr>"
    using assms by (simp add: print_effect_def prints_silently_def)
qed (use assms in \<open>simp add: print_effect_def prints_silently_def\<close>)

lemma settle_resume:
  assumes "prints_silently cf" and "q_lastSaleForPrint s = None" and "q_pending s = Some x"
    and "q_lastPrinted s \<noteq> Some (x_id x)" and "\<not> q_isSilentPrinting s"
  shows "settle_prints cf s = s\<lparr> q_pending := None, q_lastSaleForPrint := Some x, q_lastPrinted := Some (x_id x),
     q_isSilentPrinting := True, q_running := Some x, q_started := q_started s @ [x_id x] \<rparr>"
proof (rule settle_more)
  show "print_effect cf s = s\<lparr> q_pending := None, q_lastSaleForPrint := Some x \<rparr>"
    using assms by (simp add: print_effect_def)
  show "settle_prints cf (s\<lparr> q_pending := None, q_lastSaleForPrint := Some x \<rparr>)
      = s\<lparr> q_pending := None, q_lastSaleForPrint := Some x, q_lastPrinted := Some (x_id x),
         q_isSilentPrinting := True, q_running := Some x, q_started := q_started s @ [x_id x] \<rparr>"
    using assms by (subst settle_start) simp_all
qed

lemma settle_idle:
  assumes "q_lastSaleForPrint s = None" and "q_pending s = None"
  shows "settle_prints cf s = s\<lparr>q_lastPrinted := None\<rparr>"
proof (rule settle_more [OF _ settle_rest])
  show "print_effect cf s = s\<lparr>q_lastPrinted := None\<rparr>"
    using assms by (simp add: print_effect_def split: bool.split)
qed (use assms in \<open>simp add: print_effect_def split: bool.split\<close>)

theorem latest_receipt_printed_witness:
  "x_id (print_of 2) \<in> set (q_started (run (print_step till) print_start
      ([Hand_over (print_of 1)] @ Hand_over (print_of 2) # [Print_end (Print_failed (js ''printer'') True), Print_end Printed])))"
  by (rule latest_receipt_printed [OF till_silent _ refl])
    (simp_all add: print_step_def print_start_def till_silent settle_start settle_wait settle_resume settle_idle
      print_of_def print_ended_def onAfterPrint_def print_say_def Let_def)

text \<open>The comment of the code promises that a rapid second sale is never silently dropped; of three it is:
  two sales handed over while a print runs share one place, and the earlier of them is never printed,
  without any message.\<close>

lemma middle_receipt_dropped:
  assumes "prints_silently cf" and "x_id a \<noteq> x_id b" and "x_id b \<noteq> x_id c" and "x_id a \<noteq> x_id c"
  shows "let s = run (print_step cf) print_start
             [Hand_over a, Hand_over b, Hand_over c, Print_end Printed, Print_end Printed]
     in q_started s = [x_id a, x_id c] \<and> \<not> q_isSilentPrinting s \<and> q_pending s = None
        \<and> q_calls s = [Bitmap_receipt (printer_name cf) (x_id a), Print_toast printed_msg T_success,
                       Bitmap_receipt (printer_name cf) (x_id c), Print_toast printed_msg T_success]"
  using assms
  by (simp add: print_step_def print_start_def settle_start settle_wait settle_resume settle_idle
      print_ended_def onAfterPrint_def print_say_def Let_def)

lemma middle_receipt_dropped_witness:
  "q_started (run (print_step till) print_start [Hand_over (print_of 1), Hand_over (print_of 2), Hand_over (print_of 3),
     Print_end Printed, Print_end Printed]) = [x_id (print_of 1), x_id (print_of 3)]"
  using middle_receipt_dropped [OF till_silent, of "print_of 1" "print_of 2" "print_of 3"]
  by (simp add: print_of_def Let_def del: run_Cons)

end
