(* ===== verification/Queries.thy ===== *)
theory Queries
  imports Domain "HOL-Library.Sublist"
begin

text \<open>
  The query layer: the keys and the invalidations of \<open>core/queryClient.ts\<close>, and the hooks that read one
  query and fill in what is missing. The cache itself is a library; of it the code uses that an
  invalidation with a key reaches every query whose key starts with it (\<open>reaches\<close>, a parameter).
\<close>

section \<open>Keys\<close>

datatype key_part = Kt jstr | Kn int | Kfilters "jstr option" "jstr option" "jstr option" | Kmissing

type_synonym query_key = "key_part list"

definition opt_text :: "jstr option \<Rightarrow> key_part" where
  "opt_text t = (case t of Some s \<Rightarrow> Kt s | None \<Rightarrow> Kmissing)"

abbreviation kt :: "string \<Rightarrow> key_part" where
  "kt s \<equiv> Kt (js s)"

definition products_all :: query_key where
  "products_all = [kt ''products'']"

definition products_list :: "jstr option \<Rightarrow> jstr option \<Rightarrow> jstr option \<Rightarrow> query_key" where
  "products_list search category status = products_all @ [kt ''list'', Kfilters search category status]"

definition inventory_all :: query_key where
  "inventory_all = [kt ''inventory'']"

definition inventory_products_key :: "int \<Rightarrow> int \<Rightarrow> jstr \<Rightarrow> jstr \<Rightarrow> jstr \<Rightarrow> jstr \<Rightarrow> query_key" where
  "inventory_products_key page pageSize search category supplier filterType =
     [kt ''inventory'', kt ''products'', Kn page, Kn pageSize, Kt search, Kt category, Kt supplier, Kt filterType]"

definition inventory_movements :: query_key where
  "inventory_movements = [kt ''inventory'', kt ''movements'']"

definition inventory_metadata :: query_key where
  "inventory_metadata = [kt ''inventory'', kt ''metadata'']"

definition customers_all :: query_key where
  "customers_all = [kt ''customers'']"

definition customers_list :: query_key where
  "customers_list = customers_all @ [kt ''list'']"

definition customers_paged :: "int \<Rightarrow> int \<Rightarrow> jstr \<Rightarrow> query_key" where
  "customers_paged page pageSize search = customers_all @ [kt ''paged'', Kn page, Kn pageSize, Kt search]"

definition suppliers_all :: query_key where
  "suppliers_all = [kt ''suppliers'']"

definition suppliers_list :: query_key where
  "suppliers_list = suppliers_all @ [kt ''list'']"

definition suppliers_paged :: "int \<Rightarrow> int \<Rightarrow> jstr \<Rightarrow> query_key" where
  "suppliers_paged page pageSize search = suppliers_all @ [kt ''paged'', Kn page, Kn pageSize, Kt search]"

definition sales_all :: query_key where
  "sales_all = [kt ''sales'']"

definition sales_list :: "int \<Rightarrow> int \<Rightarrow> jstr \<Rightarrow> jstr \<Rightarrow> jstr \<Rightarrow> query_key" where
  "sales_list page pageSize search status date =
     [kt ''sales'', kt ''list'', Kn page, Kn pageSize, Kt search, Kt status, Kt date]"

definition sales_installments :: "jstr \<Rightarrow> query_key" where
  "sales_installments customerId = [kt ''sales'', kt ''installments'', Kt customerId]"

definition sales_parked :: query_key where
  "sales_parked = sales_all @ [kt ''parked'']"

definition sales_parkedCount :: query_key where
  "sales_parkedCount = sales_all @ [kt ''parkedCount'']"

definition categories_key :: query_key where
  "categories_key = [kt ''categories'']"

definition dashboard_stats :: "jstr \<Rightarrow> query_key" where
  "dashboard_stats timeRange = [kt ''dashboard_stats'', Kt timeRange]"

definition finance_all :: query_key where
  "finance_all = [kt ''finance_data'']"

definition purchase_orders :: "jstr option \<Rightarrow> query_key" where
  "purchase_orders statusFilter = [kt ''purchaseOrders'', opt_text statusFilter]"

definition shifts_all :: query_key where
  "shifts_all = [kt ''shifts'']"

definition shifts_history :: "int \<Rightarrow> query_key" where
  "shifts_history limit = [kt ''shifts'', kt ''history'', Kn limit]"

definition shifts_movements :: "jstr option \<Rightarrow> query_key" where
  "shifts_movements shiftId = [kt ''shifts'', kt ''movements'', opt_text shiftId]"

definition staff_all :: query_key where
  "staff_all = [kt ''staff'']"

definition staff_reports :: query_key where
  "staff_reports = [kt ''reports'', kt ''staff'']"

definition discounts_all :: query_key where
  "discounts_all = [kt ''discounts'']"

lemmas key_defs = products_all_def products_list_def inventory_all_def inventory_products_key_def
  inventory_movements_def inventory_metadata_def customers_all_def customers_list_def customers_paged_def
  suppliers_all_def suppliers_list_def suppliers_paged_def sales_all_def sales_list_def sales_installments_def
  sales_parked_def sales_parkedCount_def categories_key_def dashboard_stats_def finance_all_def
  purchase_orders_def shifts_all_def shifts_history_def shifts_movements_def staff_all_def staff_reports_def
  discounts_all_def

text \<open>Two different requests never share a key: the keys of a family determine their arguments.\<close>

lemma keys_determine_arguments:
  "products_list os oc ot = products_list os' oc' ot' \<Longrightarrow> os = os' \<and> oc = oc' \<and> ot = ot'"
  "inventory_products_key p n s c u f = inventory_products_key p' n' s' c' u' f'
     \<Longrightarrow> p = p' \<and> n = n' \<and> s = s' \<and> c = c' \<and> u = u' \<and> f = f'"
  "customers_paged p n s = customers_paged p' n' s' \<Longrightarrow> p = p' \<and> n = n' \<and> s = s'"
  "suppliers_paged p n s = suppliers_paged p' n' s' \<Longrightarrow> p = p' \<and> n = n' \<and> s = s'"
  "sales_list p n s t d = sales_list p' n' s' t' d' \<Longrightarrow> p = p' \<and> n = n' \<and> s = s' \<and> t = t' \<and> d = d'"
  by (simp_all add: key_defs)

section \<open>Invalidation\<close>

definition invalidateProducts :: "query_key list" where
  "invalidateProducts = [[kt ''products''], [kt ''inventory''], [kt ''stockMovements''],
     [kt ''dashboard_stats''], [kt ''reports'']]"

definition invalidateCustomers :: "query_key list" where
  "invalidateCustomers = [[kt ''customers''], [kt ''reports'', kt ''customers''], [kt ''dashboard_stats'']]"

definition invalidateSales :: "query_key list" where
  "invalidateSales = [[kt ''sales''], [kt ''finance_data''], [kt ''dashboard_stats''], [kt ''reports'']]"

definition invalidateFinance :: "query_key list" where
  "invalidateFinance = [[kt ''finance_data''], [kt ''suppliers''], [kt ''purchaseOrders''],
     [kt ''reports'', kt ''expenses''], [kt ''dashboard_stats''], [kt ''shifts'']]"

definition invalidateShifts :: "query_key list" where
  "invalidateShifts = [[kt ''shifts''], [kt ''finance_data''], [kt ''reports'']]"

definition invalidateStaff :: "query_key list" where
  "invalidateStaff = [[kt ''staff''], [kt ''reports'', kt ''staff'']]"

definition invalidateDiscounts :: "query_key list" where
  "invalidateDiscounts = [[kt ''discounts'']]"

text \<open>\<open>invalidateQueries()\<close> without a filter.\<close>

definition invalidateAllData :: "query_key list" where
  "invalidateAllData = [[]]"

lemmas invalidation_defs = invalidateProducts_def invalidateCustomers_def invalidateSales_def
  invalidateFinance_def invalidateShifts_def invalidateStaff_def invalidateDiscounts_def invalidateAllData_def

text \<open>The documented reach of an invalidation.\<close>

definition reaches_prefixed :: "(query_key \<Rightarrow> query_key \<Rightarrow> bool) \<Rightarrow> bool" where
  "reaches_prefixed reaches = (\<forall>k r. reaches k (k @ r))"

definition refreshed :: "(query_key \<Rightarrow> query_key \<Rightarrow> bool) \<Rightarrow> query_key list \<Rightarrow> query_key \<Rightarrow> bool" where
  "refreshed reaches ks q = list_ex (\<lambda>k. reaches k q) ks"

lemma refreshed_prefix:
  assumes "reaches_prefixed reaches" and "k \<in> set ks" and "prefix k q"
  shows "refreshed reaches ks q"
  using assms by (auto simp: reaches_prefixed_def refreshed_def list_ex_iff prefix_def)

lemma all_refreshed: "reaches_prefixed reaches \<Longrightarrow> refreshed reaches invalidateAllData q"
  by (rule refreshed_prefix [where k = "[]"]) (simp_all add: invalidateAllData_def prefix_def)

text \<open>Every query of stock is refreshed by a change of products, whatever its arguments; likewise for the
  other families.\<close>

lemma families_refreshed:
  assumes r: "reaches_prefixed reaches"
  shows "refreshed reaches invalidateProducts (products_list os oc ot)"
    "refreshed reaches invalidateProducts (inventory_products_key p n s' c u f)"
    "refreshed reaches invalidateProducts inventory_movements"
    "refreshed reaches invalidateProducts inventory_metadata"
    "refreshed reaches invalidateProducts (dashboard_stats period)"
    "refreshed reaches invalidateCustomers customers_list"
    "refreshed reaches invalidateCustomers (customers_paged p n s')"
    "refreshed reaches invalidateSales (sales_list p n s' t' d)"
    "refreshed reaches invalidateSales (sales_installments cid)"
    "refreshed reaches invalidateSales sales_parked"
    "refreshed reaches invalidateSales sales_parkedCount"
    "refreshed reaches invalidateFinance (suppliers_paged p n s')"
    "refreshed reaches invalidateFinance suppliers_list"
    "refreshed reaches invalidateFinance (purchase_orders f')"
    "refreshed reaches invalidateShifts (shifts_history p)"
    "refreshed reaches invalidateShifts (shifts_movements f')"
    "refreshed reaches invalidateStaff staff_reports"
    "refreshed reaches invalidateDiscounts discounts_all"
  unfolding key_defs invalidation_defs
  by (rule refreshed_prefix [OF r, of "[kt ''products'']"] refreshed_prefix [OF r, of "[kt ''inventory'']"]
      refreshed_prefix [OF r, of "[kt ''dashboard_stats'']"] refreshed_prefix [OF r, of "[kt ''customers'']"]
      refreshed_prefix [OF r, of "[kt ''sales'']"] refreshed_prefix [OF r, of "[kt ''suppliers'']"]
      refreshed_prefix [OF r, of "[kt ''purchaseOrders'']"] refreshed_prefix [OF r, of "[kt ''shifts'']"]
      refreshed_prefix [OF r, of "[kt ''reports'', kt ''staff'']"] refreshed_prefix [OF r, of "[kt ''discounts'']"];
      simp)+

text \<open>Neither products nor customers nor sales nor finance refresh the list of categories, when nothing
  but prefixes is reached: only the invalidation of everything does.\<close>

lemma categories_not_refreshed:
  "\<not> refreshed prefix (invalidateProducts @ invalidateCustomers @ invalidateSales @ invalidateFinance) categories_key"
  by (simp add: refreshed_def key_defs invalidation_defs)

section \<open>The client\<close>

text \<open>The default options of the client, times in milliseconds.\<close>

record query_options =
  qo_staleTime :: int
  qo_gcTime :: int
  qo_retry :: nat
  qo_refetchOnMount :: bool
  qo_refetchOnWindowFocus :: bool
  qo_refetchOnReconnect :: bool
  qo_mutationRetry :: nat
  qo_retryDelay :: int

definition defaultOptions :: query_options where
  "defaultOptions = \<lparr> qo_staleTime = 1000 * 30, qo_gcTime = 1000 * 60 * 15, qo_retry = 0,
     qo_refetchOnMount = True, qo_refetchOnWindowFocus = False, qo_refetchOnReconnect = False,
     qo_mutationRetry = 1, qo_retryDelay = 500 \<rparr>"

section \<open>Hooks on one query\<close>

text \<open>What a hook shows for the data of its query, \<open>None\<close> while there is none; \<open>||\<close> also replaces the
  numbers that are falsy.\<close>

definition useCustomers :: "customer list option \<Rightarrow> customer list" where
  "useCustomers data = opt_default [] data"

record customers_page =
  cp_customers :: "customer list"
  cp_total :: jsnum
  cp_totalPages :: jsnum
  cp_page :: jsnum
  cp_pageSize :: jsnum

definition useCustomersPaged :: "customers_page option \<Rightarrow> jsnum \<Rightarrow> jsnum \<Rightarrow> customers_page" where
  "useCustomersPaged data page pageSize =
     \<lparr> cp_customers = (case data of Some d \<Rightarrow> cp_customers d | None \<Rightarrow> []),
       cp_total = opt_num_or (map_option cp_total data) (Fin 0),
       cp_totalPages = opt_num_or (map_option cp_totalPages data) (Fin 1),
       cp_page = opt_num_or (map_option cp_page data) page,
       cp_pageSize = opt_num_or (map_option cp_pageSize data) pageSize \<rparr>"

text \<open>A page without customers is shown as one page, not as none.\<close>

lemma empty_page_has_one_page:
  "cp_totalPages (useCustomersPaged (Some \<lparr> cp_customers = [], cp_total = Fin 0, cp_totalPages = Fin 0,
     cp_page = p, cp_pageSize = n \<rparr>) p n) = Fin 1"
  by (simp add: useCustomersPaged_def opt_num_or_def num_or_def truthy_def)

record invoices_data =
  iv_data :: "sale list"
  iv_total :: jsnum
  iv_stats :: "invoice_stats option"

definition no_invoice_stats :: invoice_stats where
  "no_invoice_stats = \<lparr> is_count = Fin 0, is_total = Fin 0, is_pending = Fin 0, is_returns = Fin 0 \<rparr>"

definition useInvoices :: "invoices_data option \<Rightarrow> invoices_data" where
  "useInvoices data =
     \<lparr> iv_data = (case data of Some d \<Rightarrow> iv_data d | None \<Rightarrow> []),
       iv_total = opt_num_or (map_option iv_total data) (Fin 0),
       iv_stats = Some (case data of Some d \<Rightarrow> opt_default no_invoice_stats (iv_stats d) | None \<Rightarrow> no_invoice_stats) \<rparr>"

record labelled =
  lb_label :: jstr
  lb_value :: jsnum

record dashboard =
  db_totalRevenue :: jsnum
  db_totalOrders :: jsnum
  db_dailyRevenue :: jsnum
  db_dailyOrders :: jsnum
  db_chartData :: "labelled list"
  db_topSelling :: "labelled list"
  db_recentSales :: "sale list"
  db_lowStockCount :: jsnum
  db_totalProducts :: jsnum
  db_topCustomers :: "labelled list"
  db_expenseBreakdown :: "labelled list"

definition defaultStats :: dashboard where
  "defaultStats = \<lparr> db_totalRevenue = Fin 0, db_totalOrders = Fin 0, db_dailyRevenue = Fin 0,
     db_dailyOrders = Fin 0, db_chartData = [], db_topSelling = [], db_recentSales = [],
     db_lowStockCount = Fin 0, db_totalProducts = Fin 0, db_topCustomers = [], db_expenseBreakdown = [] \<rparr>"

definition useDashboardStats :: "dashboard option \<Rightarrow> dashboard" where
  "useDashboardStats data = opt_default defaultStats data"

text \<open>When the dashboard is fetched: never while the page is hidden.\<close>

definition dashboard_interval :: "bool \<Rightarrow> int option" where
  "dashboard_interval isVisible = (if isVisible then Some 120000 else None)"

record month_data =
  mo_label :: jstr
  mo_revenue :: jsnum
  mo_orders :: jsnum
  mo_netProfit :: jsnum
  mo_avgOrder :: jsnum
  mo_expenses :: jsnum

record monthly_comparison =
  mc_currentMonth :: month_data
  mc_previousMonth :: month_data
  mc_revenueChange :: jsnum
  mc_ordersChange :: jsnum
  mc_profitChange :: jsnum

definition defaultMonthData :: month_data where
  "defaultMonthData = \<lparr> mo_label = [], mo_revenue = Fin 0, mo_orders = Fin 0, mo_netProfit = Fin 0,
     mo_avgOrder = Fin 0, mo_expenses = Fin 0 \<rparr>"

definition defaultComparison :: monthly_comparison where
  "defaultComparison = \<lparr>
     mc_currentMonth = defaultMonthData\<lparr>mo_label := [1575, 1604, 1588, 1607, 1585, 32,
       1575, 1604, 1581, 1575, 1604, 1610]\<rparr>,
     mc_previousMonth = defaultMonthData\<lparr>mo_label := [1575, 1604, 1588, 1607, 1585, 32,
       1575, 1604, 1587, 1575, 1576, 1602]\<rparr>,
     mc_revenueChange = Fin 0, mc_ordersChange = Fin 0, mc_profitChange = Fin 0 \<rparr>"

definition useMonthlyComparison :: "monthly_comparison option \<Rightarrow> monthly_comparison" where
  "useMonthlyComparison data = opt_default defaultComparison data"

text \<open>The finance page asks four lists at once; each failure is an empty list on its own.\<close>

record finance_data =
  fd_expenses :: "expense list"
  fd_suppliers :: "supplier list"
  fd_sales :: "sale list"
  fd_purchaseOrders :: "purchase_order list"

definition or_empty :: "unit + 'a list \<Rightarrow> 'a list" where
  "or_empty r = (case r of Inl e \<Rightarrow> [] | Inr xs \<Rightarrow> xs)"

definition useFinanceData ::
  "unit + expense list \<Rightarrow> unit + supplier list \<Rightarrow> unit + sale list \<Rightarrow> unit + purchase_order list \<Rightarrow> finance_data" where
  "useFinanceData e s sa po = \<lparr> fd_expenses = or_empty e, fd_suppliers = or_empty s,
     fd_sales = or_empty sa, fd_purchaseOrders = or_empty po \<rparr>"

lemma finance_parts_independent:
  "fd_sales (useFinanceData (Inl u) (Inl u) (Inr sa) (Inl u)) = sa"
  "fd_expenses (useFinanceData (Inr e) s sa' po) = e"
  by (simp_all add: useFinanceData_def or_empty_def)

text \<open>The cash movements of a shift: without a shift the query is off and empty.\<close>

definition shift_selected :: "jstr option \<Rightarrow> bool" where
  "shift_selected shiftId = (case shiftId of Some s \<Rightarrow> s \<noteq> [] | None \<Rightarrow> False)"

definition useShiftMovements :: "(jstr \<Rightarrow> cash_movement list option) \<Rightarrow> jstr option \<Rightarrow> cash_movement list" where
  "useShiftMovements getMovements shiftId =
     (case shiftId of Some s \<Rightarrow> (if s = [] then [] else opt_default [] (getMovements s)) | None \<Rightarrow> [])"

lemma no_shift_no_movements: "\<not> shift_selected i \<Longrightarrow> useShiftMovements f i = []"
  by (simp add: shift_selected_def useShiftMovements_def split: option.splits if_splits)

section \<open>Licences\<close>

text \<open>\<open>core/license.ts\<close>: a failing backend is an empty device id and a refused activation.\<close>

definition getDeviceId :: "unit + jstr \<Rightarrow> jstr" where
  "getDeviceId r = (case r of Inl e \<Rightarrow> [] | Inr i \<Rightarrow> i)"

definition license_unreachable :: jstr where
  "license_unreachable = [1578, 1593, 1584, 1585, 32, 1575, 1604, 1575, 1578, 1589, 1575, 1604,
    32, 1576, 1582, 1575,
  1583, 1605, 32, 1575, 1604, 1578, 1585, 1575, 1582, 1610, 1589, 46, 32, 1578, 1571, 1603, 1583,
  32, 1605, 1606, 32, 1575, 1604, 1573, 1606, 1578, 1585, 1606, 1578, 46]"

definition activateLicense :: "unit + bool \<times> jstr \<Rightarrow> bool \<times> jstr" where
  "activateLicense r = (case r of Inr (licensed, message) \<Rightarrow> (licensed, message) | Inl e \<Rightarrow> (False, license_unreachable))"

lemma activation_needs_answer: "fst (activateLicense r) \<Longrightarrow> \<exists>m. r = Inr (True, m)"
  by (auto simp: activateLicense_def split: sum.splits)

end
