(* ===== verification/ForceDelete.thy ===== *)
theory ForceDelete
  imports StaffErrors AppShell
begin

text \<open>
  Deleting with confirmation, as customers (\<open>features/customers/customers.tsx\<close>), suppliers
  (\<open>features/finance/finance.tsx\<close>), staff (\<open>components/StaffManager.tsx\<close>), products and categories
  (\<open>features/products/products.tsx\<close>) do it: a dialog, the request, and, when the backend refuses but
  allows force, a second dialog whose confirmation asks again with force. The five screens are values of
  one record; the observations of a run are kept with the latest first.
\<close>

section \<open>Refusals\<close>

text \<open>\<open>String(err)\<close> of what was thrown, and the \<open>AppError\<close> read from it: \<open>null\<close> when it is no JSON.\<close>

definition thrown_text :: "thrown \<Rightarrow> jstr" where
  "thrown_text e = (case e of
     Thrown_value v \<Rightarrow> js_string v
   | Thrown_error m \<Rightarrow> (if m = [] then js ''Error'' else js ''Error: '' @ m))"

definition app_error :: "jstr \<Rightarrow> json" where
  "app_error errStr =
     (let jsonPart = (if str_includes errStr [123] then dropWhile (\<lambda>c. c \<noteq> 123) errStr else errStr)
      in case json_parse jsonPart of Some v \<Rightarrow> v | None \<Rightarrow> JNull)"

text \<open>\<open>v?.k\<close>.\<close>

definition chain :: "json \<Rightarrow> jstr \<Rightarrow> json" where
  "chain v k = (case v of JObj ps \<Rightarrow> obj_get ps k | _ \<Rightarrow> JUndef)"

definition offers_force :: "thrown \<Rightarrow> bool" where
  "offers_force e = json_truthy (chain (chain (app_error (thrown_text e)) (js ''options'')) (js ''allowForce''))"

definition force_message :: "thrown \<Rightarrow> jstr" where
  "force_message e =
     (let a = app_error (thrown_text e)
      in js_string (chain a (js ''message'')) @ [10, 10]
         @ (if json_truthy (chain a (js ''hint'')) then js_string (chain a (js ''hint'')) else []))"

text \<open>\<open>appErr?.message || errStr || d\<close>.\<close>

definition delete_error :: "jstr \<Rightarrow> thrown \<Rightarrow> jstr" where
  "delete_error d e =
     (let m = chain (app_error (thrown_text e)) (js ''message'')
      in if json_truthy m then js_string m else if thrown_text e \<noteq> [] then thrown_text e else d)"

section \<open>Screens\<close>

datatype refresh = Refresh_products | Refresh_categories | Refresh_staff | Refresh_all | Reload | Close_category_modal

record delete_screen =
  ds_title :: "jstr \<Rightarrow> jstr"
  ds_message :: "jstr \<Rightarrow> jstr"
  ds_type :: modal_type
  ds_deleted :: jstr
  ds_refresh :: "refresh list"
  ds_error :: "thrown \<Rightarrow> jstr"
  ds_sends_force :: bool

definition delete_failed_ar :: jstr where
  "delete_failed_ar = [1582, 1591, 1571, 32, 1601, 1610, 32, 1575, 1604, 1581, 1584, 1601]"

definition customer_screen :: delete_screen where
  "customer_screen = \<lparr>
     ds_title = (\<lambda>i. [1581, 1584, 1601, 32, 1575, 1604, 1593, 1605, 1610, 1604]),
     ds_message = (\<lambda>i. [1607, 1604, 32, 1571, 1606, 1578, 32, 1605, 1578, 1571, 1603,
       1583, 32, 1605, 1606, 32, 1581,
  1584, 1601, 32, 1607, 1584, 1575, 32, 1575, 1604, 1593, 1605, 1610, 1604, 1567, 32, 1587, 1610,
  1578, 1605, 32, 1581, 1584, 1601, 32, 1580, 1605, 1610, 1593, 32, 1575, 1604, 1576, 1610, 1575,
  1606, 1575, 1578, 32, 1575, 1604, 1605, 1585, 1578, 1576, 1591, 1577, 32, 1576, 1607, 46]),
     ds_type = Mt_error, ds_deleted = [1578, 1605, 32, 1575, 1604, 1581, 1584, 1601],
       ds_refresh = [Refresh_all],
     ds_error = delete_error delete_failed_ar, ds_sends_force = True \<rparr>"

definition supplier_screen :: delete_screen where
  "supplier_screen = \<lparr>
     ds_title = (\<lambda>i. [1581, 1584, 1601, 32, 1575, 1604, 1605, 1608, 1585, 1583]),
     ds_message = (\<lambda>i. [1607, 1604, 32, 1571, 1606, 1578, 32, 1605, 1578, 1571, 1603,
       1583, 32, 1605, 1606, 32, 1581,
  1584, 1601, 32, 1607, 1584, 1575, 32, 1575, 1604, 1605, 1608, 1585, 1583, 1567, 32, 1587, 1610,
  1578, 1605, 32, 1581, 1584, 1601, 32, 1580, 1605, 1610, 1593, 32, 1575, 1604, 1576, 1610, 1575,
  1606, 1575, 1578, 32, 1575, 1604, 1605, 1585, 1578, 1576, 1591, 1577, 32, 1576, 1607, 46]),
     ds_type = Mt_error, ds_deleted = [1578, 1605, 32, 1581, 1584, 1601, 32, 1575, 1604, 1605,
       1608, 1585, 1583], ds_refresh = [Refresh_all, Reload],
     ds_error = delete_error delete_failed_ar, ds_sends_force = True \<rparr>"

definition staff_screen :: delete_screen where
  "staff_screen = \<lparr>
     ds_title = (\<lambda>i. [1581, 1584, 1601, 32, 1575, 1604, 1605, 1608, 1592, 1601]),
     ds_message = (\<lambda>i. [1607, 1604, 32, 1571, 1606, 1578, 32, 1605, 1578, 1571, 1603,
       1583, 32, 1605, 1606, 32, 1581,
  1584, 1601, 32, 1607, 1584, 1575, 32, 1575, 1604, 1605, 1608, 1592, 1601, 1567, 32, 1604, 1575,
  32, 1610, 1605, 1603, 1606, 32, 1575, 1604, 1578, 1585, 1575, 1580, 1593, 32, 1593, 1606, 32,
  1607, 1584, 1575, 32, 1575, 1604, 1573, 1580, 1585, 1575, 1569, 46]),
     ds_type = Mt_error, ds_deleted = [1578, 1605, 32, 1581, 1584, 1601, 32, 1575, 1604, 1605,
       1608, 1592, 1601, 32, 1576, 1606, 1580,
  1575, 1581], ds_refresh = [Refresh_staff, Refresh_all, Reload],
     ds_error = (\<lambda>e. js_string (se_message (parseStaffError e))), ds_sends_force = True \<rparr>"

text \<open>The texts of the product screen come from the translations; its second dialog repeats the call
  without force.\<close>

definition product_screen :: "jstr \<Rightarrow> jstr \<Rightarrow> jstr \<Rightarrow> jstr \<Rightarrow> delete_screen" where
  "product_screen deleteTitle deleteMessage productDeleted deleteFailed = \<lparr>
     ds_title = (\<lambda>i. deleteTitle), ds_message = (\<lambda>i. deleteMessage), ds_type = Mt_error,
     ds_deleted = productDeleted, ds_refresh = [Refresh_products, Refresh_all, Reload],
     ds_error = (\<lambda>e. deleteFailed), ds_sends_force = False \<rparr>"

definition category_screen :: "(jstr \<Rightarrow> jstr) \<Rightarrow> delete_screen" where
  "category_screen nameOf = \<lparr>
     ds_title = (\<lambda>i. [1581, 1584, 1601, 32, 1575, 1604, 1601, 1574, 1577]),
     ds_message = (\<lambda>i. [1607, 1604, 32, 1571, 1606, 1578, 32, 1605, 1578, 1571, 1603,
       1583, 32, 1605, 1606, 32, 1581,
  1584, 1601, 32, 1601, 1574, 1577, 32, 34] @ nameOf i @
        [34, 1567, 32, 1605, 1606, 1578, 1580, 1575, 1578, 32, 1607, 1584, 1607, 32, 1575, 1604,
          1601,
  1574, 1577, 32, 1587, 1578, 1578, 1581, 1608, 1604, 32, 1573, 1604, 1609, 32, 34, 1594, 1610,
  1585, 32, 1605, 1589, 1606, 1601, 34, 46]),
     ds_type = Mt_warning, ds_deleted = [1578, 1605, 32, 1581, 1584, 1601, 32, 1575, 1604, 1601,
       1574, 1577, 32, 1576, 1606, 1580, 1575,
  1581],
     ds_refresh = [Refresh_categories, Reload, Close_category_modal],
     ds_error = delete_error ([1582, 1591, 1571, 32, 1601, 1610, 32, 1581, 1584, 1601, 32, 1575,
       1604, 1601, 1574, 1577]), ds_sends_force = True \<rparr>"

section \<open>The dialog and the requests\<close>

datatype delete_answer = Deleted | Refused thrown

datatype delete_obs = Sent jstr bool | Answer jstr bool delete_answer | Delete_toast jstr toast_kind | Refreshed refresh

record delete_state =
  dl_open :: bool
  dl_title :: jstr
  dl_message :: jstr
  dl_type :: modal_type
  dl_action :: "(jstr \<times> bool) option"
  dl_requests :: "(jstr \<times> bool) list"
  dl_trace :: "delete_obs list"

definition delete_start :: delete_state where
  "delete_start = \<lparr> dl_open = False, dl_title = [], dl_message = [], dl_type = Mt_confirm, dl_action = None,
     dl_requests = [], dl_trace = [] \<rparr>"

definition observe :: "delete_obs list \<Rightarrow> delete_state \<Rightarrow> delete_state" where
  "observe os s = s\<lparr>dl_trace := rev os @ dl_trace s\<rparr>"

definition close_dialog :: "delete_state \<Rightarrow> delete_state" where
  "close_dialog s = s\<lparr>dl_open := False\<rparr>"

definition handleDelete :: "delete_screen \<Rightarrow> jstr \<Rightarrow> delete_state \<Rightarrow> delete_state" where
  "handleDelete sc i s = s\<lparr> dl_open := True, dl_title := ds_title sc i, dl_message := ds_message sc i,
     dl_type := ds_type sc, dl_action := Some (i, False) \<rparr>"

text \<open>\<open>performDelete\<close> up to the await, and the rest.\<close>

definition performDelete :: "delete_screen \<Rightarrow> jstr \<Rightarrow> bool \<Rightarrow> delete_state \<Rightarrow> delete_state" where
  "performDelete sc i force s =
     observe [Sent i (force \<and> ds_sends_force sc)] (s\<lparr>dl_requests := dl_requests s @ [(i, force)]\<rparr>)"

definition force_title :: jstr where
  "force_title = [1578, 1593, 1584, 1585, 32, 1575, 1604, 1581, 1584, 1601, 32, 45, 32, 1605,
    1591, 1604, 1608,
  1576, 32, 1578, 1571, 1603, 1610, 1583, 32, 1573, 1590, 1575, 1601, 1610]"

definition delete_answered :: "delete_screen \<Rightarrow> jstr \<Rightarrow> bool \<Rightarrow> delete_answer \<Rightarrow> delete_state \<Rightarrow> delete_state" where
  "delete_answered sc i force a s =
     (let s1 = observe [Answer i force a] s
      in case a of
          Deleted \<Rightarrow> close_dialog (observe (Delete_toast (ds_deleted sc) T_success # map Refreshed (ds_refresh sc)) s1)
        | Refused e \<Rightarrow>
            (if offers_force e
             then s1\<lparr> dl_open := True, dl_title := force_title, dl_message := force_message e,
                     dl_type := Mt_warning, dl_action := Some (i, True) \<rparr>
             else close_dialog (observe [Delete_toast (ds_error sc e) T_error] s1)))"

datatype delete_event = Ask_delete jstr | Confirm_delete | Cancel_delete | Delete_answered nat delete_answer

fun delete_step :: "delete_screen \<Rightarrow> delete_state \<Rightarrow> delete_event \<Rightarrow> delete_state" where
  "delete_step sc s (Ask_delete i) = handleDelete sc i s"
| "delete_step sc s Confirm_delete =
     (case dl_action s of
        Some (i, force) \<Rightarrow> (if dl_open s then performDelete sc i force s else s)
      | None \<Rightarrow> s)"
| "delete_step sc s Cancel_delete = close_dialog s"
| "delete_step sc s (Delete_answered n a) =
     (if n < length (dl_requests s)
      then delete_answered sc (fst (dl_requests s ! n)) (snd (dl_requests s ! n)) a
             (s\<lparr>dl_requests := take n (dl_requests s) @ drop (Suc n) (dl_requests s)\<rparr>)
      else s)"

section \<open>Force needs an offer\<close>

definition offered :: "jstr \<Rightarrow> delete_obs list \<Rightarrow> bool" where
  "offered i tr = list_ex (\<lambda>ob. case ob of Answer j f (Refused e) \<Rightarrow> j = i \<and> offers_force e | _ \<Rightarrow> False) tr"

text \<open>Every forced deletion in the observations has an earlier refusal of the same entry that allowed it.\<close>

fun force_justified :: "delete_obs list \<Rightarrow> bool" where
  "force_justified [] = True"
| "force_justified (ob # tr) = ((\<forall>i. ob = Sent i True \<longrightarrow> offered i tr) \<and> force_justified tr)"

definition delete_inv :: "delete_state \<Rightarrow> bool" where
  "delete_inv s = (force_justified (dl_trace s)
     \<and> (\<forall>i. dl_action s = Some (i, True) \<longrightarrow> offered i (dl_trace s)))"

lemma offered_append: "offered i tr \<Longrightarrow> offered i (xs @ tr)"
  by (simp add: offered_def)

lemma offered_refusal: "offered i tr \<Longrightarrow> \<exists>f e. Answer i f (Refused e) \<in> set tr \<and> offers_force e"
proof (induction tr)
  case (Cons ob tr)
  show ?case
  proof (cases "offered i tr")
    case True
    then show ?thesis using Cons.IH by auto
  next
    case False
    then have "case ob of Answer j f (Refused e) \<Rightarrow> j = i \<and> offers_force e | _ \<Rightarrow> False"
      using Cons.prems by (simp add: offered_def)
    then show ?thesis by (cases ob; simp split: delete_answer.splits) auto
  qed
qed (simp add: offered_def)

lemma offered_Cons: "offered i tr \<Longrightarrow> offered i (x # tr)"
  by (simp add: offered_def)

lemma force_justified_append:
  "(\<forall>i. Sent i True \<notin> set xs) \<Longrightarrow> force_justified tr \<Longrightarrow> force_justified (xs @ tr)"
  by (induction xs) auto

lemma answered_trace:
  obtains xs where "dl_trace (delete_answered sc i f a s) = xs @ Answer i f a # dl_trace s" "\<forall>i. Sent i True \<notin> set xs"
proof (cases a)
  case Deleted
  then show ?thesis
    by (intro that [of "rev (Delete_toast (ds_deleted sc) T_success # map Refreshed (ds_refresh sc))"])
      (auto simp: delete_answered_def observe_def close_dialog_def Let_def)
next
  case (Refused e)
  then show ?thesis
    by (cases "offers_force e", intro that [of "[]"], simp_all add: delete_answered_def observe_def Let_def)
      (intro that [of "[Delete_toast (ds_error sc e) T_error]"],
        simp_all add: delete_answered_def observe_def close_dialog_def Let_def)
qed
lemma answered_action:
  "dl_action (delete_answered sc i f a s) = (case a of
     Refused e \<Rightarrow> (if offers_force e then Some (i, True) else dl_action s) | Deleted \<Rightarrow> dl_action s)"
  by (cases a) (simp_all add: delete_answered_def observe_def close_dialog_def Let_def)

lemma delete_step_inv: "delete_inv s \<Longrightarrow> delete_inv (delete_step sc s e)"
proof (cases e)
  case Confirm_delete
  assume s: "delete_inv s"
  show ?thesis
  proof (cases "dl_action s")
    case None
    then show ?thesis using s Confirm_delete by simp
  next
    case (Some p)
    then show ?thesis using s Confirm_delete
      by (cases p) (auto simp: delete_inv_def performDelete_def observe_def offered_Cons)
  qed
next
  case (Delete_answered n a)
  assume s: "delete_inv s"
  show ?thesis
  proof (cases "n < length (dl_requests s)")
    case True
    obtain i f where r: "dl_requests s ! n = (i, f)" by (cases "dl_requests s ! n")
    let ?s = "s\<lparr>dl_requests := take n (dl_requests s) @ drop (Suc n) (dl_requests s)\<rparr>"
    obtain xs where t: "dl_trace (delete_answered sc i f a ?s) = xs @ Answer i f a # dl_trace s"
      "\<forall>i. Sent i True \<notin> set xs" using answered_trace [of sc i f a ?s] by auto
    have "force_justified (dl_trace (delete_answered sc i f a ?s))"
      using s force_justified_append [OF t(2), of "Answer i f a # dl_trace s"] unfolding t(1) by (simp add: delete_inv_def)
    moreover have "offered j (dl_trace (delete_answered sc i f a ?s))"
      if "dl_action (delete_answered sc i f a ?s) = Some (j, True)" for j
    proof -
      have "dl_action s = Some (j, True) \<or> (\<exists>e. a = Refused e \<and> offers_force e \<and> i = j)"
        using that by (auto simp: answered_action split: delete_answer.splits if_splits)
      then have "offered j (Answer i f a # dl_trace s)"
      proof
        assume "dl_action s = Some (j, True)"
        then show ?thesis using s by (simp add: delete_inv_def offered_Cons)
      qed (auto simp: offered_def)
      then show ?thesis unfolding t(1) by (rule offered_append)
    qed
    ultimately show ?thesis using True r Delete_answered by (simp add: delete_inv_def)
  qed (use s Delete_answered in simp)
qed (auto simp: delete_inv_def handleDelete_def close_dialog_def)

interpretation deletes: machine "delete_step sc" delete_inv "\<lambda>e. True"
  by unfold_locales (rule delete_step_inv)

lemma delete_start_inv: "delete_inv delete_start"
  by (simp add: delete_inv_def delete_start_def)

section \<open>Properties\<close>

text \<open>C18. Nothing is deleted by force that the backend did not offer: on every screen and in every run, a
  request with force comes after a refusal of the same entry that allowed it, and so after two
  confirmations.\<close>

theorem force_needs_offer:
  assumes "dl_trace (run (delete_step sc) delete_start es) = later @ Sent i True # earlier"
  shows "\<exists>f e. Answer i f (Refused e) \<in> set earlier \<and> offers_force e"
proof -
  have "delete_inv (run (delete_step sc) delete_start es)"
    by (rule deletes.run_inv [OF delete_start_inv]) simp
  then have "force_justified (later @ Sent i True # earlier)" using assms by (simp add: delete_inv_def)
  then have "offered i earlier" by (induction later) auto
  then show ?thesis by (rule offered_refusal)
qed

text \<open>A refusal that allows force: the text of an object with \<open>options.allowForce\<close>.\<close>

definition force_text :: jstr where
  "force_text = [123, 34, 111, 112, 116, 105, 111, 110, 115, 34, 58, 123, 34, 97, 108, 108, 111,
    119, 70, 111, 114,
     99, 101, 34, 58, 49, 125, 125]"

definition force_allowed :: thrown where
  "force_allowed = Thrown_value (JStr force_text)"

lemma force_text_parsed:
  "json_parse [123, 34, 111, 112, 116, 105, 111, 110, 115, 34, 58, 123, 34, 97, 108, 108, 111,
    119, 70, 111, 114,
     99, 101, 34, 58, 49, 125, 125] =
   Some (JObj [([111, 112, 116, 105, 111, 110, 115],
     JObj [([97, 108, 108, 111, 119, 70, 111, 114, 99, 101], JNum (Fin 1))])])"
  by code_simp

lemma force_allowed_offers: "offers_force force_allowed"
proof -
  have "dropWhile (\<lambda>c. c \<noteq> 123) force_text = force_text" by (simp add: force_text_def)
  then show ?thesis
    by (simp add: offers_force_def force_allowed_def thrown_text_def app_error_def Let_def
        force_text_parsed [folded force_text_def] chain_def obj_get_def truthy_def)
qed

theorem force_needs_offer_witness:
  "\<exists>f e. Answer [7] f (Refused e) \<in> set (tl (dl_trace (run (delete_step customer_screen) delete_start
      [Ask_delete [7], Confirm_delete, Delete_answered 0 (Refused force_allowed), Confirm_delete]))) \<and> offers_force e"
proof -
  let ?tr = "dl_trace (run (delete_step customer_screen) delete_start
      [Ask_delete [7], Confirm_delete, Delete_answered 0 (Refused force_allowed), Confirm_delete])"
  have "?tr = [] @ Sent [7] True # tl ?tr"
    by (simp add: handleDelete_def performDelete_def observe_def delete_answered_def Let_def force_allowed_offers
        delete_start_def customer_screen_def)
  then show ?thesis by (rule force_needs_offer)
qed

text \<open>The forced deletion of a product is none: the second dialog of the product screen sends the same
  request without force, so that a backend that answers alike offers force again, in the same dialog, and
  the product is never deleted.\<close>

lemma product_force_repeats:
  assumes "offers_force e" and "s = run (delete_step (product_screen ttl msg ok fail)) delete_start
      [Ask_delete i, Confirm_delete, Delete_answered 0 (Refused e)]"
  shows "let s' = run (delete_step (product_screen ttl msg ok fail)) s [Confirm_delete, Delete_answered 0 (Refused e)]
     in dl_open s' \<and> dl_action s' = dl_action s \<and> dl_message s' = dl_message s \<and> dl_requests s' = []
        \<and> filter (\<lambda>ob. case ob of Sent j f \<Rightarrow> True | _ \<Rightarrow> False) (dl_trace s') = [Sent i False, Sent i False]"
  using assms(1) unfolding assms(2)
  by (simp add: handleDelete_def performDelete_def observe_def delete_answered_def Let_def delete_start_def product_screen_def)

lemma product_force_repeats_witness:
  "dl_open (run (delete_step (product_screen [] [] [] [])) delete_start
      [Ask_delete [7], Confirm_delete, Delete_answered 0 (Refused force_allowed), Confirm_delete,
       Delete_answered 0 (Refused force_allowed)])"
  using product_force_repeats [OF force_allowed_offers refl, of "[]" "[]" "[]" "[]" "[7]"]
  by (simp add: Let_def run_append [symmetric] del: run_Cons)

end
