(* ===== verification/Pages.thy ===== *)
theory Pages
  imports Queries AppShell StaffErrors
begin

text \<open>
  What the management pages share: the state of a page, the requests it waits for, and the calls it
  has made, in order. A handler that awaits a request is cut there: its first half asks, and what
  follows the \<open>await\<close> is applied to the page of the moment the answer comes. At the end the contract
  of a form that is sent without a guard, and what follows for two clicks.
\<close>

datatype 'r page_call =
    Says jstr toast_kind
  | Asks 'r
  | Invalidates "query_key list"
  | Refetches

record ('p, 'r) page_world =
  pw_page :: 'p
  pw_open :: "'r list"
  pw_calls :: "'r page_call list"

definition fresh_page :: "'p \<Rightarrow> ('p, 'r) page_world" where
  "fresh_page p = \<lparr> pw_page = p, pw_open = [], pw_calls = [] \<rparr>"

definition tells :: "'r page_call list \<Rightarrow> ('p, 'r) page_world \<Rightarrow> ('p, 'r) page_world" where
  "tells cs W = W\<lparr>pw_calls := pw_calls W @ cs\<rparr>"

definition turns :: "('p \<Rightarrow> 'p) \<Rightarrow> ('p, 'r) page_world \<Rightarrow> ('p, 'r) page_world" where
  "turns f W = W\<lparr>pw_page := f (pw_page W)\<rparr>"

definition asks :: "'r \<Rightarrow> ('p, 'r) page_world \<Rightarrow> ('p, 'r) page_world" where
  "asks r W = W\<lparr>pw_open := pw_open W @ [r], pw_calls := pw_calls W @ [Asks r]\<rparr>"

text \<open>The answer to the open request number \<open>i\<close>, in the order of asking; any of them may come first.\<close>

definition answers :: "nat \<Rightarrow> ('r \<Rightarrow> ('p, 'r) page_world \<Rightarrow> ('p, 'r) page_world) \<Rightarrow> ('p, 'r) page_world \<Rightarrow> ('p, 'r) page_world" where
  "answers i f W =
     (if i < length (pw_open W)
      then f (pw_open W ! i) (W\<lparr>pw_open := take i (pw_open W) @ drop (Suc i) (pw_open W)\<rparr>) else W)"

text \<open>\<open>e instanceof Error ? e.message : d\<close>.\<close>

definition message_or :: "jstr \<Rightarrow> thrown \<Rightarrow> jstr" where
  "message_or d e = (case e of Thrown_error m \<Rightarrow> m | Thrown_value v \<Rightarrow> d)"

lemma page_simps [simp]:
  "pw_page (tells cs W) = pw_page W" "pw_open (tells cs W) = pw_open W" "pw_calls (tells cs W) = pw_calls W @ cs"
  "pw_page (turns f W) = f (pw_page W)" "pw_open (turns f W) = pw_open W" "pw_calls (turns f W) = pw_calls W"
  "pw_page (asks r W) = pw_page W" "pw_open (asks r W) = pw_open W @ [r]" "pw_calls (asks r W) = pw_calls W @ [Asks r]"
  "pw_page (fresh_page p) = p" "pw_open (fresh_page p) = []" "pw_calls (fresh_page p) = []"
  by (simp_all add: tells_def turns_def asks_def fresh_page_def)

section \<open>What a page has asked for and said\<close>

fun asked_calls :: "'r page_call list \<Rightarrow> 'r list" where
  "asked_calls [] = []"
| "asked_calls (Asks r # cs) = r # asked_calls cs"
| "asked_calls (_ # cs) = asked_calls cs"

fun said_calls :: "'r page_call list \<Rightarrow> (jstr \<times> toast_kind) list" where
  "said_calls [] = []"
| "said_calls (Says m k # cs) = (m, k) # said_calls cs"
| "said_calls (_ # cs) = said_calls cs"

lemma asked_calls_append [simp]: "asked_calls (cs @ ds) = asked_calls cs @ asked_calls ds"
  by (induction cs rule: asked_calls.induct) auto

lemma said_calls_append [simp]: "said_calls (cs @ ds) = said_calls cs @ said_calls ds"
  by (induction cs rule: said_calls.induct) auto

definition asked :: "('p, 'r) page_world \<Rightarrow> 'r list" where
  "asked W = asked_calls (pw_calls W)"

lemma asked_simps [simp]:
  "asked (tells cs W) = asked W @ asked_calls cs" "asked (turns f W) = asked W"
  "asked (asks r W) = asked W @ [r]" "asked (fresh_page p) = []"
  "asked (W\<lparr>pw_open := rs\<rparr>) = asked W"
  by (simp_all add: asked_def)

text \<open>Clicks on one button.\<close>

lemma run_replicate: "run step W (replicate n e) = ((\<lambda>W. step W e) ^^ n) W"
proof (induction n arbitrary: W)
  case (Suc n)
  then show ?case using funpow_swap1 [of "\<lambda>W. step W e" n W] by simp
qed simp

text \<open>An open request is taken out of the list.\<close>

lemma filter_nth:
  "k < length xs \<Longrightarrow> length (filter P (take k xs @ drop (Suc k) xs)) + of_bool (P (xs ! k)) = length (filter P xs)"
proof -
  assume "k < length xs"
  then have "filter P xs = filter P (take k xs @ xs ! k # drop (Suc k) xs)" using id_take_nth_drop [of k xs] by simp
  then show ?thesis by simp
qed

section \<open>Metered machines\<close>

text \<open>A machine whose cost grows by one at most, and only with the events that pay for it.\<close>

locale metered_machine =
  fixes step :: "'s \<Rightarrow> 'e \<Rightarrow> 's"
    and cost :: "'s \<Rightarrow> nat"
    and pays :: "'e \<Rightarrow> bool"
  assumes step_cost: "cost (step s e) \<le> cost s + of_bool (pays e)"
begin

lemma run_cost: "cost (run step s es) \<le> cost s + length (filter pays es)"
proof (induction es arbitrary: s)
  case (Cons e es)
  from Cons.IH [of "step s e"] step_cost [of s e] show ?case by auto
qed simp

end

section \<open>What a run lets be seen\<close>

text \<open>What is observed of the events of a run, each in the state it meets; and machines whose invariant speaks of what
  has been observed so far.\<close>

primrec trail :: "('s \<Rightarrow> 'e \<Rightarrow> 's) \<Rightarrow> ('s \<Rightarrow> 'e \<Rightarrow> 'o list) \<Rightarrow> 's \<Rightarrow> 'e list \<Rightarrow> 'o list" where
  "trail step seen s [] = []"
| "trail step seen s (e # es) = seen s e @ trail step seen (step s e) es"

locale watched_machine =
  fixes step :: "'s \<Rightarrow> 'e \<Rightarrow> 's"
    and seen :: "'s \<Rightarrow> 'e \<Rightarrow> 'o list"
    and inv :: "'o list \<Rightarrow> 's \<Rightarrow> bool"
  assumes step_watched: "inv h s \<Longrightarrow> inv (h @ seen s e) (step s e)"
begin

lemma run_watched: "inv h s \<Longrightarrow> inv (h @ trail step seen s es) (run step s es)"
proof (induction es arbitrary: h s)
  case (Cons e es)
  then show ?case using step_watched [of h s e] Cons.IH [of "h @ seen s e" "step s e"] by simp
qed simp

end

section \<open>Forms sent without a guard\<close>

text \<open>A handler that sends the request of a valid form and leaves the page alone until the answer; it
  refuses an invalid form without asking.\<close>

locale unguarded_form =
  fixes submit :: "('p, 'r) page_world \<Rightarrow> ('p, 'r) page_world"
    and valid :: "'p \<Rightarrow> bool"
    and req :: "'p \<Rightarrow> 'r"
  assumes submit_page: "pw_page (submit W) = pw_page W"
    and submit_valid: "valid (pw_page W) \<Longrightarrow> asked (submit W) = asked W @ [req (pw_page W)]"
    and submit_refused: "\<not> valid (pw_page W) \<Longrightarrow> asked (submit W) = asked W"
begin

lemma clicks: "valid (pw_page W) \<Longrightarrow> asked ((submit ^^ n) W) = asked W @ replicate n (req (pw_page W))"
proof (induction n)
  case 0
  show ?case by simp
next
  case (Suc n)
  have "pw_page ((submit ^^ n) W) = pw_page W" by (induction n) (simp_all add: submit_page)
  with Suc show ?case by (simp add: submit_valid replicate_append_same)
qed

lemma sent_only_if_valid: "asked (submit W) \<noteq> asked W \<Longrightarrow> valid (pw_page W)"
  using submit_refused by blast

end

text \<open>A handler that does nothing while its own request is under way: more clicks are as good as one.\<close>

locale guarded_form =
  fixes submit :: "('p, 'r) page_world \<Rightarrow> ('p, 'r) page_world"
  assumes submit_idle: "submit (submit W) = submit W"
begin

lemma clicks_once: "(submit ^^ Suc n) W = submit W"
  by (induction n) (simp_all add: submit_idle)

end

end
