(* ===== verification/Calendar.thy ===== *)
theory Calendar
  imports Utils
begin

text \<open>
  What the pages use of \<open>Date\<close>: the calendar in local time, \<open>setMonth\<close> with its roll-over into the
  next month, and the month of \<open>toISOString\<close>, which is in UTC. A moment is a local date and a
  minute of its day; \<open>tz d\<close> is what local time is ahead of UTC on the day \<open>d\<close>, in minutes.
\<close>

definition leap :: "int \<Rightarrow> bool" where
  "leap y = (y mod 4 = 0 \<and> (y mod 100 \<noteq> 0 \<or> y mod 400 = 0))"

definition month_length :: "int \<Rightarrow> nat \<Rightarrow> nat" where
  "month_length y m = (if m = 1 then (if leap y then 29 else 28) else if m \<in> {3, 5, 8, 10} then 30 else 31)"

lemma month_length_bounds: "28 \<le> month_length y m" "month_length y m \<le> 31"
  by (simp_all add: month_length_def)

text \<open>The day \<open>d\<close> of a month, counted on into the months that follow when it has no such day.\<close>

function roll_over :: "int \<Rightarrow> nat \<Rightarrow> nat \<Rightarrow> local_date" where
  "roll_over y m d =
     (if d \<le> month_length y m then \<lparr> d_year = y, d_month = m, d_day = d \<rparr>
      else if m < 11 then roll_over y (m + 1) (d - month_length y m)
      else roll_over (y + 1) 0 (d - month_length y m))"
  by auto
termination
proof (relation "measure (\<lambda>(y, m, d). d)")
  fix y m d
  assume long: "\<not> d \<le> month_length y m"
  have "0 < month_length y m" using month_length_bounds(1) [of y m] by linarith
  then have less: "d - month_length y m < d" using long by simp
  then show "((y, m + 1, d - month_length y m), y, m, d) \<in> measure (\<lambda>(y, m, d). d)" by simp
  from less show "((y + 1, 0, d - month_length y m), y, m, d) \<in> measure (\<lambda>(y, m, d). d)" by simp
qed simp

declare roll_over.simps [simp del]

text \<open>\<open>d.setMonth(k)\<close>: months outside the year carry into it, the day of the month stays.\<close>

definition setMonth :: "int \<Rightarrow> local_date \<Rightarrow> local_date" where
  "setMonth k d = roll_over (d_year d + k div 12) (nat (k mod 12)) (d_day d)"

text \<open>\<open>d.setMonth(d.getMonth() - i)\<close>.\<close>

definition months_back :: "nat \<Rightarrow> local_date \<Rightarrow> local_date" where
  "months_back i d = setMonth (int (d_month d) - int i) d"

definition next_day :: "local_date \<Rightarrow> local_date" where
  "next_day d = roll_over (d_year d) (d_month d) (d_day d + 1)"

definition prev_day :: "local_date \<Rightarrow> local_date" where
  "prev_day d =
     (if 1 < d_day d then d\<lparr>d_day := d_day d - 1\<rparr>
      else if 0 < d_month d
      then \<lparr> d_year = d_year d, d_month = d_month d - 1, d_day = month_length (d_year d) (d_month d - 1) \<rparr>
      else \<lparr> d_year = d_year d - 1, d_month = 11, d_day = 31 \<rparr>)"

text \<open>\<open>d.setDate(d.getDate() - i)\<close>.\<close>

definition days_back :: "nat \<Rightarrow> local_date \<Rightarrow> local_date" where
  "days_back i d = (prev_day ^^ i) d"

definition utc_date :: "(local_date \<Rightarrow> int) \<Rightarrow> int \<Rightarrow> local_date \<Rightarrow> local_date" where
  "utc_date tz minute d =
     (if minute - tz d < 0 then prev_day d else if 1440 \<le> minute - tz d then next_day d else d)"

text \<open>\<open>YYYY-MM\<close>, for years of four digits.\<close>

definition month_text :: "local_date \<Rightarrow> jstr" where
  "month_text d = pad_start 4 48 (show_int (d_year d)) @ 45 # pad_start 2 48 (show_nat (d_month d + 1))"

text \<open>\<open>d.toISOString().slice(0, 7)\<close>.\<close>

definition month_key :: "(local_date \<Rightarrow> int) \<Rightarrow> int \<Rightarrow> local_date \<Rightarrow> jstr" where
  "month_key tz minute d = month_text (utc_date tz minute d)"

section \<open>Months without roll-over\<close>

lemma roll_over_fits: "d \<le> month_length y m \<Longrightarrow> roll_over y m d = \<lparr> d_year = y, d_month = m, d_day = d \<rparr>"
  by (simp add: roll_over.simps)

lemma roll_over_28: "d \<le> 28 \<Longrightarrow> roll_over y m d = \<lparr> d_year = y, d_month = m, d_day = d \<rparr>"
  using month_length_bounds(1) [of y m] by (intro roll_over_fits) linarith

text \<open>The number of a month since the year 0.\<close>

definition month_index :: "local_date \<Rightarrow> int" where
  "month_index d = 12 * d_year d + int (d_month d)"

lemma months_back_28:
  assumes "d_day d \<le> 28"
  shows "month_index (months_back i d) = month_index d - int i"
    and "d_day (months_back i d) = d_day d" and "d_month (months_back i d) < 12"
proof -
  let ?k = "int (d_month d) - int i"
  have r: "months_back i d = \<lparr> d_year = d_year d + ?k div 12, d_month = nat (?k mod 12), d_day = d_day d \<rparr>"
    unfolding months_back_def setMonth_def using assms by (rule roll_over_28)
  have "12 * (d_year d + ?k div 12) + ?k mod 12 = 12 * d_year d + ?k" by (simp add: algebra_simps)
  then show "month_index (months_back i d) = month_index d - int i" by (simp add: r month_index_def)
  show "d_day (months_back i d) = d_day d" by (simp add: r)
  show "d_month (months_back i d) < 12" by (simp add: r)
qed

text \<open>On the last day of a month of 31 days one month back is the same month, unless the month before
  has 31 days as well.\<close>

lemma month_end_back:
  assumes "d_day d = 31" and "d_month d \<in> {2, 4, 6, 9, 11}"
  shows "d_year (months_back 1 d) = d_year d \<and> d_month (months_back 1 d) = d_month d
       \<and> 1 \<le> d_day (months_back 1 d) \<and> d_day (months_back 1 d) \<le> 3"
proof -
  let ?m = "d_month d - 1"
  have k: "(int (d_month d) - int 1) div 12 = 0" "nat ((int (d_month d) - int 1) mod 12) = ?m"
    using assms(2) by auto
  have len: "28 \<le> month_length (d_year d) ?m" "month_length (d_year d) ?m \<le> 30"
    using assms(2) by (auto simp: month_length_def)
  have "months_back 1 d = roll_over (d_year d) ?m 31"
    by (simp only: months_back_def setMonth_def k assms(1)) simp
  also have "\<dots> = roll_over (d_year d) (d_month d) (31 - month_length (d_year d) ?m)"
    using len assms(2) by (subst roll_over.simps) (auto simp: numeral_2_eq_2)
  also have "\<dots> = \<lparr> d_year = d_year d, d_month = d_month d, d_day = 31 - month_length (d_year d) ?m \<rparr>"
    using len by (intro roll_over_28) linarith
  finally have r: "months_back 1 d = \<lparr> d_year = d_year d, d_month = d_month d, d_day = 31 - month_length (d_year d) ?m \<rparr>" .
  have "1 \<le> 31 - month_length (d_year d) ?m" "31 - month_length (d_year d) ?m \<le> 3" using len by linarith+
  then show ?thesis unfolding r by simp
qed

text \<open>When the UTC date is the local one.\<close>

lemma utc_same: "0 \<le> minute - tz d \<Longrightarrow> minute - tz d < 1440 \<Longrightarrow> utc_date tz minute d = d"
  by (simp add: utc_date_def)

lemma month_text_cong: "d_year a = d_year b \<Longrightarrow> d_month a = d_month b \<Longrightarrow> month_text a = month_text b"
  by (simp add: month_text_def)

section \<open>Texts of months\<close>

lemma pad4_read:
  assumes "0 \<le> y"
  shows "read_nat (pad_start 4 48 (show_int y)) = nat y" "45 \<notin> set (pad_start 4 48 (show_int y))"
proof -
  have s: "show_int y = show_nat (nat y)" using assms by (simp add: show_int_def)
  show "read_nat (pad_start 4 48 (show_int y)) = nat y" by (simp add: s)
  show "45 \<notin> set (pad_start 4 48 (show_int y))"
    using show_nat_digits [of "nat y"] by (auto simp: s pad_start_def is_digit_def)
qed

lemma month_text_inj:
  assumes "0 \<le> d_year a" "0 \<le> d_year b" and "month_text a = month_text b"
  shows "d_year a = d_year b \<and> d_month a = d_month b"
proof -
  let ?f = "\<lambda>d. pad_start 4 48 (show_int (d_year d))"
  let ?g = "\<lambda>d. pad_start 2 48 (show_nat (d_month d + 1))"
  have "split_on 45 (month_text d) = ?f d # split_on 45 (?g d)" if "0 \<le> d_year d" for d
    using pad4_read(2) [OF that] by (simp add: month_text_def split_on_append)
  then have eq: "?f a # split_on 45 (?g a) = ?f b # split_on 45 (?g b)"
    using assms by metis
  have "45 \<notin> set (?g d)" for d :: local_date
    using show_nat_digits [of "d_month d + 1"] by (auto simp: pad_start_def is_digit_def)
  then have "split_on 45 (?g d) = [?g d]" for d :: local_date by (rule split_on_atom)
  with eq have f: "?f a = ?f b" and g: "?g a = ?g b" by auto
  from f have "nat (d_year a) = nat (d_year b)" using pad4_read(1) assms by metis
  moreover from g have "d_month a + 1 = d_month b + 1" using read_pad read_show_nat by metis
  ultimately show ?thesis using assms by simp
qed

section \<open>Days back\<close>

text \<open>A count of days in which every month has 31 days orders dates as the calendar does.\<close>

definition day_index :: "local_date \<Rightarrow> int" where
  "day_index d = 372 * d_year d + 31 * int (d_month d) + int (d_day d)"

definition valid_date :: "local_date \<Rightarrow> bool" where
  "valid_date d = (d_month d < 12 \<and> 1 \<le> d_day d \<and> d_day d \<le> 31)"

lemma prev_day_index:
  assumes "valid_date d"
  shows "valid_date (prev_day d)" and "day_index (prev_day d) < day_index d" and "day_index d - 4 \<le> day_index (prev_day d)"
proof -
  have len: "28 \<le> month_length (d_year d) m" "month_length (d_year d) m \<le> 31" for m by (rule month_length_bounds)+
  consider (day) "1 < d_day d" | (month) "d_day d = 1" "0 < d_month d" | (year) "d_day d = 1" "d_month d = 0"
    using assms unfolding valid_date_def by linarith
  then have "valid_date (prev_day d) \<and> day_index (prev_day d) < day_index d \<and> day_index d - 4 \<le> day_index (prev_day d)"
  proof cases
    case day
    then have "1 \<le> d_day d - 1" "d_day d - 1 \<le> 31" "int (d_day d - 1) = int (d_day d) - 1"
      using assms by (auto simp: valid_date_def)
    then show ?thesis using day assms by (simp add: prev_day_def valid_date_def day_index_def)
  next
    case month
    have "d_month d = Suc (d_month d - 1)" using month(2) by simp
    then have "int (d_month d) = int (d_month d - 1) + 1" by linarith
    then show ?thesis using month assms len [of "d_month d - 1"]
      by (simp add: prev_day_def valid_date_def day_index_def)
  next
    case year
    then show ?thesis by (simp add: prev_day_def valid_date_def day_index_def)
  qed
  then show "valid_date (prev_day d)" and "day_index (prev_day d) < day_index d" and "day_index d - 4 \<le> day_index (prev_day d)"
    by auto
qed

lemma days_back_index:
  assumes "valid_date d"
  shows "valid_date (days_back i d) \<and> day_index d - 4 * int i \<le> day_index (days_back i d)
    \<and> day_index (days_back i d) \<le> day_index d - int i"
proof (induction i)
  case 0
  show ?case using assms by (simp add: days_back_def)
next
  case (Suc i)
  have step: "days_back (Suc i) d = prev_day (days_back i d)" by (simp add: days_back_def)
  show ?case using Suc prev_day_index [of "days_back i d"] unfolding step by auto
qed

lemma days_back_less:
  assumes "valid_date d" and "i < j"
  shows "day_index (days_back j d) < day_index (days_back i d)"
proof -
  obtain k where k: "j = k + i" "0 < k" using assms(2) by (metis add.commute less_imp_add_positive)
  have "days_back j d = days_back k (days_back i d)" by (simp add: days_back_def k(1) funpow_add)
  then show ?thesis using days_back_index [of "days_back i d" k] days_back_index [OF assms(1), of i] k(2) by simp
qed

lemma date_less_index:
  assumes "valid_date a" and "valid_date b" and "day_index a < day_index b"
  shows "date_less a b"
proof -
  have bounds: "31 * int (d_month d) + int (d_day d) \<le> 372 \<and> 1 \<le> 31 * int (d_month d) + int (d_day d)
      \<and> int (d_day d) \<le> 31 \<and> 1 \<le> int (d_day d)" if "valid_date d" for d
    using that by (auto simp: valid_date_def)
  from bounds [OF assms(1)] bounds [OF assms(2)] assms(3) show ?thesis
    unfolding date_less_def day_index_def by linarith
qed

text \<open>Up to 90 days back from a date, the days are valid and their texts are different and of one length.\<close>

lemma days_back_ok:
  assumes "valid_date d" and "1001 \<le> d_year d" "d_year d \<le> 9999" and "i \<le> 90"
  shows "date_ok (days_back i d)"
proof -
  note b = days_back_index [OF assms(1), of i]
  have v: "valid_date (days_back i d)" using b by simp
  have big: "31 * int (d_month e) + int (d_day e) \<le> 372 \<and> 1 \<le> 31 * int (d_month e) + int (d_day e)" if "valid_date e" for e
    using that by (auto simp: valid_date_def)
  have "1000 \<le> d_year (days_back i d) \<and> d_year (days_back i d) \<le> 9999"
    using big [OF v] big [OF assms(1)] b assms(2-4) unfolding day_index_def by linarith
  with v show ?thesis by (simp add: date_ok_def valid_date_def)
qed

lemma day_texts_differ:
  assumes "valid_date d" and "1001 \<le> d_year d" "d_year d \<le> 9999" and "i \<le> 90" "j \<le> 90"
    and "getLocalDateString (days_back i d) = getLocalDateString (days_back j d)"
  shows "i = j"
proof (rule ccontr)
  assume ne: "i \<noteq> j"
  have less: False if "k < l" "k \<le> 90" "l \<le> 90"
    "getLocalDateString (days_back k d) = getLocalDateString (days_back l d)" for k l
  proof -
    have "date_less (days_back l d) (days_back k d)"
      using days_back_index [OF assms(1)] days_back_less [OF assms(1) that(1)] by (intro date_less_index) blast+
    then have "str_less (getLocalDateString (days_back l d)) (getLocalDateString (days_back k d))"
      using date_strings_sorted days_back_ok [OF assms(1-3)] that(2,3) by blast
    then show False by (simp add: that(4) lexordp_irreflexive')
  qed
  from ne show False using less [of i j] less [of j i] assms(4-6) by (cases "i < j") auto
qed

lemma day_text_length: "date_ok d \<Longrightarrow> length (getLocalDateString d) = 10"
  by (simp add: getLocalDateString_def date_ok_def year4 pad2)

end
