(* ===== verification/Finance.thy ===== *)
theory Finance
  imports Pages Calendar Ai Money
begin

text \<open>
  The finance page (\<open>features/finance/finance.tsx\<close>): what it computes from the sales, expenses and
  purchase orders, and its handlers as steps of a page (theory \<open>Pages\<close>). The deletion of a supplier is
  in theory \<open>ForceDelete\<close>. The names of months come from \<open>Intl\<close> and the moments of date texts from
  \<open>Date\<close>: parameters \<open>label\<close> and \<open>time\<close>.
\<close>

section \<open>Figures\<close>

record finance_stats =
  fs_totalRevenue :: jsnum
  fs_totalExpenses :: jsnum
  fs_netProfit :: jsnum
  fs_profitMargin :: jsnum
  fs_totalSupplierDebt :: jsnum
  fs_totalReceivables :: jsnum

definition completed :: "sale list \<Rightarrow> sale list" where
  "completed sales = filter (\<lambda>s. x_status s = Completed) sales"

definition sale_cost :: "sale \<Rightarrow> jsnum" where
  "sale_cost s = js_round (js_sum (Fin 0) (map (\<lambda>p. l_cost p * l_qty p) (x_items s)))"

definition order_debt :: "purchase_order \<Rightarrow> jsnum" where
  "order_debt po = opt_num_or (o_totalAmount po) (Fin 0) - opt_num_or (o_paidAmount po) (Fin 0)"

definition receivable :: "sale \<Rightarrow> bool" where
  "receivable s = (x_paymentMethod s = Credit \<and> x_status s = Pending)"

definition stats_of_finance :: "sale list \<Rightarrow> expense list \<Rightarrow> purchase_order list \<Rightarrow> finance_stats" where
  "stats_of_finance sales expenses purchaseOrders =
     (let totalRevenue = js_round (js_sum (Fin 0) (map x_total (completed sales)));
          totalExpenses = js_round (js_sum (Fin 0) (map e_amount expenses));
          totalPurchasesCost = js_round (js_sum (Fin 0) (map sale_cost (completed sales)));
          netProfit = totalRevenue - totalPurchasesCost - totalExpenses
      in \<lparr> fs_totalRevenue = totalRevenue, fs_totalExpenses = totalExpenses, fs_netProfit = netProfit,
           fs_profitMargin = (if Fin 0 < totalRevenue then (netProfit / totalRevenue) * Fin 100 else Fin 0),
           fs_totalSupplierDebt = js_round (js_sum (Fin 0) (map order_debt purchaseOrders)),
           fs_totalReceivables = js_round (js_sum (Fin 0) (map x_total (filter receivable sales))) \<rparr>)"

text \<open>The shares of the expense categories, in the order in which the categories first appear.\<close>

definition category_key :: "expense_category \<Rightarrow> jstr" where
  "category_key c = (case c of E_rent \<Rightarrow> js ''rent'' | E_salary \<Rightarrow> js ''salary'' | E_bills \<Rightarrow> js ''bills''
     | E_maintenance \<Rightarrow> js ''maintenance'' | E_other \<Rightarrow> js ''other'')"

definition rent_ar :: jstr where "rent_ar = [1573, 1610, 1580, 1575, 1585]"
definition salary_ar :: jstr where "salary_ar = [1585, 1608, 1575, 1578, 1576]"
definition bills_ar :: jstr where "bills_ar = [1601, 1608, 1575, 1578, 1610, 1585]"
definition maintenance_ar :: jstr where "maintenance_ar = [1589, 1610, 1575, 1606, 1577]"
definition other_ar :: jstr where "other_ar = [1571, 1582, 1585, 1609]"

definition category_label :: "jstr \<Rightarrow> jstr" where
  "category_label k = (if k = js ''rent'' then rent_ar else if k = js ''salary'' then salary_ar
     else if k = js ''bills'' then bills_ar else if k = js ''maintenance'' then maintenance_ar else other_ar)"

definition category_color :: "jstr \<Rightarrow> jstr" where
  "category_color k = (if k = js ''rent'' then js ''bg-primary'' else if k = js ''salary'' then js ''bg-primary''
     else if k = js ''bills'' then js ''bg-warning'' else js ''bg-gray-500'')"

definition add_expense :: "(jstr \<times> jsnum) list \<Rightarrow> expense \<Rightarrow> (jstr \<times> jsnum) list" where
  "add_expense catMap e =
     (let k = category_key (e_category e)
      in obj_put k (opt_num_or (map_of catMap k) (Fin 0) + e_amount e) catMap)"

definition expenseBreakdown :: "expense list \<Rightarrow> (jstr \<times> jsnum \<times> jstr) list" where
  "expenseBreakdown expenses =
     map (\<lambda>(k, v). (category_label k, v, category_color k)) (foldl add_expense [] expenses)"

text \<open>\<open>getCategoryInfo\<close>: label, icon and the classes of background, border and text.\<close>

definition getCategoryInfo :: "jstr \<Rightarrow> jstr \<times> jstr \<times> jstr \<times> jstr \<times> jstr" where
  "getCategoryInfo c =
     (if c = js ''rent'' then (rent_ar, js ''Building2'', js ''bg-primary/10'', js ''border-primary/20'', js ''text-primary'')
      else if c = js ''salary'' then (salary_ar, js ''Users'', js ''bg-primary/10'', js ''border-primary/20'', js ''text-primary'')
      else if c = js ''bills'' then (bills_ar, js ''FileText'', js ''bg-warning/10'', js ''border-warning/20'', js ''text-warning'')
      else if c = js ''maintenance'' then (maintenance_ar, js ''Minus'', js ''bg-danger/10'', js ''border-danger/20'', js ''text-danger'')
      else (other_ar, js ''Landmark'', js ''bg-gray-500/10'', js ''border-gray-500/20'', js ''text-gray-500''))"

text \<open>Revenue of the month with a key, the last six months, and the growth over the month before.\<close>

definition month_revenue :: "sale list \<Rightarrow> jstr \<Rightarrow> jsnum" where
  "month_revenue sales monthKey =
     js_round (js_sum (Fin 0) (map x_total (filter (\<lambda>s. starts_with (x_date s) monthKey \<and> x_status s = Completed) sales)))"

definition trend_months :: "(local_date \<Rightarrow> int) \<Rightarrow> int \<Rightarrow> local_date \<Rightarrow> jstr list" where
  "trend_months tz minute now = rev (map (\<lambda>i. month_key tz minute (months_back i now)) [0..<6])"

definition trendData ::
  "(local_date \<Rightarrow> jstr) \<Rightarrow> jstr \<Rightarrow> (local_date \<Rightarrow> int) \<Rightarrow> int \<Rightarrow> local_date \<Rightarrow> sale list \<Rightarrow> (jstr \<times> jsnum \<times> jstr) list" where
  "trendData label cur tz minute now sales =
     rev (map (\<lambda>i. let d = months_back i now;
                        monthRevenue = month_revenue sales (month_key tz minute d)
                    in (label d, monthRevenue, formatCurrency monthRevenue cur)) [0..<6])"

definition revenueGrowthPct :: "(local_date \<Rightarrow> int) \<Rightarrow> int \<Rightarrow> local_date \<Rightarrow> sale list \<Rightarrow> jsnum" where
  "revenueGrowthPct tz minute now sales =
     (let currentMonthRev = month_revenue sales (month_key tz minute now);
          prevMonthRev = month_revenue sales (month_key tz minute (months_back 1 now))
      in if js_eq prevMonthRev (Fin 0) then (if Fin 0 < currentMonthRev then Fin 100 else Fin 0)
         else ((currentMonthRev - prevMonthRev) / prevMonthRev) * Fin 100)"

definition recentExpenses :: "(jstr \<Rightarrow> int) \<Rightarrow> expense list \<Rightarrow> expense list" where
  "recentExpenses time expenses = take 4 (sort_key (\<lambda>e. - time (e_date e)) expenses)"

definition debtInfo :: "finance_stats \<Rightarrow> jsnum \<times> jsnum \<times> jstr" where
  "debtInfo st =
     (let total = fs_totalReceivables st + fs_totalSupplierDebt st
      in if js_eq total (Fin 0) then (Fin 0, Fin 0, [1604, 1575, 32, 1578, 1608, 1580, 1583, 32,
        1583, 1610, 1608, 1606])
         else let recPct = js_round ((fs_totalReceivables st / total) * Fin 100)
              in (recPct, Fin 100 - recPct,
                  if fs_totalSupplierDebt st * Fin (3 / 2) < fs_totalReceivables st then [1605,
                    1605, 1578, 1575, 1586, 32, 40, 1605, 1587, 1578, 1581, 1602, 1575, 1578,
                    1606, 1575, 32,
  1571, 1593, 1604, 1609, 41]
                  else if fs_totalReceivables st * Fin (3 / 2) < fs_totalSupplierDebt st then [1581, 1584, 1585, 32, 40, 1583, 1610, 1608, 1606, 32, 1575, 1604, 1605, 1608, 1585, 1583, 1610,
  1606, 32, 1571, 1593, 1604, 1609, 41]
                  else [1605, 1578, 1586, 1606]))"

section \<open>The page and its handlers\<close>

datatype finance_tab = F_overview | F_expenses | F_suppliers | F_purchases

record expense_form =
  ef_id :: "jstr option"
  ef_title :: "jstr option"
  ef_amount :: "jsnum option"
  ef_category :: "expense_category option"
  ef_date :: "jstr option"
  ef_notes :: "jstr option"

record supplier_form =
  sf_id :: "jstr option"
  sf_name :: "jstr option"
  sf_companyName :: "jstr option"
  sf_phone :: "jstr option"
  sf_balance :: "jsnum option"
  sf_notes :: "jstr option"
  sf_email :: "jstr option"

record supplier_request = supplier +
  sr_email :: jstr

record finance_page =
  fp_activeTab :: finance_tab
  fp_showStats :: bool
  fp_search :: jstr
  fp_supplierPage :: int
  fp_expenseModal :: bool
  fp_expenseForm :: expense_form
  fp_isCategorizing :: bool
  fp_supplierModal :: bool
  fp_supplierForm :: supplier_form
  fp_emailModal :: "jstr option"
  fp_generatedEmail :: jstr
  fp_generatingEmail :: bool
  fp_confirm :: "jstr option"

definition no_expense :: expense_form where
  "no_expense = \<lparr> ef_id = None, ef_title = None, ef_amount = None, ef_category = None, ef_date = None, ef_notes = None \<rparr>"

definition no_supplier :: supplier_form where
  "no_supplier = \<lparr> sf_id = None, sf_name = None, sf_companyName = None, sf_phone = None, sf_balance = None,
     sf_notes = None, sf_email = None \<rparr>"

definition finance_start :: finance_page where
  "finance_start = \<lparr> fp_activeTab = F_overview, fp_showStats = False, fp_search = [], fp_supplierPage = 1,
     fp_expenseModal = False, fp_expenseForm = no_expense, fp_isCategorizing = False,
     fp_supplierModal = False, fp_supplierForm = no_supplier, fp_emailModal = None, fp_generatedEmail = [],
     fp_generatingEmail = False, fp_confirm = None \<rparr>"

text \<open>The requests of the page. A save remembers whether the form had an id, which its toast depends on.\<close>

datatype finance_request =
    Save_expense expense bool
  | Delete_expense jstr
  | Ask_category jstr
  | Save_supplier supplier_request bool
  | Write_email jstr jstr

type_synonym finance_world = "(finance_page, finance_request) page_world"

text \<open>\<open>t || d\<close> on a text that may be missing.\<close>

definition text_or :: "jstr option \<Rightarrow> jstr \<Rightarrow> jstr" where
  "text_or t d = (case t of None \<Rightarrow> d | Some s \<Rightarrow> if s = [] then d else s)"

definition has_text :: "jstr option \<Rightarrow> bool" where
  "has_text t = (text_or t [] \<noteq> [])"

definition expense_valid :: "expense_form \<Rightarrow> bool" where
  "expense_valid f = (has_text (ef_title f) \<and> truthy (opt_num_or (ef_amount f) (Fin 0)))"

definition expense_of :: "jstr \<Rightarrow> expense_form \<Rightarrow> expense" where
  "expense_of today f = \<lparr> e_id = text_or (ef_id f) [], e_title = text_or (ef_title f) [],
     e_amount = opt_default NaN (ef_amount f), e_category = opt_default E_other (ef_category f),
     e_date = text_or (ef_date f) today, e_notes = Some (text_or (ef_notes f) []) \<rparr>"

definition handleSaveExpense :: "jstr \<Rightarrow> finance_world \<Rightarrow> finance_world" where
  "handleSaveExpense today W =
     (let f = fp_expenseForm (pw_page W)
      in if \<not> expense_valid f then tells [Says [1610, 1585, 1580, 1609, 32, 1573, 1583,
        1582, 1575, 1604, 32, 1575, 1604, 1593, 1606, 1608,
  1575, 1606, 32, 1608, 1575, 1604, 1605, 1576, 1604, 1594] T_error] W
         else asks (Save_expense (expense_of today f) (has_text (ef_id f))) W)"

definition save_error :: jstr where "save_error = [1582, 1591, 1571, 32, 1601, 1610, 32, 1575,
  1604, 1581, 1601, 1592]"

definition expense_saved :: "bool \<Rightarrow> bool \<Rightarrow> finance_world \<Rightarrow> finance_world" where
  "expense_saved isUpdate ok W =
     (if ok
      then tells [Invalidates invalidateAllData, Refetches]
             (turns (\<lambda>p. p\<lparr>fp_expenseModal := False\<rparr>)
               (tells [Says (if isUpdate then [1578, 1605, 32, 1578, 1581, 1583, 1610, 1579, 32,
                 1575, 1604, 1605, 1589, 1585, 1608, 1601] else [1578, 1605, 32, 1573, 1590,
                 1575, 1601, 1577, 32, 1575, 1604, 1605, 1589, 1585, 1608, 1601]) T_success] W))
      else tells [Says save_error T_error] W)"

text \<open>The button is disabled while a category is asked for.\<close>

definition handleAutoCategorize :: "finance_world \<Rightarrow> finance_world" where
  "handleAutoCategorize W =
     (let p = pw_page W; title = text_or (ef_title (fp_expenseForm p)) []
      in if title = [] \<or> fp_isCategorizing p then W
         else asks (Ask_category title) (turns (\<lambda>p. p\<lparr>fp_isCategorizing := True\<rparr>) W))"

text \<open>The name that \<open>categorizeExpense\<close> returns is cast to a category.\<close>

definition category_named :: "jstr \<Rightarrow> expense_category option" where
  "category_named c = find_first (\<lambda>k. category_key k = c) [E_rent, E_salary, E_bills, E_maintenance, E_other]"

definition categorized :: "jstr option \<Rightarrow> finance_page \<Rightarrow> finance_page" where
  "categorized cat p =
     (let p1 = (case cat of None \<Rightarrow> p
                | Some c \<Rightarrow> p\<lparr>fp_expenseForm := (fp_expenseForm p)\<lparr>ef_category := category_named c\<rparr>\<rparr>)
      in p1\<lparr>fp_isCategorizing := False\<rparr>)"

definition handleDeleteExpense :: "jstr \<Rightarrow> finance_page \<Rightarrow> finance_page" where
  "handleDeleteExpense i p = p\<lparr>fp_confirm := Some i\<rparr>"

definition confirm_delete :: "finance_world \<Rightarrow> finance_world" where
  "confirm_delete W = (case fp_confirm (pw_page W) of None \<Rightarrow> W | Some i \<Rightarrow> asks (Delete_expense i) W)"

definition expense_deleted :: "bool \<Rightarrow> finance_world \<Rightarrow> finance_world" where
  "expense_deleted ok W =
     turns (\<lambda>p. p\<lparr>fp_confirm := None\<rparr>)
       (tells (if ok then [Says [1578, 1605, 32, 1575, 1604, 1581, 1584, 1601] T_success,
         Invalidates invalidateAllData, Refetches]
               else [Says [1582, 1591, 1571, 32, 1601, 1610, 32, 1575, 1604, 1581, 1584,
                 1601] T_error]) W)"

definition supplier_of :: "supplier_form \<Rightarrow> supplier_request" where
  "supplier_of f = \<lparr> s_id = text_or (sf_id f) [], s_name = text_or (sf_name f) [],
     s_companyName = text_or (sf_companyName f) [], s_phone = text_or (sf_phone f) [],
     s_balance = opt_num_or (sf_balance f) (Fin 0), s_notes = Some (text_or (sf_notes f) []),
     sr_email = text_or (sf_email f) [] \<rparr>"

definition handleSaveSupplier :: "finance_world \<Rightarrow> finance_world" where
  "handleSaveSupplier W =
     (let f = fp_supplierForm (pw_page W)
      in if \<not> has_text (sf_name f) then tells [Says [1575, 1604, 1575, 1587, 1605, 32, 1605,
        1591, 1604, 1608, 1576] T_error] W
         else asks (Save_supplier (supplier_of f) (has_text (sf_id f))) W)"

definition supplier_saved :: "bool \<Rightarrow> bool \<Rightarrow> finance_world \<Rightarrow> finance_world" where
  "supplier_saved isUpdate ok W =
     (if ok
      then tells [Invalidates invalidateAllData, Refetches]
             (turns (\<lambda>p. p\<lparr>fp_supplierModal := False\<rparr>)
               (tells [Says (if isUpdate then [1578, 1605, 32, 1575, 1604, 1578, 1581, 1583,
                 1610, 1579] else [1578, 1605, 1578, 32, 1575, 1604, 1573, 1590, 1575, 1601,
                 1577]) T_success] W))
      else tells [Says save_error T_error] W)"

definition handleGenerateEmail :: "jstr \<Rightarrow> jstr \<Rightarrow> jstr \<Rightarrow> finance_world \<Rightarrow> finance_world" where
  "handleGenerateEmail storeName i name W =
     asks (Write_email name (if storeName = [] then [1575, 1604, 1605, 1578, 1580,
       1585] else storeName))
       (turns (\<lambda>p. p\<lparr>fp_generatingEmail := True, fp_emailModal := Some i\<rparr>) W)"

definition email_written :: "jstr \<Rightarrow> finance_page \<Rightarrow> finance_page" where
  "email_written t p = p\<lparr>fp_generatedEmail := t, fp_generatingEmail := False\<rparr>"

section \<open>Lists\<close>

definition filteredExpenses :: "jstr \<Rightarrow> expense list \<Rightarrow> expense list" where
  "filteredExpenses search = filter (\<lambda>e. str_includes (e_title e) search)"

definition filteredSuppliers :: "jstr \<Rightarrow> supplier list \<Rightarrow> supplier list" where
  "filteredSuppliers search = filter (\<lambda>s. str_includes (s_name s) search \<or> str_includes (s_companyName s) search)"

record supplier_page =
  sp_data :: "supplier list option"
  sp_total :: "jsnum option"
  sp_totalPages :: "jsnum option"

definition suppliersList :: "supplier_page option \<Rightarrow> supplier list \<Rightarrow> supplier list" where
  "suppliersList paged filtered = (case paged of None \<Rightarrow> filtered | Some p \<Rightarrow> opt_default filtered (sp_data p))"

definition totalSuppliers :: "supplier_page option \<Rightarrow> supplier list \<Rightarrow> jsnum" where
  "totalSuppliers paged filtered =
     (case paged of None \<Rightarrow> jint (int (length filtered)) | Some p \<Rightarrow> opt_default (jint (int (length filtered))) (sp_total p))"

definition totalSupplierPages :: "supplier_page option \<Rightarrow> jsnum" where
  "totalSupplierPages paged = (case paged of None \<Rightarrow> Fin 1 | Some p \<Rightarrow> opt_default (Fin 1) (sp_totalPages p))"

text \<open>The suppliers are searched on their own tab only.\<close>

definition supplier_query :: "jstr \<Rightarrow> finance_page \<Rightarrow> query_key" where
  "supplier_query deferred p =
     suppliers_paged (fp_supplierPage p) 50 (if fp_activeTab p = F_suppliers then deferred else [])"

section \<open>Steps\<close>

datatype finance_input =
    Set_tab finance_tab
  | Toggle_stats
  | Search_expenses jstr
  | Search_suppliers jstr
  | Previous_page
  | Next_page jsnum
  | New_expense
  | Edit_expense expense_form
  | Type_expense expense_form
  | Close_expense
  | New_supplier
  | Edit_supplier supplier_form
  | Type_supplier supplier_form
  | Close_supplier
  | Type_email jstr
  | Close_email
  | Delete_click jstr
  | Cancel_confirm

definition on_finance_input :: "finance_input \<Rightarrow> finance_page \<Rightarrow> finance_page" where
  "on_finance_input e p = (case e of
     Set_tab t \<Rightarrow> p\<lparr>fp_activeTab := t\<rparr>
   | Toggle_stats \<Rightarrow> p\<lparr>fp_showStats := \<not> fp_showStats p\<rparr>
   | Search_expenses s \<Rightarrow> p\<lparr>fp_search := s\<rparr>
   | Search_suppliers s \<Rightarrow> p\<lparr>fp_search := s, fp_supplierPage := 1\<rparr>
   | Previous_page \<Rightarrow> (if fp_supplierPage p \<le> 1 then p else p\<lparr>fp_supplierPage := max 1 (fp_supplierPage p - 1)\<rparr>)
   | Next_page totalPages \<Rightarrow>
       (if totalPages \<le> jint (fp_supplierPage p) then p else p\<lparr>fp_supplierPage := fp_supplierPage p + 1\<rparr>)
   | New_expense \<Rightarrow> p\<lparr>fp_expenseForm := no_expense, fp_expenseModal := True\<rparr>
   | Edit_expense f \<Rightarrow> p\<lparr>fp_expenseForm := f, fp_expenseModal := True\<rparr>
   | Type_expense f \<Rightarrow> p\<lparr>fp_expenseForm := f\<rparr>
   | Close_expense \<Rightarrow> p\<lparr>fp_expenseModal := False\<rparr>
   | New_supplier \<Rightarrow> p\<lparr>fp_supplierForm := no_supplier, fp_supplierModal := True\<rparr>
   | Edit_supplier f \<Rightarrow> p\<lparr>fp_supplierForm := f, fp_supplierModal := True\<rparr>
   | Type_supplier f \<Rightarrow> p\<lparr>fp_supplierForm := f\<rparr>
   | Close_supplier \<Rightarrow> p\<lparr>fp_supplierModal := False\<rparr>
   | Type_email t \<Rightarrow> p\<lparr>fp_generatedEmail := t\<rparr>
   | Close_email \<Rightarrow> p\<lparr>fp_emailModal := None\<rparr>
   | Delete_click i \<Rightarrow> handleDeleteExpense i p
   | Cancel_confirm \<Rightarrow> p\<lparr>fp_confirm := None\<rparr>)"

text \<open>Answers: success or failure of a save or deletion, a category or a failure, a text.\<close>

datatype finance_answer = Done | Failed | Named jstr | Written jstr

definition finance_answered :: "finance_answer \<Rightarrow> finance_request \<Rightarrow> finance_world \<Rightarrow> finance_world" where
  "finance_answered a r W = (case r of
     Save_expense e isUpdate \<Rightarrow> expense_saved isUpdate (a = Done) W
   | Delete_expense i \<Rightarrow> expense_deleted (a = Done) W
   | Ask_category t \<Rightarrow> turns (categorized (case a of Named c \<Rightarrow> Some c | _ \<Rightarrow> None)) W
   | Save_supplier s isUpdate \<Rightarrow> supplier_saved isUpdate (a = Done) W
   | Write_email n s \<Rightarrow> (case a of Written t \<Rightarrow> turns (email_written t) W | _ \<Rightarrow> W))"

datatype finance_event =
    Input finance_input
  | Save_expense_click jstr
  | Categorize_click
  | Confirm_click
  | Save_supplier_click
  | Email_click jstr jstr jstr
  | Copy_email
  | Answered nat finance_answer

definition finance_step :: "finance_world \<Rightarrow> finance_event \<Rightarrow> finance_world" where
  "finance_step W e = (case e of
     Input i \<Rightarrow> turns (on_finance_input i) W
   | Save_expense_click today \<Rightarrow> handleSaveExpense today W
   | Categorize_click \<Rightarrow> handleAutoCategorize W
   | Confirm_click \<Rightarrow> confirm_delete W
   | Save_supplier_click \<Rightarrow> handleSaveSupplier W
   | Email_click store i name \<Rightarrow> handleGenerateEmail store i name W
   | Copy_email \<Rightarrow> tells [Says [1578, 1605, 32, 1575, 1604, 1606, 1587,
     1582] T_success] W
   | Answered n a \<Rightarrow> answers n (finance_answered a) W)"

section \<open>The page keeps count of its requests\<close>

definition is_category :: "finance_request \<Rightarrow> bool" where
  "is_category r = (case r of Ask_category t \<Rightarrow> True | _ \<Rightarrow> False)"

definition finance_inv :: "finance_world \<Rightarrow> bool" where
  "finance_inv W = (1 \<le> fp_supplierPage (pw_page W)
     \<and> length (filter is_category (pw_open W)) = (if fp_isCategorizing (pw_page W) then 1 else 0))"

lemma filter_remove_nth:
  "i < length xs \<Longrightarrow> length (filter P xs) = length (filter P (take i xs @ drop (Suc i) xs)) + (if P (xs ! i) then 1 else 0)"
  by (subst id_take_nth_drop [of i xs]) auto

lemma finance_saved_page:
  "pw_open (expense_saved u ok W) = pw_open W" "pw_open (supplier_saved u ok W) = pw_open W"
  "pw_open (expense_deleted ok W) = pw_open W"
  "fp_supplierPage (pw_page (expense_saved u ok W)) = fp_supplierPage (pw_page W)"
  "fp_supplierPage (pw_page (supplier_saved u ok W)) = fp_supplierPage (pw_page W)"
  "fp_supplierPage (pw_page (expense_deleted ok W)) = fp_supplierPage (pw_page W)"
  "fp_isCategorizing (pw_page (expense_saved u ok W)) = fp_isCategorizing (pw_page W)"
  "fp_isCategorizing (pw_page (supplier_saved u ok W)) = fp_isCategorizing (pw_page W)"
  "fp_isCategorizing (pw_page (expense_deleted ok W)) = fp_isCategorizing (pw_page W)"
  by (simp_all add: expense_saved_def supplier_saved_def expense_deleted_def)

lemma finance_answered_page:
  "pw_open (finance_answered a r W) = pw_open W"
  "fp_supplierPage (pw_page (finance_answered a r W)) = fp_supplierPage (pw_page W)"
  "fp_isCategorizing (pw_page (finance_answered a r W)) = (if is_category r then False else fp_isCategorizing (pw_page W))"
  by (auto simp: finance_answered_def finance_saved_page categorized_def Let_def email_written_def is_category_def
      split: finance_request.split finance_answer.split option.split)

lemma finance_input_page:
  "1 \<le> fp_supplierPage p \<Longrightarrow> 1 \<le> fp_supplierPage (on_finance_input i p)"
  "fp_isCategorizing (on_finance_input i p) = fp_isCategorizing p"
  by (cases i; simp add: on_finance_input_def handleDeleteExpense_def)+

lemma finance_answer_inv:
  assumes "finance_inv W"
  shows "finance_inv (answers i (finance_answered a) W)"
proof (cases "i < length (pw_open W)")
  case True
  let ?rest = "take i (pw_open W) @ drop (Suc i) (pw_open W)"
  have "length (filter is_category (pw_open W)) = length (filter is_category ?rest) + (if is_category (pw_open W ! i) then 1 else 0)"
    using True by (rule filter_remove_nth)
  with assms show ?thesis
    by (auto simp: finance_inv_def answers_def True finance_answered_page split: if_splits)
qed (use assms in \<open>simp add: answers_def\<close>)

interpretation finance: machine finance_step finance_inv "\<lambda>_. True"
proof
  fix W :: finance_world and e :: finance_event
  assume inv: "finance_inv W"
  show "finance_inv (finance_step W e)"
  proof (cases e)
    case (Input i)
    then show ?thesis using inv by (simp add: finance_step_def finance_inv_def finance_input_page)
  next
    case Categorize_click
    then show ?thesis using inv
      by (auto simp: finance_step_def finance_inv_def handleAutoCategorize_def Let_def is_category_def)
  next
    case (Answered n a)
    then show ?thesis using finance_answer_inv [OF inv] by (simp add: finance_step_def)
  qed (use inv in \<open>auto simp: finance_step_def finance_inv_def handleSaveExpense_def handleSaveSupplier_def
         confirm_delete_def handleGenerateEmail_def Let_def is_category_def split: option.splits\<close>)
qed

lemma one_category_request:
  "length (filter is_category (pw_open (run finance_step (fresh_page finance_start) es))) \<le> 1"
proof -
  have "finance_inv (run finance_step (fresh_page finance_start) es)"
    by (rule finance.run_inv) (simp_all add: finance_inv_def finance_start_def)
  then show ?thesis by (simp add: finance_inv_def split: if_splits)
qed

interpretation expense_form_sent: unguarded_form "handleSaveExpense today" "\<lambda>p. expense_valid (fp_expenseForm p)"
  "\<lambda>p. Save_expense (expense_of today (fp_expenseForm p)) (has_text (ef_id (fp_expenseForm p)))"
  by unfold_locales (simp_all add: handleSaveExpense_def Let_def)

interpretation supplier_form_sent: unguarded_form handleSaveSupplier "\<lambda>p. has_text (sf_name (fp_supplierForm p))"
  "\<lambda>p. Save_supplier (supplier_of (fp_supplierForm p)) (has_text (sf_id (fp_supplierForm p)))"
  by unfold_locales (simp_all add: handleSaveSupplier_def Let_def)

interpretation category_asked: guarded_form handleAutoCategorize
  by unfold_locales (simp add: handleAutoCategorize_def Let_def)

text \<open>What reaches the backend as an expense has a title and an amount that is neither zero nor NaN.\<close>

lemma expense_sent_complete:
  "expense_valid f \<Longrightarrow> e_title (expense_of today f) \<noteq> [] \<and> truthy (e_amount (expense_of today f))"
  by (auto simp: expense_valid_def has_text_def expense_of_def truthy_def opt_num_or_def num_or_def split: option.splits if_splits)

section \<open>Growth and trend\<close>

text \<open>On days up to the 28th, when the UTC date is the local one, the trend has six consecutive months.\<close>

lemma trend_consecutive:
  assumes "d_day now \<le> 28" and "0 \<le> minute - off" and "minute - off < 1440" and "i < 6"
  shows "\<exists>d. trend_months (\<lambda>_. off) minute now ! (5 - i) = month_text d \<and> month_index d = month_index now - int i
    \<and> d_month d < 12"
proof -
  let ?d = "months_back i now"
  have "trend_months (\<lambda>_. off) minute now ! (5 - i) = month_key (\<lambda>_. off) minute ?d"
    using assms(4) by (simp add: trend_months_def rev_nth del: upt_Suc)
  also have "\<dots> = month_text ?d" using assms(2,3) by (simp add: month_key_def utc_same)
  finally show ?thesis using months_back_28 [OF assms(1), of i] by blast
qed

lemma js_growth_zero:
  assumes "is_fin c"
  shows "(if js_eq c (Fin 0) then (if Fin 0 < c then Fin 100 else Fin 0) else ((c - c) / c) * Fin 100) = Fin 0"
proof -
  obtain x where c: "c = Fin x" using assms by (cases c) (auto simp: is_fin_def)
  have d: "c - c = Fin 0" by (simp add: c minus_jsnum_def)
  show ?thesis
  proof (cases "x = 0")
    case False
    have "Fin 0 / Fin x * Fin 100 = Fin 0" using False by simp
    with False show ?thesis unfolding d by (simp add: c js_eq_def)
  qed (simp add: c js_eq_def)
qed

text \<open>On the 31st of March, May, July, October and December the growth of the revenue is always
  0 percent, whatever was sold in the two months: the step back to the month before overflows into
  the current month, so the page compares the month with itself.\<close>

lemma growth_blind_at_month_end:
  assumes "d_day now = 31" and "d_month now \<in> {2, 4, 6, 9, 11}"
    and "0 \<le> minute - off" and "minute - off < 1440"
    and "is_fin (month_revenue sales (month_key (\<lambda>_. off) minute now))"
  shows "revenueGrowthPct (\<lambda>_. off) minute now sales = Fin 0"
proof -
  have eq: "month_key (\<lambda>_. off) minute (months_back 1 now) = month_key (\<lambda>_. off) minute now"
    unfolding month_key_def utc_same [of minute "\<lambda>_. off", OF assms(3,4)]
    using month_end_back [OF assms(1,2)] by (intro month_text_cong) simp_all
  show ?thesis unfolding revenueGrowthPct_def Let_def eq by (rule js_growth_zero [OF assms(5)])
qed

lemma growth_blind_at_month_end_witness:
  "revenueGrowthPct (\<lambda>_. 180) 600 \<lparr> d_year = 2025, d_month = 4, d_day = 31 \<rparr> [] = Fin 0"
  by (rule growth_blind_at_month_end) (simp_all add: month_revenue_def is_fin_def)

section \<open>Debts\<close>

text \<open>A percentage of two whole numbers, computed in doubles and rounded, is the true one rounded.\<close>

lemma rounded_percentage:
  fixes a t :: int
  assumes "0 \<le> a" "a \<le> t" "0 < t" "t \<le> 2 ^ 53"
  shows "\<exists>r. js_round ((jint a / jint t) * Fin 100) = jint r \<and> 0 \<le> r \<and> r \<le> 100
    \<and> \<bar>rat_of_int r - 100 * of_int a / of_int t\<bar> \<le> 1 / 2 + 1 / 2 ^ 40"
proof -
  define x where "x = rat_of_int a / of_int t"
  have x01: "0 \<le> x" "x \<le> 1" using assms by (simp_all add: x_def)
  define q where "q = rnd_rat x"
  have q01: "0 \<le> q" "q \<le> 1"
    using rnd_rat_mono [of 0 x] rnd_rat_mono [of x 1] rnd_rat_int [of 1] x01 by (simp_all add: q_def)
  have "rnd x = Fin q" unfolding q_def using x01 by (intro rnd_Fin) simp
  then have quot: "jint a / jint t = Fin q" using assms(3) by (simp add: x_def)
  define y where "y = rnd_rat (q * 100)"
  have "rnd_rat (q * 100) \<le> rnd_rat 100" using q01 by (intro rnd_rat_mono) linarith
  then have y100: "y \<le> 100" using rnd_rat_int [of 100] by (simp add: y_def)
  have y0: "0 \<le> y" using q01 by (simp add: y_def rnd_rat_nonneg)
  have "rnd (q * 100) = Fin y" unfolding y_def using q01 by (intro rnd_Fin) simp
  then have prod: "(jint a / jint t) * Fin 100 = Fin y" unfolding quot by simp
  define r where "r = \<lfloor>y + 1 / 2\<rfloor>"
  have round: "js_round ((jint a / jint t) * Fin 100) = jint r" unfolding prod r_def by simp
  have r0: "0 \<le> r" using y0 by (simp add: r_def)
  have r100: "r \<le> 100" using y100 by (simp add: r_def floor_le_iff)
  have ry: "\<bar>rat_of_int r - y\<bar> \<le> 1 / 2" unfolding r_def by linarith
  have yq: "\<bar>y - 100 * q\<bar> \<le> 100 / 2 ^ 53 + 1 / 2 ^ 60"
  proof -
    have "\<bar>y - q * 100\<bar> \<le> \<bar>q * 100\<bar> / 2 ^ 53 + 1 / 2 ^ 60" unfolding y_def by (rule rnd_rat_err)
    also have "\<bar>q * 100\<bar> / 2 ^ 53 + 1 / 2 ^ 60 \<le> 100 / 2 ^ 53 + 1 / 2 ^ 60"
      using q01 by (intro add_right_mono divide_right_mono) simp_all
    finally show ?thesis by (simp only: mult.commute)
  qed
  have qx: "\<bar>q - x\<bar> \<le> 1 / 2 ^ 53 + 1 / 2 ^ 60"
  proof -
    have "\<bar>q - x\<bar> \<le> \<bar>x\<bar> / 2 ^ 53 + 1 / 2 ^ 60" unfolding q_def by (rule rnd_rat_err)
    also have "\<bar>x\<bar> / 2 ^ 53 + 1 / 2 ^ 60 \<le> 1 / 2 ^ 53 + 1 / 2 ^ 60"
      using x01 by (intro add_right_mono divide_right_mono) simp_all
    finally show ?thesis .
  qed
  have "rat_of_int r - 100 * x = (rat_of_int r - y) + (y - 100 * q) + 100 * (q - x)"
    by (simp add: algebra_simps)
  then have "\<bar>rat_of_int r - 100 * x\<bar> \<le> \<bar>rat_of_int r - y\<bar> + \<bar>y - 100 * q\<bar> + \<bar>100 * (q - x)\<bar>"
    by (simp only: order_trans [OF abs_triangle_ineq add_right_mono [OF abs_triangle_ineq]])
  also have "\<dots> = \<bar>rat_of_int r - y\<bar> + \<bar>y - 100 * q\<bar> + 100 * \<bar>q - x\<bar>" by (simp only: abs_mult abs_numeral)
  also have "\<dots> \<le> 1 / 2 + (100 / 2 ^ 53 + 1 / 2 ^ 60) + 100 * (1 / 2 ^ 53 + 1 / 2 ^ 60)"
    using ry yq qx by (intro add_mono mult_left_mono) simp_all
  also have "\<dots> \<le> 1 / 2 + 1 / 2 ^ 40" by simp
  finally have "\<bar>rat_of_int r - 100 * x\<bar> \<le> 1 / 2 + 1 / 2 ^ 40" .
  then have "\<bar>rat_of_int r - 100 * of_int a / of_int t\<bar> \<le> 1 / 2 + 1 / 2 ^ 40" by (simp add: x_def)
  with round r0 r100 show ?thesis by blast
qed

text \<open>With whole, non-negative debts on both sides the two percentages of the page are integers from
  0 to 100 that add up to 100, ours being the true share to within half a percent and the rounding
  error; without any debt both are 0.\<close>

lemma debt_percentages:
  assumes "fs_totalReceivables st = jint a" and "fs_totalSupplierDebt st = jint b"
    and "0 \<le> a" and "0 \<le> b" and "a + b \<le> 2 ^ 53"
  shows "\<exists>r p l. debtInfo st = (jint r, jint p, l) \<and> 0 \<le> r \<and> 0 \<le> p
    \<and> r + p = (if a + b = 0 then 0 else 100)
    \<and> \<bar>rat_of_int r - (if a + b = 0 then 0 else 100 * of_int a / of_int (a + b))\<bar> \<le> 1 / 2 + 1 / 2 ^ 40"
proof -
  have t: "jint a + jint b = jint (a + b)" using assms(3-5) by (intro jint_add) simp
  show ?thesis
  proof (cases "a + b = 0")
    case True
    then have z: "jint a + jint b = Fin 0" using t by simp
    have e: "js_eq (Fin 0) (Fin 0)" by (simp add: js_eq_def)
    have "\<exists>l. debtInfo st = (jint 0, jint 0, l)"
      unfolding debtInfo_def Let_def assms(1,2) z by (simp only: e if_True of_int_0) blast
    then obtain l where d: "debtInfo st = (jint 0, jint 0, l)" ..
    show ?thesis by (intro exI [of _ 0] exI [of _ l]) (simp add: d True)
  next
    case False
    with assms(3,4) have pos: "0 < a + b" by simp
    obtain r where r: "js_round ((jint a / jint (a + b)) * Fin 100) = jint r" "0 \<le> r" "r \<le> 100"
      and near: "\<bar>rat_of_int r - 100 * of_int a / of_int (a + b)\<bar> \<le> 1 / 2 + 1 / 2 ^ 40"
      using rounded_percentage [OF assms(3) _ pos assms(5)] assms(4) by auto
    have "Fin 100 - jint r = jint (100 - r)" using jint_diff [of 100 r] r by simp
    moreover have ne: "\<not> js_eq (jint (a + b)) (Fin 0)" using False by (simp add: js_eq_def flip: of_int_add)
    ultimately have "\<exists>l. debtInfo st = (jint r, jint (100 - r), l)"
      unfolding debtInfo_def Let_def assms(1,2) t by (simp only: ne if_False r) blast
    then obtain l where d: "debtInfo st = (jint r, jint (100 - r), l)" ..
    show ?thesis
      by (intro exI [of _ r] exI [of _ "100 - r"] exI [of _ l]) (use d r near False in \<open>simp\<close>)
  qed
qed

lemma debt_percentages_witness:
  "\<exists>r p l. debtInfo \<lparr> fs_totalRevenue = Fin 0, fs_totalExpenses = Fin 0, fs_netProfit = Fin 0,
       fs_profitMargin = Fin 0, fs_totalSupplierDebt = jint 500, fs_totalReceivables = jint 250 \<rparr> = (jint r, jint p, l)
     \<and> r + p = 100"
  using debt_percentages [of "\<lparr> fs_totalRevenue = Fin 0, fs_totalExpenses = Fin 0, fs_netProfit = Fin 0,
       fs_profitMargin = Fin 0, fs_totalSupplierDebt = jint 500, fs_totalReceivables = jint 250 \<rparr>" 250 500] by auto

section \<open>The expense breakdown\<close>

definition add_int :: "(expense \<Rightarrow> int) \<Rightarrow> (jstr \<times> int) list \<Rightarrow> expense \<Rightarrow> (jstr \<times> int) list" where
  "add_int amt m e =
     (let k = category_key (e_category e) in obj_put k ((case map_of m k of None \<Rightarrow> 0 | Some v \<Rightarrow> v) + amt e) m)"

definition amounts :: "(jstr \<times> int) list \<Rightarrow> int" where
  "amounts m = sum_list (map snd m)"

lemma amounts_obj_put:
  "distinct (map fst m) \<Longrightarrow> amounts (obj_put k v m) = amounts m - (case map_of m k of None \<Rightarrow> 0 | Some u \<Rightarrow> u) + v"
proof (induction m)
  case (Cons p m)
  have "map_of m k = None" if "k \<notin> fst ` set m" using that by (simp add: map_of_eq_None_iff)
  with Cons show ?case by (cases p) (auto simp: amounts_def)
qed (simp add: amounts_def)

lemma amounts_add_int: "distinct (map fst m) \<Longrightarrow> amounts (add_int amt m e) = amounts m + amt e"
  by (simp add: add_int_def Let_def amounts_obj_put)

lemma distinct_add_int: "distinct (map fst m) \<Longrightarrow> distinct (map fst (add_int amt m e))"
  by (simp add: add_int_def Let_def distinct_obj_put)

lemma amounts_folded: "distinct (map fst m) \<Longrightarrow> amounts (foldl (add_int amt) m es) = amounts m + sum_list (map amt es)"
  by (induction es arbitrary: m) (simp_all add: amounts_add_int distinct_add_int)

lemma distinct_folded: "distinct (map fst m) \<Longrightarrow> distinct (map fst (foldl (add_int amt) m es))"
  by (induction es arbitrary: m) (simp_all add: distinct_add_int)

lemma obj_put_map: "obj_put k (f v) (map (apsnd f) m) = map (apsnd f) (obj_put k v m)"
  by (induction m) auto

lemma obj_put_nonneg: "\<forall>p\<in>set m. 0 \<le> snd p \<Longrightarrow> 0 \<le> v \<Longrightarrow> \<forall>p\<in>set (obj_put k v m). 0 \<le> (snd p :: int)"
proof (induction m)
  case (Cons p m)
  then show ?case by (cases p) (simp split: if_splits)
qed simp

lemma amount_le_amounts:
  assumes "\<forall>p\<in>set m. 0 \<le> snd p" and "map_of m k = Some v"
  shows "0 \<le> v \<and> v \<le> amounts m"
proof -
  have "(k, v) \<in> set m" using assms(2) by (rule map_of_SomeD)
  then have "v \<in> set (map snd m)" by force
  then show ?thesis using assms(1) member_le_sum_list [of v "map snd m"] by (auto simp: amounts_def)
qed

lemma add_expense_int:
  assumes "\<forall>p\<in>set m. 0 \<le> snd p" and "e_amount e = jint (amt e)" and "0 \<le> amt e" and "amounts m + amt e \<le> 2 ^ 53"
  shows "add_expense (map (apsnd jint) m) e = map (apsnd jint) (add_int amt m e)"
    and "\<forall>p\<in>set (add_int amt m e). 0 \<le> snd p"
proof -
  let ?k = "category_key (e_category e)"
  define u where "u = (case map_of m ?k of None \<Rightarrow> 0 | Some v \<Rightarrow> v)"
  have nn: "0 \<le> amounts m" unfolding amounts_def using assms(1) by (intro sum_list_nonneg) auto
  have u: "0 \<le> u \<and> u \<le> amounts m"
    using amount_le_amounts [OF assms(1)] nn by (auto simp: u_def split: option.splits)
  have get: "map_of (map (apsnd jint) m) ?k = map_option jint (map_of m ?k)"
    by (induction m) auto
  have "opt_num_or (map_of (map (apsnd jint) m) ?k) (Fin 0) = jint u"
    unfolding get by (cases "map_of m ?k") (auto simp: u_def opt_num_or_def num_or_def truthy_def)
  moreover have "jint u + e_amount e = jint (u + amt e)"
    unfolding assms(2) using u assms(3,4) by (intro jint_add) simp
  ultimately show "add_expense (map (apsnd jint) m) e = map (apsnd jint) (add_int amt m e)"
    unfolding add_expense_def add_int_def Let_def u_def [symmetric] by (simp only: obj_put_map [where f = jint])
  show "\<forall>p\<in>set (add_int amt m e). 0 \<le> snd p"
    unfolding add_int_def Let_def u_def [symmetric] using u assms(3) by (intro obj_put_nonneg assms(1)) simp
qed

lemma breakdown_int:
  assumes "\<forall>p\<in>set m. 0 \<le> snd p" and "distinct (map fst m)"
    and "\<forall>e\<in>set es. e_amount e = jint (amt e) \<and> 0 \<le> amt e" and "amounts m + sum_list (map amt es) \<le> 2 ^ 53"
  shows "foldl add_expense (map (apsnd jint) m) es = map (apsnd jint) (foldl (add_int amt) m es)"
  using assms
proof (induction es arbitrary: m)
  case (Cons e es)
  have rest: "0 \<le> sum_list (map amt es)" using Cons.prems(3) by (intro sum_list_nonneg) auto
  have fits: "amounts m + amt e \<le> 2 ^ 53" using Cons.prems(4) rest by simp
  have e: "e_amount e = jint (amt e)" "0 \<le> amt e" using Cons.prems(3) by auto
  note step = add_expense_int [where amt = amt, OF Cons.prems(1) e fits]
  have "foldl add_expense (map (apsnd jint) (add_int amt m e)) es = map (apsnd jint) (foldl (add_int amt) (add_int amt m e) es)"
    using Cons.prems step(2) amounts_add_int [OF Cons.prems(2), of amt e]
    by (intro Cons.IH distinct_add_int) simp_all
  then show ?case by (simp add: step(1))
qed simp

text \<open>The expense breakdown is complete: with whole, non-negative amounts the shares of the
  categories add up to the total expenses of the page, and no category is listed twice.\<close>

lemma breakdown_complete:
  assumes "\<forall>e\<in>set es. e_amount e = jint (amt e) \<and> 0 \<le> amt e" and "sum_list (map amt es) \<le> 2 ^ 53"
  shows "\<exists>vs. map (\<lambda>(l, v, c). v) (expenseBreakdown es) = map jint vs
      \<and> fs_totalExpenses (stats_of_finance sales es orders) = jint (sum_list vs)
      \<and> distinct (map fst (foldl add_expense [] es))"
proof -
  let ?m = "foldl (add_int amt) [] es"
  have m: "foldl add_expense [] es = map (apsnd jint) ?m"
    using breakdown_int [of "[]" es amt] assms by (simp add: amounts_def)
  have "map e_amount es = map jint (map amt es)" using assms(1) by simp
  then have "js_sum (Fin 0) (map e_amount es) = jint (sum_list (map amt es))"
    using js_sum_jint_nonneg [of "map amt es" 0] assms by (simp only: of_int_0 add_0) auto
  then have t: "fs_totalExpenses (stats_of_finance sales es orders) = jint (sum_list (map amt es))"
    by (simp add: stats_of_finance_def Let_def)
  have s: "sum_list (map snd ?m) = sum_list (map amt es)"
    using amounts_folded [of "[]" amt es] by (simp add: amounts_def)
  have d: "distinct (map fst (foldl add_expense [] es))"
    using distinct_folded [of "[]" amt es] by (simp add: m comp_def)
  show ?thesis
    by (intro exI [of _ "map snd ?m"] conjI d) (simp_all add: expenseBreakdown_def m t s split_beta)
qed

definition sample_expense :: expense where
  "sample_expense = \<lparr> e_id = js ''e1'', e_title = js ''Rent'', e_amount = jint 250, e_category = E_rent,
     e_date = js ''2025-05-01'', e_notes = None \<rparr>"

lemma breakdown_complete_witness:
  "\<exists>vs. map (\<lambda>(l, v, c). v) (expenseBreakdown [sample_expense, sample_expense\<lparr>e_category := E_bills\<rparr>]) = map jint vs
     \<and> fs_totalExpenses (stats_of_finance [] [sample_expense, sample_expense\<lparr>e_category := E_bills\<rparr>] []) = jint (sum_list vs)
     \<and> distinct (map fst (foldl add_expense [] [sample_expense, sample_expense\<lparr>e_category := E_bills\<rparr>]))"
  by (rule breakdown_complete [where amt = "\<lambda>_. 250"]) (simp_all add: sample_expense_def)

section \<open>The mail to a supplier\<close>

text \<open>Two mails asked for one after the other may cross: when the window of the second supplier is
  open and the text for the first supplier comes last, the window shows the first supplier's text
  as finished.\<close>

lemma crossed_mail:
  assumes "pw_open W = []"
  shows "fp_emailModal (pw_page (run finance_step W [Email_click store a nameA, Input Close_email,
           Email_click store b nameB, Answered 1 (Written tB), Answered 0 (Written tA)])) = Some b
    \<and> fp_generatedEmail (pw_page (run finance_step W [Email_click store a nameA, Input Close_email,
           Email_click store b nameB, Answered 1 (Written tB), Answered 0 (Written tA)])) = tA
    \<and> \<not> fp_generatingEmail (pw_page (run finance_step W [Email_click store a nameA, Input Close_email,
           Email_click store b nameB, Answered 1 (Written tB), Answered 0 (Written tA)]))"
  using assms by (simp add: finance_step_def handleGenerateEmail_def on_finance_input_def answers_def
      finance_answered_def email_written_def)

lemma crossed_mail_witness:
  "fp_generatedEmail (pw_page (run finance_step (fresh_page finance_start) [Email_click [] (js ''a'') (js ''A''),
     Input Close_email, Email_click [] (js ''b'') (js ''B''), Answered 1 (Written (js ''to B'')),
     Answered 0 (Written (js ''to A''))])) = js ''to A''"
  using crossed_mail [of "fresh_page finance_start" "[]" "js ''a''" "js ''A''" "js ''b''" "js ''B''"
    "js ''to B''" "js ''to A''"] by (simp only: page_simps simp_thms)

end
