(* ===== verification/Customers.thy ===== *)
theory Customers
  imports Pages ForceDelete Money
begin

text \<open>
  The customer page (\<open>features/customers/customers.tsx\<close>): its figures and filters, the form, the payment
  of a debt and of installments, as steps of a page (theory \<open>Pages\<close>). The deletion of a customer is in
  theory \<open>ForceDelete\<close>.
\<close>

section \<open>Figures and filters\<close>

record customer_stats =
  cs_totalCustomers :: jsnum
  cs_totalDebt :: jsnum
  cs_totalInstallmentDebt :: jsnum
  cs_totalAllDebt :: jsnum
  cs_vipCustomers :: nat

definition customer_stats_of :: "jsnum \<Rightarrow> customer list \<Rightarrow> customer_stats" where
  "customer_stats_of all customers =
     (let totalDebt = js_round (js_sum (Fin 0) (map (\<lambda>c. num_or (c_debt c) (Fin 0)) customers));
          totalInstallmentDebt = js_round (js_sum (Fin 0) (map (\<lambda>c. num_or (c_installmentDebt c) (Fin 0)) customers))
      in \<lparr> cs_totalCustomers = num_or all (jint (int (length customers))), cs_totalDebt = totalDebt,
           cs_totalInstallmentDebt = totalInstallmentDebt, cs_totalAllDebt = totalDebt + totalInstallmentDebt,
           cs_vipCustomers = length (filter (\<lambda>c. Fin 1000000 < num_or (c_totalPurchases c) (Fin 0)) customers) \<rparr>)"

definition in_debt :: "customer \<Rightarrow> bool" where
  "in_debt c = (Fin 0 < num_or (c_debt c) (Fin 0) + num_or (c_installmentDebt c) (Fin 0))"

definition filtered_customers :: "bool \<Rightarrow> customer list \<Rightarrow> customer list" where
  "filtered_customers showOnlyDebt customers = (if showOnlyDebt then filter in_debt customers else customers)"

definition selectedCustomerHistory :: "jstr option \<Rightarrow> customer list \<Rightarrow> sale list \<Rightarrow> sale list" where
  "selectedCustomerHistory historyModal customers sales = (case historyModal of None \<Rightarrow> []
     | Some h \<Rightarrow> if h = [] then []
         else filter (\<lambda>s. case find_first (\<lambda>c. c_id c = h) customers of None \<Rightarrow> False
                        | Some target \<Rightarrow> x_customerId s = Some h
                            \<or> x_customerId s \<in> {None, Some []} \<and> x_customer s = c_name target) sales)"

definition gridColumns :: "jsnum \<Rightarrow> int" where
  "gridColumns containerWidth = (if Fin 1536 \<le> containerWidth then 4 else if Fin 1280 \<le> containerWidth then 3
     else if Fin 768 \<le> containerWidth then 2 else 1)"

definition grid_rows :: "jsnum \<Rightarrow> customer list \<Rightarrow> jsnum" where
  "grid_rows containerWidth filtered = js_ceil (jint (int (length filtered)) / jint (gridColumns containerWidth))"

definition unpaid_amount :: "installment list \<Rightarrow> jsnum" where
  "unpaid_amount schedule =
     num_or (js_sum (Fin 0) (map n_amount (filter (\<lambda>i. n_status i \<noteq> js ''paid'') schedule))) (Fin 0)"

section \<open>The page\<close>

record customer_form =
  cf_id :: "jstr option"
  cf_name :: "jstr option"
  cf_phone :: "jstr option"
  cf_totalPurchases :: "jsnum option"
  cf_debt :: "jsnum option"
  cf_installmentDebt :: "jsnum option"
  cf_lastVisit :: "jstr option"
  cf_points :: "jsnum option"
  cf_notes :: "jstr option"

record customer_page =
  cp_page :: int
  cp_search :: jstr
  cp_modalOpen :: bool
  cp_historyModal :: "jstr option"
  cp_payDebtModal :: "customer option"
  cp_installmentModal :: "jstr option"
  cp_form :: customer_form
  cp_showOnlyDebt :: bool
  cp_showStats :: bool
  cp_payingKey :: "jstr option"

definition empty_customer_form :: customer_form where
  "empty_customer_form = \<lparr> cf_id = None, cf_name = None, cf_phone = None, cf_totalPurchases = None,
     cf_debt = None, cf_installmentDebt = None, cf_lastVisit = None, cf_points = None, cf_notes = None \<rparr>"

definition customer_page_start :: customer_page where
  "customer_page_start = \<lparr> cp_page = 1, cp_search = [], cp_modalOpen = False, cp_historyModal = None,
     cp_payDebtModal = None, cp_installmentModal = None, cp_form = empty_customer_form,
     cp_showOnlyDebt = False, cp_showStats = False, cp_payingKey = None \<rparr>"

record payment =
  pm_saleId :: jstr
  pm_customerId :: jstr
  pm_amount :: jsnum
  pm_method :: jstr
  pm_note :: jstr
  pm_timestamp :: int

datatype customer_request =
    Save_customer customer_form bool
  | Create_payment payment
  | Pay_installment jstr nat jsnum jstr "jstr option"

type_synonym customer_world = "(customer_page, customer_request) page_world"

definition handleInitAdd :: "customer_page \<Rightarrow> customer_page" where
  "handleInitAdd p = p\<lparr> cp_form := empty_customer_form\<lparr> cf_name := Some [], cf_phone := Some [], cf_notes := Some [],
     cf_debt := Some (Fin 0), cf_totalPurchases := Some (Fin 0) \<rparr>, cp_modalOpen := True \<rparr>"

definition form_of_customer :: "customer \<Rightarrow> customer_form" where
  "form_of_customer c = \<lparr> cf_id = Some (c_id c), cf_name = Some (c_name c), cf_phone = Some (c_phone c),
     cf_totalPurchases = Some (c_totalPurchases c), cf_debt = Some (c_debt c),
     cf_installmentDebt = Some (c_installmentDebt c), cf_lastVisit = Some (c_lastVisit c),
     cf_points = Some (c_points c), cf_notes = c_notes c \<rparr>"

definition handleInitEdit :: "customer \<Rightarrow> customer_page \<Rightarrow> customer_page" where
  "handleInitEdit c p = p\<lparr> cp_form := form_of_customer c, cp_modalOpen := True \<rparr>"

text \<open>\<open>t.replace(/[^0-9]/g, '')\<close>.\<close>

definition ascii_digits :: "jstr \<Rightarrow> jstr" where
  "ascii_digits t = filter is_digit t"

definition text_given :: "jstr option \<Rightarrow> bool" where
  "text_given t = (t \<notin> {None, Some []})"

definition customer_form_valid :: "customer_form \<Rightarrow> bool" where
  "customer_form_valid f = (text_given (cf_name f) \<and> text_given (cf_phone f))"

definition customer_to_save :: "customer_form \<Rightarrow> customer_form" where
  "customer_to_save f = f\<lparr> cf_id := (if text_given (cf_id f) then cf_id f else None),
     cf_debt := Some (opt_num_or (cf_debt f) (Fin 0)),
     cf_totalPurchases := Some (opt_num_or (cf_totalPurchases f) (Fin 0)),
     cf_phone := map_option ascii_digits (cf_phone f) \<rparr>"

definition handleSave :: "customer_world \<Rightarrow> customer_world" where
  "handleSave W =
     (let f = cp_form (pw_page W)
      in if \<not> customer_form_valid f then tells [Says [1575, 1604, 1575, 1587, 1605, 32,
        1608, 1585, 1602, 1605, 32, 1575, 1604, 1607, 1575, 1578,
  1601, 32, 1605, 1591, 1604, 1608, 1576, 1575, 1606] T_error] W
         else asks (Save_customer (customer_to_save f) (text_given (cf_id f))) W)"

definition customer_saved :: "bool \<Rightarrow> unit + thrown \<Rightarrow> customer_world \<Rightarrow> customer_world" where
  "customer_saved isUpdate a W = (case a of
     Inl u \<Rightarrow> tells [Invalidates invalidateAllData] (turns (\<lambda>p. p\<lparr>cp_modalOpen := False\<rparr>)
       (tells [Says (if isUpdate then [1578, 1605, 32, 1578, 1581, 1583, 1610, 1579, 32, 1575,
         1604, 1576, 1610, 1575, 1606, 1575, 1578] else [1578, 1605, 32, 1573, 1590, 1575, 1601,
         1577, 32, 1575, 1604, 1593, 1605, 1610, 1604]) T_success] W))
   | Inr e \<Rightarrow> tells [Says (message_or [1582, 1591, 1571, 32, 1601, 1610, 32, 1575,
     1604, 1581, 1601, 1592] e) T_error] W)"

definition debt_payment :: "customer \<Rightarrow> jsnum \<Rightarrow> int \<Rightarrow> payment" where
  "debt_payment c amount now = \<lparr> pm_saleId = [], pm_customerId = c_id c, pm_amount = amount, pm_method = js ''cash'',
     pm_note = [1578, 1587, 1583, 1610, 1583, 32, 1583, 1610, 1606], pm_timestamp = now \<rparr>"

definition handlePayDebt :: "jsnum \<Rightarrow> int \<Rightarrow> customer_world \<Rightarrow> customer_world" where
  "handlePayDebt amount now W = (case cp_payDebtModal (pw_page W) of
     None \<Rightarrow> W
   | Some c \<Rightarrow> if amount \<le> Fin 0 then W else asks (Create_payment (debt_payment c amount now)) W)"

definition debt_paid :: "jstr \<Rightarrow> jsnum \<Rightarrow> unit + thrown \<Rightarrow> customer_world \<Rightarrow> customer_world" where
  "debt_paid cur amount a W = (case a of
     Inl u \<Rightarrow> tells [Invalidates invalidateAllData] (turns (\<lambda>p. p\<lparr>cp_payDebtModal := None\<rparr>)
       (tells [Says ([1578, 1605, 32, 1575, 1604, 1578, 1587, 1583, 1610, 1583,
         32] @ formatCurrency amount cur) T_success] W))
   | Inr e \<Rightarrow> tells [Says (message_or [1601, 1588, 1604, 32, 1575, 1604, 1593, 1605,
     1604, 1610, 1577] e) T_error] W)"

text \<open>The key of an installment, and the guard on the key that is being paid.\<close>

definition paying_key :: "jstr \<Rightarrow> nat \<Rightarrow> jstr" where
  "paying_key saleId index = saleId @ 45 # show_nat index"

definition handlePayInstallment :: "jstr \<Rightarrow> nat \<Rightarrow> jsnum \<Rightarrow> customer_world \<Rightarrow> customer_world" where
  "handlePayInstallment saleId index amount W =
     (if cp_payingKey (pw_page W) = Some (paying_key saleId index) then W
      else asks (Pay_installment saleId index amount (js ''cash'') (cp_installmentModal (pw_page W)))
             (turns (\<lambda>p. p\<lparr>cp_payingKey := Some (paying_key saleId index)\<rparr>) W))"

definition installment_error :: "thrown \<Rightarrow> jstr" where
  "installment_error e =
     (let m = chain (app_error (thrown_text e)) (js ''message'');
          m' = (case e of Thrown_error t \<Rightarrow> JStr t | Thrown_value v \<Rightarrow> chain v (js ''message''))
      in if json_truthy m then js_string m
         else if json_truthy m' then js_string m'
         else (case e of Thrown_value (JStr s) \<Rightarrow> s | _ \<Rightarrow> [1581, 1583,
           1579, 32, 1582, 1591, 1571, 32, 1571, 1579, 1606, 1575, 1569, 32, 1578, 1587, 1583,
  1610, 1583, 32, 1575, 1604, 1602, 1587, 1591]))"

definition installment_paid :: "jstr option \<Rightarrow> unit + thrown \<Rightarrow> customer_world \<Rightarrow> customer_world" where
  "installment_paid modal a W =
     turns (\<lambda>p. p\<lparr>cp_payingKey := None\<rparr>)
       (case a of
          Inl u \<Rightarrow> tells ([Says [1578, 1605, 32, 1578, 1587, 1583, 1610, 1583, 32,
            1575, 1604, 1602, 1587, 1591, 32, 1576, 1606,
  1580, 1575, 1581] T_success, Invalidates [sales_all], Invalidates [customers_all]]
              @ (case modal of Some c \<Rightarrow> if c = [] then [] else [Invalidates [sales_installments c]] | None \<Rightarrow> [])
              @ [Invalidates invalidateAllData]) W
        | Inr e \<Rightarrow> tells [Says (installment_error e) T_error] W)"

section \<open>Steps\<close>

text \<open>A change of the search text is followed by the effect that goes back to the first page.\<close>

datatype customer_input =
    Search_customers jstr
  | Toggle_debtors
  | Toggle_customer_stats
  | Add_customer
  | Edit_customer customer
  | Type_customer customer_form
  | Close_customer
  | Previous_customers
  | Next_customers int
  | Show_history "jstr option"
  | Show_debt "customer option"
  | Show_installments "jstr option"

definition on_customer_input :: "customer_input \<Rightarrow> customer_page \<Rightarrow> customer_page" where
  "on_customer_input e p = (case e of
     Search_customers s \<Rightarrow> (let q = p\<lparr>cp_search := s\<rparr> in if s = cp_search p then q else q\<lparr>cp_page := 1\<rparr>)
   | Toggle_debtors \<Rightarrow> p\<lparr>cp_showOnlyDebt := \<not> cp_showOnlyDebt p\<rparr>
   | Toggle_customer_stats \<Rightarrow> p\<lparr>cp_showStats := \<not> cp_showStats p\<rparr>
   | Add_customer \<Rightarrow> handleInitAdd p
   | Edit_customer c \<Rightarrow> handleInitEdit c p
   | Type_customer f \<Rightarrow> p\<lparr>cp_form := f\<rparr>
   | Close_customer \<Rightarrow> p\<lparr>cp_modalOpen := False\<rparr>
   | Previous_customers \<Rightarrow> (if cp_page p \<le> 1 then p else p\<lparr>cp_page := max 1 (cp_page p - 1)\<rparr>)
   | Next_customers totalPages \<Rightarrow> (if totalPages \<le> cp_page p then p else p\<lparr>cp_page := cp_page p + 1\<rparr>)
   | Show_history h \<Rightarrow> p\<lparr>cp_historyModal := h\<rparr>
   | Show_debt c \<Rightarrow> p\<lparr>cp_payDebtModal := c\<rparr>
   | Show_installments c \<Rightarrow> p\<lparr>cp_installmentModal := c\<rparr>)"

datatype customer_event =
    Customer_input customer_input
  | Save_click
  | Pay_debt_click jsnum int
  | Pay_installment_click jstr nat jsnum
  | Customer_answered nat "unit + thrown"

definition customer_answered :: "jstr \<Rightarrow> unit + thrown \<Rightarrow> customer_request \<Rightarrow> customer_world \<Rightarrow> customer_world" where
  "customer_answered cur a r = (case r of
     Save_customer f isUpdate \<Rightarrow> customer_saved isUpdate a
   | Create_payment p \<Rightarrow> debt_paid cur (pm_amount p) a
   | Pay_installment s i n m modal \<Rightarrow> installment_paid modal a)"

definition customer_step :: "jstr \<Rightarrow> customer_world \<Rightarrow> customer_event \<Rightarrow> customer_world" where
  "customer_step cur W e = (case e of
     Customer_input i \<Rightarrow> turns (on_customer_input i) W
   | Save_click \<Rightarrow> handleSave W
   | Pay_debt_click amount now \<Rightarrow> handlePayDebt amount now W
   | Pay_installment_click s i n \<Rightarrow> handlePayInstallment s i n W
   | Customer_answered k a \<Rightarrow> answers k (customer_answered cur a) W)"

section \<open>What is sent\<close>

lemma ascii_digits_set: "\<forall>c\<in>set (ascii_digits t). is_digit c"
  by (simp add: ascii_digits_def)

lemma opt_num_or_zero: "opt_num_or d (Fin 0) \<noteq> NaN"
  by (auto simp: opt_num_or_def num_or_def truthy_def split: option.split)

text \<open>A request that saves a customer has a name, a phone of ASCII digits, and debts that are numbers; a
  payment of a debt is not zero or less.\<close>

definition clean_request :: "customer_request \<Rightarrow> bool" where
  "clean_request r = (case r of
     Save_customer f u \<Rightarrow> text_given (cf_name f)
       \<and> (case cf_phone f of None \<Rightarrow> False | Some t \<Rightarrow> list_all is_digit t)
       \<and> (case cf_debt f of None \<Rightarrow> False | Some d \<Rightarrow> d \<noteq> NaN)
       \<and> (case cf_totalPurchases f of None \<Rightarrow> False | Some d \<Rightarrow> d \<noteq> NaN) \<and> cf_id f \<noteq> Some []
   | Create_payment p \<Rightarrow> \<not> pm_amount p \<le> Fin 0 \<and> pm_saleId p = []
   | Pay_installment s i n m modal \<Rightarrow> m = js ''cash'')"

lemma customer_to_save_clean: "customer_form_valid f \<Longrightarrow> clean_request (Save_customer (customer_to_save f) u)"
  using opt_num_or_zero
  by (auto simp: clean_request_def customer_to_save_def customer_form_valid_def text_given_def
      ascii_digits_def list_all_iff split: option.split)

definition customers_inv :: "customer_world \<Rightarrow> bool" where
  "customers_inv W = (list_all clean_request (asked W) \<and> 1 \<le> cp_page (pw_page W))"

lemma customer_answered_asked: "asked (customer_answered cur a r W) = asked W"
  by (auto simp: customer_answered_def customer_saved_def debt_paid_def installment_paid_def
      split: customer_request.split sum.split option.split)

lemma customer_answered_page: "cp_page (pw_page (customer_answered cur a r W)) = cp_page (pw_page W)"
  by (auto simp: customer_answered_def customer_saved_def debt_paid_def installment_paid_def
      split: customer_request.split sum.split option.split)

lemma customer_input_page: "1 \<le> cp_page p \<Longrightarrow> 1 \<le> cp_page (on_customer_input i p)"
  by (cases i) (auto simp: on_customer_input_def handleInitAdd_def handleInitEdit_def Let_def)

interpretation customers: machine "customer_step cur" customers_inv "\<lambda>_. True"
proof
  fix W :: customer_world and e :: customer_event
  assume inv: "customers_inv W"
  show "customers_inv (customer_step cur W e)"
  proof (cases e)
    case (Customer_input i)
    then show ?thesis using inv by (simp add: customer_step_def customers_inv_def customer_input_page)
  next
    case Save_click
    then show ?thesis using inv customer_to_save_clean
      by (simp add: customer_step_def customers_inv_def handleSave_def Let_def)
  next
    case (Pay_debt_click amount now)
    then show ?thesis using inv
      by (simp add: customer_step_def customers_inv_def handlePayDebt_def clean_request_def debt_payment_def split: option.split)
  next
    case (Pay_installment_click s i n)
    then show ?thesis using inv
      by (simp add: customer_step_def customers_inv_def handlePayInstallment_def clean_request_def)
  next
    case (Customer_answered k a)
    then show ?thesis using inv
      by (simp add: customer_step_def customers_inv_def answers_def customer_answered_asked customer_answered_page)
  qed
qed

text \<open>Whatever happens on the customer page, every customer it sends to the backend has a name, a phone
  of ASCII digits only and debts that are numbers, every payment of a debt is of a positive amount
  and bound to no sale, and the page number stays at least 1.\<close>

lemma customer_requests_clean:
  "list_all clean_request (asked (run (customer_step cur) (fresh_page customer_page_start) es))
   \<and> 1 \<le> cp_page (pw_page (run (customer_step cur) (fresh_page customer_page_start) es))"
proof -
  have "customers_inv (run (customer_step cur) (fresh_page customer_page_start) es)"
    by (rule customers.run_inv) (simp_all add: customers_inv_def customer_page_start_def)
  then show ?thesis by (simp add: customers_inv_def)
qed

text \<open>A phone typed in Arabic digits passes the check of the form and is sent as the empty text: the
  filter keeps ASCII digits only.\<close>

lemma arabic_phone_lost:
  assumes "cp_form (pw_page W) = f" and "text_given (cf_name f)" and "cf_phone f = Some t" and "t \<noteq> []"
    and "\<forall>c\<in>set t. 1632 \<le> c \<and> c \<le> 1641"
  shows "\<exists>g u. asked (customer_step cur W Save_click) = asked W @ [Save_customer g u] \<and> cf_phone g = Some []"
proof -
  have "ascii_digits t = []" using assms(5) by (force simp: ascii_digits_def is_digit_def filter_empty_conv)
  moreover have "customer_form_valid f" using assms(2-4) by (simp add: customer_form_valid_def text_given_def)
  ultimately show ?thesis
    by (simp add: customer_step_def handleSave_def Let_def assms(1,3) customer_to_save_def)
qed

definition arabic_form :: customer_form where
  "arabic_form = empty_customer_form\<lparr> cf_name := Some (js ''Ali''),
    cf_phone := Some [1632, 1639, 1639, 1632, 1633] \<rparr>"

lemma arabic_phone_lost_witness:
  "\<exists>g u. asked (customer_step (js ''IQD'') (fresh_page (customer_page_start\<lparr>cp_form := arabic_form\<rparr>)) Save_click)
       = [Save_customer g u] \<and> cf_phone g = Some []"
  using arabic_phone_lost [of "fresh_page (customer_page_start\<lparr>cp_form := arabic_form\<rparr>)" arabic_form
      "[1632, 1639, 1639, 1632, 1633]" "js ''IQD''"]
  by (simp add: arabic_form_def text_given_def)

section \<open>Clicks\<close>

interpretation customer_form_sent: unguarded_form handleSave "\<lambda>p. customer_form_valid (cp_form p)"
  "\<lambda>p. Save_customer (customer_to_save (cp_form p)) (text_given (cf_id (cp_form p)))"
  by unfold_locales (simp_all add: handleSave_def Let_def)

interpretation debt_payment_sent: unguarded_form "handlePayDebt amount now"
  "\<lambda>p. cp_payDebtModal p \<noteq> None \<and> \<not> amount \<le> Fin 0"
  "\<lambda>p. Create_payment (debt_payment (the (cp_payDebtModal p)) amount now)"
  by unfold_locales (auto simp: handlePayDebt_def split: option.split)

interpretation installment_sent: guarded_form "handlePayInstallment s i n"
  by unfold_locales (simp add: handlePayInstallment_def)

text \<open>Nothing stops a second click on the button that pays a debt: n clicks before the first answer are n
  payments of the full amount.\<close>

lemma debt_paid_per_click:
  assumes "cp_payDebtModal (pw_page W) = Some c" and "\<not> amount \<le> Fin 0"
  shows "asked (run (customer_step cur) W (replicate n (Pay_debt_click amount now)))
       = asked W @ replicate n (Create_payment (debt_payment c amount now))"
proof -
  have "(\<lambda>W. customer_step cur W (Pay_debt_click amount now)) = handlePayDebt amount now"
    by (simp add: fun_eq_iff customer_step_def)
  then show ?thesis using debt_payment_sent.clicks [of W amount n now] assms by (simp add: run_replicate)
qed

definition debtor :: customer where
  "debtor = \<lparr> c_id = js ''c1'', c_name = js ''Ali'', c_phone = js ''0770'', c_totalPurchases = Fin 0,
     c_debt = jint 5000, c_installmentDebt = Fin 0, c_lastVisit = [], c_points = Fin 0, c_notes = None \<rparr>"

lemma debt_paid_per_click_witness:
  "asked (run (customer_step (js ''IQD'')) (fresh_page (customer_page_start\<lparr>cp_payDebtModal := Some debtor\<rparr>))
     (replicate 2 (Pay_debt_click (jint 5000) 7)))
   = replicate 2 (Create_payment (debt_payment debtor (jint 5000) 7))"
  using debt_paid_per_click [of "fresh_page (customer_page_start\<lparr>cp_payDebtModal := Some debtor\<rparr>)"
      debtor "jint 5000" "js ''IQD''" 2 7] by simp

text \<open>The guard on installments remembers one key only. Clicks on one installment alone are one request,
  but a click on another installment in between lets the first be paid again while its payment is
  still under way.\<close>

lemma installment_guard_one_key:
  assumes "cp_payingKey (pw_page W) = None" and "paying_key s i \<noteq> paying_key s' j"
  shows "map (\<lambda>r. case r of Pay_installment t k m c d \<Rightarrow> Some (t, k) | _ \<Rightarrow> None)
           (drop (length (asked W)) (asked (run (customer_step cur) W
              [Pay_installment_click s i n, Pay_installment_click s i n])))
         = [Some (s, i)]
    \<and> map (\<lambda>r. case r of Pay_installment t k m c d \<Rightarrow> Some (t, k) | _ \<Rightarrow> None)
           (drop (length (asked W)) (asked (run (customer_step cur) W
              [Pay_installment_click s i n, Pay_installment_click s' j n', Pay_installment_click s i n])))
         = [Some (s, i), Some (s', j), Some (s, i)]"
  using assms by (simp add: customer_step_def handlePayInstallment_def)

lemma installment_guard_one_key_witness:
  "map (\<lambda>r. case r of Pay_installment t k m c d \<Rightarrow> Some (t, k) | _ \<Rightarrow> None)
     (asked (run (customer_step (js ''IQD'')) (fresh_page customer_page_start)
        [Pay_installment_click (js ''s1'') 0 (Fin 100), Pay_installment_click (js ''s1'') 1 (Fin 100),
         Pay_installment_click (js ''s1'') 0 (Fin 100)]))
   = [Some (js ''s1'', 0), Some (js ''s1'', 1), Some (js ''s1'', 0)]"
  using installment_guard_one_key [of "fresh_page customer_page_start" "js ''s1''" 0 "js ''s1''" 1
      "js ''IQD''" "Fin 100" "Fin 100"]
  by (simp add: customer_page_start_def paying_key_def show_nat.simps)

end
