(* ===== verification/Shifts.thy ===== *)
theory Shifts
  imports Pages Money
begin

text \<open>
  The cash shift: the panel of \<open>components/ShiftManager.tsx\<close> as steps of a page (theory \<open>Pages\<close>), with the
  member of staff and the currency it is given, and the figures of \<open>features/shifts/shifts.tsx\<close>. What
  the panel hands to \<open>onShiftChange\<close> is kept in order.
\<close>

section \<open>The panel\<close>

record shift_panel =
  sh_active :: "shift option"
  sh_loading :: bool
  sh_openModal :: bool
  sh_closeModal :: bool
  sh_movementModal :: bool
  sh_openingBalance :: jsnum
  sh_closingBalance :: jsnum
  sh_closeNote :: jstr
  sh_movementType :: cash_direction
  sh_movementAmount :: jsnum
  sh_movementReason :: jstr
  sh_changes :: "shift option list"

definition shift_panel_start :: shift_panel where
  "shift_panel_start = \<lparr> sh_active = None, sh_loading = True, sh_openModal = False, sh_closeModal = False,
     sh_movementModal = False, sh_openingBalance = Fin 0, sh_closingBalance = Fin 0, sh_closeNote = [],
     sh_movementType = Cash_in, sh_movementAmount = Fin 0, sh_movementReason = [], sh_changes = [] \<rparr>"

text \<open>The requests; a fetch after a movement remembers the movement, whose handler waits for it.\<close>

datatype shift_request =
    Get_active "cash_direction option"
  | Open_shift jstr jstr jsnum
  | Close_shift jstr jsnum jstr
  | Add_movement jstr cash_direction jstr jstr jstr jsnum

type_synonym shift_world = "(shift_panel, shift_request) page_world"

definition change_shift :: "shift option \<Rightarrow> shift_panel \<Rightarrow> shift_panel" where
  "change_shift s p = p\<lparr> sh_active := s, sh_changes := sh_changes p @ [s] \<rparr>"

definition fetchActiveShift :: "cash_direction option \<Rightarrow> shift_world \<Rightarrow> shift_world" where
  "fetchActiveShift after W = asks (Get_active after) (turns (\<lambda>p. p\<lparr>sh_loading := True\<rparr>) W)"

text \<open>The first render and its effect.\<close>

definition mount_panel :: shift_world where
  "mount_panel = fetchActiveShift None (fresh_page shift_panel_start)"

definition refreshed_shifts :: "shift_request page_call list" where
  "refreshed_shifts = [Invalidates invalidateShifts, Invalidates invalidateAllData]"

text \<open>The end of a fetch, and of the movement that waited for it. A failed fetch is logged only.\<close>

definition movement_done :: "cash_direction \<Rightarrow> shift_world \<Rightarrow> shift_world" where
  "movement_done d W =
     tells (refreshed_shifts @ [Says (if d = Cash_in then [1578, 1605, 32, 1573, 1590, 1575,
       1601, 1577, 32, 1575, 1604, 1606, 1602, 1583] else [1578, 1605, 32, 1587, 1581, 1576, 32,
       1575, 1604, 1606, 1602, 1583]) T_success])
       (turns (\<lambda>p. p\<lparr> sh_movementModal := False, sh_movementAmount := Fin 0, sh_movementReason := [] \<rparr>) W)"

definition active_fetched :: "cash_direction option \<Rightarrow> unit + shift option \<Rightarrow> shift_world \<Rightarrow> shift_world" where
  "active_fetched after a W =
     (let W1 = (case a of Inl u \<Rightarrow> W | Inr s \<Rightarrow> turns (change_shift s) W);
          W2 = turns (\<lambda>p. p\<lparr>sh_loading := False\<rparr>) W1
      in case after of None \<Rightarrow> W2 | Some d \<Rightarrow> movement_done d W2)"

definition handleOpenShift :: "(jstr \<times> jstr) option \<Rightarrow> shift_world \<Rightarrow> shift_world" where
  "handleOpenShift staff W = (case staff of
     None \<Rightarrow> tells [Says [1610, 1580, 1576, 32, 1578, 1587, 1580, 1610, 1604, 32,
       1575, 1604, 1583, 1582, 1608, 1604, 32,
  1571, 1608, 1604, 1575, 1611] T_error] W
   | Some (i, name) \<Rightarrow> asks (Open_shift i name (sh_openingBalance (pw_page W))) W)"

definition shift_opened :: "shift option + thrown \<Rightarrow> shift_world \<Rightarrow> shift_world" where
  "shift_opened a W = (case a of
     Inl s \<Rightarrow> tells (refreshed_shifts @ [Says [1578, 1605, 32, 1601, 1578, 1581, 32,
       1575, 1604, 1588, 1601, 1578, 32, 1576, 1606, 1580, 1575,
  1581] T_success])
       (turns (\<lambda>p. (change_shift s p)\<lparr> sh_openModal := False, sh_openingBalance := Fin 0 \<rparr>) W)
   | Inr e \<Rightarrow> tells [Says (message_or [1601, 1588, 1604, 32, 1601, 1578, 1581, 32,
     1575, 1604, 1588, 1601, 1578] e) T_error] W)"

definition handleCloseShift :: "shift_world \<Rightarrow> shift_world" where
  "handleCloseShift W = (case sh_active (pw_page W) of
     None \<Rightarrow> W
   | Some s \<Rightarrow> asks (Close_shift (h_id s) (sh_closingBalance (pw_page W)) (sh_closeNote (pw_page W))) W)"

definition surplus_ar :: jstr where "surplus_ar = [1601, 1575, 1574, 1590, 58, 32]"
definition deficit_ar :: jstr where "deficit_ar = [1593, 1580, 1586, 58, 32]"
definition closed_ar :: jstr where "closed_ar = [1578, 1605, 32, 1573, 1594, 1604, 1575, 1602,
  32, 1575, 1604, 1588, 1601, 1578, 46, 32]"

definition close_message :: "jstr \<Rightarrow> shift option \<Rightarrow> jstr \<times> toast_kind" where
  "close_message cur s =
     (let ok = ([1578, 1605, 32, 1573, 1594, 1604, 1575, 1602, 32, 1575, 1604, 1588, 1601, 1578,
       32, 1576, 1606,
  1580, 1575, 1581], T_success)
      in case s of None \<Rightarrow> ok
         | Some h \<Rightarrow>
             if js_eq (h_variance h) (Fin 0) then ok
             else (closed_ar @ (if Fin 0 < h_variance h then surplus_ar @ formatCurrency (h_variance h) cur
                                else deficit_ar @ formatCurrency (js_abs (h_variance h)) cur),
                   if h_variance h < Fin 0 then T_error else T_success))"

definition shift_closed :: "jstr \<Rightarrow> shift option + thrown \<Rightarrow> shift_world \<Rightarrow> shift_world" where
  "shift_closed cur a W = (case a of
     Inl s \<Rightarrow> tells (refreshed_shifts @ [case close_message cur s of (m, k) \<Rightarrow> Says m k])
       (turns (\<lambda>p. (change_shift None p)\<lparr> sh_closeModal := False, sh_closingBalance := Fin 0, sh_closeNote := [] \<rparr>) W)
   | Inr e \<Rightarrow> tells [Says (message_or [1601, 1588, 1604, 32, 1573, 1594, 1604, 1575,
     1602, 32, 1575, 1604, 1588, 1601, 1578] e) T_error] W)"

definition movement_valid :: "(jstr \<times> jstr) option \<Rightarrow> shift_panel \<Rightarrow> bool" where
  "movement_valid staff p = (sh_active p \<noteq> None \<and> staff \<noteq> None \<and> \<not> sh_movementAmount p \<le> Fin 0)"

definition movement_request :: "(jstr \<times> jstr) option \<Rightarrow> shift_panel \<Rightarrow> shift_request" where
  "movement_request staff p = (case (sh_active p, staff) of
     (Some s, Some (i, name)) \<Rightarrow> Add_movement (h_id s) (sh_movementType p) (sh_movementReason p) i name (sh_movementAmount p)
   | _ \<Rightarrow> Get_active None)"

definition handleAddMovement :: "(jstr \<times> jstr) option \<Rightarrow> shift_world \<Rightarrow> shift_world" where
  "handleAddMovement staff W = (case (sh_active (pw_page W), staff) of
     (Some s, Some (i, name)) \<Rightarrow>
       (if sh_movementAmount (pw_page W) \<le> Fin 0 then W
        else asks (Add_movement (h_id s) (sh_movementType (pw_page W)) (sh_movementReason (pw_page W)) i name
               (sh_movementAmount (pw_page W))) W)
   | _ \<Rightarrow> W)"

definition movement_added :: "cash_direction \<Rightarrow> unit + thrown \<Rightarrow> shift_world \<Rightarrow> shift_world" where
  "movement_added d a W = (case a of
     Inl u \<Rightarrow> fetchActiveShift (Some d) W
   | Inr e \<Rightarrow> tells [Says (message_or [1601, 1588, 1604, 32, 1578, 1587, 1580, 1610,
     1604, 32, 1575, 1604, 1581, 1585, 1603, 1577] e) T_error] W)"

text \<open>The warning in the closing window, for the counted balance.\<close>

definition close_warning :: "jsnum \<Rightarrow> jsnum \<Rightarrow> jstr \<Rightarrow> jstr option" where
  "close_warning closing expected cur =
     (if \<not> js_eq closing expected \<and> Fin 0 < closing
      then Some ((if expected < closing then [1610, 1608, 1580, 1583, 32, 1601, 1575, 1574, 1590,
        58, 32] else [1610, 1608, 1580, 1583, 32, 1593, 1580, 1586, 58,
        32]) @ formatCurrency (js_abs (closing - expected)) cur)
      else None)"

section \<open>Steps\<close>

text \<open>While the panel is loading it shows no button. A typed amount is \<open>parseFloat\<close> of the text, or 0.\<close>

datatype shift_input =
    Start_movement cash_direction
  | Start_closing
  | Start_opening
  | Close_open_window
  | Close_closing_window
  | Close_movement_window
  | Type_opening jstr
  | Type_closing jstr
  | Type_note jstr
  | Type_amount jstr
  | Type_reason jstr

definition typed_amount :: "jstr \<Rightarrow> jsnum" where
  "typed_amount t = num_or (parse_float t) (Fin 0)"

definition on_shift_input :: "shift_input \<Rightarrow> shift_panel \<Rightarrow> shift_panel" where
  "on_shift_input e p = (case e of
     Start_movement d \<Rightarrow> p\<lparr> sh_movementType := d, sh_movementModal := True \<rparr>
   | Start_closing \<Rightarrow> (case sh_active p of None \<Rightarrow> p
       | Some s \<Rightarrow> p\<lparr> sh_closingBalance := h_expectedBalance s, sh_closeModal := True \<rparr>)
   | Start_opening \<Rightarrow> p\<lparr>sh_openModal := True\<rparr>
   | Close_open_window \<Rightarrow> p\<lparr>sh_openModal := False\<rparr>
   | Close_closing_window \<Rightarrow> p\<lparr>sh_closeModal := False\<rparr>
   | Close_movement_window \<Rightarrow> p\<lparr>sh_movementModal := False\<rparr>
   | Type_opening t \<Rightarrow> p\<lparr>sh_openingBalance := typed_amount t\<rparr>
   | Type_closing t \<Rightarrow> p\<lparr>sh_closingBalance := typed_amount t\<rparr>
   | Type_note t \<Rightarrow> p\<lparr>sh_closeNote := t\<rparr>
   | Type_amount t \<Rightarrow> p\<lparr>sh_movementAmount := typed_amount t\<rparr>
   | Type_reason t \<Rightarrow> p\<lparr>sh_movementReason := t\<rparr>)"

datatype shift_answer =
    Shift_failed thrown
  | Shift_none
  | Shift_value shift

definition shift_answered :: "jstr \<Rightarrow> shift_answer \<Rightarrow> shift_request \<Rightarrow> shift_world \<Rightarrow> shift_world" where
  "shift_answered cur a r W = (case r of
     Get_active after \<Rightarrow> active_fetched after
       (case a of Shift_failed e \<Rightarrow> Inl () | Shift_none \<Rightarrow> Inr None | Shift_value s \<Rightarrow> Inr (Some s)) W
   | Open_shift i n b \<Rightarrow> shift_opened
       (case a of Shift_failed e \<Rightarrow> Inr e | Shift_none \<Rightarrow> Inl None | Shift_value s \<Rightarrow> Inl (Some s)) W
   | Close_shift i b n \<Rightarrow> shift_closed cur
       (case a of Shift_failed e \<Rightarrow> Inr e | Shift_none \<Rightarrow> Inl None | Shift_value s \<Rightarrow> Inl (Some s)) W
   | Add_movement i d rs si sn amt \<Rightarrow> movement_added d (case a of Shift_failed e \<Rightarrow> Inr e | _ \<Rightarrow> Inl ()) W)"

datatype shift_event =
    Shift_input shift_input
  | Open_shift_click
  | Close_shift_click
  | Add_movement_click
  | Shift_answered nat shift_answer

definition shift_step :: "jstr \<Rightarrow> (jstr \<times> jstr) option \<Rightarrow> shift_world \<Rightarrow> shift_event \<Rightarrow> shift_world" where
  "shift_step cur staff W e = (case e of
     Shift_answered k a \<Rightarrow> answers k (shift_answered cur a) W
   | Shift_input i \<Rightarrow> if sh_loading (pw_page W) then W else turns (on_shift_input i) W
   | Open_shift_click \<Rightarrow> if sh_loading (pw_page W) then W else handleOpenShift staff W
   | Close_shift_click \<Rightarrow> if sh_loading (pw_page W) then W else handleCloseShift W
   | Add_movement_click \<Rightarrow> if sh_loading (pw_page W) then W else handleAddMovement staff W)"

section \<open>The shifts page\<close>

definition totalVariance :: "shift list \<Rightarrow> jsnum" where
  "totalVariance shifts = js_sum (Fin 0) (map h_variance shifts)"

definition shifts_totalSales :: "shift list \<Rightarrow> jsnum" where
  "shifts_totalSales shifts = js_sum (Fin 0) (map h_totalSales shifts)"

definition shiftsWithDeficit :: "shift list \<Rightarrow> nat" where
  "shiftsWithDeficit shifts = length (filter (\<lambda>s. h_variance s < Fin 0) shifts)"

definition getVarianceClass :: "jsnum \<Rightarrow> jstr" where
  "getVarianceClass variance =
     (if js_eq variance (Fin 0) then js ''text-success bg-success/10 border-success/20''
      else if Fin 0 < variance then js ''text-primary bg-primary/10 border-primary/20''
      else js ''text-danger bg-danger/10 border-danger/20'')"

section \<open>The panel is never stuck\<close>

definition is_fetch :: "shift_request \<Rightarrow> bool" where
  "is_fetch r = (case r of Get_active after \<Rightarrow> True | _ \<Rightarrow> False)"

definition panel_inv :: "shift_world \<Rightarrow> bool" where
  "panel_inv W = (sh_loading (pw_page W) \<longrightarrow> list_ex is_fetch (pw_open W))"

lemma fetch_page [simp]:
  "sh_loading (pw_page (fetchActiveShift after W))"
  "pw_open (fetchActiveShift after W) = pw_open W @ [Get_active after]"
  by (simp_all add: fetchActiveShift_def)

lemma active_fetched_ends: "\<not> sh_loading (pw_page (active_fetched after a W))"
  by (cases after) (simp_all add: active_fetched_def Let_def movement_done_def)

lemma shift_input_loading: "sh_loading (on_shift_input i p) = sh_loading p"
  by (cases i) (simp_all add: on_shift_input_def split: option.split)

lemma list_ex_rest:
  "list_ex P xs \<Longrightarrow> i < length xs \<Longrightarrow> \<not> P (xs ! i) \<Longrightarrow> list_ex P (take i xs @ drop (Suc i) xs)"
  by (subst (asm) id_take_nth_drop [of i xs]) auto

lemma shift_answered_inv:
  assumes "panel_inv W" and "k < length (pw_open W)"
  shows "panel_inv (shift_answered cur a (pw_open W ! k) (W\<lparr>pw_open := take k (pw_open W) @ drop (Suc k) (pw_open W)\<rparr>))"
proof (cases "is_fetch (pw_open W ! k)")
  case True
  then obtain after where "pw_open W ! k = Get_active after" by (auto simp: is_fetch_def split: shift_request.splits)
  then show ?thesis by (simp add: shift_answered_def panel_inv_def active_fetched_ends)
next
  case False
  define V where "V = W\<lparr>pw_open := take k (pw_open W) @ drop (Suc k) (pw_open W)\<rparr>"
  have p: "pw_page V = pw_page W" and o: "pw_open V = take k (pw_open W) @ drop (Suc k) (pw_open W)"
    by (simp_all add: V_def)
  have V: "panel_inv V" unfolding panel_inv_def p o
  proof
    assume "sh_loading (pw_page W)"
    with assms(1) have "list_ex is_fetch (pw_open W)" by (simp add: panel_inv_def)
    then show "list_ex is_fetch (take k (pw_open W) @ drop (Suc k) (pw_open W))"
      using assms(2) False by (rule list_ex_rest)
  qed
  from False show ?thesis unfolding V_def [symmetric]
  proof (cases "pw_open W ! k")
    case (Add_movement i d rs si sn amt)
    then show "panel_inv (shift_answered cur a (pw_open W ! k) V)" using V
      by (cases a) (simp_all add: shift_answered_def panel_inv_def movement_added_def is_fetch_def)
  qed (use V in \<open>cases a; simp add: is_fetch_def shift_answered_def panel_inv_def shift_opened_def
         shift_closed_def change_shift_def\<close>)+
qed

lemma handler_quiet:
  "sh_loading (pw_page (handleOpenShift staff W)) = sh_loading (pw_page W)"
  "sh_loading (pw_page (handleCloseShift W)) = sh_loading (pw_page W)"
  "sh_loading (pw_page (handleAddMovement staff W)) = sh_loading (pw_page W)"
  by (auto simp: handleOpenShift_def handleCloseShift_def handleAddMovement_def split: option.split)

interpretation panel: machine "shift_step cur staff" panel_inv "\<lambda>_. True"
proof
  fix W :: shift_world and e :: shift_event
  assume inv: "panel_inv W"
  show "panel_inv (shift_step cur staff W e)"
  proof (cases e)
    case (Shift_answered k a)
    then show ?thesis using inv shift_answered_inv [OF inv] by (simp add: shift_step_def answers_def)
  qed (use inv in \<open>simp_all add: shift_step_def panel_inv_def shift_input_loading handler_quiet\<close>)
qed

text \<open>The shift panel is never stuck on its skeleton: in every run, while it is loading, a fetch of the
  active shift is open, and any answer to that fetch, a failure too, shows the panel again.\<close>

lemma panel_not_stuck:
  assumes "W = run (shift_step cur staff) mount_panel es" and "sh_loading (pw_page W)"
  shows "\<exists>k<length (pw_open W). \<exists>after. pw_open W ! k = Get_active after
    \<and> \<not> sh_loading (pw_page (shift_step cur staff W (Shift_answered k a)))"
proof -
  have "panel_inv W" unfolding assms(1)
    by (rule panel.run_inv) (simp_all add: panel_inv_def mount_panel_def is_fetch_def)
  with assms(2) obtain r where "r \<in> set (pw_open W)" and r: "is_fetch r" by (auto simp: panel_inv_def list_ex_iff)
  then obtain k where k: "k < length (pw_open W)" "pw_open W ! k = r" by (auto simp: in_set_conv_nth)
  obtain after where f: "r = Get_active after" using r by (auto simp: is_fetch_def split: shift_request.splits)
  have "\<not> sh_loading (pw_page (shift_step cur staff W (Shift_answered k a)))"
    using k f by (simp add: shift_step_def answers_def shift_answered_def active_fetched_ends)
  with k f show ?thesis by blast
qed

definition sample_shift :: shift where
  "sample_shift = \<lparr> h_id = js ''h1'', h_staffId = js ''u1'', h_staffName = js ''Ali'', h_openTime = 0, h_closeTime = None,
     h_openingBalance = Fin 0, h_closingBalance = Fin 0, h_expectedBalance = jint 5000, h_variance = Fin 0,
     h_status = js ''open'', h_totalSales = Fin 0, h_cashSales = Fin 0, h_salesCount = Fin 0, h_note = None \<rparr>"

lemma panel_not_stuck_witness:
  "\<exists>k<length (pw_open mount_panel). \<exists>after. pw_open mount_panel ! k = Get_active after
    \<and> \<not> sh_loading (pw_page (shift_step (js ''IQD'') None mount_panel (Shift_answered k (Shift_value sample_shift))))"
  by (rule panel_not_stuck [where es = "[]"]) (simp_all add: mount_panel_def)

section \<open>Movements and balances\<close>

interpretation movement_sent: unguarded_form "handleAddMovement staff" "movement_valid staff" "movement_request staff"
  by unfold_locales
    (auto simp: handleAddMovement_def movement_valid_def movement_request_def split: option.split)

text \<open>A second click before the answer posts the same cash movement again.\<close>

lemma movement_per_click:
  assumes "\<not> sh_loading (pw_page W)" and "movement_valid staff (pw_page W)"
  shows "asked (run (shift_step cur staff) W [Add_movement_click, Add_movement_click])
       = asked W @ [movement_request staff (pw_page W), movement_request staff (pw_page W)]"
  using assms movement_sent.clicks [of staff W 2]
  by (simp add: shift_step_def handler_quiet numeral_2_eq_2)

text \<open>An answered movement with its fetch leaves the window closed and the amount cleared.\<close>

lemma movement_completed:
  "sh_movementModal (pw_page (active_fetched (Some d) a W)) = False"
  "sh_movementAmount (pw_page (active_fetched (Some d) a W)) = Fin 0"
  by (simp_all add: active_fetched_def Let_def movement_done_def)

text \<open>The closing window warns of a difference between the counted and the expected balance exactly when
  the two differ and the count is positive: with a count of zero it is silent, however much cash is
  missing, while the message after closing reports every difference, as an error exactly when cash
  is missing.\<close>

lemma zero_count_no_warning:
  assumes "0 \<le> c"
  shows "(close_warning (jint c) (jint x) cur \<noteq> None) = (c \<noteq> x \<and> c \<noteq> 0)
    \<and> (snd (close_message cur (Some (s\<lparr>h_variance := jint (c - x)\<rparr>))) = T_error) = (c < x)
    \<and> (fst (close_message cur (Some (s\<lparr>h_variance := jint (c - x)\<rparr>))) = fst (close_message cur None)) = (c = x)"
proof -
  have diff: "js_eq (jint (c - x)) (Fin 0) = (c = x)" by (simp add: js_eq_def)
  have texts: "closed_ar @ a \<noteq> [1578, 1605, 32, 1573, 1594, 1604, 1575, 1602, 32, 1575,
    1604, 1588, 1601, 1578, 32, 1576, 1606,
  1580, 1575, 1581]" for a by (simp add: closed_ar_def)
  have "(close_warning (jint c) (jint x) cur \<noteq> None) = (c \<noteq> x \<and> c \<noteq> 0)"
    using assms by (auto simp: close_warning_def js_eq_def)
  moreover have "(snd (close_message cur (Some (s\<lparr>h_variance := jint (c - x)\<rparr>))) = T_error) = (c < x)"
    unfolding close_message_def Let_def by (auto simp: js_eq_def simp flip: of_int_diff)
  moreover have "(fst (close_message cur (Some (s\<lparr>h_variance := jint (c - x)\<rparr>))) = fst (close_message cur None)) = (c = x)"
    unfolding close_message_def Let_def by (simp add: diff texts del: of_int_diff)
  ultimately show ?thesis by blast
qed

lemma zero_count_no_warning_witness:
  "close_warning (jint 0) (jint 5000) (js ''IQD'') = None
   \<and> snd (close_message (js ''IQD'') (Some (sample_shift\<lparr>h_variance := jint (- 5000)\<rparr>))) = T_error"
  using zero_count_no_warning [of 0 5000 "js ''IQD''" sample_shift] by simp

end
