(* ===== verification/Products.thy ===== *)
theory Products
  imports Pages Catalog
begin

text \<open>
  The product page (\<open>features/products/products.tsx\<close>): filters, pages and figures on the client, the form,
  the quick change of stock, the deletion of a selection, scans, the AI helpers, categories and the
  queue of labels, as steps of a page (theory \<open>Pages\<close>). The deletion of one product or category is in
  theory \<open>ForceDelete\<close>. The translated texts, the schema check of the form and the random barcode are
  parameters.
\<close>

section \<open>What is shown\<close>

datatype status_filter = St_all | St_low | St_out

definition shown_products ::
  "(jstr \<Rightarrow> jstr) \<Rightarrow> jstr \<Rightarrow> jstr \<Rightarrow> jstr \<Rightarrow> jstr \<Rightarrow> status_filter \<Rightarrow> product list \<Rightarrow> product list" where
  "shown_products lower everything search category supplier status allProducts =
     (let f1 = by_search lower search allProducts;
          f2 = (if category \<noteq> everything then filter (\<lambda>p. p_category p = category) f1 else f1);
          f3 = (if supplier \<noteq> everything then filter (\<lambda>p. p_supplier p = Some supplier) f2 else f2)
      in case status of St_low \<Rightarrow> filter low_stock f3 | St_out \<Rightarrow> filter out_of_stock f3 | St_all \<Rightarrow> f3)"

definition products_pageSize :: nat where "products_pageSize = 50"

definition product_columns :: "bool \<Rightarrow> jsnum \<Rightarrow> int" where
  "product_columns isList width =
     (if isList then 1 else if Fin 1024 \<le> width then 5 else if Fin 768 \<le> width then 4 else if Fin 640 \<le> width then 3 else 2)"

definition product_rows :: "int \<Rightarrow> product list \<Rightarrow> jsnum" where
  "product_rows columns ps = js_ceil (jint (int (length ps)) / jint columns)"

section \<open>The page\<close>

record product_form =
  f_id :: "jstr option"
  f_name :: "jstr option"
  f_price :: "jsnum option"
  f_cost :: "jsnum option"
  f_stock :: "jsnum option"
  f_minStock :: "jsnum option"
  f_wholesalePrice :: "jsnum option"
  f_category :: "jstr option"
  f_image :: "jstr option"
  f_barcode :: "jstr option"
  f_supplier :: "jstr option"
  f_description :: "jstr option"
  f_customDetails :: "(jstr \<times> json) list option"

record category_form =
  g_name :: jstr
  g_fields :: "category_field list"

record products_page =
  r_search :: jstr
  r_category :: jstr
  r_supplier :: jstr
  r_status :: status_filter
  r_selectedIds :: "jstr list"
  r_page :: nat
  r_modalOpen :: bool
  r_categoryModalOpen :: bool
  r_scannerOpen :: bool
  r_editingProduct :: "product option"
  r_form :: product_form
  r_isGenerating :: bool
  r_errors :: "(jstr \<times> jstr) list"
  r_catForm :: category_form
  r_editingCategory :: "category_def option"
  r_scannedProduct :: "product option"
  r_printQueue :: "(product \<times> jsnum) list"
  r_confirmBulk :: bool
  r_pendingBarcodes :: "jstr list"

definition empty_product_form :: product_form where
  "empty_product_form = \<lparr> f_id = None, f_name = None, f_price = None, f_cost = None, f_stock = None,
     f_minStock = None, f_wholesalePrice = None, f_category = None, f_image = None, f_barcode = None,
     f_supplier = None, f_description = None, f_customDetails = None \<rparr>"

definition empty_category_form :: category_form where
  "empty_category_form = \<lparr> g_name = [], g_fields = [] \<rparr>"

text \<open>The texts of the translations that the page uses.\<close>

record product_texts =
  tx_all :: jstr
  tx_uncategorized :: jstr
  tx_required :: jstr
  tx_productAdded :: jstr
  tx_productUpdated :: jstr
  tx_addProduct :: jstr

definition products_start :: "product_texts \<Rightarrow> products_page" where
  "products_start t = \<lparr> r_search = [], r_category = tx_all t, r_supplier = tx_all t, r_status = St_all,
     r_selectedIds = [], r_page = 0, r_modalOpen = False, r_categoryModalOpen = False, r_scannerOpen = False,
     r_editingProduct = None, r_form = empty_product_form, r_isGenerating = False, r_errors = [],
     r_catForm = empty_category_form, r_editingCategory = None, r_scannedProduct = None, r_printQueue = [],
     r_confirmBulk = False, r_pendingBarcodes = [] \<rparr>"

definition products_shown :: "(jstr \<Rightarrow> jstr) \<Rightarrow> product_texts \<Rightarrow> product list \<Rightarrow> products_page \<Rightarrow> product list" where
  "products_shown lower t allProducts p =
     window (r_page p * products_pageSize) products_pageSize
       (shown_products lower (tx_all t) (r_search p) (r_category p) (r_supplier p) (r_status p) allProducts)"

definition totalRecords :: "(jstr \<Rightarrow> jstr) \<Rightarrow> product_texts \<Rightarrow> product list \<Rightarrow> products_page \<Rightarrow> nat" where
  "totalRecords lower t allProducts p =
     length (shown_products lower (tx_all t) (r_search p) (r_category p) (r_supplier p) (r_status p) allProducts)"

definition page_stats :: "(jstr \<Rightarrow> jstr) \<Rightarrow> product_texts \<Rightarrow> product list \<Rightarrow> products_page \<Rightarrow> product_stats" where
  "page_stats lower t allProducts p =
     stats_of (shown_products lower (tx_all t) (r_search p) (r_category p) (r_supplier p) (r_status p) allProducts)"

definition totalLabels :: "(product \<times> jsnum) list \<Rightarrow> jsnum" where
  "totalLabels q = js_sum (Fin 0) (map snd q)"

definition general_category_ar :: jstr where "general_category_ar = [1593, 1575, 1605]"

definition activeCategoryDef :: "category_def list \<Rightarrow> product_form \<Rightarrow> category_def option" where
  "activeCategoryDef cats f = find_first (\<lambda>c. Some (cd_name c) = f_category f) cats"

section \<open>Requests\<close>

datatype products_request =
    Search_code jstr
  | Save_product product bool
  | Delete_selected "jstr list"
  | Save_stock product jsnum
  | Log_stock jstr jstr jstr jsnum jstr
  | Describe jstr jstr
  | Improve_name jstr
  | Suggest_price jstr jsnum
  | Save_category category_def bool

type_synonym products_world = "(products_page, products_request) page_world"

definition text_or_else :: "jstr option \<Rightarrow> jstr \<Rightarrow> jstr" where
  "text_or_else t d = (case t of Some s \<Rightarrow> if s = [] then d else s | None \<Rightarrow> d)"

section \<open>The form\<close>

definition product_initAdd :: "product_texts \<Rightarrow> jstr \<Rightarrow> products_page \<Rightarrow> products_page" where
  "product_initAdd t barcode p = p\<lparr> r_form := empty_product_form\<lparr> f_name := Some [], f_price := Some (Fin 0),
       f_cost := Some (Fin 0), f_stock := Some (Fin 0), f_minStock := Some (Fin 5),
       f_category := Some (if r_category p \<noteq> tx_all t then r_category p else general_category_ar),
       f_barcode := Some barcode, f_image := Some [], f_customDetails := Some [] \<rparr>,
     r_editingProduct := None, r_modalOpen := True \<rparr>"

definition form_of_product :: "product \<Rightarrow> product_form" where
  "form_of_product q = \<lparr> f_id = Some (p_id q), f_name = Some (p_name q), f_price = Some (p_price q),
     f_cost = Some (p_cost q), f_stock = Some (p_stock q), f_minStock = Some (p_minStock q),
     f_wholesalePrice = Some (p_wholesalePrice q), f_category = Some (p_category q), f_image = Some (p_image q),
     f_barcode = Some (p_barcode q), f_supplier = p_supplier q, f_description = p_description q,
     f_customDetails = Some (opt_default [] (p_customDetails q)) \<rparr>"

definition product_initEdit :: "product \<Rightarrow> products_page \<Rightarrow> products_page" where
  "product_initEdit q p = p\<lparr> r_form := form_of_product q, r_editingProduct := Some q, r_modalOpen := True \<rparr>"

definition handleDuplicate :: "jstr \<Rightarrow> product \<Rightarrow> products_page \<Rightarrow> products_page" where
  "handleDuplicate barcode q p = p\<lparr>
     r_form := (form_of_product q)\<lparr> f_id := None, f_name := Some (p_name q @ [32, 40,
       1606, 1587, 1582, 1577, 41]), f_barcode := Some barcode \<rparr>,
     r_editingProduct := None, r_modalOpen := True \<rparr>"

text \<open>The errors of the schema by the first element of their path; a later one replaces an earlier one.\<close>

definition collect_errors :: "(jstr option \<times> jstr) list \<Rightarrow> (jstr \<times> jstr) list" where
  "collect_errors errs = foldl (\<lambda>m (path, message). case path of None \<Rightarrow> m
     | Some k \<Rightarrow> if k = [] then m else obj_put k message m) [] errs"

definition first_error :: "jstr \<Rightarrow> (jstr \<times> jstr) list \<Rightarrow> jstr" where
  "first_error required errs =
     (case errs of [] \<Rightarrow> required | (k,
       m) # r \<Rightarrow> if m = [] then required else [1582, 1591, 1571, 58, 32] @ m)"

definition product_of_form :: "product_texts \<Rightarrow> product_form \<Rightarrow> product" where
  "product_of_form t f = \<lparr> p_id = text_or_else (f_id f) [], p_name = text_or_else (f_name f) [],
     p_price = opt_default NaN (f_price f), p_cost = opt_num_or (f_cost f) (Fin 0),
     p_stock = opt_num_or (f_stock f) (Fin 0), p_minStock = opt_num_or (f_minStock f) (Fin 5),
     p_wholesalePrice = opt_num_or (f_wholesalePrice f) (Fin 0),
     p_category = text_or_else (f_category f) (tx_uncategorized t), p_image = text_or_else (f_image f) [],
     p_barcode = text_or_else (f_barcode f) [], p_supplier = Some (text_or_else (f_supplier f) []),
     p_description = Some (text_or_else (f_description f) []),
     p_customDetails = Some (opt_default [] (f_customDetails f)) \<rparr>"

definition product_handleSave ::
  "(product_form \<Rightarrow> (jstr option \<times> jstr) list option) \<Rightarrow> product_texts \<Rightarrow> products_world \<Rightarrow> products_world" where
  "product_handleSave validate t W =
     (let f = r_form (pw_page W)
      in case validate f of
           Some errs \<Rightarrow> (let newErrors = collect_errors errs
             in tells [Says (first_error (tx_required t) newErrors) T_error] (turns (\<lambda>p. p\<lparr>r_errors := newErrors\<rparr>) W))
         | None \<Rightarrow> asks (Save_product (product_of_form t f) (text_or_else (f_id f) [] \<noteq> []))
                     (turns (\<lambda>p. p\<lparr>r_errors := []\<rparr>) W))"

definition products_refreshed :: "products_request page_call list" where
  "products_refreshed = [Invalidates invalidateProducts, Invalidates invalidateAllData, Refetches]"

definition product_saved :: "product_texts \<Rightarrow> bool \<Rightarrow> thrown option \<Rightarrow> products_world \<Rightarrow> products_world" where
  "product_saved t isUpdate e W = (case e of
     None \<Rightarrow> tells products_refreshed (turns (\<lambda>p. p\<lparr>r_modalOpen := False\<rparr>)
       (tells [Says (if isUpdate then tx_productUpdated t else tx_productAdded t) T_success] W))
   | Some err \<Rightarrow> tells [Says ([1601, 1588, 1604, 32, 1575, 1604, 1581, 1601, 1592, 58,
     32]
       @ (case err of Thrown_error m \<Rightarrow> m | Thrown_value v \<Rightarrow> js_string v)) T_error] W)"

section \<open>Deleting a selection\<close>

definition toggleSelect :: "jstr \<Rightarrow> jstr list \<Rightarrow> jstr list" where
  "toggleSelect i prev = (if i \<in> set prev then filter (\<lambda>x. x \<noteq> i) prev else prev @ [i])"

definition confirm_bulk :: "products_world \<Rightarrow> products_world" where
  "confirm_bulk W = (if r_confirmBulk (pw_page W) then asks (Delete_selected (r_selectedIds (pw_page W))) W else W)"

text \<open>\<open>Promise.all\<close>: one failure is a failure, whatever became of the other deletions.\<close>

definition bulk_deleted :: "bool list \<Rightarrow> products_world \<Rightarrow> products_world" where
  "bulk_deleted oks W =
     turns (\<lambda>p. p\<lparr>r_confirmBulk := False\<rparr>)
       (if list_all id oks
        then tells ([Says [1578, 1605, 32, 1575, 1604, 1581, 1584, 1601, 32, 1576, 1606, 1580,
          1575,
          1581] T_success] @ products_refreshed) (turns (\<lambda>p. p\<lparr>r_selectedIds := []\<rparr>) W)
        else tells [Says [1582, 1591, 1571] T_error] W)"

section \<open>Quick change of stock\<close>

definition quick_stock_ar :: jstr where "quick_stock_ar = [1578, 1593, 1583, 1610, 1604, 32,
  1587, 1585, 1610, 1593, 32, 1604, 1604, 1605, 1582, 1586,
  1608, 1606]"

definition updateStock :: "product \<Rightarrow> jsnum \<Rightarrow> products_world \<Rightarrow> products_world" where
  "updateStock q change W =
     (if p_id q = [] then W
      else asks (Save_stock (q\<lparr>p_stock := js_max (Fin 0) (p_stock q + change)\<rparr>) change) W)"

definition stock_saved :: "product \<Rightarrow> jsnum \<Rightarrow> bool \<Rightarrow> products_world \<Rightarrow> products_world" where
  "stock_saved q change ok W =
     (if ok then asks (Log_stock (p_id q) (p_name q) (if Fin 0 < change then js ''in'' else js ''out'') (js_abs change) quick_stock_ar) W
      else tells [Refetches] W)"

definition stock_logged :: "bool \<Rightarrow> products_world \<Rightarrow> products_world" where
  "stock_logged ok W = tells (if ok then products_refreshed else [Refetches]) W"

section \<open>Scans\<close>

definition scan_target :: "jstr \<Rightarrow> product list \<Rightarrow> product option" where
  "scan_target code ps = find_first (\<lambda>p. p_barcode p = code) ps"

text \<open>A failed search falls back on the products of the page. An unknown code opens the form, and a timer
  writes the code into it; the barcode the form starts with is random.\<close>

definition handleScan_answered ::
  "product_texts \<Rightarrow> product list \<Rightarrow> jstr \<Rightarrow> jstr \<Rightarrow> product list option \<Rightarrow> products_page \<Rightarrow> products_page" where
  "handleScan_answered t allProducts barcode code searchResult p =
     (case scan_target code (case searchResult of Some ps \<Rightarrow> ps | None \<Rightarrow> allProducts) of
        Some q \<Rightarrow> p\<lparr> r_scannedProduct := Some q, r_scannerOpen := False \<rparr>
      | None \<Rightarrow> (product_initAdd t barcode p)\<lparr> r_pendingBarcodes := r_pendingBarcodes p @ [code], r_scannerOpen := False \<rparr>)"

definition barcode_timer :: "products_page \<Rightarrow> products_page" where
  "barcode_timer p = (case r_pendingBarcodes p of [] \<Rightarrow> p
     | code # rest \<Rightarrow> p\<lparr> r_pendingBarcodes := rest, r_form := (r_form p)\<lparr>f_barcode := Some code\<rparr> \<rparr>)"

section \<open>Helpers of the form\<close>

definition handleAiGenerateDescription :: "products_world \<Rightarrow> products_world" where
  "handleAiGenerateDescription W =
     (let f = r_form (pw_page W)
      in if text_or_else (f_name f) [] = [] then tells [Says [1575, 1603, 1578, 1576, 32, 1575,
        1587, 1605, 32, 1575, 1604, 1605, 1606, 1578, 1580, 32, 1571,
  1608, 1604, 1575, 1611] T_error] W
         else asks (Describe (text_or_else (f_name f) []) (text_or_else (f_category f) general_category_ar))
                (turns (\<lambda>p. p\<lparr>r_isGenerating := True\<rparr>) W))"

definition handleAiImproveName :: "products_world \<Rightarrow> products_world" where
  "handleAiImproveName W =
     (let f = r_form (pw_page W)
      in if text_or_else (f_name f) [] = [] then W
         else asks (Improve_name (text_or_else (f_name f) [])) (turns (\<lambda>p. p\<lparr>r_isGenerating := True\<rparr>) W))"

definition handleAiSuggestPrice :: "products_world \<Rightarrow> products_world" where
  "handleAiSuggestPrice W =
     (let f = r_form (pw_page W)
      in if text_or_else (f_name f) [] = [] \<or> \<not> truthy (opt_num_or (f_cost f) (Fin 0))
         then tells [Says [1575, 1604, 1575, 1587, 1605, 32, 1608, 1587, 1593, 1585, 32, 1575,
           1604, 1578, 1603, 1604,
  1601, 1577, 32, 1605, 1591, 1604, 1608, 1576, 1575, 1606, 32, 1604, 1604, 1575, 1602, 1578,
  1585, 1575, 1581] T_error] W
         else asks (Suggest_price (text_or_else (f_name f) []) (opt_num_or (f_cost f) (Fin 0)))
                (turns (\<lambda>p. p\<lparr>r_isGenerating := True\<rparr>) W))"

definition described :: "jstr \<Rightarrow> products_page \<Rightarrow> products_page" where
  "described d p = p\<lparr> r_form := (r_form p)\<lparr>f_description := Some d\<rparr>, r_isGenerating := False \<rparr>"

definition name_improved :: "jstr \<Rightarrow> products_page \<Rightarrow> products_page" where
  "name_improved n p = p\<lparr> r_form := (r_form p)\<lparr>f_name := Some n\<rparr>, r_isGenerating := False \<rparr>"

definition price_suggested :: "jstr \<Rightarrow> products_page \<Rightarrow> products_page" where
  "price_suggested priceStr p =
     (if priceStr \<noteq> [] then p\<lparr> r_form := (r_form p)\<lparr>f_price := Some (js_number priceStr)\<rparr>, r_isGenerating := False \<rparr>
      else p\<lparr>r_isGenerating := False\<rparr>)"

section \<open>Categories\<close>

definition handleSaveCategory :: "products_world \<Rightarrow> products_world" where
  "handleSaveCategory W =
     (let p = pw_page W; c = r_catForm p
      in if g_name c = [] then W
         else asks (Save_category \<lparr> cd_id = (case r_editingCategory p of Some k \<Rightarrow> if cd_id k = [] then g_name c else cd_id k
                       | None \<Rightarrow> g_name c), cd_name = g_name c, cd_fields = Some (g_fields c) \<rparr>
                     (r_editingCategory p \<noteq> None)) W)"

definition category_saved :: "bool \<Rightarrow> bool \<Rightarrow> products_world \<Rightarrow> products_world" where
  "category_saved isUpdate ok W =
     (if ok then turns (\<lambda>p. p\<lparr> r_categoryModalOpen := False, r_editingCategory := None, r_catForm := empty_category_form \<rparr>)
        (tells [Says (if isUpdate then [1578, 1605, 32, 1578, 1581, 1583, 1610, 1579, 32, 1575,
          1604, 1601, 1574, 1577, 32, 1576, 1606,
  1580, 1575, 1581] else [1578, 1605, 32, 1573, 1590, 1575, 1601, 1577, 32, 1575, 1604, 1601,
    1574, 1577, 32, 1576, 1606,
  1580, 1575, 1581]) T_success, Refetches, Refetches] W)
      else tells [Says [1582, 1591, 1571, 32, 1601, 1610, 32, 1581, 1601, 1592, 32, 1575, 1604,
        1601, 1574, 1577] T_error] W)"

definition handleEditCategory :: "category_def \<Rightarrow> products_page \<Rightarrow> products_page" where
  "handleEditCategory c p = p\<lparr> r_editingCategory := Some c,
     r_catForm := \<lparr> g_name = cd_name c, g_fields = opt_default [] (cd_fields c) \<rparr> \<rparr>"

section \<open>The queue of labels\<close>

definition addToPrintQueue :: "product \<Rightarrow> jsnum \<Rightarrow> (product \<times> jsnum) list \<Rightarrow> (product \<times> jsnum) list" where
  "addToPrintQueue q n prev =
     (case List.find (\<lambda>i. p_id (fst (prev ! i)) = p_id q) [0..<length prev] of
        Some i \<Rightarrow> prev[i := (fst (prev ! i), snd (prev ! i) + n)]
      | None \<Rightarrow> prev @ [(q, n)])"

definition updateQueueQty :: "nat \<Rightarrow> jsnum \<Rightarrow> (product \<times> jsnum) list \<Rightarrow> (product \<times> jsnum) list" where
  "updateQueueQty index newQty prev =
     map (\<lambda>(i, item). if i = index then (fst item, js_max (Fin 1) newQty) else item) (zip [0..<length prev] prev)"

definition removeFromQueue :: "nat \<Rightarrow> (product \<times> jsnum) list \<Rightarrow> (product \<times> jsnum) list" where
  "removeFromQueue index prev = map snd (filter (\<lambda>(i, item). i \<noteq> index) (zip [0..<length prev] prev))"

text \<open>\<open>onPrintSelected\<close>: one label for each selected product that is still loaded.\<close>

definition print_selected :: "product list \<Rightarrow> products_page \<Rightarrow> products_page" where
  "print_selected allProducts p = p\<lparr>
     r_printQueue := foldl (\<lambda>q i. case find_first (\<lambda>pr. p_id pr = i) allProducts of
         Some pr \<Rightarrow> addToPrintQueue pr (Fin 1) q | None \<Rightarrow> q) (r_printQueue p) (r_selectedIds p),
     r_selectedIds := [] \<rparr>"

section \<open>Steps\<close>

datatype products_input =
    Search_products jstr
  | Choose_category jstr
  | Choose_supplier jstr
  | Choose_status status_filter
  | Previous_products
  | Next_products nat
  | Add_product jstr
  | Edit_product product
  | Duplicate_product jstr product
  | Type_product product_form
  | Close_product
  | Toggle_selected jstr
  | Clear_selected
  | Ask_bulk_delete
  | Cancel_bulk_delete
  | Open_categories
  | Close_categories
  | Edit_category category_def
  | Type_category category_form
  | Open_scanner
  | Close_scanned
  | Queue_qty nat jsnum
  | Unqueue nat
  | Clear_queue
  | Timer_writes_barcode

definition on_products_input :: "product_texts \<Rightarrow> products_input \<Rightarrow> products_page \<Rightarrow> products_page" where
  "on_products_input t e p = (case e of
     Search_products s \<Rightarrow> p\<lparr>r_search := s\<rparr>
   | Choose_category c \<Rightarrow> p\<lparr>r_category := c\<rparr>
   | Choose_supplier s \<Rightarrow> p\<lparr>r_supplier := s\<rparr>
   | Choose_status s \<Rightarrow> p\<lparr>r_status := s\<rparr>
   | Previous_products \<Rightarrow> p\<lparr>r_page := r_page p - 1\<rparr>
   | Next_products records \<Rightarrow> (if records \<le> (r_page p + 1) * products_pageSize then p else p\<lparr>r_page := r_page p + 1\<rparr>)
   | Add_product barcode \<Rightarrow> product_initAdd t barcode p
   | Edit_product q \<Rightarrow> product_initEdit q p
   | Duplicate_product barcode q \<Rightarrow> handleDuplicate barcode q p
   | Type_product f \<Rightarrow> p\<lparr>r_form := f\<rparr>
   | Close_product \<Rightarrow> p\<lparr>r_modalOpen := False\<rparr>
   | Toggle_selected i \<Rightarrow> p\<lparr>r_selectedIds := toggleSelect i (r_selectedIds p)\<rparr>
   | Clear_selected \<Rightarrow> p\<lparr>r_selectedIds := []\<rparr>
   | Ask_bulk_delete \<Rightarrow> p\<lparr>r_confirmBulk := True\<rparr>
   | Cancel_bulk_delete \<Rightarrow> p\<lparr>r_confirmBulk := False\<rparr>
   | Open_categories \<Rightarrow> p\<lparr>r_catForm := empty_category_form, r_categoryModalOpen := True\<rparr>
   | Close_categories \<Rightarrow> p\<lparr>r_categoryModalOpen := False, r_editingCategory := None, r_catForm := empty_category_form\<rparr>
   | Edit_category c \<Rightarrow> handleEditCategory c p
   | Type_category f \<Rightarrow> p\<lparr>r_catForm := f\<rparr>
   | Open_scanner \<Rightarrow> p\<lparr>r_scannerOpen := True\<rparr>
   | Close_scanned \<Rightarrow> p\<lparr>r_scannedProduct := None\<rparr>
   | Queue_qty i n \<Rightarrow> p\<lparr>r_printQueue := updateQueueQty i n (r_printQueue p)\<rparr>
   | Unqueue i \<Rightarrow> p\<lparr>r_printQueue := removeFromQueue i (r_printQueue p)\<rparr>
   | Clear_queue \<Rightarrow> p\<lparr>r_printQueue := []\<rparr>
   | Timer_writes_barcode \<Rightarrow> barcode_timer p)"

datatype products_answer = P_ok | P_failed thrown | P_found "product list" | P_text jstr | P_each "bool list"

text \<open>The products of the page at the moment, and the random barcode of a form that opens, come with the
  answer of a search.\<close>

definition products_answered ::
  "product_texts \<Rightarrow> product list \<Rightarrow> jstr \<Rightarrow> products_answer \<Rightarrow> products_request \<Rightarrow> products_world \<Rightarrow> products_world" where
  "products_answered t allProducts barcode a r W = (case r of
     Search_code code \<Rightarrow> turns (handleScan_answered t allProducts barcode code
       (case a of P_found ps \<Rightarrow> Some ps | _ \<Rightarrow> None)) W
   | Save_product q isUpdate \<Rightarrow> product_saved t isUpdate (case a of P_failed e \<Rightarrow> Some e | _ \<Rightarrow> None) W
   | Delete_selected ids \<Rightarrow> bulk_deleted (case a of P_each oks \<Rightarrow> oks | _ \<Rightarrow> []) W
   | Save_stock q change \<Rightarrow> stock_saved q change (a = P_ok) W
   | Log_stock i n d c m \<Rightarrow> stock_logged (a = P_ok) W
   | Describe n c \<Rightarrow> (case a of P_text d \<Rightarrow> turns (described d) W | _ \<Rightarrow> W)
   | Improve_name n \<Rightarrow> (case a of P_text m \<Rightarrow> turns (name_improved m) W | _ \<Rightarrow> W)
   | Suggest_price n c \<Rightarrow> (case a of P_text s \<Rightarrow> turns (price_suggested s) W | _ \<Rightarrow> W)
   | Save_category c isUpdate \<Rightarrow> category_saved isUpdate (a = P_ok) W)"

datatype products_event =
    Products_input products_input
  | Save_product_click
  | Confirm_bulk_click
  | Stock_click product jsnum
  | Scan jstr
  | Describe_click
  | Improve_click
  | Price_click
  | Save_category_click
  | Queue_click product jsnum
  | Print_selected "product list"
  | Products_answered nat products_answer "product list" jstr

definition queued_ar :: jstr where "queued_ar = [1578, 1605, 1578, 32, 1575, 1604, 1573, 1590,
  1575, 1601, 1577, 32, 1604, 1602, 1575, 1574,
  1605, 1577, 32, 1575, 1604, 1591, 1576, 1575, 1593, 1577]"

definition products_step ::
  "(product_form \<Rightarrow> (jstr option \<times> jstr) list option) \<Rightarrow> product_texts \<Rightarrow> products_world \<Rightarrow> products_event \<Rightarrow> products_world" where
  "products_step validate t W e = (case e of
     Products_input i \<Rightarrow> turns (on_products_input t i) W
   | Save_product_click \<Rightarrow> product_handleSave validate t W
   | Confirm_bulk_click \<Rightarrow> confirm_bulk W
   | Stock_click q change \<Rightarrow> updateStock q change W
   | Scan code \<Rightarrow> asks (Search_code code) W
   | Describe_click \<Rightarrow> handleAiGenerateDescription W
   | Improve_click \<Rightarrow> handleAiImproveName W
   | Price_click \<Rightarrow> handleAiSuggestPrice W
   | Save_category_click \<Rightarrow> handleSaveCategory W
   | Queue_click q n \<Rightarrow> tells [Says queued_ar T_success] (turns (\<lambda>p. p\<lparr>r_printQueue := addToPrintQueue q n (r_printQueue p)\<rparr>) W)
   | Print_selected ps \<Rightarrow> turns (print_selected ps) (tells (concat (map (\<lambda>i.
         if find_first (\<lambda>pr. p_id pr = i) ps = None then [] else [Says queued_ar T_success]) (r_selectedIds (pw_page W)))) W)
   | Products_answered k a allProducts barcode \<Rightarrow> answers k (products_answered t allProducts barcode a) W)"

section \<open>Pages and filters\<close>

text \<open>The filters of the product page leave the page number alone. When fewer products match than the
  pages before the current one hold, the page shows nothing although products match, and the button
  to the next page does nothing; the matches are only found by going back.\<close>

lemma filter_keeps_page:
  assumes "i \<in> {Search_products s, Choose_category s, Choose_supplier s, Choose_status st}"
    and "q = on_products_input t i p" and "0 < totalRecords lower t ps q"
    and "totalRecords lower t ps q \<le> r_page p * products_pageSize"
  shows "r_page q = r_page p \<and> products_shown lower t ps q = []
    \<and> on_products_input t (Next_products (totalRecords lower t ps q)) q = q
    \<and> products_shown lower t ps (q\<lparr>r_page := 0\<rparr>) \<noteq> []"
proof -
  have page: "r_page q = r_page p" using assms(1,2) by (auto simp: on_products_input_def)
  have none: "products_shown lower t ps q = []"
    using assms(4) by (simp add: products_shown_def window_def page totalRecords_def)
  have stay: "on_products_input t (Next_products (totalRecords lower t ps q)) q = q"
    using assms(4) page by (simp add: on_products_input_def)
  have "products_shown lower t ps (q\<lparr>r_page := 0\<rparr>) \<noteq> []"
    using assms(3) by (simp add: products_shown_def window_def totalRecords_def products_pageSize_def)
  with page none stay show ?thesis by blast
qed

definition english_texts :: product_texts where
  "english_texts = \<lparr> tx_all = js ''All'', tx_uncategorized = js ''None'', tx_required = js ''Required'',
     tx_productAdded = js ''Added'', tx_productUpdated = js ''Updated'', tx_addProduct = js ''Add'' \<rparr>"

definition shelf_item :: product where
  "shelf_item = \<lparr> p_id = js ''p1'', p_name = js ''Tea'', p_price = Fin 100, p_cost = Fin 50,
     p_stock = Fin 3, p_minStock = Fin 5, p_wholesalePrice = Fin 80, p_category = js ''T'',
     p_image = [], p_barcode = js ''123'', p_supplier = None, p_description = None, p_customDetails = None \<rparr>"

lemma filter_keeps_page_witness:
  "products_shown id english_texts [shelf_item]
     (on_products_input english_texts (Search_products []) ((products_start english_texts)\<lparr>r_page := 1\<rparr>)) = []"
  using filter_keeps_page [of "Search_products []" "[]" St_all
      "on_products_input english_texts (Search_products []) ((products_start english_texts)\<lparr>r_page := 1\<rparr>)"
      english_texts "(products_start english_texts)\<lparr>r_page := 1\<rparr>" id "[shelf_item]"]
  by (simp add: on_products_input_def products_start_def totalRecords_def shown_products_def by_search_def
      products_pageSize_def)

section \<open>Editing\<close>

lemma num_or_self: "x \<noteq> NaN \<Longrightarrow> opt_num_or (Some x) (Fin 0) = x"
  by (simp add: opt_num_or_def num_or_def truthy_def)

text \<open>C19. Opening a product whose cost, stock, minimum stock and wholesale price are numbers (not NaN) in the form
  and saving it unchanged sends it back as it is, except that a minimum stock of 0 becomes 5 (a product can never be
  kept without a low-stock warning), an empty category becomes the text for products without one, and a missing
  supplier, description or details is written as empty. Doing so again changes nothing more.\<close>

theorem edit_round_trip:
  assumes "p_cost q \<noteq> NaN" "p_stock q \<noteq> NaN" "p_minStock q \<noteq> NaN" "p_wholesalePrice q \<noteq> NaN"
  shows "product_of_form t (form_of_product q) = q\<lparr>
     p_minStock := (if p_minStock q = Fin 0 then Fin 5 else p_minStock q),
     p_category := (if p_category q = [] then tx_uncategorized t else p_category q),
     p_supplier := Some (opt_default [] (p_supplier q)), p_description := Some (opt_default [] (p_description q)),
     p_customDetails := Some (opt_default [] (p_customDetails q)) \<rparr>
   \<and> product_of_form t (form_of_product (product_of_form t (form_of_product q))) = product_of_form t (form_of_product q)"
proof -
  have tx: "text_or_else s [] = opt_default [] s" for s by (simp add: text_or_else_def split: option.split)
  have m: "opt_num_or (Some m) (Fin 5) = (if m = Fin 0 then Fin 5 else m)" if "m \<noteq> NaN" for m
    using that by (simp add: opt_num_or_def num_or_def truthy_def)
  have c: "text_or_else (Some c) d = (if c = [] then d else c)" for c d by (simp add: text_or_else_def)
  have once: "product_of_form t (form_of_product q) = q\<lparr>
     p_minStock := (if p_minStock q = Fin 0 then Fin 5 else p_minStock q),
     p_category := (if p_category q = [] then tx_uncategorized t else p_category q),
     p_supplier := Some (opt_default [] (p_supplier q)), p_description := Some (opt_default [] (p_description q)),
     p_customDetails := Some (opt_default [] (p_customDetails q)) \<rparr>"
    if "p_cost q \<noteq> NaN" "p_stock q \<noteq> NaN" "p_minStock q \<noteq> NaN" "p_wholesalePrice q \<noteq> NaN" for q
    using that by (simp add: product_of_form_def form_of_product_def tx m c num_or_self)
  show ?thesis using assms by (simp add: once)
qed

theorem edit_round_trip_witness:
  "p_minStock (product_of_form english_texts (form_of_product (shelf_item\<lparr>p_minStock := Fin 0, p_category := []\<rparr>))) = Fin 5
   \<and> p_category (product_of_form english_texts (form_of_product (shelf_item\<lparr>p_minStock := Fin 0, p_category := []\<rparr>))) = js ''None''
   \<and> p_name (product_of_form english_texts (form_of_product shelf_item)) = js ''Tea''"
  using edit_round_trip [of shelf_item english_texts] edit_round_trip [of "shelf_item\<lparr>p_minStock := Fin 0, p_category := []\<rparr>" english_texts]
  by (simp add: shelf_item_def english_texts_def)

section \<open>Stock\<close>

lemma saved_stock:
  assumes "p_stock q = jint s" and "\<bar>s + c\<bar> \<le> 2 ^ 53"
  shows "js_max (Fin 0) (p_stock q + jint c) = jint (max 0 (s + c))"
proof -
  have "p_stock q + jint c = jint (s + c)" unfolding assms(1) using assms(2) by (rule jint_add)
  then show ?thesis by (simp only: js_max_Fin of_int_max of_int_0)
qed

lemma abs_jint: "js_abs (jint c) = jint \<bar>c\<bar>"
  by simp

definition logged_change :: "product \<Rightarrow> int \<Rightarrow> products_request" where
  "logged_change q c = Log_stock (p_id q) (p_name q) (if 0 < c then js ''in'' else js ''out'') (jint \<bar>c\<bar>) quick_stock_ar"

lemma stock_click:
  assumes "p_id q \<noteq> []" and "p_stock q = jint s" and "\<bar>s + c\<bar> \<le> 2 ^ 53"
  shows "products_step validate t W (Stock_click q (jint c)) = asks (Save_stock (q\<lparr>p_stock := jint (max 0 (s + c))\<rparr>) (jint c)) W"
  unfolding products_step_def products_event.case updateStock_def saved_stock [OF assms(2,3)] using assms(1) by simp

lemma stock_answer:
  "products_answered t ps bc P_ok (Save_stock q (jint c)) W = asks (logged_change q c) W"
  by (simp add: products_answered_def stock_saved_def logged_change_def)

text \<open>The quick change of stock logs the change that was asked for, not the one that was made: the saved
  stock is cut at zero while the log records the whole amount, so the two agree exactly when the
  stock suffices.\<close>

lemma quick_stock_log:
  assumes "p_id q \<noteq> []" and "p_stock q = jint s" and "0 \<le> s" and "\<bar>s + c\<bar> \<le> 2 ^ 53" and "pw_open W = []"
  shows "asked (run (products_step validate t) W [Stock_click q (jint c), Products_answered 0 P_ok ps bc])
      = asked W @ [Save_stock (q\<lparr>p_stock := jint (max 0 (s + c))\<rparr>) (jint c), logged_change q c]
    \<and> (\<bar>max 0 (s + c) - s\<bar> = \<bar>c\<bar>) = (0 \<le> s + c)"
proof -
  let ?V = "asks (Save_stock (q\<lparr>p_stock := jint (max 0 (s + c))\<rparr>) (jint c)) W"
  have "products_step validate t ?V (Products_answered 0 P_ok ps bc)
      = asks (logged_change (q\<lparr>p_stock := jint (max 0 (s + c))\<rparr>) c) (?V\<lparr>pw_open := []\<rparr>)"
    using assms(5) by (simp add: products_step_def answers_def stock_answer)
  then have "asked (run (products_step validate t) W [Stock_click q (jint c), Products_answered 0 P_ok ps bc])
      = asked W @ [Save_stock (q\<lparr>p_stock := jint (max 0 (s + c))\<rparr>) (jint c), logged_change q c]"
    by (simp only: run_Cons run_Nil stock_click [OF assms(1,2,4)] asked_simps) (simp add: logged_change_def)
  moreover have "(\<bar>max 0 (s + c) - s\<bar> = \<bar>c\<bar>) = (0 \<le> s + c)" using assms(3) by linarith
  ultimately show ?thesis by blast
qed

lemma quick_stock_log_witness:
  "asked (run (products_step (\<lambda>f. None) english_texts) (fresh_page (products_start english_texts))
      [Stock_click (shelf_item\<lparr>p_stock := jint 0\<rparr>) (jint (- 1)), Products_answered 0 P_ok [] []])
    = [Save_stock (shelf_item\<lparr>p_stock := jint 0\<rparr>) (jint (- 1)), logged_change shelf_item (- 1)]"
  using quick_stock_log [of "shelf_item\<lparr>p_stock := jint 0\<rparr>" 0 "- 1" "fresh_page (products_start english_texts)"
      "\<lambda>f. None" english_texts "[]" "[]"]
  by (simp add: shelf_item_def logged_change_def)

text \<open>Two quick changes before the list is read again start from the same stock: both save the same value
  and one of the changes is lost, while the log has both.\<close>

lemma quick_stock_lost:
  assumes "p_id q \<noteq> []" and "p_stock q = jint s" and "\<bar>s + c\<bar> \<le> 2 ^ 53" and "pw_open W = []"
  shows "asked (run (products_step validate t) W [Stock_click q (jint c), Stock_click q (jint c),
        Products_answered 0 P_ok ps bc, Products_answered 0 P_ok ps bc])
    = asked W @ [Save_stock (q\<lparr>p_stock := jint (max 0 (s + c))\<rparr>) (jint c), Save_stock (q\<lparr>p_stock := jint (max 0 (s + c))\<rparr>) (jint c),
        logged_change q c, logged_change q c]"
proof -
  have l: "logged_change (q\<lparr>p_stock := x\<rparr>) c = logged_change q c" for x by (simp add: logged_change_def)
  have answer: "products_step validate t V (Products_answered 0 P_ok ps bc) = answers 0 (products_answered t ps bc P_ok) V" for V
    by (simp add: products_step_def)
  show ?thesis
    by (simp only: run_Cons run_Nil stock_click [OF assms(1-3)] answer)
      (simp add: answers_def assms(4) stock_answer l)
qed

lemma quick_stock_lost_witness:
  "length (asked (run (products_step (\<lambda>f. None) english_texts) (fresh_page (products_start english_texts))
      [Stock_click shelf_item (jint 1), Stock_click shelf_item (jint 1),
       Products_answered 0 P_ok [] [], Products_answered 0 P_ok [] []])) = 4"
  using quick_stock_lost [of shelf_item 3 1 "fresh_page (products_start english_texts)" "\<lambda>f. None" english_texts "[]" "[]"]
  by (simp add: shelf_item_def)

text \<open>When one deletion of a selection fails, the page says so and nothing else: the selection stays and no
  list is read again, although the other products are gone.\<close>

lemma partial_bulk_delete:
  assumes "r_confirmBulk (pw_page W)" and "pw_open W = []" and "False \<in> set oks"
  shows "pw_calls (run (products_step validate t) W [Confirm_bulk_click, Products_answered 0 (P_each oks) ps bc])
      = pw_calls W @ [Asks (Delete_selected (r_selectedIds (pw_page W))), Says [1582, 1591, 1571] T_error]"
    and "r_selectedIds (pw_page (run (products_step validate t) W
      [Confirm_bulk_click, Products_answered 0 (P_each oks) ps bc])) = r_selectedIds (pw_page W)"
proof -
  have "\<not> list_all id oks" using assms(3) by (auto simp: list_all_iff)
  then show "pw_calls (run (products_step validate t) W [Confirm_bulk_click, Products_answered 0 (P_each oks) ps bc])
      = pw_calls W @ [Asks (Delete_selected (r_selectedIds (pw_page W))), Says [1582, 1591, 1571] T_error]"
    and "r_selectedIds (pw_page (run (products_step validate t) W
      [Confirm_bulk_click, Products_answered 0 (P_each oks) ps bc])) = r_selectedIds (pw_page W)"
    using assms(1,2) by (simp_all add: products_step_def confirm_bulk_def answers_def products_answered_def bulk_deleted_def)
qed

section \<open>Labels and selection\<close>

definition queue_ids :: "(product \<times> jsnum) list \<Rightarrow> jstr list" where
  "queue_ids q = map (\<lambda>x. p_id (fst x)) q"

definition label_qty :: "(product \<times> jsnum) list \<Rightarrow> jstr \<Rightarrow> jsnum option" where
  "label_qty q = map_of (map (\<lambda>x. (p_id (fst x), snd x)) q)"

definition label_queue_ok :: "(product \<times> jsnum) list \<Rightarrow> bool" where
  "label_queue_ok q = (distinct (queue_ids q) \<and> list_all (\<lambda>x. Fin 1 \<le> snd x) q)"

text \<open>With one entry per product, adding is a change of that entry or a new last one.\<close>

lemma add_queue_eq:
  assumes "distinct (queue_ids q)"
  shows "addToPrintQueue p n q =
    (if p_id p \<in> set (queue_ids q) then map (\<lambda>x. if p_id (fst x) = p_id p then (fst x, snd x + n) else x) q
     else q @ [(p, n)])"
proof (cases "List.find (\<lambda>i. p_id (fst (q ! i)) = p_id p) [0..<length q]")
  case None
  then have none: "\<forall>i\<in>set [0..<length q]. p_id (fst (q ! i)) \<noteq> p_id p" by (simp only: find_None_all)
  have "p_id p \<notin> set (queue_ids q)"
  proof
    assume "p_id p \<in> set (queue_ids q)"
    then obtain i where "i < length q" "p_id p = p_id (fst (q ! i))"
      by (auto simp: queue_ids_def in_set_conv_nth simp del: set_map)
    with none show False by (metis atLeastLessThan_iff le0 set_upt)
  qed
  with None show ?thesis by (simp add: addToPrintQueue_def)
next
  case (Some i)
  then have i: "i < length q" "p_id (fst (q ! i)) = p_id p" by (auto dest: find_SomeD)
  then have mem: "p_id p \<in> set (queue_ids q)" by (force simp: queue_ids_def in_set_conv_nth)
  have only: "p_id (fst (q ! j)) = p_id p \<longleftrightarrow> j = i" if "j < length q" for j
  proof
    assume "p_id (fst (q ! j)) = p_id p"
    then have "queue_ids q ! j = queue_ids q ! i" using i that by (simp add: queue_ids_def)
    then show "j = i" using nth_eq_iff_index_eq [OF assms, of j i] i(1) that by (simp add: queue_ids_def)
  qed (use i in simp)
  have "q[i := (fst (q ! i), snd (q ! i) + n)] = map (\<lambda>x. if p_id (fst x) = p_id p then (fst x, snd x + n) else x) q"
    by (rule nth_equalityI) (auto simp: only nth_list_update)
  with Some mem show ?thesis by (simp add: addToPrintQueue_def)
qed

lemma queue_ids_add:
  "distinct (queue_ids q) \<Longrightarrow> distinct (queue_ids (addToPrintQueue p n q))"
  by (auto simp: add_queue_eq queue_ids_def comp_def if_distrib [of fst] if_distrib [of p_id] cong: if_cong)

lemma js_add_ge1: "Fin 1 \<le> a \<Longrightarrow> Fin 1 \<le> b \<Longrightarrow> Fin 1 \<le> a + b"
proof (cases a; cases b)
  fix x y
  assume "Fin 1 \<le> a" "Fin 1 \<le> b" "a = Fin x" "b = Fin y"
  then have "rnd 1 \<le> rnd (x + y)" by (intro rnd_mono) simp
  then show ?thesis using \<open>a = Fin x\<close> \<open>b = Fin y\<close> rnd_int [of 1] by simp
qed auto

lemma label_queue_ok_add: "label_queue_ok q \<Longrightarrow> Fin 1 \<le> n \<Longrightarrow> label_queue_ok (addToPrintQueue p n q)"
  unfolding label_queue_ok_def using queue_ids_add [of q p n]
  by (force simp: add_queue_eq list_all_iff intro: js_add_ge1)

lemma map_of_bump:
  "distinct (map fst m) \<Longrightarrow>
   map_of (map (\<lambda>(k, v). (k, if k = a then f v else v)) m) = (case map_of m a of None \<Rightarrow> map_of m | Some v \<Rightarrow> (map_of m)(a \<mapsto> f v))"
proof (induction m)
  case (Cons x m)
  obtain k v where x: "x = (k, v)" by (cases x)
  have none: "map_of m k = None" using Cons.prems x by (auto simp: map_of_eq_None_iff)
  show ?case
  proof (cases "k = a")
    case True
    with Cons none show ?thesis by (simp add: x)
  next
    case False
    with Cons show ?thesis by (auto simp: x fun_eq_iff split: option.splits)
  qed
qed simp

text \<open>What is added to the queue is at least one label, and what is typed is a number.\<close>

definition label_event :: "products_event \<Rightarrow> bool" where
  "label_event e = (case e of Queue_click q n \<Rightarrow> Fin 1 \<le> n
     | Products_input i \<Rightarrow> (case i of Queue_qty k n \<Rightarrow> n \<noteq> NaN | _ \<Rightarrow> True) | _ \<Rightarrow> True)"

lemma zipped_ids: "map (\<lambda>x. p_id (fst (snd x))) (zip [0..<length q] q) = queue_ids q"
proof -
  have "map (\<lambda>x. p_id (fst (snd x))) (zip [0..<length q] q) = map (\<lambda>x. p_id (fst x)) (map snd (zip [0..<length q] q))"
    by (simp only: map_map comp_def)
  then show ?thesis by (simp add: queue_ids_def)
qed

lemma label_queue_ok_qty: "label_queue_ok q \<Longrightarrow> n \<noteq> NaN \<Longrightarrow> label_queue_ok (updateQueueQty k n q)"
proof -
  assume ok: "label_queue_ok q" and n: "n \<noteq> NaN"
  have one: "Fin 1 \<le> js_max (Fin 1) n" using n by (intro js_max_ge1) simp_all
  have "queue_ids (updateQueueQty k n q) = map (\<lambda>x. p_id (fst (snd x))) (zip [0..<length q] q)"
    by (auto simp: queue_ids_def updateQueueQty_def)
  then have "queue_ids (updateQueueQty k n q) = queue_ids q" by (simp only: zipped_ids)
  moreover have "list_all (\<lambda>x. Fin 1 \<le> snd x) (updateQueueQty k n q)"
    using ok one by (auto simp: label_queue_ok_def updateQueueQty_def list_all_iff dest!: set_zip_rightD)
  ultimately show ?thesis using ok by (simp add: label_queue_ok_def)
qed

lemma label_queue_ok_remove: "label_queue_ok q \<Longrightarrow> label_queue_ok (removeFromQueue k q)"
proof -
  assume ok: "label_queue_ok q"
  have ids: "queue_ids (removeFromQueue k q)
      = map (\<lambda>x. p_id (fst (snd x))) (filter (\<lambda>(i, item). i \<noteq> k) (zip [0..<length q] q))"
    by (simp add: queue_ids_def removeFromQueue_def)
  have "distinct (queue_ids (removeFromQueue k q))"
    unfolding ids using ok by (intro distinct_map_filter) (simp add: zipped_ids label_queue_ok_def)
  moreover have "list_all (\<lambda>x. Fin 1 \<le> snd x) (removeFromQueue k q)"
    using ok by (auto simp: label_queue_ok_def removeFromQueue_def list_all_iff dest!: set_zip_rightD)
  ultimately show ?thesis by (simp add: label_queue_ok_def)
qed

lemma label_queue_ok_print: "label_queue_ok q \<Longrightarrow> label_queue_ok (foldl (\<lambda>q i. case find_first (\<lambda>pr. p_id pr = i) ps of
     Some pr \<Rightarrow> addToPrintQueue pr (Fin 1) q | None \<Rightarrow> q) q ids)"
  by (induction ids arbitrary: q) (auto simp: label_queue_ok_add split: option.split)

definition products_inv :: "products_world \<Rightarrow> bool" where
  "products_inv W = (label_queue_ok (r_printQueue (pw_page W)) \<and> distinct (r_selectedIds (pw_page W)))"

lemma distinct_toggle: "distinct ids \<Longrightarrow> distinct (toggleSelect i ids)"
  by (simp add: toggleSelect_def)

lemma products_answered_inv: "products_inv W \<Longrightarrow> products_inv (products_answered t ps bc a r W)"
  by (cases r; cases a)
    (simp_all add: products_inv_def products_answered_def handleScan_answered_def product_initAdd_def product_saved_def
      bulk_deleted_def stock_saved_def stock_logged_def described_def name_improved_def price_suggested_def
      category_saved_def split: option.split)

lemma products_input_inv:
  assumes "label_queue_ok (r_printQueue p)" "distinct (r_selectedIds p)" "label_event (Products_input i)"
  shows "label_queue_ok (r_printQueue (on_products_input t i p))" "distinct (r_selectedIds (on_products_input t i p))"
  using assms
  by (cases i; simp add: on_products_input_def product_initAdd_def product_initEdit_def handleDuplicate_def distinct_toggle
      handleEditCategory_def label_queue_ok_qty label_queue_ok_remove label_queue_ok_def [of "[]"] queue_ids_def barcode_timer_def label_event_def
      split: list.split)+

interpretation products: machine "products_step validate t" products_inv label_event
proof
  fix W :: products_world and e :: products_event
  assume inv: "products_inv W" and ok: "label_event e"
  show "products_inv (products_step validate t W e)"
  proof (cases e)
    case (Products_input i)
    then show ?thesis using inv ok products_input_inv [of "pw_page W" i t] by (simp add: products_step_def products_inv_def)
  next
    case (Queue_click q n)
    then show ?thesis using inv ok by (simp add: products_step_def products_inv_def label_event_def label_queue_ok_add)
  next
    case (Print_selected ps)
    then show ?thesis using inv by (simp add: products_step_def products_inv_def print_selected_def label_queue_ok_print)
  next
    case (Products_answered k a ps bc)
    have "products_inv (W\<lparr>pw_open := rs\<rparr>)" for rs using inv by (simp add: products_inv_def)
    then show ?thesis using inv Products_answered
      by (simp add: products_step_def answers_def products_answered_inv)
  qed (use inv in \<open>simp add: products_step_def products_inv_def product_handleSave_def Let_def confirm_bulk_def
         updateStock_def handleAiGenerateDescription_def handleAiImproveName_def handleAiSuggestPrice_def
         handleSaveCategory_def split: option.split\<close>)+
qed

lemma label_qty_add:
  assumes "distinct (queue_ids q)"
  shows "label_qty (addToPrintQueue p n q)
    = (label_qty q)(p_id p \<mapsto> (case label_qty q (p_id p) of None \<Rightarrow> n | Some m \<Rightarrow> m + n))"
proof -
  let ?m = "map (\<lambda>x. (p_id (fst x), snd x)) q"
  have keys: "map fst ?m = queue_ids q" by (simp add: queue_ids_def comp_def)
  have dom: "label_qty q (p_id p) = None \<longleftrightarrow> p_id p \<notin> set (queue_ids q)"
    by (simp only: label_qty_def map_of_eq_None_iff keys [symmetric] set_map)
  show ?thesis
  proof (cases "p_id p \<in> set (queue_ids q)")
    case True
    then obtain v where v: "label_qty q (p_id p) = Some v" using dom by (cases "label_qty q (p_id p)") auto
    have "map (\<lambda>x. (p_id (fst x), snd x)) (addToPrintQueue p n q) = map (\<lambda>(k, v). (k, if k = p_id p then v + n else v)) ?m"
      using True by (simp add: add_queue_eq [OF assms]) 
    moreover have "distinct (map fst ?m)" unfolding keys by (rule assms)
    ultimately show ?thesis using map_of_bump [of ?m "p_id p" "\<lambda>v. v + n"] v by (simp add: label_qty_def)
  next
    case False
    then have none: "map_of ?m (p_id p) = None" using dom by (simp add: label_qty_def)
    show ?thesis using False none
      by (simp add: add_queue_eq [OF assms] label_qty_def map_add_def fun_eq_iff split: option.split)
  qed
qed

text \<open>The queue of labels refines a map from products to numbers of labels: in every run of the page it has
  one entry per product and at least one label each, when what is added is at least 1 and what is
  typed is a number, and adding labels adds to the entry of the product, or makes one, and leaves
  the others.\<close>

lemma label_queue_map:
  assumes "\<forall>e\<in>set es. label_event e"
    and "q = r_printQueue (pw_page (run (products_step validate t) (fresh_page (products_start t)) es))"
  shows "label_queue_ok q \<and> label_qty (addToPrintQueue p n q)
    = (label_qty q)(p_id p \<mapsto> (case label_qty q (p_id p) of None \<Rightarrow> n | Some m \<Rightarrow> m + n))"
proof -
  have "products_inv (run (products_step validate t) (fresh_page (products_start t)) es)"
    using assms(1) by (intro products.run_inv) (simp_all add: products_inv_def products_start_def label_queue_ok_def queue_ids_def)
  then have "label_queue_ok q" by (simp add: products_inv_def assms(2))
  then show ?thesis using label_qty_add by (simp add: label_queue_ok_def)
qed

lemma label_queue_map_witness:
  "label_queue_ok [(shelf_item, Fin 1)]
   \<and> label_qty (addToPrintQueue shelf_item (Fin 1) [(shelf_item, Fin 1)]) (js ''p1'') = Some (Fin 1 + Fin 1)"
  using label_queue_map [of "[Queue_click shelf_item (Fin 1)]" "[(shelf_item, Fin 1)]" "\<lambda>f. None" english_texts
      shelf_item "Fin 1"]
  by (simp add: label_event_def products_step_def products_start_def addToPrintQueue_def label_qty_def shelf_item_def)

end
