(* ===== verification/Reports.thy ===== *)
theory Reports
  imports Calendar Export Money Queries Auth "HOL-Library.Multiset"
begin

text \<open>
  The reports page (\<open>features/reports/reports.tsx\<close>): the figures of a range of days, the chart, the
  rankings, the exports it starts, and the figures of its tabs. The moments of date texts, their
  local dates and the texts of dates come from \<open>Date\<close> and \<open>Intl\<close>: parameters.
\<close>

section \<open>The range\<close>

datatype date_range = R_week | R_month | R_year

definition range_days :: "date_range \<Rightarrow> jsnum" where
  "range_days r = (case r of R_week \<Rightarrow> Fin 7 | R_month \<Rightarrow> Fin 30 | R_year \<Rightarrow> Fin 365)"

text \<open>The moment of an item: of its date text, of its time stamp, or now.\<close>

definition item_time :: "(jstr \<Rightarrow> jsnum) \<Rightarrow> jsnum \<Rightarrow> jstr option \<Rightarrow> int option \<Rightarrow> jsnum" where
  "item_time time now date timestamp =
     (if date \<notin> {None, Some []} then time (the date)
      else case timestamp of Some t \<Rightarrow> (if t = 0 then now else jint t) | None \<Rightarrow> now)"

definition day_ms :: jsnum where "day_ms = Fin 86400000"

definition in_range :: "(jstr \<Rightarrow> jsnum) \<Rightarrow> jsnum \<Rightarrow> date_range \<Rightarrow> jstr option \<Rightarrow> int option \<Rightarrow> bool" where
  "in_range time now r date timestamp =
     (js_ceil (js_abs (now - item_time time now date timestamp) / day_ms) \<le> range_days r)"

definition filterByDate ::
  "(jstr \<Rightarrow> jsnum) \<Rightarrow> jsnum \<Rightarrow> date_range \<Rightarrow> ('a \<Rightarrow> jstr option) \<Rightarrow> ('a \<Rightarrow> int option) \<Rightarrow> 'a list \<Rightarrow> 'a list" where
  "filterByDate time now r date timestamp = filter (\<lambda>x. in_range time now r (date x) (timestamp x))"

section \<open>Rankings\<close>

text \<open>\<open>sort((a, b) => f(b) - f(a))\<close>, which is stable.\<close>

fun put_desc :: "('a \<Rightarrow> jsnum) \<Rightarrow> 'a \<Rightarrow> 'a list \<Rightarrow> 'a list" where
  "put_desc f x [] = [x]"
| "put_desc f x (y # ys) = (if f x < f y then y # put_desc f x ys else x # y # ys)"

definition sort_desc :: "('a \<Rightarrow> jsnum) \<Rightarrow> 'a list \<Rightarrow> 'a list" where
  "sort_desc f xs = foldr (put_desc f) xs []"

text \<open>\<open>acc[k] = (acc[k] || 0) + v\<close>.\<close>

definition tally :: "jstr \<Rightarrow> jsnum \<Rightarrow> (jstr \<times> jsnum) list \<Rightarrow> (jstr \<times> jsnum) list" where
  "tally k v acc = obj_put k (opt_num_or (map_of acc k) (Fin 0) + v) acc"

definition productPerformance :: "sale list \<Rightarrow> (jstr \<times> jsnum) list" where
  "productPerformance completedSales =
     take 5 (sort_desc snd (foldl (\<lambda>acc s. foldl (\<lambda>acc p. tally (l_name p) (l_qty p) acc) acc (x_items s)) [] completedSales))"

definition general_customer_ar :: jstr where "general_customer_ar = [1586, 1576, 1608, 1606, 32, 1593, 1575, 1605]"

definition topCustomers :: "sale list \<Rightarrow> (jstr \<times> jsnum) list" where
  "topCustomers completedSales =
     take 5 (sort_desc snd (foldl (\<lambda>acc s. if x_customer s = [] \<or> x_customer s = general_customer_ar \<or> x_customer s = js ''Guest''
         then acc else tally (x_customer s) (x_total s) acc) [] completedSales))"

section \<open>Expense categories\<close>

definition expense_key :: "expense_category \<Rightarrow> jstr" where
  "expense_key c = (case c of E_rent \<Rightarrow> js ''rent'' | E_salary \<Rightarrow> js ''salary'' | E_bills \<Rightarrow> js ''bills''
     | E_maintenance \<Rightarrow> js ''maintenance'' | E_other \<Rightarrow> js ''other'')"

definition categoryLabels :: "(jstr \<times> jstr) list" where
  "categoryLabels = [(js ''rent'', [1573, 1610, 1580, 1575, 1585]), (js ''salary'', [1585, 1608,
    1575, 1578, 1576]), (js ''bills'', [1601, 1608, 1575, 1578, 1610, 1585]),
     (js ''maintenance'', [1589, 1610, 1575, 1606, 1577]), (js ''other'', [1571, 1582, 1585,
       1609])]"

definition categoryColors :: "(jstr \<times> jstr) list" where
  "categoryColors = [(js ''rent'', js ''bg-primary''), (js ''salary'', js ''bg-primary''), (js ''bills'', js ''bg-warning''),
     (js ''maintenance'', js ''bg-primary''), (js ''other'', js ''bg-gray-500'')]"

record expense_share =
  ex_label :: jstr
  ex_value :: jsnum
  ex_percent :: jsnum
  ex_color :: jstr

definition expense_share_of :: "jsnum \<Rightarrow> jstr \<times> jsnum \<Rightarrow> expense_share" where
  "expense_share_of totalExpenses x = (case x of (cat, amount) \<Rightarrow>
     \<lparr> ex_label = opt_default cat (map_of categoryLabels cat), ex_value = amount,
       ex_percent = (if Fin 0 < totalExpenses then (amount / totalExpenses) * Fin 100 else Fin 0),
       ex_color = opt_default (js ''bg-gray-500'') (map_of categoryColors cat) \<rparr>)"

definition expense_shares :: "jsnum \<Rightarrow> expense list \<Rightarrow> expense_share list" where
  "expense_shares totalExpenses es =
     sort_desc ex_value (map (expense_share_of totalExpenses)
       (foldl (\<lambda>acc e. tally (expense_key (e_category e)) (e_amount e) acc) [] es))"

section \<open>The chart\<close>

definition chartLength :: "date_range \<Rightarrow> nat" where
  "chartLength r = (case r of R_week \<Rightarrow> 7 | R_month \<Rightarrow> 15 | R_year \<Rightarrow> 12)"

definition chart_day :: "date_range \<Rightarrow> local_date \<Rightarrow> nat \<Rightarrow> local_date" where
  "chart_day r now i = (case r of R_year \<Rightarrow> months_back i now | _ \<Rightarrow> days_back i now)"

definition chart_hit :: "(jstr \<Rightarrow> local_date) \<Rightarrow> date_range \<Rightarrow> local_date \<Rightarrow> sale \<Rightarrow> bool" where
  "chart_hit date_of r d s = (case r of
     R_year \<Rightarrow> d_month (date_of (x_date s)) = d_month d \<and> d_year (date_of (x_date s)) = d_year d
   | _ \<Rightarrow> starts_with (x_date s) (getLocalDateString d))"

definition chart_value :: "(jstr \<Rightarrow> local_date) \<Rightarrow> date_range \<Rightarrow> sale list \<Rightarrow> local_date \<Rightarrow> jsnum" where
  "chart_value date_of r completedSales d =
     js_round (js_sum (Fin 0) (map x_total (filter (chart_hit date_of r d) completedSales)))"

definition chartData ::
  "(date_range \<Rightarrow> local_date \<Rightarrow> jstr) \<Rightarrow> (jstr \<Rightarrow> local_date) \<Rightarrow> jstr \<Rightarrow> date_range \<Rightarrow> local_date \<Rightarrow> sale list \<Rightarrow> (jstr \<times> jsnum \<times> jstr) list" where
  "chartData label date_of cur r now completedSales =
     rev (map (\<lambda>i. let d = chart_day r now i; val = chart_value date_of r completedSales d
                   in (label r d, val, formatCurrency val cur)) [0..<chartLength r])"

section \<open>The figures\<close>

record analytics =
  an_revenue :: jsnum
  an_netProfit :: jsnum
  an_grossProfit :: jsnum
  an_cogs :: jsnum
  an_totalExpenses :: jsnum
  an_profitMargin :: jsnum
  an_avgOrderValue :: jsnum
  an_chartData :: "(jstr \<times> jsnum \<times> jstr) list"
  an_productPerformance :: "(jstr \<times> jsnum) list"
  an_expenseBreakdown :: "expense_share list"
  an_completedCount :: nat
  an_topCustomers :: "(jstr \<times> jsnum) list"

definition report_cogs :: "sale list \<Rightarrow> jsnum" where
  "report_cogs completedSales =
     foldl (\<lambda>acc s. foldl (\<lambda>acc p. acc + num_or (l_cost p) (Fin 0) * l_qty p) acc (x_items s)) (Fin 0) completedSales"

definition analytics_of ::
  "(date_range \<Rightarrow> local_date \<Rightarrow> jstr) \<Rightarrow> (jstr \<Rightarrow> local_date) \<Rightarrow> (jstr \<Rightarrow> jsnum) \<Rightarrow> jstr \<Rightarrow> date_range \<Rightarrow> jsnum \<Rightarrow> local_date
     \<Rightarrow> sale list \<Rightarrow> expense list \<Rightarrow> analytics" where
  "analytics_of label date_of time cur r now today sales expenses =
     (let filteredSales = filterByDate time now r (\<lambda>s. Some (x_date s)) (\<lambda>s. Some (x_timestamp s)) sales;
          filteredExpenses = filterByDate time now r (\<lambda>e. Some (e_date e)) (\<lambda>e. None) expenses;
          completedSales = filter (\<lambda>s. x_status s = Completed) filteredSales;
          revenue = js_sum (Fin 0) (map x_total completedSales);
          cogs = report_cogs completedSales;
          totalExpenses = js_round (js_sum (Fin 0) (map e_amount filteredExpenses));
          grossProfit = revenue - cogs;
          netProfit = grossProfit - totalExpenses
      in \<lparr> an_revenue = revenue, an_netProfit = netProfit, an_grossProfit = grossProfit, an_cogs = cogs,
           an_totalExpenses = totalExpenses,
           an_profitMargin = (if Fin 0 < revenue then (netProfit / revenue) * Fin 100 else Fin 0),
           an_avgOrderValue = (if completedSales \<noteq> [] then revenue / jint (int (length completedSales)) else Fin 0),
           an_chartData = chartData label date_of cur r today completedSales,
           an_productPerformance = productPerformance completedSales,
           an_expenseBreakdown = expense_shares totalExpenses filteredExpenses,
           an_completedCount = length completedSales,
           an_topCustomers = topCustomers completedSales \<rparr>)"

section \<open>Forecast and exports\<close>

record forecast_state =
  fc_forecast :: "jstr option"
  fc_isForecasting :: bool

definition forecast_input :: "analytics \<Rightarrow> jsnum list" where
  "forecast_input a = map (\<lambda>(l, v, f). v) (an_chartData a)"

definition handleForecast :: "forecast_state \<Rightarrow> forecast_state" where
  "handleForecast s = s\<lparr>fc_isForecasting := True\<rparr>"

definition forecast_answered :: "jstr option \<Rightarrow> forecast_state \<Rightarrow> forecast_state" where
  "forecast_answered res s = \<lparr> fc_forecast = Some (case res of Some t \<Rightarrow> t | None \<Rightarrow> [1578, 1593, 1584, 1585, 32, 1573, 1606, 1588, 1575, 1569, 32, 1575, 1604, 1578, 1608, 1602,
  1593, 1575, 1578, 32, 1581, 1575, 1604, 1610, 1575, 1611, 46]),
     fc_isForecasting = False \<rparr>"

datatype report_tab = T_overview | T_sales | T_inventory | T_customers | T_staff | T_monthly

definition status_key :: "sale_status \<Rightarrow> jstr" where
  "status_key s = (case s of Completed \<Rightarrow> js ''completed'' | Pending \<Rightarrow> js ''pending''
     | Returned \<Rightarrow> js ''returned'' | Cancelled \<Rightarrow> js ''cancelled'')"

definition sale_row_of :: "sale \<Rightarrow> sale_row" where
  "sale_row_of s = \<lparr> sr_id = x_id s, sr_date = x_date s, sr_customer = Some (x_customer s), sr_total = x_total s,
     sr_status = status_key (x_status s) \<rparr>"

definition stock_row_of :: "product \<Rightarrow> stock_row" where
  "stock_row_of p = \<lparr> kr_id = p_id p, kr_name = p_name p, kr_stock = p_stock p, kr_minStock = Some (p_minStock p),
     kr_cost = Some (p_cost p), kr_price = p_price p \<rparr>"

definition customer_row_of :: "customer \<Rightarrow> customer_row" where
  "customer_row_of c = \<lparr> ur_id = c_id c, ur_name = c_name c, ur_phone = Some (c_phone c), ur_email = Some [],
     ur_debt = Some (num_or (c_debt c) (Fin 0)) \<rparr>"

definition range_label :: "date_range \<Rightarrow> jstr" where
  "range_label r = (case r of R_week \<Rightarrow> [1571, 1587, 1576, 1608,
    1593] | R_month \<Rightarrow> [1588, 1607, 1585] | R_year \<Rightarrow> [1587, 1606, 1577])"

text \<open>The formats of dates and numbers, today in both forms, the currency and the store name.\<close>

record report_env =
  rv_locale_date :: "jstr \<Rightarrow> jstr"
  rv_locale_num :: "jsnum \<Rightarrow> jstr"
  rv_date :: jstr
  rv_isoDate :: jstr
  rv_currency :: jstr
  rv_storeName :: "jstr option"

definition export_sales :: "report_env \<Rightarrow> sale list \<Rightarrow> report_format \<Rightarrow> export_effect list" where
  "export_sales v sales fmt =
     exportSalesReport (rv_locale_date v) (rv_date v) (rv_isoDate v)
       (map sale_row_of (filter (\<lambda>s. x_status s = Completed) sales)) fmt (rv_currency v) (rv_storeName v)"

definition handleExport ::
  "report_env \<Rightarrow> report_tab \<Rightarrow> date_range \<Rightarrow> analytics \<Rightarrow> sale list \<Rightarrow> product list \<Rightarrow> customer list \<Rightarrow> report_format \<Rightarrow> export_effect list" where
  "handleExport v tab r a sales products customers fmt =
     (case tab of
        T_inventory \<Rightarrow> exportInventoryReport (rv_locale_num v) (rv_date v) (rv_isoDate v) (map stock_row_of products) fmt
          (rv_currency v) (rv_storeName v)
      | T_customers \<Rightarrow> exportCustomersReport (rv_date v) (rv_isoDate v) (map customer_row_of customers) fmt
          (rv_currency v) (rv_storeName v)
      | T_overview \<Rightarrow> exportFinancialSummary (rv_date v) (rv_isoDate v)
          \<lparr> fs_revenue = an_revenue a, fs_cogs = an_cogs a, fs_grossProfit = an_grossProfit a,
            fs_expenses = an_totalExpenses a, fs_netProfit = an_netProfit a, fs_profitMargin = an_profitMargin a \<rparr>
          (map (\<lambda>e. (ex_label e, ex_value e)) (an_expenseBreakdown a)) fmt (range_label r) (rv_currency v) (rv_storeName v)
      | _ \<Rightarrow> export_sales v sales fmt)"

section \<open>Tabs\<close>

definition sales_tab_average :: "invoice_stats option \<Rightarrow> jsnum" where
  "sales_tab_average st = (case st of None \<Rightarrow> Fin 0
     | Some s \<Rightarrow> if Fin 0 < is_count s then is_total s / is_count s else Fin 0)"

text \<open>\<open>sort((a, b) => a.stock - b.stock)\<close>.\<close>

definition lowStockProducts :: "product list \<Rightarrow> product list" where
  "lowStockProducts ps = sort_desc (\<lambda>p. - p_stock p) (filter (\<lambda>p. p_stock p \<le> p_minStock p) ps)"

definition outOfStockProducts :: "product list \<Rightarrow> product list" where
  "outOfStockProducts ps = filter (\<lambda>p. js_eq (p_stock p) (Fin 0)) ps"

definition inventory_value :: "product list \<Rightarrow> jsnum" where
  "inventory_value ps = js_round (js_sum (Fin 0) (map (\<lambda>p. p_stock p * p_cost p) ps))"

record customer_stat =
  ct_customer :: customer
  ct_totalSpent :: jsnum
  ct_pendingDebt :: jsnum
  ct_orderCount :: nat

definition customer_stat_of :: "sale list \<Rightarrow> customer \<Rightarrow> customer_stat" where
  "customer_stat_of sales c =
     (let customerSales = filter (\<lambda>s. x_customerId s = Some (c_id c)) sales
      in \<lparr> ct_customer = c,
           ct_totalSpent = js_round (js_sum (Fin 0) (map (\<lambda>s. if x_status s = Completed then x_total s else Fin 0) customerSales)),
           ct_pendingDebt = js_round (js_sum (Fin 0) (map x_total (filter (\<lambda>s. x_status s = Pending) customerSales))),
           ct_orderCount = length customerSales \<rparr>)"

definition customerStats :: "sale list \<Rightarrow> customer list \<Rightarrow> customer_stat list" where
  "customerStats sales customers = sort_desc ct_totalSpent (map (customer_stat_of sales) customers)"

definition report_totalDebt :: "customer_stat list \<Rightarrow> jsnum" where
  "report_totalDebt cs = js_round (js_sum (Fin 0) (map ct_pendingDebt cs))"

definition report_totalSpent :: "customer_stat list \<Rightarrow> jsnum" where
  "report_totalSpent cs = js_round (js_sum (Fin 0) (map ct_totalSpent cs))"

definition staffStats :: "sale list \<Rightarrow> staff list \<Rightarrow> (staff \<times> nat \<times> jsnum) list" where
  "staffStats sales staffList =
     sort_desc (\<lambda>(s, n, t). t) (map (\<lambda>s.
       let staffSales = filter (\<lambda>sale. x_staffId sale = Some (Auth.staff.sf_id s) \<and> x_status sale = Completed) sales
       in (s, length staffSales, js_round (js_sum (Fin 0) (map x_total staffSales)))) staffList)"

definition totalSalesValue :: "(staff \<times> nat \<times> jsnum) list \<Rightarrow> jsnum" where
  "totalSalesValue st = js_round (js_sum (Fin 0) (map (\<lambda>(s, n, t). t) st))"

text \<open>The width of a bar of the monthly comparison, in percent.\<close>

definition comparison_width :: "jsnum \<Rightarrow> jsnum \<Rightarrow> jsnum \<Rightarrow> jsnum" where
  "comparison_width this current previous =
     (if Fin 0 < js_max current previous then js_min (Fin 100) ((this / js_max current previous) * Fin 100) else Fin 0)"

section \<open>Rankings are sorted\<close>

lemma mset_put_desc: "mset (put_desc f x ys) = add_mset x (mset ys)"
  by (induction ys) auto

lemma mset_sort_desc: "mset (sort_desc f xs) = mset xs"
  by (induction xs) (simp_all add: sort_desc_def mset_put_desc)

lemma set_put_desc: "set (put_desc f x ys) = insert x (set ys)"
  by (induction ys) auto

lemma set_sort_desc [simp]: "set (sort_desc f xs) = set xs"
  using mset_sort_desc [of f xs] by (rule mset_eq_setD)

definition descending :: "('a \<Rightarrow> jsnum) \<Rightarrow> 'a list \<Rightarrow> bool" where
  "descending f xs = sorted_wrt (\<lambda>x y. f y \<le> f x) xs"

lemma put_desc_sorted:
  assumes "f x \<noteq> NaN" and "\<forall>y\<in>set ys. f y \<noteq> NaN" and "descending f ys"
  shows "descending f (put_desc f x ys)"
  using assms(2,3)
proof (induction ys)
  case Nil
  then show ?case by (simp add: descending_def)
next
  case (Cons y ys)
  then have y: "f y \<noteq> NaN" and below: "\<forall>z\<in>set ys. f z \<le> f y" and IH: "descending f (put_desc f x ys)"
    by (auto simp: descending_def)
  show ?case
  proof (cases "f x < f y")
    case True
    then have "f x \<le> f y" by (simp add: less_eq_jsnum_def)
    with True below IH show ?thesis by (simp add: descending_def set_put_desc)
  next
    case False
    then have xy: "f y \<le> f x" using js_less_le_not [of "f x" "f y"] assms(1) y by blast
    then have "f z \<le> f x" if "z \<in> set ys" for z using below that js_le_trans by blast
    with False xy Cons.prems show ?thesis by (simp add: descending_def)
  qed
qed

lemma sort_desc_sorted: "\<forall>x\<in>set xs. f x \<noteq> NaN \<Longrightarrow> descending f (sort_desc f xs)"
proof (induction xs)
  case (Cons x xs)
  have "set (foldr (put_desc f) xs []) = set xs" using set_sort_desc [of f xs] by (simp add: sort_desc_def)
  with Cons show ?case by (simp add: sort_desc_def put_desc_sorted)
qed (simp add: sort_desc_def descending_def)

definition customer_tally :: "sale list \<Rightarrow> (jstr \<times> jsnum) list" where
  "customer_tally cs = foldl (\<lambda>acc s. if x_customer s = [] \<or> x_customer s = general_customer_ar \<or> x_customer s = js ''Guest''
     then acc else tally (x_customer s) (x_total s) acc) [] cs"

definition tally_ok :: "(jstr \<times> jsnum) list \<Rightarrow> bool" where
  "tally_ok acc = list_all (\<lambda>p. Fin 0 \<le> snd p \<and> fst p \<notin> {[], general_customer_ar, js ''Guest''}) acc"

lemma opt_nonneg: "Fin 0 \<le> v \<Longrightarrow> Fin 0 \<le> opt_num_or (Some v) (Fin 0)"
  by (cases v) (auto simp: opt_num_or_def num_or_def truthy_def)

lemma list_all_put: "list_all P m \<Longrightarrow> P (k, v) \<Longrightarrow> list_all P (obj_put k v m)"
  by (induction m) auto

lemma tally_keeps:
  assumes "tally_ok acc" and "Fin 0 \<le> v" and "k \<notin> {[], general_customer_ar, js ''Guest''}"
  shows "tally_ok (tally k v acc)"
proof -
  have "Fin 0 \<le> opt_num_or (map_of acc k) (Fin 0)"
  proof (cases "map_of acc k")
    case None
    then show ?thesis by (simp add: opt_num_or_def)
  next
    case (Some u)
    then have "(k, u) \<in> set acc" by (rule map_of_SomeD)
    with assms(1) have "Fin 0 \<le> u" by (auto simp: tally_ok_def list_all_iff)
    with Some show ?thesis by (simp add: opt_nonneg)
  qed
  then have "Fin 0 \<le> opt_num_or (map_of acc k) (Fin 0) + v" using assms(2) by (rule js_add_nonneg)
  with assms(1,3) show ?thesis unfolding tally_ok_def tally_def by (intro list_all_put) auto
qed

lemma customer_tally_ok: "\<forall>s\<in>set cs. Fin 0 \<le> x_total s \<Longrightarrow> tally_ok (customer_tally cs)"
proof -
  have "tally_ok (foldl (\<lambda>acc s. if x_customer s = [] \<or> x_customer s = general_customer_ar \<or> x_customer s = js ''Guest''
     then acc else tally (x_customer s) (x_total s) acc) acc cs)"
    if "\<forall>s\<in>set cs. Fin 0 \<le> x_total s" "tally_ok acc" for acc
    using that by (induction cs arbitrary: acc) (auto simp: tally_keeps)
  then show "\<forall>s\<in>set cs. Fin 0 \<le> x_total s \<Longrightarrow> tally_ok (customer_tally cs)"
    by (simp add: customer_tally_def tally_ok_def)
qed

lemma sorted_take_rest:
  assumes "descending f xs" and "x \<in> set (take n xs)" and "y \<in> set (drop n xs)"
  shows "f y \<le> f x"
  using assms append_take_drop_id [of n xs] unfolding descending_def
  by (metis sorted_wrt_append)

text \<open>With no negative total, the list of the best customers has at most five entries, none of them the
  guest customer in either language, ordered by what they bought, and nobody left out bought more
  than anybody listed.\<close>

lemma best_customers:
  assumes "\<forall>s\<in>set cs. Fin 0 \<le> x_total s"
  shows "length (topCustomers cs) \<le> 5 \<and> descending snd (topCustomers cs)
    \<and> list_all (\<lambda>p. fst p \<notin> {[], general_customer_ar, js ''Guest''}) (topCustomers cs)
    \<and> (\<exists>rest. mset (customer_tally cs) = mset (topCustomers cs) + mset rest
         \<and> list_all (\<lambda>q. list_all (\<lambda>p. snd q \<le> snd p) (topCustomers cs)) rest)"
proof -
  let ?xs = "sort_desc snd (customer_tally cs)"
  have top: "topCustomers cs = take 5 ?xs" by (simp add: topCustomers_def customer_tally_def)
  have ok: "tally_ok (customer_tally cs)" using assms by (rule customer_tally_ok)
  then have "\<forall>p\<in>set (customer_tally cs). snd p \<noteq> NaN" by (auto simp: tally_ok_def list_all_iff)
  then have desc: "descending snd ?xs" by (rule sort_desc_sorted)
  have "descending snd (take 5 ?xs)"
    using desc append_take_drop_id [of 5 ?xs] unfolding descending_def by (metis sorted_wrt_append)
  moreover have "list_all (\<lambda>p. fst p \<notin> {[], general_customer_ar, js ''Guest''}) (take 5 ?xs)"
    using ok set_take_subset [of 5 ?xs] by (auto simp: tally_ok_def list_all_iff)
  moreover have "mset (customer_tally cs) = mset (take 5 ?xs) + mset (drop 5 ?xs)"
    using mset_sort_desc [of snd "customer_tally cs"] by (metis append_take_drop_id mset_append)
  moreover have "list_all (\<lambda>q. list_all (\<lambda>p. snd q \<le> snd p) (take 5 ?xs)) (drop 5 ?xs)"
    using sorted_take_rest [OF desc] by (auto simp: list_all_iff)
  ultimately show ?thesis unfolding top by (intro conjI) auto
qed

definition sample_sale :: sale where
  "sample_sale = \<lparr> x_id = js ''s1'', x_customer = js ''Ali'', x_customerId = None, x_staffId = None, x_staffName = None,
     x_date = js ''2025-05-01'', x_timestamp = 0, x_subtotal = Fin 100, x_discount = Fin 0, x_vat = Fin 0,
     x_total = Fin 100, x_paymentMethod = Cash, x_splitDetails = None, x_installmentPlan = None,
     x_status = Completed, x_note = None, x_itemsCount = Fin 1, x_items = [], x_pointsRedeemed = None,
     x_pointsEarned = None, x_pointsAwarded = None \<rparr>"

lemma best_customers_witness:
  "length (topCustomers [sample_sale, sample_sale\<lparr>x_customer := js ''Guest''\<rparr>]) \<le> 5
   \<and> descending snd (topCustomers [sample_sale, sample_sale\<lparr>x_customer := js ''Guest''\<rparr>])"
  using best_customers [of "[sample_sale, sample_sale\<lparr>x_customer := js ''Guest''\<rparr>]"] by (simp add: sample_sale_def)

end
