(* ===== verification/Orders.thy ===== *)
theory Orders
  imports Pages Money
begin

text \<open>
  The purchase orders of the finance page (\<open>features/finance/components/PurchaseOrdersTab.tsx\<close>): the
  filter and the figures, the form of a new order, the windows that book a delivery and a payment, and
  the confirmed cancellation and deletion, as steps of a page (theory \<open>Pages\<close>). \<open>lower\<close> is
  \<open>toLowerCase\<close>. An open window covers the page (\<open>Modal\<close> in \<open>components/ui.tsx\<close> is fixed over all of it),
  so the buttons of the rows count only while none is shown.
\<close>

section \<open>Figures and filters\<close>

definition filteredOrders :: "(jstr \<Rightarrow> jstr) \<Rightarrow> jstr \<Rightarrow> purchase_order list \<Rightarrow> purchase_order list" where
  "filteredOrders lower search orders =
     filter (\<lambda>r. (case o_id r of None \<Rightarrow> False | Some i \<Rightarrow> str_includes (lower i) (lower search))
       \<or> (case o_supplierName r of None \<Rightarrow> False | Some n \<Rightarrow> str_includes (lower n) (lower search))) orders"

definition order_due :: "purchase_order \<Rightarrow> jsnum" where
  "order_due r = opt_num_or (o_totalAmount r) (Fin 0) - opt_num_or (o_paidAmount r) (Fin 0)"

record order_stats =
  os_pending :: nat
  os_totalValue :: jsnum
  os_totalUnpaid :: jsnum

definition order_stats_of :: "purchase_order list \<Rightarrow> order_stats" where
  "order_stats_of orders =
     \<lparr> os_pending = length (filter (\<lambda>r. o_status r \<in> {Some (js ''pending''), Some (js ''partial'')}) orders),
       os_totalValue = js_sum (Fin 0) (map (\<lambda>r. opt_num_or (o_totalAmount r) (Fin 0)) orders),
       os_totalUnpaid = js_sum (Fin 0) (map order_due orders) \<rparr>"

text \<open>The text of the badge of a status.\<close>

definition getStatusBadge :: "jstr option \<Rightarrow> jstr \<times> jstr" where
  "getStatusBadge status =
     (if status = Some (js ''pending'') then (js ''warning'', [1605, 1593, 1604, 1602])
      else if status = Some (js ''partial'') then (js ''info'', [1575, 1587, 1578, 1604, 1575,
        1605, 32, 1580, 1586, 1574, 1610])
      else if status = Some (js ''received'') then (js ''success'', [1605, 1603, 1578, 1605, 1604])
      else if status = Some (js ''cancelled'') then (js ''error'', [1605, 1604, 1594, 1610])
      else (js ''info'', if status \<in> {None, Some []} then [1594, 1610, 1585, 32, 1605, 1593,
        1585, 1608, 1601] else the status))"

section \<open>The page\<close>

record order_line =
  ol_productId :: jstr
  ol_productName :: jstr
  ol_quantity :: jsnum
  ol_unitCost :: jsnum

record order_form =
  of_supplierId :: jstr
  of_note :: jstr
  of_items :: "order_line list"

datatype order_task = Cancel_task jstr | Delete_task jstr

record orders_page =
  od_search :: jstr
  od_statusFilter :: jstr
  od_showCreate :: bool
  od_showReceive :: bool
  od_showPay :: bool
  od_selected :: "purchase_order option"
  od_expanded :: "jstr option"
  od_form :: order_form
  od_productSearch :: jstr
  od_receiveItems :: "receive_order_item list"
  od_payAmount :: jsnum
  od_payMethod :: jstr
  od_confirm :: "order_task confirm_state"

definition empty_order_form :: order_form where
  "empty_order_form = \<lparr> of_supplierId = [], of_note = [], of_items = [] \<rparr>"

definition orders_start :: orders_page where
  "orders_start = \<lparr> od_search = [], od_statusFilter = js ''all'', od_showCreate = False, od_showReceive = False,
     od_showPay = False, od_selected = None, od_expanded = None, od_form = empty_order_form,
     od_productSearch = [], od_receiveItems = [], od_payAmount = Fin 0, od_payMethod = js ''cash'',
     od_confirm = confirm_initial \<rparr>"

datatype order_request =
    Create_order purchase_order
  | Receive_order jstr "receive_order_item list"
  | Pay_order jstr jsnum jstr
  | Cancel_order jstr
  | Delete_order jstr

type_synonym orders_world = "(orders_page, order_request) page_world"

definition order_status_key :: "orders_page \<Rightarrow> jstr" where
  "order_status_key p = (if od_statusFilter p = js ''all'' then [] else od_statusFilter p)"

definition order_products :: "jstr \<Rightarrow> product list \<Rightarrow> product list" where
  "order_products productSearch products =
     take 10 (filter (\<lambda>p. str_includes (p_name p) productSearch \<or> str_includes (p_barcode p) productSearch) products)"

definition createFormTotal :: "order_form \<Rightarrow> jsnum" where
  "createFormTotal f = js_sum (Fin 0) (map (\<lambda>i. js_round (ol_quantity i * ol_unitCost i)) (of_items f))"

section \<open>A new order\<close>

definition order_of_form :: "order_form \<Rightarrow> purchase_order" where
  "order_of_form f = \<lparr> o_id = None, o_supplierId = of_supplierId f, o_supplierName = None, o_status = None,
     o_totalAmount = None, o_paidAmount = None, o_note = Some (of_note f), o_createdAt = None, o_receivedAt = None,
     o_items = map (\<lambda>i. \<lparr> oi_id = None, oi_productId = ol_productId i, oi_productName = ol_productName i,
       oi_quantity = ol_quantity i, oi_receivedQty = Fin 0, oi_unitCost = ol_unitCost i,
       oi_total = js_round (ol_quantity i * ol_unitCost i) \<rparr>) (of_items f) \<rparr>"

definition handleCreateOrder :: "orders_world \<Rightarrow> orders_world" where
  "handleCreateOrder W =
     (let f = od_form (pw_page W)
      in if of_supplierId f = [] then tells [Says [1610, 1585, 1580, 1609, 32, 1575, 1582, 1578,
        1610, 1575, 1585, 32, 1575, 1604, 1605, 1608,
  1585, 1583] T_error] W
         else if of_items f = [] then tells [Says [1610, 1585, 1580, 1609, 32, 1573, 1590, 1575,
           1601, 1577, 32, 1605, 1606, 1578, 1580, 32, 1608,
  1575, 1581, 1583, 32, 1593, 1604, 1609, 32, 1575, 1604, 1571, 1602, 1604] T_error] W
         else asks (Create_order (order_of_form f)) W)"

definition order_created :: "unit + thrown \<Rightarrow> orders_world \<Rightarrow> orders_world" where
  "order_created a W = (case a of
     Inl u \<Rightarrow> tells [Invalidates invalidateAllData, Refetches]
       (turns (\<lambda>p. p\<lparr> od_showCreate := False, od_form := empty_order_form \<rparr>)
         (tells [Says [1578, 1605, 32, 1573, 1606, 1588, 1575, 1569, 32, 1571, 1605, 1585, 32,
           1575, 1604, 1588, 1585,
  1575, 1569, 32, 1576, 1606, 1580, 1575, 1581] T_success] W))
   | Inr e \<Rightarrow> tells [Says (message_or [1601, 1588, 1604, 32, 1573, 1606, 1588, 1575,
     1569, 32, 1571, 1605, 1585, 32, 1575, 1604, 1588,
  1585, 1575, 1569] e) T_error] W)"

definition on_line :: "jstr \<Rightarrow> (order_line \<Rightarrow> order_line) \<Rightarrow> orders_page \<Rightarrow> orders_page" where
  "on_line k f p = p\<lparr> od_form := (od_form p)\<lparr> of_items :=
     map (\<lambda>i. if ol_productId i = k then f i else i) (of_items (od_form p)) \<rparr> \<rparr>"

definition addItemToOrder :: "product \<Rightarrow> orders_page \<Rightarrow> orders_page" where
  "addItemToOrder q p =
     (let p' = (if find_first (\<lambda>i. ol_productId i = p_id q) (of_items (od_form p)) \<noteq> None
                then on_line (p_id q) (\<lambda>i. i\<lparr>ol_quantity := ol_quantity i + Fin 1\<rparr>) p
                else p\<lparr> od_form := (od_form p)\<lparr> of_items := of_items (od_form p)
                  @ [\<lparr> ol_productId = p_id q, ol_productName = p_name q, ol_quantity = Fin 1,
                       ol_unitCost = num_or (p_cost q) (Fin 0) \<rparr>] \<rparr> \<rparr>)
      in p'\<lparr> od_productSearch := [] \<rparr>)"

definition removeItemFromOrder :: "jstr \<Rightarrow> orders_page \<Rightarrow> orders_page" where
  "removeItemFromOrder k p = p\<lparr> od_form := (od_form p)\<lparr> of_items :=
     filter (\<lambda>i. ol_productId i \<noteq> k) (of_items (od_form p)) \<rparr> \<rparr>"

text \<open>The fields of a line: \<open>Number(t) || 1\<close> and \<open>Number(t) || 0\<close>.\<close>

definition type_quantity :: "jstr \<Rightarrow> jstr \<Rightarrow> orders_page \<Rightarrow> orders_page" where
  "type_quantity k t = on_line k (\<lambda>i. i\<lparr>ol_quantity := num_or (js_number t) (Fin 1)\<rparr>)"

definition type_unit_cost :: "jstr \<Rightarrow> jstr \<Rightarrow> orders_page \<Rightarrow> orders_page" where
  "type_unit_cost k t = on_line k (\<lambda>i. i\<lparr>ol_unitCost := num_or (js_number t) (Fin 0)\<rparr>)"

section \<open>Deliveries and payments\<close>

definition line_remaining :: "purchase_order_item \<Rightarrow> jsnum" where
  "line_remaining i = oi_quantity i - oi_receivedQty i"

definition openReceiveModal :: "purchase_order \<Rightarrow> orders_page \<Rightarrow> orders_page" where
  "openReceiveModal r p = p\<lparr> od_selected := Some r,
     od_receiveItems := map (\<lambda>i. \<lparr> ri_productId = oi_productId i, ri_receivedQty = line_remaining i \<rparr>) (o_items r),
     od_showReceive := True \<rparr>"

text \<open>The field of a line of the delivery.\<close>

definition type_received :: "purchase_order_item \<Rightarrow> jstr \<Rightarrow> orders_page \<Rightarrow> orders_page" where
  "type_received item t p = p\<lparr> od_receiveItems := map (\<lambda>r. if ri_productId r = oi_productId item
     then r\<lparr> ri_receivedQty := js_min (num_or (js_number t) (Fin 0)) (line_remaining item) \<rparr> else r) (od_receiveItems p) \<rparr>"

definition selected_id :: "orders_page \<Rightarrow> jstr option" where
  "selected_id p = (case od_selected p of None \<Rightarrow> None
     | Some r \<Rightarrow> (case o_id r of None \<Rightarrow> None | Some i \<Rightarrow> if i = [] then None else Some i))"

definition handleReceiveOrder :: "orders_world \<Rightarrow> orders_world" where
  "handleReceiveOrder W = (case selected_id (pw_page W) of None \<Rightarrow> W
     | Some i \<Rightarrow> let itemsToReceive = filter (\<lambda>r. Fin 0 < ri_receivedQty r) (od_receiveItems (pw_page W))
         in if itemsToReceive = [] then tells [Says [1610, 1585, 1580, 1609, 32, 1578, 1581,
           1583, 1610, 1583, 32, 1575, 1604, 1603, 1605, 1610,
  1575, 1578, 32, 1575, 1604, 1605, 1587, 1578, 1604, 1605, 1577] T_error] W
            else asks (Receive_order i itemsToReceive) W)"

text \<open>After \<open>loadOrders\<close> the suppliers are read again as well (\<open>onRefresh\<close>).\<close>

definition order_received :: "unit + thrown \<Rightarrow> orders_world \<Rightarrow> orders_world" where
  "order_received a W = (case a of
     Inl u \<Rightarrow> tells [Invalidates invalidateProducts, Invalidates invalidateAllData, Refetches, Refetches]
       (turns (\<lambda>p. p\<lparr> od_showReceive := False, od_selected := None \<rparr>)
         (tells [Says [1578, 1605, 32, 1578, 1587, 1580, 1610, 1604, 32, 1575, 1604, 1575, 1587,
           1578, 1604, 1575,
  1605, 32, 1576, 1606, 1580, 1575, 1581] T_success] W))
   | Inr e \<Rightarrow> tells [Says (message_or [1601, 1588, 1604, 32, 1578, 1587, 1580, 1610,
     1604, 32, 1575, 1604, 1575, 1587, 1578, 1604,
  1575, 1605] e) T_error] W)"

definition openPayModal :: "purchase_order \<Rightarrow> orders_page \<Rightarrow> orders_page" where
  "openPayModal r p = p\<lparr> od_selected := Some r, od_payAmount := order_due r, od_showPay := True \<rparr>"

definition handlePayOrder :: "orders_world \<Rightarrow> orders_world" where
  "handlePayOrder W = (case selected_id (pw_page W) of
     None \<Rightarrow> tells [Says [1610, 1585, 1580, 1609, 32, 1573, 1583, 1582, 1575, 1604,
       32, 1605, 1576, 1604, 1594, 32, 1589,
  1581, 1610, 1581] T_error] W
   | Some i \<Rightarrow> if od_payAmount (pw_page W) \<le> Fin 0 then tells [Says [1610, 1585,
     1580, 1609, 32, 1573, 1583, 1582, 1575, 1604, 32, 1605, 1576, 1604, 1594, 32, 1589,
  1581, 1610, 1581] T_error] W
       else asks (Pay_order i (od_payAmount (pw_page W)) (od_payMethod (pw_page W))) W)"

definition order_paid :: "unit + thrown \<Rightarrow> orders_world \<Rightarrow> orders_world" where
  "order_paid a W = (case a of
     Inl u \<Rightarrow> tells [Invalidates invalidateFinance, Invalidates invalidateAllData, Refetches, Refetches]
       (turns (\<lambda>p. p\<lparr> od_showPay := False, od_selected := None, od_payAmount := Fin 0 \<rparr>)
         (tells [Says [1578, 1605, 32, 1578, 1587, 1580, 1610, 1604, 32, 1575, 1604, 1583, 1601,
           1593, 32, 1576, 1606,
  1580, 1575, 1581] T_success] W))
   | Inr e \<Rightarrow> tells [Says (message_or [1601, 1588, 1604, 32, 1578, 1587, 1580, 1610,
     1604, 32, 1575, 1604, 1583, 1601, 1593] e) T_error] W)"

section \<open>Cancelling and deleting\<close>

definition handleCancelOrder :: "purchase_order \<Rightarrow> orders_page \<Rightarrow> orders_page" where
  "handleCancelOrder r p = (case o_id r of None \<Rightarrow> p
     | Some i \<Rightarrow> if i = [] then p
         else p\<lparr> od_confirm := openConfirm \<lparr> co_title = [1573, 1604, 1594, 1575,
           1569, 32, 1571, 1605, 1585, 32, 1575, 1604, 1588, 1585, 1575, 1569],
           co_message = [1607, 1604, 32, 1571, 1606, 1578, 32, 1605, 1578, 1571, 1603, 1583, 32,
             1605, 1606, 32, 1573,
  1604, 1594, 1575, 1569, 32, 1571, 1605, 1585, 32, 1575, 1604, 1588, 1585, 1575, 1569, 32,
    35] @ i @ [1567],
           co_type = Some Mt_warning, co_confirmText = None, co_onConfirm = Cancel_task i \<rparr> (od_confirm p) \<rparr>)"

definition handleDeleteOrder :: "purchase_order \<Rightarrow> orders_page \<Rightarrow> orders_page" where
  "handleDeleteOrder r p = (case o_id r of None \<Rightarrow> p
     | Some i \<Rightarrow> if i = [] then p
         else p\<lparr> od_confirm := openConfirm \<lparr> co_title = [1581, 1584, 1601, 32,
           1571, 1605, 1585, 32, 1575, 1604, 1588, 1585, 1575, 1569],
           co_message = [1607, 1604, 32, 1571, 1606, 1578, 32, 1605, 1578, 1571, 1603, 1583, 32,
             1605, 1606, 32, 1581,
  1584, 1601, 32, 1571, 1605, 1585, 32, 1575, 1604, 1588, 1585, 1575, 1569, 32, 35] @ i @ [1567,
    32, 1607, 1584, 1575, 32, 1575, 1604, 1573, 1580, 1585, 1575, 1569, 32, 1604, 1575, 32,
  1610, 1605, 1603, 1606, 32, 1575, 1604, 1578, 1585, 1575, 1580, 1593, 32, 1593, 1606, 1607, 46],
           co_type = Some Mt_error, co_confirmText = None, co_onConfirm = Delete_task i \<rparr> (od_confirm p) \<rparr>)"

definition confirm_order :: "orders_world \<Rightarrow> orders_world" where
  "confirm_order W = (case cn_onConfirm (od_confirm (pw_page W)) of None \<Rightarrow> W
     | Some (Cancel_task i) \<Rightarrow> asks (Cancel_order i) W
     | Some (Delete_task i) \<Rightarrow> asks (Delete_order i) W)"

definition order_dropped :: "jstr \<Rightarrow> jstr \<Rightarrow> unit + thrown \<Rightarrow> orders_world \<Rightarrow> orders_world" where
  "order_dropped ok failed a W =
     turns (\<lambda>p. p\<lparr> od_confirm := closeConfirm (od_confirm p) \<rparr>)
       (case a of
          Inl u \<Rightarrow> tells [Says ok T_success, Invalidates invalidateAllData, Refetches] W
        | Inr e \<Rightarrow> tells [Says (message_or failed e) T_error] W)"

section \<open>Steps\<close>

definition receive_shown :: "orders_page \<Rightarrow> bool" where
  "receive_shown p = (od_showReceive p \<and> od_selected p \<noteq> None)"

definition pay_shown :: "orders_page \<Rightarrow> bool" where
  "pay_shown p = (od_showPay p \<and> od_selected p \<noteq> None)"

definition window_shown :: "orders_page \<Rightarrow> bool" where
  "window_shown p = (od_showCreate p \<or> receive_shown p \<or> pay_shown p \<or> cn_open (od_confirm p))"

text \<open>The buttons of a row.\<close>

definition order_is_open :: "purchase_order \<Rightarrow> bool" where
  "order_is_open r = (o_status r = Some (js ''pending'') \<or> o_status r = Some (js ''partial''))"

definition order_payable :: "purchase_order \<Rightarrow> bool" where
  "order_payable r = (order_is_open r \<or> o_status r = Some (js ''received'')
     \<and> opt_num_or (o_paidAmount r) (Fin 0) < opt_num_or (o_totalAmount r) (Fin 0))"

datatype orders_input =
    Search_orders jstr
  | Choose_order_status jstr
  | Expand_order purchase_order
  | Show_create
  | Close_create
  | Choose_supplier jstr
  | Type_order_note jstr
  | Search_order_products jstr
  | Add_to_order product
  | Type_quantity jstr jstr
  | Type_unit_cost jstr jstr
  | Remove_from_order jstr
  | Show_receive purchase_order
  | Type_received purchase_order_item jstr
  | Close_receive
  | Show_pay purchase_order
  | Type_pay_amount jstr
  | Choose_pay_method jstr
  | Close_pay
  | Ask_cancel purchase_order
  | Ask_delete purchase_order
  | Close_order_confirm

definition on_orders_input :: "orders_input \<Rightarrow> orders_page \<Rightarrow> orders_page" where
  "on_orders_input e p = (case e of
     Search_orders s \<Rightarrow> p\<lparr>od_search := s\<rparr>
   | Choose_order_status s \<Rightarrow> p\<lparr>od_statusFilter := s\<rparr>
   | Expand_order r \<Rightarrow> p\<lparr>od_expanded := (if od_expanded p = o_id r then None else o_id r)\<rparr>
   | Show_create \<Rightarrow> p\<lparr>od_showCreate := True\<rparr>
   | Close_create \<Rightarrow> p\<lparr>od_showCreate := False\<rparr>
   | Choose_supplier s \<Rightarrow> p\<lparr>od_form := (od_form p)\<lparr>of_supplierId := s\<rparr>\<rparr>
   | Type_order_note s \<Rightarrow> p\<lparr>od_form := (od_form p)\<lparr>of_note := s\<rparr>\<rparr>
   | Search_order_products s \<Rightarrow> p\<lparr>od_productSearch := s\<rparr>
   | Add_to_order q \<Rightarrow> addItemToOrder q p
   | Type_quantity k t \<Rightarrow> type_quantity k t p
   | Type_unit_cost k t \<Rightarrow> type_unit_cost k t p
   | Remove_from_order k \<Rightarrow> removeItemFromOrder k p
   | Show_receive r \<Rightarrow> (if window_shown p \<or> \<not> order_is_open r then p else openReceiveModal r p)
   | Type_received i t \<Rightarrow> (case od_selected p of None \<Rightarrow> p
       | Some r \<Rightarrow> if od_showReceive p \<and> i \<in> set (o_items r) \<and> \<not> js_eq (line_remaining i) (Fin 0) then type_received i t p else p)
   | Close_receive \<Rightarrow> p\<lparr>od_showReceive := False\<rparr>
   | Show_pay r \<Rightarrow> (if window_shown p \<or> \<not> order_payable r then p else openPayModal r p)
   | Type_pay_amount t \<Rightarrow> p\<lparr>od_payAmount := num_or (js_number t) (Fin 0)\<rparr>
   | Choose_pay_method m \<Rightarrow> p\<lparr>od_payMethod := m\<rparr>
   | Close_pay \<Rightarrow> p\<lparr>od_showPay := False\<rparr>
   | Ask_cancel r \<Rightarrow> (if window_shown p \<or> \<not> order_is_open r then p else handleCancelOrder r p)
   | Ask_delete r \<Rightarrow> (if window_shown p \<or> o_status r \<noteq> Some (js ''pending'') then p else handleDeleteOrder r p)
   | Close_order_confirm \<Rightarrow> p\<lparr>od_confirm := closeConfirm (od_confirm p)\<rparr>)"

datatype orders_event =
    Orders_input orders_input
  | Create_order_click
  | Receive_click
  | Pay_click
  | Confirm_click
  | Orders_answered nat "unit + thrown"

definition orders_answered :: "unit + thrown \<Rightarrow> order_request \<Rightarrow> orders_world \<Rightarrow> orders_world" where
  "orders_answered a r = (case r of
     Create_order po \<Rightarrow> order_created a
   | Receive_order i items \<Rightarrow> order_received a
   | Pay_order i n m \<Rightarrow> order_paid a
   | Cancel_order i \<Rightarrow> order_dropped [1578, 1605, 32, 1573, 1604, 1594, 1575, 1569,
     32, 1575, 1604, 1571, 1605, 1585] [1601, 1588, 1604, 32, 1575, 1604, 1573, 1604, 1594, 1575,
     1569] a
   | Delete_order i \<Rightarrow> order_dropped [1578, 1605, 32, 1581, 1584, 1601, 32, 1575,
     1604, 1571, 1605, 1585] [1601, 1588, 1604, 32, 1575, 1604, 1581, 1584, 1601] a)"

definition orders_step :: "orders_world \<Rightarrow> orders_event \<Rightarrow> orders_world" where
  "orders_step W e = (case e of
     Orders_input i \<Rightarrow> turns (on_orders_input i) W
   | Create_order_click \<Rightarrow> (let f = od_form (pw_page W)
       in if od_showCreate (pw_page W) \<and> of_supplierId f \<noteq> [] \<and> of_items f \<noteq> [] then handleCreateOrder W else W)
   | Receive_click \<Rightarrow> (if receive_shown (pw_page W) then handleReceiveOrder W else W)
   | Pay_click \<Rightarrow> (if pay_shown (pw_page W) \<and> \<not> od_payAmount (pw_page W) \<le> Fin 0 then handlePayOrder W else W)
   | Confirm_click \<Rightarrow> (if cn_open (od_confirm (pw_page W)) then confirm_order W else W)
   | Orders_answered k a \<Rightarrow> answers k (orders_answered a) W)"

section \<open>What is sent\<close>

text \<open>A new order names a supplier and lists each product once, nothing of it delivered yet, each line with
  its rounded total; a delivery names an order and books positive quantities; a payment is not zero or
  less.\<close>

definition sound_order_request :: "order_request \<Rightarrow> bool" where
  "sound_order_request r = (case r of
     Create_order po \<Rightarrow> o_supplierId po \<noteq> [] \<and> o_items po \<noteq> [] \<and> distinct (map oi_productId (o_items po))
       \<and> list_all (\<lambda>i. oi_receivedQty i = Fin 0 \<and> oi_total i = js_round (oi_quantity i * oi_unitCost i)
           \<and> oi_quantity i \<noteq> NaN) (o_items po)
   | Receive_order i items \<Rightarrow> i \<noteq> [] \<and> items \<noteq> [] \<and> list_all (\<lambda>r. Fin 0 < ri_receivedQty r) items
   | Pay_order i n m \<Rightarrow> i \<noteq> [] \<and> \<not> n \<le> Fin 0
   | Cancel_order i \<Rightarrow> i \<noteq> []
   | Delete_order i \<Rightarrow> i \<noteq> [])"

definition form_sound :: "orders_page \<Rightarrow> bool" where
  "form_sound p = (distinct (map ol_productId (of_items (od_form p)))
     \<and> list_all (\<lambda>i. ol_quantity i \<noteq> NaN) (of_items (od_form p))
     \<and> (case cn_onConfirm (od_confirm p) of None \<Rightarrow> True
        | Some (Cancel_task i) \<Rightarrow> i \<noteq> [] | Some (Delete_task i) \<Rightarrow> i \<noteq> []))"

definition orders_inv :: "orders_world \<Rightarrow> bool" where
  "orders_inv W = (list_all sound_order_request (asked W) \<and> form_sound (pw_page W))"

lemma on_line_ids [simp]:
  assumes "\<And>i. ol_productId (f i) = ol_productId i"
  shows "map ol_productId (of_items (od_form (on_line k f p))) = map ol_productId (of_items (od_form p))"
  by (simp add: on_line_def assms if_distrib cong: if_cong)

lemma on_line_confirm [simp]: "od_confirm (on_line k f p) = od_confirm p"
  by (simp add: on_line_def)

lemma on_line_sound:
  assumes "form_sound p" and "\<And>i. ol_productId (f i) = ol_productId i"
    and "\<And>i. ol_quantity i \<noteq> NaN \<Longrightarrow> ol_quantity (f i) \<noteq> NaN"
  shows "form_sound (on_line k f p)"
proof -
  have "list_all (\<lambda>i. ol_quantity i \<noteq> NaN) (of_items (od_form (on_line k f p)))"
    using assms(1,3) by (auto simp: form_sound_def on_line_def list_all_iff)
  then show ?thesis using assms(1,2) by (simp add: form_sound_def)
qed

lemma add_one_number: "x \<noteq> NaN \<Longrightarrow> x + Fin 1 \<noteq> NaN"
  by (cases x) (simp_all add: rnd_not_NaN)

lemma num_or_number: "d \<noteq> NaN \<Longrightarrow> num_or x d \<noteq> NaN"
  by (auto simp: num_or_def truthy_def)

lemma productSearch_sound [simp]: "form_sound (p\<lparr>od_productSearch := s\<rparr>) = form_sound p"
  by (simp add: form_sound_def)

lemma addItemToOrder_sound:
  assumes "form_sound p"
  shows "form_sound (addItemToOrder q p)"
proof (cases "find_first (\<lambda>i. ol_productId i = p_id q) (of_items (od_form p)) = None")
  case True
  then have "p_id q \<notin> ol_productId ` set (of_items (od_form p))" by (auto simp: find_None_iff)
  with True assms show ?thesis by (simp add: addItemToOrder_def Let_def form_sound_def)
next
  case False
  then show ?thesis using on_line_sound [OF assms, of "\<lambda>i. i\<lparr>ol_quantity := ol_quantity i + Fin 1\<rparr>"]
    by (simp add: addItemToOrder_def Let_def add_one_number)
qed

lemma removeItem_sound: "form_sound p \<Longrightarrow> form_sound (removeItemFromOrder k p)"
  by (auto simp: form_sound_def removeItemFromOrder_def distinct_map_filter list_all_iff)

lemma orders_input_sound:
  assumes "form_sound p"
  shows "form_sound (on_orders_input i p)"
proof (cases i)
  case (Add_to_order q)
  then show ?thesis using assms by (simp add: on_orders_input_def addItemToOrder_sound)
next
  case (Type_quantity k t)
  then show ?thesis using assms
    by (auto simp: on_orders_input_def type_quantity_def num_or_number intro: on_line_sound)
next
  case (Type_unit_cost k t)
  then show ?thesis using assms by (auto simp: on_orders_input_def type_unit_cost_def intro: on_line_sound)
next
  case (Remove_from_order k)
  then show ?thesis using assms by (simp add: on_orders_input_def removeItem_sound)
qed (use assms in \<open>auto simp: on_orders_input_def form_sound_def openReceiveModal_def openPayModal_def
       type_received_def handleCancelOrder_def handleDeleteOrder_def openConfirm_def closeConfirm_def
       split: option.splits\<close>)

lemmas order_answer_defs = orders_answered_def order_created_def order_received_def order_paid_def order_dropped_def

lemma orders_answered_asked: "asked (orders_answered a r W) = asked W"
  by (cases a; cases r) (simp_all add: order_answer_defs)

lemma orders_answered_sound: "form_sound (pw_page W) \<Longrightarrow> form_sound (pw_page (orders_answered a r W))"
  by (cases a; cases r) (simp_all add: order_answer_defs form_sound_def empty_order_form_def closeConfirm_def)

lemma selected_id_given: "selected_id p = Some i \<Longrightarrow> i \<noteq> []"
  by (auto simp: selected_id_def split: option.splits if_splits)

lemma order_of_form_sound:
  "form_sound p \<Longrightarrow> of_supplierId (od_form p) \<noteq> [] \<Longrightarrow> of_items (od_form p) \<noteq> []
    \<Longrightarrow> sound_order_request (Create_order (order_of_form (od_form p)))"
  by (auto simp: sound_order_request_def order_of_form_def form_sound_def list_all_iff comp_def)

lemma handleReceive_inv: "orders_inv W \<Longrightarrow> orders_inv (handleReceiveOrder W)"
  using selected_id_given
  by (auto simp: orders_inv_def handleReceiveOrder_def Let_def sound_order_request_def list_all_iff split: option.split)

lemma handlePay_inv: "orders_inv W \<Longrightarrow> orders_inv (handlePayOrder W)"
  using selected_id_given
  by (auto simp: orders_inv_def handlePayOrder_def sound_order_request_def split: option.split)

lemma confirm_order_inv: "orders_inv W \<Longrightarrow> orders_inv (confirm_order W)"
  by (auto simp: orders_inv_def confirm_order_def form_sound_def sound_order_request_def split: option.splits order_task.splits)

interpretation orders: machine orders_step orders_inv "\<lambda>_. True"
proof
  fix W e
  assume inv: "orders_inv W"
  show "orders_inv (orders_step W e)"
  proof (cases e)
    case (Orders_input i)
    then show ?thesis using inv by (simp add: orders_step_def orders_inv_def orders_input_sound)
  next
    case Create_order_click
    then show ?thesis using inv order_of_form_sound [of "pw_page W"]
      by (auto simp: orders_step_def orders_inv_def handleCreateOrder_def Let_def)
  next
    case Receive_click
    then show ?thesis using inv by (simp add: orders_step_def handleReceive_inv)
  next
    case Pay_click
    then show ?thesis using inv by (simp add: orders_step_def handlePay_inv)
  next
    case Confirm_click
    then show ?thesis using inv by (simp add: orders_step_def confirm_order_inv)
  next
    case (Orders_answered k a)
    then show ?thesis using inv
      by (simp add: orders_step_def orders_inv_def answers_def orders_answered_asked orders_answered_sound)
  qed
qed

text \<open>C20. Whatever happens on the purchase orders page, every new order it sends names a supplier and lists
  each product once, with rounded line totals and nothing delivered; every delivery books positive
  quantities of at least one line; and every payment is of more than nothing.\<close>

theorem order_requests_sound:
  "list_all sound_order_request (asked (run orders_step (fresh_page orders_start) es))"
proof -
  have "orders_inv (run orders_step (fresh_page orders_start) es)"
    by (rule orders.run_inv) (simp_all add: orders_inv_def form_sound_def orders_start_def empty_order_form_def confirm_initial_def)
  then show ?thesis by (simp add: orders_inv_def)
qed

section \<open>Deliveries stay within their order\<close>

text \<open>Each line of a delivery belongs to a line of the order and takes at most what is left of it.\<close>

definition within_order :: "purchase_order \<Rightarrow> receive_order_item \<Rightarrow> bool" where
  "within_order r d = (\<exists>i\<in>set (o_items r). ri_productId d = oi_productId i
     \<and> (Fin 0 < ri_receivedQty d \<longrightarrow> ri_receivedQty d \<le> line_remaining i))"

definition delivery_within :: "purchase_order list \<Rightarrow> order_request \<Rightarrow> bool" where
  "delivery_within rs q = (case q of
     Receive_order k ds \<Rightarrow> (\<exists>r\<in>set rs. o_id r = Some k \<and> (\<forall>d\<in>set ds. within_order r d))
   | _ \<Rightarrow> True)"

definition opened_orders :: "orders_event list \<Rightarrow> purchase_order list" where
  "opened_orders es = concat (map (\<lambda>e. case e of Orders_input (Show_receive r) \<Rightarrow> [r] | _ \<Rightarrow> []) es)"

definition deliveries_ok :: "purchase_order list \<Rightarrow> orders_world \<Rightarrow> bool" where
  "deliveries_ok rs W = (list_all (delivery_within rs) (asked W)
     \<and> (case od_selected (pw_page W) of None \<Rightarrow> True
        | Some r \<Rightarrow> r \<in> set rs \<and> list_all (within_order r) (od_receiveItems (pw_page W))))"

definition without_pay_window :: "purchase_order list \<Rightarrow> orders_event \<Rightarrow> bool" where
  "without_pay_window rs e = (case e of
     Orders_input (Show_pay r) \<Rightarrow> False
   | Orders_input (Show_receive r) \<Rightarrow> r \<in> set rs
   | _ \<Rightarrow> True)"

lemma positive_le_self: "Fin 0 < x \<Longrightarrow> x \<le> (x :: jsnum)"
  by (cases x) auto

lemma open_within: "i \<in> set (o_items r) \<Longrightarrow>
  within_order r \<lparr> ri_productId = oi_productId i, ri_receivedQty = line_remaining i \<rparr>"
  by (auto simp: within_order_def positive_le_self intro!: bexI [of _ i])

lemma min_within: "Fin 0 < js_min x y \<Longrightarrow> js_min x y \<le> y"
  by (cases x; cases y) (auto simp: js_min_def)

lemma typed_within:
  "i \<in> set (o_items r) \<Longrightarrow> ri_productId d = oi_productId i
    \<Longrightarrow> within_order r (d\<lparr> ri_receivedQty := js_min x (line_remaining i) \<rparr>)"
  by (auto simp: within_order_def min_within intro!: bexI [of _ i])

lemma deliveries_ok_same:
  assumes "deliveries_ok rs W" and "asked W' = asked W"
    and "od_selected (pw_page W') = od_selected (pw_page W) \<or> od_selected (pw_page W') = None"
    and "od_receiveItems (pw_page W') = od_receiveItems (pw_page W)"
  shows "deliveries_ok rs W'"
  using assms by (auto simp: deliveries_ok_def split: option.splits)

lemma line_selected [simp]: "od_selected (on_line k f p) = od_selected p" "od_receiveItems (on_line k f p) = od_receiveItems p"
  by (simp_all add: on_line_def)

lemma delivery_input:
  assumes "deliveries_ok rs W" and "without_pay_window rs (Orders_input i)"
  shows "deliveries_ok rs (turns (on_orders_input i) W)"
proof (cases i)
  case (Show_receive r)
  show ?thesis
  proof (cases "window_shown (pw_page W) \<or> \<not> order_is_open r")
    case True
    then have "on_orders_input i (pw_page W) = pw_page W" using Show_receive by (simp add: on_orders_input_def)
    then show ?thesis by (intro deliveries_ok_same [OF assms(1)]) simp_all
  next
    case False
    then show ?thesis using assms open_within Show_receive
      by (simp add: on_orders_input_def openReceiveModal_def deliveries_ok_def without_pay_window_def list_all_iff)
  qed
next
  case (Type_received i' t)
  then show ?thesis using assms typed_within
    by (auto simp: on_orders_input_def type_received_def deliveries_ok_def list_all_iff split: option.splits)
next
  case (Show_pay r)
  then show ?thesis using assms by (simp add: without_pay_window_def)
qed (rule deliveries_ok_same [OF assms(1)];
  simp add: on_orders_input_def addItemToOrder_def Let_def type_quantity_def type_unit_cost_def
    removeItemFromOrder_def handleCancelOrder_def handleDeleteOrder_def split: option.split)+

lemma delivery_sent:
  assumes "deliveries_ok rs W"
  shows "deliveries_ok rs (handleReceiveOrder W)"
proof (cases "selected_id (pw_page W)")
  case None
  then show ?thesis using assms by (simp add: handleReceiveOrder_def)
next
  case (Some k)
  then obtain r where r: "od_selected (pw_page W) = Some r" "o_id r = Some k"
    by (auto simp: selected_id_def split: option.splits if_splits)
  with assms Some show ?thesis
    by (auto simp: handleReceiveOrder_def Let_def deliveries_ok_def delivery_within_def list_all_iff)
qed

lemma delivery_answered: "deliveries_ok rs W \<Longrightarrow> deliveries_ok rs (orders_answered a q W)"
  by (erule deliveries_ok_same; cases a; cases q) (simp_all add: order_answer_defs)

interpretation deliveries: machine orders_step "deliveries_ok rs" "without_pay_window rs"
proof
  fix W e
  assume inv: "deliveries_ok rs W" and e: "without_pay_window rs e"
  show "deliveries_ok rs (orders_step W e)"
  proof (cases e)
    case (Orders_input i)
    then show ?thesis using inv e by (simp add: orders_step_def delivery_input)
  next
    case Receive_click
    then show ?thesis using inv by (simp add: orders_step_def delivery_sent)
  next
    case (Orders_answered k a)
    have "deliveries_ok rs (W\<lparr>pw_open := qs\<rparr>)" for qs by (rule deliveries_ok_same [OF inv]) simp_all
    with Orders_answered show ?thesis using inv by (simp add: orders_step_def answers_def delivery_answered)
  qed (use inv in \<open>auto simp: orders_step_def handleCreateOrder_def handlePayOrder_def confirm_order_def Let_def
      deliveries_ok_def delivery_within_def split: option.split order_task.split\<close>)
qed

text \<open>C21. Unless the payment window is opened, every delivery sent is of an order whose delivery window was
  opened, each of its lines belonging to a line of that order and booking no more than is left of it,
  whatever is typed, closed and answered in between.\<close>

theorem deliveries_within_orders:
  assumes "list_all (without_pay_window rs) es"
  shows "list_all (delivery_within rs) (asked (run orders_step (fresh_page orders_start) es))"
proof -
  have "deliveries_ok rs (run orders_step (fresh_page orders_start) es)"
    by (rule deliveries.run_inv [of rs]) (use assms in \<open>simp_all add: deliveries_ok_def orders_start_def list_all_iff\<close>)
  then show ?thesis by (simp add: deliveries_ok_def)
qed

definition sample_order :: "jstr \<Rightarrow> jstr \<Rightarrow> int \<Rightarrow> purchase_order" where
  "sample_order k q n = \<lparr> o_id = Some k, o_supplierId = js ''s1'', o_supplierName = None, o_status = Some (js ''pending''),
     o_totalAmount = Some (jint 900), o_paidAmount = Some (Fin 0), o_note = None, o_createdAt = None, o_receivedAt = None,
     o_items = [\<lparr> oi_id = None, oi_productId = q, oi_productName = q, oi_quantity = jint n, oi_receivedQty = Fin 0,
       oi_unitCost = jint 100, oi_total = jint (100 * n) \<rparr>] \<rparr>"

lemma order_is_open_sample [simp]: "order_is_open (sample_order k q n)"
  by (simp add: order_is_open_def sample_order_def)

theorem deliveries_within_orders_witness:
  "list_all (delivery_within [sample_order (js ''o1'') (js ''p1'') 3])
     (asked (run orders_step (fresh_page orders_start)
        [Orders_input (Show_receive (sample_order (js ''o1'') (js ''p1'') 3)), Receive_click, Orders_answered 0 (Inl ())]))"
  by (rule deliveries_within_orders) (simp add: without_pay_window_def)

text \<open>With the payment window the guarantee is lost: the answer of a payment puts away the order whose delivery
  window is open, but the window is only hidden. The next order chosen for payment brings it back with
  the lines of the order before, and confirming it books them on the other order.\<close>

lemma delivery_on_other_order:
  assumes ids: "o_id a = Some ka" "ka \<noteq> []" "o_id b = Some kb" "o_id c = Some kc" "kc \<noteq> []"
    and opened: "order_is_open a" "order_is_open b" "order_is_open c" "\<not> order_due a \<le> Fin 0"
    and line: "o_items b = [i]" "Fin 0 < line_remaining i"
  shows "asked (run orders_step (fresh_page orders_start)
      [Orders_input (Show_pay a), Pay_click, Orders_input Close_pay, Orders_input (Show_receive b),
       Orders_answered 0 (Inl ()), Orders_input (Show_pay c), Receive_click])
    = [Pay_order ka (order_due a) (js ''cash''),
       Receive_order kc [\<lparr> ri_productId = oi_productId i, ri_receivedQty = line_remaining i \<rparr>]]"
proof -
  define due where "due = order_due a"
  define ds where "ds = [\<lparr> ri_productId = oi_productId i, ri_receivedQty = line_remaining i \<rparr>]"
  let ?W = "fresh_page orders_start"
  have start: "\<not> window_shown orders_start" "od_payMethod orders_start = js ''cash''"
    by (simp_all add: window_shown_def receive_shown_def pay_shown_def orders_start_def confirm_initial_def)
  let ?W1 = "turns (openPayModal a) ?W"
  have 1: "orders_step ?W (Orders_input (Show_pay a)) = ?W1"
    using opened start by (simp add: orders_step_def turns_def on_orders_input_def order_payable_def fresh_page_def)
  let ?W2 = "asks (Pay_order ka due (js ''cash'')) ?W1"
  have 2: "orders_step ?W1 Pay_click = ?W2"
    using opened(4) ids start by (simp add: orders_step_def pay_shown_def openPayModal_def handlePayOrder_def selected_id_def due_def)
  let ?W3 = "turns (\<lambda>p. p\<lparr>od_showPay := False\<rparr>) ?W2"
  have 3: "orders_step ?W2 (Orders_input Close_pay) = ?W3" by (simp add: orders_step_def on_orders_input_def turns_def)
  let ?W4 = "turns (openReceiveModal b) ?W3"
  have closed: "\<not> window_shown (pw_page ?W3)"
    by (simp add: window_shown_def receive_shown_def pay_shown_def openPayModal_def orders_start_def confirm_initial_def)
  have 4: "orders_step ?W3 (Orders_input (Show_receive b)) = ?W4"
    using opened(2) closed unfolding orders_step_def turns_def on_orders_input_def by simp
  let ?W5 = "order_paid (Inl ()) (?W4\<lparr>pw_open := []\<rparr>)"
  have 5: "orders_step ?W4 (Orders_answered 0 (Inl ())) = ?W5"
    by (simp add: orders_step_def answers_def orders_answered_def)
  let ?W6 = "turns (openPayModal c) ?W5"
  have hidden: "\<not> window_shown (pw_page ?W5)"
    by (simp add: order_paid_def window_shown_def receive_shown_def pay_shown_def openPayModal_def openReceiveModal_def
        orders_start_def confirm_initial_def)
  have 6: "orders_step ?W5 (Orders_input (Show_pay c)) = ?W6"
    using opened(3) hidden unfolding orders_step_def turns_def on_orders_input_def order_payable_def by simp
  have page6: "od_showReceive (pw_page ?W6)" "od_selected (pw_page ?W6) = Some c" "od_receiveItems (pw_page ?W6) = ds"
    by (simp_all add: order_paid_def openPayModal_def openReceiveModal_def line(1) ds_def)
  have asked6: "asked ?W6 = [Pay_order ka due (js ''cash'')]" by (simp add: order_paid_def)
  have "asked (orders_step ?W6 Receive_click) = [Pay_order ka due (js ''cash''), Receive_order kc ds]"
    using page6 asked6 ids line(2)
    by (simp add: orders_step_def receive_shown_def handleReceiveOrder_def selected_id_def Let_def ds_def del: asked_simps(2))
  with 1 2 3 4 5 6 show ?thesis by (simp add: due_def ds_def)
qed

text \<open>The quantity of a line of a new order may be typed negative: only an empty or zero field becomes 1.\<close>

lemma negative_quantity_ordered:
  "ol_quantity (hd (of_items (od_form (type_quantity k [45, 51, 46, 48]
     (orders_start\<lparr> od_form := \<lparr> of_supplierId = s, of_note = [],
        of_items = [\<lparr> ol_productId = k, ol_productName = n, ol_quantity = Fin 1, ol_unitCost = c \<rparr>] \<rparr> \<rparr>))))) = jint (- 3)"
proof -
  have "js_number [45, 51, 46, 48] = rnd (- decimal_value [51] [48])"
    using js_number_decimal(2) [of "[51]" "[48]"] by (simp add: is_digit_def)
  also have "\<dots> = jint (- 3)" using rnd_int [of "- 3"] by (simp add: decimal_value_def read_nat_def)
  finally show ?thesis by (simp add: type_quantity_def on_line_def num_or_def truthy_def)
qed

end
