(* ===== verification/Calculator.thy ===== *)
theory Calculator
  imports Js_Text Machines
begin

text \<open>
  The calculator of the tools dock (\<open>components/tools/Calculator.tsx\<close>). It builds the text of an
  expression from key presses and hands it to the JavaScript evaluator. The part of the evaluator that
  the permitted characters reach is written out: the lexer, and the evaluation of a token list with the
  precedence of JavaScript, on binary64 numbers. Its failures of every kind, syntax errors and type errors, are
  one value, because the code catches all of them alike. A slash where an operand is expected starts a
  regular expression, which is not a number: it counts as a failure too. The power of two numbers is
  left to the implementation by the standard: \<open>pow\<close> is a parameter.
\<close>

section \<open>The evaluator\<close>

datatype tok = T_num jsnum | T_plus | T_minus | T_times | T_over | T_power | T_open | T_close

text \<open>A numeric literal in strict mode: no digit may follow a leading zero.\<close>

definition literal_part :: "jstr \<Rightarrow> (jsnum \<times> jstr) option" where
  "literal_part s =
     (let w = digits_of s; r = after_digits s;
          (f, r') = (if prefix [46] r then (digits_of (tl r), after_digits (tl r)) else ([], r))
      in if w = [] \<and> f = [] \<or> 1 < length w \<and> hd w = 48 then None else Some (rnd (decimal_value w f), r'))"

definition is_op :: "nat \<Rightarrow> bool" where
  "is_op c = (c = 43 \<or> c = 45 \<or> c = 42 \<or> c = 47)"

definition op_tok :: "nat \<Rightarrow> tok" where
  "op_tok c = (if c = 43 then T_plus else if c = 45 then T_minus else if c = 42 then T_times else T_over)"

text \<open>What follows the end of a comment.\<close>

fun after_comment :: "jstr \<Rightarrow> jstr option" where
  "after_comment [] = None"
| "after_comment (c # s) = (if c = 42 \<and> prefix [47] s then Some (tl s) else after_comment s)"

lemma after_comment_shorter: "after_comment s = Some r \<Longrightarrow> length r < length s"
  by (induction s) (force split: if_splits)+

lemma after_digits_le: "length (after_digits s) \<le> length s"
  by (simp add: after_digits_def length_dropWhile_le)

lemma literal_part_shorter: "literal_part s = Some (x, r) \<Longrightarrow> length r < length s"
proof -
  assume n: "literal_part s = Some (x, r)"
  have w: "length (digits_of s) + length (after_digits s) = length s"
    by (simp add: digits_of_def after_digits_def flip: length_append)
  show ?thesis
  proof (cases "prefix [46] (after_digits s)")
    case True
    then have "after_digits s \<noteq> []" by auto
    with True n w after_digits_le [of "tl (after_digits s)"] show ?thesis
      by (cases "after_digits s") (auto simp: literal_part_def Let_def split: if_splits)
  next
    case False
    with n w show ?thesis by (cases "digits_of s") (auto simp: literal_part_def Let_def split: if_splits)
  qed
qed

text \<open>\<open>++\<close> and \<open>--\<close> need a variable: an error. \<open>//\<close> hides the rest, and \<open>/*\<close> what follows up to \<open>*/\<close>.\<close>

function lex :: "jstr \<Rightarrow> tok list option" where
  "lex [] = Some []"
| "lex (c # s) =
     (if c = 32 then lex s
      else if is_digit c \<or> c = 46 then
        (case literal_part (c # s) of None \<Rightarrow> None | Some (x, r) \<Rightarrow> map_option ((#) (T_num x)) (lex r))
      else if is_op c \<and> prefix [c] s then
        (if c = 42 then map_option ((#) T_power) (lex (tl s)) else if c = 47 then Some [] else None)
      else if c = 47 \<and> prefix [42] s then
        (case after_comment (tl s) of None \<Rightarrow> None | Some r \<Rightarrow> lex r)
      else if is_op c then map_option ((#) (op_tok c)) (lex s)
      else if c = 40 then map_option ((#) T_open) (lex s)
      else if c = 41 then map_option ((#) T_close) (lex s)
      else None)"
  by pat_completeness auto

termination by (relation "measure length") (force dest: literal_part_shorter after_comment_shorter simp: prefix_def)+

text \<open>One level of parentheses: the sum and the product under way, each with its pending operator, the bases
  of the powers under way, the sign of the operand and whether it has one, and the operand.\<close>

record frame =
  fr_sum :: "(jsnum \<times> bool) option"
  fr_prod :: "(jsnum \<times> bool) option"
  fr_pows :: "jsnum list"
  fr_neg :: bool
  fr_signed :: bool
  fr_val :: "jsnum option"

definition new_frame :: frame where
  "new_frame = \<lparr> fr_sum = None, fr_prod = None, fr_pows = [], fr_neg = False,
     fr_signed = False, fr_val = None \<rparr>"

definition frame_prod :: "(jsnum \<Rightarrow> jsnum \<Rightarrow> jsnum) \<Rightarrow> frame \<Rightarrow> jsnum \<Rightarrow> jsnum" where
  "frame_prod pow f v = (let x = foldr pow (fr_pows f) (if fr_neg f then - v else v)
     in case fr_prod f of None \<Rightarrow> x | Some (a, over) \<Rightarrow> if over then a / x else a * x)"

definition frame_sum :: "(jsnum \<Rightarrow> jsnum \<Rightarrow> jsnum) \<Rightarrow> frame \<Rightarrow> jsnum \<Rightarrow> jsnum" where
  "frame_sum pow f v = (case fr_sum f of None \<Rightarrow> frame_prod pow f v
     | Some (a, sub) \<Rightarrow> if sub then a - frame_prod pow f v else a + frame_prod pow f v)"

definition additive :: "(jsnum \<Rightarrow> jsnum \<Rightarrow> jsnum) \<Rightarrow> bool \<Rightarrow> frame \<Rightarrow> frame" where
  "additive pow sub f = (case fr_val f of
     None \<Rightarrow> f\<lparr> fr_neg := (sub \<noteq> fr_neg f), fr_signed := True \<rparr>
   | Some v \<Rightarrow> new_frame\<lparr> fr_sum := Some (frame_sum pow f v, sub) \<rparr>)"

definition multiplicative :: "(jsnum \<Rightarrow> jsnum \<Rightarrow> jsnum) \<Rightarrow> bool \<Rightarrow> frame \<Rightarrow> frame option" where
  "multiplicative pow over f = (case fr_val f of None \<Rightarrow> None
     | Some v \<Rightarrow> Some (new_frame\<lparr> fr_sum := fr_sum f, fr_prod := Some (frame_prod pow f v, over) \<rparr>))"

text \<open>A base may not have a sign.\<close>

definition power_base :: "frame \<Rightarrow> frame option" where
  "power_base f = (case fr_val f of None \<Rightarrow> None
     | Some v \<Rightarrow> if fr_signed f then None else Some (f\<lparr> fr_pows := fr_pows f @ [v], fr_val := None \<rparr>))"

fun eval_tok :: "(jsnum \<Rightarrow> jsnum \<Rightarrow> jsnum) \<Rightarrow> tok \<Rightarrow> frame list \<Rightarrow> frame list option" where
  "eval_tok pow t [] = None"
| "eval_tok pow (T_num x) (f # fs) = (if fr_val f = None then Some (f\<lparr>fr_val := Some x\<rparr> # fs) else None)"
| "eval_tok pow T_open (f # fs) = (if fr_val f = None then Some (new_frame # f # fs) else None)"
| "eval_tok pow T_close (f # fs) = (case (fr_val f, fs) of
     (Some v, g # gs) \<Rightarrow> Some (g\<lparr>fr_val := Some (frame_sum pow f v)\<rparr> # gs) | _ \<Rightarrow> None)"
| "eval_tok pow T_plus (f # fs) = Some (additive pow False f # fs)"
| "eval_tok pow T_minus (f # fs) = Some (additive pow True f # fs)"
| "eval_tok pow T_times (f # fs) = map_option (\<lambda>g. g # fs) (multiplicative pow False f)"
| "eval_tok pow T_over (f # fs) = map_option (\<lambda>g. g # fs) (multiplicative pow True f)"
| "eval_tok pow T_power (f # fs) = map_option (\<lambda>g. g # fs) (power_base f)"

fun eval_toks :: "(jsnum \<Rightarrow> jsnum \<Rightarrow> jsnum) \<Rightarrow> tok list \<Rightarrow> frame list \<Rightarrow> frame list option" where
  "eval_toks pow [] fs = Some fs"
| "eval_toks pow (t # ts) fs = (case eval_tok pow t fs of None \<Rightarrow> None | Some gs \<Rightarrow> eval_toks pow ts gs)"

text \<open>\<open>Function('"use strict"; return (' + s + ')')()\<close>.\<close>

definition js_eval :: "(jsnum \<Rightarrow> jsnum \<Rightarrow> jsnum) \<Rightarrow> jstr \<Rightarrow> jsnum option" where
  "js_eval pow s = (case lex ([40] @ s @ [41]) of None \<Rightarrow> None
     | Some ts \<Rightarrow> (case eval_toks pow ts [new_frame] of Some [f] \<Rightarrow> fr_val f | _ \<Rightarrow> None))"

section \<open>The texts of the calculator\<close>

definition calc_char :: "nat \<Rightarrow> bool" where
  "calc_char c = (is_digit c \<or> is_op c \<or> c = 46 \<or> c = 40 \<or> c = 41 \<or> c = 32)"

definition sanitized_expr :: "jstr \<Rightarrow> jstr" where
  "sanitized_expr s = filter calc_char (map (\<lambda>c. if c = 215 then 42 else if c = 247 then 47 else if c = 8722 then 45 else c) s)"

definition ends_with_op :: "jstr \<Rightarrow> bool" where
  "ends_with_op s = (s \<noteq> [] \<and> is_op (last s))"

text \<open>Rounded to ten decimals.\<close>

definition calc_round :: "jsnum \<Rightarrow> jsnum" where
  "calc_round x = js_round (x * Fin 10000000000) / Fin 10000000000"

definition safeCalculate :: "(jsnum \<Rightarrow> jsnum \<Rightarrow> jsnum) \<Rightarrow> jstr \<Rightarrow> jstr" where
  "safeCalculate pow s =
     (if trim s = [] then []
      else let t = sanitized_expr s
           in if ends_with_op (trim t) then []
              else (case js_eval pow t of None \<Rightarrow> [] | Some x \<Rightarrow> if is_fin x then num_to_string (calc_round x) else []))"

definition displayExpression :: "jstr \<Rightarrow> jstr" where
  "displayExpression s = map (\<lambda>c. if c = 42 then 215 else if c = 47 then 247 else if c = 45 then 8722 else c) s"

definition formatNumber :: "jstr \<Rightarrow> jstr" where
  "formatNumber val =
     (if val = js ''Error'' \<or> val = [] then (if val = [] then js ''0'' else val)
      else case parse_float val of NaN \<Rightarrow> val | PInf \<Rightarrow> [8734] | NInf \<Rightarrow> [45, 8734] | Fin x \<Rightarrow> format_en 10 x)"

definition getExpressionSizeClass :: "jstr \<Rightarrow> jstr" where
  "getExpressionSizeClass s = (if 20 < length s then js ''text-xl'' else if 15 < length s then js ''text-2xl'' else js ''text-3xl'')"

definition getResultSizeClass :: "jstr \<Rightarrow> jstr" where
  "getResultSizeClass s = (if 12 < length s then js ''text-2xl'' else if 8 < length s then js ''text-3xl'' else js ''text-4xl'')"

text \<open>\<open>s.split(/([+\-*/])/)\<close>: the pieces with the operators between them.\<close>

fun split_ops :: "jstr \<Rightarrow> jstr list" where
  "split_ops [] = [[]]"
| "split_ops (c # s) = (if is_op c then [] # [c] # split_ops s
     else case split_ops s of [] \<Rightarrow> [[c]] | p # ps \<Rightarrow> (c # p) # ps)"

definition inputDigit :: "jstr \<Rightarrow> jstr \<Rightarrow> jstr" where
  "inputDigit d s = (if d = [46] \<and> str_includes (last (split_ops s)) [46] then s else s @ d)"

definition inputOperator :: "nat \<Rightarrow> jstr \<Rightarrow> jstr" where
  "inputOperator c s = (if s = [] \<and> c \<noteq> 45 then s else if ends_with_op s then butlast s @ [c] else s @ [c])"

definition inputPercent :: "jstr \<Rightarrow> jstr" where
  "inputPercent s = (if s = [] then s else s @ js ''/100'')"

definition toggled_token :: "jstr \<Rightarrow> jstr" where
  "toggled_token t =
     (if prefix [40, 45] t \<and> suffix [41] t then butlast (drop 2 t)
      else if prefix [45] t then drop 1 t
      else [40, 45] @ t @ [41])"

definition toggleSign :: "jstr \<Rightarrow> jstr" where
  "toggleSign s =
     (let parts = filter (\<lambda>p. p \<noteq> []) (split_ops s)
      in if s = [] \<or> parts = [] \<or> list_ex is_op (last parts) then s
         else concat (butlast parts) @ toggled_token (last parts))"

section \<open>The calculator\<close>

text \<open>\<open>ca_stored\<close> is the list under \<open>beidar_calc_history\<close> in the local storage.\<close>

record calc =
  ca_expr :: jstr
  ca_history :: "(jstr \<times> jstr) list"
  ca_showHistory :: bool
  ca_copied :: bool
  ca_stored :: "(jstr \<times> jstr) list option"
  ca_clipboard :: "jstr option"

definition save_history :: "calc \<Rightarrow> calc" where
  "save_history c = (if ca_history c \<noteq> [] then c\<lparr> ca_stored := Some (take 20 (ca_history c)) \<rparr> else c)"

text \<open>The first effect reads the stored history, the second writes it back.\<close>

definition calc_mount :: "(jstr \<times> jstr) list option \<Rightarrow> calc" where
  "calc_mount stored = save_history \<lparr> ca_expr = [], ca_history = (case stored of None \<Rightarrow> [] | Some h \<Rightarrow> h),
     ca_showHistory = False, ca_copied = False, ca_stored = stored, ca_clipboard = None \<rparr>"

definition calculateEquals :: "(jsnum \<Rightarrow> jsnum \<Rightarrow> jsnum) \<Rightarrow> calc \<Rightarrow> calc" where
  "calculateEquals pow c =
     (let liveResult = safeCalculate pow (ca_expr c)
      in if ca_expr c = [] \<or> liveResult = [] then c
         else save_history (c\<lparr> ca_history := (displayExpression (ca_expr c), liveResult) # take 19 (ca_history c),
                ca_expr := liveResult \<rparr>))"

definition on_expr :: "(jstr \<Rightarrow> jstr) \<Rightarrow> calc \<Rightarrow> calc" where
  "on_expr f c = c\<lparr> ca_expr := f (ca_expr c) \<rparr>"

definition clear_history :: "calc \<Rightarrow> calc" where
  "clear_history c = c\<lparr> ca_history := [], ca_stored := None \<rparr>"

text \<open>\<open>/[0-9]/.test(key)\<close> comes first: any key whose name has a digit.\<close>

definition calc_key :: "(jsnum \<Rightarrow> jsnum \<Rightarrow> jsnum) \<Rightarrow> jstr \<Rightarrow> calc \<Rightarrow> calc" where
  "calc_key pow key c =
     (if list_ex is_digit key then on_expr (inputDigit key) c
      else if key = [46] then on_expr (inputDigit [46]) c
      else if key \<in> {[43], [45], [42], [47]} then on_expr (inputOperator (hd key)) c
      else if key = js ''Enter'' \<or> key = [61] then calculateEquals pow c
      else if key = js ''Backspace'' then on_expr butlast c
      else if key = js ''Escape'' then on_expr (\<lambda>_. []) c
      else c)"

datatype calc_event =
    Digit_button nat
  | Dot_button
  | Operator_button nat
  | Percent_button
  | Sign_button
  | Equals_button
  | Clear_button
  | Backspace_button
  | Calc_key jstr
  | Toggle_calc_history
  | Copy_button
  | Copy_timeout
  | Clear_history_button
  | Pick_history nat

definition calc_step :: "(jsnum \<Rightarrow> jsnum \<Rightarrow> jsnum) \<Rightarrow> calc \<Rightarrow> calc_event \<Rightarrow> calc" where
  "calc_step pow c e = (case e of
     Digit_button d \<Rightarrow> (if d < 10 then on_expr (inputDigit [48 + d]) c else c)
   | Dot_button \<Rightarrow> on_expr (inputDigit [46]) c
   | Operator_button k \<Rightarrow> (if is_op k then on_expr (inputOperator k) c else c)
   | Percent_button \<Rightarrow> on_expr inputPercent c
   | Sign_button \<Rightarrow> on_expr toggleSign c
   | Equals_button \<Rightarrow> calculateEquals pow c
   | Clear_button \<Rightarrow> on_expr (\<lambda>_. []) c
   | Backspace_button \<Rightarrow> on_expr butlast c
   | Calc_key k \<Rightarrow> calc_key pow k c
   | Toggle_calc_history \<Rightarrow> c\<lparr>ca_showHistory := \<not> ca_showHistory c\<rparr>
   | Copy_button \<Rightarrow> (let r = safeCalculate pow (ca_expr c)
       in c\<lparr>ca_clipboard := Some (if r \<noteq> [] then r else ca_expr c), ca_copied := True\<rparr>)
   | Copy_timeout \<Rightarrow> c\<lparr>ca_copied := False\<rparr>
   | Clear_history_button \<Rightarrow> (if ca_showHistory c then clear_history c else c)
   | Pick_history i \<Rightarrow> (if ca_showHistory c \<and> i < length (ca_history c)
       then c\<lparr>ca_expr := snd (ca_history c ! i), ca_showHistory := False\<rparr> else c))"

section \<open>The history\<close>

definition history_ok :: "calc \<Rightarrow> bool" where
  "history_ok c = (length (ca_history c) \<le> 20
     \<and> ca_stored c = (if ca_history c = [] then None else Some (ca_history c))
     \<and> list_all (\<lambda>h. snd h \<noteq> []) (ca_history c))"

lemma history_on_expr [simp]: "history_ok (on_expr f c) = history_ok c"
  by (simp add: history_ok_def on_expr_def)

lemma history_equals: "history_ok c \<Longrightarrow> history_ok (calculateEquals pow c)"
  by (auto simp: history_ok_def calculateEquals_def Let_def save_history_def list_all_iff dest: in_set_takeD)

interpretation calculator: machine "calc_step pow" history_ok "\<lambda>_. True"
proof
  fix c e
  assume ok: "history_ok c"
  show "history_ok (calc_step pow c e)"
  proof (cases e)
    case (Calc_key k)
    then show ?thesis using ok by (simp add: calc_step_def calc_key_def history_equals)
  next
    case Equals_button
    then show ?thesis using ok by (simp add: calc_step_def history_equals)
  qed (use ok in \<open>simp_all add: calc_step_def history_ok_def clear_history_def on_expr_def Let_def\<close>)
qed

text \<open>Mounted on a history it stored itself, the calculator keeps at most twenty results, none of them empty,
  and the local storage holds exactly what it shows.\<close>

lemma calculator_history_stored:
  assumes "length h \<le> 20" and "list_all (\<lambda>p. snd p \<noteq> []) h"
  shows "history_ok (run (calc_step pow) (calc_mount (if h = [] then None else Some h)) es)"
proof (rule calculator.run_inv)
  show "history_ok (calc_mount (if h = [] then None else Some h))"
    using assms by (simp add: history_ok_def calc_mount_def save_history_def)
qed simp

section \<open>Precedence\<close>

text \<open>The expressions a user types: a sum of products of whole numbers, a negative number in parentheses the
  way the sign key writes it; and their values, products first, from the left, in binary64.\<close>

definition lit_text :: "int \<Rightarrow> jstr" where
  "lit_text i = (if i < 0 then [40, 45] @ show_nat (nat (- i)) @ [41] else show_nat (nat i))"

definition lit_value :: "int \<Rightarrow> jsnum" where
  "lit_value i = rnd (of_int i)"

fun factors_text :: "(bool \<times> int) list \<Rightarrow> jstr" where
  "factors_text [] = []"
| "factors_text ((over, b) # ms) = (if over then 47 else 42) # lit_text b @ factors_text ms"

fun factors_value :: "jsnum \<Rightarrow> (bool \<times> int) list \<Rightarrow> jsnum" where
  "factors_value x [] = x"
| "factors_value x ((over, b) # ms) = factors_value (if over then x / lit_value b else x * lit_value b) ms"

fun terms_text :: "(bool \<times> int \<times> (bool \<times> int) list) list \<Rightarrow> jstr" where
  "terms_text [] = []"
| "terms_text ((sub, a, ms) # qs) = (if sub then 45 else 43) # lit_text a @ factors_text ms @ terms_text qs"

fun terms_value :: "jsnum \<Rightarrow> (bool \<times> int \<times> (bool \<times> int) list) list \<Rightarrow> jsnum" where
  "terms_value x [] = x"
| "terms_value x ((sub, a, ms) # qs) =
     terms_value (let p = factors_value (lit_value a) ms in if sub then x - p else x + p) qs"

definition sum_text :: "int \<Rightarrow> (bool \<times> int) list \<Rightarrow> (bool \<times> int \<times> (bool \<times> int) list) list \<Rightarrow> jstr" where
  "sum_text a ms qs = lit_text a @ factors_text ms @ terms_text qs"

definition sum_value :: "int \<Rightarrow> (bool \<times> int) list \<Rightarrow> (bool \<times> int \<times> (bool \<times> int) list) list \<Rightarrow> jsnum" where
  "sum_value a ms qs = terms_value (factors_value (lit_value a) ms) qs"

text \<open>Their tokens.\<close>

definition lit_toks :: "int \<Rightarrow> tok list" where
  "lit_toks i = (if i < 0 then [T_open, T_minus, T_num (rnd (of_int (- i))), T_close] else [T_num (rnd (of_int i))])"

fun factors_toks :: "(bool \<times> int) list \<Rightarrow> tok list" where
  "factors_toks [] = []"
| "factors_toks ((over, b) # ms) = (if over then T_over else T_times) # lit_toks b @ factors_toks ms"

fun terms_toks :: "(bool \<times> int \<times> (bool \<times> int) list) list \<Rightarrow> tok list" where
  "terms_toks [] = []"
| "terms_toks ((sub, a, ms) # qs) = (if sub then T_minus else T_plus) # lit_toks a @ factors_toks ms @ terms_toks qs"

subsection \<open>Lexing\<close>

definition breaks :: "jstr \<Rightarrow> bool" where
  "breaks r = (r = [] \<or> \<not> is_digit (hd r) \<and> hd r \<noteq> 46)"

lemma hd_show_nat: "n \<noteq> 0 \<Longrightarrow> hd (show_nat n) \<noteq> 48"
proof (induction n rule: show_nat.induct)
  case (1 n)
  then show ?case by (cases "n < 10") (auto simp: show_nat.simps [of n])
qed

lemma show_nat_zero: "show_nat 0 = [48]"
  by (simp add: show_nat.simps)

lemma literal_part_nat:
  assumes "breaks r"
  shows "literal_part (show_nat n @ r) = Some (rnd (of_nat n), r)"
proof -
  have d: "digits_of (show_nat n @ r) = show_nat n \<and> after_digits (show_nat n @ r) = r"
    by (rule digits_of_split) (use assms show_nat_digits in \<open>auto simp: breaks_def\<close>)
  have z: "\<not> (1 < length (show_nat n) \<and> hd (show_nat n) = 48)"
    using hd_show_nat [of n] by (cases "n = 0") (auto simp: show_nat_zero)
  have p: "\<not> prefix [46] r" using assms by (cases r) (auto simp: breaks_def)
  show ?thesis using d z p by (auto simp: literal_part_def Let_def decimal_value_def read_nat_def [of "[]"])
qed

lemma lex_nat:
  assumes "breaks r"
  shows "lex (show_nat n @ r) = map_option ((#) (T_num (rnd (of_nat n)))) (lex r)"
proof -
  obtain c s where s: "show_nat n = c # s" by (cases "show_nat n") auto
  then have "is_digit c" "c \<noteq> 32" using show_nat_digits [of n] by (auto simp: is_digit_def)
  with literal_part_nat [OF assms, of n] s show ?thesis by simp
qed

lemma hd_lit: "is_digit (hd (lit_text i)) \<or> hd (lit_text i) = 40" "lit_text i \<noteq> []"
  using show_nat_digits [of "nat i"] by (auto simp: lit_text_def hd_in_set)

lemma lex_minus_nat: "breaks r \<Longrightarrow> lex (45 # show_nat n @ r) = map_option ((#) T_minus) (lex (show_nat n @ r))"
proof -
  obtain c s where s: "show_nat n = c # s" by (cases "show_nat n") auto
  then have "is_digit c" using show_nat_digits [of n] by auto
  then have "c \<noteq> 45" by (auto simp: is_digit_def)
  with s show ?thesis by (simp add: is_digit_def is_op_def op_tok_def)
qed

lemma lex_close: "lex (41 # r) = map_option ((#) T_close) (lex r)" "lex (40 # r) = map_option ((#) T_open) (lex r)"
  by (simp_all add: is_digit_def is_op_def)

lemma breaks_close: "breaks (41 # r)"
  by (simp add: breaks_def is_digit_def)

lemma rat_of_nat_nat: "0 \<le> j \<Longrightarrow> of_nat (nat j) = (of_int j :: rat)"
  by (metis of_int_of_nat_eq int_nat_eq)

lemma lex_lit:
  assumes "breaks r"
  shows "lex (lit_text i @ r) = map_option ((@) (lit_toks i)) (lex r)"
proof (cases "i < 0")
  case True
  let ?n = "nat (- i)"
  have "lit_text i @ r = 40 # 45 # show_nat ?n @ 41 # r" using True by (simp add: lit_text_def)
  then have "lex (lit_text i @ r) = map_option ((#) T_open) (map_option ((#) T_minus)
      (map_option ((#) (T_num (rnd (of_nat ?n)))) (map_option ((#) T_close) (lex r))))"
    by (simp only: lex_close lex_minus_nat [OF breaks_close] lex_nat [OF breaks_close])
  also have "\<dots> = map_option (\<lambda>ts. T_open # T_minus # T_num (rnd (of_nat ?n)) # T_close # ts) (lex r)"
    by (cases "lex r") simp_all
  finally have "lex (lit_text i @ r) = \<dots>" .
  moreover have "of_nat (nat (- i)) = (of_int (- i) :: rat)" using True by (intro rat_of_nat_nat) simp
  then have "(@) (lit_toks i) = (\<lambda>ts. T_open # T_minus # T_num (rnd (of_nat (nat (- i)))) # T_close # ts)"
    using True by (simp add: lit_toks_def fun_eq_iff)
  ultimately show ?thesis by simp
next
  case False
  then have "of_nat (nat i) = (of_int i :: rat)" by (intro rat_of_nat_nat) simp
  then have "(@) (lit_toks i) = (#) (T_num (rnd (of_nat (nat i))))"
    using False by (simp add: lit_toks_def fun_eq_iff)
  with False lex_nat [OF assms, of "nat i"] show ?thesis by (simp add: lit_text_def)
qed

lemma lex_op:
  assumes "is_op c"
  shows "lex (c # lit_text i @ r) = map_option ((#) (op_tok c)) (lex (lit_text i @ r))"
proof -
  obtain d s where s: "lit_text i = d # s" using hd_lit(2) by (cases "lit_text i") auto
  with hd_lit(1) [of i] have "\<not> is_op d" by (auto simp: is_op_def is_digit_def)
  then have "d \<noteq> c" "d \<noteq> 42" using assms by (auto simp: is_op_def)
  moreover have "c \<noteq> 32" "\<not> is_digit c" "c \<noteq> 46" using assms by (auto simp: is_op_def is_digit_def)
  ultimately show ?thesis using assms s by simp
qed

lemma breaks_factors: "breaks r \<Longrightarrow> breaks (factors_text ms @ r)"
  by (cases ms) (auto simp: breaks_def is_digit_def split: if_splits)

lemma breaks_terms: "breaks r \<Longrightarrow> breaks (terms_text qs @ r)"
  by (cases qs) (auto simp: breaks_def is_digit_def split: if_splits)

lemma lex_factors: "breaks r \<Longrightarrow> lex (factors_text ms @ r) = map_option ((@) (factors_toks ms)) (lex r)"
proof (induction ms)
  case Nil
  then show ?case by (simp add: map_option.id [unfolded id_def])
next
  case (Cons m ms)
  obtain over b where m: "m = (over, b)" by (cases m)
  have "is_op (if over then 47 else 42)" "op_tok (if over then 47 else 42) = (if over then T_over else T_times)"
    by (auto simp: is_op_def op_tok_def)
  with Cons m show ?case
    by (simp del: lex.simps add: lex_op lex_lit breaks_factors option.map_comp comp_def)
qed

lemma lex_terms: "breaks r \<Longrightarrow> lex (terms_text qs @ r) = map_option ((@) (terms_toks qs)) (lex r)"
proof (induction qs)
  case Nil
  then show ?case by (simp add: map_option.id [unfolded id_def])
next
  case (Cons q qs)
  obtain sub a ms where q: "q = (sub, a, ms)" by (cases q) auto
  have "is_op (if sub then 45 else 43)" "op_tok (if sub then 45 else 43) = (if sub then T_minus else T_plus)"
    by (auto simp: is_op_def op_tok_def)
  with Cons q show ?case
    by (simp del: lex.simps add: lex_op lex_lit lex_factors breaks_factors breaks_terms option.map_comp comp_def)
qed

lemma lex_sum: "lex ([40] @ sum_text a ms qs @ [41])
    = Some (T_open # lit_toks a @ factors_toks ms @ terms_toks qs @ [T_close])"
  by (simp del: lex.simps add: sum_text_def lex_close lex_lit lex_factors lex_terms breaks_factors breaks_terms breaks_close)
    (simp add: lex.simps(1))

subsection \<open>Evaluating\<close>

text \<open>A frame between two tokens, after an operand.\<close>

definition mid_frame :: "(jsnum \<times> bool) option \<Rightarrow> (jsnum \<times> bool) option \<Rightarrow> jsnum \<Rightarrow> frame" where
  "mid_frame s p v = new_frame\<lparr> fr_sum := s, fr_prod := p, fr_val := Some v \<rparr>"

definition prod_so_far :: "(jsnum \<times> bool) option \<Rightarrow> jsnum \<Rightarrow> jsnum" where
  "prod_so_far p v = (case p of None \<Rightarrow> v | Some (a, over) \<Rightarrow> if over then a / v else a * v)"

definition sum_so_far :: "(jsnum \<times> bool) option \<Rightarrow> jsnum \<Rightarrow> jsnum" where
  "sum_so_far s x = (case s of None \<Rightarrow> x | Some (a, sub) \<Rightarrow> if sub then a - x else a + x)"

lemma mid_frame_sel [simp]: "fr_sum (mid_frame s p v) = s" "fr_prod (mid_frame s p v) = p"
  "fr_val (mid_frame s p v) = Some v" "fr_pows (mid_frame s p v) = []" "\<not> fr_neg (mid_frame s p v)"
  by (simp_all add: mid_frame_def new_frame_def)

lemma uminus_uminus_js: "- (- x) = (x :: jsnum)"
  by (cases x) simp_all

lemma mid_frame_prod: "frame_prod pow (mid_frame s p v) v' = prod_so_far p v'"
  by (simp add: frame_prod_def prod_so_far_def)

lemma mid_frame_sum: "frame_sum pow (mid_frame s p v) v' = sum_so_far s (prod_so_far p v')"
  by (cases s) (auto simp: frame_sum_def mid_frame_prod sum_so_far_def)

lemma eval_lit:
  assumes "fr_val f = None"
  shows "eval_toks pow (lit_toks i @ ts) (f # fs) = eval_toks pow ts (f\<lparr>fr_val := Some (lit_value i)\<rparr> # fs)"
proof -
  have "- rnd (- of_int i) = rnd (of_int i)" by (simp add: rnd_minus uminus_uminus_js)
  with assms show ?thesis
    by (simp add: lit_toks_def lit_value_def additive_def new_frame_def frame_sum_def frame_prod_def)
qed

lemma eval_factor:
  "eval_toks pow ((if over then T_over else T_times) # lit_toks b @ ts) (mid_frame s p v # fs)
    = eval_toks pow ts (mid_frame s (Some (prod_so_far p v, over)) (lit_value b) # fs)"
proof -
  have "multiplicative pow over (mid_frame s p v) = Some (new_frame\<lparr> fr_sum := s, fr_prod := Some (prod_so_far p v, over) \<rparr>)"
    by (simp add: multiplicative_def mid_frame_prod)
  then show ?thesis by (cases over) (simp_all add: eval_lit new_frame_def mid_frame_def)
qed

lemma eval_factors:
  "\<exists>p' v'. eval_toks pow (factors_toks ms @ ts) (mid_frame s p v # fs) = eval_toks pow ts (mid_frame s p' v' # fs)
     \<and> prod_so_far p' v' = factors_value (prod_so_far p v) ms"
proof (induction ms arbitrary: p v)
  case Nil
  then show ?case by auto
next
  case (Cons m ms)
  obtain over b where m: "m = (over, b)" by (cases m)
  have "prod_so_far (Some (prod_so_far p v, over)) (lit_value b)
      = (if over then prod_so_far p v / lit_value b else prod_so_far p v * lit_value b)"
    by (simp add: prod_so_far_def)
  with Cons.IH [of "Some (prod_so_far p v, over)" "lit_value b"] show ?case
    using eval_factor [of pow over b "factors_toks ms @ ts" s p v fs] by (simp add: m)
qed

lemma eval_term:
  "eval_toks pow ((if sub then T_minus else T_plus) # lit_toks a @ ts) (mid_frame s p v # fs)
    = eval_toks pow ts (mid_frame (Some (sum_so_far s (prod_so_far p v), sub)) None (lit_value a) # fs)"
proof -
  have "additive pow sub (mid_frame s p v) = new_frame\<lparr> fr_sum := Some (sum_so_far s (prod_so_far p v), sub) \<rparr>"
    by (simp add: additive_def mid_frame_sum)
  then show ?thesis by (cases sub) (simp_all add: eval_lit new_frame_def mid_frame_def)
qed

lemma eval_terms:
  "\<exists>s' p' v'. eval_toks pow (terms_toks qs @ ts) (mid_frame s p v # fs) = eval_toks pow ts (mid_frame s' p' v' # fs)
     \<and> sum_so_far s' (prod_so_far p' v') = terms_value (sum_so_far s (prod_so_far p v)) qs"
proof (induction qs arbitrary: s p v)
  case Nil
  then show ?case by auto
next
  case (Cons q qs)
  obtain sub a ms where q: "q = (sub, a, ms)" by (cases q) auto
  let ?s = "Some (sum_so_far s (prod_so_far p v), sub)"
  obtain p1 v1 where f: "eval_toks pow (factors_toks ms @ terms_toks qs @ ts) (mid_frame ?s None (lit_value a) # fs)
        = eval_toks pow (terms_toks qs @ ts) (mid_frame ?s p1 v1 # fs)"
      "prod_so_far p1 v1 = factors_value (lit_value a) ms"
    using eval_factors [of pow ms "terms_toks qs @ ts" ?s None "lit_value a" fs] by (auto simp: prod_so_far_def)
  have s: "sum_so_far ?s (prod_so_far p1 v1)
      = (let x = factors_value (lit_value a) ms in if sub then sum_so_far s (prod_so_far p v) - x
         else sum_so_far s (prod_so_far p v) + x)"
    by (simp add: f(2) sum_so_far_def [of "Some (_, _)"] Let_def)
  show ?case
    using Cons.IH [of ?s p1 v1] f(1) s eval_term [of pow sub a "factors_toks ms @ terms_toks qs @ ts" s p v fs]
    by (simp add: q)
qed

lemma eval_sum: "js_eval pow (sum_text a ms qs) = Some (sum_value a ms qs)"
proof -
  let ?g = "new_frame"
  obtain p1 v1 where f: "eval_toks pow (factors_toks ms @ terms_toks qs @ [T_close]) [mid_frame None None (lit_value a), ?g]
        = eval_toks pow (terms_toks qs @ [T_close]) [mid_frame None p1 v1, ?g]"
      "prod_so_far p1 v1 = factors_value (lit_value a) ms"
    using eval_factors [of pow ms "terms_toks qs @ [T_close]" None None "lit_value a" "[?g]"] by (auto simp: prod_so_far_def)
  obtain s2 p2 v2 where t: "eval_toks pow (terms_toks qs @ [T_close]) [mid_frame None p1 v1, ?g]
        = eval_toks pow [T_close] [mid_frame s2 p2 v2, ?g]"
      "sum_so_far s2 (prod_so_far p2 v2) = terms_value (prod_so_far p1 v1) qs"
    using eval_terms [of pow qs "[T_close]" None p1 v1 "[?g]"] by (auto simp: sum_so_far_def)
  have l: "new_frame\<lparr>fr_val := Some (lit_value a)\<rparr> = mid_frame None None (lit_value a)"
    by (simp add: mid_frame_def new_frame_def)
  have "eval_toks pow (T_open # lit_toks a @ factors_toks ms @ terms_toks qs @ [T_close]) [new_frame]
      = eval_toks pow (factors_toks ms @ terms_toks qs @ [T_close]) [mid_frame None None (lit_value a), ?g]"
    using eval_lit [of new_frame pow a] l by (simp add: new_frame_def)
  also have "\<dots> = Some [?g\<lparr>fr_val := Some (sum_so_far s2 (prod_so_far p2 v2))\<rparr>]"
    using f(1) t(1) mid_frame_sum [of pow s2 p2 v2 v2] by (simp add: mid_frame_def)
  finally show ?thesis
    using lex_sum [of a ms qs] f(2) t(2) by (simp del: lex.simps add: js_eval_def sum_value_def)
qed

subsection \<open>The live result\<close>

definition plain_text :: "jstr \<Rightarrow> bool" where
  "plain_text s = list_all (\<lambda>c. calc_char c \<and> c \<noteq> 32) s"

definition closed_text :: "jstr \<Rightarrow> bool" where
  "closed_text s = (s \<noteq> [] \<and> plain_text s \<and> \<not> is_op (last s))"

lemma digits_plain: "plain_text (show_nat n)"
  using show_nat_digits [of n] by (auto simp: plain_text_def list_all_iff calc_char_def is_digit_def)

lemma plain_Nil [simp]: "plain_text []"
  by (simp add: plain_text_def)

lemma plain_append [simp]: "plain_text (s @ t) = (plain_text s \<and> plain_text t)"
  by (simp add: plain_text_def)

lemma plain_Cons: "plain_text (c # s) = (calc_char c \<and> c \<noteq> 32 \<and> plain_text s)"
  by (simp add: plain_text_def)

lemma closed_append: "plain_text s \<Longrightarrow> closed_text t \<Longrightarrow> closed_text (s @ t)"
  by (simp add: closed_text_def)

lemma closed_lit: "closed_text (lit_text i)"
proof -
  have "is_digit (last (show_nat n))" for n using show_nat_digits [of n] by (simp add: last_in_set)
  moreover have "is_digit c \<Longrightarrow> \<not> is_op c" for c by (auto simp: is_digit_def is_op_def)
  ultimately have "\<not> is_op (last (show_nat n))" for n by blast
  then show ?thesis by (auto simp: closed_text_def lit_text_def digits_plain plain_Cons calc_char_def is_op_def is_digit_def)
qed

lemma closed_plain: "closed_text s \<Longrightarrow> plain_text s"
  by (simp add: closed_text_def)

lemma closed_factors: "closed_text s \<Longrightarrow> closed_text (s @ factors_text ms)"
proof (induction ms arbitrary: s)
  case (Cons m ms)
  obtain over b where m: "m = (over, b)" by (cases m)
  have "closed_text (s @ (if over then 47 else 42) # lit_text b)"
    using closed_append [of "s @ [if over then 47 else 42]", OF _ closed_lit [of b]] closed_plain [OF Cons.prems]
    by (simp add: plain_text_def calc_char_def is_op_def)
  from Cons.IH [OF this] show ?case by (simp add: m)
qed simp

lemma closed_terms: "closed_text s \<Longrightarrow> closed_text (s @ terms_text qs)"
proof (induction qs arbitrary: s)
  case (Cons q qs)
  obtain sub a ms where q: "q = (sub, a, ms)" by (cases q) auto
  have "closed_text (s @ (if sub then 45 else 43) # lit_text a)"
    using closed_append [of "s @ [if sub then 45 else 43]", OF _ closed_lit [of a]] closed_plain [OF Cons.prems]
    by (simp add: plain_text_def calc_char_def is_op_def)
  from Cons.IH [OF closed_factors [OF this, of ms]] show ?case by (simp add: q)
qed simp

lemma closed_sum: "closed_text (sum_text a ms qs)"
  using closed_terms [OF closed_factors [OF closed_lit [of a], of ms], of qs] by (simp add: sum_text_def)

lemma plain_not_space: "calc_char c \<Longrightarrow> c \<noteq> 32 \<Longrightarrow> \<not> is_space c"
  by (auto simp: calc_char_def is_op_def is_digit_def is_space_def)

lemma closed_trim: "closed_text s \<Longrightarrow> trim s = s"
  by (intro trim_id) (auto simp: closed_text_def plain_text_def list_all_iff plain_not_space)

lemma plain_sanitized: "plain_text s \<Longrightarrow> sanitized_expr s = s"
  unfolding sanitized_expr_def plain_text_def
  by (induction s) (auto simp: calc_char_def is_op_def is_digit_def)

text \<open>C22. On every typed sum of products of whole numbers, negative ones in parentheses, the live result is the
  value in binary64 with products before sums and both from the left, rounded to ten decimals; when
  that value is not finite there is no result.\<close>

theorem calculator_precedence:
  "safeCalculate pow (sum_text a ms qs)
     = (if is_fin (sum_value a ms qs) then num_to_string (calc_round (sum_value a ms qs)) else [])"
proof -
  have c: "closed_text (sum_text a ms qs)" by (rule closed_sum)
  then have "\<not> ends_with_op (sum_text a ms qs)" "sum_text a ms qs \<noteq> []"
    by (simp_all add: closed_text_def ends_with_op_def)
  then show ?thesis
    by (simp add: safeCalculate_def Let_def closed_trim [OF c] plain_sanitized [OF closed_plain [OF c]] eval_sum)
qed

section \<open>Keys\<close>

lemma split_ops_ne [simp]: "split_ops s \<noteq> []"
  by (induction s) (auto split: list.split)

lemma split_ops_plain: "\<not> list_ex is_op w \<Longrightarrow> split_ops w = [w]"
  by (induction w) auto

lemma split_ops_snoc: "is_op c \<Longrightarrow> split_ops (s @ c # w) = split_ops s @ [c] # split_ops w"
proof (induction s)
  case (Cons d s)
  then show ?case by (cases "split_ops s") auto
qed simp

lemma concat_split_ops: "concat (split_ops s) = s"
proof (induction s)
  case (Cons c s)
  then show ?case by (cases "split_ops s") auto
qed simp

lemma concat_nonempty: "concat (filter (\<lambda>p. p \<noteq> []) ps) = concat ps"
  by (induction ps) auto

lemma last_part:
  assumes "pre = [] \<or> ends_with_op pre" and "\<not> list_ex is_op w" and "w \<noteq> []"
  shows "filter (\<lambda>p. p \<noteq> []) (split_ops (pre @ w)) = filter (\<lambda>p. p \<noteq> []) (split_ops pre) @ [w]"
proof (cases pre rule: rev_cases)
  case Nil
  then show ?thesis using assms by (simp add: split_ops_plain)
next
  case (snoc s c)
  then have "is_op c" using assms(1) by (auto simp: ends_with_op_def)
  with snoc split_ops_snoc [of c s w] split_ops_snoc [of c s "[]"] assms(2,3) show ?thesis
    by (simp add: split_ops_plain)
qed

lemma sign_key_never_unwraps:
  assumes "\<not> list_ex is_op t"
  shows "toggled_token t = [40, 45] @ t @ [41]"
proof -
  have "45 \<notin> set t" using assms by (auto simp: list_ex_iff is_op_def)
  then have "\<not> prefix [40, 45] t" "\<not> prefix [45] t" by (auto elim!: prefixE)
  then show ?thesis by (simp add: toggled_token_def)
qed

text \<open>The sign key turns a last positive number into the negative one; pressed again it wraps the closing
  parenthesis as well and never takes the sign off: splitting at the minus, the branch for a number in
  parentheses cannot be reached.\<close>

lemma sign_key_negates:
  assumes "pre = [] \<or> ends_with_op pre" and "0 < n"
  shows "toggleSign (pre @ show_nat n) = pre @ lit_text (- int n)"
proof -
  have "\<not> list_ex is_op (show_nat n)"
    using show_nat_digits [of n] by (auto simp: list_ex_iff is_op_def is_digit_def)
  then have parts: "filter (\<lambda>p. p \<noteq> []) (split_ops (pre @ show_nat n)) = filter (\<lambda>p. p \<noteq> []) (split_ops pre) @ [show_nat n]"
    and tok: "toggled_token (show_nat n) = [40, 45] @ show_nat n @ [41]" and no: "\<not> list_ex is_op (show_nat n)"
    by (rule last_part [OF assms(1)], simp_all add: sign_key_never_unwraps)
  have pre: "concat (filter (\<lambda>p. p \<noteq> []) (split_ops pre)) = pre" by (simp only: concat_nonempty concat_split_ops)
  have "toggleSign (pre @ show_nat n) = pre @ [40, 45] @ show_nat n @ [41]"
    unfolding toggleSign_def Let_def parts using pre no tok by simp
  moreover have "lit_text (- int n) = [40, 45] @ show_nat n @ [41]" using assms(2) by (simp add: lit_text_def)
  ultimately show ?thesis by (simp only:)
qed

text \<open>Whole results within the range where the rounding to ten decimals is exact print their digits.\<close>

lemma calc_round_whole:
  assumes "\<bar>n\<bar> \<le> 900000"
  shows "calc_round (jint n) = jint n"
proof -
  have "jint n * Fin 10000000000 = jint (n * 10000000000)"
    using assms jint_mult [of n 10000000000] by (simp add: abs_mult)
  moreover have "rnd (of_int n) = jint n" using assms by (intro rnd_int) simp
  ultimately show ?thesis by (simp add: calc_round_def js_round_jint)
qed

lemma printed_whole: "\<bar>n\<bar> \<le> 900000 \<Longrightarrow> num_to_string (calc_round (jint n)) = show_int n"
  by (simp add: calc_round_whole num_to_string_int del: num_to_string.simps)

text \<open>A function key types its name, and the digits in it count: \<open>F5\<close> after 7 makes 75.\<close>

lemma function_key_typed:
  "ca_expr (calc_step pow c (Calc_key (js ''F5''))) = ca_expr c @ js ''F5''"
  by (simp add: calc_step_def calc_key_def on_expr_def inputDigit_def is_digit_def)

lemma sanitized_drops_letters: "safeCalculate pow (js ''7F5'') = js ''75''"
proof -
  have "sanitized_expr (js ''7F5'') = sum_text 75 [] []"
    by (simp add: sanitized_expr_def calc_char_def is_op_def is_digit_def sum_text_def lit_text_def show_nat.simps)
  then have "js_eval pow (sanitized_expr (js ''7F5'')) = Some (sum_value 75 [] [])"
    and "sanitized_expr (js ''7F5'') = js ''75''"
    using eval_sum [of pow 75 "[]" "[]"] by (simp_all add: sum_text_def lit_text_def show_nat.simps)
  moreover have "sum_value 75 [] [] = jint 75" by (simp add: sum_value_def lit_value_def rnd_numeral)
  moreover have "num_to_string (calc_round (jint 75)) = js ''75''" using printed_whole [of 75] by (simp add: show_int_def show_nat.simps)
  ultimately show ?thesis
    by (simp add: safeCalculate_def Let_def trim_def trim_start_def trim_end_def is_space_def ends_with_op_def is_op_def
        is_fin_def del: num_to_string.simps)
qed

text \<open>After the equals key the expression is the text of the result. With an exponent in it the letter is
  dropped and the sign becomes an operator: 1e-7 is read back as 1-7.\<close>

lemma exponent_reread: "safeCalculate pow (js ''1e-7'') = js ''-6''"
proof -
  have "sanitized_expr (js ''1e-7'') = sum_text 1 [] [(True, 7, [])]"
    by (simp add: sanitized_expr_def calc_char_def is_op_def is_digit_def sum_text_def lit_text_def show_nat.simps)
  then have "js_eval pow (sanitized_expr (js ''1e-7'')) = Some (sum_value 1 [] [(True, 7, [])])"
    and "sanitized_expr (js ''1e-7'') = js ''1-7''"
    using eval_sum [of pow 1 "[]" "[(True, 7, [])]"] by (simp_all add: sum_text_def lit_text_def show_nat.simps)
  moreover have "sum_value 1 [] [(True, 7, [])] = jint (- 6)"
    using jint_diff [of 1 7] rnd_int [of 1] rnd_int [of 7] by (simp add: sum_value_def lit_value_def)
  moreover have "num_to_string (calc_round (jint (- 6))) = js ''-6''" using printed_whole [of "- 6"] by (simp add: show_int_def show_nat.simps)
  ultimately show ?thesis
    by (simp add: safeCalculate_def Let_def trim_def trim_start_def trim_end_def is_space_def ends_with_op_def is_op_def
        is_fin_def del: num_to_string.simps)
qed

end
