(* ===== verification/Invoices.thy ===== *)
theory Invoices
  imports Pages Domain
begin

text \<open>
  The invoices page (\<open>features/invoices/invoices.tsx\<close>) with the window that asks for the administrator's
  PIN (\<open>components/PinModal.tsx\<close>), as steps of a page (theory \<open>Pages\<close>). A request for a check of the PIN
  carries the invoice that was marked for deletion when it was sent: the handler goes on with the page it
  was created in, not with the one of the moment of the answer.
\<close>

section \<open>The page\<close>

datatype invoice_print_mode = Print_a4 | Print_thermal

record invoices_page =
  iv_search :: jstr
  iv_status :: jstr
  iv_date :: jstr
  iv_selected :: "sale option"
  iv_showStats :: bool
  iv_deleteConfirmation :: "sale option"
  iv_returnConfirmation :: "sale option"
  iv_showPin :: bool
  iv_printing :: bool
  iv_printMode :: invoice_print_mode
  iv_scale :: jsnum
  iv_scannerOpen :: bool
  iv_page :: int
  iv_pin :: jstr
  iv_pinError :: bool
  iv_pinLoading :: bool

definition invoices_start :: invoices_page where
  "invoices_start = \<lparr> iv_search = [], iv_status = js ''all'', iv_date = js ''all'', iv_selected = None,
     iv_showStats = False, iv_deleteConfirmation = None, iv_returnConfirmation = None, iv_showPin = False,
     iv_printing = False, iv_printMode = Print_a4, iv_scale = rnd (45 / 100), iv_scannerOpen = False, iv_page = 0,
     iv_pin = [], iv_pinError = False, iv_pinLoading = False \<rparr>"

datatype invoice_request =
    Verify_pin jstr "sale option"
  | Delete_sale jstr
  | Return_sale jstr
  | Get_sale jstr

type_synonym invoices_world = "(invoices_page, invoice_request) page_world"

text \<open>The effect of the PIN window clears it when it opens.\<close>

definition open_pin :: "invoices_page \<Rightarrow> invoices_page" where
  "open_pin p = (if iv_showPin p then p
     else p\<lparr> iv_showPin := True, iv_pin := [], iv_pinError := False, iv_pinLoading := False \<rparr>)"

definition invoice_initDelete :: "jstr \<Rightarrow> sale \<Rightarrow> invoices_page \<Rightarrow> invoices_page" where
  "invoice_initDelete adminPin s p =
     (if adminPin \<noteq> [] then open_pin (p\<lparr>iv_deleteConfirmation := Some s\<rparr>) else p\<lparr>iv_deleteConfirmation := Some s\<rparr>)"

definition close_pin :: "invoices_page \<Rightarrow> invoices_page" where
  "close_pin p = p\<lparr> iv_showPin := False, iv_deleteConfirmation := None \<rparr>"

definition invoice_performDelete :: "sale option \<Rightarrow> invoices_world \<Rightarrow> invoices_world" where
  "invoice_performDelete deleteConfirmation W = (case deleteConfirmation of None \<Rightarrow> W | Some s \<Rightarrow> asks (Delete_sale (x_id s)) W)"

definition sale_deleted :: "unit + thrown \<Rightarrow> invoices_world \<Rightarrow> invoices_world" where
  "sale_deleted a W = (case a of
     Inl u \<Rightarrow> tells [Invalidates [sales_all], Invalidates invalidateAllData, Refetches]
       (turns (\<lambda>p. p\<lparr> iv_deleteConfirmation := None, iv_selected := None, iv_showPin := False \<rparr>)
         (tells [Says [1578, 1605, 32, 1581, 1584, 1601, 32, 1575, 1604, 1601, 1575, 1578, 1608,
           1585, 1577, 32, 1576,
  1606, 1580, 1575, 1581] T_success] W))
   | Inr e \<Rightarrow> tells [Says [1582, 1591, 1571, 32, 1601, 1610, 32, 1575, 1604, 1581,
     1584, 1601] T_error] W)"

definition performReturn :: "invoices_world \<Rightarrow> invoices_world" where
  "performReturn W = (case iv_returnConfirmation (pw_page W) of None \<Rightarrow> W | Some s \<Rightarrow> asks (Return_sale (x_id s)) W)"

definition sale_returned :: "unit + thrown \<Rightarrow> invoices_world \<Rightarrow> invoices_world" where
  "sale_returned a W = (case a of
     Inl u \<Rightarrow> tells [Invalidates [sales_all], Invalidates invalidateProducts, Invalidates [customers_all],
         Invalidates invalidateAllData, Refetches]
       (turns (\<lambda>p. p\<lparr> iv_selected := None, iv_printing := False, iv_returnConfirmation := None \<rparr>)
         (tells [Says [1578, 1605, 32, 1573, 1585, 1580, 1575, 1593, 32, 1575, 1604, 1601, 1575,
           1578, 1608, 1585,
  1577, 32, 1608, 1578, 1581, 1583, 1610, 1579, 32, 1575, 1604, 1605, 1582, 1586, 1608,
    1606] T_success] W))
   | Inr e \<Rightarrow> tells [Says [1582, 1591, 1571, 32, 1601, 1610, 32, 1593, 1605, 1604,
     1610, 1577, 32, 1575, 1604, 1573, 1585,
  1580, 1575, 1593] T_error] W)"

text \<open>A scanned invoice code is \<open>INV:\<close>, the number, and parts after bars.\<close>

definition scanned_invoice_id :: "jstr \<Rightarrow> jstr" where
  "scanned_invoice_id code = replace_first (js ''INV:'') [] (hd (split_on 124 code))"

definition invoice_scan :: "jstr \<Rightarrow> invoices_world \<Rightarrow> invoices_world" where
  "invoice_scan code W = (if starts_with code (js ''INV:'') then asks (Get_sale (scanned_invoice_id code)) W else W)"

datatype invoice_scan_result = Scan_ok jstr | Scan_failed jstr

definition invoice_fetched :: "jstr \<Rightarrow> sale option + thrown \<Rightarrow> invoices_world \<Rightarrow> invoices_world \<times> invoice_scan_result" where
  "invoice_fetched invoiceId a W = (case a of
     Inl (Some s) \<Rightarrow> (turns (\<lambda>p. p\<lparr> iv_selected := Some s,
       iv_scannerOpen := False \<rparr>) W, Scan_ok ([1601, 1575, 1578, 1608, 1585, 1577, 32,
       35] @ invoiceId))
   | Inl None \<Rightarrow> (tells [Says [1575, 1604, 1601, 1575, 1578, 1608, 1585, 1577, 32,
     1594, 1610, 1585, 32, 1605, 1608, 1580,
  1608, 1583, 1577] T_error] W, Scan_failed [1601, 1575, 1578, 1608, 1585, 1577, 32, 1594, 1610,
    1585, 32, 1605, 1608, 1580, 1608, 1583, 1577])
   | Inr e \<Rightarrow> (tells [Says [1582, 1591, 1571, 32, 1601, 1610, 32, 1578, 1581, 1605,
     1610, 1604, 32, 1575, 1604, 1601, 1575,
  1578, 1608, 1585, 1577] T_error] W, Scan_failed [1582, 1591, 1571, 32, 1601, 1610, 32, 1575,
    1604, 1578, 1581, 1605, 1610, 1604]))"

section \<open>The PIN window\<close>

definition pin_digit :: "nat \<Rightarrow> invoices_page \<Rightarrow> invoices_page" where
  "pin_digit d p = (if length (iv_pin p) < 4 then p\<lparr> iv_pin := iv_pin p @ [48 + d], iv_pinError := False \<rparr> else p)"

definition pin_typed :: "jstr \<Rightarrow> invoices_page \<Rightarrow> invoices_page" where
  "pin_typed t p = (if list_all is_digit t then p\<lparr> iv_pin := take 4 t \<rparr> else p)"

definition submit_pin :: "invoices_world \<Rightarrow> invoices_world" where
  "submit_pin W = (let p = pw_page W
     in if iv_pinLoading p then W
        else asks (Verify_pin (iv_pin p) (iv_deleteConfirmation p)) (turns (\<lambda>p. p\<lparr>iv_pinLoading := True\<rparr>) W))"

definition pin_verified :: "sale option \<Rightarrow> bool + thrown \<Rightarrow> invoices_world \<Rightarrow> invoices_world" where
  "pin_verified deleteConfirmation a W = turns (\<lambda>p. p\<lparr>iv_pinLoading := False\<rparr>) (case a of
     Inl True \<Rightarrow> invoice_performDelete deleteConfirmation W
   | Inl False \<Rightarrow> turns (\<lambda>p. p\<lparr> iv_pinError := True, iv_pin := [] \<rparr>) W
   | Inr e \<Rightarrow> turns (\<lambda>p. p\<lparr> iv_pinError := True \<rparr>) W)"

section \<open>Steps\<close>

text \<open>\<open>Pagination\<close>.\<close>

definition page_count :: "jsnum \<Rightarrow> jsnum \<Rightarrow> jsnum" where
  "page_count totalRecords pageSize = (if truthy totalRecords \<and> truthy pageSize then js_ceil (totalRecords / pageSize) else Fin 1)"

definition next_page_enabled :: "jsnum \<Rightarrow> jsnum \<Rightarrow> int \<Rightarrow> bool" where
  "next_page_enabled totalRecords pageSize page =
     (let n = page_count totalRecords pageSize in \<not> (truthy n \<and> n - Fin 1 \<le> jint page))"

datatype invoices_input =
    Search_invoices jstr
  | Choose_invoice_status jstr
  | Choose_invoice_date jstr
  | Show_invoice sale
  | Close_invoice
  | Toggle_invoice_stats
  | Choose_print_mode invoice_print_mode
  | Zoom_in
  | Zoom_out
  | Print_invoice
  | Printed_invoice
  | Init_delete
  | Init_return
  | Cancel_return
  | Open_scanner
  | Close_scanner
  | Previous_invoices
  | Next_invoices jsnum
  | Pin_button nat
  | Pin_backspace
  | Pin_clear
  | Pin_text jstr
  | Cancel_pin
  | Escape_pin

definition on_invoices_input :: "jstr \<Rightarrow> invoices_input \<Rightarrow> invoices_page \<Rightarrow> invoices_page" where
  "on_invoices_input adminPin e p = (case e of
     Search_invoices v \<Rightarrow> p\<lparr> iv_search := v, iv_page := 0 \<rparr>
   | Choose_invoice_status v \<Rightarrow> p\<lparr> iv_status := v, iv_page := 0 \<rparr>
   | Choose_invoice_date v \<Rightarrow> p\<lparr> iv_date := v \<rparr>
   | Show_invoice s \<Rightarrow> p\<lparr> iv_selected := Some s, iv_printing := False, iv_printMode := Print_a4 \<rparr>
   | Close_invoice \<Rightarrow> p\<lparr> iv_selected := None \<rparr>
   | Toggle_invoice_stats \<Rightarrow> p\<lparr> iv_showStats := \<not> iv_showStats p \<rparr>
   | Choose_print_mode m \<Rightarrow> p\<lparr> iv_printMode := m \<rparr>
   | Zoom_in \<Rightarrow> p\<lparr> iv_scale := js_min (rnd (15 / 10)) (iv_scale p + rnd (1 / 10)) \<rparr>
   | Zoom_out \<Rightarrow> p\<lparr> iv_scale := js_max (rnd (3 / 10)) (iv_scale p - rnd (1 / 10)) \<rparr>
   | Print_invoice \<Rightarrow> p\<lparr> iv_printing := True \<rparr>
   | Printed_invoice \<Rightarrow> p\<lparr> iv_printing := False \<rparr>
   | Init_delete \<Rightarrow> (case iv_selected p of None \<Rightarrow> p | Some s \<Rightarrow> invoice_initDelete adminPin s p)
   | Init_return \<Rightarrow> (case iv_selected p of None \<Rightarrow> p
       | Some s \<Rightarrow> if x_status s = Returned then p else p\<lparr> iv_returnConfirmation := Some s \<rparr>)
   | Cancel_return \<Rightarrow> p\<lparr> iv_returnConfirmation := None \<rparr>
   | Open_scanner \<Rightarrow> p\<lparr> iv_scannerOpen := True \<rparr>
   | Close_scanner \<Rightarrow> p\<lparr> iv_scannerOpen := False \<rparr>
   | Previous_invoices \<Rightarrow> (if iv_page p = 0 then p else p\<lparr> iv_page := max 0 (iv_page p - 1) \<rparr>)
   | Next_invoices totalRecords \<Rightarrow> (if next_page_enabled totalRecords (Fin 50) (iv_page p) then p\<lparr> iv_page := iv_page p + 1 \<rparr> else p)
   | Pin_button d \<Rightarrow> (if iv_showPin p \<and> \<not> iv_pinLoading p \<and> d < 10 then pin_digit d p else p)
   | Pin_backspace \<Rightarrow> (if iv_showPin p \<and> \<not> iv_pinLoading p then p\<lparr> iv_pin := butlast (iv_pin p) \<rparr> else p)
   | Pin_clear \<Rightarrow> (if iv_showPin p \<and> \<not> iv_pinLoading p then p\<lparr> iv_pin := [] \<rparr> else p)
   | Pin_text t \<Rightarrow> (if iv_showPin p then pin_typed t p else p)
   | Cancel_pin \<Rightarrow> (if iv_showPin p \<and> \<not> iv_pinLoading p then close_pin p else p)
   | Escape_pin \<Rightarrow> (if iv_showPin p then close_pin p else p))"

datatype invoices_answer =
    Pin_answer "bool + thrown"
  | Done_answer "unit + thrown"
  | Sale_answer "sale option + thrown"

definition invoices_answered :: "invoices_answer \<Rightarrow> invoice_request \<Rightarrow> invoices_world \<Rightarrow> invoices_world" where
  "invoices_answered a r W = (case (r, a) of
     (Verify_pin t s, Pin_answer b) \<Rightarrow> pin_verified s b W
   | (Delete_sale k, Done_answer d) \<Rightarrow> sale_deleted d W
   | (Return_sale k, Done_answer d) \<Rightarrow> sale_returned d W
   | (Get_sale k, Sale_answer s) \<Rightarrow> fst (invoice_fetched k s W)
   | _ \<Rightarrow> W)"

datatype invoices_event =
    Invoices_input invoices_input
  | Submit_pin
  | Confirm_return
  | Invoice_scanned jstr
  | Invoices_answered nat invoices_answer

definition invoices_step :: "jstr \<Rightarrow> invoices_world \<Rightarrow> invoices_event \<Rightarrow> invoices_world" where
  "invoices_step adminPin W e = (case e of
     Invoices_input i \<Rightarrow> turns (on_invoices_input adminPin i) W
   | Submit_pin \<Rightarrow> (if iv_showPin (pw_page W) then submit_pin W else W)
   | Confirm_return \<Rightarrow> performReturn W
   | Invoice_scanned code \<Rightarrow> invoice_scan code W
   | Invoices_answered k a \<Rightarrow> answers k (invoices_answered a) W)"

section \<open>Deletions\<close>

definition is_delete :: "invoice_request \<Rightarrow> bool" where
  "is_delete r = (case r of Delete_sale k \<Rightarrow> True | _ \<Rightarrow> False)"

definition pin_accepted :: "invoices_event \<Rightarrow> bool" where
  "pin_accepted e = (case e of Invoices_answered k (Pin_answer (Inl True)) \<Rightarrow> True | _ \<Rightarrow> False)"

text \<open>A check of the PIN that names the invoice.\<close>

definition vouches :: "jstr \<Rightarrow> invoice_request \<Rightarrow> bool" where
  "vouches k r = (case r of Verify_pin t (Some s) \<Rightarrow> x_id s = k | _ \<Rightarrow> False)"

text \<open>Every deletion comes after a check of the PIN for its invoice.\<close>

definition vouched_by :: "invoice_request list \<Rightarrow> invoice_request \<Rightarrow> bool" where
  "vouched_by rs r = (case r of Delete_sale k \<Rightarrow> list_ex (vouches k) rs | _ \<Rightarrow> True)"

definition deletions_vouched :: "invoice_request list \<Rightarrow> bool" where
  "deletions_vouched rs = (\<forall>i<length rs. vouched_by (take i rs) (rs ! i))"

lemma deletions_vouched_snoc:
  "deletions_vouched (rs @ [r]) = (deletions_vouched rs \<and> vouched_by rs r)"
  by (auto simp: deletions_vouched_def nth_append less_Suc_eq)

lemma invoices_answered_cases:
  "asked (invoices_answered a r W) = asked W \<and> pw_open (invoices_answered a r W) = pw_open W
   \<or> (\<exists>t s. r = Verify_pin t (Some s) \<and> a = Pin_answer (Inl True)
        \<and> asked (invoices_answered a r W) = asked W @ [Delete_sale (x_id s)]
        \<and> pw_open (invoices_answered a r W) = pw_open W @ [Delete_sale (x_id s)])"
proof (cases "\<exists>t s. r = Verify_pin t (Some s) \<and> a = Pin_answer (Inl True)")
  case True
  then show ?thesis by (auto simp: invoices_answered_def pin_verified_def invoice_performDelete_def)
next
  case False
  then show ?thesis
    by (auto simp: invoices_answered_def pin_verified_def invoice_performDelete_def sale_deleted_def sale_returned_def
        invoice_fetched_def split: invoice_request.split invoices_answer.split sum.split option.split bool.split)
qed

definition deletions_inv :: "invoices_world \<Rightarrow> bool" where
  "deletions_inv W = (deletions_vouched (asked W) \<and> set (pw_open W) \<subseteq> set (asked W))"

lemma deletions_inv_asks: "deletions_inv W \<Longrightarrow> \<not> is_delete r \<Longrightarrow> deletions_inv (asks r W)"
  by (auto simp: deletions_inv_def deletions_vouched_snoc vouched_by_def is_delete_def split: invoice_request.splits)

lemma deletions_inv_turns [simp]: "deletions_inv (turns f W) = deletions_inv W"
  by (simp add: deletions_inv_def)

interpretation invoice_deletions: machine "invoices_step adminPin" deletions_inv "\<lambda>_. True"
proof
  fix W e
  assume inv: "deletions_inv W"
  show "deletions_inv (invoices_step adminPin W e)"
  proof (cases e)
    case (Invoices_answered k a)
    show ?thesis
    proof (cases "k < length (pw_open W)")
      case True
      let ?r = "pw_open W ! k" and ?W = "W\<lparr>pw_open := take k (pw_open W) @ drop (Suc k) (pw_open W)\<rparr>"
      have r: "?r \<in> set (asked W)" using True inv by (auto simp: deletions_inv_def)
      have W: "deletions_inv ?W" using inv by (auto simp: deletions_inv_def dest: in_set_takeD in_set_dropD)
      have step: "invoices_step adminPin W e = invoices_answered a ?r ?W"
        using True Invoices_answered by (simp add: invoices_step_def answers_def)
      from invoices_answered_cases [of a ?r ?W] show ?thesis
      proof (elim disjE exE conjE)
        assume "asked (invoices_answered a ?r ?W) = asked ?W" "pw_open (invoices_answered a ?r ?W) = pw_open ?W"
        with W step show ?thesis by (simp add: deletions_inv_def)
      next
        fix t s
        assume v: "?r = Verify_pin t (Some s)"
          and a: "asked (invoices_answered a ?r ?W) = asked ?W @ [Delete_sale (x_id s)]"
            "pw_open (invoices_answered a ?r ?W) = pw_open ?W @ [Delete_sale (x_id s)]"
        have "list_ex (vouches (x_id s)) (asked W)" using r v by (force simp: list_ex_iff vouches_def)
        with W a step show ?thesis by (auto simp: deletions_inv_def deletions_vouched_snoc vouched_by_def)
      qed
    qed (use inv Invoices_answered in \<open>simp add: invoices_step_def answers_def\<close>)
  qed (use inv in \<open>simp_all add: invoices_step_def submit_pin_def performReturn_def invoice_scan_def Let_def
      deletions_inv_asks is_delete_def split: option.split\<close>)
qed

lemma one_delete_per_pin:
  "length (filter is_delete (asked (invoices_step adminPin W e)))
     \<le> length (filter is_delete (asked W)) + of_bool (pin_accepted e)"
proof (cases e)
  case (Invoices_answered k a)
  then show ?thesis
    using invoices_answered_cases [of a "pw_open W ! k" "W\<lparr>pw_open := take k (pw_open W) @ drop (Suc k) (pw_open W)\<rparr>"]
    by (auto simp: invoices_step_def answers_def is_delete_def pin_accepted_def)
qed (simp_all add: invoices_step_def submit_pin_def performReturn_def invoice_scan_def Let_def is_delete_def pin_accepted_def
      split: option.split)

interpretation pin_payment: metered_machine "invoices_step adminPin" "\<lambda>W. length (filter is_delete (asked W))" pin_accepted
  by unfold_locales (rule one_delete_per_pin)

text \<open>C23. In every run of the invoices page each deletion sent comes after a check of the PIN that was asked for
  with that invoice marked, and there are at most as many deletions as PINs the server accepted.\<close>

theorem deletions_need_pin:
  "deletions_vouched (asked (run (invoices_step adminPin) (fresh_page invoices_start) es))
   \<and> length (filter is_delete (asked (run (invoices_step adminPin) (fresh_page invoices_start) es)))
       \<le> length (filter pin_accepted es)"
proof -
  have "deletions_inv (run (invoices_step adminPin) (fresh_page invoices_start) es)"
    by (rule invoice_deletions.run_inv) (simp_all add: deletions_inv_def deletions_vouched_def)
  with pin_payment.run_cost [of adminPin "fresh_page invoices_start" es] show ?thesis by (simp add: deletions_inv_def)
qed

text \<open>Without an administrator's PIN the page marks an invoice for deletion and never asks to confirm it:
  no invoice can be deleted.\<close>

definition no_pin_window :: "invoices_world \<Rightarrow> bool" where
  "no_pin_window W = (\<not> iv_showPin (pw_page W)
     \<and> list_all (\<lambda>r. case r of Verify_pin t s \<Rightarrow> False | Delete_sale k \<Rightarrow> False | _ \<Rightarrow> True) (asked W @ pw_open W))"

lemma no_pin_input: "\<not> iv_showPin p \<Longrightarrow> \<not> iv_showPin (on_invoices_input [] i p)"
  by (cases i) (simp_all add: on_invoices_input_def invoice_initDelete_def split: option.split)

lemma no_pin_answered: "no_pin_window W \<Longrightarrow> (case r of Verify_pin t s \<Rightarrow> False | Delete_sale k \<Rightarrow> False | _ \<Rightarrow> True)
    \<Longrightarrow> no_pin_window (invoices_answered a r W)"
  by (cases r; cases a)
    (auto simp: no_pin_window_def invoices_answered_def sale_returned_def invoice_fetched_def split: sum.split option.split)

interpretation pinless: machine "invoices_step []" no_pin_window "\<lambda>_. True"
proof
  fix W e
  assume inv: "no_pin_window W"
  show "no_pin_window (invoices_step [] W e)"
  proof (cases e)
    case (Invoices_answered k a)
    have "no_pin_window (W\<lparr>pw_open := take k (pw_open W) @ drop (Suc k) (pw_open W)\<rparr>)"
      using inv by (auto simp: no_pin_window_def list_all_iff dest: in_set_takeD in_set_dropD)
    moreover have "k < length (pw_open W) \<Longrightarrow> (case pw_open W ! k of Verify_pin t s \<Rightarrow> False | Delete_sale k \<Rightarrow> False | _ \<Rightarrow> True)"
      using inv by (simp add: no_pin_window_def list_all_iff)
    ultimately show ?thesis using inv Invoices_answered no_pin_answered by (simp add: invoices_step_def answers_def)
  qed (use inv in \<open>auto simp: invoices_step_def no_pin_window_def no_pin_input performReturn_def invoice_scan_def
      split: option.split\<close>)
qed

lemma no_pin_no_deletion:
  "\<not> list_ex is_delete (asked (run (invoices_step []) (fresh_page invoices_start) es))"
proof -
  have "no_pin_window (run (invoices_step []) (fresh_page invoices_start) es)"
    by (rule pinless.run_inv) (simp_all add: no_pin_window_def invoices_start_def)
  then show ?thesis by (auto simp: no_pin_window_def list_all_iff list_ex_iff is_delete_def split: invoice_request.splits)
qed

text \<open>Escape closes the window while the PIN is being checked. The deletion is not called off: when the server
  accepts the PIN the invoice is deleted although the page has none marked any more.\<close>

lemma cancelled_deletion_sent:
  assumes "adminPin \<noteq> []"
  shows "asked (run (invoices_step adminPin) (fresh_page invoices_start)
      [Invoices_input (Show_invoice s), Invoices_input Init_delete, Invoices_input (Pin_text [49, 50, 51, 52]), Submit_pin,
       Invoices_input Escape_pin, Invoices_answered 0 (Pin_answer (Inl True))])
    = [Verify_pin [49, 50, 51, 52] (Some s), Delete_sale (x_id s)]"
  using assms
  by (simp add: invoices_step_def on_invoices_input_def invoice_initDelete_def open_pin_def invoices_start_def
      pin_typed_def is_digit_def submit_pin_def Let_def close_pin_def answers_def invoices_answered_def pin_verified_def
      invoice_performDelete_def fresh_page_def asks_def turns_def asked_def)

text \<open>A change of the period keeps the page number, unlike the other filters.\<close>

lemma period_keeps_page:
  "iv_page (on_invoices_input adminPin (Choose_invoice_date v) p) = iv_page p
   \<and> iv_page (on_invoices_input adminPin (Choose_invoice_status v) p) = 0"
  by (simp add: on_invoices_input_def)

end
