(* ===== verification/Tools.thy ===== *)
theory Tools
  imports Money Machines "HOL-Library.Product_Lexorder"
begin

text \<open>
  Three small tools: the number pad of the point of sale (\<open>features/pos/components/Numpad.tsx\<close>), the profit
  calculator and the quick notes (\<open>components/tools\<close>).
\<close>

section \<open>The number pad\<close>

datatype numpad_mode = Pad_payment | Pad_quantity

record numpad_props =
  nb_total :: jsnum
  nb_mode :: numpad_mode
  nb_maxQty :: jsnum

text \<open>The text shown, and the value the parent keeps: it takes every value handed to \<open>onChange\<close>.\<close>

record numpad =
  np_display :: jstr
  np_value :: jsnum

definition QUICK_AMOUNTS :: "jsnum list" where
  "QUICK_AMOUNTS = map jint [1000, 5000, 10000, 25000, 50000, 100000]"

definition QUICK_QUANTITIES :: "jsnum list" where
  "QUICK_QUANTITIES = [Fin (1 / 2), Fin 1, Fin 2, Fin 3, Fin 5, Fin 10]"

definition display_of :: "jsnum \<Rightarrow> jstr" where
  "display_of v = (if Fin 0 < v then num_to_string v else [])"

definition numpad_mount :: "jsnum \<Rightarrow> numpad" where
  "numpad_mount v = \<lparr> np_display = display_of v, np_value = v \<rparr>"

text \<open>\<open>setDisplay\<close> and \<open>onChange\<close>; a changed value is followed by the effect that shows it.\<close>

definition pad_set :: "jstr \<Rightarrow> jsnum \<Rightarrow> numpad \<Rightarrow> numpad" where
  "pad_set next v s = \<lparr> np_display = (if v \<noteq> np_value s then display_of v else next), np_value = v \<rparr>"

definition pad_number :: "jstr \<Rightarrow> jsnum" where
  "pad_number t = num_or (parse_float t) (Fin 0)"

definition pad_handleDigit :: "numpad_props \<Rightarrow> jstr \<Rightarrow> numpad \<Rightarrow> numpad" where
  "pad_handleDigit b digit s =
     (let display = np_display s;
          next = (if digit = [46] then (if display = [] \<or> display = [48] then [48, 46] else display @ [46])
                  else if display = [48] then digit else display @ digit);
          nextValue = pad_number next
      in if digit = [46] \<and> str_includes display [46] then s
         else if nb_mode b = Pad_quantity \<and> nb_maxQty b < nextValue then s
         else pad_set next nextValue s)"

definition pad_handleBackspace :: "numpad \<Rightarrow> numpad" where
  "pad_handleBackspace s = pad_set (butlast (np_display s)) (pad_number (butlast (np_display s))) s"

definition pad_handleClear :: "numpad \<Rightarrow> numpad" where
  "pad_handleClear s = pad_set [] (Fin 0) s"

definition handleQuickAmount :: "jsnum \<Rightarrow> numpad \<Rightarrow> numpad" where
  "handleQuickAmount amount s = pad_set (num_to_string amount) amount s"

definition increment_value :: "numpad_props \<Rightarrow> jsnum \<Rightarrow> numpad \<Rightarrow> jsnum" where
  "increment_value b delta s = js_max (Fin 1) (js_min (pad_number (np_display s) + delta) (nb_maxQty b))"

definition is_integer :: "jsnum \<Rightarrow> bool" where
  "is_integer x = (case x of Fin r \<Rightarrow> of_int \<lfloor>r\<rfloor> = r | _ \<Rightarrow> False)"

definition handleIncrement :: "numpad_props \<Rightarrow> jsnum \<Rightarrow> numpad \<Rightarrow> numpad" where
  "handleIncrement b delta s =
     (let next = increment_value b delta s
      in pad_set (if is_integer next then num_to_string next else to_fixed 2 next) next s)"

definition handleExact :: "numpad_props \<Rightarrow> numpad \<Rightarrow> numpad" where
  "handleExact b s = pad_set (num_to_string (nb_total b)) (nb_total b) s"

definition pad_quick :: "numpad_props \<Rightarrow> jsnum \<Rightarrow> numpad \<Rightarrow> numpad" where
  "pad_quick b amount s = (if nb_mode b = Pad_payment then handleQuickAmount amount s
     else handleIncrement b (amount - pad_number (np_display s)) s)"

definition pad_change :: "numpad_props \<Rightarrow> numpad \<Rightarrow> jsnum" where
  "pad_change b s = np_value s - nb_total b"

definition pad_change_text :: "jstr \<Rightarrow> jsnum \<Rightarrow> jstr" where
  "pad_change_text currency c =
     (if Fin 0 \<le> c then replace_first currency [] (formatCurrency c currency)
      else 45 # replace_first currency [] (formatCurrency (js_abs c) currency))"

text \<open>The buttons of the quantity never leave the range, but the half is out of their reach: its button sets one,
  and the minus turns a half into one.\<close>

lemma increment_bounds:
  assumes "Fin 1 \<le> nb_maxQty b" and "pad_number (np_display s) + delta \<noteq> NaN"
  shows "Fin 1 \<le> np_value (handleIncrement b delta s) \<and> np_value (handleIncrement b delta s) \<le> nb_maxQty b"
  using assms
  by (cases "nb_maxQty b"; cases "pad_number (np_display s) + delta")
    (auto simp: handleIncrement_def Let_def pad_set_def increment_value_def js_max_def js_min_def)

lemma half_quantity_unreachable:
  assumes "Fin 1 \<le> nb_maxQty b" and "pad_number (np_display s) + delta \<le> Fin 1"
  shows "np_value (handleIncrement b delta s) = Fin 1"
  using assms
  by (cases "nb_maxQty b"; cases "pad_number (np_display s) + delta")
    (auto simp: handleIncrement_def Let_def pad_set_def increment_value_def js_max_def js_min_def)

lemma digits_within_quantity:
  assumes "nb_mode b = Pad_quantity" and "np_value s \<noteq> np_value (pad_handleDigit b d s)" and "nb_maxQty b \<noteq> NaN"
    and "np_value (pad_handleDigit b d s) \<noteq> NaN"
  shows "np_value (pad_handleDigit b d s) \<le> nb_maxQty b"
  using assms
  by (cases "nb_maxQty b"; cases "np_value (pad_handleDigit b d s)")
    (auto simp: pad_handleDigit_def Let_def pad_set_def split: if_splits)

section \<open>The profit calculator\<close>

record profit_form =
  pf_cost :: jstr
  pf_sellPrice :: jstr
  pf_quantity :: jstr
  pf_targetMargin :: jstr
  pf_findPrice :: bool

definition profit_reset :: "profit_form \<Rightarrow> profit_form" where
  "profit_reset f = f\<lparr> pf_cost := [], pf_sellPrice := [], pf_quantity := js ''1'', pf_targetMargin := [] \<rparr>"

record profit_result =
  pr_unitProfit :: jsnum
  pr_totalProfit :: jsnum
  pr_profitMargin :: jsnum
  pr_markup :: jsnum
  pr_suggestedPrice :: jsnum

definition profit_of :: "jsnum \<Rightarrow> jsnum \<Rightarrow> jsnum \<Rightarrow> jsnum \<Rightarrow> profit_result" where
  "profit_of costNum sellNum qtyNum marginNum =
     (let unitProfit = sellNum - costNum
      in \<lparr> pr_unitProfit = unitProfit, pr_totalProfit = unitProfit * qtyNum,
           pr_profitMargin = (if Fin 0 < sellNum then (unitProfit / sellNum) * Fin 100 else Fin 0),
           pr_markup = (if Fin 0 < costNum then (unitProfit / costNum) * Fin 100 else Fin 0),
           pr_suggestedPrice = (if Fin 0 < costNum \<and> Fin 0 < marginNum
             then costNum / (Fin 1 - marginNum / Fin 100) else Fin 0) \<rparr>)"

definition profit_results :: "profit_form \<Rightarrow> profit_result" where
  "profit_results f = profit_of (num_or (parse_float (pf_cost f)) (Fin 0)) (num_or (parse_float (pf_sellPrice f)) (Fin 0))
     (num_or (parse_float (pf_quantity f)) (Fin 1)) (num_or (parse_float (pf_targetMargin f)) (Fin 0))"

text \<open>The widths of the two bars: the shares of cost and profit, cut at a hundred.\<close>

definition cost_width :: "jsnum \<Rightarrow> jsnum \<Rightarrow> jsnum" where
  "cost_width costNum sellNum = js_min ((costNum / sellNum) * Fin 100) (Fin 100)"

definition profit_width :: "jsnum \<Rightarrow> jsnum \<Rightarrow> jsnum" where
  "profit_width unitProfit sellNum = js_min (js_abs ((unitProfit / sellNum) * Fin 100)) (Fin 100)"

definition shown_price :: "profit_result \<Rightarrow> jstr" where
  "shown_price r = (if Fin 0 < pr_suggestedPrice r
     then (case pr_suggestedPrice r of Fin x \<Rightarrow> format_en 0 x | _ \<Rightarrow> [8734]) else js ''--'')"

text \<open>A target margin of a hundred percent has no price: the division by zero shows the sign of infinity.\<close>

lemma full_margin_infinite: "pr_suggestedPrice (profit_of (Fin 100) s q (Fin 100)) = PInf"
proof -
  have "Fin 100 / Fin 100 = Fin 1" "Fin 1 - Fin 1 = Fin 0"
    using rnd_numeral [of "num.One"] by (simp_all add: minus_jsnum_def rnd_0)
  then show ?thesis by (simp add: profit_of_def Let_def inf_of_def)
qed

section \<open>Quick notes\<close>

record quick_note =
  no_id :: jstr
  no_content :: jstr
  no_color :: jstr
  no_pinned :: bool
  no_isChecklist :: bool
  no_createdAt :: int
  no_updatedAt :: int

text \<open>\<open>nt_stored\<close> is the list under \<open>beidar_quick_notes\<close> in the local storage.\<close>

record notes_state =
  nt_notes :: "quick_note list"
  nt_active :: "jstr option"
  nt_picker :: "jstr option"
  nt_copied :: bool
  nt_stored :: "quick_note list option"

definition notes_mount :: "quick_note list option \<Rightarrow> notes_state" where
  "notes_mount saved = \<lparr> nt_notes = (case saved of None \<Rightarrow> [] | Some ns \<Rightarrow> ns), nt_active = None, nt_picker = None,
     nt_copied = False, nt_stored = saved \<rparr>"

definition saveNotes :: "quick_note list \<Rightarrow> notes_state \<Rightarrow> notes_state" where
  "saveNotes ns s = s\<lparr> nt_notes := ns, nt_stored := Some ns \<rparr>"

definition createNote :: "int \<Rightarrow> notes_state \<Rightarrow> notes_state" where
  "createNote now s =
     (let n = \<lparr> no_id = show_int now, no_content = [], no_color = js ''default'', no_pinned = False,
        no_isChecklist = False, no_createdAt = now, no_updatedAt = now \<rparr>
      in (saveNotes (n # nt_notes s) s)\<lparr> nt_active := Some (no_id n) \<rparr>)"

definition updateNote :: "jstr \<Rightarrow> (quick_note \<Rightarrow> quick_note) \<Rightarrow> int \<Rightarrow> notes_state \<Rightarrow> notes_state" where
  "updateNote k updates now s =
     saveNotes (map (\<lambda>n. if no_id n = k then (updates n)\<lparr> no_updatedAt := now \<rparr> else n) (nt_notes s)) s"

definition deleteNote :: "jstr \<Rightarrow> notes_state \<Rightarrow> notes_state" where
  "deleteNote k s = (let s' = saveNotes (filter (\<lambda>n. no_id n \<noteq> k) (nt_notes s)) s
     in if nt_active s = Some k then s'\<lparr> nt_active := None \<rparr> else s')"

text \<open>\<open>dateText\<close> is the format of a date.\<close>

definition formatDate :: "(int \<Rightarrow> jstr) \<Rightarrow> int \<Rightarrow> int \<Rightarrow> jstr" where
  "formatDate dateText now timestamp =
     (let diff = now - timestamp
      in if diff < 60000 then [1575, 1604, 1570, 1606]
         else if diff < 3600000 then [1605, 1606, 1584, 32] @ show_int (diff div 60000) @ [32, 1583]
         else if diff < 86400000 then [1605, 1606, 1584, 32] @ show_int (diff div 3600000) @ [32, 1587]
         else dateText timestamp)"

definition lines_of :: "jstr \<Rightarrow> jstr list" where
  "lines_of content = split_on 10 content"

definition toggled_line :: "jstr \<Rightarrow> jstr" where
  "toggled_line l =
     (if starts_with l (js ''[x] '') then replace_first (js ''[x] '') (js ''[ ] '') l
      else if starts_with l (js ''[ ] '') then replace_first (js ''[ ] '') (js ''[x] '') l
      else js ''[x] '' @ l)"

definition on_content :: "quick_note \<Rightarrow> (jstr list \<Rightarrow> jstr list) \<Rightarrow> int \<Rightarrow> notes_state \<Rightarrow> notes_state" where
  "on_content n f = updateNote (no_id n) (\<lambda>m. m\<lparr> no_content := join [10] (f (lines_of (no_content n))) \<rparr>)"

definition toggleChecklistItem :: "quick_note \<Rightarrow> nat \<Rightarrow> int \<Rightarrow> notes_state \<Rightarrow> notes_state" where
  "toggleChecklistItem n i = on_content n (\<lambda>ls. ls[i := toggled_line (ls ! i)])"

definition toggleChecklistMode :: "quick_note \<Rightarrow> int \<Rightarrow> notes_state \<Rightarrow> notes_state" where
  "toggleChecklistMode n = updateNote (no_id n) (\<lambda>m. m\<lparr> no_isChecklist := \<not> no_isChecklist n \<rparr>)"

text \<open>The text field of an item, its removal, and a new item.\<close>

definition type_item :: "quick_note \<Rightarrow> nat \<Rightarrow> jstr \<Rightarrow> int \<Rightarrow> notes_state \<Rightarrow> notes_state" where
  "type_item n i t = on_content n (\<lambda>ls. ls[i := (if starts_with (ls ! i) (js ''[x] '') then js ''[x] '' else js ''[ ] '') @ t])"

definition remove_line :: "quick_note \<Rightarrow> nat \<Rightarrow> int \<Rightarrow> notes_state \<Rightarrow> notes_state" where
  "remove_line n i = on_content n (\<lambda>ls. take i ls @ drop (Suc i) ls)"

definition add_item :: "quick_note \<Rightarrow> int \<Rightarrow> notes_state \<Rightarrow> notes_state" where
  "add_item n = updateNote (no_id n) (\<lambda>m. m\<lparr> no_content :=
     no_content n @ (if no_content n \<noteq> [] then [10] else []) @ js ''[ ] '' \<rparr>)"

text \<open>Pinned notes first, then the latest first; a stable sort.\<close>

definition note_key :: "quick_note \<Rightarrow> int \<times> int" where
  "note_key n = (if no_pinned n then 0 else 1, - no_updatedAt n)"

definition sortedNotes :: "quick_note list \<Rightarrow> quick_note list" where
  "sortedNotes ns = sort_key note_key ns"

definition currentNote :: "notes_state \<Rightarrow> quick_note option" where
  "currentNote s = find_first (\<lambda>n. nt_active s = Some (no_id n)) (nt_notes s)"

datatype notes_event =
    Create_note
  | Open_note jstr
  | Back_to_notes
  | Toggle_mode
  | Toggle_item nat
  | Type_item nat jstr
  | Remove_item nat
  | Add_item
  | Type_note jstr
  | Toggle_picker
  | Choose_color jstr
  | Toggle_pin
  | Delete_note
  | Copy_note
  | Note_copied

definition on_current :: "(quick_note \<Rightarrow> notes_state \<Rightarrow> notes_state) \<Rightarrow> notes_state \<Rightarrow> notes_state" where
  "on_current f s = (case currentNote s of None \<Rightarrow> s | Some n \<Rightarrow> f n s)"

definition notes_step :: "int \<Rightarrow> notes_state \<Rightarrow> notes_event \<Rightarrow> notes_state" where
  "notes_step now s e = (case e of
     Create_note \<Rightarrow> createNote now s
   | Open_note k \<Rightarrow> s\<lparr> nt_active := Some k \<rparr>
   | Back_to_notes \<Rightarrow> s\<lparr> nt_active := None \<rparr>
   | Toggle_mode \<Rightarrow> on_current (\<lambda>n. toggleChecklistMode n now) s
   | Toggle_item i \<Rightarrow> on_current (\<lambda>n s. if i < length (lines_of (no_content n)) then toggleChecklistItem n i now s else s) s
   | Type_item i t \<Rightarrow> on_current (\<lambda>n s. if i < length (lines_of (no_content n)) then type_item n i t now s else s) s
   | Remove_item i \<Rightarrow> on_current (\<lambda>n. remove_line n i now) s
   | Add_item \<Rightarrow> on_current (\<lambda>n. add_item n now) s
   | Type_note t \<Rightarrow> on_current (\<lambda>n. updateNote (no_id n) (\<lambda>m. m\<lparr> no_content := t \<rparr>) now) s
   | Toggle_picker \<Rightarrow> on_current (\<lambda>n s. s\<lparr> nt_picker := (if nt_picker s = Some (no_id n) then None else Some (no_id n)) \<rparr>) s
   | Choose_color c \<Rightarrow> on_current (\<lambda>n s. (updateNote (no_id n) (\<lambda>m. m\<lparr> no_color := c \<rparr>) now s)\<lparr> nt_picker := None \<rparr>) s
   | Toggle_pin \<Rightarrow> on_current (\<lambda>n. updateNote (no_id n) (\<lambda>m. m\<lparr> no_pinned := \<not> no_pinned n \<rparr>) now) s
   | Delete_note \<Rightarrow> on_current (\<lambda>n. deleteNote (no_id n)) s
   | Copy_note \<Rightarrow> on_current (\<lambda>n s. s\<lparr> nt_copied := True \<rparr>) s
   | Note_copied \<Rightarrow> s\<lparr> nt_copied := False \<rparr>)"

subsection \<open>The storage mirrors the notes\<close>

definition notes_mirrored :: "notes_state \<Rightarrow> bool" where
  "notes_mirrored s = (case nt_stored s of None \<Rightarrow> nt_notes s = [] | Some ns \<Rightarrow> ns = nt_notes s)"

lemma saved_mirrored [simp]:
  "notes_mirrored (saveNotes ns s)" "notes_mirrored (updateNote k f now s)" "notes_mirrored (s\<lparr>nt_active := a\<rparr>) = notes_mirrored s"
  "notes_mirrored (s\<lparr>nt_picker := q\<rparr>) = notes_mirrored s" "notes_mirrored (s\<lparr>nt_copied := b\<rparr>) = notes_mirrored s"
  by (auto simp: notes_mirrored_def saveNotes_def updateNote_def split: option.splits)

lemmas note_handlers = toggleChecklistMode_def toggleChecklistItem_def type_item_def remove_line_def add_item_def
  on_content_def createNote_def deleteNote_def Let_def

interpretation quick_notes: machine "notes_step now" notes_mirrored "\<lambda>_. True"
  by unfold_locales
    (auto simp: notes_step_def on_current_def note_handlers split: notes_event.split option.split)

text \<open>Clicking an item of a checklist changes that line only: all other lines of the note and all other notes
  stay, and a line with a mark goes back with a second click.\<close>

lemma toggled_no_newline: "10 \<notin> set l \<Longrightarrow> 10 \<notin> set (toggled_line l)"
proof -
  assume l: "10 \<notin> set l"
  have "set (replace_first p r l) \<subseteq> set r \<union> set l" for p r
    by (auto simp: replace_first_def split: option.split dest: in_set_takeD in_set_dropD)
  then have "10 \<notin> set (replace_first p r l)" if "10 \<notin> set r" for p r using l that by blast
  then show ?thesis using l by (simp add: toggled_line_def)
qed

lemma checklist_lines:
  assumes "i < length (lines_of c)"
  shows "lines_of (join [10] ((lines_of c)[i := toggled_line (lines_of c ! i)])) = (lines_of c)[i := toggled_line (lines_of c ! i)]"
proof -
  let ?ls = "(lines_of c)[i := toggled_line (lines_of c ! i)]"
  have no: "10 \<notin> set w" if "w \<in> set (lines_of c)" for w using that split_on_no_sep by (auto simp: lines_of_def)
  have "10 \<notin> set w" if "w \<in> set ?ls" for w
    using that no toggled_no_newline [of "lines_of c ! i"] assms nth_mem [of i "lines_of c"]
    by (auto dest!: set_update_subset_insert [THEN subsetD])
  moreover have "?ls \<noteq> []" by (simp add: lines_of_def)
  ultimately show ?thesis unfolding lines_of_def [of "join _ _"] by (intro split_on_join) auto
qed

lemma toggle_marked_line:
  "toggled_line (js ''[x] '' @ t) = js ''[ ] '' @ t" "toggled_line (js ''[ ] '' @ t) = js ''[x] '' @ t"
  by (simp_all add: toggled_line_def starts_with_def replace_first_def)

text \<open>Clicking item \<open>i\<close> of the checklist shown rewrites that line of that note, marked or unmarked, and nothing
  else: the other lines of the note and the contents of the other notes are as before, a second click undoes the
  first on a line that has a mark, and what is stored is what is shown.\<close>

lemma checklist_click:
  assumes "currentNote s = Some n" and "i < length (lines_of (no_content n))" and "distinct (map no_id (nt_notes s))"
  shows "map no_id (nt_notes (notes_step now s (Toggle_item i))) = map no_id (nt_notes s)
    \<and> map (\<lambda>m. lines_of (no_content m)) (nt_notes (notes_step now s (Toggle_item i)))
      = map (\<lambda>m. if no_id m = no_id n
            then (lines_of (no_content m))[i := toggled_line (lines_of (no_content m) ! i)]
            else lines_of (no_content m)) (nt_notes s)
    \<and> (\<forall>t. toggled_line (toggled_line (js ''[x] '' @ t)) = js ''[x] '' @ t)
    \<and> nt_stored (notes_step now s (Toggle_item i)) = Some (nt_notes (notes_step now s (Toggle_item i)))"
proof -
  have n: "n \<in> set (nt_notes s)" using assms(1) by (auto simp: currentNote_def dest: find_SomeD)
  have same: "m = n" if "m \<in> set (nt_notes s)" "no_id m = no_id n" for m
    using that n assms(3) by (metis inj_on_eq_iff distinct_map)
  have "nt_notes (notes_step now s (Toggle_item i)) = map (\<lambda>m. if no_id m = no_id n
      then m\<lparr> no_content := join [10] ((lines_of (no_content n))[i := toggled_line (lines_of (no_content n) ! i)]),
              no_updatedAt := now \<rparr> else m) (nt_notes s)"
    using assms(1,2) by (simp add: notes_step_def on_current_def toggleChecklistItem_def on_content_def updateNote_def saveNotes_def)
  moreover have "nt_stored (notes_step now s (Toggle_item i)) = Some (nt_notes (notes_step now s (Toggle_item i)))"
    using assms(1,2) by (simp add: notes_step_def on_current_def toggleChecklistItem_def on_content_def updateNote_def saveNotes_def)
  ultimately show ?thesis
    using same checklist_lines [OF assms(2)] by (auto simp: toggle_marked_line simp del: js_Cons)
qed

end
