(* ===== verification/Validation.thy ===== *)
theory Validation
  imports Pages
begin

text \<open>
  What the forms make of the issues a schema finds (\<open>core/schemas\<close>): \<open>validateDiscountInput\<close>,
  \<open>validateSettings\<close> and \<open>validateStaffInput\<close> collect them per field. The schemas are values of the library
  zod: the list of issues of a form, each with its path and its message, is a parameter of the pages.
\<close>

type_synonym issue = "jstr list \<times> jstr"
type_synonym field_errors = "(jstr \<times> jstr) list"

definition add_issue :: "field_errors \<Rightarrow> issue \<Rightarrow> field_errors" where
  "add_issue acc i = (case fst i of k # _ \<Rightarrow> if k \<noteq> [] then obj_put k (snd i) acc else acc | [] \<Rightarrow> acc)"

definition fieldErrors :: "issue list \<Rightarrow> field_errors" where
  "fieldErrors issues = foldl add_issue [] issues"

text \<open>The message of the first key, as the forms tell it.\<close>

definition first_error_text :: "jstr \<Rightarrow> field_errors \<Rightarrow> jstr" where
  "first_error_text d errs = (case errs of [] \<Rightarrow> d | (k,
    m) # _ \<Rightarrow> if m \<noteq> [] then [1582, 1591, 1571, 58, 32] @ m else d)"

text \<open>The schema of a PIN: \<open>/^\d{4}$/\<close>.\<close>

definition pin_ok :: "jstr \<Rightarrow> bool" where
  "pin_ok pin = (length pin = 4 \<and> list_all is_digit pin)"

section \<open>Which message a field shows\<close>

lemma map_of_add_issue:
  "map_of (add_issue acc i) = (if fst i \<noteq> [] \<and> hd (fst i) \<noteq> [] then (map_of acc)(hd (fst i) \<mapsto> snd i) else map_of acc)"
  by (cases "fst i") (auto simp: add_issue_def map_of_obj_put)

text \<open>A field shows the message of its last issue.\<close>

lemma fieldErrors_snoc: "fieldErrors (is @ [i]) = add_issue (fieldErrors is) i"
  by (simp add: fieldErrors_def)

lemma last_issue_shown:
  assumes "fst i = k # r" and "k \<noteq> []" and "\<forall>j\<in>set js'. fst j = [] \<or> hd (fst j) \<noteq> k"
  shows "map_of (fieldErrors (is @ i # js')) k = Some (snd i)"
  using assms(3)
proof (induction js' rule: rev_induct)
  case Nil
  then show ?case using assms(1,2) by (simp add: fieldErrors_snoc map_of_add_issue)
next
  case (snoc j js')
  have "is @ i # js' @ [j] = (is @ i # js') @ [j]" by simp
  with snoc show ?case by (simp only: fieldErrors_snoc map_of_add_issue) auto
qed

section \<open>Forms that are checked before they are sent\<close>

text \<open>A handler that asks for the request of a page it finds valid, and otherwise only marks the page.\<close>

locale validated_form =
  fixes submit :: "('p, 'r) page_world \<Rightarrow> ('p, 'r) page_world"
    and valid :: "'p \<Rightarrow> bool"
    and req :: "'p \<Rightarrow> 'r"
  assumes submit_valid: "valid (pw_page W) \<Longrightarrow> asked (submit W) = asked W @ [req (pw_page W)]"
    and submit_refused: "\<not> valid (pw_page W) \<Longrightarrow> asked (submit W) = asked W \<and> pw_open (submit W) = pw_open W"
begin

lemma sent_keeps:
  assumes "list_all P (asked W)" and "valid (pw_page W) \<Longrightarrow> P (req (pw_page W))"
  shows "list_all P (asked (submit W))"
  using assms submit_valid submit_refused by (cases "valid (pw_page W)") auto

lemma at_most_one: "length (asked (submit W)) \<le> Suc (length (asked W))"
  using submit_valid submit_refused by (cases "valid (pw_page W)") auto

end

end
