(* ===== verification/Discounts.thy ===== *)
theory Discounts
  imports Validation
begin

text \<open>
  The discounts window (\<open>features/settings/components/DiscountManager.tsx\<close>) as steps of a page. \<open>issues\<close> are
  the issues that the discount schema finds in a form, \<open>upper\<close> is \<open>toUpperCase\<close>.
\<close>

text \<open>\<open>Partial<Discount>\<close>, of the fields the form shows.\<close>

record discount_form =
  df_id :: "jstr option"
  df_name :: jstr
  df_type :: jstr
  df_value :: jsnum
  df_minPurchase :: jsnum
  df_maxDiscount :: jsnum
  df_code :: jstr
  df_startDate :: jstr
  df_endDate :: jstr
  df_usageLimit :: jsnum
  df_active :: bool

definition emptyDiscount :: discount_form where
  "emptyDiscount = \<lparr> df_id = None, df_name = [], df_type = js ''percentage'', df_value = Fin 10, df_minPurchase = Fin 0,
     df_maxDiscount = Fin 0, df_code = [], df_startDate = [], df_endDate = [], df_usageLimit = Fin 0, df_active = True \<rparr>"

record discounts_page =
  dg_showForm :: bool
  dg_editing :: "discount_form option"
  dg_form :: discount_form
  dg_errors :: field_errors

definition discounts_start :: discounts_page where
  "discounts_start = \<lparr> dg_showForm = False, dg_editing = None, dg_form = emptyDiscount, dg_errors = [] \<rparr>"

datatype discount_request =
    Update_discount discount_form
  | Save_discount discount_form
  | Delete_discount jstr
  | Toggle_discount jstr

type_synonym discounts_world = "(discounts_page, discount_request) page_world"

definition editing_id :: "discounts_page \<Rightarrow> jstr option" where
  "editing_id p = (case dg_editing p of None \<Rightarrow> None
     | Some d \<Rightarrow> (case df_id d of None \<Rightarrow> None | Some i \<Rightarrow> if i = [] then None else Some i))"

definition discount_request_of :: "discounts_page \<Rightarrow> discount_request" where
  "discount_request_of p = (case editing_id p of
     Some i \<Rightarrow> Update_discount ((dg_form p)\<lparr> df_id := Some i \<rparr>) | None \<Rightarrow> Save_discount (dg_form p))"

definition discount_handleSave :: "(discount_form \<Rightarrow> issue list) \<Rightarrow> discounts_world \<Rightarrow> discounts_world" where
  "discount_handleSave issues W =
     (let p = pw_page W; errs = fieldErrors (issues (dg_form p))
      in if issues (dg_form p) \<noteq> []
         then tells [Says (first_error_text [1610, 1585, 1580, 1609, 32, 1575, 1604, 1578, 1581,
           1602, 1602, 32, 1605, 1606, 32, 1575, 1604,
  1605, 1583, 1582, 1604, 1575,
    1578] errs) T_error] (turns (\<lambda>p. p\<lparr>dg_errors := errs\<rparr>) W)
         else asks (discount_request_of p) W)"

definition discounts_refreshed :: "discount_request page_call list" where
  "discounts_refreshed = [Invalidates invalidateDiscounts, Invalidates invalidateAllData, Refetches]"

definition discount_saved :: "bool \<Rightarrow> unit + thrown \<Rightarrow> discounts_world \<Rightarrow> discounts_world" where
  "discount_saved isUpdate a W = (case a of
     Inl u \<Rightarrow> tells discounts_refreshed
       (turns (\<lambda>p. p\<lparr> dg_showForm := False, dg_editing := None, dg_form := emptyDiscount, dg_errors := [] \<rparr>)
         (tells [Says (if isUpdate then [1578, 1605, 32, 1578, 1581, 1583, 1610, 1579, 32, 1575,
           1604, 1582, 1589, 1605, 32, 1576, 1606,
  1580, 1575, 1581] else [1578, 1605, 32, 1573, 1606, 1588, 1575, 1569, 32, 1575, 1604, 1582,
    1589, 1605, 32, 1576, 1606,
  1580, 1575, 1581]) T_success] W))
   | Inr e \<Rightarrow> tells [Says [1601, 1588, 1604, 32, 1601, 1610, 32, 1581, 1601, 1592, 32,
     1575, 1604, 1582, 1589, 1605] T_error] W)"

definition discount_deleted :: "unit + thrown \<Rightarrow> discounts_world \<Rightarrow> discounts_world" where
  "discount_deleted a W = (case a of
     Inl u \<Rightarrow> tells (Says [1578, 1605, 32, 1581, 1584, 1601, 32, 1575, 1604, 1582,
       1589, 1605] T_success # discounts_refreshed) W
   | Inr e \<Rightarrow> tells [Says [1601, 1588, 1604, 32, 1601, 1610, 32, 1575, 1604, 1581,
     1584, 1601] T_error] W)"

definition discount_toggled :: "unit + thrown \<Rightarrow> discounts_world \<Rightarrow> discounts_world" where
  "discount_toggled a W = (case a of
     Inl u \<Rightarrow> tells discounts_refreshed W
   | Inr e \<Rightarrow> tells [Says [1601, 1588, 1604, 32, 1601, 1610, 32, 1578, 1594, 1610,
     1610, 1585, 32, 1575, 1604, 1581, 1575,
  1604, 1577] T_error] W)"

definition openEdit :: "discount_form \<Rightarrow> discounts_page \<Rightarrow> discounts_page" where
  "openEdit d p = p\<lparr> dg_editing := Some d, dg_form := d, dg_showForm := True \<rparr>"

definition openNew :: "discounts_page \<Rightarrow> discounts_page" where
  "openNew p = p\<lparr> dg_editing := None, dg_form := emptyDiscount, dg_showForm := True \<rparr>"

text \<open>\<open>if (errors[k]) setErrors({...errors, [k]: ''})\<close>.\<close>

definition clear_error :: "jstr \<Rightarrow> discounts_page \<Rightarrow> discounts_page" where
  "clear_error k p = (if map_of (dg_errors p) k \<in> {None, Some []} then p else p\<lparr> dg_errors := obj_put k [] (dg_errors p) \<rparr>)"

datatype discounts_input =
    Discount_type jstr
  | Discount_name jstr
  | Discount_code jstr
  | Discount_value jstr
  | Discount_min jstr
  | Discount_max jstr
  | Discount_start jstr
  | Discount_end jstr
  | Discount_limit jstr
  | Close_discount_form
  | Edit_discount discount_form
  | New_discount

definition on_discounts_input :: "(jstr \<Rightarrow> jstr) \<Rightarrow> discounts_input \<Rightarrow> discounts_page \<Rightarrow> discounts_page" where
  "on_discounts_input upper e p =
     (let typed = (\<lambda>f. p\<lparr> dg_form := f (dg_form p) \<rparr>)
      in case e of
          Discount_type t \<Rightarrow> typed (\<lambda>d. d\<lparr> df_type := t \<rparr>)
        | Discount_name t \<Rightarrow> clear_error (js ''name'') (typed (\<lambda>d. d\<lparr> df_name := t \<rparr>))
        | Discount_code t \<Rightarrow> typed (\<lambda>d. d\<lparr> df_code := upper t \<rparr>)
        | Discount_value t \<Rightarrow> clear_error (js ''value'') (typed (\<lambda>d. d\<lparr> df_value := js_number t \<rparr>))
        | Discount_min t \<Rightarrow> typed (\<lambda>d. d\<lparr> df_minPurchase := js_number t \<rparr>)
        | Discount_max t \<Rightarrow> typed (\<lambda>d. d\<lparr> df_maxDiscount := js_number t \<rparr>)
        | Discount_start t \<Rightarrow> typed (\<lambda>d. d\<lparr> df_startDate := t \<rparr>)
        | Discount_end t \<Rightarrow> typed (\<lambda>d. d\<lparr> df_endDate := t \<rparr>)
        | Discount_limit t \<Rightarrow> typed (\<lambda>d. d\<lparr> df_usageLimit := js_number t \<rparr>)
        | Close_discount_form \<Rightarrow> p\<lparr> dg_showForm := False \<rparr>
        | Edit_discount d \<Rightarrow> openEdit d p
        | New_discount \<Rightarrow> openNew p)"

datatype discounts_event =
    Discounts_input discounts_input
  | Save_discount_click
  | Delete_discount_click jstr
  | Toggle_discount_click jstr
  | Discounts_answered nat "unit + thrown"

definition discounts_answered :: "unit + thrown \<Rightarrow> discount_request \<Rightarrow> discounts_world \<Rightarrow> discounts_world" where
  "discounts_answered a r = (case r of
     Update_discount d \<Rightarrow> discount_saved True a
   | Save_discount d \<Rightarrow> discount_saved False a
   | Delete_discount i \<Rightarrow> discount_deleted a
   | Toggle_discount i \<Rightarrow> discount_toggled a)"

definition discounts_step ::
  "(discount_form \<Rightarrow> issue list) \<Rightarrow> (jstr \<Rightarrow> jstr) \<Rightarrow> discounts_world \<Rightarrow> discounts_event \<Rightarrow> discounts_world" where
  "discounts_step issues upper W e = (case e of
     Discounts_input i \<Rightarrow> turns (on_discounts_input upper i) W
   | Save_discount_click \<Rightarrow> (if dg_showForm (pw_page W) then discount_handleSave issues W else W)
   | Delete_discount_click i \<Rightarrow> asks (Delete_discount i) W
   | Toggle_discount_click i \<Rightarrow> asks (Toggle_discount i) W
   | Discounts_answered k a \<Rightarrow> answers k (discounts_answered a) W)"

section \<open>Only valid discounts are sent\<close>

text \<open>The identifier is put in after the check: the schema must not look at it.\<close>

definition valid_discount_request :: "(discount_form \<Rightarrow> issue list) \<Rightarrow> discount_request \<Rightarrow> bool" where
  "valid_discount_request issues r = (case r of
     Save_discount d \<Rightarrow> issues d = []
   | Update_discount d \<Rightarrow> df_id d \<notin> {None, Some []} \<and> (\<exists>i. issues (d\<lparr> df_id := i \<rparr>) = [])
   | _ \<Rightarrow> True)"

interpretation discount_form_sent: validated_form "discount_handleSave issues" "\<lambda>p. issues (dg_form p) = []" discount_request_of
  by unfold_locales (simp_all add: discount_handleSave_def Let_def)

lemma discount_request_valid:
  assumes "issues (dg_form p) = []"
  shows "valid_discount_request issues (discount_request_of p)"
proof (cases "editing_id p")
  case None
  then show ?thesis using assms by (simp add: discount_request_of_def valid_discount_request_def)
next
  case (Some i)
  have "(dg_form p)\<lparr> df_id := Some i, df_id := df_id (dg_form p) \<rparr> = dg_form p" by simp
  then have "\<exists>j. issues ((dg_form p)\<lparr> df_id := Some i, df_id := j \<rparr>) = []" using assms by metis
  moreover have "i \<noteq> []" using Some by (auto simp: editing_id_def split: option.splits if_splits)
  ultimately show ?thesis using Some by (simp add: discount_request_of_def valid_discount_request_def)
qed

definition discounts_inv :: "(discount_form \<Rightarrow> issue list) \<Rightarrow> discounts_world \<Rightarrow> bool" where
  "discounts_inv issues W = list_all (valid_discount_request issues) (asked W)"

lemma discounts_answered_asked: "asked (discounts_answered a r W) = asked W"
  by (cases a; cases r) (simp_all add: discounts_answered_def discount_saved_def discount_deleted_def discount_toggled_def
      discounts_refreshed_def)

interpretation discounts: machine "discounts_step issues upper" "discounts_inv issues" "\<lambda>_. True"
proof
  fix W e
  assume inv: "discounts_inv issues W"
  show "discounts_inv issues (discounts_step issues upper W e)"
  proof (cases e)
    case Save_discount_click
    then show ?thesis using inv
      by (auto simp: discounts_step_def discounts_inv_def intro: discount_form_sent.sent_keeps discount_request_valid)
  qed (use inv in \<open>simp_all add: discounts_step_def discounts_inv_def answers_def discounts_answered_asked
      valid_discount_request_def\<close>)
qed

text \<open>In every run only discounts without issues are sent, and an update always has an identifier.\<close>

lemma discounts_sent_valid:
  "list_all (valid_discount_request issues)
     (asked (run (discounts_step issues upper) (fresh_page discounts_start) es))"
proof -
  have "discounts_inv issues (run (discounts_step issues upper) (fresh_page discounts_start) es)"
    by (rule discounts.run_inv) (simp_all add: discounts_inv_def)
  then show ?thesis by (simp add: discounts_inv_def)
qed

text \<open>A form opened after a refused one still shows the errors of the one before.\<close>

lemma errors_carried_over:
  assumes "issues (dg_form (pw_page W)) \<noteq> []" and "dg_showForm (pw_page W)"
  shows "dg_errors (pw_page (run (discounts_step issues upper) W
      [Save_discount_click, Discounts_input Close_discount_form, Discounts_input New_discount]))
    = fieldErrors (issues (dg_form (pw_page W)))
   \<and> dg_form (pw_page (run (discounts_step issues upper) W
      [Save_discount_click, Discounts_input Close_discount_form, Discounts_input New_discount])) = emptyDiscount"
  using assms by (simp add: discounts_step_def discount_handleSave_def Let_def on_discounts_input_def openNew_def)

end
