(* ===== verification/Staff.thy ===== *)
theory Staff
  imports Validation ForceDelete
begin

text \<open>
  The staff window (\<open>components/StaffManager.tsx\<close>) as steps of a page; the deletion of a member is in theory
  \<open>ForceDelete\<close>. \<open>issues\<close> are the issues that the staff schema finds in a form.
\<close>

record staff_form =
  sm_id :: jstr
  sm_name :: jstr
  sm_username :: jstr
  sm_role :: jstr
  sm_phone :: jstr
  sm_email :: jstr
  sm_active :: bool
  sm_permissions :: "jstr list"
  sm_mustChangePin :: bool
  sm_createdAt :: int

definition emptyStaff :: staff_form where
  "emptyStaff = \<lparr> sm_id = [], sm_name = [], sm_username = [], sm_role = js ''cashier'', sm_phone = [], sm_email = [],
     sm_active = True, sm_permissions = [], sm_mustChangePin = False, sm_createdAt = 0 \<rparr>"

definition ROLES :: "(jstr \<times> jstr) list" where
  "ROLES = [(js ''admin'', [1605, 1583, 1610, 1585]), (js ''manager'', [1605, 1588, 1585, 1601]),
    (js ''cashier'', [1603, 1575, 1588, 1610, 1585]), (js ''viewer'', [1605, 1588, 1575, 1607,
    1583])]"

definition getRoleInfo :: "jstr \<Rightarrow> jstr \<times> jstr" where
  "getRoleInfo role = (case find_first (\<lambda>r. fst r = role) ROLES of Some r \<Rightarrow> r | None \<Rightarrow> ROLES ! 2)"

record staff_page =
  sg_list :: "staff_form list"
  sg_loading :: bool
  sg_showForm :: bool
  sg_editing :: "staff_form option"
  sg_form :: staff_form
  sg_pin :: jstr
  sg_errors :: field_errors
  sg_hints :: field_errors
  sg_general :: "(jstr \<times> jstr) option"

definition staff_start :: staff_page where
  "staff_start = \<lparr> sg_list = [], sg_loading = False, sg_showForm = False, sg_editing = None, sg_form = emptyStaff,
     sg_pin = [], sg_errors = [], sg_hints = [], sg_general = None \<rparr>"

text \<open>A request carries the form and the PIN of the moment it was sent.\<close>

datatype staff_request =
    List_staff
  | Update_staff staff_form jstr
  | Update_pin jstr jstr
  | Create_staff staff_form jstr
  | Toggle_staff jstr

type_synonym staff_world = "(staff_page, staff_request) page_world"

definition loadStaff :: "staff_world \<Rightarrow> staff_world" where
  "loadStaff W = asks List_staff (turns (\<lambda>p. p\<lparr>sg_loading := True\<rparr>) W)"

definition staff_listed :: "staff_form list option + thrown \<Rightarrow> staff_world \<Rightarrow> staff_world" where
  "staff_listed a W = turns (\<lambda>p. p\<lparr>sg_loading := False\<rparr>) (case a of
     Inl l \<Rightarrow> turns (\<lambda>p. p\<lparr> sg_list := opt_default [] l \<rparr>) W
   | Inr e \<Rightarrow> tells [Says [1601, 1588, 1604, 32, 1578, 1581, 1605, 1610, 1604, 32,
     1602, 1575, 1574, 1605, 1577, 32, 1575,
  1604, 1605, 1608, 1592, 1601, 1610, 1606] T_error] W)"

definition pin_errors :: "bool \<Rightarrow> jstr \<Rightarrow> field_errors \<times> field_errors" where
  "pin_errors isNew pin =
     (if isNew \<and> pin = [] then ([(js ''pin'', [1585, 1605, 1586, 32, 80, 73, 78, 32, 1605,
       1591, 1604, 1608, 1576, 32, 1604, 1604, 1605, 1608,
  1592, 1601, 32, 1575, 1604, 1580, 1583, 1610, 1583])], [(js ''pin'', [1571, 1583, 1582, 1604,
    32, 52, 32, 1571, 1585, 1602, 1575, 1605, 32, 1604, 1604, 1583, 1582,
  1608, 1604])])
      else if pin \<noteq> [] \<and> \<not> pin_ok pin then ([(js ''pin'', [1585, 1605, 1586, 32,
        80, 73, 78, 32, 1610, 1580, 1576, 32, 1571, 1606, 32, 1610, 1578, 1603,
  1608, 1606, 32, 1605, 1606, 32, 52, 32, 1571, 1585, 1602, 1575, 1605])],
        [(js ''pin'', [1571, 1583, 1582, 1604, 32, 52, 32, 1571, 1585, 1602, 1575, 1605, 32,
          1601, 1602, 1591, 1548,
  32, 1578, 1580, 1606, 1576, 32, 1575, 1604, 1571, 1585, 1602, 1575, 1605, 32, 1575, 1604, 1605,
  1578, 1587, 1604, 1587, 1604, 1577, 32, 40, 49, 50, 51, 52, 41, 32, 1571, 1608, 32, 1575, 1604,
  1605, 1578, 1603, 1585, 1585, 1577, 32, 40, 48, 48, 48, 48, 41])])
      else ([], []))"

definition form_errors :: "(staff_form \<Rightarrow> issue list) \<Rightarrow> staff_page \<Rightarrow> field_errors" where
  "form_errors issues p =
     foldl (\<lambda>m kv. obj_put (fst kv) (snd kv) m) (fieldErrors (issues (sg_form p)))
       (fst (pin_errors (sg_editing p = None) (sg_pin p)))"

definition clear_staff_errors :: "staff_page \<Rightarrow> staff_page" where
  "clear_staff_errors p = p\<lparr> sg_errors := [], sg_hints := [], sg_general := None \<rparr>"

definition staff_request_of :: "staff_page \<Rightarrow> staff_request" where
  "staff_request_of p = (if sg_editing p \<noteq> None then Update_staff (sg_form p) (sg_pin p) else Create_staff (sg_form p) (sg_pin p))"

definition staff_handleSubmit :: "(staff_form \<Rightarrow> issue list) \<Rightarrow> staff_world \<Rightarrow> staff_world" where
  "staff_handleSubmit issues W0 =
     (let W = turns clear_staff_errors W0; p = pw_page W; errs = form_errors issues p
      in if errs \<noteq> []
         then turns (\<lambda>p. p\<lparr> sg_general := Some ([1610, 1585, 1580, 1609, 32, 1578,
           1589, 1581, 1610, 1581, 32, 1575, 1604, 1571, 1582, 1591,
  1575, 1569, 32, 1601, 1610, 32, 1575, 1604, 1606, 1605, 1608, 1584, 1580], [1578, 1581, 1602,
    1602, 32, 1605, 1606, 32, 1575, 1604, 1581, 1602, 1608, 1604, 32, 1575, 1604,
  1605, 1605, 1610, 1586, 1577, 32, 1576, 1575, 1604, 1604, 1608, 1606, 32, 1575, 1604, 1571,
  1581, 1605, 1585, 32, 1608, 1589, 1581, 1581, 32, 1575, 1604, 1576, 1610, 1575, 1606, 1575,
  1578, 32, 1575, 1604, 1605, 1583, 1582, 1604, 1577]) \<rparr>)
           (tells [Says (first_error_text [1610, 1585, 1580, 1609, 32, 1578, 1589, 1581, 1610,
             1581, 32, 1575, 1604, 1571, 1582, 1591,
  1575, 1569, 32, 1601, 1610, 32, 1575, 1604, 1606, 1605, 1608, 1584, 1580] errs) T_error]
             (turns (\<lambda>p. p\<lparr> sg_errors := errs, sg_hints := snd (pin_errors (sg_editing p = None) (sg_pin p)) \<rparr>) W))
         else asks (staff_request_of p) W)"

definition resetForm :: "staff_page \<Rightarrow> staff_page" where
  "resetForm p = p\<lparr> sg_form := emptyStaff, sg_pin := [], sg_editing := None, sg_showForm := False, sg_errors := [],
     sg_hints := [], sg_general := None \<rparr>"

definition staff_saved :: "staff_world \<Rightarrow> staff_world" where
  "staff_saved W = loadStaff (tells [Invalidates invalidateStaff, Invalidates invalidateAllData] (turns resetForm W))"

definition error_field :: "staff_error \<Rightarrow> jstr" where
  "error_field e = (if json_truthy (se_field e) then js_string (se_field e)
     else case getErrorField (js_string (se_code e)) of Some f \<Rightarrow> f | None \<Rightarrow> [])"

definition staff_failed :: "thrown \<Rightarrow> staff_page \<Rightarrow> staff_page" where
  "staff_failed t p =
     (let e = parseStaffError t; f = error_field e; m = js_string (se_message e);
          h = (if json_truthy (se_hint e) then js_string (se_hint e) else []);
          q = (if f \<noteq> [] then p\<lparr> sg_errors := obj_put f m (sg_errors p), sg_hints := obj_put f h (sg_hints p) \<rparr> else p)
      in q\<lparr> sg_general := Some (m, if h \<noteq> [] then h else [1581, 1575, 1608, 1604,
        32, 1605, 1585, 1577, 32, 1571, 1582, 1585, 1609]) \<rparr>)"

definition staff_updated :: "staff_form \<Rightarrow> jstr \<Rightarrow> unit + thrown \<Rightarrow> staff_world \<Rightarrow> staff_world" where
  "staff_updated f pin a W = (case a of
     Inr t \<Rightarrow> turns (staff_failed t) W
   | Inl u \<Rightarrow> if pin \<noteq> [] \<and> length pin = 4 then asks (Update_pin (sm_id f) pin) W
       else staff_saved (tells [Says [1578, 1605, 32, 1578, 1581, 1583, 1610, 1579, 32, 1575,
         1604, 1605, 1608, 1592, 1601, 32, 1576,
  1606, 1580, 1575, 1581] T_success] W))"

definition pin_updated :: "unit + thrown \<Rightarrow> staff_world \<Rightarrow> staff_world" where
  "pin_updated a W = (case a of
     Inr t \<Rightarrow> turns (\<lambda>p. p\<lparr> sg_general := Some (message_or [1601, 1588,
       1604, 32, 1578, 1581, 1583, 1610, 1579, 32, 1585, 1605, 1586, 32, 80, 73, 78] t,
       [1578, 1571, 1603, 1583, 32, 1605, 1606, 32, 1571, 1606, 32, 1575, 1604, 1585, 1605, 1586,
         32,
  1610, 1578, 1603, 1608, 1606, 32, 1605, 1606, 32, 52, 32, 1571, 1585, 1602, 1575, 1605, 32,
  1608, 1604, 1610, 1587, 32, 1590, 1593, 1610, 1601, 1575, 1611]) \<rparr>) W
   | Inl u \<Rightarrow> staff_saved (tells [Says [1578, 1605, 32, 1578, 1581, 1583, 1610, 1579,
     32, 1575, 1604, 1605, 1608, 1592, 1601, 32, 1576,
  1606, 1580, 1575, 1581] T_success] W))"

definition staff_created :: "unit + thrown \<Rightarrow> staff_world \<Rightarrow> staff_world" where
  "staff_created a W = (case a of
     Inr t \<Rightarrow> turns (staff_failed t) W
   | Inl u \<Rightarrow> staff_saved (tells [Says [1578, 1605, 32, 1573, 1590, 1575, 1601, 1577,
     32, 1575, 1604, 1605, 1608, 1592, 1601, 32, 1576,
  1606, 1580, 1575, 1581] T_success] W))"

definition staff_toggled :: "unit + thrown \<Rightarrow> staff_world \<Rightarrow> staff_world" where
  "staff_toggled a W = (case a of
     Inr t \<Rightarrow> tells [Says [1601, 1588, 1604, 32, 1578, 1594, 1610, 1610, 1585, 32,
       1575, 1604, 1581, 1575, 1604, 1577] T_error] W
   | Inl u \<Rightarrow> loadStaff (tells [Invalidates invalidateStaff, Invalidates invalidateAllData] W))"

definition startEdit :: "staff_form \<Rightarrow> staff_page \<Rightarrow> staff_page" where
  "startEdit s p = p\<lparr> sg_editing := Some s, sg_form := s, sg_pin := [], sg_errors := [], sg_hints := [],
     sg_general := None, sg_showForm := True \<rparr>"

text \<open>The button for a new member clears neither the PIN nor the errors.\<close>

definition startNew :: "staff_page \<Rightarrow> staff_page" where
  "startNew p = p\<lparr> sg_showForm := True, sg_editing := None, sg_form := emptyStaff \<rparr>"

definition type_pin :: "jstr \<Rightarrow> staff_page \<Rightarrow> staff_page" where
  "type_pin t p = p\<lparr> sg_pin := take 4 (filter is_digit t) \<rparr>"

datatype staff_input =
    New_staff
  | Edit_staff staff_form
  | Type_staff staff_form
  | Type_pin jstr
  | Cancel_staff

text \<open>Six fields of \<open>formData\<close> can be typed; the identifier, the permissions, the flag of the PIN and the
  date of creation stay.\<close>

definition on_staff_input :: "staff_input \<Rightarrow> staff_page \<Rightarrow> staff_page" where
  "on_staff_input e p = (case e of
     New_staff \<Rightarrow> startNew p
   | Edit_staff s \<Rightarrow> startEdit s p
   | Type_staff f \<Rightarrow> p\<lparr> sg_form := f\<lparr> sm_id := sm_id (sg_form p), sm_permissions := sm_permissions (sg_form p),
       sm_mustChangePin := sm_mustChangePin (sg_form p), sm_createdAt := sm_createdAt (sg_form p) \<rparr> \<rparr>
   | Type_pin t \<Rightarrow> type_pin t p
   | Cancel_staff \<Rightarrow> resetForm p)"

datatype staff_answer = Staff_list "staff_form list option + thrown" | Staff_done "unit + thrown"

definition staff_answered :: "staff_answer \<Rightarrow> staff_request \<Rightarrow> staff_world \<Rightarrow> staff_world" where
  "staff_answered a r W = (case (r, a) of
     (List_staff, Staff_list l) \<Rightarrow> staff_listed l W
   | (Update_staff f pin, Staff_done d) \<Rightarrow> staff_updated f pin d W
   | (Update_pin i pin, Staff_done d) \<Rightarrow> pin_updated d W
   | (Create_staff f pin, Staff_done d) \<Rightarrow> staff_created d W
   | (Toggle_staff i, Staff_done d) \<Rightarrow> staff_toggled d W
   | _ \<Rightarrow> W)"

datatype staff_event =
    Staff_input staff_input
  | Staff_opened
  | Submit_staff
  | Toggle_click jstr
  | Staff_answered nat staff_answer

definition staff_step :: "(staff_form \<Rightarrow> issue list) \<Rightarrow> staff_world \<Rightarrow> staff_event \<Rightarrow> staff_world" where
  "staff_step issues W e = (case e of
     Staff_input i \<Rightarrow> turns (on_staff_input i) W
   | Staff_opened \<Rightarrow> loadStaff W
   | Submit_staff \<Rightarrow> (if sg_showForm (pw_page W) then staff_handleSubmit issues W else W)
   | Toggle_click i \<Rightarrow> asks (Toggle_staff i) W
   | Staff_answered k a \<Rightarrow> answers k (staff_answered a) W)"

section \<open>What is sent\<close>

text \<open>A request is sound after the requests \<open>rs\<close>: a new member has no identifier and a PIN of four digits, a
  changed one a PIN of four digits or none, both without an issue of a field; a PIN is changed only together with
  the member it was typed for.\<close>

definition staff_request_ok :: "(staff_form \<Rightarrow> issue list) \<Rightarrow> staff_request list \<Rightarrow> staff_request \<Rightarrow> bool" where
  "staff_request_ok issues rs r = (case r of
     Create_staff f pin \<Rightarrow> fieldErrors (issues f) = [] \<and> sm_id f = [] \<and> pin_ok pin
   | Update_staff f pin \<Rightarrow> fieldErrors (issues f) = [] \<and> (pin = [] \<or> pin_ok pin)
   | Update_pin i pin \<Rightarrow> pin_ok pin
       \<and> list_ex (\<lambda>q. case q of Update_staff f pin' \<Rightarrow> sm_id f = i \<and> pin' = pin | _ \<Rightarrow> False) rs
   | _ \<Rightarrow> True)"

lemma obj_put_not_Nil: "obj_put k v m \<noteq> []"
  by (cases m) (auto split: if_splits)

lemma form_without_errors:
  assumes "form_errors issues p = []"
  shows "fieldErrors (issues (sg_form p)) = []" "sg_editing p = None \<Longrightarrow> pin_ok (sg_pin p)"
    "sg_pin p = [] \<or> pin_ok (sg_pin p)"
  using assms by (auto simp: form_errors_def pin_errors_def obj_put_not_Nil split: if_splits)

interpretation staff_form_sent: validated_form "staff_handleSubmit issues"
    "\<lambda>p. form_errors issues (clear_staff_errors p) = []" "\<lambda>p. staff_request_of (clear_staff_errors p)"
  by unfold_locales (simp_all add: staff_handleSubmit_def Let_def)

definition staff_inv :: "(staff_form \<Rightarrow> issue list) \<Rightarrow> staff_world \<Rightarrow> bool" where
  "staff_inv issues W \<longleftrightarrow>
     (sg_editing (pw_page W) = None \<longrightarrow> sm_id (sg_form (pw_page W)) = []) \<and>
     set (pw_open W) \<subseteq> set (asked W) \<and> list_all (staff_request_ok issues (asked W)) (asked W)"

text \<open>Requests stay sound as more are sent.\<close>

lemma staff_request_ok_append: "staff_request_ok issues rs r \<Longrightarrow> staff_request_ok issues (rs @ qs) r"
  by (auto simp: staff_request_ok_def split: staff_request.splits)

lemma staff_inv_asks:
  assumes "staff_inv issues W" and "staff_request_ok issues (asked W) r"
  shows "staff_inv issues (asks r W)"
  using assms by (auto simp: staff_inv_def list_all_iff staff_request_ok_append)

lemma staff_inv_tells: "staff_inv issues W \<Longrightarrow> asked_calls cs = [] \<Longrightarrow> staff_inv issues (tells cs W)"
  by (simp add: staff_inv_def)

lemma staff_inv_turns:
  "staff_inv issues W \<Longrightarrow> (sg_editing (pw_page W) = None \<longrightarrow> sm_id (sg_form (pw_page W)) = []) \<longrightarrow>
     sg_editing (f (pw_page W)) = None \<longrightarrow> sm_id (sg_form (f (pw_page W))) = [] \<Longrightarrow> staff_inv issues (turns f W)"
  by (auto simp: staff_inv_def)

lemmas staff_inv_intros = staff_inv_asks staff_inv_tells staff_inv_turns

lemma staff_inv_load: "staff_inv issues W \<Longrightarrow> staff_inv issues (loadStaff W)"
  unfolding loadStaff_def by (intro staff_inv_intros) (simp_all add: staff_request_ok_def)

lemma staff_inv_saved: "staff_inv issues W \<Longrightarrow> staff_inv issues (staff_saved W)"
  unfolding staff_saved_def
  by (intro staff_inv_load staff_inv_intros) (simp_all add: resetForm_def emptyStaff_def)

lemma staff_inv_failed: "staff_inv issues W \<Longrightarrow> staff_inv issues (turns (staff_failed t) W)"
  by (erule staff_inv_turns) (simp add: staff_failed_def Let_def)

lemma staff_inv_sent:
  assumes "staff_inv issues W"
  shows "staff_inv issues (staff_handleSubmit issues W)"
proof -
  let ?W = "turns clear_staff_errors W"
  have inv: "staff_inv issues ?W" by (rule staff_inv_turns [OF assms]) (simp add: clear_staff_errors_def)
  show ?thesis
  proof (cases "form_errors issues (pw_page ?W) = []")
    case True
    have "staff_request_ok issues (asked ?W) (staff_request_of (pw_page ?W))"
      using form_without_errors [OF True] inv
      by (auto simp: staff_request_ok_def staff_request_of_def staff_inv_def)
    with True inv show ?thesis by (simp add: staff_handleSubmit_def Let_def staff_inv_asks)
  next
    case False
    then show ?thesis unfolding staff_handleSubmit_def Let_def
      by (simp only: if_True simp_thms) (intro staff_inv_intros inv; simp)
  qed
qed

text \<open>What the answer of an open request sends is sound.\<close>

lemma staff_inv_answered:
  assumes inv: "staff_inv issues W" and r: "r \<in> set (asked W)"
  shows "staff_inv issues (staff_answered a r W)"
proof (cases r)
  case List_staff
  with inv show ?thesis
    by (auto simp: staff_answered_def staff_listed_def intro!: staff_inv_intros split: staff_answer.splits sum.splits)
next
  case (Update_staff f pin)
  have "staff_request_ok issues (asked W) r" using inv r by (simp add: staff_inv_def list_all_iff)
  then have "staff_request_ok issues (asked W) (Update_pin (sm_id f) pin)" if "pin \<noteq> []"
    using that r Update_staff by (auto simp: staff_request_ok_def list_ex_iff intro!: bexI [of _ "Update_staff f pin"])
  with Update_staff inv show ?thesis
    by (auto simp: staff_answered_def staff_updated_def intro!: staff_inv_asks staff_inv_saved staff_inv_tells staff_inv_failed
        split: staff_answer.splits sum.splits)
next
  case (Update_pin i pin)
  with inv show ?thesis
    by (auto simp: staff_answered_def pin_updated_def intro!: staff_inv_saved staff_inv_intros split: staff_answer.splits sum.splits)
next
  case (Create_staff f pin)
  with inv show ?thesis
    by (auto simp: staff_answered_def staff_created_def intro!: staff_inv_saved staff_inv_tells staff_inv_failed
        split: staff_answer.splits sum.splits)
next
  case (Toggle_staff i)
  with inv show ?thesis
    by (auto simp: staff_answered_def staff_toggled_def intro!: staff_inv_load staff_inv_tells split: staff_answer.splits sum.splits)
qed

interpretation staff: machine "staff_step issues" "staff_inv issues" "\<lambda>_. True"
proof
  fix W e
  assume inv: "staff_inv issues W"
  show "staff_inv issues (staff_step issues W e)"
  proof (cases e)
    case (Staff_input i)
    have "staff_inv issues (turns (on_staff_input i) W)"
      by (rule staff_inv_turns [OF inv], cases i)
        (auto simp: on_staff_input_def startNew_def startEdit_def type_pin_def resetForm_def emptyStaff_def)
    with Staff_input show ?thesis by (simp add: staff_step_def)
  next
    case (Staff_answered k a)
    have "staff_inv issues (W\<lparr>pw_open := take k (pw_open W) @ drop (Suc k) (pw_open W)\<rparr>)"
      using inv by (auto simp: staff_inv_def dest: in_set_takeD in_set_dropD)
    moreover have "pw_open W ! k \<in> set (asked W)" if "k < length (pw_open W)"
      using inv that nth_mem by (auto simp: staff_inv_def)
    ultimately show ?thesis using Staff_answered inv by (simp add: staff_step_def answers_def staff_inv_answered)
  qed (use inv in \<open>simp_all add: staff_step_def staff_inv_load staff_inv_sent staff_inv_asks staff_request_ok_def\<close>)
qed

text \<open>C24. In every run of the staff window, whatever is typed and in whatever order the requests are answered, a
  member is created only without an identifier, with no field in error and with a PIN of four digits, and a
  PIN is changed only to the four digits that were sent along with the change of that member.\<close>

theorem staff_requests_sound:
  "list_all (staff_request_ok issues (asked (run (staff_step issues) (fresh_page staff_start) es)))
     (asked (run (staff_step issues) (fresh_page staff_start) es))"
proof -
  have "staff_inv issues (run (staff_step issues) (fresh_page staff_start) es)"
    by (rule staff.run_inv) (simp_all add: staff_inv_def staff_start_def emptyStaff_def)
  then show ?thesis by (simp add: staff_inv_def)
qed

text \<open>When the PIN is refused after the member was changed, the window stays and the lists are not read again,
  although the change is stored.\<close>

lemma half_updated_member:
  assumes "pin_ok pin" and "pin \<noteq> []"
  shows "let W' = pin_updated (Inr e) (staff_updated f pin (Inl ()) W)
    in asked W' = asked W @ [Update_pin (sm_id f) pin] \<and> sg_showForm (pw_page W') = sg_showForm (pw_page W)
      \<and> said_calls (pw_calls W') = said_calls (pw_calls W)"
  using assms by (simp add: pin_updated_def staff_updated_def pin_ok_def)

text \<open>The button for a new member keeps the PIN that was typed for the one before.\<close>

lemma pin_carried_over: "sg_pin (startNew (type_pin t p)) = take 4 (filter is_digit t)" "sg_errors (startNew p) = sg_errors p"
  by (simp_all add: startNew_def type_pin_def)

text \<open>The weak PINs of the hint are accepted.\<close>

lemma weak_pins_accepted: "pin_errors b [49, 50, 51, 52] = ([], [])" "pin_errors b [48, 48, 48, 48] = ([], [])"
  by (simp_all add: pin_errors_def pin_ok_def is_digit_def)

end
