(* ===== verification/Login.thy ===== *)
theory Login
  imports Validation Auth ForceDelete
begin

text \<open>
  Three doors: the choice of a member and its PIN (\<open>components/LoginScreen.tsx\<close>), the change of the default
  PIN (\<open>components/ChangePasswordModal.tsx\<close>), and the account of the shop (\<open>components/CloudLoginScreen.tsx\<close>).
\<close>

section \<open>The login screen\<close>

datatype login_mode = Mode_select | Mode_password | Mode_pin

record login_page =
  lg_mode :: login_mode
  lg_staffList :: "staff list"
  lg_selected :: "staff option"
  lg_username :: jstr
  lg_password :: jstr
  lg_pin :: jstr
  lg_error :: jstr
  lg_loading :: bool
  lg_loadingStaff :: bool
  lg_quick :: bool
  lg_passed :: bool

definition login_start :: login_page where
  "login_start = \<lparr> lg_mode = Mode_select, lg_staffList = [], lg_selected = None, lg_username = [], lg_password = [],
     lg_pin = [], lg_error = [], lg_loading = False, lg_loadingStaff = True, lg_quick = False, lg_passed = False \<rparr>"

datatype login_request = List_active | Password_login jstr jstr | Pin_login jstr

type_synonym login_world = "(login_page, login_request) page_world"

definition login_mount :: login_world where
  "login_mount = asks List_active (fresh_page login_start)"

text \<open>A single member is chosen at once.\<close>

definition active_listed :: "staff list option + thrown \<Rightarrow> login_page \<Rightarrow> login_page" where
  "active_listed a p = (case a of
     Inl l \<Rightarrow> (let q = p\<lparr> lg_staffList := opt_default [] l, lg_loadingStaff := False \<rparr>
       in case l of Some [s] \<Rightarrow> q\<lparr> lg_selected := Some s, lg_username := sf_username s, lg_mode := Mode_password \<rparr> | _ \<Rightarrow> q)
   | Inr e \<Rightarrow> p\<lparr> lg_error := [1582, 1591, 1571, 32, 1601, 1610, 32, 1575, 1604,
     1575, 1578, 1589, 1575, 1604, 32, 1576, 1575,
  1604, 1582, 1575, 1583, 1605, 46, 32, 1575, 1604, 1585, 1580, 1575, 1569, 32, 1575, 1604, 1605,
  1581, 1575, 1608, 1604, 1577, 32, 1605, 1585, 1577, 32, 1571, 1582, 1585, 1609, 46],
    lg_loadingStaff := False \<rparr>)"

definition handleSelectStaff :: "staff \<Rightarrow> login_page \<Rightarrow> login_page" where
  "handleSelectStaff s p = p\<lparr> lg_selected := Some s, lg_username := sf_username s, lg_error := [], lg_mode := Mode_password \<rparr>"

text \<open>The fourth digit sends the login.\<close>

definition password_digit :: "nat \<Rightarrow> login_world \<Rightarrow> login_world" where
  "password_digit d W =
     (let p = pw_page W; newPass = lg_password p @ [48 + d]
      in if length (lg_password p) < 4 \<and> \<not> lg_loading p
         then (let W' = turns (\<lambda>p. p\<lparr> lg_password := newPass, lg_error := [] \<rparr>) W
               in if length newPass = 4
                  then asks (Password_login (lg_username p) newPass) (turns (\<lambda>p. p\<lparr>lg_loading := True\<rparr>) W') else W')
         else W)"

definition handlePINLogin :: "jstr \<Rightarrow> login_world \<Rightarrow> login_world" where
  "handlePINLogin pinValue W = asks (Pin_login pinValue) (turns (\<lambda>p. p\<lparr> lg_loading := True, lg_error := [] \<rparr>) W)"

definition pinpad_digit :: "nat \<Rightarrow> login_world \<Rightarrow> login_world" where
  "pinpad_digit d W =
     (let p = pw_page W; newPin = lg_pin p @ [48 + d]
      in if length (lg_pin p) < 4 \<and> \<not> lg_loading p
         then (let W' = turns (\<lambda>p. p\<lparr> lg_pin := newPin, lg_error := [] \<rparr>) W
               in if length newPin = 4 then handlePINLogin newPin W' else W')
         else W)"

text \<open>The answers carry \<open>success\<close> and \<open>message\<close>.\<close>

definition password_answered :: "bool \<Rightarrow> jstr \<Rightarrow> login_page \<Rightarrow> login_page" where
  "password_answered success msg p =
     (if success then p\<lparr> lg_passed := True, lg_loading := False \<rparr>
      else p\<lparr> lg_error := (if msg \<noteq> [] then msg else [1601, 1588, 1604, 32, 1578,
        1587, 1580, 1610, 1604, 32, 1575, 1604, 1583, 1582, 1608, 1604]), lg_password := [],
        lg_loading := False \<rparr>)"

definition pin_answered :: "bool \<Rightarrow> jstr \<Rightarrow> login_page \<Rightarrow> login_page" where
  "pin_answered success msg p =
     (if success then p\<lparr> lg_passed := True, lg_loading := False \<rparr>
      else p\<lparr> lg_error := (if msg \<noteq> [] then msg else [1585, 1605, 1586, 32, 80, 73,
        78, 32, 1594, 1610, 1585, 32, 1589, 1581, 1610, 1581]), lg_pin := [],
        lg_loading := False \<rparr>)"

definition getRoleBadge :: "jstr \<Rightarrow> jstr \<times> jstr \<times> jstr" where
  "getRoleBadge role =
     (if role = js ''admin'' then (js ''bg-warning/20'', js ''text-warning'', [1605, 1583, 1610, 1585])
      else if role = js ''manager'' then (js ''bg-primary/20'', js ''text-primary'', [1605, 1588, 1585, 1601])
      else if role = js ''cashier'' then (js ''bg-success/20'', js ''text-success'', [1603, 1575,
        1588, 1610, 1585])
      else (js ''bg-gray-500/20'', js ''text-gray-400'', [1605, 1588, 1575, 1607, 1583]))"

datatype login_answer = Active_staff "staff list option + thrown" | Login_result bool jstr

definition login_answered :: "login_answer \<Rightarrow> login_request \<Rightarrow> login_world \<Rightarrow> login_world" where
  "login_answered a r W = (case (r, a) of
     (List_active, Active_staff l) \<Rightarrow> turns (active_listed l) W
   | (Password_login u t, Login_result b m) \<Rightarrow> turns (password_answered b m) W
   | (Pin_login t, Login_result b m) \<Rightarrow> turns (pin_answered b m) W
   | _ \<Rightarrow> W)"

definition login_kind :: "login_request \<Rightarrow> login_answer \<Rightarrow> bool" where
  "login_kind r a = (case (r, a) of (List_active, Active_staff l) \<Rightarrow> True | (List_active, _) \<Rightarrow> False
     | (_, Active_staff l) \<Rightarrow> False | _ \<Rightarrow> True)"

datatype login_event =
    Choose_staff staff
  | Password_button nat
  | Password_clear
  | Password_backspace
  | Password_back
  | Pinpad_button nat
  | Pinpad_clear
  | Pinpad_backspace
  | Pinpad_back
  | Login_answered nat login_answer

definition login_clear :: "login_page \<Rightarrow> login_page" where
  "login_clear p = (if lg_loading p then p else p\<lparr> lg_password := [], lg_error := [] \<rparr>)"

text \<open>The way back is open while a login is under way.\<close>

definition login_back :: "login_page \<Rightarrow> login_page" where
  "login_back p = p\<lparr> lg_mode := Mode_select, lg_error := [], lg_password := [], lg_quick := False \<rparr>"

definition login_shows :: "login_mode \<Rightarrow> login_world \<Rightarrow> bool" where
  "login_shows m W = (\<not> lg_loadingStaff (pw_page W) \<and> lg_mode (pw_page W) = m)"

definition login_step :: "login_world \<Rightarrow> login_event \<Rightarrow> login_world" where
  "login_step W e = (case e of
     Choose_staff s \<Rightarrow> if login_shows Mode_select W \<and> s \<in> set (lg_staffList (pw_page W)) then turns (handleSelectStaff s) W else W
   | Password_button d \<Rightarrow> if login_shows Mode_password W \<and> d < 10 then password_digit d W else W
   | Password_clear \<Rightarrow> if login_shows Mode_password W then turns login_clear W else W
   | Password_backspace \<Rightarrow> if login_shows Mode_password W
       then turns (\<lambda>p. if lg_loading p then p else p\<lparr> lg_password := butlast (lg_password p) \<rparr>) W else W
   | Password_back \<Rightarrow> if login_shows Mode_password W then turns login_back W else W
   | Pinpad_button d \<Rightarrow> if login_shows Mode_pin W \<and> d < 10 then pinpad_digit d W else W
   | Pinpad_clear \<Rightarrow> if login_shows Mode_pin W
       then turns (\<lambda>p. if lg_loading p then p else p\<lparr> lg_pin := [], lg_error := [] \<rparr>) W else W
   | Pinpad_backspace \<Rightarrow> if login_shows Mode_pin W
       then turns (\<lambda>p. if lg_loading p then p else p\<lparr> lg_pin := butlast (lg_pin p) \<rparr>) W else W
   | Pinpad_back \<Rightarrow> if login_shows Mode_pin W
       then turns (\<lambda>p. p\<lparr> lg_mode := Mode_select, lg_error := [], lg_pin := [] \<rparr>) W else W
   | Login_answered k a \<Rightarrow> if k < length (pw_open W) \<and> login_kind (pw_open W ! k) a then answers k (login_answered a) W else W)"

subsection \<open>Logins sent\<close>

definition login_request_ok :: "staff list \<Rightarrow> login_request \<Rightarrow> bool" where
  "login_request_ok staffList r = (case r of
     List_active \<Rightarrow> True
   | Password_login u t \<Rightarrow> length t = 4 \<and> list_all is_digit t \<and> u \<in> sf_username ` set staffList
   | Pin_login t \<Rightarrow> False)"

definition is_login :: "login_request \<Rightarrow> bool" where
  "is_login r = (r \<noteq> List_active)"

text \<open>Either the members are still being listed, or the list is there: then a login is open exactly while the
  screen is loading, and the PIN pad, for which no button exists, is never reached.\<close>

definition login_listing :: "login_world \<Rightarrow> bool" where
  "login_listing W = (pw_page W = login_start \<and> pw_open W = [List_active] \<and> asked W = [List_active])"

definition login_ready :: "login_world \<Rightarrow> bool" where
  "login_ready W = (let p = pw_page W in \<not> lg_loadingStaff p \<and> lg_mode p \<noteq> Mode_pin
     \<and> (lg_mode p = Mode_password \<longrightarrow> lg_username p \<in> sf_username ` set (lg_staffList p))
     \<and> length (lg_password p) \<le> 4 \<and> list_all is_digit (lg_password p)
     \<and> list_all is_login (pw_open W) \<and> length (pw_open W) = of_bool (lg_loading p)
     \<and> list_all (login_request_ok (lg_staffList p)) (asked W))"

definition login_inv :: "login_world \<Rightarrow> bool" where
  "login_inv W = (login_listing W \<or> login_ready W)"

lemma digit_button: "d < 10 \<Longrightarrow> is_digit (48 + d)"
  by (simp add: is_digit_def)

lemma list_all_butlast: "list_all P xs \<Longrightarrow> list_all P (butlast xs)"
  by (auto simp: list_all_iff dest: in_set_butlastD)

lemma login_ready_turns:
  assumes "login_ready W"
    and "lg_staffList (f (pw_page W)) = lg_staffList (pw_page W)" "\<not> lg_loadingStaff (f (pw_page W))"
    and "lg_mode (f (pw_page W)) \<noteq> Mode_pin" "lg_loading (f (pw_page W)) = lg_loading (pw_page W)"
    and "lg_mode (f (pw_page W)) = Mode_password \<Longrightarrow> lg_username (f (pw_page W)) \<in> sf_username ` set (lg_staffList (pw_page W))"
    and "length (lg_password (f (pw_page W))) \<le> 4" "list_all is_digit (lg_password (f (pw_page W)))"
  shows "login_ready (turns f W)"
  using assms by (simp add: login_ready_def Let_def)

lemma password_digit_ready:
  assumes W: "login_ready W" and d: "d < 10" and m: "lg_mode (pw_page W) = Mode_password"
  shows "login_ready (password_digit d W)"
  using W m digit_button [OF d]
  by (auto simp: password_digit_def Let_def login_ready_def login_request_ok_def is_login_def)

lemma login_answered_ready:
  assumes W: "login_ready W" and k: "k < length (pw_open W)" "login_kind (pw_open W ! k) a"
  shows "login_ready (answers k (login_answered a) W)"
proof -
  have l: "lg_loading (pw_page W)" "length (pw_open W) = 1" "k = 0"
    using W k(1) by (cases "lg_loading (pw_page W)"; simp add: login_ready_def Let_def)+
  then obtain r where r: "pw_open W = [r]" by (auto simp: length_Suc_conv)
  with W have "is_login r" by (simp add: login_ready_def Let_def)
  with k r l obtain b m where a: "a = Login_result b m"
    by (cases a; cases r) (auto simp: login_kind_def is_login_def)
  then have "answers k (login_answered a) W = turns (if \<exists>u t. r = Password_login u t then password_answered b m else pin_answered b m)
      (W\<lparr>pw_open := []\<rparr>)"
    using r l \<open>is_login r\<close> by (cases r) (auto simp: answers_def login_answered_def is_login_def)
  then show ?thesis using W by (auto simp: login_ready_def Let_def password_answered_def pin_answered_def)
qed

interpretation login_screen: machine login_step login_inv "\<lambda>_. True"
proof
  fix W e
  assume "login_inv W"
  then consider (listing) "login_listing W" | (ready) "login_ready W" by (auto simp: login_inv_def)
  then show "login_inv (login_step W e)"
  proof cases
    case listing
    show ?thesis
    proof (cases "\<exists>k l. e = Login_answered k (Active_staff l) \<and> k = 0")
      case True
      then obtain l where e: "e = Login_answered 0 (Active_staff l)" by auto
      with listing have W': "login_step W e = (turns (active_listed l) W)\<lparr>pw_open := []\<rparr>"
        by (simp add: login_step_def login_listing_def login_kind_def answers_def login_answered_def turns_def)
      have "login_ready (login_step W e)"
        using listing unfolding W' login_ready_def login_listing_def
        by (auto simp: Let_def active_listed_def login_start_def login_request_ok_def split: sum.split option.split list.split)
      then show ?thesis by (simp add: login_inv_def)
    next
      case False
      then have "login_step W e = W" using listing
        by (cases e) (auto simp: login_step_def login_shows_def login_listing_def login_start_def login_kind_def
            split: login_answer.splits)
      then show ?thesis using listing by (simp add: login_inv_def)
    qed
  next
    case ready
    then have nopin: "\<not> login_shows Mode_pin W" by (auto simp: login_ready_def Let_def login_shows_def)
    have "login_ready (login_step W e)"
    proof (cases e)
      case (Password_button d)
      then show ?thesis using ready password_digit_ready by (auto simp: login_step_def login_shows_def)
    next
      case (Login_answered k a)
      then show ?thesis using ready login_answered_ready by (auto simp: login_step_def)
    qed (use ready nopin in \<open>auto simp: login_step_def login_clear_def login_back_def handleSelectStaff_def login_ready_def Let_def
        list_all_butlast\<close>)
    then show ?thesis by (simp add: login_inv_def)
  qed
qed

text \<open>C25. In every run of the login screen every login sent has four digits and the user name of a member on the
  list, at most one request is open at a time, and the PIN pad is never shown.\<close>

theorem logins_well_formed:
  "let W = run login_step login_mount es
   in list_all (login_request_ok (lg_staffList (pw_page W))) (asked W) \<and> length (pw_open W) \<le> 1 \<and> \<not> login_shows Mode_pin W"
proof -
  have "login_inv (run login_step login_mount es)"
    by (rule login_screen.run_inv) (simp_all add: login_inv_def login_listing_def login_mount_def)
  then show ?thesis
    by (auto simp: Let_def login_inv_def login_listing_def login_ready_def login_request_ok_def login_shows_def login_start_def)
qed

text \<open>A login goes on when the user has gone back and chosen someone else: its failure is told of the other
  member, its success lets the first one in.\<close>

lemma login_told_of_other:
  assumes "login_shows Mode_password W" and "pw_open W = [Password_login u t]" and "s \<in> set (lg_staffList (pw_page W))"
  shows "let p = pw_page (run login_step W [Password_back, Choose_staff s, Login_answered 0 (Login_result b m)])
    in lg_selected p = Some s \<and> (b \<longrightarrow> lg_passed p) \<and> (\<not> b \<longrightarrow> m \<noteq> [] \<longrightarrow> lg_error p = m)"
  using assms
  by (simp add: login_step_def login_shows_def login_back_def handleSelectStaff_def login_kind_def answers_def login_answered_def
      password_answered_def Let_def)

section \<open>The change of the default PIN\<close>

record pin_page =
  nw_new :: jstr
  nw_confirm :: jstr
  nw_loading :: bool
  nw_error :: jstr
  nw_changed :: bool

definition pin_start :: pin_page where
  "pin_start = \<lparr> nw_new = [], nw_confirm = [], nw_loading = False, nw_error = [], nw_changed = False \<rparr>"

definition canSubmit :: "pin_page \<Rightarrow> bool" where
  "canSubmit p = (length (nw_new p) = 4 \<and> pin_ok (nw_new p) \<and> nw_new p \<noteq> js ''0000''
     \<and> nw_new p = nw_confirm p \<and> length (nw_confirm p) = 4)"

definition pin_digits :: "jstr \<Rightarrow> jstr" where
  "pin_digits t = take 4 (filter is_digit t)"

text \<open>A request names the member and the new PIN.\<close>

definition pin_handleSubmit :: "jstr \<Rightarrow> (pin_page, jstr \<times> jstr) page_world \<Rightarrow> (pin_page, jstr \<times> jstr) page_world" where
  "pin_handleSubmit staffId W =
     (let p = pw_page W
      in if canSubmit p then asks (staffId, nw_new p) (turns (\<lambda>p. p\<lparr> nw_loading := True, nw_error := [] \<rparr>) W) else W)"

definition pin_answer :: "unit + thrown \<Rightarrow> pin_page \<Rightarrow> pin_page" where
  "pin_answer a p = (case a of
     Inl u \<Rightarrow> p\<lparr> nw_changed := True, nw_loading := False \<rparr>
   | Inr e \<Rightarrow> p\<lparr> nw_error := message_or [1581, 1583, 1579, 32, 1582, 1591,
     1571, 32, 1571, 1579, 1606, 1575, 1569, 32, 1578, 1594, 1610,
  1610, 1585, 32, 1585, 1605, 1586, 32, 80, 73, 78] e, nw_loading := False \<rparr>)"

datatype pin_event = Type_new_pin jstr | Type_confirm_pin jstr | Submit_new_pin | New_pin_answered nat "unit + thrown"

definition pin_step :: "jstr \<Rightarrow> (pin_page, jstr \<times> jstr) page_world \<Rightarrow> pin_event \<Rightarrow> (pin_page, jstr \<times> jstr) page_world" where
  "pin_step staffId W e = (case e of
     Type_new_pin t \<Rightarrow> turns (\<lambda>p. p\<lparr> nw_new := pin_digits t, nw_error := [] \<rparr>) W
   | Type_confirm_pin t \<Rightarrow> turns (\<lambda>p. p\<lparr> nw_confirm := pin_digits t, nw_error := [] \<rparr>) W
   | Submit_new_pin \<Rightarrow> (if nw_loading (pw_page W) then W else pin_handleSubmit staffId W)
   | New_pin_answered k a \<Rightarrow> answers k (\<lambda>r. turns (pin_answer a)) W)"

interpretation new_pin_form: validated_form "pin_handleSubmit staffId" canSubmit "\<lambda>p. (staffId, nw_new p)"
  by unfold_locales (simp_all add: pin_handleSubmit_def Let_def)

definition new_pin_ok :: "jstr \<Rightarrow> jstr \<times> jstr \<Rightarrow> bool" where
  "new_pin_ok staffId r = (fst r = staffId \<and> pin_ok (snd r) \<and> snd r \<noteq> js ''0000'')"

interpretation new_pin: machine "pin_step staffId" "\<lambda>W. list_all (new_pin_ok staffId) (asked W)" "\<lambda>_. True"
proof
  fix W :: "(pin_page, jstr \<times> jstr) page_world" and e
  assume "list_all (new_pin_ok staffId) (asked W)"
  then show "list_all (new_pin_ok staffId) (asked (pin_step staffId W e))"
    by (cases e) (auto simp: pin_step_def answers_def new_pin_ok_def canSubmit_def intro!: new_pin_form.sent_keeps)
qed

text \<open>Only a PIN of four digits that was typed twice and is not the default is sent.\<close>

lemma new_pins_sound: "list_all (new_pin_ok staffId) (asked (run (pin_step staffId) (fresh_page pin_start) es))"
  by (rule new_pin.run_inv) simp_all

section \<open>The account of the shop\<close>

datatype cloud_mode = Cloud_sign_in | Cloud_sign_up | Cloud_lan | Cloud_recovery

record cloud_page =
  cl_mode :: cloud_mode
  cl_loading :: bool
  cl_error :: jstr
  cl_focused :: "jstr option"
  cl_email :: jstr
  cl_password :: jstr
  cl_storeName :: jstr
  cl_licenseKey :: jstr
  cl_serverIP :: jstr
  cl_serverSecret :: jstr
  cl_entered :: bool

definition cloud_start :: cloud_page where
  "cloud_start = \<lparr> cl_mode = Cloud_sign_in, cl_loading = False, cl_error = [], cl_focused = None, cl_email = [],
     cl_password = [], cl_storeName = [], cl_licenseKey = [], cl_serverIP = [], cl_serverSecret = [], cl_entered = False \<rparr>"

text \<open>A registration goes on with the licence key of the moment it was sent, the deletion of an account with the
  reason it is told.\<close>

datatype cloud_request =
    Cloud_login jstr jstr
  | Licence_status
  | Cloud_register jstr jstr jstr jstr
  | Activate jstr
  | Delete_account jstr
  | Lan_connect jstr jstr
  | Recover_password jstr

type_synonym cloud_world = "(cloud_page, cloud_request) page_world"

definition parseErrorMessage :: "thrown \<Rightarrow> jstr \<Rightarrow> jstr" where
  "parseErrorMessage err d = (case err of
     Thrown_error m \<Rightarrow> if m \<noteq> [] then m else thrown_text err
   | Thrown_value v \<Rightarrow>
       if \<not> json_truthy v then d
       else (case v of
           JStr s \<Rightarrow> s
         | JObj ps \<Rightarrow> (case (obj_get ps (js ''message''), obj_get ps (js ''error'')) of
               (JStr m, JStr e) \<Rightarrow> if m \<noteq> [] then m else if e \<noteq> [] then e else js_string v
             | (JStr m, _) \<Rightarrow> if m \<noteq> [] then m else js_string v
             | (_, JStr e) \<Rightarrow> if e \<noteq> [] then e else js_string v
             | _ \<Rightarrow> js_string v)
         | _ \<Rightarrow> if js_string v \<noteq> [] then js_string v else d))"

definition cloud_fails :: "jstr \<Rightarrow> cloud_page \<Rightarrow> cloud_page" where
  "cloud_fails m p = p\<lparr> cl_error := m, cl_loading := False \<rparr>"

definition cloud_enters :: "cloud_page \<Rightarrow> cloud_page" where
  "cloud_enters p = p\<lparr> cl_entered := True, cl_loading := False \<rparr>"

definition cloud_loads :: "cloud_page \<Rightarrow> cloud_page" where
  "cloud_loads p = p\<lparr> cl_loading := True, cl_error := [] \<rparr>"

definition cloud_handleLogin :: "cloud_world \<Rightarrow> cloud_world" where
  "cloud_handleLogin W = (let p = pw_page W in asks (Cloud_login (cl_email p) (cl_password p)) (turns cloud_loads W))"

text \<open>An answer of the services: \<open>success\<close> or \<open>licensed\<close>, and \<open>message\<close>; or nothing.\<close>

type_synonym cloud_result = "(bool \<times> jstr) option"

definition result_message :: "cloud_result \<Rightarrow> jstr \<Rightarrow> jstr" where
  "result_message r d = (case r of Some (b, m) \<Rightarrow> if m \<noteq> [] then m else d | None \<Rightarrow> d)"

definition result_ok :: "cloud_result \<Rightarrow> bool" where
  "result_ok r = (case r of Some (b, m) \<Rightarrow> b | None \<Rightarrow> False)"

definition login_failed_ar :: jstr where
  "login_failed_ar = [1601, 1588, 1604, 32, 1575, 1604, 1575, 1578, 1589, 1575, 1604, 32, 1576,
    1582, 1575, 1583,
  1605, 32, 1578, 1587, 1580, 1610, 1604, 32, 1575, 1604, 1583, 1582, 1608, 1604, 1548, 32, 1610,
  1585, 1580, 1609, 32, 1575, 1604, 1578, 1571, 1603, 1583, 32, 1605, 1606, 32, 1575, 1578, 1589,
  1575, 1604, 32, 1588, 1576, 1603, 1577, 32, 1575, 1604, 1573, 1606, 1578, 1585, 1606, 1578]"

definition cloud_signed_in :: "cloud_result + thrown \<Rightarrow> cloud_world \<Rightarrow> cloud_world" where
  "cloud_signed_in a W = (case a of
     Inl r \<Rightarrow> if result_ok r then asks Licence_status W
       else turns (cloud_fails (result_message r [1575, 1587, 1605, 32, 1575, 1604, 1605, 1587,
         1578, 1582, 1583, 1605, 32, 1571, 1608, 32, 1603,
  1604, 1605, 1577, 32, 1575, 1604, 1605, 1585, 1608, 1585, 32, 1594, 1610, 1585, 32, 1589, 1581,
  1610, 1581, 1577])) W
   | Inr e \<Rightarrow> turns (cloud_fails (parseErrorMessage e login_failed_ar)) W)"

definition licence_checked :: "cloud_result + thrown \<Rightarrow> cloud_page \<Rightarrow> cloud_page" where
  "licence_checked a p = (case a of
     Inl r \<Rightarrow> if result_ok r then cloud_enters p
       else cloud_fails (result_message r [1604, 1575, 32, 1610, 1608, 1580, 1583, 32, 1578,
         1585, 1582, 1610, 1589, 32, 1606, 1588, 1591,
  32, 1605, 1585, 1578, 1576, 1591, 32, 1576, 1607, 1584, 1575, 32, 1575, 1604, 1581, 1587, 1575,
  1576]) p
   | Inr e \<Rightarrow> cloud_fails (parseErrorMessage e login_failed_ar) p)"

definition handleRegister :: "cloud_world \<Rightarrow> cloud_world" where
  "handleRegister W =
     (let p = pw_page W
      in if trim (cl_email p) = [] then turns (\<lambda>p. p\<lparr> cl_error := [1575, 1604,
        1576, 1585, 1610, 1583, 32, 1575, 1604, 1573, 1604, 1603, 1578, 1585, 1608, 1606,
  1610, 32, 1605, 1591, 1604, 1608, 1576] \<rparr>) W
         else if trim (cl_password p) = [] then turns (\<lambda>p. p\<lparr> cl_error := [1603,
           1604, 1605, 1577, 32, 1575, 1604, 1605, 1585, 1608, 1585, 32, 1605, 1591, 1604, 1608,
  1576, 1577] \<rparr>) W
         else if trim (cl_licenseKey p) = [] then turns (\<lambda>p. p\<lparr> cl_error := [1605,
           1601, 1578, 1575, 1581, 32, 1575, 1604, 1578, 1585, 1582, 1610, 1589, 32, 1605, 1591,
  1604, 1608, 1576, 32, 1604, 1573, 1603, 1605, 1575, 1604, 32, 1575, 1604, 1578, 1587, 1580,
  1610, 1604] \<rparr>) W
         else asks (Cloud_register (cl_email p) (cl_password p) (cl_storeName p) (cl_licenseKey p)) (turns cloud_loads W))"

definition cloud_registered :: "jstr \<Rightarrow> cloud_result + thrown \<Rightarrow> cloud_world \<Rightarrow> cloud_world" where
  "cloud_registered licenseKey a W = (case a of
     Inl r \<Rightarrow> if result_ok r then asks (Activate licenseKey) W
       else turns (cloud_fails (result_message r [1601, 1588, 1604, 32, 1573, 1606, 1588, 1575,
         1569, 32, 1575, 1604, 1581, 1587, 1575, 1576,
  1548, 32, 1610, 1585, 1580, 1609, 32, 1575, 1604, 1578, 1571, 1603, 1583, 32, 1605, 1606, 32,
  1589, 1581, 1577, 32, 1575, 1604, 1576, 1610, 1575, 1606, 1575, 1578, 32, 1608, 1578, 1608,
  1601, 1585, 32, 1575, 1578, 1589, 1575, 1604, 32, 1573, 1606, 1578, 1585, 1606, 1578])) W
   | Inr e \<Rightarrow> turns (cloud_fails (parseErrorMessage e [1581, 1583, 1579, 32, 1582,
     1591, 1571, 32, 1571, 1579, 1606, 1575, 1569, 32, 1575, 1604, 1578,
  1608, 1575, 1589, 1604, 32, 1605, 1593, 32, 1582, 1575, 1583, 1605, 32, 1575, 1604, 1578, 1587,
  1580, 1610, 1604, 32, 1575, 1604, 1587, 1581, 1575, 1576, 1610])) W)"

definition licence_activated :: "cloud_result + thrown \<Rightarrow> cloud_world \<Rightarrow> cloud_world" where
  "licence_activated a W = (case a of
     Inl r \<Rightarrow> if result_ok r then turns cloud_enters W
       else asks (Delete_account (result_message r [1605, 1601, 1578, 1575, 1581, 32, 1575, 1604,
         1578, 1585, 1582, 1610, 1589, 32, 1594, 1610,
  1585, 32, 1589, 1575, 1604, 1581, 32, 1571, 1608, 32, 1605, 1587, 1578, 1582, 1583, 1605, 32,
  1605, 1587, 1576, 1602, 1575, 1611])) W
   | Inr e \<Rightarrow> asks (Delete_account (parseErrorMessage e [1578, 1593, 1584, 1585, 32,
     1575, 1604, 1575, 1578, 1589, 1575, 1604, 32, 1576, 1582, 1575,
  1583, 1605, 32, 1575, 1604, 1578, 1585, 1575, 1582, 1610, 1589, 32, 1604, 1578, 1601, 1593,
  1610, 1604, 32, 1575, 1604, 1605, 1601, 1578, 1575, 1581])) W)"

definition account_deleted :: "jstr \<Rightarrow> unit + thrown \<Rightarrow> cloud_page \<Rightarrow> cloud_page" where
  "account_deleted reason a = cloud_fails ([1601, 1588, 1604, 32, 1578, 1601, 1593, 1610, 1604,
    32, 1575, 1604, 1578, 1585, 1582, 1610,
  1589, 32, 40] @ reason @
     (case a of Inl u \<Rightarrow> [41, 46, 32, 1578, 1605, 32, 1578, 1589, 1601, 1610, 1577,
       32, 1575, 1604, 1581, 1587, 1575,
  1576, 32, 1594, 1610, 1585, 32, 1575, 1604, 1605, 1601, 1593, 1604,
    46] | Inr e \<Rightarrow> [41, 46, 32, 1610, 1585, 1580, 1609, 32, 1575, 1604, 1578, 1608,
    1575, 1589, 1604, 32, 1605,
  1593, 32, 1575, 1604, 1583, 1593, 1605, 32, 1575, 1604, 1601, 1606, 1610, 46]))"

definition handleLanConnect :: "cloud_world \<Rightarrow> cloud_world" where
  "handleLanConnect W = (let p = pw_page W in asks (Lan_connect (cl_serverIP p) (cl_serverSecret p)) (turns cloud_loads W))"

definition lan_connected :: "unit + thrown \<Rightarrow> cloud_page \<Rightarrow> cloud_page" where
  "lan_connected a p = (case a of
     Inl u \<Rightarrow> cloud_enters p
   | Inr e \<Rightarrow> cloud_fails (parseErrorMessage e [1601, 1588, 1604, 32, 1575, 1604,
     1575, 1578, 1589, 1575, 1604, 32, 1576, 1582, 1575, 1583,
  1605, 32, 1575, 1604, 1588, 1576, 1603, 1577, 32, 1575, 1604, 1605, 1581, 1604, 1610, 1577]) p)"

definition handleRecovery :: "cloud_world \<Rightarrow> cloud_world" where
  "handleRecovery W =
     (let p = pw_page W
      in if cl_email p = [] then turns (\<lambda>p. p\<lparr> cl_error := [1575, 1604, 1576,
        1585, 1610, 1583, 32, 1575, 1604, 1573, 1604, 1603, 1578, 1585, 1608, 1606,
  1610, 32, 1605, 1591, 1604, 1608, 1576] \<rparr>) W
         else asks (Recover_password (cl_email p)) (turns cloud_loads W))"

text \<open>The answer shows a notification of the desktop with the message.\<close>

definition password_recovered :: "cloud_result + thrown \<Rightarrow> cloud_world \<Rightarrow> cloud_world" where
  "password_recovered a W = (case a of
     Inl r \<Rightarrow> if result_ok r
       then turns (\<lambda>p. p\<lparr> cl_error := [], cl_mode := Cloud_sign_in, cl_loading := False \<rparr>) (tells [Says (result_message r []) T_info] W)
       else turns (cloud_fails (result_message r [1601, 1588, 1604, 32, 1573, 1585, 1587, 1575,
         1604, 32, 1585, 1575, 1576, 1591, 32, 1575, 1604,
  1575, 1587, 1578, 1593, 1575, 1583, 1577])) W
   | Inr e \<Rightarrow> turns (cloud_fails (parseErrorMessage e [1582, 1591, 1571, 32, 1601,
     1610, 32, 1575, 1604, 1575, 1578, 1589, 1575, 1604, 32, 1576, 1582,
  1575, 1583, 1605, 32, 1575, 1587, 1578, 1593, 1575, 1583, 1577, 32, 1575, 1604, 1581, 1587,
  1575, 1576])) W)"

text \<open>Every field is marked as required, so the browser does not submit a form with an empty one; its test of an
  address is the parameter \<open>email_ok\<close>.\<close>

definition cloud_complete :: "(jstr \<Rightarrow> bool) \<Rightarrow> cloud_page \<Rightarrow> bool" where
  "cloud_complete email_ok p = (case cl_mode p of
     Cloud_lan \<Rightarrow> cl_serverIP p \<noteq> [] \<and> cl_serverSecret p \<noteq> []
   | Cloud_sign_in \<Rightarrow> email_ok (cl_email p) \<and> 6 \<le> length (cl_password p)
   | Cloud_sign_up \<Rightarrow> cl_storeName p \<noteq> [] \<and> email_ok (cl_email p) \<and> 6 \<le> length (cl_password p) \<and> cl_licenseKey p \<noteq> []
   | Cloud_recovery \<Rightarrow> email_ok (cl_email p))"

definition cloud_submit :: "(jstr \<Rightarrow> bool) \<Rightarrow> cloud_world \<Rightarrow> cloud_world" where
  "cloud_submit email_ok W =
     (let p = pw_page W
      in if cl_loading p \<or> \<not> cloud_complete email_ok p then W
         else case cl_mode p of Cloud_sign_in \<Rightarrow> cloud_handleLogin W | Cloud_sign_up \<Rightarrow> handleRegister W
           | Cloud_lan \<Rightarrow> handleLanConnect W | Cloud_recovery \<Rightarrow> handleRecovery W)"

datatype cloud_answer = Service_result "cloud_result + thrown" | Service_done "unit + thrown"

definition cloud_kind :: "cloud_request \<Rightarrow> cloud_answer \<Rightarrow> bool" where
  "cloud_kind r a = (case r of Delete_account m \<Rightarrow> (case a of Service_done d \<Rightarrow> True | _ \<Rightarrow> False)
     | Lan_connect i s \<Rightarrow> (case a of Service_done d \<Rightarrow> True | _ \<Rightarrow> False)
     | _ \<Rightarrow> (case a of Service_result d \<Rightarrow> True | _ \<Rightarrow> False))"

definition cloud_answered :: "cloud_answer \<Rightarrow> cloud_request \<Rightarrow> cloud_world \<Rightarrow> cloud_world" where
  "cloud_answered a r W = (case a of
     Service_result x \<Rightarrow> (case r of
         Cloud_login e t \<Rightarrow> cloud_signed_in x W
       | Licence_status \<Rightarrow> turns (licence_checked x) W
       | Cloud_register e t n k \<Rightarrow> cloud_registered k x W
       | Activate k \<Rightarrow> licence_activated x W
       | Recover_password e \<Rightarrow> password_recovered x W
       | _ \<Rightarrow> W)
   | Service_done d \<Rightarrow> (case r of
         Delete_account m \<Rightarrow> turns (account_deleted m d) W
       | Lan_connect i s \<Rightarrow> turns (lan_connected d) W
       | _ \<Rightarrow> W))"

datatype cloud_event =
    Choose_mode cloud_mode
  | Focus_field "jstr option"
  | Type_email jstr
  | Type_password jstr
  | Type_storeName jstr
  | Type_licenseKey jstr
  | Type_serverIP jstr
  | Type_serverSecret jstr
  | Cloud_submit
  | Cloud_answered nat cloud_answer

text \<open>The modes can be chosen and the fields typed while a request is under way.\<close>

definition cloud_screen_step :: "(jstr \<Rightarrow> bool) \<Rightarrow> cloud_world \<Rightarrow> cloud_event \<Rightarrow> cloud_world" where
  "cloud_screen_step email_ok W e = (case e of
     Choose_mode m \<Rightarrow> turns (\<lambda>p. p\<lparr> cl_mode := m, cl_error := [] \<rparr>) W
   | Focus_field f \<Rightarrow> turns (\<lambda>p. p\<lparr> cl_focused := f \<rparr>) W
   | Type_email t \<Rightarrow> turns (\<lambda>p. p\<lparr> cl_email := t \<rparr>) W
   | Type_password t \<Rightarrow> turns (\<lambda>p. p\<lparr> cl_password := t \<rparr>) W
   | Type_storeName t \<Rightarrow> turns (\<lambda>p. p\<lparr> cl_storeName := t \<rparr>) W
   | Type_licenseKey t \<Rightarrow> turns (\<lambda>p. p\<lparr> cl_licenseKey := t \<rparr>) W
   | Type_serverIP t \<Rightarrow> turns (\<lambda>p. p\<lparr> cl_serverIP := t \<rparr>) W
   | Type_serverSecret t \<Rightarrow> turns (\<lambda>p. p\<lparr> cl_serverSecret := t \<rparr>) W
   | Cloud_submit \<Rightarrow> cloud_submit email_ok W
   | Cloud_answered k a \<Rightarrow> if k < length (pw_open W) \<and> cloud_kind (pw_open W ! k) a then answers k (cloud_answered a) W else W)"

subsection \<open>Accounts without a licence\<close>


text \<open>What has become of the account, read off the answers alone: no account was made, or one was made with a licence
  key that is still to be activated, or its activation has failed. \<open>None\<close> is a breach: an activation or a deletion out
  of turn, or anything else before a new account is licensed or deleted.\<close>

datatype new_account = No_account | Registered jstr | Unlicensed

definition service_ok :: "cloud_answer \<Rightarrow> bool" where
  "service_ok a = (case a of Service_result (Inl r) \<Rightarrow> result_ok r | _ \<Rightarrow> False)"

definition account_after :: "new_account option \<Rightarrow> cloud_request \<times> cloud_answer \<Rightarrow> new_account option" where
  "account_after s x = (case (s, fst x) of
     (Some No_account, Cloud_register e t n k) \<Rightarrow> Some (if service_ok (snd x) then Registered k else No_account)
   | (Some (Registered k), Activate k') \<Rightarrow> if k' = k then Some (if service_ok (snd x) then No_account else Unlicensed) else None
   | (Some Unlicensed, Delete_account m) \<Rightarrow> Some No_account
   | (Some No_account, Activate k) \<Rightarrow> None
   | (Some No_account, Delete_account m) \<Rightarrow> None
   | (Some No_account, _) \<Rightarrow> Some No_account
   | _ \<Rightarrow> None)"

definition account_state :: "(cloud_request \<times> cloud_answer) list \<Rightarrow> new_account option" where
  "account_state h = foldl account_after (Some No_account) h"

text \<open>The requests that are due in a state of the account.\<close>

definition due :: "new_account \<Rightarrow> cloud_request list \<Rightarrow> bool" where
  "due s rs = (case s of
     No_account \<Rightarrow> list_all (\<lambda>r. case r of Activate k \<Rightarrow> False | Delete_account m \<Rightarrow> False | _ \<Rightarrow> True) rs
   | Registered k \<Rightarrow> rs = [Activate k]
   | Unlicensed \<Rightarrow> (case rs of [Delete_account m] \<Rightarrow> True | _ \<Rightarrow> False))"


lemma account_state_snoc [simp]: "account_state [] = Some No_account" "account_state (h @ [x]) = account_after (account_state h) x"
  by (simp_all add: account_state_def)

lemma due_Nil [simp]: "due s [] \<longleftrightarrow> s = No_account"
  by (cases s) (simp_all add: due_def)

lemmas cloud_answers = cloud_signed_in_def licence_checked_def cloud_registered_def licence_activated_def account_deleted_def
  lan_connected_def password_recovered_def cloud_fails_def cloud_enters_def






text \<open>Nobody enters without a licence, but over the local network.\<close>

definition admits :: "cloud_event \<Rightarrow> bool" where
  "admits e = (case e of
     Cloud_answered k (Service_result (Inl r)) \<Rightarrow> result_ok r
   | Cloud_answered k (Service_done (Inl u)) \<Rightarrow> True
   | _ \<Rightarrow> False)"

lemma not_entered_step:
  assumes "\<not> cl_entered (pw_page W)" and "\<not> admits e"
  shows "\<not> cl_entered (pw_page (cloud_screen_step email_ok W e))"
  using assms
  by (auto simp: cloud_screen_step_def admits_def cloud_submit_def cloud_handleLogin_def handleRegister_def handleLanConnect_def
      handleRecovery_def Let_def cloud_loads_def answers_def cloud_answered_def cloud_answers
      split: cloud_event.splits cloud_mode.split cloud_answer.splits cloud_request.split sum.splits)

interpretation outsiders: machine "cloud_screen_step email_ok" "\<lambda>W. \<not> cl_entered (pw_page W)" "\<lambda>e. \<not> admits e"
  by unfold_locales (rule not_entered_step)

lemma entry_admitted:
  assumes "cl_entered (pw_page (run (cloud_screen_step email_ok) (fresh_page cloud_start) es))"
  shows "list_ex admits es"
  using assms outsiders.run_inv [of "fresh_page cloud_start" es email_ok] by (auto simp: list_ex_iff cloud_start_def)

text \<open>An activation whose answer is lost on the way deletes the account all the same, even when the service had
  bound the licence to it.\<close>

lemma lost_answer_deletes_account:
  "asked (licence_activated (Inr (Thrown_error m)) W) = asked W @ [Delete_account (parseErrorMessage (Thrown_error m)
     [1578, 1593, 1584, 1585, 32, 1575, 1604, 1575, 1578, 1589, 1575, 1604, 32, 1576, 1582, 1575,
  1583, 1605, 32, 1575, 1604, 1578, 1585, 1575, 1582, 1610, 1589, 32, 1604, 1578, 1601, 1593,
  1610, 1604, 32, 1575, 1604, 1605, 1601, 1578, 1575, 1581])]"
  by (simp add: licence_activated_def)

text \<open>The secret of the local network is called optional, but without it the form is not submitted.\<close>

lemma optional_secret_required:
  "cl_mode (pw_page W) = Cloud_lan \<Longrightarrow> cl_serverSecret (pw_page W) = [] \<Longrightarrow> cloud_submit email_ok W = W"
  by (simp add: cloud_submit_def cloud_complete_def Let_def)

end
