(* ===== verification/Admin.thy ===== *)
theory Admin
  imports License Calendar Pages
begin

text \<open>
  The dashboard of the licence administrators (\<open>admin-dashboard/src\<close>): the list of licences with its figures,
  filter and actions (\<open>pages/Licenses.tsx\<close>, \<open>LicenseCard.tsx\<close>) and the creation of licences
  (\<open>pages/CreateLicense.tsx\<close>), as steps of a page, and the effect of its requests on the table that the licence
  service reads (theory \<open>License\<close>). A moment is a local date and the milliseconds of its day; \<open>tz\<close> is what local
  time is ahead of UTC, constant over the year as it is in Iraq.
\<close>

section \<open>Moments\<close>

type_synonym moment = "local_date \<times> int"

definition leaps :: "int \<Rightarrow> int" where
  "leaps y = (y + 3) div 4 - (y + 99) div 100 + (y + 399) div 400"

text \<open>Days from the first day of the year 0 to the last one before a month.\<close>

definition month_start :: "int \<Rightarrow> nat \<Rightarrow> int" where
  "month_start y m = 365 * y + leaps y + sum_list (map (\<lambda>k. int (month_length y k)) [0..<m])"

definition day_number :: "local_date \<Rightarrow> int" where
  "day_number d = month_start (d_year d) (d_month d) + int (d_day d) - 719529"

definition moment_ms :: "int \<Rightarrow> moment \<Rightarrow> int" where
  "moment_ms tz m = 86400000 * day_number (fst m) + snd m - tz"

text \<open>\<open>new Date(null)\<close> is the epoch.\<close>

definition expiry_date :: "int \<Rightarrow> moment option \<Rightarrow> moment" where
  "expiry_date tz e = (case e of Some m \<Rightarrow> m
     | None \<Rightarrow> if 0 \<le> tz then (\<lparr> d_year = 1970, d_month = 0, d_day = 1 \<rparr>, tz)
         else (\<lparr> d_year = 1969, d_month = 11, d_day = 31 \<rparr>, 86400000 + tz))"

definition add_months :: "nat \<Rightarrow> moment \<Rightarrow> moment" where
  "add_months k m = (setMonth (int (d_month (fst m)) + int k) (fst m), snd m)"

definition add_days :: "nat \<Rightarrow> moment \<Rightarrow> moment" where
  "add_days k m = (roll_over (d_year (fst m)) (d_month (fst m)) (d_day (fst m) + k), snd m)"

section \<open>Licences\<close>

record admin_license =
  al_id :: nat
  al_key :: jstr
  al_status :: jstr
  al_user :: "jstr option"
  al_store :: "jstr option"
  al_name :: "jstr option"
  al_phone :: "jstr option"
  al_expires :: "moment option"
  al_features :: "(jstr \<times> bool) list"
  al_created :: int
  al_paid :: bool

definition al_expired :: "int \<Rightarrow> int \<Rightarrow> admin_license \<Rightarrow> bool" where
  "al_expired tz now l = (moment_ms tz (expiry_date tz (al_expires l)) < now)"

definition al_current :: "int \<Rightarrow> int \<Rightarrow> admin_license \<Rightarrow> bool" where
  "al_current tz now l = (now < moment_ms tz (expiry_date tz (al_expires l)))"

definition al_feature :: "jstr \<Rightarrow> admin_license \<Rightarrow> bool" where
  "al_feature k l = (map_of (al_features l) k = Some True)"

record license_figures =
  lt_total :: nat
  lt_active :: nat
  lt_banned :: nat
  lt_expired :: nat
  lt_paid :: nat
  lt_unpaid :: nat
  lt_ai :: nat
  lt_cloud :: nat
  lt_whatsapp :: nat
  lt_value :: nat
  lt_unpaidValue :: nat

definition license_stats :: "int \<Rightarrow> int \<Rightarrow> admin_license list \<Rightarrow> license_figures" where
  "license_stats tz now ls =
     (let count = (\<lambda>P. length (filter P ls)); paid = count al_paid
      in \<lparr> lt_total = length ls, lt_active = count (\<lambda>l. al_status l = js ''active'' \<and> al_current tz now l),
           lt_banned = count (\<lambda>l. al_status l = js ''banned''),
           lt_expired = count (\<lambda>l. al_status l \<noteq> js ''banned'' \<and> al_expired tz now l),
           lt_paid = paid, lt_unpaid = length ls - paid,
           lt_ai = count (al_feature (js ''ai_features'')), lt_cloud = count (al_feature (js ''cloud_sync'')),
           lt_whatsapp = count (al_feature (js ''whatsapp_integration'')),
           lt_value = paid * 250000, lt_unpaidValue = (length ls - paid) * 250000 \<rparr>)"

datatype license_status_filter = All_licenses | Active_licenses | Banned_licenses | Expired_licenses
datatype payment_filter = Any_payment | Paid_licenses | Unpaid_licenses
datatype license_order = Newest | Oldest | Expiry_soon | Expiry_late

text \<open>\<open>lower\<close> is \<open>toLowerCase\<close>; \<open>join\<close> writes nothing for a missing text.\<close>

definition match_text :: "admin_license \<Rightarrow> jstr" where
  "match_text l = join [32] [opt_default [] (al_name l), opt_default [] (al_phone l), opt_default [] (al_store l), al_key l]"

definition license_matches ::
  "(jstr \<Rightarrow> jstr) \<Rightarrow> int \<Rightarrow> int \<Rightarrow> jstr \<Rightarrow> license_status_filter \<Rightarrow> payment_filter \<Rightarrow> admin_license \<Rightarrow> bool" where
  "license_matches lower tz now term status payment l =
     (str_includes (lower (match_text l)) (lower term)
      \<and> (case status of
           All_licenses \<Rightarrow> True
         | Active_licenses \<Rightarrow> al_status l = js ''active'' \<and> \<not> al_expired tz now l
         | Banned_licenses \<Rightarrow> al_status l = js ''banned''
         | Expired_licenses \<Rightarrow> al_expired tz now l \<and> al_status l \<noteq> js ''banned'')
      \<and> (case payment of Any_payment \<Rightarrow> True | Paid_licenses \<Rightarrow> al_paid l | Unpaid_licenses \<Rightarrow> \<not> al_paid l))"

definition license_key :: "int \<Rightarrow> license_order \<Rightarrow> admin_license \<Rightarrow> int" where
  "license_key tz ord l =
     (let e = moment_ms tz (expiry_date tz (al_expires l))
      in case ord of Newest \<Rightarrow> - al_created l | Oldest \<Rightarrow> al_created l | Expiry_soon \<Rightarrow> e | Expiry_late \<Rightarrow> - e)"

definition filteredLicenses ::
  "(jstr \<Rightarrow> jstr) \<Rightarrow> int \<Rightarrow> int \<Rightarrow> jstr \<Rightarrow> license_status_filter \<Rightarrow> payment_filter \<Rightarrow> license_order \<Rightarrow> admin_license list \<Rightarrow> admin_license list" where
  "filteredLicenses lower tz now term status payment ord ls =
     sort_key (license_key tz ord) (filter (license_matches lower tz now term status payment) ls)"

subsection \<open>The card of a licence\<close>

definition days_left :: "int \<Rightarrow> int \<Rightarrow> admin_license \<Rightarrow> int" where
  "days_left tz now l = - ((now - moment_ms tz (expiry_date tz (al_expires l))) div 86400000)"

definition card_status :: "int \<Rightarrow> int \<Rightarrow> admin_license \<Rightarrow> jstr \<times> jstr" where
  "card_status tz now l =
     (if al_status l = js ''banned'' then (js ''red'', [1605, 1581, 1592, 1608, 1585])
      else if al_expired tz now l then (js ''amber'', [1605, 1606, 1578, 1607, 1610])
      else if al_status l = js ''active'' then (js ''emerald'', [1606, 1588, 1591])
      else (js ''slate'', al_status l))"

definition days_text :: "int \<Rightarrow> jstr" where
  "days_text n = (if 0 < n then (if 365 < n then show_int (n div 365) @ [32, 1587, 1606,
    1577] else show_int n @ [32, 1610, 1608, 1605]) else [1605, 1606, 1578, 1607, 1610])"

section \<open>The page\<close>

record admin_page =
  ad_licenses :: "admin_license list"
  ad_search :: jstr
  ad_status :: license_status_filter
  ad_payment :: payment_filter
  ad_sort :: license_order
  ad_details :: "admin_license option"
  ad_extend :: "admin_license option"
  ad_statusConfirm :: "(nat \<times> jstr \<times> jstr) option"
  ad_resetConfirm :: "(nat \<times> jstr) option"
  ad_deleteConfirm :: "(nat \<times> jstr) option"

definition admin_start :: admin_page where
  "admin_start = \<lparr> ad_licenses = [], ad_search = [], ad_status = All_licenses, ad_payment = Any_payment, ad_sort = Newest,
     ad_details = None, ad_extend = None, ad_statusConfirm = None, ad_resetConfirm = None, ad_deleteConfirm = None \<rparr>"

text \<open>What is done to a licence: the update with the key of the licence, for the log.\<close>

datatype admin_change =
    Set_paid bool
  | Set_status jstr
  | Reset_trial moment
  | Extend_license moment nat
  | Remove_license
  | Set_features admin_license jstr bool

datatype admin_request =
    Fetch_licenses
  | Change nat jstr admin_change
  | Log_action jstr jstr jstr admin_change

type_synonym admin_world = "(admin_page, admin_request) page_world"

definition licenses_fetched :: "admin_license list + jstr \<Rightarrow> admin_world \<Rightarrow> admin_world" where
  "licenses_fetched a W = (case a of
     Inl ls \<Rightarrow> turns (\<lambda>p. p\<lparr>ad_licenses := ls\<rparr>) W
   | Inr m \<Rightarrow> tells [Says ([1582, 1591, 1571, 32, 1601, 1610, 32, 1578, 1581, 1605,
     1610, 1604, 32, 1575, 1604, 1578, 1585,
  1575, 1582, 1610, 1589, 58, 32] @ m) T_error] W)"

definition togglePaymentStatus :: "admin_license \<Rightarrow> admin_world \<Rightarrow> admin_world" where
  "togglePaymentStatus l = asks (Change (al_id l) (al_key l) (Set_paid (\<not> al_paid l)))"

definition confirmStatusUpdate :: "admin_world \<Rightarrow> admin_world" where
  "confirmStatusUpdate W = (case ad_statusConfirm (pw_page W) of None \<Rightarrow> W | Some (i, s, k) \<Rightarrow> asks (Change i k (Set_status s)) W)"

text \<open>Seven days from now.\<close>

definition confirmResetToTrial :: "moment \<Rightarrow> admin_world \<Rightarrow> admin_world" where
  "confirmResetToTrial now W = (case ad_resetConfirm (pw_page W) of None \<Rightarrow> W
     | Some (i, k) \<Rightarrow> asks (Change i k (Reset_trial (add_days 7 now))) W)"

text \<open>Counted from the expiry that is shown.\<close>

definition confirmExtendLicense :: "int \<Rightarrow> nat \<Rightarrow> admin_world \<Rightarrow> admin_world" where
  "confirmExtendLicense tz months W = (case ad_extend (pw_page W) of None \<Rightarrow> W
     | Some l \<Rightarrow> asks (Change (al_id l) (al_key l) (Extend_license (add_months months (expiry_date tz (al_expires l))) months)) W)"

definition confirmDeleteLicense :: "admin_world \<Rightarrow> admin_world" where
  "confirmDeleteLicense W = (case ad_deleteConfirm (pw_page W) of None \<Rightarrow> W
     | Some (i, k) \<Rightarrow> asks (Change i k Remove_license) W)"

definition toggleFeature :: "admin_license \<Rightarrow> jstr \<Rightarrow> bool \<Rightarrow> admin_world \<Rightarrow> admin_world" where
  "toggleFeature l featureKey newValue = asks (Change (al_id l) (al_key l)
     (Set_features (l\<lparr> al_features := obj_put featureKey newValue (al_features l) \<rparr>) featureKey newValue))"

definition feature_label :: "jstr \<Rightarrow> jstr" where
  "feature_label k = (if k = js ''ai_features'' then [1575, 1604, 1584, 1603, 1575, 1569, 32,
    1575, 1604, 1575, 1589, 1591, 1606, 1575, 1593,
    1610] else if k = js ''inventory_pro'' then [1573, 1583, 1575, 1585, 1577, 32, 1575, 1604,
    1605, 1582, 1586, 1608, 1606]
     else if k = js ''whatsapp_integration'' then [1585, 1576, 1591, 32, 1608, 1575, 1578, 1587,
       1575, 1576] else [1575, 1604, 1606, 1587, 1582, 32, 1575, 1604, 1587, 1581, 1575, 1576,
       1610, 32, 40, 76, 65, 78, 41])"

text \<open>The action and the details of the log, and the toasts.\<close>

definition change_log :: "admin_change \<Rightarrow> jstr \<times> jstr" where
  "change_log c = (case c of
     Set_paid b \<Rightarrow> (js ''UPDATE_PAYMENT'', [1578, 1594, 1610, 1610, 1585, 32, 1581,
       1575, 1604, 1577, 32, 1575, 1604, 1583, 1601, 1593, 32,
  1573, 1604, 1609, 58, 32] @ (if b then [1605, 1583, 1601, 1608, 1593] else [1594, 1610, 1585,
    32, 1605, 1583, 1601, 1608, 1593]))
   | Set_status s \<Rightarrow> (js ''UPDATE_STATUS'', [1578, 1594, 1610, 1610, 1585, 32, 1581,
     1575, 1604, 1577, 32, 1575, 1604, 1578, 1585, 1582,
  1610, 1589, 32, 1573, 1604, 1609, 58, 32] @ (if s = js ''active'' then [1606, 1588,
    1591] else [1605, 1581, 1592, 1608, 1585]))
   | Reset_trial m \<Rightarrow> (js ''RESET_TO_TRIAL'', [1573, 1593, 1575, 1583, 1577, 32, 1590,
     1576, 1591, 32, 1575, 1604, 1585, 1582, 1589, 1577, 32,
  1604, 1601, 1578, 1585, 1577, 32, 1578, 1580, 1585, 1610, 1576, 1610, 1577, 32, 40, 55, 32,
  1571, 1610, 1575, 1605, 41])
   | Extend_license m k \<Rightarrow> (js ''EXTEND_LICENSE'', [1578, 1605, 1583, 1610, 1583, 32,
     1575, 1604, 1589, 1604, 1575, 1581, 1610, 1577, 32, 1604,
  1600, 32] @ show_nat k @ [32, 1571, 1588, 1607, 1585])
   | Remove_license \<Rightarrow> (js ''DELETE_LICENSE'', [1581, 1584, 1601, 32, 1575, 1604,
     1578, 1585, 1582, 1610, 1589, 32, 1576, 1588, 1603, 1604, 32,
  1606, 1607, 1575, 1574, 1610])
   | Set_features l k b \<Rightarrow> (js ''TOGGLE_FEATURE'', [1605, 1610, 1586, 1577, 32,
     91] @ feature_label k @ [93, 58, 32] @ (if b then [1578, 1601, 1593, 1610, 1604] else [1578,
     1593, 1591, 1610, 1604])))"

definition done_toast :: "admin_change \<Rightarrow> jstr" where
  "done_toast c = (case c of
     Set_paid b \<Rightarrow> if b then [1578, 1605, 32, 1578, 1587, 1580, 1610, 1604, 32, 1578,
       1587, 1583, 1610, 1583, 32, 1575, 1604,
  1578, 1585, 1582, 1610, 1589, 32, 1576, 1606, 1580, 1575, 1581] else [1578, 1605, 32, 1578,
    1593, 1604, 1610, 1602, 32, 1583, 1601, 1593, 32, 1575, 1604, 1578, 1585,
  1582, 1610, 1589]
   | Set_status s \<Rightarrow> if s = js ''active'' then [1578, 1605, 32, 1578, 1601, 1593,
     1610, 1604, 32, 1575, 1604, 1578, 1585, 1582, 1610, 1589] else [1578, 1605, 32, 1581, 1592,
     1585, 32, 1575, 1604, 1578, 1585, 1582, 1610, 1589, 32, 1576, 1606,
  1580, 1575, 1581]
   | Reset_trial m \<Rightarrow> [1578, 1605, 1578, 32, 1573, 1593, 1575, 1583, 1577, 32, 1590,
     1576, 1591, 32, 1575, 1604, 1578,
  1585, 1582, 1610, 1589, 32, 1604, 1601, 1578, 1585, 1577, 32, 1578, 1580, 1585, 1610, 1576,
  1610, 1577, 32, 55, 32, 1571, 1610, 1575, 1605]
   | Extend_license m k \<Rightarrow> [1578, 1605, 32, 1578, 1605, 1583, 1610, 1583, 32, 1589,
     1604, 1575, 1581, 1610, 1577, 32, 1575,
  1604, 1578, 1585, 1582, 1610, 1589, 32, 1576, 1606, 1580, 1575, 1581]
   | Remove_license \<Rightarrow> [1578, 1605, 32, 1581, 1584, 1601, 32, 1575, 1604, 1578, 1585,
     1582, 1610, 1589, 32, 1576, 1606,
  1580, 1575, 1581]
   | Set_features l k b \<Rightarrow> [1578, 1605, 32, 1578, 1593, 1583, 1610, 1604, 32, 1605,
     1610, 1586, 1577, 32] @ feature_label k @ [32, 1576, 1606, 1580, 1575, 1581])"

definition failed_toast :: "admin_change \<Rightarrow> jstr" where
  "failed_toast c = (case c of
     Set_paid b \<Rightarrow> [1601, 1588, 1604, 32, 1578, 1593, 1583, 1610, 1604, 32, 1581,
       1575, 1604, 1577, 32, 1575, 1604,
  1583, 1601, 1593, 58, 32]
   | Set_status s \<Rightarrow> [1601, 1588, 1604, 32, 1578, 1581, 1583, 1610, 1579, 32, 1575,
     1604, 1581, 1575, 1604, 1577, 58, 32]
   | Reset_trial m \<Rightarrow> [1601, 1588, 1604, 32, 1573, 1593, 1575, 1583, 1577, 32, 1590,
     1576, 1591, 32, 1575, 1604, 1578,
  1585, 1582, 1610, 1589, 58, 32]
   | Extend_license m k \<Rightarrow> [1601, 1588, 1604, 32, 1578, 1605, 1583, 1610, 1583, 32,
     1575, 1604, 1578, 1585, 1582, 1610,
  1589, 58, 32]
   | Remove_license \<Rightarrow> [1601, 1588, 1604, 32, 1575, 1604, 1581, 1584, 1601, 58, 32]
   | Set_features l k b \<Rightarrow> [1601, 1588, 1604, 32, 1578, 1593, 1583, 1610, 1604, 32,
     1575, 1604, 1605, 1610, 1586, 1577, 58, 32])"

text \<open>The \<open>finally\<close> of a handler closes its dialog.\<close>

definition close_admin_dialog :: "admin_change \<Rightarrow> admin_page \<Rightarrow> admin_page" where
  "close_admin_dialog c p = (case c of
     Set_status s \<Rightarrow> p\<lparr>ad_statusConfirm := None\<rparr>
   | Reset_trial m \<Rightarrow> p\<lparr>ad_resetConfirm := None\<rparr>
   | Extend_license m k \<Rightarrow> p\<lparr>ad_extend := None\<rparr>
   | Remove_license \<Rightarrow> p\<lparr>ad_deleteConfirm := None\<rparr>
   | _ \<Rightarrow> p)"

definition license_changed :: "jstr \<Rightarrow> admin_change \<Rightarrow> jstr option \<Rightarrow> admin_world \<Rightarrow> admin_world" where
  "license_changed k c err W = (case err of
     Some m \<Rightarrow> turns (close_admin_dialog c) (tells [Says (failed_toast c @ m) T_error] W)
   | None \<Rightarrow> asks (Log_action (fst (change_log c)) k (snd (change_log c)) c) W)"

text \<open>After the log: most actions list the licences again, a feature is put into the list at hand, and into the
  details window, which was open when the feature was clicked.\<close>

definition replace_license :: "admin_license \<Rightarrow> admin_page \<Rightarrow> admin_page" where
  "replace_license l p = p\<lparr> ad_licenses := map (\<lambda>x. if al_id x = al_id l then l else x) (ad_licenses p),
     ad_details := Some l \<rparr>"

definition action_logged :: "admin_change \<Rightarrow> admin_world \<Rightarrow> admin_world" where
  "action_logged c W0 =
     (let W = tells [Says (done_toast c) T_success] W0
      in case c of Set_features l k b \<Rightarrow> turns (replace_license l) W | _ \<Rightarrow> turns (close_admin_dialog c) (asks Fetch_licenses W))"

datatype admin_answer = Licenses_answer "admin_license list + jstr" | Change_answer "jstr option" | Logged

definition admin_answered :: "admin_answer \<Rightarrow> admin_request \<Rightarrow> admin_world \<Rightarrow> admin_world" where
  "admin_answered a r W = (case (r, a) of
     (Fetch_licenses, Licenses_answer x) \<Rightarrow> licenses_fetched x W
   | (Change i k c, Change_answer err) \<Rightarrow> license_changed k c err W
   | (Log_action n k d c, Logged) \<Rightarrow> action_logged c W
   | _ \<Rightarrow> W)"

datatype admin_input =
    Search_license jstr
  | Choose_status license_status_filter
  | Choose_payment payment_filter
  | Choose_order license_order
  | Show_details "admin_license option"
  | Show_extend "admin_license option"
  | Ask_status admin_license
  | Ask_reset admin_license
  | Ask_delete admin_license
  | Cancel_status
  | Cancel_reset
  | Cancel_delete

text \<open>The card bans an active licence and activates any other.\<close>

definition on_admin_input :: "admin_input \<Rightarrow> admin_page \<Rightarrow> admin_page" where
  "on_admin_input e p = (case e of
     Search_license t \<Rightarrow> p\<lparr>ad_search := t\<rparr>
   | Choose_status s \<Rightarrow> p\<lparr>ad_status := s\<rparr>
   | Choose_payment s \<Rightarrow> p\<lparr>ad_payment := s\<rparr>
   | Choose_order s \<Rightarrow> p\<lparr>ad_sort := s\<rparr>
   | Show_details l \<Rightarrow> p\<lparr>ad_details := l\<rparr>
   | Show_extend l \<Rightarrow> p\<lparr>ad_extend := l\<rparr>
   | Ask_status l \<Rightarrow> p\<lparr>ad_statusConfirm := Some (al_id l,
       if al_status l = js ''active'' then js ''banned'' else js ''active'', al_key l)\<rparr>
   | Ask_reset l \<Rightarrow> p\<lparr>ad_resetConfirm := Some (al_id l, al_key l)\<rparr>
   | Ask_delete l \<Rightarrow> p\<lparr>ad_deleteConfirm := Some (al_id l, al_key l)\<rparr>
   | Cancel_status \<Rightarrow> p\<lparr>ad_statusConfirm := None\<rparr>
   | Cancel_reset \<Rightarrow> p\<lparr>ad_resetConfirm := None\<rparr>
   | Cancel_delete \<Rightarrow> p\<lparr>ad_deleteConfirm := None\<rparr>)"

datatype admin_event =
    Admin_input admin_input
  | Admin_opened
  | Toggle_payment admin_license
  | Confirm_status
  | Confirm_reset moment
  | Confirm_extend nat
  | Confirm_removal
  | Toggle_feature jstr
  | Admin_answered nat admin_answer

definition admin_step :: "int \<Rightarrow> admin_world \<Rightarrow> admin_event \<Rightarrow> admin_world" where
  "admin_step tz W e = (case e of
     Admin_input i \<Rightarrow> turns (on_admin_input i) W
   | Admin_opened \<Rightarrow> asks Fetch_licenses W
   | Toggle_payment l \<Rightarrow> togglePaymentStatus l W
   | Confirm_status \<Rightarrow> confirmStatusUpdate W
   | Confirm_reset now \<Rightarrow> confirmResetToTrial now W
   | Confirm_extend k \<Rightarrow> (if k \<in> {3, 6, 12} then confirmExtendLicense tz k W else W)
   | Confirm_removal \<Rightarrow> confirmDeleteLicense W
   | Toggle_feature k \<Rightarrow> (case ad_details (pw_page W) of None \<Rightarrow> W | Some l \<Rightarrow> toggleFeature l k (\<not> al_feature k l) W)
   | Admin_answered k a \<Rightarrow> answers k (admin_answered a) W)"

section \<open>The table\<close>

text \<open>What a change does to the row with the id. The columns of the payment are not in the model of the service.\<close>

definition status_of :: "jstr \<Rightarrow> license_status" where
  "status_of s = (if s = js ''active'' then Ls_active else if s = js ''suspended'' then Ls_suspended else Ls_other s)"

definition row_change :: "int \<Rightarrow> admin_change \<Rightarrow> license \<Rightarrow> license" where
  "row_change tz c r = (case c of
     Set_status s \<Rightarrow> r\<lparr> ls_status := status_of s \<rparr>
   | Reset_trial m \<Rightarrow> r\<lparr> ls_expires_at := Some (moment_ms tz m), ls_status := Ls_active \<rparr>
   | Extend_license m k \<Rightarrow> r\<lparr> ls_expires_at := Some (moment_ms tz m), ls_status := Ls_active \<rparr>
   | Set_features l k b \<Rightarrow> r\<lparr> ls_features := JObj (map (\<lambda>(k, b). (k, JBool b)) (al_features l)) \<rparr>
   | _ \<Rightarrow> r)"

definition admin_effect :: "int \<Rightarrow> admin_request \<Rightarrow> license_table \<Rightarrow> license_table" where
  "admin_effect tz rq t = (case rq of
     Change i k Remove_license \<Rightarrow> filter (\<lambda>r. ls_id r \<noteq> i) t
   | Change i k c \<Rightarrow> update_where (\<lambda>r. ls_id r = i) (row_change tz c) t
   | _ \<Rightarrow> t)"

section \<open>Creating a licence\<close>

definition key_digits :: jstr where
  "key_digits = js ''0123456789ABCDEF''"

text \<open>\<open>ds\<close> are the sixteen values of \<open>Math.floor(Math.random() * 16)\<close>.\<close>

definition generateLicenseKey :: "nat list \<Rightarrow> jstr" where
  "generateLicenseKey ds = js ''BIDAR-'' @ map (\<lambda>d. key_digits ! d) ds"

record create_page =
  nc_name :: jstr
  nc_phone :: jstr
  nc_months :: nat
  nc_features :: "(jstr \<times> bool) list"
  nc_clipboard :: "jstr option"
  nc_done :: bool

definition create_start :: create_page where
  "create_start = \<lparr> nc_name = [], nc_phone = [], nc_months = 12,
     nc_features = [(js ''ai_features'', True), (js ''inventory_pro'', True), (js ''whatsapp_integration'', False), (js ''cloud_sync'', False)],
     nc_clipboard = None, nc_done = False \<rparr>"

definition toggleFeatureForm :: "jstr \<Rightarrow> create_page \<Rightarrow> create_page" where
  "toggleFeatureForm k p = p\<lparr> nc_features := obj_put k (map_of (nc_features p) k \<noteq> Some True) (nc_features p) \<rparr>"

text \<open>The closure keeps the name and the months for the log.\<close>

datatype create_request =
    Insert_license jstr jstr jstr moment "(jstr \<times> bool) list" jstr nat
  | Log_creation jstr jstr

type_synonym create_world = "(create_page, create_request) page_world"

definition createLicense :: "moment \<Rightarrow> nat list \<Rightarrow> create_world \<Rightarrow> create_world" where
  "createLicense now ds W =
     (let p = pw_page W
      in if trim (nc_name p) = [] then tells [Says [1575, 1587, 1605, 32, 1575, 1604, 1593, 1605,
        1610, 1604, 32, 1605, 1591, 1604, 1608, 1576, 46] T_error] W
         else asks (Insert_license (generateLicenseKey ds) (trim (nc_name p)) (trim (nc_phone p)) (add_months (nc_months p) now)
           (nc_features p) (nc_name p) (nc_months p)) W)"

definition license_inserted :: "jstr \<Rightarrow> jstr \<Rightarrow> nat \<Rightarrow> jstr option \<Rightarrow> create_world \<Rightarrow> create_world" where
  "license_inserted k n m err W = (case err of
     Some e \<Rightarrow> tells [Says ([1601, 1588, 1604, 32, 1573, 1606, 1588, 1575, 1569, 32,
       1575, 1604, 1578, 1585, 1582, 1610,
  1589, 58, 32] @ e) T_error] W
   | None \<Rightarrow> asks (Log_creation k ([1578, 1605, 32, 1573, 1606, 1588, 1575, 1569, 32,
     1585, 1582, 1589, 1577, 32, 1604, 1604, 1593,
  1605, 1610, 1604, 32] @ n @ [32, 1589, 1575, 1604, 1581, 1577, 32, 1604, 1605, 1583, 1577,
    32] @ show_nat m @ [32, 1588, 1607, 1585])) W)"

definition creation_logged :: "jstr \<Rightarrow> create_world \<Rightarrow> create_world" where
  "creation_logged k W =
     turns (\<lambda>p. p\<lparr> nc_name := [], nc_phone := [], nc_clipboard := Some k, nc_done := True \<rparr>)
       (tells [Says ([1578, 1605, 32, 1573, 1606, 1588, 1575, 1569, 32, 1575, 1604, 1585, 1582,
         1589, 1577, 32, 1576,
  1606, 1580, 1575, 1581, 58, 32] @ k) T_success] W)"

section \<open>Months and days\<close>

lemma next_div_mod:
  assumes "1 < (n::int)"
  shows "(x + 1) div n = x div n + of_bool (x mod n + 1 = n)" "(x + 1) mod n = (if x mod n + 1 = n then 0 else x mod n + 1)"
proof -
  have x: "x + 1 = n * (x div n) + (x mod n + 1)" using mult_div_mod_eq [of n x] by linarith
  have b: "0 \<le> x mod n" "x mod n < n" using assms by simp_all
  have "(x + 1) div n = x div n + of_bool (x mod n + 1 = n) \<and> (x + 1) mod n = (if x mod n + 1 = n then 0 else x mod n + 1)"
  proof (cases "x mod n + 1 = n")
    case True
    then have "x + 1 = n * (x div n + 1)" using x by (simp add: algebra_simps)
    then show ?thesis using assms True by simp
  next
    case False
    then show ?thesis using b by (auto intro!: int_div_pos_eq [OF x] int_mod_pos_eq [OF x])
  qed
  then show "(x + 1) div n = x div n + of_bool (x mod n + 1 = n)" "(x + 1) mod n = (if x mod n + 1 = n then 0 else x mod n + 1)"
    by simp_all
qed

lemma div_plus1:
  assumes "1 < n"
  shows "(x + 1) div n = x div n + of_bool ((x + 1) mod n = (0::int))"
proof -
  have "0 \<le> x mod n" using assms by simp
  then show ?thesis using next_div_mod [OF assms, of x] by simp
qed

lemma leaps_Suc: "leaps (y + 1) = leaps y + of_bool (leap y)"
proof -
  have up: "(y + n) div n = (y + m) div n + of_bool (y mod n = 0)" if "1 < n" "n = m + 1" for n m :: int
  proof -
    have "y + m + 1 = y + n" using that by simp
    with div_plus1 [OF that(1), of "y + m"] show ?thesis by simp
  qed
  have u: "(y + 4) div 4 = (y + 3) div 4 + of_bool (y mod 4 = 0)" "(y + 100) div 100 = (y + 99) div 100 + of_bool (y mod 100 = 0)"
    "(y + 400) div 400 = (y + 399) div 400 + of_bool (y mod 400 = 0)" by (rule up; simp)+
  have "(100::int) dvd 400" "(4::int) dvd 100" by simp_all
  then have "400 dvd y \<Longrightarrow> 100 dvd y" "100 dvd y \<Longrightarrow> 4 dvd y" using dvd_trans by blast+
  then have m: "y mod 400 = 0 \<Longrightarrow> y mod 100 = 0" "y mod 100 = 0 \<Longrightarrow> y mod 4 = 0" by (simp_all only: dvd_eq_mod_eq_0)
  define a b c where "a = (y + 3) div 4" and "b = (y + 99) div 100" and "c = (y + 399) div 400"
  have s: "y + 1 + 3 = y + 4" "y + 1 + 99 = y + 100" "y + 1 + 399 = y + 400" by simp_all
  have "leaps (y + 1) = a + of_bool (y mod 4 = 0) - (b + of_bool (y mod 100 = 0)) + (c + of_bool (y mod 400 = 0))"
    unfolding leaps_def s u a_def b_def c_def by (rule refl)
  also have "\<dots> = a - b + c + (of_bool (y mod 4 = 0) - of_bool (y mod 100 = 0) + of_bool (y mod 400 = 0))" by linarith
  also have "(of_bool (y mod 4 = 0) - of_bool (y mod 100 = 0) + of_bool (y mod 400 = 0)) = (of_bool (leap y) :: int)"
    unfolding leap_def using m by (cases "y mod 4 = 0"; cases "y mod 100 = 0"; cases "y mod 400 = 0"; simp only: of_bool_def simp_thms if_True if_False; simp)
  finally show ?thesis unfolding leaps_def a_def b_def c_def .
qed

lemma month_start_Suc: "month_start y (Suc m) = month_start y m + int (month_length y m)"
  by (simp add: month_start_def)

lemma month_start_year: "month_start y 12 = month_start (y + 1) 0"
proof -
  have "[0..<12] = [0, 1, 2, 3, 4, 5, 6, 7, 8, 9, 10, 11::nat]" by (simp add: upt_rec)
  then have "sum_list (map (\<lambda>k. int (month_length y k)) [0..<12]) = 365 + of_bool (leap y)"
    by (simp add: month_length_def)
  then show ?thesis by (simp add: month_start_def leaps_Suc)
qed

text \<open>Rolling a day over into the next months does not change its number.\<close>

lemma day_number_roll_over: "m < 12 \<Longrightarrow> day_number (roll_over y m d) = month_start y m + int d - 719529"
proof (induction y m d rule: roll_over.induct)
  case (1 y m d)
  show ?case
  proof (cases "d \<le> month_length y m")
    case True
    then show ?thesis by (simp add: roll_over_fits day_number_def)
  next
    case False
    then have l: "int (d - month_length y m) = int d - int (month_length y m)" by simp
    show ?thesis
    proof (cases "m < 11")
      case True
      have "roll_over y m d = roll_over y (m + 1) (d - month_length y m)"
        using False True by (subst roll_over.simps) simp
      moreover have "day_number (roll_over y (m + 1) (d - month_length y m)) = month_start y (m + 1) + int (d - month_length y m) - 719529"
        using 1 False True by simp
      ultimately show ?thesis using month_start_Suc [of y m] l by simp
    next
      case m: False
      with \<open>m < 12\<close> have eq: "m = 11" by simp
      have "roll_over y m d = roll_over (y + 1) 0 (d - month_length y m)"
        using False m by (subst roll_over.simps) simp
      moreover have "day_number (roll_over (y + 1) 0 (d - month_length y m)) = month_start (y + 1) 0 + int (d - month_length y m) - 719529"
        using 1 False m by simp
      moreover have "month_start (y + 1) 0 = month_start y 11 + int (month_length y 11)"
        using month_start_Suc [of y 11] month_start_year [of y] by simp
      ultimately show ?thesis using l eq by simp
    qed
  qed
qed

text \<open>The month \<open>k\<close> months on.\<close>

definition month_on :: "int \<Rightarrow> int" where
  "month_on k = month_start (k div 12) (nat (k mod 12))"

lemma month_on_Suc: "month_on k + 28 \<le> month_on (k + 1) \<and> month_on (k + 1) \<le> month_on k + 31"
proof -
  have len: "28 \<le> int (month_length y m)" "int (month_length y m) \<le> 31" for y m
    using month_length_bounds [of y m] by linarith+
  show ?thesis
  proof (cases "k mod 12 = 11")
    case True
    then have "(k + 1) div 12 = k div 12 + 1" "(k + 1) mod 12 = 0" using next_div_mod [of 12 k] by simp_all
    then have "month_on (k + 1) = month_start (k div 12) 12" by (simp add: month_on_def month_start_year)
    also have "\<dots> = month_on k + int (month_length (k div 12) 11)"
      using True month_start_Suc [of "k div 12" 11] by (simp add: month_on_def)
    finally show ?thesis using len [of "k div 12" 11] by linarith
  next
    case False
    then have e: "(k + 1) div 12 = k div 12" "(k + 1) mod 12 = k mod 12 + 1" using next_div_mod [of 12 k] by simp_all
    have "0 \<le> k mod 12" by simp
    then have "nat (k mod 12 + 1) = Suc (nat (k mod 12))" by (simp add: nat_add_distrib)
    with e have "month_on (k + 1) = month_on k + int (month_length (k div 12) (nat (k mod 12)))"
      by (simp only: month_on_def month_start_Suc)
    then show ?thesis using len [of "k div 12" "nat (k mod 12)"] by linarith
  qed
qed

lemma month_on_add: "month_on k + 28 * int n \<le> month_on (k + int n) \<and> month_on (k + int n) \<le> month_on k + 31 * int n"
proof (induction n)
  case (Suc n)
  have s: "int (Suc n) = int n + 1" by simp
  have "k + int (Suc n) = (k + int n) + 1" by simp
  then have "month_on (k + int (Suc n)) = month_on ((k + int n) + 1)" by (rule arg_cong)
  with Suc month_on_Suc [of "k + int n"] show ?case unfolding s by auto
qed simp

lemma day_number_months:
  assumes "d_month d < 12"
  shows "day_number (setMonth (int (d_month d) + k) d) = month_on (12 * d_year d + int (d_month d) + k) + int (d_day d) - 719529"
    and "day_number d = month_on (12 * d_year d + int (d_month d)) + int (d_day d) - 719529"
proof -
  have e: "(12 * y + x) div 12 = y + x div 12" "(12 * y + x) mod 12 = x mod 12" for x y :: int by simp_all
  have n: "nat (x mod 12) < 12" for x :: int by simp
  show "day_number (setMonth (int (d_month d) + k) d) = month_on (12 * d_year d + int (d_month d) + k) + int (d_day d) - 719529"
    unfolding setMonth_def day_number_roll_over [OF n] month_on_def add.assoc [of "12 * d_year d"] e by simp
  show "day_number d = month_on (12 * d_year d + int (d_month d)) + int (d_day d) - 719529"
    unfolding month_on_def e day_number_def using assms by simp
qed

section \<open>What the actions do\<close>

text \<open>The new expiry asked for.\<close>

definition extended_to :: "int \<Rightarrow> nat \<Rightarrow> admin_license \<Rightarrow> int" where
  "extended_to tz k l = moment_ms tz (add_months k (expiry_date tz (al_expires l)))"

lemma extension_days:
  assumes "d_month (fst m) < 12"
  shows "moment_ms tz m + 86400000 * (28 * int k) \<le> moment_ms tz (add_months k m)"
    and "moment_ms tz (add_months k m) \<le> moment_ms tz m + 86400000 * (31 * int k)"
  using day_number_months [OF assms] month_on_add [of "12 * d_year (fst m) + int (d_month (fst m))" k]
  by (simp_all add: moment_ms_def add_months_def)

text \<open>Clicking the extension by \<open>k\<close> months, any number of times before it is answered, asks for one and the
  same new expiry, which is between 28 and 31 days per month after the expiry shown, even when the day of
  the month does not exist and rolls over into the next month.\<close>

lemma extension_bounds:
  assumes "ad_extend (pw_page W) = Some l" and "k \<in> {3, 6, 12}" and "al_expires l = Some m" and "d_month (fst m) < 12"
  shows "list_all (\<lambda>r. case r of Change i c (Extend_license e k') \<Rightarrow> i = al_id l \<and> k' = k
        \<and> moment_ms tz e = extended_to tz k l
        \<and> moment_ms tz m + 86400000 * (28 * int k) \<le> moment_ms tz e \<and> moment_ms tz e \<le> moment_ms tz m + 86400000 * (31 * int k)
      | _ \<Rightarrow> False) (drop (length (asked W)) (asked (run (admin_step tz) W (replicate n (Confirm_extend k)))))"
proof -
  let ?r = "Change (al_id l) (al_key l) (Extend_license (add_months k m) k)"
  have "asked (run (admin_step tz) W (replicate n (Confirm_extend k))) = asked W @ replicate n ?r"
    using assms(1)
  proof (induction n arbitrary: W)
    case (Suc n)
    have "admin_step tz W (Confirm_extend k) = asks ?r W"
      using Suc.prems assms(2,3) by (simp add: admin_step_def confirmExtendLicense_def expiry_date_def)
    with Suc show ?case by simp
  qed simp
  then show ?thesis using extension_days [OF assms(4), of tz k] assms(3)
    by (simp add: list_all_iff extended_to_def expiry_date_def)
qed

definition sample_admin_license :: admin_license where
  "sample_admin_license = \<lparr> al_id = 7, al_key = js ''BIDAR-0123456789ABCDEF'', al_status = js ''active'', al_user = None,
     al_store = None, al_name = None, al_phone = None,
     al_expires = Some (\<lparr> d_year = 2025, d_month = 10, d_day = 30 \<rparr>, 0), al_features = [], al_created = 0, al_paid = True \<rparr>"

lemma extension_bounds_witness:
  "list_all (\<lambda>r. case r of Change i c (Extend_license e k') \<Rightarrow> i = al_id sample_admin_license \<and> k' = 3
        \<and> moment_ms 0 e = extended_to 0 3 sample_admin_license
        \<and> moment_ms 0 (\<lparr> d_year = 2025, d_month = 10, d_day = 30 \<rparr>, 0) + 86400000 * (28 * int 3) \<le> moment_ms 0 e
        \<and> moment_ms 0 e \<le> moment_ms 0 (\<lparr> d_year = 2025, d_month = 10, d_day = 30 \<rparr>, 0) + 86400000 * (31 * int 3)
      | _ \<Rightarrow> False)
    (drop (length (asked ((fresh_page (admin_start\<lparr>ad_extend := Some sample_admin_license\<rparr>)) :: admin_world)))
       (asked (run (admin_step 0) (fresh_page (admin_start\<lparr>ad_extend := Some sample_admin_license\<rparr>)) (replicate 2 (Confirm_extend 3)))))"
  by (rule extension_bounds) (simp_all add: sample_admin_license_def)

text \<open>The rows of an account.\<close>

definition account_rows :: "jstr \<Rightarrow> license_table \<Rightarrow> license list" where
  "account_rows u t = filter (\<lambda>r. ls_user r = Some u) t"

lemma account_rows_update:
  assumes "\<And>r. ls_user (f r) = ls_user r"
  shows "account_rows u (update_where P f t) = map (\<lambda>r. if P r then f r else r) (account_rows u t)"
  using assms by (induction t) (auto simp: account_rows_def update_where_def)

lemma row_change_user [simp]: "ls_user (row_change tz c r) = ls_user r"
  by (cases c) (simp_all add: row_change_def)

lemma verify_by_rows:
  assumes "u \<noteq> []"
  shows "rp_licensed (snd (verify_license True w t u now))
    = (case filter (\<lambda>r. ls_status r = Ls_active) (account_rows u t) of [l] \<Rightarrow> \<not> expired now l | _ \<Rightarrow> False)"
proof -
  have "filter (\<lambda>r. ls_user r = Some u \<and> ls_status r = Ls_active) t = filter (\<lambda>r. ls_status r = Ls_active) (account_rows u t)"
    by (simp add: account_rows_def conj_commute)
  then show ?thesis using assms
    by (simp add: verify_license_def single_row_def grant_def refuse_def split: list.split)
qed

text \<open>The other active licences of the account.\<close>

definition other_active :: "jstr \<Rightarrow> nat \<Rightarrow> license_table \<Rightarrow> license list" where
  "other_active u i t = filter (\<lambda>r. ls_user r = Some u \<and> ls_status r = Ls_active \<and> ls_id r \<noteq> i) t"

lemma update_elsewhere: "\<forall>l\<in>set t. ls_id l \<noteq> i \<Longrightarrow> update_where (\<lambda>l. ls_id l = i) f t = t"
  by (auto simp: update_where_def intro!: map_idI)

lemma other_active_elsewhere:
  "\<forall>l\<in>set t. ls_id l \<noteq> i \<Longrightarrow> other_active u i t = filter (\<lambda>l. ls_status l = Ls_active) (account_rows u t)"
  by (auto simp: other_active_def account_rows_def conj_commute intro!: filter_cong)

lemma active_after_change:
  assumes "table_ok t" and "r \<in> set t" and "ls_user r = Some u" and "\<And>r. ls_user (f r) = ls_user r"
  shows "\<exists>xs ys. other_active u (ls_id r) t = xs @ ys
    \<and> filter (\<lambda>l. ls_status l = Ls_active) (account_rows u (update_where (\<lambda>l. ls_id l = ls_id r) f t))
      = xs @ (if ls_status (f r) = Ls_active then [f r] else []) @ ys"
proof -
  let ?A = "\<lambda>t. filter (\<lambda>l. ls_status l = Ls_active) (account_rows u t)"
  obtain xs ys where t: "t = xs @ r # ys" using assms(2) by (auto simp: in_set_conv_decomp)
  have ids: "\<forall>l\<in>set xs. ls_id l \<noteq> ls_id r" "\<forall>l\<in>set ys. ls_id l \<noteq> ls_id r"
    using assms(1) unfolding t table_ok_def by (auto simp: image_iff)
  have "update_where (\<lambda>l. ls_id l = ls_id r) f t = xs @ f r # ys"
    using update_elsewhere [OF ids(1), of f] update_elsewhere [OF ids(2), of f] by (simp add: t update_where_def)
  moreover have "?A (xs @ f r # ys) = ?A xs @ (if ls_status (f r) = Ls_active then [f r] else []) @ ?A ys"
    using assms(3,4) by (simp add: account_rows_def)
  moreover have "other_active u (ls_id r) t = ?A xs @ ?A ys"
    unfolding other_active_elsewhere [OF ids(1), symmetric] other_active_elsewhere [OF ids(2), symmetric]
    by (simp add: t other_active_def)
  ultimately show ?thesis by metis
qed

text \<open>C27. The requests of the dashboard have the effect they name on the licence check of the service, which accepts
  an account with exactly one active licence that has not expired. After a licence is banned the account is refused,
  unless exactly one other of its licences is active and has not expired; after one is extended, banned before or not,
  the account is accepted exactly until the new expiry if none of its other licences is active, and refused
  otherwise.\<close>

theorem admin_controls_access:
  assumes "table_ok t" and "r \<in> set t" and "ls_user r = Some u" and "u \<noteq> []" and "al_id l = ls_id r"
  shows "rp_licensed (snd (verify_license True w
        (admin_effect tz (Change (al_id l) k (Set_status (js ''banned''))) t) u now))
      = (case other_active u (ls_id r) t of [o'] \<Rightarrow> \<not> expired now o' | _ \<Rightarrow> False)
    \<and> rp_licensed (snd (verify_license True w
        (admin_effect tz (Change (al_id l) k (Extend_license (add_months n (expiry_date tz (al_expires l))) n)) t) u now))
      = (other_active u (ls_id r) t = [] \<and> now \<le> extended_to tz n l)"
proof
  let ?licensed = "\<lambda>c. rp_licensed (snd (verify_license True w (admin_effect tz (Change (al_id l) k c) t) u now))"
  have by_active: "?licensed c = (case filter (\<lambda>l. ls_status l = Ls_active) (account_rows u (update_where (\<lambda>l. ls_id l = ls_id r) (row_change tz c) t))
      of [l] \<Rightarrow> \<not> expired now l | _ \<Rightarrow> False)" if "c \<noteq> Remove_license" for c
    using assms(4,5) that by (simp add: verify_by_rows admin_effect_def split: admin_change.split)
  let ?ban = "Set_status (js ''banned'')" and ?ext = "Extend_license (add_months n (expiry_date tz (al_expires l))) n"
  obtain xs ys where ban: "other_active u (ls_id r) t = xs @ ys"
    "filter (\<lambda>l. ls_status l = Ls_active) (account_rows u (update_where (\<lambda>l. ls_id l = ls_id r) (row_change tz ?ban) t)) = xs @ ys"
    using active_after_change [OF assms(1-3), of "row_change tz ?ban"] by (auto simp: row_change_def status_of_def)
  then show "?licensed ?ban = (case other_active u (ls_id r) t of [o'] \<Rightarrow> \<not> expired now o' | _ \<Rightarrow> False)"
    by (simp add: by_active)
  obtain xs ys where ext: "other_active u (ls_id r) t = xs @ ys"
    "filter (\<lambda>l. ls_status l = Ls_active) (account_rows u (update_where (\<lambda>l. ls_id l = ls_id r) (row_change tz ?ext) t))
      = xs @ [row_change tz ?ext r] @ ys"
    using active_after_change [OF assms(1-3), of "row_change tz ?ext"] by (auto simp: row_change_def)
  show "?licensed ?ext = (other_active u (ls_id r) t = [] \<and> now \<le> extended_to tz n l)"
    by (cases xs; cases ys) (auto simp: by_active ext row_change_def expired_def extended_to_def split: list.split)
qed

theorem admin_controls_access_witness:
  "\<not> rp_licensed (snd (verify_license True True
        (admin_effect 0 (Change (al_id sample_admin_license) [] (Set_status (js ''banned''))) [sample_license 7 (js ''K'') (Some (js ''u''))])
        (js ''u'') 5))
    \<and> rp_licensed (snd (verify_license True True
        (admin_effect 0 (Change (al_id sample_admin_license) [] (Set_status (js ''banned'')))
          [sample_license 7 (js ''K'') (Some (js ''u'')), sample_license 8 (js ''L'') (Some (js ''u''))])
        (js ''u'') 5))"
  using admin_controls_access [of "[sample_license 7 (js ''K'') (Some (js ''u''))]" "sample_license 7 (js ''K'') (Some (js ''u''))"
      "js ''u''" sample_admin_license True 0 "[]" 5]
    admin_controls_access [of "[sample_license 7 (js ''K'') (Some (js ''u'')), sample_license 8 (js ''L'') (Some (js ''u''))]"
      "sample_license 7 (js ''K'') (Some (js ''u''))" "js ''u''" sample_admin_license True 0 "[]" 5]
  by (simp add: table_ok_def sample_license_def sample_admin_license_def other_active_def expired_def js_def)

text \<open>A licence without an expiry never ends for the service. The dashboard shows it as expired in 1970, and an
  extension gives it that expiry: the account is locked out.\<close>

lemma unlimited_license_ended:
  assumes "account_rows u t = [r]" "u \<noteq> []" "ls_status r = Ls_active" "ls_expires_at r = None"
    and "al_id l = ls_id r" "al_expires l = None" and "1000 * 86400000 < now" and "k \<le> 12"
    and "0 \<le> tz" "tz < 86400000"
  shows "rp_licensed (snd (verify_license True w t u now))"
    and "\<not> rp_licensed (snd (verify_license True w
        (admin_effect tz (Change (al_id l) key (Extend_license (add_months k (expiry_date tz (al_expires l))) k)) t) u now))"
proof -
  show "rp_licensed (snd (verify_license True w t u now))" using assms by (simp add: verify_by_rows expired_def)
  let ?m = "expiry_date tz None"
  have m: "?m = (\<lparr> d_year = 1970, d_month = 0, d_day = 1 \<rparr>, tz)" using assms(9) by (simp add: expiry_date_def)
  have "moment_ms tz (add_months k ?m) \<le> moment_ms tz ?m + 86400000 * (31 * int k)"
    by (rule extension_days) (simp add: m)
  also have "moment_ms tz ?m = 0" by (simp add: m moment_ms_def day_number_def month_start_def leaps_def)
  finally have "moment_ms tz (add_months k ?m) < now" using assms(7,8) by linarith
  then show "\<not> rp_licensed (snd (verify_license True w
        (admin_effect tz (Change (al_id l) key (Extend_license (add_months k (expiry_date tz (al_expires l))) k)) t) u now))"
    using assms by (simp add: verify_by_rows admin_effect_def account_rows_update row_change_def expired_def)
qed

text \<open>Two features switched before the first answer: the second update writes all features as they were shown, and
  takes the first one back.\<close>

lemma feature_switched_back:
  assumes "ad_details (pw_page W) = Some l" and "a \<noteq> b"
  shows "\<exists>l'. asked (run (admin_step tz) W [Toggle_feature a, Toggle_feature b])
      = asked W @ [Change (al_id l) (al_key l) (Set_features (l\<lparr>al_features := obj_put a (\<not> al_feature a l) (al_features l)\<rparr>) a (\<not> al_feature a l)),
          Change (al_id l) (al_key l) (Set_features l' b (\<not> al_feature b l))]
      \<and> al_feature a l' = al_feature a l"
  using assms by (auto simp: admin_step_def toggleFeature_def al_feature_def)

text \<open>The answer of a feature opens the details window again when it was closed in between.\<close>

lemma details_reopened:
  assumes "ad_details (pw_page W) = Some l" and "pw_open W = []"
  shows "ad_details (pw_page (run (admin_step tz) W
      [Toggle_feature k, Admin_input (Show_details None), Admin_answered 0 (Change_answer None), Admin_answered 0 Logged])) \<noteq> None"
  using assms
  by (simp add: admin_step_def toggleFeature_def on_admin_input_def answers_def admin_answered_def license_changed_def
      action_logged_def Let_def replace_license_def)

text \<open>Every log entry is of a change that was asked for before.\<close>

definition log_backed :: "admin_request list \<Rightarrow> admin_request \<Rightarrow> bool" where
  "log_backed rs q = (case q of
     Log_action n k d c \<Rightarrow> n = fst (change_log c) \<and> list_ex (\<lambda>r. case r of Change i k' c' \<Rightarrow> k' = k \<and> c' = c | _ \<Rightarrow> False) rs
   | _ \<Rightarrow> True)"

definition audited :: "admin_world \<Rightarrow> bool" where
  "audited W = (set (pw_open W) \<subseteq> set (asked W) \<and> list_all (log_backed (asked W)) (asked W))"

lemma log_backed_append: "log_backed rs q \<Longrightarrow> log_backed (rs @ qs) q"
  by (auto simp: log_backed_def split: admin_request.splits)

lemma log_backed_change: "Change i k c \<in> set rs \<Longrightarrow> log_backed rs (Log_action (fst (change_log c)) k d c)"
  by (force simp: log_backed_def list_ex_iff)

lemma log_backed_others [simp]: "log_backed rs Fetch_licenses" "log_backed rs (Change i k c)"
  by (simp_all add: log_backed_def)

lemma audited_asks:
  assumes "audited W" and "log_backed (asked W) q"
  shows "audited (asks q W)"
  using assms by (auto simp: audited_def list_all_iff log_backed_append)

lemma audited_simps [simp]: "audited (turns f W) = audited W" "audited (tells [Says m k] W) = audited W"
  by (simp_all add: audited_def)

lemma audited_answered: "audited W \<Longrightarrow> r \<in> set (asked W) \<Longrightarrow> audited (admin_answered a r W)"
  by (auto simp: admin_answered_def licenses_fetched_def license_changed_def action_logged_def Let_def
      intro!: audited_asks log_backed_change split: admin_request.split admin_answer.split sum.split option.split admin_change.split)

interpretation admin_audit: machine "admin_step tz" audited "\<lambda>_. True"
proof
  fix W e
  assume W: "audited W"
  show "audited (admin_step tz W e)"
  proof (cases e)
    case (Admin_answered k a)
    have "audited (W\<lparr>pw_open := take k (pw_open W) @ drop (Suc k) (pw_open W)\<rparr>)"
      using W by (auto simp: audited_def dest: in_set_takeD in_set_dropD)
    moreover have "pw_open W ! k \<in> set (asked W)" if "k < length (pw_open W)" using W that nth_mem by (auto simp: audited_def)
    ultimately show ?thesis using Admin_answered W by (simp add: admin_step_def answers_def audited_answered)
  qed (use W in \<open>auto simp: admin_step_def togglePaymentStatus_def confirmStatusUpdate_def confirmResetToTrial_def
      confirmExtendLicense_def confirmDeleteLicense_def toggleFeature_def intro!: audited_asks split: option.split\<close>)
qed

lemma log_entries_audited: "audited (run (admin_step tz) (fresh_page admin_start) es)"
  by (rule admin_audit.run_inv) (simp_all add: audited_def)

text \<open>A generated key is written in the characters that \<open>toUpperCase\<close> leaves alone, so an activation finds it.\<close>

lemma generated_key_chars:
  assumes "list_all (\<lambda>d. d < 16) ds"
  shows "set (generateLicenseKey ds) \<subseteq> set (js ''BIDAR-'') \<union> set key_digits" "length (generateLicenseKey ds) = 6 + length ds"
proof -
  have "key_digits ! d \<in> set key_digits" if "d < 16" for d using that by (intro nth_mem) (simp add: key_digits_def)
  then show "set (generateLicenseKey ds) \<subseteq> set (js ''BIDAR-'') \<union> set key_digits"
    using assms by (auto simp: generateLicenseKey_def list_all_iff simp del: js_Cons)
  show "length (generateLicenseKey ds) = 6 + length ds" by (simp add: generateLicenseKey_def)
qed

end
