(* ===== verification/Settings.thy ===== *)
theory Settings
  imports Validation
begin

text \<open>
  The settings page (\<open>features/settings/settings.tsx\<close>): the preferences edited at hand, saving them after the
  schema accepts them (\<open>issues\<close>), the backup and its restore, and the reset of the database behind the
  administrator's PIN, as steps of a page.
\<close>

datatype reset_task = Restore_task | Reset_task

record settings_page =
  st_prefs :: app_preferences
  st_localPrefs :: app_preferences
  st_hasChanges :: bool
  st_errors :: field_errors
  st_showPin :: bool
  st_pinLoading :: bool
  st_pinAction :: bool
  st_activeTab :: jstr
  st_storeSubTab :: jstr
  st_systemSubTab :: jstr
  st_networkSubTab :: jstr
  st_cloudSubTab :: jstr
  st_aboutSubTab :: jstr
  st_showDiscounts :: bool
  st_showStaff :: bool
  st_confirm :: "reset_task confirm_state"
  st_stored :: "app_preferences option"

text \<open>\<open>pinAction\<close> is \<open>'reset_db'\<close> or \<open>null\<close>; the local storage holds the masked preferences (theory \<open>AppShell\<close>).\<close>

definition settings_start :: "app_preferences \<Rightarrow> settings_page" where
  "settings_start prefs = \<lparr> st_prefs = prefs, st_localPrefs = prefs, st_hasChanges = False, st_errors = [],
     st_showPin = False, st_pinLoading = False, st_pinAction = False, st_activeTab = js ''store'', st_storeSubTab = js ''info'',
     st_systemSubTab = js ''appearance'', st_networkSubTab = js ''lan'', st_cloudSubTab = js ''backup'',
     st_aboutSubTab = js ''updates'', st_showDiscounts = False, st_showStaff = False, st_confirm = confirm_initial, st_stored = None \<rparr>"

text \<open>A save carries the preferences of the moment it was sent, a check of the PIN the action.\<close>

datatype settings_request =
    Set_prefs app_preferences
  | Export_backup
  | Import_backup
  | Reset_db
  | Check_pin jstr bool

type_synonym settings_world = "(settings_page, settings_request) page_world"

definition clear_pref_error :: "jstr \<Rightarrow> settings_page \<Rightarrow> settings_page" where
  "clear_pref_error k p = (if map_of (st_errors p) k \<in> {None, Some []} then p else p\<lparr> st_errors := obj_put k [] (st_errors p) \<rparr>)"

text \<open>The new value of the preference \<open>k\<close> is put in by \<open>f\<close>.\<close>

definition settings_handleChange :: "jstr \<Rightarrow> (app_preferences \<Rightarrow> app_preferences) \<Rightarrow> settings_page \<Rightarrow> settings_page" where
  "settings_handleChange k f p =
     (let next = f (st_localPrefs p)
      in clear_pref_error k (p\<lparr> st_hasChanges := (next \<noteq> st_prefs p), st_localPrefs := next \<rparr>))"

definition settings_handleSave :: "(app_preferences \<Rightarrow> issue list) \<Rightarrow> settings_world \<Rightarrow> settings_world" where
  "settings_handleSave issues W =
     (let l = st_localPrefs (pw_page W); errs = fieldErrors (issues l)
      in if issues l \<noteq> []
         then tells [Says (case errs of [] \<Rightarrow> [1610, 1585, 1580, 1609, 32, 1575, 1604,
           1578, 1571, 1603, 1583, 32, 1605, 1606, 32, 1589, 1581,
  1577, 32, 1575, 1604, 1581, 1602, 1608, 1604, 32, 1575, 1604, 1605, 1583, 1582, 1604, 1577]
             | (k, m) # _ \<Rightarrow> if m \<noteq> [] then [1578, 1606, 1576, 1610, 1607, 58,
               32] @ m else [1610, 1585, 1580, 1609, 32, 1575, 1604, 1578, 1571, 1603, 1583, 32,
               1605, 1606, 32, 1589, 1581,
  1577, 32, 1575, 1604, 1581, 1602, 1608, 1604, 32, 1575, 1604, 1605, 1583, 1582, 1604,
    1577]) T_error]
           (turns (\<lambda>p. p\<lparr>st_errors := errs\<rparr>) W)
         else asks (Set_prefs l) W)"

definition settings_saved :: "app_preferences \<Rightarrow> unit + thrown \<Rightarrow> settings_world \<Rightarrow> settings_world" where
  "settings_saved l a W = (case a of
     Inl u \<Rightarrow> tells [Says [1578, 1605, 32, 1581, 1601, 1592, 32, 1580, 1605, 1610,
       1593, 32, 1575, 1604, 1573, 1593, 1583,
  1575, 1583, 1575, 1578, 32, 1576, 1606, 1580, 1575, 1581] T_success]
       (turns (\<lambda>p. p\<lparr> st_stored := Some (stored_prefs l), st_prefs := l, st_hasChanges := False, st_errors := [] \<rparr>) W)
   | Inr e \<Rightarrow> tells [Says ([1601, 1588, 1604, 32, 1581, 1601, 1592, 32, 1575, 1604,
     1573, 1593, 1583, 1575, 1583, 1575,
  1578, 58, 32] @ message_or [1582, 1591, 1571, 32, 1594, 1610, 1585, 32, 1605, 1593, 1585, 1608,
    1601] e) T_error] W)"

text \<open>A logo: the compressed picture, or the error of the compression.\<close>

definition logo_loaded :: "jstr + thrown \<Rightarrow> settings_world \<Rightarrow> settings_world" where
  "logo_loaded a W = (case a of
     Inl b \<Rightarrow> tells [Says [1578, 1605, 32, 1585, 1601, 1593, 32, 1575, 1604, 1588,
       1593, 1575, 1585, 32, 1576, 1606, 1580,
  1575, 1581] T_success]
       (turns (settings_handleChange (js ''storeLogo'') (\<lambda>q. q\<lparr>a_storeLogo := Some b\<rparr>)) W)
   | Inr e \<Rightarrow> tells [Says ([1601, 1588, 1604, 32, 1605, 1593, 1575, 1604, 1580, 1577,
     32, 1575, 1604, 1589, 1608, 1585,
  1577, 58, 32] @ message_or [1582, 1591, 1571, 32, 1594, 1610, 1585, 32, 1605, 1593, 1585, 1608,
    1601] e) T_error] W)"

definition settings_handleExport :: "settings_world \<Rightarrow> settings_world" where
  "settings_handleExport W = asks Export_backup (tells [Says [1580, 1575, 1585, 1610, 32, 1578,
    1589, 1583, 1610, 1585, 32, 1606, 1587, 1582, 1577, 32, 1575,
  1581, 1578, 1610, 1575, 1591, 1610, 1577, 46, 46, 46] T_info] W)"

definition backup_exported :: "bool + thrown \<Rightarrow> settings_world \<Rightarrow> settings_world" where
  "backup_exported a W = (case a of
     Inl b \<Rightarrow> if b then tells [Says [1578, 1605, 32, 1578, 1589, 1583, 1610, 1585, 32,
       1575, 1604, 1606, 1587, 1582, 1577, 32, 1575,
  1604, 1575, 1581, 1578, 1610, 1575, 1591, 1610, 1577, 32, 1576, 1606, 1580, 1575,
    1581] T_success] W else W
   | Inr e \<Rightarrow> tells [Says ([1601, 1588, 1604, 32, 1578, 1589, 1583, 1610, 1585, 32,
     1575, 1604, 1606, 1587, 1582, 1577, 32,
  1575, 1604, 1575, 1581, 1578, 1610, 1575, 1591, 1610, 1577, 58, 32] @ message_or [1582, 1591,
    1571, 32, 1601, 1610, 32, 1575, 1604, 1606, 1592, 1575, 1605] e) T_error] W)"

definition handleRestoreTrigger :: "settings_page \<Rightarrow> settings_page" where
  "handleRestoreTrigger p = p\<lparr> st_confirm := openConfirm \<lparr> co_title = [1578, 1571,
    1603, 1610, 1583, 32, 1575, 1587, 1578, 1593, 1575, 1583, 1577, 32, 1575, 1604,
  1606, 1587, 1582, 1577, 32, 1575, 1604, 1575, 1581, 1578, 1610, 1575, 1591, 1610, 1577],
     co_message = [1587, 1610, 1578, 1605, 32, 1575, 1587, 1578, 1576, 1583, 1575, 1604, 32,
       1602, 1575, 1593,
  1583, 1577, 32, 1575, 1604, 1576, 1610, 1575, 1606, 1575, 1578, 32, 1575, 1604, 1581, 1575,
  1604, 1610, 1577, 32, 1576, 1575, 1604, 1603, 1575, 1605, 1604, 32, 1608, 1573, 1593, 1575,
  1583, 1577, 32, 1578, 1588, 1594, 1610, 1604, 32, 1575, 1604, 1578, 1591, 1576, 1610, 1602, 46,
  32, 1607, 1604, 32, 1571, 1606, 1578, 32, 1605, 1578, 1571, 1603, 1583, 32, 1605, 1606, 32,
  1575, 1604, 1575, 1587, 1578, 1605, 1585, 1575, 1585, 1567],
     co_type = Some Mt_error, co_confirmText = None, co_onConfirm = Restore_task \<rparr> (st_confirm p) \<rparr>"

definition backup_restored :: "bool + thrown \<Rightarrow> settings_world \<Rightarrow> settings_world" where
  "backup_restored a W = (case a of
     Inl b \<Rightarrow> if b then tells [Says [1578, 1605, 1578, 32, 1575, 1604, 1575, 1587,
       1578, 1593, 1575, 1583, 1577, 32, 1576, 1606,
  1580, 1575, 1581, 33, 32, 1580, 1575, 1585, 1610, 32, 1573, 1593, 1575, 1583, 1577, 32, 1578,
  1588, 1594, 1610, 1604, 32, 1575, 1604, 1578, 1591, 1576, 1610, 1602, 46, 46,
    46] T_success] W else W
   | Inr e \<Rightarrow> tells [Says ([1601, 1588, 1604, 32, 1575, 1587, 1578, 1593, 1575, 1583,
     1577, 32, 1575, 1604, 1606, 1587,
  1582, 1577, 32, 1575, 1604, 1575, 1581, 1578, 1610, 1575, 1591, 1610, 1577, 58,
    32] @ message_or [1582, 1591, 1571, 32, 1601, 1610, 32, 1575, 1604, 1606, 1602,
    1604] e) T_error] W)"

definition handlePinSuccess :: "bool \<Rightarrow> settings_page \<Rightarrow> settings_page" where
  "handlePinSuccess reset p =
     (let q = p\<lparr> st_showPin := False, st_pinAction := False \<rparr>
      in if reset then q\<lparr> st_confirm := openConfirm \<lparr> co_title = [1578, 1581, 1584,
        1610, 1585, 32, 1606, 1607, 1575, 1574, 1610, 32, 1608, 1581, 1585, 1580, 32,
  1580, 1583, 1575, 1611],
           co_message = [1607, 1584, 1575, 32, 1575, 1604, 1573, 1580, 1585, 1575, 1569, 32,
             1587, 1610, 1602, 1608,
  1605, 32, 1576, 1581, 1584, 1601, 32, 1603, 1575, 1601, 1577, 32, 1575, 1604, 1601, 1608, 1575,
  1578, 1610, 1585, 1548, 32, 1575, 1604, 1605, 1576, 1610, 1593, 1575, 1578, 1548, 32, 1575,
  1604, 1605, 1606, 1578, 1580, 1575, 1578, 32, 1608, 1575, 1604, 1593, 1605, 1604, 1575, 1569,
  32, 1576, 1588, 1603, 1604, 32, 1583, 1575, 1574, 1605, 32, 1608, 1604, 1575, 32, 1610, 1605,
  1603, 1606, 32, 1575, 1604, 1578, 1585, 1575, 1580, 1593, 32, 1593, 1606, 1607, 32, 1605, 1591,
  1604, 1602, 1575, 1611, 33, 32, 1607, 1604, 32, 1578, 1585, 1594, 1576, 32, 1576, 1575, 1604,
  1575, 1587, 1578, 1605, 1585, 1575, 1585, 1567],
           co_type = Some Mt_error, co_confirmText = None, co_onConfirm = Reset_task \<rparr> (st_confirm q) \<rparr> else q)"

definition onResetDatabase :: "settings_page \<Rightarrow> settings_page" where
  "onResetDatabase p = p\<lparr> st_pinAction := True, st_showPin := True, st_pinLoading := (st_showPin p \<and> st_pinLoading p) \<rparr>"

definition confirm_reset_task :: "settings_world \<Rightarrow> settings_world" where
  "confirm_reset_task W =
     (let p = pw_page W; W' = turns (\<lambda>p. p\<lparr>st_confirm := closeConfirm (st_confirm p)\<rparr>) W
      in if \<not> cn_open (st_confirm p) then W
         else (case cn_onConfirm (st_confirm p) of
             None \<Rightarrow> W
           | Some Restore_task \<Rightarrow> asks Import_backup W'
           | Some Reset_task \<Rightarrow> asks Reset_db (tells [Says [1580, 1575, 1585, 1610,
             32, 1578, 1589, 1601, 1610, 1585, 32, 1608, 1573, 1593, 1575, 1583,
  1577, 32, 1578, 1593, 1610, 1610, 1606, 32, 1602, 1575, 1593, 1583, 1577, 32, 1575, 1604, 1576,
  1610, 1575, 1606, 1575, 1578, 46, 46, 46] T_info] W')))"

definition database_reset :: "unit + thrown \<Rightarrow> settings_world \<Rightarrow> settings_world" where
  "database_reset a W = (case a of
     Inl u \<Rightarrow> tells [Says [1578, 1605, 32, 1578, 1589, 1601, 1610, 1585, 32, 1575,
       1604, 1606, 1592, 1575, 1605, 32, 1608,
  1573, 1593, 1575, 1583, 1577, 32, 1578, 1593, 1610, 1610, 1606, 1607, 32, 1576, 1606, 1580,
  1575, 1581, 33, 32, 1571, 1593, 1583, 32, 1578, 1588, 1594, 1610, 1604, 32, 1575, 1604, 1578,
  1591, 1576, 1610, 1602, 46] T_success] W
   | Inr e \<Rightarrow> tells [Says ([1601, 1588, 1604, 32, 1578, 1589, 1601, 1610, 1585, 32,
     1602, 1575, 1593, 1583, 1577, 32, 1575,
  1604, 1576, 1610, 1575, 1606, 1575, 1578, 58, 32] @ message_or [1582, 1591, 1571, 32, 1594,
    1610, 1585, 32, 1605, 1593, 1585, 1608, 1601] e) T_error] W)"

text \<open>The PIN window (theory \<open>Invoices\<close> has it in full): its check, and the answer.\<close>

definition settings_pin :: "jstr \<Rightarrow> settings_world \<Rightarrow> settings_world" where
  "settings_pin pin W = (let p = pw_page W
     in if \<not> st_showPin p \<or> st_pinLoading p then W
        else asks (Check_pin pin (st_pinAction p)) (turns (\<lambda>p. p\<lparr>st_pinLoading := True\<rparr>) W))"

definition settings_pin_checked :: "bool \<Rightarrow> bool + thrown \<Rightarrow> settings_world \<Rightarrow> settings_world" where
  "settings_pin_checked reset a W = turns (\<lambda>p. p\<lparr>st_pinLoading := False\<rparr>)
     (case a of Inl True \<Rightarrow> turns (handlePinSuccess reset) W | _ \<Rightarrow> W)"

datatype settings_input =
    Change_pref jstr "app_preferences \<Rightarrow> app_preferences"
  | Choose_tab jstr
  | Choose_storeSubTab jstr
  | Choose_systemSubTab jstr
  | Choose_networkSubTab jstr
  | Choose_cloudSubTab jstr
  | Choose_aboutSubTab jstr
  | Show_discounts bool
  | Show_staff bool
  | Restore_click
  | Reset_click
  | Close_pin
  | Cancel_confirm

definition on_settings_input :: "settings_input \<Rightarrow> settings_page \<Rightarrow> settings_page" where
  "on_settings_input e p = (case e of
     Change_pref k f \<Rightarrow> settings_handleChange k f p
   | Choose_tab t \<Rightarrow> p\<lparr>st_activeTab := t\<rparr>
   | Choose_storeSubTab t \<Rightarrow> p\<lparr>st_storeSubTab := t\<rparr>
   | Choose_systemSubTab t \<Rightarrow> p\<lparr>st_systemSubTab := t\<rparr>
   | Choose_networkSubTab t \<Rightarrow> p\<lparr>st_networkSubTab := t\<rparr>
   | Choose_cloudSubTab t \<Rightarrow> p\<lparr>st_cloudSubTab := t\<rparr>
   | Choose_aboutSubTab t \<Rightarrow> p\<lparr>st_aboutSubTab := t\<rparr>
   | Show_discounts b \<Rightarrow> p\<lparr>st_showDiscounts := b\<rparr>
   | Show_staff b \<Rightarrow> p\<lparr>st_showStaff := b\<rparr>
   | Restore_click \<Rightarrow> handleRestoreTrigger p
   | Reset_click \<Rightarrow> onResetDatabase p
   | Close_pin \<Rightarrow> p\<lparr>st_showPin := False\<rparr>
   | Cancel_confirm \<Rightarrow> p\<lparr>st_confirm := closeConfirm (st_confirm p)\<rparr>)"

datatype settings_answer = Settings_done "unit + thrown" | Settings_flag "bool + thrown"

definition settings_answered :: "settings_answer \<Rightarrow> settings_request \<Rightarrow> settings_world \<Rightarrow> settings_world" where
  "settings_answered a r W = (case (r, a) of
     (Set_prefs l, Settings_done d) \<Rightarrow> settings_saved l d W
   | (Reset_db, Settings_done d) \<Rightarrow> database_reset d W
   | (Export_backup, Settings_flag b) \<Rightarrow> backup_exported b W
   | (Import_backup, Settings_flag b) \<Rightarrow> backup_restored b W
   | (Check_pin t reset, Settings_flag b) \<Rightarrow> settings_pin_checked reset b W
   | _ \<Rightarrow> W)"

datatype settings_event =
    Settings_input settings_input
  | Save_click
  | Logo_loaded "jstr + thrown"
  | Export_click
  | Confirm_click
  | Submit_settings_pin jstr
  | Settings_answered nat settings_answer

definition settings_step :: "(app_preferences \<Rightarrow> issue list) \<Rightarrow> settings_world \<Rightarrow> settings_event \<Rightarrow> settings_world" where
  "settings_step issues W e = (case e of
     Settings_input i \<Rightarrow> turns (on_settings_input i) W
   | Save_click \<Rightarrow> (if st_hasChanges (pw_page W) then settings_handleSave issues W else W)
   | Logo_loaded a \<Rightarrow> logo_loaded a W
   | Export_click \<Rightarrow> settings_handleExport W
   | Confirm_click \<Rightarrow> confirm_reset_task W
   | Submit_settings_pin t \<Rightarrow> settings_pin t W
   | Settings_answered k a \<Rightarrow> answers k (settings_answered a) W)"

section \<open>A reset needs a PIN\<close>

definition is_reset :: "settings_request \<Rightarrow> bool" where
  "is_reset r = (r = Reset_db)"

definition reset_pending :: "settings_page \<Rightarrow> bool" where
  "reset_pending p = (cn_open (st_confirm p) \<and> cn_onConfirm (st_confirm p) = Some Reset_task)"

definition resets :: "settings_world \<Rightarrow> nat" where
  "resets W = length (filter is_reset (asked W)) + of_bool (reset_pending (pw_page W))"

lemma resets_turns: "(reset_pending (f (pw_page W)) \<Longrightarrow> reset_pending (pw_page W)) \<Longrightarrow> resets (turns f W) \<le> resets W"
  by (auto simp: resets_def)

lemma change_keeps_confirm [simp]: "st_confirm (settings_handleChange k f p) = st_confirm p"
  by (simp add: settings_handleChange_def clear_pref_error_def Let_def)

lemma answered_asks_nothing: "asked (settings_answered a r W) = asked W"
  by (cases r; cases a) (auto simp: settings_answered_def settings_saved_def database_reset_def backup_exported_def
      backup_restored_def settings_pin_checked_def split: sum.split bool.split)

text \<open>A PIN the server has accepted: the answer to an open check of a PIN that was asked for by the reset.\<close>

definition is_reset_check :: "settings_request \<Rightarrow> bool" where
  "is_reset_check r = (case r of Check_pin t reset \<Rightarrow> reset | _ \<Rightarrow> False)"

definition accepted_pin :: "settings_world \<Rightarrow> settings_event \<Rightarrow> settings_request list" where
  "accepted_pin W e = (case e of
     Settings_answered k a \<Rightarrow>
       if k < length (pw_open W) \<and> is_reset_check (pw_open W ! k) \<and> a = Settings_flag (Inl True) then [pw_open W ! k] else []
   | _ \<Rightarrow> [])"

definition paid_inv :: "settings_request list \<Rightarrow> settings_world \<Rightarrow> bool" where
  "paid_inv h W = (resets W \<le> length h \<and> set h \<subseteq> set (asked W) \<and> set (pw_open W) \<subseteq> set (asked W))"

lemma resets_answered:
  "resets (settings_answered a r W) \<le> resets W + of_bool (is_reset_check r \<and> a = Settings_flag (Inl True))"
  by (cases r; cases a)
    (auto simp: settings_answered_def settings_saved_def database_reset_def backup_exported_def backup_restored_def
      settings_pin_checked_def handlePinSuccess_def Let_def resets_def reset_pending_def openConfirm_def is_reset_check_def
      split: sum.split bool.split)

lemma open_answered [simp]: "pw_open (settings_answered a r W) = pw_open W"
  by (cases r; cases a) (auto simp: settings_answered_def settings_saved_def database_reset_def backup_exported_def
      backup_restored_def settings_pin_checked_def split: sum.split bool.split)

lemma accepted_pin_open: "set (accepted_pin W e) \<subseteq> {r \<in> set (pw_open W). is_reset_check r}"
  by (auto simp: accepted_pin_def split: settings_event.split)

lemma asked_grows: "set (asked W) \<subseteq> set (asked (settings_step issues W e))"
  by (cases e) (auto simp: settings_step_def settings_handleSave_def logo_loaded_def settings_handleExport_def settings_pin_def
      confirm_reset_task_def answers_def answered_asks_nothing Let_def split: sum.split option.split reset_task.split list.split)

lemma open_asked:
  assumes "set (pw_open W) \<subseteq> set (asked W)"
  shows "set (pw_open (settings_step issues W e)) \<subseteq> set (asked (settings_step issues W e))"
proof -
  have "set (take k (pw_open W) @ drop (Suc k) (pw_open W)) \<subseteq> set (asked W)" for k
    using assms set_take_subset [of k "pw_open W"] set_drop_subset [of "Suc k" "pw_open W"] by auto
  then show ?thesis using assms
    by (cases e) (auto simp: settings_step_def settings_handleSave_def logo_loaded_def settings_handleExport_def settings_pin_def
        confirm_reset_task_def answers_def answered_asks_nothing Let_def split: sum.split option.split reset_task.split list.split)
qed

lemma resets_step: "resets (settings_step issues W e) \<le> resets W + length (accepted_pin W e)"
proof (cases e)
  case (Settings_input i)
  have "resets (turns (on_settings_input i) W) \<le> resets W"
    by (rule resets_turns, cases i)
      (auto simp: on_settings_input_def reset_pending_def handleRestoreTrigger_def onResetDatabase_def openConfirm_def closeConfirm_def)
  with Settings_input show ?thesis by (simp add: settings_step_def)
next
  case Confirm_click
  then show ?thesis
    by (auto simp: settings_step_def confirm_reset_task_def Let_def resets_def is_reset_def reset_pending_def closeConfirm_def
        split: option.split reset_task.split)
next
  case (Settings_answered k a)
  let ?V = "W\<lparr>pw_open := take k (pw_open W) @ drop (Suc k) (pw_open W)\<rparr>"
  have "resets ?V = resets W" by (simp add: resets_def)
  then show ?thesis using Settings_answered resets_answered [of a "pw_open W ! k" ?V]
    by (auto simp: settings_step_def answers_def accepted_pin_def split: if_splits)
qed (auto simp: settings_step_def settings_handleSave_def logo_loaded_def settings_handleExport_def settings_pin_def Let_def
    resets_def reset_pending_def is_reset_def split: sum.split)

interpretation reset_pins: watched_machine "settings_step issues" accepted_pin paid_inv
proof
  fix h W e
  assume inv: "paid_inv h W"
  have "set (accepted_pin W e) \<subseteq> set (asked (settings_step issues W e))" "set h \<subseteq> set (asked (settings_step issues W e))"
    using inv accepted_pin_open [of W e] asked_grows [of W issues e] unfolding paid_inv_def by auto
  moreover have "set (pw_open (settings_step issues W e)) \<subseteq> set (asked (settings_step issues W e))"
    using inv unfolding paid_inv_def by (intro open_asked) simp
  ultimately show "paid_inv (h @ accepted_pin W e) (settings_step issues W e)"
    using inv resets_step [of issues W e] unfolding paid_inv_def by auto
qed

section \<open>Saving\<close>

interpretation settings_form: validated_form "settings_handleSave issues" "\<lambda>p. issues (st_localPrefs p) = []" "\<lambda>p. Set_prefs (st_localPrefs p)"
  by unfold_locales (simp_all add: settings_handleSave_def Let_def split: list.split)

definition saved_ok :: "(app_preferences \<Rightarrow> issue list) \<Rightarrow> settings_request \<Rightarrow> bool" where
  "saved_ok issues r = (case r of Set_prefs l \<Rightarrow> issues l = [] | _ \<Rightarrow> True)"

lemma saved_ok_others [simp]: "saved_ok issues Export_backup" "saved_ok issues Import_backup" "saved_ok issues Reset_db" "saved_ok issues (Check_pin t b)"
  by (simp_all add: saved_ok_def)

interpretation settings_saves: machine "settings_step issues" "\<lambda>W. list_all (saved_ok issues) (asked W)" "\<lambda>_. True"
proof
  fix W :: settings_world and e
  assume "list_all (saved_ok issues) (asked W)"
  then show "list_all (saved_ok issues) (asked (settings_step issues W e))"
    by (cases e) (auto simp: settings_step_def logo_loaded_def settings_handleExport_def confirm_reset_task_def settings_pin_def
      Let_def answers_def answered_asks_nothing saved_ok_def [of _ "Set_prefs _"] intro!: settings_form.sent_keeps
      split: sum.split option.split reset_task.split)
qed

text \<open>C28. In every run of the settings page the resets of the database, with the one that waits for its confirmation,
  are no more than the PINs the server has accepted for a reset: answers "yes" to checks of a PIN that were asked for
  by the reset. Answers to backups do not count. Only preferences without issues are saved.\<close>

theorem resets_need_pin:
  "let W = run (settings_step issues) (fresh_page (settings_start p)) es;
       accepted = trail (settings_step issues) accepted_pin (fresh_page (settings_start p)) es
   in length (filter is_reset (asked W)) + of_bool (reset_pending (pw_page W)) \<le> length accepted
    \<and> set accepted \<subseteq> {r \<in> set (asked W). is_reset_check r}
    \<and> list_all (saved_ok issues) (asked W)"
proof -
  let ?W = "fresh_page (settings_start p)"
  have "set (trail (settings_step issues) accepted_pin W es) \<subseteq> {r. is_reset_check r}" for W
    using accepted_pin_open by (induction es arbitrary: W) fastforce+
  moreover have "paid_inv ([] @ trail (settings_step issues) accepted_pin ?W es) (run (settings_step issues) ?W es)"
    by (rule reset_pins.run_watched) (simp add: paid_inv_def resets_def reset_pending_def settings_start_def confirm_initial_def)
  moreover have "list_all (saved_ok issues) (asked (run (settings_step issues) ?W es))"
    by (rule settings_saves.run_inv) simp_all
  ultimately show ?thesis by (auto simp: paid_inv_def resets_def Let_def)
qed

text \<open>A change made while a save is under way is shown but called saved when the answer comes: the button is
  disabled, and the change is not kept.\<close>

lemma change_during_save_lost:
  assumes "st_hasChanges (pw_page W)" and "issues (st_localPrefs (pw_page W)) = []" and "pw_open W = []"
  shows "let W' = run (settings_step issues) W [Save_click, Settings_input (Change_pref k f), Settings_answered 0 (Settings_done (Inl ()))]
    in st_localPrefs (pw_page W') = f (st_localPrefs (pw_page W)) \<and> st_prefs (pw_page W') = st_localPrefs (pw_page W)
      \<and> \<not> st_hasChanges (pw_page W') \<and> settings_step issues W' Save_click = W'"
  using assms
  by (simp add: settings_step_def settings_handleSave_def on_settings_input_def settings_handleChange_def clear_pref_error_def
      answers_def settings_answered_def settings_saved_def Let_def)

end
