(* ===== verification/Palette.thy ===== *)
theory Palette
  imports Pages Domain
begin

text \<open>
  The command palette (\<open>components/CommandPalette.tsx\<close>) with its delayed search, as steps of a page. The effects
  that follow a render are part of the step that causes it.
\<close>

section \<open>Delayed values\<close>

text \<open>\<open>useDebounce\<close>: a timer runs for the latest value, and hands it on when it ends.\<close>

record 'a delayed =
  dl_value :: 'a
  dl_out :: 'a
  dl_timer :: bool

definition delay_mount :: "'a \<Rightarrow> 'a delayed" where
  "delay_mount v = \<lparr> dl_value = v, dl_out = v, dl_timer = True \<rparr>"

definition delay_set :: "'a \<Rightarrow> 'a delayed \<Rightarrow> 'a delayed" where
  "delay_set v d = (if v = dl_value d then d else d\<lparr> dl_value := v, dl_timer := True \<rparr>)"

definition delay_fire :: "'a delayed \<Rightarrow> 'a delayed" where
  "delay_fire d = (if dl_timer d then d\<lparr> dl_out := dl_value d, dl_timer := False \<rparr> else d)"

datatype 'a delay_event = Delay_set 'a | Delay_fire

definition delay_step :: "'a delayed \<Rightarrow> 'a delay_event \<Rightarrow> 'a delayed" where
  "delay_step d e = (case e of Delay_set v \<Rightarrow> delay_set v d | Delay_fire \<Rightarrow> delay_fire d)"

text \<open>Without a timer the value handed on is the latest.\<close>

definition delay_ok :: "'a delayed \<Rightarrow> bool" where
  "delay_ok d = (dl_timer d \<or> dl_out d = dl_value d)"

interpretation delay: machine delay_step delay_ok "\<lambda>_. True"
  by unfold_locales (auto simp: delay_step_def delay_set_def delay_fire_def delay_ok_def split: delay_event.split)

lemma delay_settles: "dl_out (run delay_step (delay_mount v) (es @ [Delay_fire])) = dl_value (run delay_step (delay_mount v) es)"
proof -
  have "delay_ok (run delay_step (delay_mount v) es)" by (rule delay.run_inv) (simp_all add: delay_ok_def delay_mount_def)
  then show ?thesis by (auto simp: run_append delay_step_def delay_fire_def delay_ok_def)
qed

section \<open>The palette\<close>

definition palette_pages :: "(view \<times> jstr) list" where
  "palette_pages = [(V_dashboard, [1604, 1608, 1581, 1577, 32, 1575, 1604, 1578, 1581, 1603,
    1605]), (V_sales, [1606, 1602, 1591, 1577, 32, 1575, 1604, 1576, 1610, 1593]), (V_products,
    [1575, 1604, 1605, 1606, 1578, 1580, 1575, 1578]),
     (V_inventory, [1575, 1604, 1605, 1582, 1586, 1608, 1606]), (V_invoices, [1575, 1604, 1601,
       1608, 1575, 1578, 1610, 1585]), (V_customers, [1575, 1604, 1593, 1605, 1604, 1575, 1569]),
       (V_finance, [1575, 1604, 1605, 1575, 1604, 1610, 1577]),
     (V_reports, [1575, 1604, 1578, 1602, 1575, 1585, 1610, 1585]), (V_settings, [1575, 1604,
       1573, 1593, 1583, 1575, 1583, 1575, 1578])]"

record palette =
  pl_isOpen :: bool
  pl_query :: "jstr delayed"
  pl_index :: int
  pl_products :: "product list"
  pl_loading :: bool
  pl_navigated :: "view list"

definition palette_start :: palette where
  "palette_start = \<lparr> pl_isOpen = False, pl_query = delay_mount [], pl_index = 0, pl_products = [], pl_loading = False,
     pl_navigated = [] \<rparr>"

definition filteredPages :: "palette \<Rightarrow> (view \<times> jstr) list" where
  "filteredPages p = filter (\<lambda>q. str_includes (snd q) (dl_value (pl_query p))) palette_pages"

definition result_count :: "palette \<Rightarrow> int" where
  "result_count p = int (length (filteredPages p)) + int (length (pl_products p))"

text \<open>Where a result leads to.\<close>

definition result_view :: "palette \<Rightarrow> int \<Rightarrow> view option" where
  "result_view p i =
     (if i < 0 \<or> result_count p \<le> i then None
      else if nat i < length (filteredPages p) then Some (fst (filteredPages p ! nat i)) else Some V_products)"

datatype palette_request = Search_products jstr

type_synonym palette_world = "(palette, palette_request) page_world"

text \<open>The effect on the delayed query.\<close>

definition palette_fetch :: "palette_world \<Rightarrow> palette_world" where
  "palette_fetch W =
     (let p = pw_page W; q = dl_out (pl_query p)
      in if \<not> pl_isOpen p then W
         else if length q < 2 then turns (\<lambda>p. p\<lparr>pl_products := []\<rparr>) W
         else asks (Search_products q) (turns (\<lambda>p. p\<lparr>pl_loading := True\<rparr>) W))"

definition products_found :: "product list option + thrown \<Rightarrow> palette \<Rightarrow> palette" where
  "products_found a p = p\<lparr> pl_products := (case a of Inl l \<Rightarrow> opt_default [] l | Inr e \<Rightarrow> []), pl_loading := False \<rparr>"

definition type_query :: "jstr \<Rightarrow> palette \<Rightarrow> palette" where
  "type_query t p = (if t = dl_value (pl_query p) then p else p\<lparr> pl_query := delay_set t (pl_query p), pl_index := 0 \<rparr>)"

text \<open>Closing resets; the query is reset by a render of its own.\<close>

definition palette_close :: "palette \<Rightarrow> palette" where
  "palette_close p = (if pl_isOpen p
     then p\<lparr> pl_isOpen := False, pl_query := delay_set [] (pl_query p), pl_products := [], pl_index := 0 \<rparr> else p)"

definition palette_open :: "palette_world \<Rightarrow> palette_world" where
  "palette_open W = (if pl_isOpen (pw_page W) then W else palette_fetch (turns (\<lambda>p. p\<lparr>pl_isOpen := True\<rparr>) W))"

definition palette_fire :: "palette_world \<Rightarrow> palette_world" where
  "palette_fire W =
     (let d = pl_query (pw_page W); W' = turns (\<lambda>p. p\<lparr>pl_query := delay_fire d\<rparr>) W
      in if dl_out (delay_fire d) = dl_out d then W' else palette_fetch W')"

definition palette_navigate :: "view \<Rightarrow> palette \<Rightarrow> palette" where
  "palette_navigate v p = palette_close (p\<lparr>pl_navigated := pl_navigated p @ [v]\<rparr>)"

definition palette_enter :: "palette \<Rightarrow> palette" where
  "palette_enter p = (case result_view p (pl_index p) of None \<Rightarrow> p | Some v \<Rightarrow> palette_navigate v p)"

text \<open>The list is replaced by a hint while the query is short and no product is found, and by a note when nothing
  matches.\<close>

definition list_shown :: "palette \<Rightarrow> bool" where
  "list_shown p =
     (let q = dl_value (pl_query p)
      in pl_isOpen p \<and> \<not> (result_count p = 0 \<and> 1 < length q) \<and> \<not> (length q < 2 \<and> pl_products p = []))"

datatype palette_event =
    Palette_open
  | Palette_close
  | Palette_type jstr
  | Palette_timer
  | Palette_down
  | Palette_up
  | Palette_enter
  | Palette_hover int
  | Palette_click int
  | Palette_answered nat "product list option + thrown"

definition palette_step :: "palette_world \<Rightarrow> palette_event \<Rightarrow> palette_world" where
  "palette_step W e =
     (let p = pw_page W; on = (\<lambda>b f. if b then turns f W else W)
      in case e of
           Palette_open \<Rightarrow> palette_open W
         | Palette_close \<Rightarrow> turns palette_close W
         | Palette_type t \<Rightarrow> on (pl_isOpen p) (type_query t)
         | Palette_timer \<Rightarrow> palette_fire W
         | Palette_down \<Rightarrow> on (pl_isOpen p) (\<lambda>p. p\<lparr>pl_index := min (pl_index p + 1) (result_count p - 1)\<rparr>)
         | Palette_up \<Rightarrow> on (pl_isOpen p) (\<lambda>p. p\<lparr>pl_index := max (pl_index p - 1) 0\<rparr>)
         | Palette_enter \<Rightarrow> on (pl_isOpen p) palette_enter
         | Palette_hover i \<Rightarrow> on (list_shown p \<and> result_view p i \<noteq> None) (\<lambda>p. p\<lparr>pl_index := i\<rparr>)
         | Palette_click i \<Rightarrow> on (list_shown p)
             (\<lambda>p. case result_view p i of None \<Rightarrow> p | Some v \<Rightarrow> palette_navigate v p)
         | Palette_answered k a \<Rightarrow> answers k (\<lambda>r. turns (products_found a)) W)"

section \<open>Runs\<close>

text \<open>Every search is for two characters at least, and the mark never goes below one before the first result.\<close>

definition palette_inv :: "palette_world \<Rightarrow> bool" where
  "palette_inv W = (- 1 \<le> pl_index (pw_page W) \<and> delay_ok (pl_query (pw_page W))
     \<and> list_all (\<lambda>r. case r of Search_products q \<Rightarrow> 2 \<le> length q) (asked W))"

lemma delay_ok_moves: "delay_ok d \<Longrightarrow> delay_ok (delay_set v d)" "delay_ok d \<Longrightarrow> delay_ok (delay_fire d)"
  by (auto simp: delay_ok_def delay_set_def delay_fire_def)

lemma palette_fetch_inv: "palette_inv W \<Longrightarrow> palette_inv (palette_fetch W)"
  by (simp add: palette_inv_def palette_fetch_def Let_def)

lemma palette_navigate_inv:
  assumes "palette_inv W" shows "palette_inv (turns palette_close W)" "palette_inv (turns (palette_navigate v) W)"
  using assms by (simp_all add: palette_inv_def palette_navigate_def palette_close_def delay_ok_moves)

interpretation palette: machine palette_step palette_inv "\<lambda>_. True"
proof
  fix W e
  assume W: "palette_inv W"
  show "palette_inv (palette_step W e)"
  proof (cases e)
    case Palette_open
    have "palette_inv (turns (\<lambda>p. p\<lparr>pl_isOpen := True\<rparr>) W)" using W by (simp add: palette_inv_def)
    with Palette_open W show ?thesis by (simp add: palette_step_def palette_open_def palette_fetch_inv)
  next
    case Palette_timer
    have "palette_inv (turns (\<lambda>p. p\<lparr>pl_query := delay_fire (pl_query (pw_page W))\<rparr>) W)"
      using W by (simp add: palette_inv_def delay_ok_moves)
    with Palette_timer show ?thesis by (simp add: palette_step_def palette_fire_def Let_def palette_fetch_inv)
  next
    case Palette_enter
    have "palette_enter p = p \<or> (\<exists>v. palette_enter p = palette_navigate v p)" for p
      by (auto simp: palette_enter_def split: option.split)
    then have "turns palette_enter W = turns (\<lambda>p. p) W \<or> (\<exists>v. turns palette_enter W = turns (palette_navigate v) W)"
      by (metis turns_def)
    with Palette_enter W show ?thesis
      by (auto simp: palette_step_def Let_def palette_navigate_inv turns_def [of "\<lambda>p. p"])
  next
    case (Palette_click i)
    then show ?thesis using W palette_navigate_inv(2) [OF W]
      by (auto simp: palette_step_def Let_def turns_def palette_inv_def asked_def split: option.split)
  qed (use W palette_navigate_inv(1) [OF W] in \<open>auto simp: palette_step_def Let_def palette_inv_def type_query_def delay_ok_moves
      result_count_def result_view_def products_found_def answers_def\<close>)
qed

text \<open>In every run of the palette every search asks for two characters at least, and once the timer has ended
  the query searched last is the one shown.\<close>

lemma palette_searches:
  "list_all (\<lambda>r. case r of Search_products q \<Rightarrow> 2 \<le> length q) (asked (run palette_step (fresh_page palette_start) es))
   \<and> dl_out (pl_query (pw_page (run palette_step (fresh_page palette_start) (es @ [Palette_timer]))))
     = dl_value (pl_query (pw_page (run palette_step (fresh_page palette_start) (es @ [Palette_timer]))))"
proof -
  have "palette_inv (run palette_step (fresh_page palette_start) es)"
    by (rule palette.run_inv) (simp_all add: palette_inv_def palette_start_def delay_ok_def delay_mount_def)
  then show ?thesis
    by (auto simp: run_append palette_step_def palette_fire_def palette_fetch_def Let_def palette_inv_def delay_fire_def delay_ok_def)
qed

text \<open>An answer is shown whatever the query is by then: the answer of an older search replaces that of a newer one,
  and products come back after the query was emptied.\<close>

lemma older_answer_shown:
  assumes "pw_open W = [Search_products q, Search_products q']"
  shows "pl_products (pw_page (run palette_step W [Palette_answered 1 (Inl (Some new)), Palette_answered 0 (Inl (Some old))])) = old"
  using assms by (simp add: palette_step_def answers_def products_found_def)

text \<open>With no results the arrow moves the mark before the first one, and when results come they cannot be entered.\<close>

lemma mark_before_first:
  assumes "pl_isOpen (pw_page W)" and "result_count (pw_page W) = 0" and "pl_index (pw_page W) = 0"
    and "pw_open W = [Search_products q]"
  shows "let W' = run palette_step W [Palette_down, Palette_answered 0 (Inl (Some ps))]
    in pl_index (pw_page W') = - 1 \<and> palette_step W' Palette_enter = W'"
proof -
  have "result_view p (- 1) = None" for p by (simp add: result_view_def)
  then show ?thesis using assms
    by (simp add: palette_step_def answers_def products_found_def palette_enter_def Let_def turns_def)
qed

text \<open>With an empty query only a hint is shown, but the enter key opens the first page all the same.\<close>

lemma hidden_page_entered:
  "let W = run palette_step (fresh_page palette_start) [Palette_open]
   in \<not> list_shown (pw_page W) \<and> pl_navigated (pw_page (palette_step W Palette_enter)) = [V_dashboard]"
  by (simp add: palette_step_def palette_open_def palette_fetch_def palette_start_def delay_mount_def list_shown_def
      palette_enter_def result_view_def result_count_def filteredPages_def palette_pages_def palette_navigate_def
      palette_close_def Let_def)

end
