(* ===== verification/Inventory.thy ===== *)
theory Inventory
  imports Palette
begin

text \<open>
  The inventory page (\<open>features/inventory/inventory.tsx\<close>): filters with a delayed search, the classes of the
  ABC analysis, the cached report of the AI module, and the quick change of a stock, as steps of a page.
\<close>

datatype stock_filter = Stock_all | Stock_low | Stock_out

text \<open>\<open>in_cache\<close> is the pair of time and report under \<open>beidar_inv_analysis_cache\<close>; \<open>in_reportTimer\<close> runs while a
  report is shown.\<close>

record inventory_screen =
  in_movements :: bool
  in_showStats :: bool
  in_search :: "jstr delayed"
  in_filter :: stock_filter
  in_category :: jstr
  in_supplier :: jstr
  in_analyzing :: bool
  in_report :: jstr
  in_lastUpdated :: "int option"
  in_page :: int
  in_cache :: "(int \<times> jstr) option"

definition inventory_start :: "(int \<times> jstr) option \<Rightarrow> inventory_screen" where
  "inventory_start cached = \<lparr> in_movements = False, in_showStats = False, in_search = delay_mount [], in_filter = Stock_all,
     in_category = js ''all'', in_supplier = js ''all'', in_analyzing = False,
     in_report = (case cached of None \<Rightarrow> [] | Some (t, d) \<Rightarrow> d), in_lastUpdated = map_option fst cached, in_page = 0,
     in_cache = cached \<rparr>"

datatype abc_class = Class_A | Class_B | Class_C

definition getABCClass :: "jsnum \<Rightarrow> jsnum \<Rightarrow> abc_class" where
  "getABCClass totalValue productValue =
     (if totalValue = Fin 0 then Class_C
      else (let share = (productValue / totalValue) * Fin 100
            in if Fin 1 \<le> share then Class_A else if Fin (1 / 2) \<le> share then Class_B else Class_C))"

definition product_value :: "product \<Rightarrow> jsnum" where
  "product_value q = js_round (p_stock q * p_price q)"

text \<open>The requests carry what the handler keeps over its \<open>await\<close>: the time of the click, the product and the
  change.\<close>

datatype inventory_request =
    Fetch_low int
  | Analyze int "product list"
  | Save_stock product jsnum
  | Log_change product jsnum

type_synonym inventory_world = "(inventory_screen, inventory_request) page_world"

text \<open>What the query of the page depends on; a change goes back to the first page.\<close>

definition filter_deps :: "inventory_screen \<Rightarrow> jstr \<times> jstr \<times> jstr \<times> stock_filter" where
  "filter_deps p = (dl_out (in_search p), in_category p, in_supplier p, in_filter p)"

definition refilter :: "(inventory_screen \<Rightarrow> inventory_screen) \<Rightarrow> inventory_screen \<Rightarrow> inventory_screen" where
  "refilter f p = (if filter_deps (f p) = filter_deps p then f p else (f p)\<lparr>in_page := 0\<rparr>)"

definition handleRunAnalysis :: "int \<Rightarrow> inventory_world \<Rightarrow> inventory_world" where
  "handleRunAnalysis now W =
     (let last_update = opt_default 0 (in_lastUpdated (pw_page W))
      in if last_update \<noteq> 0 \<and> now - last_update < 60000
         then tells [Says [1610, 1585, 1580, 1609, 32, 1575, 1604, 1575, 1606, 1578, 1592, 1575,
           1585, 32, 1602, 1604,
  1610, 1604, 1575, 1611, 32, 1602, 1576, 1604, 32, 1591, 1604, 1576, 32, 1578, 1581, 1604, 1610,
  1604, 32, 1580, 1583, 1610, 1583] T_info] W
         else asks (Fetch_low now) (turns (\<lambda>p. p\<lparr>in_analyzing := True\<rparr>) W))"

definition low_fetched :: "int \<Rightarrow> product list option + thrown \<Rightarrow> inventory_world \<Rightarrow> inventory_world" where
  "low_fetched now a W =
     (let stop = turns (\<lambda>p. p\<lparr>in_analyzing := False\<rparr>)
      in case a of
           Inl l \<Rightarrow> if opt_default [] l = [] then stop (tells [Says [1604, 1575, 32,
             1578, 1608, 1580, 1583, 32, 1605, 1606, 1578, 1580, 1575, 1578, 32, 1605, 1606,
  1582, 1601, 1590, 1577, 32, 1575, 1604, 1605, 1582, 1586, 1608, 1606, 32, 1604, 1604, 1578,
  1581, 1604, 1610, 1604] T_info] W)
             else asks (Analyze now (opt_default [] l)) W
         | Inr e \<Rightarrow> stop (tells [Says [1601, 1588, 1604, 32, 1575, 1604, 1578, 1581,
           1604, 1610, 1604, 32, 1575, 1604, 1584, 1603, 1610] T_error] W))"

definition analyzed :: "int \<Rightarrow> jstr + thrown \<Rightarrow> inventory_world \<Rightarrow> inventory_world" where
  "analyzed now a W = turns (\<lambda>p. p\<lparr>in_analyzing := False\<rparr>) (case a of
     Inl report \<Rightarrow> turns (\<lambda>p. p\<lparr> in_report := report, in_lastUpdated := Some now, in_cache := Some (now, report) \<rparr>) W
   | Inr e \<Rightarrow> tells [Says [1601, 1588, 1604, 32, 1575, 1604, 1578, 1581, 1604, 1610,
     1604, 32, 1575, 1604, 1584, 1603, 1610] T_error] W)"

definition stock_update :: "product \<Rightarrow> jsnum \<Rightarrow> inventory_world \<Rightarrow> inventory_world" where
  "stock_update q change W =
     (if p_id q \<noteq> [] then asks (Save_stock (q\<lparr> p_stock := js_max (Fin 0) (p_stock q + change) \<rparr>) change) W else W)"

definition inventory_stock_saved :: "product \<Rightarrow> jsnum \<Rightarrow> unit + thrown \<Rightarrow> inventory_world \<Rightarrow> inventory_world" where
  "inventory_stock_saved q change a W = (case a of Inl u \<Rightarrow> asks (Log_change q change) W | Inr e \<Rightarrow> tells [Refetches] W)"

text \<open>The entry: its direction and its size.\<close>

definition log_fields :: "jsnum \<Rightarrow> jstr \<times> jsnum" where
  "log_fields change = (if Fin 0 < change then js ''in'' else js ''out'', js_abs change)"

definition change_logged :: "unit + thrown \<Rightarrow> inventory_world \<Rightarrow> inventory_world" where
  "change_logged a W = (case a of
     Inl u \<Rightarrow> tells [Invalidates invalidateProducts, Invalidates invalidateAllData,
       Says [1578, 1605, 32, 1578, 1581, 1583, 1610, 1579, 32, 1575, 1604, 1605, 1582, 1586,
       1608, 1606] T_success] W
   | Inr e \<Rightarrow> tells [Refetches] W)"

datatype inventory_input =
    Choose_movements bool
  | Toggle_inventory_stats
  | Search_inventory jstr
  | Search_timer
  | Choose_stock_filter stock_filter
  | Choose_inventory_category jstr
  | Choose_inventory_supplier jstr
  | Inventory_page int
  | Report_timer

definition on_inventory_input :: "inventory_input \<Rightarrow> inventory_screen \<Rightarrow> inventory_screen" where
  "on_inventory_input e p = (case e of
     Choose_movements b \<Rightarrow> p\<lparr>in_movements := b\<rparr>
   | Toggle_inventory_stats \<Rightarrow> p\<lparr>in_showStats := \<not> in_showStats p\<rparr>
   | Search_inventory t \<Rightarrow> p\<lparr>in_search := delay_set t (in_search p)\<rparr>
   | Search_timer \<Rightarrow> refilter (\<lambda>p. p\<lparr>in_search := delay_fire (in_search p)\<rparr>) p
   | Choose_stock_filter f \<Rightarrow> refilter (\<lambda>p. p\<lparr>in_filter := f\<rparr>) p
   | Choose_inventory_category c \<Rightarrow> refilter (\<lambda>p. p\<lparr>in_category := c\<rparr>) p
   | Choose_inventory_supplier s \<Rightarrow> refilter (\<lambda>p. p\<lparr>in_supplier := s\<rparr>) p
   | Inventory_page n \<Rightarrow> p\<lparr>in_page := n\<rparr>
   | Report_timer \<Rightarrow> p\<lparr>in_report := []\<rparr>)"

datatype inventory_answer =
    Low_answer "product list option + thrown"
  | Report_answer "jstr + thrown"
  | Stock_answer "unit + thrown"

definition inventory_answered :: "inventory_answer \<Rightarrow> inventory_request \<Rightarrow> inventory_world \<Rightarrow> inventory_world" where
  "inventory_answered a r W = (case (r, a) of
     (Fetch_low now, Low_answer l) \<Rightarrow> low_fetched now l W
   | (Analyze now l, Report_answer x) \<Rightarrow> analyzed now x W
   | (Save_stock q c, Stock_answer d) \<Rightarrow> inventory_stock_saved q c d W
   | (Log_change q c, Stock_answer d) \<Rightarrow> change_logged d W
   | _ \<Rightarrow> W)"

datatype inventory_event =
    Inventory_input inventory_input
  | Run_analysis int
  | Stock_button product bool
  | Inventory_answered nat inventory_answer

definition inventory_step :: "inventory_world \<Rightarrow> inventory_event \<Rightarrow> inventory_world" where
  "inventory_step W e = (case e of
     Inventory_input i \<Rightarrow> turns (on_inventory_input i) W
   | Run_analysis now \<Rightarrow> (if in_analyzing (pw_page W) then W else handleRunAnalysis now W)
   | Stock_button q up \<Rightarrow> stock_update q (if up then Fin 1 else - Fin 1) W
   | Inventory_answered k a \<Rightarrow> answers k (inventory_answered a) W)"

section \<open>Filters and classes\<close>

text \<open>A new filter is looked at from its first page.\<close>

lemma new_filter_first_page:
  "filter_deps (on_inventory_input i p) \<noteq> filter_deps p \<Longrightarrow> in_page (on_inventory_input i p) = 0"
  by (cases i) (auto simp: on_inventory_input_def refilter_def filter_deps_def delay_set_def split: if_splits)

definition class_rank :: "abc_class \<Rightarrow> nat" where
  "class_rank c = (case c of Class_A \<Rightarrow> 2 | Class_B \<Rightarrow> 1 | Class_C \<Rightarrow> 0)"

text \<open>Products of greater value are never of a lower class, whatever the total is.\<close>

lemma abc_monotone:
  assumes "is_fin a" "is_fin b" "a \<le> b" "is_fin t" "Fin 0 \<le> t"
  shows "class_rank (getABCClass t a) \<le> class_rank (getABCClass t b)"
proof (cases "t = Fin 0")
  case True
  then show ?thesis by (simp add: getABCClass_def)
next
  case False
  obtain x y z where f: "a = Fin x" "b = Fin y" "t = Fin z" using assms by (cases a; cases b; cases t) (auto simp: is_fin_def)
  with assms False have z: "0 < z" "x \<le> y" by auto
  then have q: "a / t \<le> b / t" using f rnd_mono [of "x / z" "y / z"] by (simp add: divide_right_mono)
  have r: "a / t \<noteq> NaN" "b / t \<noteq> NaN" using f z by simp_all
  have infs: "rnd v \<le> PInf" "NInf \<le> rnd v" for v using rnd_not_NaN [of v] by (cases "rnd v"; simp)+
  have mono: "(a / t) * Fin 100 \<le> (b / t) * Fin 100"
    using q r infs by (cases "a / t"; cases "b / t") (auto intro: rnd_mono simp: inf_of_def)
  have "Fin c \<le> (a / t) * Fin 100 \<Longrightarrow> Fin c \<le> (b / t) * Fin 100" for c using mono js_le_trans by blast
  then show ?thesis using False by (auto simp: getABCClass_def Let_def class_rank_def)
qed

section \<open>Analyses\<close>

text \<open>An analysis is asked for only when the last one is a minute old.\<close>

lemma analysis_cooldown:
  assumes "in_lastUpdated (pw_page W) = Some t" "t \<noteq> 0" "now - t < 60000"
  shows "asked (inventory_step W (Run_analysis now)) = asked W"
  using assms by (simp add: inventory_step_def handleRunAnalysis_def Let_def)

text \<open>The entry of a movement has the size of the click, also when the stock was empty and has not changed.\<close>

lemma movement_without_change:
  assumes "p_id q \<noteq> []" "p_stock q = Fin 0" "pw_open W = []"
  shows "asked (run inventory_step W [Stock_button q False, Inventory_answered 0 (Stock_answer (Inl ()))])
    = asked W @ [Save_stock q (- Fin 1), Log_change q (- Fin 1)]" "log_fields (- Fin 1) = (js ''out'', Fin 1)"
proof -
  have "rnd (- 1) = Fin (- 1)" using rnd_int [of "- 1"] by simp
  then have "q\<lparr>p_stock := js_max (Fin 0) (p_stock q + - Fin 1)\<rparr> = q" using assms(2) by (simp add: js_max_Fin)
  then show "asked (run inventory_step W [Stock_button q False, Inventory_answered 0 (Stock_answer (Inl ()))])
    = asked W @ [Save_stock q (- Fin 1), Log_change q (- Fin 1)]"
    using assms(1,3)
    by (simp add: inventory_step_def stock_update_def answers_def inventory_answered_def inventory_stock_saved_def
        del: plus_jsnum.simps uminus_jsnum.simps)
  show "log_fields (- Fin 1) = (js ''out'', Fin 1)" by (simp add: log_fields_def)
qed

end
