(* ===== verification/Lan.thy ===== *)
theory Lan
  imports ForceDelete Pages
begin

text \<open>
  The local network: the panel of the server and its clients (\<open>components/LanSyncPanel.tsx\<close>) and the screen that
  asks for a licence or a server (\<open>components/LicenseScreen.tsx\<close>), as steps of a page.
\<close>

section \<open>The panel\<close>

record server_status =
  sv_running :: bool
  sv_localIP :: jstr
  sv_port :: int
  sv_clientCount :: int

record client_status =
  cs_connected :: bool
  cs_serverAddress :: jstr
  cs_mode :: jstr

record connected_client =
  cc_deviceId :: jstr
  cc_deviceName :: jstr
  cc_status :: jstr

record blocked_device =
  bd_id :: int
  bd_deviceId :: jstr
  bd_deviceName :: jstr

record discovered_server =
  dv_serverName :: jstr
  dv_serverIP :: jstr
  dv_port :: int

text \<open>\<open>lp_reload\<close>: the timer that reloads the window after a connection is running.\<close>

record lan_page =
  lp_server :: "server_status option"
  lp_client :: "client_status option"
  lp_clients :: "connected_client list"
  lp_blocked :: "blocked_device list"
  lp_loading :: bool
  lp_copied :: bool
  lp_secretValue :: jstr
  lp_secretCopied :: bool
  lp_blockedTab :: bool
  lp_showForm :: bool
  lp_discovered :: "discovered_server list"
  lp_scanning :: bool
  lp_selected :: "discovered_server option"
  lp_manualIp :: jstr
  lp_secret :: jstr
  lp_reload :: bool

definition lan_start :: lan_page where
  "lan_start = \<lparr> lp_server = None, lp_client = None, lp_clients = [], lp_blocked = [], lp_loading = False, lp_copied = False,
     lp_secretValue = [], lp_secretCopied = False, lp_blockedTab = False, lp_showForm = False, lp_discovered = [],
     lp_scanning = False, lp_selected = None, lp_manualIp = [], lp_secret = [], lp_reload = False \<rparr>"

datatype lan_task =
    Connect_server jstr int jstr
  | Start_server
  | Stop_server
  | Disconnect_server
  | Disconnect_client jstr
  | Suspend_client jstr
  | Resume_client jstr
  | Block_device jstr jstr
  | Unblock_device int

text \<open>The three requests of \<open>fetchStatus\<close> know whether a handler awaits them to end its loading.\<close>

datatype lan_request = Get_status bool | Get_devices bool | Get_secret bool | Discover | Do_task lan_task

type_synonym lan_world = "(lan_page, lan_request) page_world"

definition lan_release :: "bool \<Rightarrow> lan_world \<Rightarrow> lan_world" where
  "lan_release awaited W = (if awaited then turns (\<lambda>p. p\<lparr>lp_loading := False\<rparr>) W else W)"

definition fetchStatus :: "bool \<Rightarrow> lan_world \<Rightarrow> lan_world" where
  "fetchStatus awaited = asks (Get_status awaited)"

definition status_fetched ::
  "bool \<Rightarrow> (server_status option \<times> client_status option) + thrown \<Rightarrow> lan_world \<Rightarrow> lan_world" where
  "status_fetched awaited a W = (case a of
     Inr e \<Rightarrow> lan_release awaited W
   | Inl (s, c) \<Rightarrow>
       (let W' = turns (\<lambda>p. p\<lparr> lp_server := s, lp_client := c \<rparr>) W
        in if (case s of Some v \<Rightarrow> sv_running v | None \<Rightarrow> False) then asks (Get_devices awaited) W'
           else lan_release awaited (turns (\<lambda>p. p\<lparr>lp_secretValue := []\<rparr>) W')))"

definition devices_fetched ::
  "bool \<Rightarrow> (connected_client list option \<times> blocked_device list option) + thrown \<Rightarrow> lan_world \<Rightarrow> lan_world" where
  "devices_fetched awaited a W = (case a of
     Inr e \<Rightarrow> lan_release awaited W
   | Inl (c, b) \<Rightarrow> asks (Get_secret awaited)
       (turns (\<lambda>p. p\<lparr> lp_clients := opt_default [] c, lp_blocked := opt_default [] b \<rparr>) W))"

definition secret_fetched :: "bool \<Rightarrow> jstr + thrown \<Rightarrow> lan_world \<Rightarrow> lan_world" where
  "secret_fetched awaited a W = lan_release awaited
     (turns (\<lambda>p. p\<lparr>lp_secretValue := (case a of Inl s \<Rightarrow> s | Inr e \<Rightarrow> [])\<rparr>) W)"

definition handleScanServers :: "lan_world \<Rightarrow> lan_world" where
  "handleScanServers W = asks Discover (turns (\<lambda>p. p\<lparr> lp_scanning := True, lp_discovered := [] \<rparr>) W)"

definition servers_found :: "discovered_server list option + thrown \<Rightarrow> lan_page \<Rightarrow> lan_page" where
  "servers_found a p =
     (let q = (case a of
          Inl l \<Rightarrow> (let r = p\<lparr>lp_discovered := opt_default [] l\<rparr> in case l of Some [s] \<Rightarrow> r\<lparr>lp_selected := Some s\<rparr> | _ \<Rightarrow> r)
        | Inr e \<Rightarrow> p)
      in q\<lparr>lp_scanning := False\<rparr>)"

text \<open>\<open>selectedServer?.serverIP || manualIp.trim()\<close> and its port, if one was selected.\<close>

definition chosen_server :: "lan_page \<Rightarrow> jstr \<times> int" where
  "chosen_server p = (case lp_selected p of
     None \<Rightarrow> (trim (lp_manualIp p), 0)
   | Some s \<Rightarrow> (if dv_serverIP s \<noteq> [] then dv_serverIP s else trim (lp_manualIp p), dv_port s))"

definition start_task :: "lan_task \<Rightarrow> lan_world \<Rightarrow> lan_world" where
  "start_task t W = asks (Do_task t) (turns (\<lambda>p. p\<lparr>lp_loading := True\<rparr>) W)"

definition handleConnectToServer :: "lan_world \<Rightarrow> lan_world" where
  "handleConnectToServer W =
     (let p = pw_page W; (ip, port) = chosen_server p
      in if ip = [] then tells [Says [1575, 1582, 1578, 1585, 32, 1587, 1610, 1585, 1601, 1585,
        32, 1571, 1608, 32, 1571, 1583, 1582,
  1604, 32, 1593, 1606, 1608, 1575, 1606, 32, 73, 80] T_error] W
         else if trim (lp_secret p) = [] then tells [Says [1571, 1583, 1582, 1604, 32, 1585,
           1605, 1586, 32, 1575, 1604, 1573, 1602, 1585, 1575, 1606, 32,
  1575, 1604, 1592, 1575, 1607, 1585, 32, 1601, 1610, 32, 1604, 1608, 1581, 1577, 32, 1580, 1607,
  1575, 1586, 32, 1575, 1604, 1582, 1575, 1583, 1605] T_error] W
         else start_task (Connect_server ip port (lp_secret p)) W)"

text \<open>What is told when a task is done or has failed.\<close>

definition task_done :: "lan_task \<Rightarrow> jstr \<times> toast_kind" where
  "task_done t = (case t of
     Connect_server i n s \<Rightarrow> ([1578, 1605, 32, 1575, 1604, 1575, 1578, 1589, 1575,
       1604, 32, 1576, 1575, 1604, 1587, 1610,
  1585, 1601, 1585, 32, 1576, 1606, 1580, 1575, 1581, 33, 32, 1580, 1575, 1585, 1610, 32, 1575,
  1604, 1578, 1581, 1583, 1610, 1579, 46, 46, 46], T_success)
   | Start_server \<Rightarrow> ([1578, 1605, 32, 1578, 1588, 1594, 1610, 1604, 32, 1575, 1604,
     1582, 1575, 1583, 1605, 32, 1576,
  1606, 1580, 1575, 1581], T_success)
   | Stop_server \<Rightarrow> ([1578, 1605, 32, 1573, 1610, 1602, 1575, 1601, 32, 1575, 1604,
     1582, 1575, 1583, 1605], T_info)
   | Disconnect_server \<Rightarrow> ([1578, 1605, 32, 1602, 1591, 1593, 32, 1575, 1604, 1575,
     1578, 1589, 1575, 1604], T_info)
   | Disconnect_client k \<Rightarrow> ([1578, 1605, 32, 1601, 1589, 1604, 32, 1575, 1604, 1580,
     1607, 1575, 1586], T_success)
   | Suspend_client k \<Rightarrow> ([1578, 1605, 32, 1578, 1593, 1604, 1610, 1602, 32, 1575,
     1604, 1580, 1607, 1575, 1586], T_info)
   | Resume_client k \<Rightarrow> ([1578, 1605, 32, 1575, 1587, 1578, 1574, 1606, 1575, 1601,
     32, 1575, 1604, 1580, 1607, 1575, 1586], T_success)
   | Block_device k n \<Rightarrow> ([1578, 1605, 32, 1581, 1592, 1585, 32, 1575, 1604, 1580,
     1607, 1575, 1586], T_info)
   | Unblock_device i \<Rightarrow> ([1578, 1605, 32, 1573, 1604, 1594, 1575, 1569, 32, 1575,
     1604, 1581, 1592, 1585], T_success))"

definition task_failed :: "lan_task \<Rightarrow> thrown \<Rightarrow> jstr" where
  "task_failed t e = (case t of
     Connect_server i n s \<Rightarrow> [1601, 1588, 1604, 32, 1575, 1604, 1575, 1578, 1589,
       1575, 1604, 58, 32] @ message_or (thrown_text e) e
   | Start_server \<Rightarrow> [1601, 1588, 1604, 32, 1578, 1588, 1594, 1610, 1604, 32, 1575,
     1604, 1582, 1575, 1583, 1605, 58, 32] @ thrown_text e
   | Stop_server \<Rightarrow> [1601, 1588, 1604, 32, 1573, 1610, 1602, 1575, 1601, 32, 1575,
     1604, 1582, 1575, 1583, 1605, 58, 32] @ thrown_text e
   | _ \<Rightarrow> [1582, 1591, 1571, 58, 32] @ thrown_text e)"

definition task_loads :: "lan_task \<Rightarrow> bool" where
  "task_loads t = (case t of Connect_server i n s \<Rightarrow> True | Start_server \<Rightarrow> True | Stop_server \<Rightarrow> True | Disconnect_server \<Rightarrow> True | _ \<Rightarrow> False)"

text \<open>A connection reloads the window after a second and keeps loading; the others read the status again.\<close>

definition task_answered :: "lan_task \<Rightarrow> unit + thrown \<Rightarrow> lan_world \<Rightarrow> lan_world" where
  "task_answered t a W = (case a of
     Inr e \<Rightarrow> lan_release (task_loads t) (tells [Says (task_failed t e) T_error] W)
   | Inl u \<Rightarrow>
       (let W' = tells [Says (fst (task_done t)) (snd (task_done t))] W
        in case t of Connect_server i n s \<Rightarrow> turns (\<lambda>p. p\<lparr>lp_reload := True\<rparr>) W' | _ \<Rightarrow> fetchStatus (task_loads t) W'))"

datatype lan_input =
    Select_server discovered_server
  | Type_manualIp jstr
  | Type_lan_secret jstr
  | Show_connect_form bool
  | Show_blocked bool
  | Copy_address
  | Copy_secret
  | Address_copied
  | Secret_copied

definition on_lan_input :: "lan_input \<Rightarrow> lan_page \<Rightarrow> lan_page" where
  "on_lan_input e p = (case e of
     Select_server s \<Rightarrow> if s \<in> set (lp_discovered p) then p\<lparr> lp_selected := Some s, lp_manualIp := [] \<rparr> else p
   | Type_manualIp t \<Rightarrow> p\<lparr> lp_manualIp := t, lp_selected := None \<rparr>
   | Type_lan_secret t \<Rightarrow> p\<lparr>lp_secret := t\<rparr>
   | Show_connect_form b \<Rightarrow> p\<lparr>lp_showForm := b\<rparr>
   | Show_blocked b \<Rightarrow> p\<lparr>lp_blockedTab := b\<rparr>
   | Copy_address \<Rightarrow> (case lp_server p of Some s \<Rightarrow> if sv_localIP s \<noteq> [] then p\<lparr>lp_copied := True\<rparr> else p | None \<Rightarrow> p)
   | Copy_secret \<Rightarrow> (if lp_secretValue p \<noteq> [] then p\<lparr>lp_secretCopied := True\<rparr> else p)
   | Address_copied \<Rightarrow> p\<lparr>lp_copied := False\<rparr>
   | Secret_copied \<Rightarrow> p\<lparr>lp_secretCopied := False\<rparr>)"

datatype lan_answer =
    Status_answer "(server_status option \<times> client_status option) + thrown"
  | Devices_answer "(connected_client list option \<times> blocked_device list option) + thrown"
  | Secret_answer "jstr + thrown"
  | Servers_answer "discovered_server list option + thrown"
  | Task_answer "unit + thrown"

definition lan_kind :: "lan_request \<Rightarrow> lan_answer \<Rightarrow> bool" where
  "lan_kind r a = (case (r, a) of (Get_status w, Status_answer x) \<Rightarrow> True | (Get_devices w, Devices_answer x) \<Rightarrow> True
     | (Get_secret w, Secret_answer x) \<Rightarrow> True | (Discover, Servers_answer x) \<Rightarrow> True | (Do_task t, Task_answer x) \<Rightarrow> True | _ \<Rightarrow> False)"

definition lan_answered :: "lan_answer \<Rightarrow> lan_request \<Rightarrow> lan_world \<Rightarrow> lan_world" where
  "lan_answered a r W = (case (r, a) of
     (Get_status w, Status_answer x) \<Rightarrow> status_fetched w x W
   | (Get_devices w, Devices_answer x) \<Rightarrow> devices_fetched w x W
   | (Get_secret w, Secret_answer x) \<Rightarrow> secret_fetched w x W
   | (Discover, Servers_answer x) \<Rightarrow> turns (servers_found x) W
   | (Do_task t, Task_answer x) \<Rightarrow> task_answered t x W
   | _ \<Rightarrow> W)"

text \<open>The tasks of the rows of the lists have no loading.\<close>

datatype lan_event =
    Lan_input lan_input
  | Lan_poll
  | Scan_click
  | Connect_click
  | Start_click
  | Stop_click
  | Disconnect_click
  | Row_click lan_task
  | Lan_answered nat lan_answer

definition client_connected :: "lan_page \<Rightarrow> bool" where
  "client_connected p = (case lp_client p of Some c \<Rightarrow> cs_connected c | None \<Rightarrow> False)"

definition lan_step :: "lan_world \<Rightarrow> lan_event \<Rightarrow> lan_world" where
  "lan_step W e =
     (let p = pw_page W
      in case e of
           Lan_input i \<Rightarrow> turns (on_lan_input i) W
         | Lan_poll \<Rightarrow> fetchStatus False W
         | Scan_click \<Rightarrow> if lp_scanning p then W else handleScanServers W
         | Connect_click \<Rightarrow> if lp_loading p \<or> (lp_selected p = None \<and> lp_manualIp p = []) then W else handleConnectToServer W
         | Start_click \<Rightarrow> if lp_loading p \<or> client_connected p then W else start_task Start_server W
         | Stop_click \<Rightarrow> if lp_loading p then W else start_task Stop_server W
         | Disconnect_click \<Rightarrow> if lp_loading p then W else start_task Disconnect_server W
         | Row_click t \<Rightarrow> if task_loads t then W else asks (Do_task t) W
         | Lan_answered k a \<Rightarrow> if k < length (pw_open W) \<and> lan_kind (pw_open W ! k) a then answers k (lan_answered a) W else W)"

subsection \<open>The panel is never stuck\<close>

text \<open>The open requests whose answer goes on towards the end of the loading.\<close>

definition releases :: "lan_request \<Rightarrow> bool" where
  "releases r = (case r of Get_status w \<Rightarrow> w | Get_devices w \<Rightarrow> w | Get_secret w \<Rightarrow> w | Do_task t \<Rightarrow> task_loads t | Discover \<Rightarrow> False)"

lemma releases_simps [simp]:
  "releases (Get_status w) = w" "releases (Get_devices w) = w" "releases (Get_secret w) = w"
  "releases (Do_task t) = task_loads t" "\<not> releases Discover"
  by (simp_all add: releases_def)

text \<open>A connection is asked for with an address and a secret.\<close>

definition connects_ok :: "lan_request \<Rightarrow> bool" where
  "connects_ok r = (case r of Do_task (Connect_server ip port s) \<Rightarrow> ip \<noteq> [] \<and> trim s \<noteq> [] | _ \<Rightarrow> True)"

lemma connects_ok_simps [simp]:
  "connects_ok (Get_status w)" "connects_ok (Get_devices w)" "connects_ok (Get_secret w)" "connects_ok Discover"
  "connects_ok (Do_task (Connect_server ip port s)) = (ip \<noteq> [] \<and> trim s \<noteq> [])"
  "connects_ok (Do_task Start_server)" "connects_ok (Do_task Stop_server)" "connects_ok (Do_task Disconnect_server)"
  "\<not> task_loads t \<Longrightarrow> connects_ok (Do_task t)"
  by (auto simp: connects_ok_def task_loads_def split: lan_task.splits)

text \<open>The open requests that will end the loading, with the request whose answer is being handled counted in \<open>n\<close>.\<close>

definition lan_balance :: "nat \<Rightarrow> lan_world \<Rightarrow> bool" where
  "lan_balance n W = (of_bool (lp_loading (pw_page W)) = n + length (filter releases (pw_open W)) + of_bool (lp_reload (pw_page W))
     \<and> list_all connects_ok (asked W))"

lemma balance_tells [simp]: "asked_calls cs = [] \<Longrightarrow> lan_balance n (tells cs W) = lan_balance n W"
  by (simp add: lan_balance_def)

lemma balance_turns:
  "lp_loading (f (pw_page W)) = lp_loading (pw_page W) \<Longrightarrow> lp_reload (f (pw_page W)) = lp_reload (pw_page W) \<Longrightarrow>
   lan_balance n (turns f W) = lan_balance n W"
  by (simp add: lan_balance_def)

lemma balance_asks: "connects_ok r \<Longrightarrow> lan_balance n (asks r W) = lan_balance (n + of_bool (releases r)) W"
  by (auto simp: lan_balance_def)

lemma balance_release: "lan_balance (of_bool w) W \<Longrightarrow> lan_balance 0 (lan_release w W)"
  by (cases w; cases "lp_loading (pw_page W)"; cases "lp_reload (pw_page W)") (auto simp: lan_balance_def lan_release_def)

lemma balance_answered:
  assumes "lan_balance (of_bool (releases r)) W" and "lan_kind r a"
  shows "lan_balance 0 (lan_answered a r W)"
proof (cases r)
  case (Get_status w)
  with assms obtain x where "a = Status_answer x" by (cases a) (auto simp: lan_kind_def)
  with assms Get_status show ?thesis
    by (cases x) (auto simp: lan_answered_def status_fetched_def Let_def balance_asks balance_turns intro!: balance_release split: option.split)
next
  case (Get_devices w)
  with assms obtain x where "a = Devices_answer x" by (cases a) (auto simp: lan_kind_def)
  with assms Get_devices show ?thesis
    by (cases x) (auto simp: lan_answered_def devices_fetched_def balance_asks balance_turns intro!: balance_release)
next
  case (Get_secret w)
  with assms obtain x where "a = Secret_answer x" by (cases a) (auto simp: lan_kind_def)
  with assms Get_secret show ?thesis
    by (auto simp: lan_answered_def secret_fetched_def balance_turns intro!: balance_release)
next
  case Discover
  with assms obtain x where "a = Servers_answer x" by (cases a) (auto simp: lan_kind_def)
  with assms Discover show ?thesis
    by (auto simp: lan_answered_def servers_found_def Let_def balance_turns split: sum.split option.split list.split)
next
  case (Do_task t)
  with assms obtain x where "a = Task_answer x" by (cases a) (auto simp: lan_kind_def)
  moreover have "lan_balance 0 (task_answered t x W)"
  proof (cases x)
    case (Inl u)
    with assms(1) Do_task show ?thesis
      by (cases t) (auto simp: task_answered_def Let_def fetchStatus_def balance_asks task_loads_def lan_balance_def of_bool_def split: if_splits)
  next
    case (Inr e)
    with assms(1) Do_task show ?thesis by (auto simp: task_answered_def intro!: balance_release)
  qed
  ultimately show ?thesis using Do_task by (simp add: lan_answered_def)
qed

interpretation lan_panel: machine lan_step "lan_balance 0" "\<lambda>_. True"
proof
  fix W e
  assume inv: "lan_balance 0 W"
  have start: "lan_balance 0 (start_task t W)" if "\<not> lp_loading (pw_page W)" "task_loads t" "connects_ok (Do_task t)" for t
    using inv that by (auto simp: start_task_def lan_balance_def)
  show "lan_balance 0 (lan_step W e)"
  proof (cases e)
    case (Lan_input i)
    with inv show ?thesis
      by (cases i) (auto simp: lan_step_def Let_def on_lan_input_def balance_turns split: option.split)
  next
    case Connect_click
    with inv start show ?thesis
      by (auto simp: lan_step_def Let_def handleConnectToServer_def task_loads_def split: prod.split)
  next
    case (Lan_answered k a)
    show ?thesis
    proof (cases "k < length (pw_open W) \<and> lan_kind (pw_open W ! k) a")
      case True
      with inv filter_nth [of k "pw_open W" releases]
      have "lan_balance (of_bool (releases (pw_open W ! k))) (W\<lparr>pw_open := take k (pw_open W) @ drop (Suc k) (pw_open W)\<rparr>)"
        by (simp add: lan_balance_def)
      with True Lan_answered show ?thesis by (simp add: lan_step_def answers_def balance_answered)
    qed (use inv Lan_answered in \<open>auto simp: lan_step_def\<close>)
  qed (use inv start in \<open>auto simp: lan_step_def Let_def fetchStatus_def handleScanServers_def balance_asks balance_turns task_loads_def\<close>)
qed

text \<open>C29. In every run of the panel, while it is loading exactly one request that is still open will end the loading,
  or the window is about to be loaded again; when it is not loading no such request is open.\<close>

theorem lan_panel_not_stuck:
  "of_bool (lp_loading (pw_page (run lan_step (fresh_page lan_start) es)))
     = length (filter releases (pw_open (run lan_step (fresh_page lan_start) es)))
       + (of_bool (lp_reload (pw_page (run lan_step (fresh_page lan_start) es))) :: nat)"
  using lan_panel.run_inv [of "fresh_page lan_start" es] by (simp add: lan_balance_def lan_start_def)

lemma connections_have_secret: "list_all connects_ok (asked (run lan_step (fresh_page lan_start) es))"
  using lan_panel.run_inv [of "fresh_page lan_start" es] by (simp add: lan_balance_def lan_start_def)

text \<open>An address typed during a search is not the one connected to: the only server found is selected over it.\<close>

lemma typed_address_overridden:
  assumes "dv_serverIP s \<noteq> []" and "trim (lp_secret (pw_page W)) \<noteq> []" and "\<not> lp_loading (pw_page W)"
    and "pw_open W = [Discover]"
  shows "\<exists>W'. run lan_step W [Lan_input (Type_manualIp t), Lan_answered 0 (Servers_answer (Inl (Some [s]))), Connect_click] = W'
    \<and> lp_manualIp (pw_page W') = t \<and> asked W' = asked W @ [Do_task (Connect_server (dv_serverIP s) (dv_port s) (lp_secret (pw_page W)))]"
  using assms by (simp add: lan_step_def on_lan_input_def answers_def lan_kind_def lan_answered_def servers_found_def
      handleConnectToServer_def chosen_server_def start_task_def Let_def)

section \<open>The screen that asks for a licence\<close>

text \<open>\<open>en_entering\<close>: half a second after an activation the screen is left; \<open>en_entered\<close>: it was left.\<close>

record entry_screen =
  en_lan :: bool
  en_keyInput :: jstr
  en_serverIp :: jstr
  en_serverPort :: int
  en_loading :: bool
  en_scanning :: bool
  en_error :: jstr
  en_deviceId :: jstr
  en_discovered :: "discovered_server list"
  en_secret :: jstr
  en_entering :: bool
  en_entered :: bool

definition screen_start :: entry_screen where
  "screen_start = \<lparr> en_lan = False, en_keyInput = [], en_serverIp = [], en_serverPort = 0, en_loading = False, en_scanning = False,
     en_error = [], en_deviceId = [], en_discovered = [], en_secret = [], en_entering = False, en_entered = False \<rparr>"

datatype entry_request = Get_device_id | Activate_key jstr | Find_servers | Join_server jstr int jstr | Get_client_status

type_synonym entry_world = "(entry_screen, entry_request) page_world"

definition screen_mount :: entry_world where
  "screen_mount = asks Get_device_id (fresh_page screen_start)"

definition screen_handleActivate :: "entry_world \<Rightarrow> entry_world" where
  "screen_handleActivate W =
     (let k = trim (en_keyInput (pw_page W))
      in if k = [] then W else asks (Activate_key k) (turns (\<lambda>p. p\<lparr> en_loading := True, en_error := [] \<rparr>) W))"

text \<open>The wrappers of the module \<open>core/license.ts\<close> are in theory \<open>Queries\<close>.\<close>

definition key_activated :: "unit + bool \<times> jstr \<Rightarrow> entry_screen \<Rightarrow> entry_screen" where
  "key_activated a p = (case activateLicense a of
     (True, m) \<Rightarrow> p\<lparr>en_entering := True\<rparr>
   | (False, m) \<Rightarrow> p\<lparr> en_error := (if m \<noteq> [] then m else [1601, 1588,
     1604, 32, 1575, 1604, 1578, 1601, 1593, 1610, 1604, 46, 32, 1578, 1581, 1602, 1602,
  32, 1605, 1606, 32, 1575, 1604, 1605, 1601, 1578, 1575, 1581, 46]), en_loading := False \<rparr>)"

definition screen_scan :: "entry_world \<Rightarrow> entry_world" where
  "screen_scan W = asks Find_servers (turns (\<lambda>p. p\<lparr> en_scanning := True, en_error := [], en_discovered := [] \<rparr>) W)"

definition screen_servers :: "discovered_server list option + thrown \<Rightarrow> entry_screen \<Rightarrow> entry_screen" where
  "screen_servers a p =
     (let q = (case a of
          Inl l \<Rightarrow>
            (let r = p\<lparr>en_discovered := opt_default [] l\<rparr>
             in case l of Some [s] \<Rightarrow> r\<lparr> en_serverIp := dv_serverIP s, en_serverPort := dv_port s \<rparr> | _ \<Rightarrow> r)
        | Inr e \<Rightarrow> p)
      in q\<lparr>en_scanning := False\<rparr>)"

definition handleSelectServer :: "discovered_server \<Rightarrow> entry_screen \<Rightarrow> entry_screen" where
  "handleSelectServer s p = p\<lparr> en_serverIp := dv_serverIP s, en_serverPort := dv_port s, en_error := [] \<rparr>"

definition screen_join :: "entry_world \<Rightarrow> entry_world" where
  "screen_join W =
     (let p = pw_page W; ip = trim (en_serverIp p)
      in if ip = [] then turns (\<lambda>p. p\<lparr>en_error := [1575, 1582, 1578, 1585, 32,
        1587, 1610, 1585, 1601, 1585, 32, 1571, 1608, 32, 1571, 1583, 1582,
  1604, 32, 1593, 1606, 1608, 1575, 1606, 32, 73, 80]\<rparr>) W
         else asks (Join_server ip (en_serverPort p) (en_secret p)) (turns (\<lambda>p. p\<lparr> en_loading := True, en_error := [] \<rparr>) W))"

definition join_failed :: "thrown \<Rightarrow> entry_screen \<Rightarrow> entry_screen" where
  "join_failed e p =
     (let msg = message_or (thrown_text e) e
      in p\<lparr> en_error := (if msg \<noteq> [] then msg else [1601, 1588, 1604, 32, 1575,
        1604, 1575, 1578, 1589, 1575, 1604, 32, 1576, 1575, 1604, 1582,
  1575, 1583, 1605]), en_loading := False \<rparr>)"

definition server_joined :: "unit + thrown \<Rightarrow> entry_world \<Rightarrow> entry_world" where
  "server_joined a W = (case a of Inl u \<Rightarrow> asks Get_client_status W | Inr e \<Rightarrow> turns (join_failed e) W)"

definition join_checked :: "bool + thrown \<Rightarrow> entry_screen \<Rightarrow> entry_screen" where
  "join_checked a p = (case a of
     Inl True \<Rightarrow> p\<lparr>en_entered := True\<rparr>
   | Inl False \<Rightarrow> p\<lparr> en_error := [1601, 1588, 1604, 32, 1575, 1604, 1578, 1581,
     1602, 1602, 32, 1605, 1606, 32, 1575, 1604, 1575,
  1578, 1589, 1575, 1604, 46], en_loading := False \<rparr>
   | Inr e \<Rightarrow> join_failed e p)"

definition switch_mode :: "entry_world \<Rightarrow> entry_world" where
  "switch_mode W =
     (let W' = turns (\<lambda>p. p\<lparr> en_lan := \<not> en_lan p, en_error := [] \<rparr>) W
      in if en_lan (pw_page W') then screen_scan W' else W')"

datatype screen_answer =
    Device_answer "unit + jstr"
  | Activation_answer "unit + bool \<times> jstr"
  | Found_answer "discovered_server list option + thrown"
  | Joined_answer "unit + thrown"
  | Client_answer "bool + thrown"

definition screen_kind :: "entry_request \<Rightarrow> screen_answer \<Rightarrow> bool" where
  "screen_kind r a = (case (r, a) of (Get_device_id, Device_answer x) \<Rightarrow> True | (Activate_key k, Activation_answer x) \<Rightarrow> True
     | (Find_servers, Found_answer x) \<Rightarrow> True | (Join_server i n s, Joined_answer x) \<Rightarrow> True
     | (Get_client_status, Client_answer x) \<Rightarrow> True | _ \<Rightarrow> False)"

definition screen_answered :: "screen_answer \<Rightarrow> entry_request \<Rightarrow> entry_world \<Rightarrow> entry_world" where
  "screen_answered a r W = (case a of
     Device_answer x \<Rightarrow> turns (\<lambda>p. p\<lparr>en_deviceId := getDeviceId x\<rparr>) W
   | Activation_answer x \<Rightarrow> turns (key_activated x) W
   | Found_answer x \<Rightarrow> turns (screen_servers x) W
   | Joined_answer x \<Rightarrow> server_joined x W
   | Client_answer x \<Rightarrow> turns (join_checked x) W)"

datatype screen_event =
    Type_key jstr
  | Type_address jstr
  | Type_screen_secret jstr
  | Submit_key
  | Submit_address
  | Search_click
  | Pick_server discovered_server
  | Switch_mode
  | Entry_timer
  | Screen_answered nat screen_answer

definition screen_step :: "entry_world \<Rightarrow> screen_event \<Rightarrow> entry_world" where
  "screen_step W e =
     (let p = pw_page W; idle = (\<not> en_loading p)
      in case e of
           Type_key t \<Rightarrow> if idle \<and> \<not> en_lan p then turns (\<lambda>p. p\<lparr>en_keyInput := t\<rparr>) W else W
         | Type_address t \<Rightarrow> if idle \<and> en_lan p then turns (\<lambda>p. p\<lparr> en_serverIp := t, en_serverPort := 0 \<rparr>) W else W
         | Type_screen_secret t \<Rightarrow> if idle \<and> en_lan p then turns (\<lambda>p. p\<lparr>en_secret := t\<rparr>) W else W
         | Submit_key \<Rightarrow> if idle \<and> \<not> en_lan p \<and> en_keyInput p \<noteq> [] then screen_handleActivate W else W
         | Submit_address \<Rightarrow> if idle \<and> en_lan p \<and> en_serverIp p \<noteq> [] then screen_join W else W
         | Search_click \<Rightarrow> if en_lan p \<and> \<not> en_scanning p then screen_scan W else W
         | Pick_server s \<Rightarrow> if en_lan p \<and> \<not> en_scanning p \<and> s \<in> set (en_discovered p) then turns (handleSelectServer s) W else W
         | Switch_mode \<Rightarrow> switch_mode W
         | Entry_timer \<Rightarrow> if en_entering p then turns (\<lambda>p. p\<lparr> en_entering := False, en_entered := True \<rparr>) W else W
         | Screen_answered k a \<Rightarrow>
             if k < length (pw_open W) \<and> screen_kind (pw_open W ! k) a then answers k (screen_answered a) W else W)"

text \<open>The requests that let the screen be left in the end, and those that were accepted.\<close>

definition enters :: "entry_request \<Rightarrow> bool" where
  "enters r = (case r of Activate_key k \<Rightarrow> True | Join_server i n s \<Rightarrow> True | Get_client_status \<Rightarrow> True | _ \<Rightarrow> False)"

lemma enters_simps [simp]:
  "\<not> enters Get_device_id" "enters (Activate_key k)" "\<not> enters Find_servers" "enters (Join_server i n s)" "enters Get_client_status"
  by (simp_all add: enters_def)

definition grants_entry :: "screen_event \<Rightarrow> bool" where
  "grants_entry e = (case e of
     Screen_answered k (Activation_answer (Inr (b, m))) \<Rightarrow> b
   | Screen_answered k (Client_answer (Inl b)) \<Rightarrow> b
   | _ \<Rightarrow> False)"

definition left_or_leaving :: "entry_screen \<Rightarrow> nat" where
  "left_or_leaving p = of_bool (en_entering p) + of_bool (en_entered p)"

definition entry_balance :: "nat \<Rightarrow> entry_world \<Rightarrow> bool" where
  "entry_balance n W = (of_bool (en_loading (pw_page W)) = n + length (filter enters (pw_open W)) + left_or_leaving (pw_page W))"

lemma screen_servers_frame [simp]:
  "en_loading (screen_servers a p) = en_loading p" "en_entering (screen_servers a p) = en_entering p"
  "en_entered (screen_servers a p) = en_entered p"
  by (auto simp: screen_servers_def Let_def split: sum.split option.split list.split)

lemma entry_balance_answered:
  assumes "entry_balance (of_bool (enters r)) W" and "screen_kind r a"
  shows "entry_balance 0 (screen_answered a r W)"
  using assms
  by (cases r; cases a)
    (auto simp: screen_kind_def screen_answered_def key_activated_def server_joined_def join_checked_def join_failed_def
      entry_balance_def left_or_leaving_def of_bool_def Let_def split: sum.splits prod.split bool.splits if_splits)

interpretation entry_screen_machine: machine screen_step "entry_balance 0" "\<lambda>_. True"
proof
  fix W e
  assume inv: "entry_balance 0 W"
  show "entry_balance 0 (screen_step W e)"
  proof (cases e)
    case (Screen_answered k a)
    show ?thesis
    proof (cases "k < length (pw_open W) \<and> screen_kind (pw_open W ! k) a")
      case True
      with inv filter_nth [of k "pw_open W" enters]
      have "entry_balance (of_bool (enters (pw_open W ! k))) (W\<lparr>pw_open := take k (pw_open W) @ drop (Suc k) (pw_open W)\<rparr>)"
        by (simp add: entry_balance_def)
      with True Screen_answered show ?thesis by (simp add: screen_step_def answers_def entry_balance_answered)
    qed (use inv Screen_answered in \<open>auto simp: screen_step_def\<close>)
  qed (use inv in \<open>auto simp: screen_step_def screen_handleActivate_def screen_scan_def handleSelectServer_def screen_join_def
      switch_mode_def entry_balance_def left_or_leaving_def of_bool_def Let_def split: if_splits\<close>)
qed

interpretation entry_payment: metered_machine screen_step "\<lambda>W. left_or_leaving (pw_page W)" grants_entry
proof
  fix W e
  show "left_or_leaving (pw_page (screen_step W e)) \<le> left_or_leaving (pw_page W) + of_bool (grants_entry e)"
  proof (cases e)
    case (Screen_answered k a)
    then show ?thesis
      by (cases a) (auto simp: screen_step_def answers_def screen_answered_def key_activated_def activateLicense_def server_joined_def
        join_checked_def join_failed_def grants_entry_def left_or_leaving_def Let_def split: sum.split prod.split bool.split)
  qed (auto simp: screen_step_def screen_handleActivate_def screen_scan_def handleSelectServer_def screen_join_def
      switch_mode_def left_or_leaving_def Let_def)
qed

text \<open>The screen is left only after a key was activated or the server confirmed the connection, and it is loading only
  while it is being left or a request is open that decides it.\<close>

lemma entry_needs_grant:
  assumes "en_entered (pw_page (run screen_step screen_mount es))"
  shows "\<exists>e\<in>set es. grants_entry e"
proof (rule ccontr)
  assume "\<not> ?thesis"
  then have "filter grants_entry es = []" by (simp add: filter_empty_conv)
  with assms entry_payment.run_cost [of screen_mount es]
  show False by (simp add: left_or_leaving_def screen_mount_def screen_start_def)
qed

lemma entry_not_stuck:
  assumes "en_loading (pw_page (run screen_step screen_mount es))"
  shows "(\<exists>r\<in>set (pw_open (run screen_step screen_mount es)). enters r)
    \<or> en_entering (pw_page (run screen_step screen_mount es)) \<or> en_entered (pw_page (run screen_step screen_mount es))"
proof -
  have "entry_balance 0 (run screen_step screen_mount es)"
    by (rule entry_screen_machine.run_inv) (simp_all add: entry_balance_def left_or_leaving_def screen_mount_def screen_start_def)
  with assms have "0 < length (filter enters (pw_open (run screen_step screen_mount es)))
      + left_or_leaving (pw_page (run screen_step screen_mount es))" by (auto simp: entry_balance_def)
  then show ?thesis by (auto simp: left_or_leaving_def filter_empty_conv of_bool_def split: if_splits)
qed

text \<open>The secret that the panel insists on is left out here: the request goes without it.\<close>

lemma joined_without_secret:
  "asked (run screen_step screen_mount [Switch_mode, Type_address (js ''10.0.0.2''), Submit_address])
     = [Get_device_id, Find_servers, Join_server (js ''10.0.0.2'') 0 []]"
  by (simp add: screen_mount_def screen_step_def switch_mode_def screen_scan_def screen_join_def screen_start_def Let_def
      trim_id js_def is_space_def)

end
