(* ===== verification/Markdown.thy ===== *)
theory Markdown
  imports Js_Text
begin

text \<open>
  The answers of the assistant as text with marks (\<open>components/shared/MarkdownRenderer.tsx\<close>): the blocks of a text,
  and the parts of a line. The elements of the page are a datatype; their classes and keys are left out.
\<close>

section \<open>The parts of a line\<close>

datatype inline = Plain_part jstr | Strong_part jstr

definition star_run :: jstr where
  "star_run = [42, 42]"

text \<open>What the regular expression \<open>.\<close> does not match.\<close>

definition line_end :: "nat \<Rightarrow> bool" where
  "line_end c = (c \<in> {10, 13, 8232, 8233})"

text \<open>The shortest text up to the next two stars, and what follows them.\<close>

fun close_bold :: "jstr \<Rightarrow> (jstr \<times> jstr) option" where
  "close_bold [] = None"
| "close_bold (c # s) =
     (if prefix star_run (c # s) then Some ([], drop 2 (c # s))
      else if line_end c then None else map_option (\<lambda>(x, r). (c # x, r)) (close_bold s))"

lemma close_bold_text: "close_bold s = Some (x, r) \<Longrightarrow> s = x @ star_run @ r"
proof (induction s arbitrary: x)
  case (Cons c s)
  show ?case
  proof (cases "prefix star_run (c # s)")
    case True
    then show ?thesis using Cons.prems by (auto simp: star_run_def prefix_def)
  next
    case False
    then show ?thesis using Cons by (auto split: if_splits)
  qed
qed simp

definition marked :: "jstr \<Rightarrow> (jstr \<times> jstr) option" where
  "marked s = (if prefix star_run s then close_bold (drop 2 s) else None)"

lemma marked_text:
  assumes "marked s = Some (x, r)"
  shows "s = star_run @ x @ star_run @ r"
proof -
  from assms have "prefix star_run s" "close_bold (drop 2 s) = Some (x, r)" by (auto simp: marked_def split: if_splits)
  then show ?thesis using close_bold_text by (fastforce simp: prefix_def star_run_def)
qed

lemma marked_shorter: "marked s = Some (x, r) \<Longrightarrow> length r < length s"
  by (drule marked_text) (simp add: star_run_def)

text \<open>\<open>split\<close> with the marked parts kept: \<open>acc\<close> is the plain part read so far.\<close>

function bold_split :: "jstr \<Rightarrow> jstr \<Rightarrow> jstr list" where
  "bold_split acc s =
     (case s of [] \<Rightarrow> [acc]
      | c # t \<Rightarrow>
          (case marked s of
             Some (x, r) \<Rightarrow> acc # (star_run @ x @ star_run) # bold_split [] r
           | None \<Rightarrow> bold_split (acc @ [c]) t))"
  by pat_completeness auto
termination
  by (relation "measure (\<lambda>(acc, s). length s)") (auto dest: marked_shorter)

declare bold_split.simps [simp del]

lemma bold_split_text: "concat (bold_split acc s) = acc @ s"
proof (induction acc s rule: bold_split.induct)
  case (1 acc s)
  show ?case
  proof (cases s)
    case Nil
    then show ?thesis by (simp add: bold_split.simps)
  next
    case (Cons c t)
    show ?thesis
    proof (cases "marked s")
      case None
      have "concat (bold_split (acc @ [c]) t) = (acc @ [c]) @ t"
        by (rule "1.IH"(1) [OF Cons None])
      then show ?thesis using Cons None by (simp add: bold_split.simps [of acc "c # t"])
    next
      case (Some p)
      obtain x r where p: "p = (x, r)" by (cases p)
      from Some p have s: "s = star_run @ x @ star_run @ r" using marked_text by blast
      have "concat (bold_split [] r) = [] @ r"
        by (rule "1.IH"(2) [OF Cons Some [unfolded p]]) simp
      then show ?thesis using Cons Some p s by (simp add: bold_split.simps [of acc "c # t"])
    qed
  qed
qed

definition inline_part :: "jstr \<Rightarrow> inline" where
  "inline_part part = (if prefix star_run part \<and> suffix star_run part then Strong_part (take (length part - 4) (drop 2 part)) else Plain_part part)"

definition parseInline :: "jstr \<Rightarrow> inline list" where
  "parseInline t = map inline_part (bold_split [] t)"

text \<open>A part as it was written.\<close>

definition written :: "inline \<Rightarrow> jstr" where
  "written i = (case i of Plain_part t \<Rightarrow> t | Strong_part t \<Rightarrow> star_run @ t @ star_run)"

text \<open>Two or three stars on their own.\<close>

definition bare_stars :: "jstr \<Rightarrow> bool" where
  "bare_stars part = (part = star_run \<or> part = 42 # star_run)"

lemma written_part: "\<not> bare_stars part \<Longrightarrow> written (inline_part part) = part"
proof (cases "prefix star_run part \<and> suffix star_run part")
  case True
  assume bare: "\<not> bare_stars part"
  from True obtain b where b: "part = star_run @ b" by (auto simp: prefix_def)
  have "suffix star_run b"
  proof (cases b rule: rev_cases)
    case (snoc c y)
    show ?thesis
    proof (cases c rule: rev_cases)
      case Nil
      then show ?thesis using True bare by (auto simp: b snoc suffix_def star_run_def bare_stars_def append_eq_append_conv2 Cons_eq_append_conv)
    next
      case (snoc d z)
      then show ?thesis using True b \<open>b = c @ [y]\<close> by (auto simp: suffix_def star_run_def append_eq_append_conv2 Cons_eq_append_conv)
    qed
  qed (use bare b in \<open>simp add: bare_stars_def\<close>)
  then obtain a where "b = a @ star_run" by (auto simp: suffix_def)
  with b True show ?thesis by (simp add: inline_part_def written_def star_run_def)
qed (auto simp: inline_part_def written_def)

lemma written_bare: "bare_stars part \<Longrightarrow> length part < length (written (inline_part part))"
  by (auto simp: bare_stars_def inline_part_def written_def star_run_def suffix_def)

text \<open>C30. The parts a line is shown in, written back with their marks, are the line exactly when no part of it
  consists of two or three stars alone: nothing else of a line is ever lost.\<close>

theorem inline_round_trip:
  "concat (map written (parseInline t)) = t \<longleftrightarrow> \<not> list_ex bare_stars (bold_split [] t)"
proof -
  let ?w = "\<lambda>part. written (inline_part part)"
  have longer: "length part \<le> length (?w part)" for part
    by (cases "bare_stars part") (use written_part written_bare in \<open>auto intro: less_imp_le\<close>)
  have grow: "length (concat ps) \<le> length (concat (map ?w ps))
      \<and> (list_ex bare_stars ps \<longrightarrow> length (concat ps) < length (concat (map ?w ps)))" for ps
  proof (induction ps)
    case (Cons p ps)
    then show ?case using longer [of p] written_bare [of p] by auto
  qed simp
  show ?thesis
  proof (cases "list_ex bare_stars (bold_split [] t)")
    case True
    have "concat (map written (parseInline t)) \<noteq> t"
    proof
      assume "concat (map written (parseInline t)) = t"
      then have "concat (map ?w (bold_split [] t)) = concat (bold_split [] t)"
        by (simp add: parseInline_def bold_split_text comp_def)
      with True grow [of "bold_split [] t"] show False by simp
    qed
    with True show ?thesis by simp
  next
    case False
    then have "map ?w (bold_split [] t) = bold_split [] t" by (auto simp: list_ex_iff written_part intro!: map_idI)
    then show ?thesis using False by (simp add: parseInline_def bold_split_text comp_def)
  qed
qed

text \<open>Stars alone disappear.\<close>

lemma stars_alone_lost: "parseInline (js ''a'' @ star_run) = [Plain_part (js ''a'' @ star_run)]" "parseInline star_run = [Strong_part []]"
  by (simp_all add: parseInline_def bold_split.simps marked_def star_run_def js_def inline_part_def line_end_def)

section \<open>The blocks of a text\<close>

datatype block =
    Code_line jstr
  | Header_3 jstr
  | Header_2 jstr
  | Bullets "inline list list"
  | Blank_line
  | Paragraph "inline list"

record blocks_state =
  md_elements :: "block list"
  md_list :: "inline list list"
  md_code :: bool

definition list_line :: "jstr \<Rightarrow> bool" where
  "list_line line = (let t = trim line in prefix [45, 32] t \<or> prefix [42, 32] t \<or> prefix [8226, 32] t)"

text \<open>\<open>line.replace(/^[-*.]\s+/, '')\<close>, the dot a bullet.\<close>

definition item_text :: "jstr \<Rightarrow> jstr" where
  "item_text line = (case line of
     m # c # r \<Rightarrow> if m \<in> {45, 42, 8226} \<and> is_space c then dropWhile is_space r else line
   | _ \<Rightarrow> line)"

definition fence_line :: "jstr \<Rightarrow> bool" where
  "fence_line line = prefix [96, 96, 96] (trim line)"

definition flush_list :: "blocks_state \<Rightarrow> blocks_state" where
  "flush_list s = (if md_list s \<noteq> [] then s\<lparr> md_elements := md_elements s @ [Bullets (md_list s)], md_list := [] \<rparr> else s)"

definition add_block :: "block \<Rightarrow> blocks_state \<Rightarrow> blocks_state" where
  "add_block b s = s\<lparr>md_elements := md_elements s @ [b]\<rparr>"

definition add_text :: "blocks_state \<Rightarrow> jstr \<Rightarrow> blocks_state" where
  "add_text s line =
     (if fence_line line then s\<lparr>md_code := \<not> md_code s\<rparr>
      else if md_code s then add_block (Code_line line) s
      else if prefix (js ''### '') line then add_block (Header_3 (drop 4 line)) s
      else if prefix (js ''## '') line then add_block (Header_2 (drop 3 line)) s
      else if list_line line then s\<lparr>md_list := md_list s @ [parseInline (item_text line)]\<rparr>
      else if trim line = [] then add_block Blank_line (flush_list s)
      else add_block (Paragraph (parseInline line)) (flush_list s))"

definition blocks_start :: blocks_state where
  "blocks_start = \<lparr> md_elements = [], md_list = [], md_code = False \<rparr>"

definition MarkdownRenderer :: "jstr \<Rightarrow> block list option" where
  "MarkdownRenderer content = (if content = [] then None
     else Some (md_elements (flush_list (foldl add_text blocks_start (split_on 10 content)))))"

text \<open>The lines shown: a list shows one for each of its items.\<close>

definition shown_lines :: "block list \<Rightarrow> nat" where
  "shown_lines bs = sum_list (map (\<lambda>b. case b of Bullets l \<Rightarrow> length l | _ \<Rightarrow> 1) bs)"

lemma shown_lines_simps [simp]:
  "shown_lines [] = 0" "shown_lines (bs @ cs) = shown_lines bs + shown_lines cs"
  "shown_lines [Bullets l] = length l" "shown_lines [Code_line t] = 1" "shown_lines [Header_3 t] = 1"
  "shown_lines [Header_2 t] = 1" "shown_lines [Blank_line] = 1" "shown_lines [Paragraph p] = 1"
  by (simp_all add: shown_lines_def)

lemma shown_flush [simp]:
  "shown_lines (md_elements (flush_list s)) + length (md_list (flush_list s)) = shown_lines (md_elements s) + length (md_list s)"
  "md_list (flush_list s) = []"
  by (simp_all add: flush_list_def)

lemma shown_add_line:
  "shown_lines (md_elements (add_text s line)) + length (md_list (add_text s line))
     = shown_lines (md_elements s) + length (md_list s) + of_bool (\<not> fence_line line)"
  using shown_flush [of s] by (auto simp: add_text_def add_block_def)

lemma shown_lines_fold:
  "shown_lines (md_elements (foldl add_text s ls)) + length (md_list (foldl add_text s ls))
     = shown_lines (md_elements s) + length (md_list s) + length (filter (\<lambda>l. \<not> fence_line l) ls)"
  by (induction ls arbitrary: s) (auto simp: shown_add_line)

text \<open>Every line of the text but the fences is shown once, code, lists and open fences included.\<close>

lemma every_line_shown:
  assumes "MarkdownRenderer content = Some bs"
  shows "shown_lines bs = length (filter (\<lambda>l. \<not> fence_line l) (split_on 10 content))"
  using assms shown_lines_fold [of blocks_start "split_on 10 content"] shown_flush [of "foldl add_text blocks_start (split_on 10 content)"]
  by (auto simp: MarkdownRenderer_def blocks_start_def split: if_splits)

text \<open>But not always in its place: a header does not end a list, which is then shown after the header.\<close>

lemma header_overtakes_list:
  "MarkdownRenderer (js ''- a'' @ 10 # js ''## B'') = Some [Header_2 (js ''B''), Bullets [[Plain_part (js ''a'')]]]"
  by (simp add: MarkdownRenderer_def js_def add_text_def fence_line_def list_line_def item_text_def trim_id is_space_def
      blocks_start_def add_block_def flush_list_def parseInline_def bold_split.simps marked_def star_run_def inline_part_def Let_def)

text \<open>The mark of an indented item stays in its text.\<close>

lemma indented_mark_kept: "item_text (js ''  - a'') = js ''  - a''" "item_text (js ''- a'') = js ''a''"
  by (simp_all add: item_text_def js_def is_space_def)

end
