(* ===== verification/CsvTransfer.thy ===== *)
theory CsvTransfer
  imports ForceDelete Pages
begin

text \<open>
  Import and export of products as CSV files (\<open>components/ImportExportModal.tsx\<close>) as steps of a page. The files are
  read and written by the backend.
\<close>

record import_result =
  im_success :: bool
  im_totalRows :: int
  im_imported :: int
  im_updated :: int
  im_skipped :: int
  im_errors :: "jstr list option"

text \<open>The list of errors may be \<open>null\<close>.\<close>

record transfer_page =
  tf_import :: bool
  tf_importing :: bool
  tf_exporting :: bool
  tf_result :: "import_result option"
  tf_updateExisting :: bool
  tf_dragOver :: bool

definition transfer_start :: transfer_page where
  "transfer_start = \<lparr> tf_import = False, tf_importing = False, tf_exporting = False, tf_result = None,
     tf_updateExisting = False, tf_dragOver = False \<rparr>"

text \<open>A file is read before it is sent; a name stands for the file.\<close>

datatype transfer_request =
    Import_native bool
  | Read_file jstr bool
  | Import_text jstr bool
  | Export_products
  | Download_template

type_synonym transfer_world = "(transfer_page, transfer_request) page_world"

definition begin_import :: "transfer_request \<Rightarrow> transfer_world \<Rightarrow> transfer_world" where
  "begin_import r W = asks r (turns (\<lambda>p. p\<lparr> tf_importing := True, tf_result := None \<rparr>) W)"

definition handleFileImport :: "jstr \<Rightarrow> transfer_world \<Rightarrow> transfer_world" where
  "handleFileImport file W = begin_import (Read_file file (tf_updateExisting (pw_page W))) W"

definition handleDrop :: "jstr option \<Rightarrow> transfer_world \<Rightarrow> transfer_world" where
  "handleDrop file W =
     (let W' = turns (\<lambda>p. p\<lparr>tf_dragOver := False\<rparr>) W
      in case file of
           Some n \<Rightarrow> if suffix (js ''.csv'') n then handleFileImport n W'
             else tells [Says [1610, 1585, 1580, 1609, 32, 1575, 1582, 1578, 1610, 1575, 1585,
               32, 1605, 1604, 1601, 32, 67,
  83, 86] T_error] W'
         | None \<Rightarrow> tells [Says [1610, 1585, 1580, 1609, 32, 1575, 1582, 1578, 1610,
           1575, 1585, 32, 1605, 1604, 1601, 32, 67,
  83, 86] T_error] W')"

definition handleFileSelect :: "jstr option \<Rightarrow> transfer_world \<Rightarrow> transfer_world" where
  "handleFileSelect file W = (case file of Some n \<Rightarrow> handleFileImport n W | None \<Rightarrow> W)"

definition handleNativeImport :: "transfer_world \<Rightarrow> transfer_world" where
  "handleNativeImport W = begin_import (Import_native (tf_updateExisting (pw_page W))) W"

definition imported_some :: "import_result \<Rightarrow> bool" where
  "imported_some r = (im_success r \<and> (0 < im_imported r \<or> 0 < im_updated r))"

definition imported_text :: "import_result \<Rightarrow> jstr" where
  "imported_text r = [1578, 1605, 32, 1575, 1587, 1578, 1610, 1585, 1575, 1583,
    32] @ show_int (im_imported r) @ [32, 1605, 1606, 1578, 1580, 32, 1608, 1578, 1581, 1583,
    1610, 1579, 32] @ show_int (im_updated r)"

definition errors_text :: "nat \<Rightarrow> jstr" where
  "errors_text n = [1581, 1583, 1579, 1578, 32] @ show_nat n @ [32, 1571, 1582, 1591, 1575, 1569,
    32, 1571, 1579, 1606, 1575, 1569, 32, 1575, 1604, 1575, 1587,
  1578, 1610, 1585, 1575, 1583]"

definition end_import :: "transfer_world \<Rightarrow> transfer_world" where
  "end_import = turns (\<lambda>p. p\<lparr>tf_importing := False\<rparr>)"

text \<open>\<open>onImportComplete\<close> lists the products again.\<close>

definition native_imported :: "import_result + thrown \<Rightarrow> transfer_world \<Rightarrow> transfer_world" where
  "native_imported a W = end_import (case a of
     Inl r \<Rightarrow>
       (let W' = turns (\<lambda>p. p\<lparr>tf_result := Some r\<rparr>) W
        in if imported_some r then tells [Says (imported_text r) T_success, Refetches] W'
           else (case im_errors r of
               Some es \<Rightarrow> if es \<noteq> [] then tells [Says (errors_text (length es)) T_error] W' else W'
             | None \<Rightarrow> W'))
   | Inr e \<Rightarrow>
       (let msg = message_or [1582, 1591, 1571, 32, 1594, 1610, 1585, 32, 1605, 1593, 1585, 1608,
         1601] e
        in if msg = js ''cancelled'' then tells [Says [1578, 1605, 32, 1573, 1604, 1594, 1575,
          1569, 32, 1575, 1604, 1575, 1587, 1578, 1610, 1585,
  1575, 1583] T_info] W
           else tells [Says ([1601, 1588, 1604, 32, 1575, 1604, 1575, 1587, 1578, 1610, 1585,
             1575, 1583, 58, 32] @ msg) T_error] W))"

definition file_failed :: "thrown \<Rightarrow> transfer_world \<Rightarrow> transfer_world" where
  "file_failed e = tells [Says ([1601, 1588, 1604, 32, 1575, 1604, 1575, 1587, 1578, 1610, 1585,
    1575, 1583, 58, 32] @ message_or [1582, 1591, 1571, 32, 1601, 1610, 32, 1578, 1606, 1587,
    1610, 1602, 32, 1575, 1604, 1605, 1604,
  1601] e) T_error]"

definition file_read :: "bool \<Rightarrow> jstr + thrown \<Rightarrow> transfer_world \<Rightarrow> transfer_world" where
  "file_read upd a W = (case a of Inl t \<Rightarrow> asks (Import_text t upd) W | Inr e \<Rightarrow> end_import (file_failed e W))"

text \<open>Here the length of the errors is read without a test: with \<open>null\<close> it throws, after the result was shown.\<close>

definition null_length_error :: thrown where
  "null_length_error = Thrown_error (js ''Cannot read properties of null (reading '' @ [39] @ js ''length'' @ [39] @ js '')'')"

definition text_imported :: "import_result + thrown \<Rightarrow> transfer_world \<Rightarrow> transfer_world" where
  "text_imported a W = end_import (case a of
     Inl r \<Rightarrow>
       (let W' = turns (\<lambda>p. p\<lparr>tf_result := Some r\<rparr>) W
        in if imported_some r then tells [Says (imported_text r) T_success, Refetches] W'
           else (case im_errors r of
               Some es \<Rightarrow> if es \<noteq> [] then tells [Says (errors_text (length es)) T_error] W' else W'
             | None \<Rightarrow> file_failed null_length_error W'))
   | Inr e \<Rightarrow> file_failed e W)"

text \<open>The result is drawn by reading the length of its errors: a result with \<open>null\<close> cannot be drawn.\<close>

definition result_drawable :: "transfer_page \<Rightarrow> bool" where
  "result_drawable p = (\<not> tf_import p \<or> (case tf_result p of None \<Rightarrow> True | Some r \<Rightarrow> im_errors r \<noteq> None))"

definition shown_errors :: "jstr list \<Rightarrow> jstr list \<times> nat" where
  "shown_errors es = (take 5 es, length es - 5)"

definition transfer_handleExport :: "transfer_world \<Rightarrow> transfer_world" where
  "transfer_handleExport W = asks Export_products (turns (\<lambda>p. p\<lparr>tf_exporting := True\<rparr>) W)"

text \<open>The export answers with the number of products, or nothing.\<close>

definition products_exported :: "int option + thrown \<Rightarrow> transfer_world \<Rightarrow> transfer_world" where
  "products_exported a W = turns (\<lambda>p. p\<lparr>tf_exporting := False\<rparr>) (case a of
     Inl (Some n) \<Rightarrow> if 0 < n then tells [Says ([1578, 1605, 32, 1578, 1589, 1583,
       1610, 1585, 32] @ show_int n @ [32, 1605, 1606, 1578, 1580, 32, 1576, 1606, 1580, 1575,
       1581]) T_success] W else W
   | Inl None \<Rightarrow> W
   | Inr e \<Rightarrow>
       (let msg = message_or [1582, 1591, 1571, 32, 1594, 1610, 1585, 32, 1605, 1593, 1585, 1608,
         1601] e
        in if msg = js ''cancelled'' then tells [Says [1578, 1605, 32, 1573, 1604, 1594, 1575,
          1569, 32, 1575, 1604, 1578, 1589, 1583, 1610, 1585] T_info] W
           else tells [Says ([1601, 1588, 1604, 32, 1575, 1604, 1578, 1589, 1583, 1610, 1585, 58,
             32] @ msg) T_error] W))"

definition template_downloaded :: "bool + thrown \<Rightarrow> transfer_world \<Rightarrow> transfer_world" where
  "template_downloaded a W = (case a of
     Inl b \<Rightarrow> if b then tells [Says [1578, 1605, 32, 1578, 1581, 1605, 1610, 1604, 32,
       1575, 1604, 1602, 1575, 1604, 1576] T_success] W else W
   | Inr e \<Rightarrow>
       (let msg = message_or [1582, 1591, 1571, 32, 1601, 1610, 32, 1575, 1604, 1606, 1592, 1575,
         1605] e
        in if msg = js ''cancelled'' then tells [Says [1578, 1605, 32, 1573, 1604, 1594, 1575,
          1569, 32, 1578, 1581, 1605, 1610, 1604, 32, 1575, 1604,
  1602, 1575, 1604, 1576] T_info] W
           else tells [Says ([1601, 1588, 1604, 32, 1578, 1581, 1605, 1610, 1604, 32, 1575, 1604,
             1602, 1575, 1604, 1576, 58, 32] @ msg) T_error] W))"

datatype transfer_answer =
    Import_answer "import_result + thrown"
  | Text_answer "jstr + thrown"
  | Export_answer "int option + thrown"
  | Template_answer "bool + thrown"

definition transfer_kind :: "transfer_request \<Rightarrow> transfer_answer \<Rightarrow> bool" where
  "transfer_kind r a = (case (r, a) of
     (Import_native u, Import_answer x) \<Rightarrow> True | (Read_file n u, Text_answer x) \<Rightarrow> True | (Import_text t u, Import_answer x) \<Rightarrow> True
   | (Export_products, Export_answer x) \<Rightarrow> True | (Download_template, Template_answer x) \<Rightarrow> True | _ \<Rightarrow> False)"

definition transfer_answered :: "transfer_answer \<Rightarrow> transfer_request \<Rightarrow> transfer_world \<Rightarrow> transfer_world" where
  "transfer_answered a r W = (case (r, a) of
     (Import_native u, Import_answer x) \<Rightarrow> native_imported x W
   | (Read_file n u, Text_answer x) \<Rightarrow> file_read u x W
   | (Import_text t u, Import_answer x) \<Rightarrow> text_imported x W
   | (Export_products, Export_answer x) \<Rightarrow> products_exported x W
   | (Download_template, Template_answer x) \<Rightarrow> template_downloaded x W
   | _ \<Rightarrow> W)"

datatype transfer_event =
    Show_import bool
  | Drop_file "jstr option"
  | Select_file "jstr option"
  | Drag_over bool
  | Update_existing bool
  | Import_click
  | Export_products_click
  | Template_click
  | Transfer_answered nat transfer_answer

definition transfer_step :: "transfer_world \<Rightarrow> transfer_event \<Rightarrow> transfer_world" where
  "transfer_step W e =
     (let p = pw_page W
      in case e of
           Show_import b \<Rightarrow> turns (\<lambda>p. p\<lparr> tf_import := b, tf_result := None \<rparr>) W
         | Drop_file n \<Rightarrow> if tf_import p then handleDrop n W else W
         | Select_file n \<Rightarrow> if tf_import p then handleFileSelect n W else W
         | Drag_over b \<Rightarrow> if tf_import p then turns (\<lambda>p. p\<lparr>tf_dragOver := b\<rparr>) W else W
         | Update_existing b \<Rightarrow> if tf_import p then turns (\<lambda>p. p\<lparr>tf_updateExisting := b\<rparr>) W else W
         | Import_click \<Rightarrow> if tf_import p then handleNativeImport W else W
         | Export_products_click \<Rightarrow> if \<not> tf_import p \<and> \<not> tf_exporting p then transfer_handleExport W else W
         | Template_click \<Rightarrow> if tf_import p then asks Download_template W else W
         | Transfer_answered k a \<Rightarrow> if k < length (pw_open W) \<and> transfer_kind (pw_open W ! k) a then answers k (transfer_answered a) W else W)"
section \<open>What a user is told\<close>

text \<open>Dropping is no button: a second file can be dropped while the first is imported. Its result is removed, and the
  first answer ends the sign of both.\<close>

lemma sign_ends_early:
  assumes "pw_open W = []" "tf_import (pw_page W)" and "suffix (js ''.csv'') f" "suffix (js ''.csv'') g"
  shows "let W' = run transfer_step W [Drop_file (Some f), Drop_file (Some g), Transfer_answered 0 (Text_answer (Inr e))]
    in \<not> tf_importing (pw_page W') \<and> pw_open W' = [Read_file g (tf_updateExisting (pw_page W))]"
  using assms by (simp add: transfer_step_def handleDrop_def handleFileImport_def begin_import_def answers_def transfer_kind_def
      transfer_answered_def file_read_def file_failed_def end_import_def Let_def)

text \<open>A dropped file without errors, of which nothing was imported, is told as a failure when its errors are \<open>null\<close>; the
  dialog of the system says nothing. Neither can be drawn.\<close>

lemma null_errors_told:
  assumes "im_errors r = None" "\<not> imported_some r" "tf_import (pw_page W)"
  shows "pw_calls (text_imported (Inl r) W) = pw_calls (file_failed null_length_error W)"
    and "pw_calls (native_imported (Inl r) W) = pw_calls W"
    and "\<not> result_drawable (pw_page (text_imported (Inl r) W))" "\<not> result_drawable (pw_page (native_imported (Inl r) W))"
  using assms by (simp_all add: text_imported_def native_imported_def file_failed_def end_import_def result_drawable_def Let_def)

text \<open>Only an answer with changes lists the products again.\<close>

lemma refetched_on_change:
  "Refetches \<in> set (drop (length (pw_calls W)) (pw_calls (native_imported a W)))
    \<longleftrightarrow> (\<exists>r. a = Inl r \<and> im_success r \<and> (0 < im_imported r \<or> 0 < im_updated r))"
  by (cases a) (auto simp: native_imported_def end_import_def imported_some_def Let_def split: option.split)

end
