(* ===== verification/Camera.thy ===== *)
theory Camera
  imports Pages
begin

text \<open>
  The scanner that reads codes with a camera (\<open>components/BarcodeScannerOverlay.tsx\<close>) as steps of a page: the choice of
  a camera, its start and stop, and what is done with a code that was read. The library that drives the camera is
  asked like the backend; what its callback had captured when it was started is kept with the running camera.
  \<open>lower\<close> is \<open>toLowerCase\<close>. Beeps are left out.
\<close>

datatype scan_status = Scan_idle | Scan_success | Scan_error

record scanned_item =
  sc_code :: jstr
  sc_name :: jstr
  sc_count :: nat
  sc_timestamp :: int

text \<open>The closure of a callback: \<open>lastScannedCode\<close> and \<open>scanStatus\<close> of the render that started the camera.\<close>

type_synonym scan_closure = "jstr option \<times> scan_status"

text \<open>The refs: \<open>cm_busy\<close> is \<open>isProcessingRef\<close>, \<open>cm_scanner\<close> the number of the object in \<open>scannerRef\<close>, \<open>cm_times\<close>
  \<open>lastScanTimeRef\<close>. \<open>cm_running\<close> are the objects that read codes, \<open>cm_resets\<close> and \<open>cm_closings\<close> the timers set.\<close>

record camera_page =
  cm_error :: "jstr option"
  cm_cameras :: "(jstr \<times> jstr) list"
  cm_active :: "jstr option"
  cm_torchOn :: bool
  cm_hasTorch :: bool
  cm_status :: scan_status
  cm_feedback :: "jstr option"
  cm_lastCode :: "jstr option"
  cm_processing :: bool
  cm_busy :: bool
  cm_scanner :: "nat option"
  cm_created :: nat
  cm_scanning :: bool
  cm_running :: "(nat \<times> scan_closure) list"
  cm_items :: "scanned_item list"
  cm_times :: "(jstr \<times> int) list"
  cm_preferred :: "jstr option"
  cm_resets :: nat
  cm_closings :: nat

definition camera_start :: "jstr option \<Rightarrow> camera_page" where
  "camera_start preferred = \<lparr> cm_error = None, cm_cameras = [], cm_active = None, cm_torchOn = False, cm_hasTorch = False,
     cm_status = Scan_idle, cm_feedback = None, cm_lastCode = None, cm_processing = False, cm_busy = False, cm_scanner = None,
     cm_created = 0, cm_scanning = False, cm_running = [], cm_items = [], cm_times = [], cm_preferred = preferred,
     cm_resets = 0, cm_closings = 0 \<rparr>"

text \<open>What follows a stop: the switch to a camera, its start, or nothing.\<close>

datatype after_stop = Then_switch jstr scan_closure | Then_start jstr scan_closure | Then_nothing

datatype camera_request =
    Get_cameras
  | Stop_camera nat after_stop
  | Import_scanner jstr scan_closure
  | Start_camera nat jstr scan_closure
  | Scan_code jstr int
  | Set_torch bool

type_synonym camera_world = "(camera_page, camera_request) page_world"

definition camera_mount :: "jstr option \<Rightarrow> camera_world" where
  "camera_mount preferred = asks Get_cameras (fresh_page (camera_start preferred))"

definition stop_with :: "after_stop \<Rightarrow> (camera_world \<Rightarrow> camera_world) \<Rightarrow> camera_world \<Rightarrow> camera_world" where
  "stop_with nxt go W =
     (case cm_scanner (pw_page W) of
        Some n \<Rightarrow> if cm_scanning (pw_page W) then asks (Stop_camera n nxt) W else go W
      | None \<Rightarrow> go W)"

definition startScanner :: "jstr \<Rightarrow> scan_closure \<Rightarrow> camera_world \<Rightarrow> camera_world" where
  "startScanner i cl W =
     (if cm_scanning (pw_page W) then stop_with (Then_start i cl) (asks (Import_scanner i cl)) W else asks (Import_scanner i cl) W)"

definition continue_with :: "after_stop \<Rightarrow> camera_world \<Rightarrow> camera_world" where
  "continue_with nxt W = (case nxt of
     Then_switch i cl \<Rightarrow> startScanner i cl W
   | Then_start i cl \<Rightarrow> asks (Import_scanner i cl) W
   | Then_nothing \<Rightarrow> W)"

definition stopScanner :: "after_stop \<Rightarrow> camera_world \<Rightarrow> camera_world" where
  "stopScanner nxt = stop_with nxt (continue_with nxt)"

text \<open>A failed stop leaves \<open>isScanning\<close> as it is.\<close>

definition camera_stopped :: "nat \<Rightarrow> after_stop \<Rightarrow> unit + thrown \<Rightarrow> camera_world \<Rightarrow> camera_world" where
  "camera_stopped n nxt a W = continue_with nxt (case a of
     Inl u \<Rightarrow> turns (\<lambda>p. p\<lparr> cm_scanning := False, cm_running := filter (\<lambda>r. fst r \<noteq> n) (cm_running p) \<rparr>) W
   | Inr e \<Rightarrow> W)"

definition scanner_imported :: "jstr \<Rightarrow> scan_closure \<Rightarrow> unit + thrown \<Rightarrow> camera_world \<Rightarrow> camera_world" where
  "scanner_imported i cl a W = (case a of
     Inl u \<Rightarrow> asks (Start_camera (cm_created (pw_page W)) i cl)
       (turns (\<lambda>p. p\<lparr> cm_scanner := Some (cm_created p), cm_created := Suc (cm_created p), cm_scanning := True \<rparr>) W)
   | Inr e \<Rightarrow> W)"

text \<open>A started camera says whether it has a torch.\<close>

definition camera_started :: "nat \<Rightarrow> scan_closure \<Rightarrow> bool + thrown \<Rightarrow> camera_page \<Rightarrow> camera_page" where
  "camera_started n cl a p = (case a of
     Inl torch \<Rightarrow> p\<lparr> cm_running := cm_running p @ [(n, cl)], cm_hasTorch := torch \<rparr>
   | Inr e \<Rightarrow> p\<lparr> cm_scanning := False, cm_error := Some [1578, 1593, 1584,
     1585, 32, 1578, 1588, 1594, 1610, 1604, 32, 1575, 1604, 1603, 1575, 1605,
  1610, 1585, 1575, 46] \<rparr>)"

text \<open>Another active camera runs the effect: it switches and stores the choice.\<close>

definition setActiveCameraId :: "jstr \<Rightarrow> camera_world \<Rightarrow> camera_world" where
  "setActiveCameraId i W =
     (let p = pw_page W
      in if cm_active p = Some i then W
         else (let W' = turns (\<lambda>p. p\<lparr> cm_active := Some i \<rparr>) W
               in if i = [] then W'
                  else turns (\<lambda>p. p\<lparr> cm_preferred := Some i \<rparr>) (stopScanner (Then_switch i (cm_lastCode p, cm_status p)) W')))"

definition back_camera :: "(jstr \<Rightarrow> jstr) \<Rightarrow> jstr \<times> jstr \<Rightarrow> bool" where
  "back_camera lower c = (str_includes (lower (snd c)) (js ''back'') \<or> str_includes (lower (snd c)) (js ''environment''))"

definition chosen_camera :: "(jstr \<Rightarrow> jstr) \<Rightarrow> jstr option \<Rightarrow> (jstr \<times> jstr) list \<Rightarrow> jstr" where
  "chosen_camera lower saved devices =
     (case List.find (\<lambda>d. Some (fst d) = saved) devices of
        Some d \<Rightarrow> fst d
      | None \<Rightarrow> (case List.find (back_camera lower) devices of Some d \<Rightarrow> fst d | None \<Rightarrow> fst (hd devices)))"

definition cameras_found :: "(jstr \<Rightarrow> jstr) \<Rightarrow> (jstr \<times> jstr) list + thrown \<Rightarrow> camera_world \<Rightarrow> camera_world" where
  "cameras_found lower a W = (case a of
     Inr e \<Rightarrow> turns (\<lambda>p. p\<lparr> cm_error := Some [1601, 1588, 1604, 32,
       1575, 1604, 1608, 1589, 1608, 1604, 32, 1604, 1604, 1603, 1575, 1605,
  1610, 1585, 1575, 46, 32, 1610, 1585, 1580, 1609, 32, 1575, 1604, 1578, 1581, 1602, 1602, 32,
  1605, 1606, 32, 1575, 1604, 1589, 1604, 1575, 1581, 1610, 1575, 1578, 46] \<rparr>) W
   | Inl devices \<Rightarrow>
       if devices = [] then turns (\<lambda>p. p\<lparr> cm_error := Some [1604, 1605, 32, 1610,
         1578, 1605, 32, 1575, 1604, 1593, 1579, 1608, 1585, 32, 1593, 1604, 1609,
  32, 1603, 1575, 1605, 1610, 1585, 1575, 46] \<rparr>) W
       else setActiveCameraId (chosen_camera lower (cm_preferred (pw_page W)) devices)
         (turns (\<lambda>p. p\<lparr> cm_cameras := devices \<rparr>) W))"

section \<open>A code is read\<close>

text \<open>\<open>now - lastTime < SAME_ITEM_DELAY\<close>. The times are the properties of an object: the one named \<open>__proto__\<close> is no
  number and cannot be set to one, so its comparison is always false.\<close>

definition scanned_recently :: "jstr \<Rightarrow> int \<Rightarrow> camera_page \<Rightarrow> bool" where
  "scanned_recently code now p = (code \<noteq> js ''__proto__'' \<and> now - opt_default 0 (map_of (cm_times p) code) < 1500)"

definition code_read :: "scan_closure \<Rightarrow> jstr \<Rightarrow> int \<Rightarrow> camera_world \<Rightarrow> camera_world" where
  "code_read cl code now W =
     (let p = pw_page W
      in if cm_busy p then W
         else if scanned_recently code now p then W
         else if fst cl = Some code \<and> snd cl = Scan_error then W
         else asks (Scan_code code now)
           (turns (\<lambda>p. p\<lparr> cm_busy := True, cm_processing := True, cm_lastCode := Some code, cm_times := (code, now) # cm_times p \<rparr>) W))"

text \<open>The result of \<open>onScan\<close>: \<open>success\<close>, \<open>name\<close> and \<open>message\<close>.\<close>

type_synonym camera_result = "bool \<times> jstr option \<times> jstr option"

definition label_or :: "jstr option \<Rightarrow> jstr \<Rightarrow> jstr" where
  "label_or t d = (case t of Some s \<Rightarrow> if s \<noteq> [] then s else d | None \<Rightarrow> d)"

definition count_item :: "jstr \<Rightarrow> jstr \<Rightarrow> int \<Rightarrow> scanned_item list \<Rightarrow> scanned_item list" where
  "count_item code name now prev =
     (if list_ex (\<lambda>i. sc_code i = code) prev
      then map (\<lambda>i. if sc_code i = code then i\<lparr> sc_count := sc_count i + 1, sc_timestamp := now \<rparr> else i) prev
      else prev @ [\<lparr> sc_code = code, sc_name = name, sc_count = 1, sc_timestamp = now \<rparr>])"

definition scan_answered :: "bool \<Rightarrow> jstr \<Rightarrow> int \<Rightarrow> camera_result + thrown \<Rightarrow> camera_page \<Rightarrow> camera_page" where
  "scan_answered cont code now a p = (case a of
     Inr e \<Rightarrow> p\<lparr> cm_busy := False, cm_processing := False \<rparr>
   | Inl (success, name, message) \<Rightarrow>
       (let q = (if success
          then p\<lparr> cm_status := Scan_success, cm_feedback := Some (label_or name code),
            cm_items := count_item code (label_or name code) now (cm_items p) \<rparr>
          else p\<lparr> cm_status := Scan_error, cm_feedback := Some (label_or message [1575,
            1604, 1605, 1606, 1578, 1580, 32, 1594, 1610, 1585, 32, 1605, 1608, 1580, 1608,
            1583]) \<rparr>)
        in if \<not> cont \<and> success then q\<lparr>cm_closings := cm_closings q + 1\<rparr> else q\<lparr>cm_resets := cm_resets q + 1\<rparr>))"

definition reset_timer :: "camera_page \<Rightarrow> camera_page" where
  "reset_timer p = (if cm_resets p = 0 then p else
     p\<lparr> cm_resets := cm_resets p - 1, cm_busy := False, cm_processing := False, cm_status := Scan_idle, cm_feedback := None \<rparr>)"

definition toggleTorch :: "camera_world \<Rightarrow> camera_world" where
  "toggleTorch W = (let p = pw_page W in if cm_scanner p \<noteq> None \<and> cm_hasTorch p then asks (Set_torch (\<not> cm_torchOn p)) W else W)"

definition torch_set :: "bool \<Rightarrow> unit + thrown \<Rightarrow> camera_page \<Rightarrow> camera_page" where
  "torch_set b a p = (case a of Inl u \<Rightarrow> p\<lparr>cm_torchOn := b\<rparr> | Inr e \<Rightarrow> p)"

definition scanned_total :: "camera_page \<Rightarrow> nat" where
  "scanned_total p = sum_list (map sc_count (cm_items p))"

datatype camera_answer =
    Cameras_answer "(jstr \<times> jstr) list + thrown"
  | Camera_done "unit + thrown"
  | Started_answer "bool + thrown"
  | Scan_answer "camera_result + thrown"

definition camera_answered :: "(jstr \<Rightarrow> jstr) \<Rightarrow> bool \<Rightarrow> camera_answer \<Rightarrow> camera_request \<Rightarrow> camera_world \<Rightarrow> camera_world" where
  "camera_answered lower cont a r W = (case (r, a) of
     (Get_cameras, Cameras_answer x) \<Rightarrow> cameras_found lower x W
   | (Stop_camera n nxt, Camera_done x) \<Rightarrow> camera_stopped n nxt x W
   | (Import_scanner i cl, Camera_done x) \<Rightarrow> scanner_imported i cl x W
   | (Start_camera n i cl, Started_answer x) \<Rightarrow> turns (camera_started n cl x) W
   | (Scan_code c now, Scan_answer x) \<Rightarrow> turns (scan_answered cont c now x) W
   | (Set_torch b, Camera_done x) \<Rightarrow> turns (torch_set b x) W
   | _ \<Rightarrow> W)"

definition camera_kind :: "camera_request \<Rightarrow> camera_answer \<Rightarrow> bool" where
  "camera_kind r a = (case (r, a) of
     (Get_cameras, Cameras_answer x) \<Rightarrow> True | (Stop_camera n nxt, Camera_done x) \<Rightarrow> True
   | (Import_scanner i cl, Camera_done x) \<Rightarrow> True | (Start_camera n i cl, Started_answer x) \<Rightarrow> True
   | (Scan_code c now, Scan_answer x) \<Rightarrow> True | (Set_torch b, Camera_done x) \<Rightarrow> True | _ \<Rightarrow> False)"

datatype camera_event =
    Code_event nat jstr int
  | Choose_camera jstr
  | Torch_click
  | Reset_timer
  | Camera_unmounted
  | Camera_answered nat camera_answer

definition camera_step :: "(jstr \<Rightarrow> jstr) \<Rightarrow> bool \<Rightarrow> camera_world \<Rightarrow> camera_event \<Rightarrow> camera_world" where
  "camera_step lower cont W e = (case e of
     Code_event k code now \<Rightarrow>
       (if k < length (cm_running (pw_page W)) then code_read (snd (cm_running (pw_page W) ! k)) code now W else W)
   | Choose_camera i \<Rightarrow> (if i \<in> fst ` set (cm_cameras (pw_page W)) then setActiveCameraId i W else W)
   | Torch_click \<Rightarrow> (if cm_hasTorch (pw_page W) then toggleTorch W else W)
   | Reset_timer \<Rightarrow> turns reset_timer W
   | Camera_unmounted \<Rightarrow> stopScanner Then_nothing W
   | Camera_answered k a \<Rightarrow>
       (if k < length (pw_open W) \<and> camera_kind (pw_open W ! k) a then answers k (camera_answered lower cont a) W else W))"

section \<open>One scan at a time, and not the same one at once\<close>

definition is_scan :: "camera_request \<Rightarrow> bool" where
  "is_scan r = (case r of Scan_code c now \<Rightarrow> True | _ \<Rightarrow> False)"

lemma is_scan_simps [simp]:
  "\<not> is_scan Get_cameras" "\<not> is_scan (Stop_camera n nxt)" "\<not> is_scan (Import_scanner i cl)" "\<not> is_scan (Start_camera n i cl)"
  "is_scan (Scan_code c now)" "\<not> is_scan (Set_torch b)"
  by (simp_all add: is_scan_def)

text \<open>The times at which a code was handed on.\<close>

fun scan_times :: "jstr \<Rightarrow> camera_request list \<Rightarrow> int list" where
  "scan_times code [] = []"
| "scan_times code (Scan_code c now # rs) = (if c = code then now # scan_times code rs else scan_times code rs)"
| "scan_times code (_ # rs) = scan_times code rs"

lemma scan_times_append [simp]: "scan_times code (rs @ qs) = scan_times code rs @ scan_times code qs"
  by (induction code rs rule: scan_times.induct) auto

lemma scan_times_filter: "scan_times code (filter is_scan rs) = scan_times code rs"
  by (induction code rs rule: scan_times.induct) auto

fun apart :: "int list \<Rightarrow> bool" where
  "apart (a # b # r) = (a + 1500 \<le> b \<and> apart (b # r))"
| "apart _ = True"

lemma apart_snoc: "ts \<noteq> [] \<Longrightarrow> apart (ts @ [t]) \<longleftrightarrow> apart ts \<and> last ts + 1500 \<le> t"
  by (induction ts rule: apart.induct) auto

text \<open>What of a page matters here.\<close>

definition scan_view ::
  "camera_world \<Rightarrow> (bool \<times> nat \<times> nat \<times> (jstr \<times> int) list) \<times> camera_request list \<times> camera_request list" where
  "scan_view W = (let p = pw_page W in ((cm_busy p, cm_resets p, cm_closings p, cm_times p),
     filter is_scan (pw_open W), filter is_scan (asked W)))"

lemma view_tells [simp]: "asked_calls cs = [] \<Longrightarrow> scan_view (tells cs W) = scan_view W"
  by (simp add: scan_view_def Let_def)

lemma view_asks [simp]: "\<not> is_scan r \<Longrightarrow> scan_view (asks r W) = scan_view W"
  by (simp add: scan_view_def Let_def)

lemma view_turns:
  "cm_busy (f (pw_page W)) = cm_busy (pw_page W) \<Longrightarrow> cm_resets (f (pw_page W)) = cm_resets (pw_page W) \<Longrightarrow>
   cm_closings (f (pw_page W)) = cm_closings (pw_page W) \<Longrightarrow> cm_times (f (pw_page W)) = cm_times (pw_page W) \<Longrightarrow>
   scan_view (turns f W) = scan_view W"
  by (simp add: scan_view_def Let_def)

lemma view_stop_with: "scan_view (go W) = scan_view W \<Longrightarrow> scan_view (stop_with nxt go W) = scan_view W"
  by (simp add: stop_with_def split: option.split)

lemma view_start [simp]: "scan_view (startScanner i cl W) = scan_view W"
  by (simp add: startScanner_def view_stop_with)

lemma view_continue [simp]: "scan_view (continue_with nxt W) = scan_view W"
  by (cases nxt) (simp_all add: continue_with_def)

lemma view_stop [simp]: "scan_view (stopScanner nxt W) = scan_view W"
  by (simp add: stopScanner_def view_stop_with)

lemma view_active [simp]: "scan_view (setActiveCameraId i W) = scan_view W"
  by (simp add: setActiveCameraId_def Let_def view_turns)

lemma view_others:
  "scan_view (camera_stopped n nxt a W) = scan_view W" "scan_view (scanner_imported i cl b W) = scan_view W"
  "scan_view (turns (camera_started n cl c) W) = scan_view W" "scan_view (cameras_found lower d W) = scan_view W"
  "scan_view (turns (torch_set t b) W) = scan_view W" "scan_view (toggleTorch W) = scan_view W"
  by (auto simp: camera_stopped_def scanner_imported_def camera_started_def cameras_found_def torch_set_def toggleTorch_def Let_def
      view_turns split: sum.split)

definition times_ok :: "(jstr \<times> int) list \<Rightarrow> camera_request list \<Rightarrow> bool" where
  "times_ok scanned_at rs = (\<forall>code. code \<noteq> js ''__proto__'' \<longrightarrow> apart (scan_times code rs)
     \<and> (scan_times code rs \<noteq> [] \<longrightarrow> map_of scanned_at code = Some (last (scan_times code rs))))"

text \<open>The scanner is busy while a scan is answered or a timer is set; \<open>n\<close> counts the scan whose answer is handled.\<close>

definition camera_balance :: "nat \<Rightarrow> camera_world \<Rightarrow> bool" where
  "camera_balance n W = (case scan_view W of ((busy, resets, closings, scanned_at), os, rs) \<Rightarrow>
     of_bool busy = n + length os + resets + closings \<and> times_ok scanned_at rs)"

lemma balance_view: "scan_view W' = scan_view W \<Longrightarrow> camera_balance n W' = camera_balance n W"
  by (simp add: camera_balance_def)

lemma balance_code_read:
  assumes "camera_balance 0 W"
  shows "camera_balance 0 (code_read cl code now W)"
proof (cases "cm_busy (pw_page W) \<or> scanned_recently code now (pw_page W) \<or> fst cl = Some code \<and> snd cl = Scan_error")
  case True
  then show ?thesis using assms by (auto simp: code_read_def Let_def)
next
  case False
  define W' where "W' = code_read cl code now W"
  have W': "scan_view W' = ((True, cm_resets (pw_page W), cm_closings (pw_page W), (code, now) # cm_times (pw_page W)),
      filter is_scan (pw_open W) @ [Scan_code code now], filter is_scan (asked W) @ [Scan_code code now])"
    using False by (simp add: W'_def code_read_def Let_def scan_view_def)
  have idle: "filter is_scan (pw_open W) = []" "cm_resets (pw_page W) = 0" "cm_closings (pw_page W) = 0"
    and ok: "times_ok (cm_times (pw_page W)) (filter is_scan (asked W))"
    using assms False by (auto simp: camera_balance_def scan_view_def Let_def)
  have "times_ok ((code, now) # cm_times (pw_page W)) (filter is_scan (asked W) @ [Scan_code code now])"
    unfolding times_ok_def
  proof (intro allI impI)
    fix c
    assume c: "c \<noteq> js ''__proto__''"
    let ?ts = "scan_times c (filter is_scan (asked W))"
    have old: "apart ?ts" "?ts \<noteq> [] \<Longrightarrow> map_of (cm_times (pw_page W)) c = Some (last ?ts)"
      using ok c by (auto simp: times_ok_def)
    show "apart (scan_times c (filter is_scan (asked W) @ [Scan_code code now]))
      \<and> (scan_times c (filter is_scan (asked W) @ [Scan_code code now]) \<noteq> []
         \<longrightarrow> map_of ((code, now) # cm_times (pw_page W)) c = Some (last (scan_times c (filter is_scan (asked W) @ [Scan_code code now]))))"
    proof (cases "c = code")
      case True
      have "last ?ts + 1500 \<le> now" if "?ts \<noteq> []"
        using False c True old(2) [OF that] by (simp add: scanned_recently_def opt_default_def)
      then show ?thesis using True old by (cases "?ts = []") (simp_all add: apart_snoc)
    next
      case other: False
      then show ?thesis using old by simp
    qed
  qed
  then have "camera_balance 0 W'" using idle by (simp add: camera_balance_def W')
  then show ?thesis by (simp add: W'_def)
qed

lemma balance_scan_answered:
  assumes "camera_balance (of_bool (is_scan r)) W" and "camera_kind r a"
  shows "camera_balance 0 (camera_answered lower cont a r W)"
proof (cases "is_scan r")
  case False
  have "scan_view (camera_answered lower cont a r W) = scan_view W"
    using False by (cases r; cases a) (simp_all add: camera_answered_def view_others del: One_nat_def)
  then have "camera_balance 0 (camera_answered lower cont a r W) = camera_balance 0 W" by (rule balance_view)
  then show ?thesis using assms(1) False by simp
next
  case True
  then obtain c now where r: "r = Scan_code c now" by (cases r) auto
  with assms obtain x where a: "a = Scan_answer x" by (cases a) (auto simp: camera_kind_def)
  have now: "cm_busy (pw_page W)" "cm_resets (pw_page W) = 0" "cm_closings (pw_page W) = 0" "filter is_scan (pw_open W) = []"
    "times_ok (cm_times (pw_page W)) (filter is_scan (asked W))"
    using assms(1) True by (simp_all add: camera_balance_def scan_view_def Let_def of_bool_def split: if_splits)
  show ?thesis
  proof (cases x)
    case (Inl b)
    obtain success name message where b: "b = (success, name, message)" by (cases b) auto
    show ?thesis using now
      by (cases success; cases cont) (simp_all add: r a Inl b camera_answered_def scan_answered_def camera_balance_def scan_view_def Let_def)
  next
    case (Inr e)
    then show ?thesis using now
      by (simp add: r a camera_answered_def scan_answered_def camera_balance_def scan_view_def Let_def)
  qed
qed

interpretation camera: machine "camera_step lower cont" "camera_balance 0" "\<lambda>_. True"
proof
  fix W e
  assume inv: "camera_balance 0 W"
  show "camera_balance 0 (camera_step lower cont W e)"
  proof (cases e)
    case (Code_event k code now)
    with inv show ?thesis by (simp add: camera_step_def balance_code_read)
  next
    case Reset_timer
    have "camera_balance 0 (turns reset_timer W)"
    proof (cases "cm_resets (pw_page W)")
      case 0
      with inv show ?thesis by (simp add: reset_timer_def camera_balance_def scan_view_def Let_def)
    next
      case (Suc n)
      with inv show ?thesis
        by (simp add: reset_timer_def camera_balance_def scan_view_def Let_def of_bool_def split: if_splits)
    qed
    with Reset_timer show ?thesis by (simp add: camera_step_def)
  next
    case (Camera_answered k a)
    show ?thesis
    proof (cases "k < length (pw_open W) \<and> camera_kind (pw_open W ! k) a")
      case True
      with inv filter_nth [of k "pw_open W" is_scan]
      have "camera_balance (of_bool (is_scan (pw_open W ! k))) (W\<lparr>pw_open := take k (pw_open W) @ drop (Suc k) (pw_open W)\<rparr>)"
        by (simp add: camera_balance_def scan_view_def Let_def)
      with True Camera_answered show ?thesis by (simp add: camera_step_def answers_def balance_scan_answered)
    qed (use inv Camera_answered in \<open>auto simp: camera_step_def\<close>)
  next
    case (Choose_camera i)
    with inv show ?thesis by (simp add: camera_step_def balance_view [OF view_active])
  next
    case Torch_click
    with inv show ?thesis by (simp add: camera_step_def balance_view [OF view_others(6)])
  next
    case Camera_unmounted
    with inv show ?thesis by (simp add: camera_step_def balance_view [OF view_stop])
  qed
qed

text \<open>C31. In every run of the camera scanner at most one scan is under way, and two scans of one code that were
  handed on one after the other lie at least one and a half seconds apart, whatever cameras are started, stopped
  and switched in between; only the code \<open>__proto__\<close> is excepted, whose time the object does not keep.\<close>

theorem camera_scans_spaced:
  "let W = run (camera_step lower cont) (camera_mount preferred) es
   in length (filter is_scan (pw_open W)) \<le> 1 \<and> (code = js ''__proto__'' \<or> apart (scan_times code (asked W)))"
proof -
  define W where "W = run (camera_step lower cont) (camera_mount preferred) es"
  have "camera_balance 0 W" unfolding W_def
    by (rule camera.run_inv)
      (simp_all add: camera_balance_def scan_view_def camera_mount_def camera_start_def times_ok_def Let_def)
  then have "of_bool (cm_busy (pw_page W)) = length (filter is_scan (pw_open W)) + cm_resets (pw_page W) + cm_closings (pw_page W)"
    and "times_ok (cm_times (pw_page W)) (filter is_scan (asked W))"
    by (auto simp: camera_balance_def scan_view_def Let_def)
  then show ?thesis
    by (auto simp: Let_def times_ok_def scan_times_filter of_bool_def simp flip: W_def split: if_splits)
qed

text \<open>The guard against the same refused code reads the render that started the camera. A camera chosen when nothing
  was scanned yet hands the refused code on again; one chosen while the refusal is shown never reads that code.\<close>

lemma refused_code_repeated:
  assumes "\<not> cm_busy (pw_page W)" and "\<not> scanned_recently code now (pw_page W)"
  shows "asked (code_read (None, Scan_idle) code now W) = asked W @ [Scan_code code now]"
  using assms by (simp add: code_read_def Let_def)

lemma refused_code_blocked: "code_read (Some code, Scan_error) code now W = W"
  by (simp add: code_read_def Let_def)

end
