(* ===== verification/Labels.thy ===== *)
theory Labels
  imports Products
begin

text \<open>
  The designer of barcode labels (\<open>features/products/components/BarcodeDesigner.tsx\<close>): the size of a label, the grid
  of the page, which follows the size, and the document that is printed. The queue of labels is in theory
  \<open>Products\<close>. \<open>locale_num\<close> is \<open>toLocaleString\<close> of a number and \<open>today\<close> the date as a text, as the browser writes them.
\<close>

section \<open>Settings\<close>

datatype label_font = Font_sm | Font_md | Font_lg

record label_settings =
  lb_width :: jsnum
  lb_height :: jsnum
  lb_showStoreName :: bool
  lb_showPrice :: bool
  lb_showDate :: bool
  lb_showProductCode :: bool
  lb_fontSize :: label_font

record grid_settings =
  gd_columns :: jsnum
  gd_gap :: jsnum
  gd_showCutMarks :: bool
  gd_pageMargin :: jsnum

datatype page_format = Format_a4 | Format_thermal58 | Format_thermal80 | Format_thermal110 | Format_labelRoll

text \<open>Width and height in millimetres.\<close>

definition page_size :: "page_format \<Rightarrow> nat \<times> nat" where
  "page_size f = (case f of Format_a4 \<Rightarrow> (210, 297) | Format_thermal58 \<Rightarrow> (58, 297) | Format_thermal80 \<Rightarrow> (80, 297)
     | Format_thermal110 \<Rightarrow> (110, 297) | Format_labelRoll \<Rightarrow> (100, 50))"

definition LABEL_PRESETS :: "(nat \<times> nat) list" where
  "LABEL_PRESETS = [(30, 20), (40, 25), (50, 30), (70, 40), (100, 50)]"

record designer =
  dg_settings :: label_settings
  dg_grid :: grid_settings
  dg_format :: page_format
  dg_queueTab :: bool

definition autoCalculateColumns :: "jsnum \<Rightarrow> jsnum \<Rightarrow> jsnum \<Rightarrow> jsnum \<Rightarrow> jsnum" where
  "autoCalculateColumns labelWidth pageWidth gap margin =
     (let availableWidth = pageWidth - margin * Fin 2
      in js_max (Fin 1) (js_floor ((availableWidth + gap) / (labelWidth + gap))))"

definition recalculate :: "designer \<Rightarrow> designer" where
  "recalculate d = d\<lparr> dg_grid := (dg_grid d)\<lparr> gd_columns :=
     autoCalculateColumns (num_or (lb_width (dg_settings d)) (Fin 50)) (jint (int (fst (page_size (dg_format d)))))
       (gd_gap (dg_grid d)) (gd_pageMargin (dg_grid d)) \<rparr> \<rparr>"

definition column_deps :: "designer \<Rightarrow> page_format \<times> jsnum \<times> jsnum \<times> jsnum" where
  "column_deps d = (dg_format d, lb_width (dg_settings d), gd_gap (dg_grid d), gd_pageMargin (dg_grid d))"

definition relayout :: "(designer \<Rightarrow> designer) \<Rightarrow> designer \<Rightarrow> designer" where
  "relayout f d = (if column_deps (f d) = column_deps d then f d else recalculate (f d))"

definition designer_start :: designer where
  "designer_start = recalculate
     \<lparr> dg_settings = \<lparr> lb_width = Fin 50, lb_height = Fin 30, lb_showStoreName = True, lb_showPrice = True, lb_showDate = False,
         lb_showProductCode = True, lb_fontSize = Font_md \<rparr>,
       dg_grid = \<lparr> gd_columns = Fin 3, gd_gap = Fin 2, gd_showCutMarks = True, gd_pageMargin = Fin 5 \<rparr>,
       dg_format = Format_a4, dg_queueTab = True \<rparr>"

definition applyLabelPreset :: "nat \<times> nat \<Rightarrow> designer \<Rightarrow> designer" where
  "applyLabelPreset preset d = d\<lparr> dg_settings := (dg_settings d)\<lparr> lb_width := jint (int (fst preset)), lb_height := jint (int (snd preset)) \<rparr> \<rparr>"

text \<open>What is typed is read with \<open>Number\<close>.\<close>

datatype designer_event =
    Show_queue bool
  | Choose_format page_format
  | Choose_preset nat
  | Type_width jstr
  | Type_height jstr
  | Choose_font label_font
  | Type_columns jstr
  | Type_gap jstr
  | Type_margin jstr
  | Toggle_storeName
  | Toggle_price
  | Toggle_productCode
  | Toggle_date
  | Toggle_cutMarks

definition on_settings :: "(label_settings \<Rightarrow> label_settings) \<Rightarrow> designer \<Rightarrow> designer" where
  "on_settings f d = d\<lparr>dg_settings := f (dg_settings d)\<rparr>"

definition on_grid :: "(grid_settings \<Rightarrow> grid_settings) \<Rightarrow> designer \<Rightarrow> designer" where
  "on_grid f d = d\<lparr>dg_grid := f (dg_grid d)\<rparr>"

definition designer_change :: "designer_event \<Rightarrow> designer \<Rightarrow> designer" where
  "designer_change e = (case e of
     Show_queue b \<Rightarrow> (\<lambda>d. d\<lparr>dg_queueTab := b\<rparr>)
   | Choose_format f \<Rightarrow> (\<lambda>d. d\<lparr>dg_format := f\<rparr>)
   | Choose_preset k \<Rightarrow> (if k < length LABEL_PRESETS then applyLabelPreset (LABEL_PRESETS ! k) else (\<lambda>d. d))
   | Type_width t \<Rightarrow> on_settings (\<lambda>s. s\<lparr>lb_width := js_number t\<rparr>)
   | Type_height t \<Rightarrow> on_settings (\<lambda>s. s\<lparr>lb_height := js_number t\<rparr>)
   | Choose_font k \<Rightarrow> on_settings (\<lambda>s. s\<lparr>lb_fontSize := k\<rparr>)
   | Type_columns t \<Rightarrow> on_grid (\<lambda>g. g\<lparr>gd_columns := js_number t\<rparr>)
   | Type_gap t \<Rightarrow> on_grid (\<lambda>g. g\<lparr>gd_gap := js_number t\<rparr>)
   | Type_margin t \<Rightarrow> on_grid (\<lambda>g. g\<lparr>gd_pageMargin := js_number t\<rparr>)
   | Toggle_storeName \<Rightarrow> on_settings (\<lambda>s. s\<lparr>lb_showStoreName := \<not> lb_showStoreName s\<rparr>)
   | Toggle_price \<Rightarrow> on_settings (\<lambda>s. s\<lparr>lb_showPrice := \<not> lb_showPrice s\<rparr>)
   | Toggle_productCode \<Rightarrow> on_settings (\<lambda>s. s\<lparr>lb_showProductCode := \<not> lb_showProductCode s\<rparr>)
   | Toggle_date \<Rightarrow> on_settings (\<lambda>s. s\<lparr>lb_showDate := \<not> lb_showDate s\<rparr>)
   | Toggle_cutMarks \<Rightarrow> on_grid (\<lambda>g. g\<lparr>gd_showCutMarks := \<not> gd_showCutMarks g\<rparr>))"

definition designer_step :: "designer \<Rightarrow> designer_event \<Rightarrow> designer" where
  "designer_step d e = relayout (designer_change e) d"

section \<open>Printing\<close>

text \<open>One label for each \<open>i\<close> from 0 with \<open>i < qty\<close>; the quantities of the queue are finite.\<close>

definition label_copies :: "jsnum \<Rightarrow> nat" where
  "label_copies n = (case n of Fin x \<Rightarrow> nat \<lceil>x\<rceil> | _ \<Rightarrow> 0)"

definition itemsToPrint :: "(product \<times> jsnum) list \<Rightarrow> product list" where
  "itemsToPrint queue = concat (map (\<lambda>(p, n). replicate (label_copies n) p) queue)"

definition labelsPerPage :: "designer \<Rightarrow> jsnum" where
  "labelsPerPage d = js_max (Fin 1)
     (js_floor (jint (int (snd (page_size (dg_format d)))) / js_max (Fin 1) (lb_height (dg_settings d)))
      * js_max (Fin 1) (gd_columns (dg_grid d)))"

definition totalPages :: "designer \<Rightarrow> (product \<times> jsnum) list \<Rightarrow> jsnum" where
  "totalPages d queue = js_ceil (jint (int (length (itemsToPrint queue))) / labelsPerPage d)"

definition print_font :: "label_font \<Rightarrow> jstr" where
  "print_font k = (case k of Font_sm \<Rightarrow> js ''9px'' | Font_lg \<Rightarrow> js ''13px'' | Font_md \<Rightarrow> js ''11px'')"

definition label_footer :: "(jsnum \<Rightarrow> jstr) \<Rightarrow> jstr \<Rightarrow> label_settings \<Rightarrow> product \<Rightarrow> jstr" where
  "label_footer locale_num today s p =
     (if lb_showPrice s \<or> lb_showDate s
      then join [10]
        [[], js ''                    <div class=\"footer\">'',
         js ''                        '' @ (if lb_showDate s then js ''<span class=\"date\">'' @ escapeHTML today @ js ''</span>'' else []),
         js ''                        '' @ (if lb_showPrice s
            then js ''<span class=\"price\">'' @ locale_num (num_or (p_price p) (Fin 0)) @ [32, 1583, 46, 1593] @ js ''</span>'' else []),
         js ''                    </div>'', js ''                '']
      else [])"

definition label_html :: "(jsnum \<Rightarrow> jstr) \<Rightarrow> jstr \<Rightarrow> jstr \<Rightarrow> label_settings \<Rightarrow> product \<Rightarrow> jstr" where
  "label_html locale_num today storeName s p = join [10]
     [[], js ''            <div class=\"label-item\">'',
      js ''                '' @ (if lb_showStoreName s
         then js ''<div class=\"store-name\">'' @ escapeHTML (str_or (Some storeName) (js ''Store'')) @ js ''</div>'' else []),
      js ''                <div class=\"product-name\">'' @ escapeHTML (p_name p) @ js ''</div>'',
      js ''                <div class=\"barcode-container\">'',
      js ''                    <svg class=\"barcode-svg\" data-value=\"'' @ escapeHTML (str_or (Some (p_barcode p)) (js ''000000''))
        @ js ''\" data-show-value=\"'' @ js_string (JBool (lb_showProductCode s)) @ js ''\"></svg>'',
      js ''                </div>'',
      js ''                '' @ label_footer locale_num today s p,
      js ''            </div>'', js ''        '']"

text \<open>The document, line by line: what precedes the labels, and the script that draws the barcodes and prints.\<close>

definition label_head :: "label_settings \<Rightarrow> grid_settings \<Rightarrow> page_format \<Rightarrow> jstr list" where
  "label_head s g f = [[],
     js ''            <!DOCTYPE html>'',
     js ''            <html dir=\"rtl\">'',
     js ''            <head>'',
     js ''                <meta charset=\"UTF-8\">'',
     js ''                <title>'' @ [1591, 1576, 1575, 1593, 1577] @ js '' '' @ [1575, 1604,
       1605, 1604, 1589, 1602, 1575, 1578] @ js ''</title>'',
     js ''                <script src=\"/libs/JsBarcode.all.min.js\"></script>'',
     js ''                <style>'',
     js ''                    @page { '',
     js ''                        size: '' @ show_nat (fst (page_size f)) @ js ''mm '' @ show_nat (snd (page_size f)) @ js ''mm; '',
     js ''                        margin: 0; '',
     js ''                    }'',
     js ''                    * { margin: 0; padding: 0; box-sizing: border-box; }'',
     js ''                    body { '',
     js ''                        font-family: Arial, sans-serif;'',
     js ''                        background: white;'',
     js ''                    }'',
     js ''                    .print-area {'',
     js ''                        width: '' @ show_nat (fst (page_size f)) @ js ''mm;'',
     js ''                        min-height: '' @ show_nat (snd (page_size f)) @ js ''mm;'',
     js ''                        display: grid;'',
     js ''                        grid-template-columns: repeat('' @ num_to_string (gd_columns g) @ js '', 1fr);'',
     js ''                        gap: '' @ num_to_string (gd_gap g) @ js ''mm;'',
     js ''                        padding: '' @ num_to_string (gd_pageMargin g) @ js ''mm;'',
     js ''                        background: white;'',
     js ''                    }'',
     js ''                    .label-item {'',
     js ''                        background: white;'',
     js ''                        display: flex;'',
     js ''                        flex-direction: column;'']"

definition label_style :: "label_settings \<Rightarrow> grid_settings \<Rightarrow> page_format \<Rightarrow> jstr list" where
  "label_style s g f = [js ''                        align-items: center;'',
     js ''                        border: '' @ (if gd_showCutMarks g then js ''1px dashed #ddd'' else js ''none'') @ js '';'',
     js ''                        height: '' @ num_to_string (lb_height s) @ js ''mm;'',
     js ''                        padding: 2.5mm;'',
     js ''                        page-break-inside: avoid;'',
     js ''                    }'',
     js ''                    .store-name { '',
     js ''                        font-size: 10px; '',
     js ''                        font-weight: 900; '',
     js ''                        text-transform: uppercase;'',
     js ''                        border-bottom: 1px solid #ddd;'',
     js ''                        padding-bottom: 2px;'',
     js ''                        margin-bottom: 4px;'',
     js ''                        width: 100%;'',
     js ''                        text-align: center;'',
     js ''                    }'',
     js ''                    .product-name { '',
     js ''                        font-size: '' @ print_font (lb_fontSize s) @ js ''; '',
     js ''                        font-weight: bold;'',
     js ''                        text-align: center;'',
     js ''                        margin-bottom: 4px;'',
     js ''                    }'',
     js ''                    .barcode-container { flex: 1; display: flex; align-items: center; justify-content: center; }'',
     js ''                    .barcode-container svg { max-width: 100%; max-height: 100%; }'',
     js ''                    .footer { '',
     js ''                        display: flex; '',
     js ''                        justify-content: space-between; '',
     js ''                        width: 100%; '',
     js ''                        margin-top: 4px;'',
     js ''                        padding-top: 4px;'',
     js ''                        border-top: 1px solid #ddd;'',
     js ''                    }'',
     js ''                    .date { font-size: 9px; font-family: monospace; color: #666; background: #f5f5f5; padding: 2px 4px; border-radius: 2px; }'',
     js ''                    .price { font-size: 12px; font-weight: 900; background: black; color: white; padding: 2px 8px; border-radius: 3px; }'',
     js ''                </style>'',
     js ''            </head>'',
     js ''            <body>'']"

definition label_script :: "jstr list" where
  "label_script = [js ''                <script>'',
     js ''                    window.onload = function() {'',
     js ''                        document.querySelectorAll('' @ [39] @ js ''.barcode-svg'' @ [39] @ js '').forEach(function(svg) {'',
     js ''                            var value = svg.getAttribute('' @ [39] @ js ''data-value'' @ [39] @ js '') || '' @ [39] @ js ''000000'' @ [39] @ js '';'',
     js ''                            var showValue = svg.getAttribute('' @ [39] @ js ''data-show-value'' @ [39] @ js '') === '' @ [39] @ js ''true'' @ [39] @ js '';'',
     js ''                            try {'',
     js ''                                JsBarcode(svg, value, {'',
     js ''                                    format: \"CODE128\",'',
     js ''                                    width: 1.8,'',
     js ''                                    height: 40,'',
     js ''                                    displayValue: showValue,'',
     js ''                                    fontSize: 11,'',
     js ''                                    margin: 2,'',
     js ''                                    background: \"#fff\",'',
     js ''                                    lineColor: \"#000\",'',
     js ''                                    font: \"monospace\"'',
     js ''                                });'',
     js ''                            } catch(e) { console.error(e); }'',
     js ''                        });'',
     js ''                        setTimeout(function() { '',
     js ''                            window.focus();'',
     js ''                            window.print(); '',
     js ''                        }, 300);'',
     js ''                    };'',
     js ''                </script>'',
     js ''            </body>'',
     js ''            </html>'',
     js ''        '']"

definition label_page :: "label_settings \<Rightarrow> grid_settings \<Rightarrow> page_format \<Rightarrow> jstr \<Rightarrow> jstr" where
  "label_page s g f labels = join [10] (label_head s g f @ label_style s g f @ [js ''                <div class=\"print-area\">'' @ labels @ js ''</div>''] @ label_script)"

text \<open>Nothing is printed for an empty queue.\<close>

definition label_handlePrint :: "(jsnum \<Rightarrow> jstr) \<Rightarrow> jstr \<Rightarrow> jstr \<Rightarrow> designer \<Rightarrow> (product \<times> jsnum) list \<Rightarrow> jstr option" where
  "label_handlePrint locale_num today storeName d queue =
     (let items = itemsToPrint queue; s = dg_settings d
      in if items = [] then None
         else Some (label_page s (dg_grid d) (dg_format d) (concat (map (label_html locale_num today storeName s) items))))"

section \<open>The columns\<close>

lemma floor_rnd_quotient:
  assumes n: "0 \<le> n" "n \<le> 2 ^ 30" and k: "0 < k" "k \<le> 2 ^ 20"
  shows "js_floor (jint n / jint k) = jint (n div k)"
proof -
  let ?q = "n div k" and ?x = "rat_of_int n / rat_of_int k"
  have kq: "0 < rat_of_int k" "rat_of_int k \<le> 2 ^ 20" using k by (simp, metis of_int_le_iff of_int_numeral of_int_power)
  have nq: "0 \<le> rat_of_int n" "rat_of_int n \<le> 2 ^ 30" using n by (simp, metis of_int_le_iff of_int_numeral of_int_power)
  have e: "k * ?q + n mod k = n" by simp
  have m: "0 \<le> n mod k" "n mod k < k" using k by simp_all
  have "k * ?q \<le> n" "n \<le> k * ?q + k - 1" using e m by linarith+
  then have "rat_of_int (k * ?q) \<le> of_int n" "rat_of_int n \<le> of_int (k * ?q + k - 1)" by (simp_all only: of_int_le_iff)
  then have lo: "of_int ?q \<le> ?x" and u: "rat_of_int n \<le> rat_of_int k * of_int ?q + of_int k - 1"
    using kq by (simp_all add: field_simps)
  have "?x \<le> (rat_of_int k * of_int ?q + of_int k - 1) / of_int k"
    using u kq by (intro divide_right_mono) auto
  moreover have "(a * b + a - 1) / a = b + 1 - 1 / a" if "0 < a" for a b :: rat
    using that by (simp add: field_simps)
  ultimately have up: "?x \<le> of_int ?q + 1 - 1 / of_int k" using kq(1) by metis
  have x0: "0 \<le> ?x" using nq kq by simp
  have "1 \<le> rat_of_int k" using k by simp
  then have "?x \<le> of_int n / 1" using nq by (intro divide_left_mono) auto
  then have xn: "?x \<le> of_int n" by simp
  have "\<bar>?x\<bar> \<le> 2 ^ 60" using x0 xn nq by simp
  then obtain y where y: "rnd ?x = Fin y" and ye: "\<bar>y - ?x\<bar> \<le> \<bar>?x\<bar> / 2 ^ 53 + 1 / 2 ^ 60" by (rule rnd_near)
  have "0 \<le> ?q" "?q \<le> n" using n k by (auto simp: pos_imp_zdiv_nonneg_iff zdiv_mono2 [of n 1 k, simplified])
  then have "rnd (of_int ?q) = jint ?q" using n by (intro rnd_int) simp
  then have yq: "of_int ?q \<le> y" using rnd_mono [OF lo] y by simp
  have "\<bar>?x\<bar> \<le> 2 ^ 30" using x0 xn nq by simp
  then have "\<bar>y - ?x\<bar> \<le> 1 / 2 ^ 22" using ye by simp
  then have "y \<le> ?x + 1 / 2 ^ 22" by linarith
  moreover have "1 / 2 ^ 20 \<le> 1 / rat_of_int k" using kq by (intro divide_left_mono) auto
  moreover have "(1 :: rat) / 2 ^ 22 < 1 / 2 ^ 20" by simp
  ultimately have "y < of_int ?q + 1" using up by linarith
  then have "\<lfloor>y\<rfloor> = ?q" using yq by (intro floor_unique)
  then show ?thesis using k by (simp add: y)
qed

lemma floor_rnd_negative:
  assumes "n \<le> 0" "- (2 ^ 30) \<le> n" and "0 < k"
  shows "\<exists>z \<le> 0. js_floor (jint n / jint k) = jint z"
proof -
  let ?x = "rat_of_int n / rat_of_int k"
  have "rat_of_int (- (2 ^ 30)) \<le> of_int n" using assms(2) by (simp only: of_int_le_iff)
  then have n30: "- (2 ^ 30) \<le> rat_of_int n" "rat_of_int n \<le> 0" using assms(1) by simp_all
  have "1 \<le> rat_of_int k" using assms by simp
  then have "rat_of_int n / 1 \<le> ?x" using n30 by (intro divide_left_mono_neg) auto
  moreover have x0: "?x \<le> 0" using assms by (simp add: divide_nonpos_pos)
  ultimately have "\<bar>?x\<bar> \<le> 2 ^ 60" using n30 by simp
  then obtain y where y: "rnd ?x = Fin y" by (rule rnd_near)
  have "y \<le> 0" using rnd_mono [OF x0] y rnd_int [of 0] by simp
  then show ?thesis using y assms by (intro exI [of _ "\<lfloor>y\<rfloor>"]) (auto simp: floor_le_iff)
qed

text \<open>For a label of whole millimetres the columns are the most that fit between the margins, and at least one.\<close>

lemma columns_fit:
  assumes "0 < w" "w \<le> 2 ^ 15" "0 \<le> gap" "gap \<le> 2 ^ 15" "0 \<le> m" "m \<le> 2 ^ 15" "0 \<le> W" "W \<le> 2 ^ 15"
  shows "\<exists>n \<ge> 1. autoCalculateColumns (jint w) (jint W) (jint gap) (jint m) = jint n
    \<and> (n = 1 \<or> n * w + (n - 1) * gap + 2 * m \<le> W) \<and> W < (n + 1) * w + n * gap + 2 * m"
proof -
  define a where "a = W - m * 2 + gap"
  define k where "k = w + gap"
  have k: "0 < k" "k \<le> 2 ^ 16" "\<bar>a\<bar> \<le> 2 ^ 18" using assms by (auto simp: a_def k_def abs_le_iff)
  have cols: "autoCalculateColumns (jint w) (jint W) (jint gap) (jint m) = js_max (jint 1) (js_floor (jint a / jint k))"
  proof -
    have "jint m * Fin 2 = jint (m * 2)" using assms jint_mult [of m 2] by simp
    moreover have "jint W - jint (m * 2) = jint (W - m * 2)" using assms by (intro jint_diff) (auto simp: abs_le_iff)
    moreover have "jint (W - m * 2) + jint gap = jint a" unfolding a_def using assms by (intro jint_add) (auto simp: abs_le_iff)
    moreover have "jint w + jint gap = jint k" unfolding k_def using assms by (intro jint_add) (auto simp: abs_le_iff)
    ultimately show ?thesis by (simp add: autoCalculateColumns_def Let_def)
  qed
  show ?thesis
  proof (cases "0 \<le> a")
    case True
    define q where "q = a div k"
    have fl: "js_floor (jint a / jint k) = jint q" unfolding q_def by (rule floor_rnd_quotient) (use k True in auto)
    have "k * q + a mod k = a" "0 \<le> a mod k" "a mod k < k" using k by (simp_all add: q_def)
    then have qa: "k * q \<le> a" "a < k * q + k" by linarith+
    have "0 \<le> q" unfolding q_def using True k by (simp add: pos_imp_zdiv_nonneg_iff)
    show ?thesis
    proof (cases "q = 0")
      case True
      then show ?thesis using cols fl qa unfolding a_def k_def
        by (intro exI [of _ 1]) (simp add: js_max_Fin algebra_simps)
    next
      case False
      then show ?thesis using cols fl qa \<open>0 \<le> q\<close> unfolding a_def k_def
        by (intro exI [of _ q]) (simp add: js_max_Fin algebra_simps)
    qed
  next
    case False
    then obtain z where "z \<le> 0" "js_floor (jint a / jint k) = jint z"
      using floor_rnd_negative [of a k] k by (auto simp: abs_le_iff)
    then show ?thesis using cols False assms unfolding a_def
      by (intro exI [of _ 1]) (simp add: js_max_Fin)
  qed
qed

text \<open>In every run in which no number of columns is typed the columns are the calculated ones.\<close>

definition laid_out :: "designer \<Rightarrow> bool" where
  "laid_out d = (recalculate d = d)"

definition lays_out :: "designer_event \<Rightarrow> bool" where
  "lays_out e = (case e of Type_columns t \<Rightarrow> False | _ \<Rightarrow> True)"

lemma recalculate_idem [simp]: "recalculate (recalculate d) = recalculate d"
  by (simp add: recalculate_def)

lemma change_keeps_columns: "lays_out e \<Longrightarrow> gd_columns (dg_grid (designer_change e d)) = gd_columns (dg_grid d)"
  by (cases e) (simp_all add: designer_change_def lays_out_def on_settings_def on_grid_def applyLabelPreset_def)

lemma laid_out_columns:
  "laid_out d \<longleftrightarrow> gd_columns (dg_grid d) = gd_columns (dg_grid (recalculate d))"
  by (cases d; cases "dg_grid d") (auto simp: laid_out_def recalculate_def)

lemma recalculate_deps:
  "column_deps d' = column_deps d \<Longrightarrow> gd_columns (dg_grid (recalculate d')) = gd_columns (dg_grid (recalculate d))"
  by (simp add: column_deps_def recalculate_def)

interpretation designer: machine designer_step laid_out lays_out
proof
  fix d e
  assume inv: "laid_out d" and e: "lays_out e"
  show "laid_out (designer_step d e)"
  proof (cases "column_deps (designer_change e d) = column_deps d")
    case True
    then show ?thesis using inv change_keeps_columns [OF e] recalculate_deps [OF True]
      by (simp add: designer_step_def relayout_def laid_out_columns)
  next
    case False
    then show ?thesis by (simp add: designer_step_def relayout_def laid_out_def)
  qed
qed

lemma columns_follow:
  assumes "\<forall>e\<in>set es. lays_out e"
  shows "recalculate (run designer_step designer_start es) = run designer_step designer_start es"
  using designer.run_inv [of designer_start es] assms by (simp add: laid_out_def designer_start_def)

text \<open>What is typed is lost with the next change of the page, the width, the gap or the margin.\<close>

lemma typed_columns_lost: "column_deps (designer_change e d) \<noteq> column_deps d \<Longrightarrow> laid_out (designer_step d e)"
  by (simp add: designer_step_def relayout_def laid_out_def)

text \<open>The pages are counted as if there were no gap and no margin.\<close>

lemma pages_ignore_gap: "labelsPerPage (on_grid (\<lambda>g. g\<lparr> gd_gap := x, gd_pageMargin := y \<rparr>) d) = labelsPerPage d"
  by (simp add: labelsPerPage_def on_grid_def)

section \<open>No product writes markup\<close>

definition label_tags :: "label_settings \<Rightarrow> nat" where
  "label_tags s = 8 + 2 * of_bool (lb_showStoreName s)
     + (if lb_showPrice s \<or> lb_showDate s then 2 + 2 * of_bool (lb_showDate s) + 2 * of_bool (lb_showPrice s) else 0)"

lemma label_markup:
  assumes "\<And>x. 60 \<notin> set (locale_num x)"
  shows "count_list (label_html locale_num today storeName s p) 60
    = label_tags s"
proof -
  have "count_list (locale_num x) 60 = 0" for x using assms by (simp add: count_list_0_iff)
  then show ?thesis
    by (simp add: label_html_def label_footer_def label_tags_def count_lt_join js_def)
qed

lemma label_page_markup:
  "count_list (label_page s g f labels) 60 = count_list (label_page s g f []) 60 + count_list labels 60"
  by (simp add: label_page_def count_lt_join)

text \<open>C32. Whatever the names, barcodes and prices of the products are, the printed document opens as many tags as an empty
  one and a number for each label that depends on the settings alone.\<close>

theorem labels_no_injection:
  assumes "\<And>x. 60 \<notin> set (locale_num x)"
    and "label_handlePrint locale_num today storeName d queue = Some doc"
  shows "count_list doc 60 = count_list (label_page (dg_settings d) (dg_grid d) (dg_format d) []) 60
    + length (itemsToPrint queue) * label_tags (dg_settings d)"
proof -
  let ?html = "label_html locale_num today storeName (dg_settings d)"
  have "doc = label_page (dg_settings d) (dg_grid d) (dg_format d) (concat (map ?html (itemsToPrint queue)))"
    using assms(2) by (simp add: label_handlePrint_def Let_def split: if_splits)
  moreover have "count_list (concat (map ?html (itemsToPrint queue))) 60 = length (itemsToPrint queue) * label_tags (dg_settings d)"
    by (rule count_lt_concat) (rule label_markup [OF assms(1)])
  ultimately show ?thesis by (simp add: label_page_markup [of _ _ _ "concat (map ?html (itemsToPrint queue))"])
qed

theorem labels_no_injection_witness:
  "\<exists>doc. label_handlePrint (\<lambda>x. []) [] (js ''<b>'') designer_start [(shelf_item, Fin 2)] = Some doc
    \<and> count_list doc 60 = count_list (label_page (dg_settings designer_start) (dg_grid designer_start) Format_a4 []) 60 + 28"
proof -
  let ?q = "[(shelf_item, Fin 2)]"
  have items: "itemsToPrint ?q = [shelf_item, shelf_item]" by (simp add: itemsToPrint_def label_copies_def numeral_2_eq_2)
  then obtain doc where doc: "label_handlePrint (\<lambda>x. []) [] (js ''<b>'') designer_start ?q = Some doc"
    by (simp add: label_handlePrint_def Let_def)
  have "dg_format designer_start = Format_a4" "label_tags (dg_settings designer_start) = 14"
    by (simp_all add: designer_start_def recalculate_def label_tags_def)
  with labels_no_injection [OF _ doc] items doc show ?thesis by simp
qed

end
