(* ===== verification/DocsGate.thy ===== *)
theory DocsGate
  imports Js_Text "HOL-Library.List_Lexorder"
begin

text \<open>
  The gate that keeps the documentation in step with the code (\<open>scripts/docs-gate.mjs\<close>): the numbers of the map of the
  documents, its inventory, the changes to be committed, the paths that are referred to, and the assertions on the
  code. The repository is a tree of files; the answers of \<open>git\<close> and the environment are parameters of a run. Colours,
  symbolic links, a file where a folder is scanned, and the names that every object inherits (\<open>constructor\<close>) as keys of
  the numbers are left out.
\<close>

section \<open>Files\<close>

datatype node = Text_file jstr | Folder "(jstr \<times> node) list"

definition node_entries :: "node \<Rightarrow> (jstr \<times> node) list" where
  "node_entries n = (case n of Folder es \<Rightarrow> es | Text_file t \<Rightarrow> [])"

definition is_folder :: "node \<Rightarrow> bool" where
  "is_folder n = (case n of Folder es \<Rightarrow> True | Text_file t \<Rightarrow> False)"

primrec find_node :: "jstr list \<Rightarrow> node \<Rightarrow> node option" where
  "find_node [] n = Some n"
| "find_node (s # ss) n = (case map_of (node_entries n) s of Some m \<Rightarrow> find_node ss m | None \<Rightarrow> None)"

text \<open>The names of the files below a folder that satisfy \<open>P\<close>.\<close>

definition skipped_folder :: "jstr \<Rightarrow> bool" where
  "skipped_folder name = (name = js ''node_modules'' \<or> name = js ''.git'' \<or> name = js ''dist'')"

fun walk_files :: "(jstr \<Rightarrow> bool) \<Rightarrow> node \<Rightarrow> jstr list" where
  "walk_files P (Text_file t) = []"
| "walk_files P (Folder es) = concat (map (\<lambda>e.
     if skipped_folder (fst e) then []
     else (case snd e of Folder fs \<Rightarrow> walk_files P (snd e) | Text_file t \<Rightarrow> if P (fst e) then [fst e] else [])) es)"

definition walk_dir :: "(jstr \<Rightarrow> bool) \<Rightarrow> jstr list \<Rightarrow> node \<Rightarrow> jstr list" where
  "walk_dir P dir rootd = (case find_node dir rootd of None \<Rightarrow> [] | Some n \<Rightarrow> walk_files P n)"

text \<open>A path below the root: empty segments and dots are left out, two dots go up; \<open>None\<close> is outside the root.
  A path that ends with a slash is a folder or nothing.\<close>

fun normal_path :: "jstr list \<Rightarrow> jstr list \<Rightarrow> jstr list option" where
  "normal_path acc [] = Some (rev acc)"
| "normal_path acc (s # ss) =
     (if s = [] \<or> s = js ''.'' then normal_path acc ss
      else if s = js ''..'' then (case acc of [] \<Rightarrow> None | a # as \<Rightarrow> normal_path as ss)
      else normal_path (s # acc) ss)"

record gate_env =
  ge_tree :: node
  ge_outside :: "jstr \<Rightarrow> bool"
  ge_git :: "jstr \<Rightarrow> jstr option"
  ge_args :: "jstr list"
  ge_CI :: jstr
  ge_gate :: jstr

text \<open>\<open>lower\<close> is \<open>toLowerCase\<close>.\<close>

definition MODE_PUSH :: "gate_env \<Rightarrow> bool" where
  "MODE_PUSH e = (js ''--push'' \<in> set (ge_args e))"

definition STRICT_REFS :: "gate_env \<Rightarrow> bool" where
  "STRICT_REFS e = (js ''--strict-refs'' \<in> set (ge_args e))"

definition IN_CI :: "gate_env \<Rightarrow> bool" where
  "IN_CI e = (js ''--ci'' \<in> set (ge_args e) \<or> ge_CI e = js ''true'')"

definition DISABLED :: "(jstr \<Rightarrow> jstr) \<Rightarrow> gate_env \<Rightarrow> bool" where
  "DISABLED lower e = (lower (ge_gate e) = js ''off'')"

definition file_exists :: "gate_env \<Rightarrow> jstr \<Rightarrow> bool" where
  "file_exists e p = (case normal_path [] (split_on 47 p) of
     None \<Rightarrow> ge_outside e p
   | Some q \<Rightarrow> (case find_node q (ge_tree e) of None \<Rightarrow> False | Some n \<Rightarrow> (suffix [47] p \<longrightarrow> is_folder n)))"

text \<open>\<open>readFileSync\<close>: it throws when there is no file.\<close>

definition read_text :: "gate_env \<Rightarrow> jstr list \<Rightarrow> jstr option" where
  "read_text e p = (case find_node p (ge_tree e) of Some (Text_file t) \<Rightarrow> Some t | _ \<Rightarrow> None)"

definition crlf_lines :: "jstr \<Rightarrow> jstr list" where
  "crlf_lines s = (let ls = split_on 10 s in map (\<lambda>l. if suffix [13] l then butlast l else l) (butlast ls) @ [last ls])"

record gate_log =
  gl_errors :: "jstr list"
  gl_warnings :: "jstr list"
  gl_notes :: "jstr list"

definition quiet_log :: gate_log where
  "quiet_log = \<lparr> gl_errors = [], gl_warnings = [], gl_notes = [] \<rparr>"

definition one_error :: "jstr \<Rightarrow> gate_log" where
  "one_error m = quiet_log\<lparr> gl_errors := [m] \<rparr>"

definition one_warning :: "jstr \<Rightarrow> gate_log" where
  "one_warning m = quiet_log\<lparr> gl_warnings := [m] \<rparr>"

definition one_note :: "jstr \<Rightarrow> gate_log" where
  "one_note m = quiet_log\<lparr> gl_notes := [m] \<rparr>"

text \<open>The checks push one after the other.\<close>

definition logs :: "gate_log list \<Rightarrow> gate_log" where
  "logs ls = \<lparr> gl_errors = concat (map gl_errors ls), gl_warnings = concat (map gl_warnings ls), gl_notes = concat (map gl_notes ls) \<rparr>"

definition bullet_sep :: jstr where
  "bullet_sep = 10 # js ''    - ''"

section \<open>Numbers\<close>

definition is_unit_test :: "jstr \<Rightarrow> bool" where
  "is_unit_test n = (suffix (js ''.test.ts'') n \<or> suffix (js ''.test.tsx'') n \<or> suffix (js ''.spec.ts'') n \<or> suffix (js ''.spec.tsx'') n)"

definition collectMetrics :: "node \<Rightarrow> (jstr \<times> nat) list" where
  "collectMetrics rootd =
     [(js ''vitest_test_files'', length (walk_dir is_unit_test [js ''frontend'', js ''src''] rootd)
         + length (walk_dir is_unit_test [js ''frontend'', js ''test''] rootd)),
      (js ''e2e_spec_files'', length (walk_dir (suffix (js ''.spec.ts'')) [js ''frontend'', js ''e2e''] rootd)),
      (js ''go_test_files'', length (walk_dir (suffix (js ''_test.go'')) [js ''internal''] rootd)
         + length (walk_dir (suffix (js ''_test.go'')) [js ''pkg''] rootd)),
      (js ''docs_files'', (case find_node [js ''docs''] rootd of None \<Rightarrow> 0
         | Some n \<Rightarrow> length (filter (\<lambda>e. \<not> is_folder (snd e) \<and> suffix (js ''.md'') (fst e)) (node_entries n))))]"

text \<open>The first position at which \<open>f\<close> matches; the text up to the next occurrence of \<open>d\<close>.\<close>

fun match_at :: "(jstr \<Rightarrow> 'a option) \<Rightarrow> jstr \<Rightarrow> 'a option" where
  "match_at f [] = f []"
| "match_at f (c # s) = (case f (c # s) of Some x \<Rightarrow> Some x | None \<Rightarrow> match_at f s)"

fun until :: "jstr \<Rightarrow> jstr \<Rightarrow> jstr option" where
  "until d [] = (if d = [] then Some [] else None)"
| "until d (c # s) = (if prefix d (c # s) then Some [] else map_option (\<lambda>t. c # t) (until d s))"

definition fence :: jstr where
  "fence = [96, 96, 96]"

definition metrics_open :: jstr where
  "metrics_open = fence @ js ''docs-metrics''"

definition metrics_text :: "jstr \<Rightarrow> jstr option" where
  "metrics_text = match_at (\<lambda>s. if \<not> prefix metrics_open s then None
     else (let r = drop (length metrics_open) s; r' = (if prefix [13] r then tl r else r)
           in if prefix [10] r' then until fence (tl r') else None))"

text \<open>A line \<open>key=value\<close>.\<close>

definition metric_line :: "jstr \<Rightarrow> (jstr \<times> jsnum) option" where
  "metric_line line =
     (let t = trim line
      in if t = [] \<or> prefix [35] t then None
         else (case split_on 61 t of
             key # v # r \<Rightarrow> if key \<noteq> [] then Some (trim key, js_number (trim v)) else None
           | _ \<Rightarrow> None))"

definition readMetricsBlock :: "jstr \<Rightarrow> (jstr \<times> jsnum) list option" where
  "readMetricsBlock mapText = map_option
     (\<lambda>b. foldl (\<lambda>m l. case metric_line l of Some (k, v) \<Rightarrow> obj_put k v m | None \<Rightarrow> m) [] (crlf_lines b)) (metrics_text mapText)"

definition check_metric :: "(jstr \<times> nat) list \<Rightarrow> jstr \<times> jsnum \<Rightarrow> gate_log" where
  "check_metric actual kv = (case map_of actual (fst kv) of
     None \<Rightarrow> one_warning ([1605, 1601, 1578, 1575, 1581, 32, 1571, 1585, 1602, 1575,
       1605, 32, 1594, 1610, 1585, 32, 1605,
  1593, 1585, 1608, 1601, 32, 1601, 1610, 32, 1575, 1604, 1582, 1585, 1610, 1591, 1577, 58,
    32] @ fst kv @ [32, 40, 1604, 1575, 32, 1610, 1602, 1575, 1576, 1604, 1607, 32, 1593, 1583,
    1617, 32, 1601,
  1593, 1604, 1610, 41, 46])
   | Some n \<Rightarrow>
       if js_eq (jint (int n)) (snd kv) then quiet_log
       else one_error ([1575, 1606, 1581, 1585, 1575, 1601, 32, 1585, 1602, 1605, 32, 1605, 1585,
         1580, 1593, 1610, 58, 32] @ fst kv @ [32, 1605, 1608, 1579, 1614, 1617, 1602,
         61] @ num_to_string (snd kv) @ [32, 1608, 1575, 1604, 1608, 1575, 1602, 1593,
         61] @ show_nat n
         @ [32, 8212, 32, 1581, 1583, 1617, 1579, 32, 1576, 1604, 1608, 1603, 32, 100, 111, 99,
           115, 45,
  109, 101, 116, 114, 105, 99, 115, 32, 1601, 1610, 32, 100, 111, 99, 115, 47, 68, 79, 67, 85,
  77, 69, 78, 84, 65, 84, 73, 79, 78, 95, 77, 65, 80, 46, 109, 100, 46]))"

definition checkMetrics :: "gate_env \<Rightarrow> jstr \<Rightarrow> gate_log" where
  "checkMetrics e mapText = (case readMetricsBlock mapText of
     None \<Rightarrow> one_error ([1604, 1575, 32, 1610, 1608, 1580, 1583, 32, 1576, 1604, 1608,
       1603, 32] @ fence @ js ''docs-metrics'' @ fence
       @ [32, 1601, 1610, 32, 100, 111, 99, 115, 47, 68, 79, 67, 85, 77, 69, 78, 84, 65, 84, 73,
         79, 78,
  95, 77, 65, 80, 46, 109, 100, 32, 8212, 32, 1571, 1590, 1601, 1607, 32, 1608, 1608, 1579, 1617,
  1602, 32, 1575, 1604, 1571, 1585, 1602, 1575, 1605, 32, 1575, 1604, 1605, 1585, 1580, 1593,
  1610, 1577, 46])
   | Some documented \<Rightarrow> logs (map (check_metric (collectMetrics (ge_tree e))) documented))"

section \<open>Inventory\<close>

definition required_entries :: "gate_env \<Rightarrow> jstr list" where
  "required_entries e =
     [js ''README.md'', js ''CHANGELOG.md'', js ''CONTRIBUTING.md'', js ''AGENTS.md'', js ''DESIGN.md'',
      js ''.agents/rules/'', js ''.agents/skills/'', js ''.agents/agents/'', js ''.agents/workflows/'']
     @ concat (map (\<lambda>en. if is_folder (snd en) then [js ''docs/'' @ fst en @ [47]]
         else if suffix (js ''.md'') (fst en) then [js ''docs/'' @ fst en] else [])
       (case find_node [js ''docs''] (ge_tree e) of None \<Rightarrow> [] | Some n \<Rightarrow> node_entries n))"

definition checkInventory :: "gate_env \<Rightarrow> jstr \<Rightarrow> gate_log" where
  "checkInventory e mapText =
     (let required = required_entries e; missing = filter (\<lambda>i. \<not> str_includes mapText i) required
      in if missing \<noteq> []
         then one_error ([1605, 1587, 1578, 1606, 1583, 1575, 1578, 47, 1605, 1580, 1604, 1583,
           1575, 1578, 32, 1594,
  1610, 1585, 32, 1605, 1615, 1587, 1580, 1614, 1617, 1604, 1577, 32, 1601, 1610, 32, 1580, 1585,
  1583, 32, 100, 111, 99, 115, 47, 68, 79, 67, 85, 77, 69, 78, 84, 65, 84, 73, 79, 78, 95, 77,
  65, 80, 46, 109, 100, 58] @ bullet_sep @ join bullet_sep missing)
         else one_note ([1575, 1604, 1580, 1585, 1583, 32, 1605, 1603, 1578, 1605, 1604, 32,
           40] @ show_nat (length required) @ [32, 1605, 1583, 1582, 1604, 1575, 1611, 41, 46]))"

section \<open>Changes\<close>

definition runGit :: "gate_env \<Rightarrow> jstr \<Rightarrow> jstr list option" where
  "runGit e command = map_option (\<lambda>out. filter (\<lambda>l. l \<noteq> []) (map trim (crlf_lines out))) (ge_git e command)"

fun firstNonEmpty :: "jstr list option list \<Rightarrow> jstr list" where
  "firstNonEmpty [] = []"
| "firstNonEmpty (l # ls) = (case l of Some fs \<Rightarrow> if fs \<noteq> [] then fs else firstNonEmpty ls | None \<Rightarrow> firstNonEmpty ls)"

definition changedFiles :: "gate_env \<Rightarrow> jstr list" where
  "changedFiles e =
     (if \<not> MODE_PUSH e then (case runGit e (js ''git diff --cached --name-only'') of Some l \<Rightarrow> l | None \<Rightarrow> [])
      else if IN_CI e then firstNonEmpty (map (runGit e)
        [js ''git diff --name-only origin/main...HEAD'', js ''git diff --name-only origin/master...HEAD'',
         js ''git diff --name-only HEAD~1..HEAD''])
      else (case runGit e (js ''git diff --name-only @'' @ 123 # js ''u}..HEAD'') of
          Some l \<Rightarrow> l
        | None \<Rightarrow> firstNonEmpty (map (runGit e)
            [js ''git diff --name-only origin/master...HEAD'', js ''git diff --name-only HEAD~1..HEAD''])))"

definition SOURCE_PATTERNS :: "jstr list" where
  "SOURCE_PATTERNS = [js ''internal/'', js ''pkg/'', js ''frontend/src/'', js ''frontend/e2e/'', js ''scripts/'',
     js ''.github/workflows/'', js ''supabase/'', js ''app.go'', js ''main.go'', js ''wails.json'']"

definition DOC_PATTERNS :: "jstr list" where
  "DOC_PATTERNS = [js ''CHANGELOG.md'', js ''README.md'', js ''docs/'', js ''AGENTS.md'', js ''.agents/'', js ''CONTRIBUTING.md'']"

definition touches :: "jstr list \<Rightarrow> jstr \<Rightarrow> bool" where
  "touches patterns file = list_ex (\<lambda>p. file = p \<or> prefix p file) patterns"

definition checkDocumentedCommit :: "gate_env \<Rightarrow> gate_log" where
  "checkDocumentedCommit e =
     (let files = changedFiles e; sourceTouched = filter (touches SOURCE_PATTERNS) files;
          docsTouched = filter (touches DOC_PATTERNS) files
      in if files = [] then one_note (if MODE_PUSH e
           then [1604, 1575, 32, 1603, 1608, 1605, 1578, 1575, 1578, 32, 1594, 1610, 1585, 32,
             1605, 1583, 1601,
  1608, 1593, 1577, 32, 1578, 1581, 1578, 1575, 1580, 32, 1601, 1581, 1589, 1575, 1611, 32, 8212,
  32, 1575, 1602, 1578, 1615, 1589, 1585, 32, 1575, 1604, 1601, 1581, 1589, 32, 1593, 1604, 1609,
  32, 1575, 1604, 1571, 1585, 1602, 1575, 1605, 32, 1608, 1575, 1604, 1580, 1585, 1583, 32, 1608,
  1575, 1604, 1578, 1571, 1603, 1610, 1583, 1575, 1578, 46]
           else [1604, 1575, 32, 1605, 1604, 1601, 1575, 1578, 32, 1605, 1615, 1580, 1607, 1614,
             1617, 1586,
  1577, 32, 1604, 1604, 1603, 1608, 1605, 1578, 32, 8212, 32, 1575, 1602, 1578, 1615, 1589, 1585,
  32, 1575, 1604, 1601, 1581, 1589, 32, 1593, 1604, 1609, 32, 1575, 1604, 1571, 1585, 1602, 1575,
  1605, 32, 1608, 1575, 1604, 1580, 1585, 1583, 32, 1608, 1575, 1604, 1578, 1571, 1603, 1610,
  1583, 1575, 1578, 46])
         else if sourceTouched \<noteq> [] \<and> docsTouched = []
         then one_error ([1607, 1584, 1607, 32, 1575, 1604, 1578, 1594, 1610, 1610, 1585, 1575,
           1578, 32, 1578, 1605,
  1587, 1617, 32, 1575, 1604, 1603, 1608, 1583, 32, 1576, 1604, 1575, 32, 1571, 1610, 32, 1578,
  1581, 1583, 1610, 1579, 32, 1578, 1608, 1579, 1610, 1602, 32, 1605, 1585, 1575, 1601, 1602, 32,
  40] @ show_nat (length sourceTouched) @ [32, 1605, 1604, 1601, 1575, 1611, 41, 58]
           @ bullet_sep @ join bullet_sep (take 8 sourceTouched) @ (if 8 < length sourceTouched then bullet_sep @ [8230] else [])
           @ 10 # [32, 32, 32, 32, 1575, 1604, 1605, 1591, 1604, 1608, 1576, 58, 32, 1581, 1583,
             1617, 1579, 32,
  67, 72, 65, 78, 71, 69, 76, 79, 71, 46, 109, 100, 32, 1578, 1581, 1578, 32, 91, 85, 110, 114,
  101, 108, 101, 97, 115, 101, 100, 93, 32, 43, 32, 1575, 1604, 1605, 1587, 1578, 1606, 1583, 32,
  1575, 1604, 1605, 1593, 1606, 1610, 32, 1608, 1601, 1602, 32, 1605, 1589, 1601, 1608, 1601,
  1577, 32, 1575, 1604, 1605, 1586, 1575, 1605, 1606, 1577, 32, 1601, 1610, 32, 100, 111, 99,
  115, 47, 68, 79, 67, 85, 77, 69, 78, 84, 65, 84, 73, 79, 78, 95, 77, 65, 80, 46, 109, 100, 46])
         else if sourceTouched \<noteq> []
         then one_note ([1603, 1608, 1605, 1578, 32, 1605, 1608, 1579, 1614, 1617, 1602, 58,
           32] @ show_nat (length sourceTouched) @ [32, 1605, 1604, 1601, 32, 1603, 1608, 1583,
           32, 43, 32] @ show_nat (length docsTouched)
           @ [32, 1605, 1604, 1601, 32, 1578, 1608, 1579, 1610, 1602, 46])
         else quiet_log)"

section \<open>References\<close>

definition REF_ROOTS :: "jstr list" where
  "REF_ROOTS = [js ''.agents/'', js ''.husky/'', js ''frontend/'', js ''internal/'', js ''pkg/'', js ''docs/'', js ''scripts/'',
     js ''supabase/'', js ''.github/'']"

definition folder_entries :: "gate_env \<Rightarrow> jstr list \<Rightarrow> (jstr \<times> node) list" where
  "folder_entries e p = (case find_node p (ge_tree e) of Some n \<Rightarrow> node_entries n | None \<Rightarrow> [])"

definition md_files :: "gate_env \<Rightarrow> jstr list \<Rightarrow> jstr list list" where
  "md_files e p = map (\<lambda>en. p @ [fst en]) (filter (\<lambda>en. \<not> is_folder (snd en) \<and> suffix (js ''.md'') (fst en)) (folder_entries e p))"

definition folder_files :: "jstr \<Rightarrow> gate_env \<Rightarrow> jstr list \<Rightarrow> jstr list list" where
  "folder_files name e p = map (\<lambda>en. p @ [fst en, name])
     (filter (\<lambda>en. is_folder (snd en) \<and> find_node [name] (snd en) \<noteq> None) (folder_entries e p))"

definition referenceTargets :: "gate_env \<Rightarrow> jstr list list" where
  "referenceTargets e = [[js ''AGENTS.md'']]
     @ md_files e [js ''.agents'', js ''rules''] @ folder_files (js ''SKILL.md'') e [js ''.agents'', js ''skills'']
     @ folder_files (js ''agent.md'') e [js ''.agents'', js ''agents''] @ md_files e [js ''.agents'', js ''workflows'']"

text \<open>The texts between two back ticks of a line.\<close>

fun tick_span :: "jstr \<Rightarrow> (jstr \<times> jstr) option" where
  "tick_span [] = None"
| "tick_span (c # s) = (if c = 96 then Some ([], s) else if c = 10 then None else map_option (\<lambda>(x, r). (c # x, r)) (tick_span s))"

lemma tick_span_shorter: "tick_span s = Some (x, r) \<Longrightarrow> length r < length s"
  by (induction s arbitrary: x) (auto split: if_splits)

function tick_spans :: "jstr \<Rightarrow> jstr list" where
  "tick_spans s = (case s of
     [] \<Rightarrow> []
   | c # t \<Rightarrow> (case (if c = 96 then tick_span t else None) of
        Some (x, r) \<Rightarrow> if x = [] then tick_spans t else x # tick_spans r
      | None \<Rightarrow> tick_spans t))"
  by pat_completeness auto
termination by (relation "measure length") (auto dest: tick_span_shorter split: if_splits)

declare tick_spans.simps [simp del]

fun strip_parens :: "jstr \<Rightarrow> jstr" where
  "strip_parens [] = []"
| "strip_parens (c # s) = (if c = 40 then (case until [41] s of Some t \<Rightarrow> strip_parens (drop (Suc (length t)) s) | None \<Rightarrow> c # strip_parens s)
     else c # strip_parens s)"

definition ignore_open :: "jstr \<Rightarrow> jstr option" where
  "ignore_open s =
     (if prefix (js ''<!--'') s
      then (let r = dropWhile is_space (drop 4 s)
            in if prefix (js ''docs-gate:ignore-refs'') r then until (js ''-->'') (drop 21 r) else None)
      else None)"

definition ignore_list :: "jstr \<Rightarrow> jstr list" where
  "ignore_list mapText =
     (let t = (case match_at ignore_open mapText of Some t \<Rightarrow> strip_parens t | None \<Rightarrow> [])
      in filter (\<lambda>i. i \<noteq> []) (map trim (split_on 44 t)))"

definition strip_marks :: "jstr \<Rightarrow> jstr" where
  "strip_marks t = rev (dropWhile (\<lambda>c. c \<in> {34, 39, 41, 44, 46, 59,
    58}) (rev (dropWhile (\<lambda>c. c \<in> {34, 39, 40}) t)))"

definition line_range :: "jstr \<Rightarrow> bool" where
  "line_range s =
     (let d = takeWhile is_digit s; r = dropWhile is_digit s
      in d \<noteq> [] \<and> (case r of [] \<Rightarrow> True | c # q \<Rightarrow> c = 45 \<and> q \<noteq> [] \<and> list_all is_digit q))"

fun strip_line_range :: "jstr \<Rightarrow> jstr" where
  "strip_line_range [] = []"
| "strip_line_range (c # s) = (if c = 58 \<and> line_range s then [] else c # strip_line_range s)"

definition reference_token :: "jstr \<Rightarrow> jstr" where
  "reference_token raw = strip_line_range (strip_marks (trim raw))"

definition checked_token :: "jstr list \<Rightarrow> jstr \<Rightarrow> bool" where
  "checked_token ignored t =
     (47 \<in> set t \<and> list_ex (\<lambda>r. prefix r t) REF_ROOTS
      \<and> \<not> list_ex (\<lambda>c. c \<in> set (js ''*{}<>|$='') \<or> is_space c) t \<and> \<not> str_includes t (js ''...'')
      \<and> \<not> list_ex (\<lambda>i. t = i \<or> prefix i t) ignored)"

definition file_label :: "jstr list \<Rightarrow> jstr" where
  "file_label p = js ''./'' @ join [47] p"

definition missing_in :: "gate_env \<Rightarrow> jstr list \<Rightarrow> jstr list \<Rightarrow> jstr \<Rightarrow> jstr list" where
  "missing_in e ignored file t =
     map (\<lambda>tok. tok @ [32, 32, 8592, 32, 32] @ file_label file)
       (filter (\<lambda>tok. checked_token ignored tok \<and> \<not> file_exists e tok) (map reference_token (tick_spans t)))"

text \<open>\<open>None\<close> when a target cannot be read.\<close>

fun missing_references :: "gate_env \<Rightarrow> jstr list \<Rightarrow> jstr list list \<Rightarrow> jstr list option" where
  "missing_references e ignored [] = Some []"
| "missing_references e ignored (f # fs) = (case (read_text e f, missing_references e ignored fs) of
     (Some t, Some ms) \<Rightarrow> Some (missing_in e ignored f t @ ms) | _ \<Rightarrow> None)"

definition checkReferences :: "gate_env \<Rightarrow> jstr \<Rightarrow> gate_log option" where
  "checkReferences e mapText = map_option (\<lambda>ms.
     if ms \<noteq> []
     then (let list = sort (remdups ms);
               message = [1605, 1585, 1575, 1580, 1593, 32, 1605, 1587, 1575, 1585, 1575, 1578,
                 32, 1594, 1610, 1585, 32,
  1605, 1608, 1580, 1608, 1583, 1577, 32, 1601, 1610, 32, 65, 71, 69, 78, 84, 83, 46, 109, 100,
  32, 1608, 46, 97, 103, 101, 110, 116, 115, 47, 32,
    40] @ show_nat (length list) @ js ''):'' @ bullet_sep
                 @ join bullet_sep (take 12 list) @ (if 12 < length list then bullet_sep @ [8230] else [])
           in if STRICT_REFS e then one_error message
              else one_warning (message @ 10 # [32, 32, 32, 32, 40, 1578, 1581, 1584, 1610, 1585,
                32, 1601, 1602, 1591, 32, 8212, 32, 1588,
  1594, 1617, 1604, 32, 45, 45, 115, 116, 114, 105, 99, 116, 45, 114, 101, 102, 115, 32, 1604,
  1580, 1593, 1604, 1607, 1575, 32, 1605, 1615, 1593, 1616, 1602, 1577, 46, 41]))
     else one_note [1603, 1604, 32, 1605, 1585, 1575, 1580, 1593, 32, 1575, 1604, 1605, 1587,
       1575, 1585, 1575,
  1578, 32, 1601, 1610, 32, 65, 71, 69, 78, 84, 83, 46, 109, 100, 32, 1608, 46, 97, 103, 101,
  110, 116, 115, 47, 32, 1605, 1608, 1580, 1608, 1583, 1577, 32, 1601, 1593, 1604, 1610, 1575,
  1611, 46])
     (missing_references e (ignore_list mapText) (referenceTargets e))"

section \<open>Assertions on the code\<close>

record code_assertion =
  as_label :: jstr
  as_file :: jstr
  as_mustContain :: "jstr list"
  as_mustNotContain :: "jstr list"
  as_count :: "(jstr \<times> nat) list"

definition CODE_ASSERTIONS :: "code_assertion list" where
  "CODE_ASSERTIONS =
    [\<lparr> as_label = js ''ARCH-01 '' @ [8212] @ js '' '' @ [1602, 1601,
      1604] @ js '' '' @ [1575, 1604, 1575, 1578, 1589, 1575, 1604] @ js '' '' @ [1575, 1604,
      1608, 1575, 1581, 1583] @ js '' '' @ [1608, 1608, 1590,
      1593] @ js '' WAL (SQLite '' @ [1601, 1610] @ js '' '' @ [1576, 1610, 1574,
      1577] @ js '' LAN)'',
       as_file = js ''internal/repository/db.go'',
       as_mustContain = [js ''sqlDB.SetMaxOpenConns(1)'',
        js ''PRAGMA journal_mode=WAL;''],
       as_mustNotContain = [],
       as_count = [] \<rparr>,
     \<lparr> as_label = js ''ARCH-02 '' @ [8212] @ js '' '' @ [1583, 1602,
       1577] @ js '' '' @ [1575, 1604, 1605, 1575,
       1604] @ js '': Amount (int64 cents) '' @ [1608, 1608, 1575, 1580, 1607,
       1577] @ js '' '' @ [1575, 1604, 1590, 1585, 1575, 1574, 1576] @ js '' '' @ [1608, 1575,
       1604, 1578, 1602, 1585, 1610, 1576],
       as_file = js ''internal/core/domain/money.go'',
       as_mustContain = [js ''func (a Amount) MulFloat(factor float64) Amount'',
        js ''func (a Amount) Percentage(p float64) Amount'',
        js ''func (a Amount) RoundToNearest(unit Amount) Amount''],
       as_mustNotContain = [],
       as_count = [] \<rparr>,
     \<lparr> as_label = js ''FIN-01 '' @ [8212] @ js '' '' @ [1581, 1605, 1575, 1610,
       1577] @ js '' '' @ [1575, 1604, 1571, 1602, 1587, 1575, 1591] @ js '': '' @ [1583, 1601,
       1593, 1577] @ js '' '' @ [1571, 1608, 1604, 1609] @ js '' '' @ [8804] @ js '' '' @ [1575,
       1604, 1573, 1580, 1605, 1575, 1604, 1610] @ js '' + '' @ [1578, 1602, 1585, 1610,
       1576] @ js '' 250 '' @ [1583, 1610, 1606, 1575, 1585] @ js '' + '' @ [1578, 1587, 1608,
       1610, 1577] @ js '' '' @ [1575, 1604, 1588, 1607, 1585] @ js '' '' @ [1575, 1604, 1571,
       1582, 1610, 1585],
       as_file = js ''internal/service/payment_service.go'',
       as_mustContain = [js ''if downPayment > total {'',
        js ''roundedBase := rawPerMonth.RoundToNearest(unit)'',
        js ''amount = remaining - roundedBase*domain.Amount(months-1)''],
       as_mustNotContain = [],
       as_count = [] \<rparr>,
     \<lparr> as_label = js ''FIN-02 '' @ [8212] @ js '' '' @ [1575, 1604, 1602, 1601,
       1604] @ js '' '' @ [1575, 1604, 1605, 1578, 1588, 1575, 1574, 1605] @ js '' '' @ [1608,
       1575, 1604, 1578, 1581, 1583, 1610, 1579] @ js '' '' @ [1575, 1604, 1584, 1585,
       1610] @ js '' '' @ [1604, 1571, 1585, 1589, 1583, 1577] @ js '' '' @ [1575, 1604, 1593,
       1605, 1604, 1575, 1569],
       as_file = js ''internal/repository/customer_repo.go'',
       as_mustContain = [js ''clause.Locking{Strength: \"UPDATE\"}'',
        js ''gorm.Expr(\"points + ?\", delta)''],
       as_mustNotContain = [],
       as_count = [] \<rparr>,
     \<lparr> as_label = js ''SEC-01 '' @ [8212] @ js '' '' @ [1575, 1604, 1578, 1581, 1602,
       1602] @ js '' '' @ [1605, 1606] @ js '' '' @ [1575, 1604, 1585, 1605,
       1586] @ js '' '' @ [1575, 1604, 1587, 1585, 1610] @ js '' '' @ [1576,
       1600] @ js '' bcrypt '' @ [1605, 1593] @ js '' Tarpitting ('' @ [1604,
       1575] @ js '' Lockout)'',
       as_file = js ''internal/service/admin_pin.go'',
       as_mustContain = [js ''bcrypt.CompareHashAndPassword'',
        js ''adminPinFailures++'',
        js ''delay = 15 * time.Second''],
       as_mustNotContain = [],
       as_count = [] \<rparr>,
     \<lparr> as_label = js ''SEC-02 '' @ [8212] @ js '' '' @ [1575, 1604, 1605, 1602, 1575,
       1585, 1606, 1577] @ js '' '' @ [1575, 1604, 1586, 1605, 1606, 1610,
       1577] @ js '' '' @ [1575, 1604, 1579, 1575, 1576, 1578, 1577] @ js '' '' @ [1604, 1585,
       1605, 1608, 1586] @ js '' '' @ [1580, 1604, 1587, 1575, 1578] @ js '' LAN'',
       as_file = js ''internal/network/lan_clients.go'',
       as_mustContain = [js ''subtle.ConstantTimeCompare''],
       as_mustNotContain = [],
       as_count = [] \<rparr>,
     \<lparr> as_label = js ''SEC-03 '' @ [8212] @ js '' '' @ [1578, 1593, 1602, 1610,
       1605] @ js '' CSV '' @ [1590, 1583] @ js '' Formula Injection'',
       as_file = js ''internal/service/backup_service.go'',
       as_mustContain = [js ''sanitizeCSVField := func(val string) string {'',
        js ''return \"'' @ [39] @ js ''\" + val''],
       as_mustNotContain = [],
       as_count = [] \<rparr>,
     \<lparr> as_label = js ''LAN-01 '' @ [8212] @ js '' '' @ [1575, 1603, 1578, 1588, 1575,
       1601] @ js '' UDP '' @ [1593, 1604, 1609] @ js '' 9765 '' @ [1576, 1576, 1589, 1605,
       1577] @ js '' BEIDAR_POS_V1 '' @ [1608, 1585, 1601, 1590] @ js '' '' @ [1575, 1604, 1571,
       1602, 1583, 1605] @ js '' '' @ [1605, 1606] @ js '' 30 '' @ [1579, 1575, 1606, 1610, 1577],
       as_file = js ''internal/network/lan_discovery.go'',
       as_mustContain = [js ''DiscoveryPort'',
        js ''BEIDAR_POS_V1'',
        js ''(now-msg.Timestamp) > 30''],
       as_mustNotContain = [],
       as_count = [] \<rparr>,
     \<lparr> as_label = js ''LAN-02 '' @ [8212] @ js '' '' @ [1587, 1610, 1575, 1587,
       1577] @ js '' '' @ [1575, 1604, 1571, 1583, 1608, 1575, 1585] @ js '' '' @ [1575, 1604,
       1605, 1594, 1604, 1602, 1577] @ js '' fail-closed '' @ [1604, 1605, 1587, 1575, 1585,
       1575, 1578] @ js '' LAN'',
       as_file = js ''internal/network/lan_server.go'',
       as_mustContain = [js ''func lanRoleAllows(role domain.Role, method, path string) bool {'',
        js ''!lanRoleAllows(domain.Role(client.Role), r.Method, r.URL.Path)''],
       as_mustNotContain = [],
       as_count = [] \<rparr>,
     \<lparr> as_label = js ''LAN-03 '' @ [8212] @ js '' '' @ [1587, 1602,
       1601] @ js '' '' @ [1602, 1585, 1575, 1569, 1577] @ js '' '' @ [1575, 1587, 1578, 1580,
       1575, 1576, 1575, 1578] @ js '' LAN (10MB) '' @ [1590, 1583] @ js '' '' @ [1575, 1587,
       1578, 1606, 1586, 1575, 1601] @ js '' '' @ [1575, 1604, 1584, 1575, 1603, 1585, 1577],
       as_file = js ''internal/network/lan_client.go'',
       as_mustContain = [js ''io.LimitReader(resp.Body, 10<<20)''],
       as_mustNotContain = [],
       as_count = [] \<rparr>,
     \<lparr> as_label = js ''LAN-04 '' @ [8212] @ js '' '' @ [1578, 1585, 1582, 1610, 1589] @ js '' '' @ [1591, 1604, 1576,
    1575, 1578] @ js '' LAN '' @ [1576, 1607, 1608, 1610, 1577] @ js '' '' @ [1575, 1604, 1580,
    1607, 1575, 1586] @ js '' '' @ [1575, 1604, 1605, 1615, 1578, 1581, 1602,
    1602] @ js '' (Actor) '' @ [1604, 1575] @ js '' '' @ [1576, 1580, 1604, 1587,
    1577] @ js '' '' @ [1587, 1591, 1581] @ js '' '' @ [1575, 1604, 1605, 1603, 1578, 1576],
       as_file = js ''internal/network/lan_server.go'',
       as_mustContain = [js ''ctx := context.WithValue(r.Context(), lanClientContextKey{}, client)'',
        js ''ProcessSaleAs(lanActor(lanClientFrom(r)), &sale)'',
        js ''s.staffService.GetStaff(sale.StaffID)''],
       as_mustNotContain = [],
       as_count = [] \<rparr>,
     \<lparr> as_label = js ''LAN-05 '' @ [8212] @ js '' '' @ [1579, 1576, 1575,
       1578] @ js '' '' @ [1587, 1585] @ js '' '' @ [1573, 1602, 1585, 1575,
       1606] @ js '' LAN '' @ [1593, 1576, 1585] @ js '' '' @ [1573, 1593, 1575, 1583,
       1577] @ js '' '' @ [1575, 1604, 1578, 1588, 1594, 1610, 1604] @ js '' ('' @ [1578, 1582,
       1586, 1610, 1606] @ js '' '' @ [1605, 1588, 1601, 1585] @ js '' '' @ [1576, 1605, 1601,
       1578, 1575, 1581] @ js '' '' @ [1575, 1604, 1580, 1607, 1575, 1586] @ js '')'',
       as_file = js ''internal/network/lan_server_secret_store.go'',
       as_mustContain = [js ''func (fileServerSecretStore) Set(secret string) error {'',
        js ''crypto.Decrypt(string(data), deriveLanTLSKey())'',
        [39] @ js ''lan_server_secret.enc'' @ [39]],
       as_mustNotContain = [],
       as_count = [] \<rparr>,
     \<lparr> as_label = js ''LAN-06 '' @ [8212] @ js '' '' @ [1575, 1587, 1578, 1585, 1580,
       1575, 1593] @ js '' '' @ [1575, 1604, 1587, 1585] @ js '' '' @ [1575, 1604, 1605, 1581,
       1601, 1608, 1592] @ js '' '' @ [1602, 1576, 1604] @ js '' '' @ [1576, 1583,
       1569] @ js '' '' @ [1582, 1583, 1605, 1577] @ js '' LAN'',
       as_file = js ''internal/network/lan_server.go'',
       as_mustContain = [js ''if err := s.ensureServerSecret(); err != nil {''],
       as_mustNotContain = [],
       as_count = [] \<rparr>,
     \<lparr> as_label = js ''UI-04 '' @ [8212] @ js '' '' @ [1593, 1585,
       1590] @ js '' '' @ [1585, 1605, 1586] @ js '' '' @ [1575, 1604, 1573, 1602, 1585, 1575,
       1606] @ js '' '' @ [1593, 1604, 1609] @ js '' '' @ [1575, 1604, 1582, 1575, 1583,
       1605] @ js '' '' @ [1608, 1581, 1602, 1604] @ js '' '' @ [1573, 1604, 1586, 1575, 1605,
       1610] @ js '' '' @ [1593, 1604, 1609] @ js '' '' @ [1575, 1604, 1593, 1605, 1610, 1604],
       as_file = js ''frontend/src/components/LanSyncPanel.tsx'',
       as_mustContain = [js ''api.lan.getServerSecret()'',
        js ''!serverSecret.trim()''],
       as_mustNotContain = [],
       as_count = [] \<rparr>,
     \<lparr> as_label = js ''SEC-04 '' @ [8212] @ js '' '' @ [1601, 1581,
       1589] @ js '' '' @ [1575, 1604, 1589, 1604, 1575, 1581, 1610, 1577] @ js '' '' @ [1593,
       1604, 1609] @ js '' '' @ [1575, 1604, 1591, 1575, 1604, 1576] @ js '' '' @ [1575, 1604,
       1589, 1585, 1610, 1581] @ js '' (Actor) '' @ [1601, 1610] @ js '' '' @ [1591, 1576, 1602,
       1577] @ js '' '' @ [1575, 1604, 1582, 1583, 1605, 1577],
       as_file = js ''internal/service/sale_service.go'',
       as_mustContain = [js ''func (s *saleService) ProcessSaleAs(actor domain.Actor, sale *domain.Sale) error {'',
        js ''auth.RequirePermissionFor(actor, auth.PermDiscounts)''],
       as_mustNotContain = [js ''auth.RequirePermission(auth.PermDiscounts)''],
       as_count = [] \<rparr>,
     \<lparr> as_label = js ''SESSION-01 '' @ [8212] @ js '' '' @ [1575, 1606, 1578, 1607, 1575,
       1569] @ js '' '' @ [1580, 1604, 1587, 1577] @ js '' '' @ [1575, 1604, 1582, 1605, 1608,
       1604] @ js '' '' @ [1576, 1593, 1583] @ js '' 12 '' @ [1587, 1575, 1593, 1577],
       as_file = js ''pkg/auth/session.go'',
       as_mustContain = [js ''DefaultIdleSessionTimeout = 12 * time.Hour''],
       as_mustNotContain = [],
       as_count = [] \<rparr>,
     \<lparr> as_label = js ''DB-MIG-01 '' @ [8212] @ js '' '' @ [1575, 1604, 1605, 1607, 1575,
       1580, 1585, 1575, 1578] @ js '' '' @ [1575, 1604, 1605, 1585, 1602, 1605,
       1577] @ js '' '' @ [1583, 1575, 1582, 1604] @ js '' '' @ [1605, 1593, 1575, 1605, 1604,
       1577] @ js '' '' @ [1605, 1593] @ js '' '' @ [1601, 1581, 1589] @ js '' '' @ [1575, 1604,
       1605, 1601, 1575, 1578, 1610, 1581] @ js '' '' @ [1575, 1604, 1571, 1580, 1606, 1576,
       1610, 1577],
       as_file = js ''internal/repository/migration.go'',
       as_mustContain = [js ''var registeredMigrations = []Migration{'',
        js ''db.Transaction(func(tx *gorm.DB) error'',
        js ''PRAGMA foreign_key_check;''],
       as_mustNotContain = [js ''var allMigrations''],
       as_count = [] \<rparr>,
     \<lparr> as_label = js ''PRINT-01 '' @ [8212] @ js '' '' @ [1605, 1587, 1575,
       1585] @ js '' '' @ [1575, 1604, 1591, 1576, 1575, 1593, 1577] @ js '' '' @ [1575, 1604,
       1589, 1575, 1605, 1578, 1577] @ js '' '' @ [1576, 1575, 1604, 1589, 1608,
       1585] @ js '' '' @ [1593, 1576, 1585] @ js '' winspool (GS v 0)'',
       as_file = js ''pkg/print/direct.go'',
       as_mustContain = [js ''NewLazyDLL(\"winspool.drv\")'',
        js ''GS v 0''],
       as_mustNotContain = [],
       as_count = [] \<rparr>,
     \<lparr> as_label = js ''PRINT-02 '' @ [8212] @ js '' '' @ [1580, 1587,
       1585] @ js '' '' @ [1591, 1576, 1575, 1593, 1577] @ js '' BitmapReceipt '' @ [1605, 1615,
       1589, 1583, 1614, 1617, 1585] @ js '' '' @ [1601, 1610] @ js '' '' @ [1591, 1576, 1602,
       1577] @ js '' handlers'',
       as_file = js ''internal/handlers/print_handler.go'',
       as_mustContain = [js ''func (h *PrintHandler) PrintBitmapReceipt(printerName, base64Image string) error {''],
       as_mustNotContain = [],
       as_count = [] \<rparr>,
     \<lparr> as_label = js ''PRINT-03 '' @ [8212] @ js '' '' @ [1575, 1604, 1578, 1602, 1575,
       1591] @ js '' '' @ [1575, 1604, 1573, 1610, 1589, 1575, 1604] @ js '' '' @ [1601,
       1610] @ js '' '' @ [1575, 1604, 1608, 1575, 1580, 1607, 1577] @ js '' '' @ [1593, 1576,
       1585] @ js '' html-to-image'',
       as_file = js ''frontend/src/components/PrintPortal.tsx'',
       as_mustContain = [js ''await import('' @ [39] @ js ''html-to-image'' @ [39] @ js '')''],
       as_mustNotContain = [],
       as_count = [] \<rparr>,
     \<lparr> as_label = js ''UI-01 '' @ [8212] @ js '' '' @ [1575, 1604, 1575, 1604, 1578, 1602,
       1575, 1591] @ js '' '' @ [1575, 1604, 1589, 1575, 1605, 1578] @ js '' '' @ [1604, 1604,
       1576, 1575, 1585, 1603, 1608, 1583] @ js '' '' @ [1605, 1587, 1578, 1582, 1583,
       1605] @ js '' '' @ [1601, 1610] @ js '' '' @ [1588, 1575, 1588, 1577] @ js '' '' @ [1575,
       1604, 1576, 1610, 1593],
       as_file = js ''frontend/src/features/pos/views/SalesPage.tsx'',
       as_mustContain = [js ''useUsbScannerDetection''],
       as_mustNotContain = [],
       as_count = [] \<rparr>,
     \<lparr> as_label = js ''UI-02 '' @ [8212] @ js '' '' @ [1593, 1606, 1575, 1608, 1610,
       1606] @ js '' '' @ [1604, 1608, 1581, 1577] @ js '' '' @ [1575, 1604, 1575, 1606, 1591,
       1604, 1575, 1602] @ js '' '' @ [1607, 1610] @ js '' '' @ [1605, 1589, 1583,
       1585] @ js '' '' @ [1575, 1604, 1578, 1587, 1605, 1610, 1575, 1578] @ js '' '' @ [1575,
       1604, 1605, 1608, 1581, 1583, 1577],
       as_file = js ''frontend/src/features/dashboard/dashboard.tsx'',
       as_mustContain = [js ''title: '' @ [39] @ [1575, 1604, 1605, 1576, 1610, 1593, 1575,
         1578] @ [39],
        js ''title: '' @ [39] @ [1575, 1604, 1605, 1606, 1578, 1580, 1575, 1578] @ [39],
        js ''title: '' @ [39] @ [1575, 1604, 1608, 1585, 1583, 1610, 1575, 1578] @ [39]],
       as_mustNotContain = [],
       as_count = [] \<rparr>,
     \<lparr> as_label = js ''UI-03 '' @ [8212] @ js '' '' @ [1575, 1604, 1575, 1601, 1578, 1585,
       1575, 1590, 1610, 1577] @ js '' '' @ [1601, 1610] @ js '' '' @ [1588, 1576, 1603,
       1577] @ js '' '' @ [1605, 1606, 1578, 1580, 1575, 1578] @ js '' '' @ [1606, 1602, 1591,
       1577] @ js '' '' @ [1575, 1604, 1576, 1610, 1593],
       as_file = js ''frontend/src/features/pos/components/VirtualProductGrid.tsx'',
       as_mustContain = [js ''from '' @ [39] @ js ''@tanstack/react-virtual'' @ [39]],
       as_mustNotContain = [],
       as_count = [] \<rparr>,
     \<lparr> as_label = js ''CI-01 '' @ [8212] @ js '' '' @ [1608, 1592, 1610, 1601,
       1577] @ js '' docs-gate '' @ [1601, 1610] @ js '' '' @ [1582, 1591] @ js '' CI'',
       as_file = js ''.github/workflows/ci.yml'',
       as_mustContain = [js ''node scripts/docs-gate.mjs --push --ci''],
       as_mustNotContain = [],
       as_count = [] \<rparr>,
     \<lparr> as_label = js ''HOOK-01 '' @ [8212] @ js '' '' @ [1576, 1608, 1575, 1576,
       1577] @ js '' pre-commit '' @ [1605, 1601, 1593, 1614, 1617, 1604,
       1577] @ js '' '' @ [1605, 1585, 1577] @ js '' '' @ [1608, 1575, 1581, 1583,
       1577] @ js '' '' @ [1576, 1604, 1575] @ js '' '' @ [1578, 1603, 1585, 1575, 1585],
       as_file = js ''frontend/.husky/pre-commit'',
       as_mustContain = [],
       as_mustNotContain = [],
       as_count = [(js ''scripts/docs-gate.mjs'', 1)] \<rparr>]"

definition normalizeQuotes :: "jstr \<Rightarrow> jstr" where
  "normalizeQuotes = map (\<lambda>c. if c \<in> {34, 39} then 34 else c)"

definition line_hit :: "jstr \<Rightarrow> jstr \<Rightarrow> bool" where
  "line_hit needle line = (str_includes line needle \<or> str_includes (normalizeQuotes line) (normalizeQuotes needle))"

text \<open>The number of the first line that is hit, or 0.\<close>

definition hits :: "jstr list \<Rightarrow> jstr \<Rightarrow> nat" where
  "hits ls needle = (let k = length (takeWhile (\<lambda>l. \<not> line_hit needle l) ls) in if k < length ls then k + 1 else 0)"

definition assertion_head :: "code_assertion \<Rightarrow> jstr" where
  "assertion_head a = [1575, 1606, 1581, 1585, 1575, 1601, 32, 1578, 1571, 1603, 1610, 1583, 32,
    1603, 1608, 1583, 32, 40] @ as_label a @ js ''):'' @ [10]"

definition check_needle :: "code_assertion \<Rightarrow> jstr list \<Rightarrow> jstr \<Rightarrow> gate_log" where
  "check_needle a ls needle = (if hits ls needle = 0
     then one_error (assertion_head a @ [32, 32, 32, 32, 1575, 1604, 1593, 1576, 1575, 1585,
       1577, 32, 1575, 1604, 1605, 1601, 1578,
  1585, 1590, 1577, 32, 1594, 1610, 1585, 32, 1605, 1608, 1580, 1608, 1583, 1577, 58,
    32] @ needle @ 10 # [32, 32, 32, 32, 1601, 1610, 32, 1575, 1604, 1605, 1604, 1601, 58,
    32] @ as_file a)
     else quiet_log)"

definition check_forbidden :: "code_assertion \<Rightarrow> jstr list \<Rightarrow> jstr \<Rightarrow> gate_log" where
  "check_forbidden a ls needle = (let line = hits ls needle in if 0 < line
     then one_error (assertion_head a @ [32, 32, 32, 32, 1593, 1576, 1575, 1585, 1577, 32, 1605,
       1605, 1606, 1608, 1593, 1577, 32, 1593,
  1575, 1583, 1578, 32, 1604, 1604, 1605, 1604, 1601,
    32] @ as_file a @ [58] @ show_nat line @ [32, 8658, 32] @ needle
       @ 10 # [32, 32, 32, 32, 1573, 1606, 32, 1603, 1575, 1606, 32, 1575, 1604, 1593, 1610,
         1576, 32, 1602,
  1583, 32, 1593, 1575, 1583, 32, 1601, 1593, 1604, 1575, 1611, 32, 1601, 1589, 1581, 1617, 1581,
  32, 1575, 1604, 1603, 1608, 1583, 32, 1608, 1571, 1590, 1601, 32, 1578, 1589, 1581, 1610, 1581,
  1575, 1611, 32, 1605, 1572, 1585, 1582, 1575, 1611, 32, 1601, 1610, 32, 1575, 1604, 1578, 1608,
  1579, 1610, 1602, 1563, 32, 1604, 1575, 32, 1578, 1615, 1587, 1602, 1591, 32, 1575, 1604, 1578,
  1571, 1603, 1610, 1583, 46])
     else quiet_log)"

definition check_count :: "code_assertion \<Rightarrow> jstr list \<Rightarrow> jstr \<times> nat \<Rightarrow> gate_log" where
  "check_count a ls rule = (let found = length (filter (\<lambda>l. str_includes l (fst rule)) ls) in if found \<noteq> snd rule
     then one_error (assertion_head a @ [32, 32, 32, 32, 1578, 1603, 1585, 1575, 1585, 32, 1594,
       1610, 1585, 32, 1605, 1578, 1608, 1602,
  1593, 32, 1604, 1593, 1576, 1575, 1585, 1577, 32, 1601, 1610, 32] @ as_file a @ [58, 32, 1575,
    1604, 1605, 1578, 1608, 1602, 1593, 32] @ show_nat (snd rule)
       @ [32, 1608, 1575, 1604, 1608, 1575, 1602, 1593, 32] @ show_nat found @ 10 # [32, 32, 32,
         32, 8658, 32] @ fst rule)
     else quiet_log)"

text \<open>One assertion on the text of its file.\<close>

definition check_assertion :: "code_assertion \<Rightarrow> jstr \<Rightarrow> gate_log" where
  "check_assertion a t =
     (let ls = crlf_lines t
      in logs (map (check_needle a ls) (as_mustContain a) @ map (check_forbidden a ls) (as_mustNotContain a)
        @ map (check_count a ls) (as_count a)))"

text \<open>Missing files are collected; a folder in place of a file throws.\<close>

fun check_assertions :: "gate_env \<Rightarrow> code_assertion list \<Rightarrow> (jstr list \<times> gate_log list) option" where
  "check_assertions e [] = Some ([], [])"
| "check_assertions e (a # as) = (case check_assertions e as of
     None \<Rightarrow> None
   | Some (missing, ls) \<Rightarrow>
       if \<not> file_exists e (as_file a) then Some ((as_file a @ [32, 32, 8592, 32,
         32] @ as_label a) # missing, ls)
       else (case read_text e (split_on 47 (as_file a)) of
           None \<Rightarrow> None
         | Some t \<Rightarrow> Some (missing, check_assertion a t # ls)))"

definition checkCodeAssertions :: "gate_env \<Rightarrow> code_assertion list \<Rightarrow> gate_log option" where
  "checkCodeAssertions e as = map_option (\<lambda>(missing, ls). logs (ls @
     [if missing \<noteq> []
      then one_error ([1605, 1604, 1601, 1575, 1578, 32, 1605, 1601, 1578, 1585, 1590, 1577, 32,
        1604, 1578, 1571,
  1603, 1610, 1583, 1575, 1578, 32, 1575, 1604, 1578, 1581, 1602, 1602, 32, 1594, 1610, 1585, 32,
  1605, 1608, 1580, 1608, 1583, 1577, 32,
    40] @ show_nat (length missing) @ js ''):'' @ bullet_sep @ join bullet_sep missing)
      else one_note ([1578, 1571, 1603, 1610, 1583, 1575, 1578, 32, 1575, 1604, 1578, 1581, 1602,
        1602, 32, 1593,
  1604, 1609, 32, 1575, 1604, 1603, 1608, 1583, 32, 1587, 1604, 1610, 1605, 1577, 32,
    40] @ show_nat (length as) @ [32, 1578, 1571, 1603, 1610, 1583, 1575, 1611, 41, 46])]))
     (check_assertions e as)"

section \<open>The gate\<close>

definition MAP_PATH :: "jstr list" where
  "MAP_PATH = [js ''docs'', js ''DOCUMENTATION_MAP.md'']"

text \<open>What the checks have pushed, or \<open>None\<close> after an exception.\<close>

definition gate_checks :: "gate_env \<Rightarrow> code_assertion list \<Rightarrow> jstr \<Rightarrow> gate_log option" where
  "gate_checks e as mapText = (case (checkReferences e mapText, checkCodeAssertions e as) of
     (Some r, Some a) \<Rightarrow> Some (logs [checkMetrics e mapText, checkInventory e mapText, checkDocumentedCommit e, r, a])
   | _ \<Rightarrow> None)"

text \<open>The exit code; an exception that nobody catches ends with 1.\<close>

definition gate_main :: "(jstr \<Rightarrow> jstr) \<Rightarrow> gate_env \<Rightarrow> code_assertion list \<Rightarrow> nat" where
  "gate_main lower e as =
     (if DISABLED lower e then 0
      else (case read_text e MAP_PATH of
          None \<Rightarrow> 1
        | Some mapText \<Rightarrow> (case gate_checks e as mapText of
            Some l \<Rightarrow> if gl_errors l \<noteq> [] then 1 else 0
          | None \<Rightarrow> 1)))"

section \<open>What the gate lets pass\<close>

lemma log_simps [simp]:
  "gl_errors quiet_log = []" "gl_errors (one_error m) = [m]" "gl_errors (one_warning m) = []" "gl_errors (one_note m) = []"
  "gl_errors (logs ls) = concat (map gl_errors ls)"
  by (simp_all add: quiet_log_def one_error_def one_warning_def one_note_def logs_def)

text \<open>What is promised of the documents: the numbers in the map are those of the repository, all entries are listed,
  a change of the code comes with one of a document, all references exist when that is asked for, and the code
  holds what is asserted of it.\<close>

definition metrics_agree :: "gate_env \<Rightarrow> jstr \<Rightarrow> bool" where
  "metrics_agree e mapText = (\<exists>documented. readMetricsBlock mapText = Some documented
     \<and> (\<forall>(k, v)\<in>set documented. \<forall>n. map_of (collectMetrics (ge_tree e)) k = Some n \<longrightarrow> js_eq (jint (int n)) v))"

definition inventory_complete :: "gate_env \<Rightarrow> jstr \<Rightarrow> bool" where
  "inventory_complete e mapText = (\<forall>i\<in>set (required_entries e). str_includes mapText i)"

definition changes_documented :: "gate_env \<Rightarrow> bool" where
  "changes_documented e = ((\<exists>f\<in>set (changedFiles e). touches SOURCE_PATTERNS f) \<longrightarrow> (\<exists>f\<in>set (changedFiles e). touches DOC_PATTERNS f))"

text \<open>Every target is a readable file, and with \<open>--strict-refs\<close> what it refers to exists.\<close>

definition references_exist :: "gate_env \<Rightarrow> jstr \<Rightarrow> bool" where
  "references_exist e mapText = (\<forall>f\<in>set (referenceTargets e). \<exists>t. read_text e f = Some t
     \<and> (STRICT_REFS e \<longrightarrow> (\<forall>raw\<in>set (tick_spans t). checked_token (ignore_list mapText) (reference_token raw)
          \<longrightarrow> file_exists e (reference_token raw))))"

definition assertion_holds :: "gate_env \<Rightarrow> code_assertion \<Rightarrow> bool" where
  "assertion_holds e a = (file_exists e (as_file a) \<and> (\<exists>t. read_text e (split_on 47 (as_file a)) = Some t
     \<and> (\<forall>n\<in>set (as_mustContain a). \<exists>l\<in>set (crlf_lines t). line_hit n l)
     \<and> (\<forall>n\<in>set (as_mustNotContain a). \<not> (\<exists>l\<in>set (crlf_lines t). line_hit n l))
     \<and> (\<forall>(n, k)\<in>set (as_count a). length (filter (\<lambda>l. str_includes l n) (crlf_lines t)) = k)))"

definition documents_in_step :: "gate_env \<Rightarrow> code_assertion list \<Rightarrow> bool" where
  "documents_in_step e as = (\<exists>mapText. read_text e MAP_PATH = Some mapText \<and> metrics_agree e mapText \<and> inventory_complete e mapText
     \<and> changes_documented e \<and> references_exist e mapText \<and> (\<forall>a\<in>set as. assertion_holds e a))"

lemma metrics_checked: "gl_errors (checkMetrics e m) = [] \<longleftrightarrow> metrics_agree e m"
  by (fastforce simp: checkMetrics_def metrics_agree_def check_metric_def split: option.splits if_splits)

lemma inventory_checked: "gl_errors (checkInventory e m) = [] \<longleftrightarrow> inventory_complete e m"
  by (auto simp: checkInventory_def inventory_complete_def Let_def filter_empty_conv)

lemma changes_checked: "gl_errors (checkDocumentedCommit e) = [] \<longleftrightarrow> changes_documented e"
  by (auto simp: checkDocumentedCommit_def changes_documented_def Let_def filter_empty_conv)

lemma missing_references_iff:
  "(\<exists>ms. missing_references e ig fs = Some ms) \<longleftrightarrow> (\<forall>f\<in>set fs. \<exists>t. read_text e f = Some t)"
  by (induction fs) (auto split: option.splits)

lemma missing_references_none:
  "missing_references e ig fs = Some [] \<longleftrightarrow> (\<forall>f\<in>set fs. \<exists>t. read_text e f = Some t \<and> missing_in e ig f t = [])"
  by (induction fs) (auto split: option.splits)

lemma missing_in_none:
  "missing_in e ig f t = [] \<longleftrightarrow> (\<forall>raw\<in>set (tick_spans t). checked_token ig (reference_token raw) \<longrightarrow> file_exists e (reference_token raw))"
  by (auto simp: missing_in_def filter_empty_conv)

lemma references_checked:
  "(\<exists>l. checkReferences e m = Some l \<and> gl_errors l = []) \<longleftrightarrow> references_exist e m"
proof (cases "STRICT_REFS e")
  case True
  have "(\<exists>l. checkReferences e m = Some l \<and> gl_errors l = [])
      \<longleftrightarrow> missing_references e (ignore_list m) (referenceTargets e) = Some []"
    using True by (auto simp: checkReferences_def Let_def split: if_splits)
  then show ?thesis using True by (simp add: missing_references_none missing_in_none references_exist_def)
next
  case False
  have "(\<exists>l. checkReferences e m = Some l \<and> gl_errors l = [])
      \<longleftrightarrow> (\<exists>ms. missing_references e (ignore_list m) (referenceTargets e) = Some ms)"
    using False by (cases "missing_references e (ignore_list m) (referenceTargets e)") (auto simp: checkReferences_def Let_def)
  then show ?thesis using False by (simp add: missing_references_iff references_exist_def)
qed

lemma takeWhile_shorter: "length (takeWhile P xs) < length xs \<longleftrightarrow> (\<exists>x\<in>set xs. \<not> P x)"
  by (induction xs) auto

lemma hits_zero: "hits ls n = 0 \<longleftrightarrow> (\<forall>l\<in>set ls. \<not> line_hit n l)"
  by (simp add: hits_def Let_def takeWhile_shorter)

lemma assertion_checked:
  "gl_errors (check_assertion a t) = [] \<longleftrightarrow>
     (\<forall>n\<in>set (as_mustContain a). \<exists>l\<in>set (crlf_lines t). line_hit n l)
     \<and> (\<forall>n\<in>set (as_mustNotContain a). \<not> (\<exists>l\<in>set (crlf_lines t). line_hit n l))
     \<and> (\<forall>(n, k)\<in>set (as_count a). length (filter (\<lambda>l. str_includes l n) (crlf_lines t)) = k)"
  by (auto simp: check_assertion_def check_needle_def check_forbidden_def check_count_def Let_def hits_zero
      split: if_splits)

lemma assertion_holds_iff:
  "assertion_holds e a \<longleftrightarrow> file_exists e (as_file a) \<and> (\<exists>t. read_text e (split_on 47 (as_file a)) = Some t \<and> gl_errors (check_assertion a t) = [])"
  by (simp add: assertion_holds_def assertion_checked)

lemma check_assertions_iff:
  "(\<exists>ls. check_assertions e as = Some ([], ls) \<and> concat (map gl_errors ls) = []) \<longleftrightarrow> (\<forall>a\<in>set as. assertion_holds e a)"
proof (induction as)
  case (Cons a as)
  have "(\<exists>ls. check_assertions e (a # as) = Some ([], ls) \<and> concat (map gl_errors ls) = [])
      \<longleftrightarrow> assertion_holds e a \<and> (\<exists>ls. check_assertions e as = Some ([], ls) \<and> concat (map gl_errors ls) = [])"
    by (auto simp: assertion_holds_iff split: option.splits if_splits)
  then show ?case using Cons by simp
qed simp

lemma assertions_checked:
  "(\<exists>l. checkCodeAssertions e as = Some l \<and> gl_errors l = []) \<longleftrightarrow> (\<forall>a\<in>set as. assertion_holds e a)"
  unfolding check_assertions_iff [symmetric]
  by (auto simp: checkCodeAssertions_def split: if_splits)

text \<open>The gate exits with success exactly when it is switched off or the documents pass its checks.\<close>

lemma gate_passes_iff: "gate_main lower e as = 0 \<longleftrightarrow> DISABLED lower e \<or> documents_in_step e as"
proof -
  have "(case gate_checks e as m of Some l \<Rightarrow> if gl_errors l \<noteq> [] then 1 else 0 | None \<Rightarrow> 1) = (0::nat)
      \<longleftrightarrow> metrics_agree e m \<and> inventory_complete e m \<and> changes_documented e \<and> references_exist e m \<and> (\<forall>a\<in>set as. assertion_holds e a)" for m
    unfolding references_checked [symmetric] assertions_checked [symmetric] metrics_checked [symmetric]
      inventory_checked [symmetric] changes_checked [symmetric]
    by (auto simp: gate_checks_def split: option.splits)
  then show ?thesis by (auto simp: gate_main_def documents_in_step_def split: option.split)
qed

text \<open>The numbers are only compared when they are written down: a block without lines is accepted. And an entry
  counts as listed when its name is part of another.\<close>

lemma empty_block_accepted: "readMetricsBlock m = Some [] \<Longrightarrow> gl_errors (checkMetrics e m) = []"
  by (simp add: checkMetrics_def)

lemma readme_listed_by_other: "str_includes m (js ''docs/README.md'') \<Longrightarrow> str_includes m (js ''README.md'')"
proof -
  assume "str_includes m (js ''docs/README.md'')"
  then obtain a b where "m = (a @ js ''docs/'') @ js ''README.md'' @ b"
    by (auto simp: str_includes_sublist sublist_def js_def)
  then show ?thesis unfolding str_includes_sublist sublist_def by blast
qed

section \<open>What success means\<close>

text \<open>The lines and the text.\<close>

lemma sublist_trans2: "sublist a b \<Longrightarrow> sublist b c \<Longrightarrow> sublist a c"
  by (metis sublist_order.order_trans)

lemma split_on_sublist: "w \<in> set (split_on c s) \<Longrightarrow> sublist w s"
proof (induction s arbitrary: w)
  case (Cons d s)
  obtain x xs where sp: "split_on c s = x # xs" using split_on_ne by (cases "split_on c s") auto
  have pre: "prefix x s" using join_split_on [of c s] sp by (cases xs) (auto simp: prefix_def)
  show ?case
  proof (cases "d = c")
    case True
    then show ?thesis using Cons by (auto intro: sublist_trans2 [of _ s] simp: sublist_Cons_right)
  next
    case False
    with Cons.prems sp have "w = d # x \<or> w \<in> set xs" by auto
    then show ?thesis
    proof
      assume "w = d # x"
      with pre show ?thesis by (simp add: sublist_Cons_right)
    next
      assume "w \<in> set xs"
      then show ?thesis using Cons.IH [of w] sp by (simp add: sublist_Cons_right)
    qed
  qed
qed simp

lemma in_some_line: "c \<notin> set b \<Longrightarrow> \<exists>w\<in>set (split_on c (a @ b @ d)). sublist b w"
proof (induction a)
  case Nil
  have "\<exists>x xs. split_on c (b @ d) = (b @ x) # xs" using Nil
  proof (induction b)
    case Nil
    then show ?case using split_on_ne [of c d] by (cases "split_on c d") auto
  qed auto
  then show ?case by auto
next
  case (Cons x a)
  then obtain w where w: "w \<in> set (split_on c (a @ b @ d))" "sublist b w" by auto
  obtain y ys where sp: "split_on c (a @ b @ d) = y # ys" using split_on_ne by (cases "split_on c (a @ b @ d)") auto
  then show ?case using w by (auto simp: sublist_Cons_right)
qed

lemma crlf_line_cases:
  "l \<in> set (crlf_lines t) \<Longrightarrow> \<exists>w\<in>set (split_on 10 t). l = w \<or> w = l @ [13]"
proof -
  assume "l \<in> set (crlf_lines t)"
  then consider w where "w \<in> set (butlast (split_on 10 t))" "l = (if suffix [13] w then butlast w else w)" | "l = last (split_on 10 t)"
    by (auto simp: crlf_lines_def Let_def)
  then show ?thesis
  proof cases
    case 1
    then show ?thesis by (intro bexI [of _ w]) (auto simp: suffix_def dest: in_set_butlastD split: if_splits)
  qed auto
qed

lemma crlf_line_of:
  assumes "w \<in> set (split_on 10 t)"
  shows "\<exists>l\<in>set (crlf_lines t). l = w \<or> w = l @ [13]"
proof -
  have "split_on 10 t = butlast (split_on 10 t) @ [last (split_on 10 t)]" by simp
  then consider "w \<in> set (butlast (split_on 10 t))" | "w = last (split_on 10 t)" using assms by (metis Un_iff empty_iff insert_iff list.set(1,2) set_append)
  then show ?thesis
  proof cases
    case 1
    let ?l = "if suffix [13] w then butlast w else w"
    from 1 have "?l \<in> set (crlf_lines t)" by (simp add: crlf_lines_def Let_def)
    moreover have "?l = w \<or> w = ?l @ [13]" by (auto simp: suffix_def)
    ultimately show ?thesis by (rule bexI [rotated])
  qed (auto simp: crlf_lines_def Let_def)
qed

lemma line_sublist:
  assumes "l \<in> set (crlf_lines t)"
  shows "sublist l t"
proof -
  obtain w where w: "w \<in> set (split_on 10 t)" "l = w \<or> w = l @ [13]" using crlf_line_cases [OF assms] by blast
  from w(2) have "sublist l w" by (elim disjE) simp_all
  then show ?thesis using split_on_sublist [OF w(1)] by (rule sublist_trans2)
qed

lemma normalizeQuotes_breaks: "c \<in> {10, 13} \<Longrightarrow> c \<in> set (normalizeQuotes b) \<longleftrightarrow> c \<in> set b"
  by (auto simp: normalizeQuotes_def)

lemma line_hit_normal: "line_hit n l \<longleftrightarrow> sublist (normalizeQuotes n) (normalizeQuotes l)"
  by (auto simp: line_hit_def str_includes_sublist normalizeQuotes_def map_mono_sublist)

text \<open>A text without line breaks is in the file, up to the kind of quotes, exactly when a line is hit.\<close>

lemma hit_in_text:
  assumes "10 \<notin> set n" "13 \<notin> set n"
  shows "(\<exists>l\<in>set (crlf_lines t). line_hit n l) \<longleftrightarrow> sublist (normalizeQuotes n) (normalizeQuotes t)"
proof
  assume "\<exists>l\<in>set (crlf_lines t). line_hit n l"
  then obtain l where "l \<in> set (crlf_lines t)" "sublist (normalizeQuotes n) (normalizeQuotes l)" by (auto simp: line_hit_normal)
  moreover from this have "sublist (normalizeQuotes l) (normalizeQuotes t)"
    unfolding normalizeQuotes_def by (intro map_mono_sublist line_sublist)
  ultimately show "sublist (normalizeQuotes n) (normalizeQuotes t)" by (rule_tac sublist_trans2)
next
  assume "sublist (normalizeQuotes n) (normalizeQuotes t)"
  then obtain b where "sublist b t" and nb: "normalizeQuotes n = normalizeQuotes b"
    unfolding normalizeQuotes_def using sublist_map_rightE by blast
  then obtain a d where t: "t = a @ b @ d" by (auto simp: sublist_def)
  have b: "10 \<notin> set b" "13 \<notin> set b"
    using assms normalizeQuotes_breaks [of 10 b] normalizeQuotes_breaks [of 13 b] normalizeQuotes_breaks [of 10 n]
      normalizeQuotes_breaks [of 13 n] nb by auto
  obtain w where w: "w \<in> set (split_on 10 t)" "sublist b w" using in_some_line [OF b(1)] t by blast
  obtain l where l: "l \<in> set (crlf_lines t)" "l = w \<or> w = l @ [13]" using crlf_line_of [OF w(1)] by blast
  have "sublist b l" using w(2) l(2) b(2) by (auto simp: sublist_snoc suffix_snoc)
  then have "line_hit n l" unfolding line_hit_normal nb unfolding normalizeQuotes_def by (rule map_mono_sublist)
  with l(1) show "\<exists>l\<in>set (crlf_lines t). line_hit n l" by blast
qed

definition one_line :: "jstr \<Rightarrow> bool" where
  "one_line n = (10 \<notin> set n \<and> 13 \<notin> set n)"

definition begins_with :: "jstr list \<Rightarrow> jstr \<Rightarrow> bool" where
  "begins_with ps l = list_ex (\<lambda>p. prefix p (trim l)) ps"

lemma trim_cr: "trim (l @ [13]) = trim l"
  by (rule trim_space_end) (simp add: is_space_def)

lemma trim_lines: "trim ` set (crlf_lines t) = trim ` set (split_on 10 t)"
proof
  show "trim ` set (crlf_lines t) \<subseteq> trim ` set (split_on 10 t)"
  proof
    fix x assume "x \<in> trim ` set (crlf_lines t)"
    then obtain l where l: "l \<in> set (crlf_lines t)" "x = trim l" by blast
    obtain w where "w \<in> set (split_on 10 t)" "l = w \<or> w = l @ [13]" using crlf_line_cases [OF l(1)] by blast
    then show "x \<in> trim ` set (split_on 10 t)" unfolding l(2) by (metis imageI trim_cr)
  qed
  show "trim ` set (split_on 10 t) \<subseteq> trim ` set (crlf_lines t)"
  proof
    fix x assume "x \<in> trim ` set (split_on 10 t)"
    then obtain w where w: "w \<in> set (split_on 10 t)" "x = trim w" by blast
    obtain l where "l \<in> set (crlf_lines t)" "l = w \<or> w = l @ [13]" using crlf_line_of [OF w(1)] by blast
    then show "x \<in> trim ` set (crlf_lines t)" unfolding w(2) by (metis imageI trim_cr)
  qed
qed

lemma git_files: "ge_git e c = Some out \<Longrightarrow> set (the (runGit e c)) = trim ` set (split_on 10 out) - {[]}"
  unfolding trim_lines [symmetric] by (auto simp: runGit_def)

lemma pattern_not_empty: "[] \<notin> set SOURCE_PATTERNS" "[] \<notin> set DOC_PATTERNS"
  by (simp_all add: SOURCE_PATTERNS_def DOC_PATTERNS_def js_def)

lemma touches_begins: "[] \<notin> set ps \<Longrightarrow> touches ps (trim l) \<longleftrightarrow> begins_with ps l"
  by (auto simp: touches_def begins_with_def list_ex_iff)

lemma begins_not_empty: "[] \<notin> set ps \<Longrightarrow> begins_with ps l \<Longrightarrow> trim l \<noteq> []"
  by (auto simp: begins_with_def list_ex_iff)

lemma staged_documented:
  assumes "changes_documented e" "\<not> MODE_PUSH e" "ge_git e (js ''git diff --cached --name-only'') = Some out"
    and "l \<in> set (split_on 10 out)" "begins_with SOURCE_PATTERNS l"
  shows "\<exists>l'\<in>set (split_on 10 out). begins_with DOC_PATTERNS l'"
proof -
  have files: "set (changedFiles e) = trim ` set (split_on 10 out) - {[]}"
    using git_files [OF assms(3)] assms(2,3) by (auto simp: changedFiles_def runGit_def)
  have "touches SOURCE_PATTERNS (trim l)" "trim l \<in> set (changedFiles e)"
    using assms(4,5) begins_not_empty [OF pattern_not_empty(1) assms(5)]
    by (simp_all add: files touches_begins pattern_not_empty)
  then obtain f where "f \<in> set (changedFiles e)" "touches DOC_PATTERNS f" using assms(1) by (auto simp: changes_documented_def)
  then show ?thesis unfolding files by (auto simp: touches_begins pattern_not_empty)
qed

lemma docs_listed:
  assumes "inventory_complete e m" "find_node [js ''docs'', name] (ge_tree e) = Some n"
  shows "is_folder n \<Longrightarrow> sublist (js ''docs/'' @ name @ [47]) m" "\<not> is_folder n \<Longrightarrow> suffix (js ''.md'') name \<Longrightarrow> sublist (js ''docs/'' @ name) m"
proof -
  from assms(2) obtain d where d: "find_node [js ''docs''] (ge_tree e) = Some d" "map_of (node_entries d) name = Some n"
    by (auto split: option.splits)
  from map_of_SomeD [OF d(2)] have en: "(name, n) \<in> set (node_entries d)" .
  have entry: "x \<in> set (required_entries e)"
    if "x \<in> set (if is_folder n then [js ''docs/'' @ name @ [47]] else if suffix (js ''.md'') name then [js ''docs/'' @ name] else [])" for x
    unfolding required_entries_def set_append set_concat set_map d(1) option.case using that
    by (intro UnI2 UnionI [OF imageI [OF imageI [OF en]]]) (simp split: if_splits)
  show "is_folder n \<Longrightarrow> sublist (js ''docs/'' @ name @ [47]) m" "\<not> is_folder n \<Longrightarrow> suffix (js ''.md'') name \<Longrightarrow> sublist (js ''docs/'' @ name) m"
    using entry assms(1) by (auto simp: inventory_complete_def str_includes_sublist)
qed

definition sample_gate :: gate_env where
  "sample_gate = \<lparr> ge_tree = Folder
       [(js ''docs'', Folder [(js ''DOCUMENTATION_MAP.md'', Text_file (metrics_open @ [10] @ fence
           @ js ''README.md CHANGELOG.md CONTRIBUTING.md AGENTS.md DESIGN.md .agents/rules/ .agents/skills/ .agents/agents/ .agents/workflows/ docs/DOCUMENTATION_MAP.md''))]),
        (js ''AGENTS.md'', Text_file []),
        (js ''a.ts'', Text_file (js ''ok();''))],
     ge_outside = (\<lambda>p. False), ge_git = (\<lambda>c. Some []), ge_args = [], ge_CI = [], ge_gate = [] \<rparr>"

definition sample_assertions :: "code_assertion list" where
  "sample_assertions = [\<lparr> as_label = js ''A'', as_file = js ''a.ts'', as_mustContain = [js ''ok()''], as_mustNotContain = [js ''no''], as_count = [] \<rparr>]"

definition sample_map :: jstr where "sample_map = the (read_text sample_gate MAP_PATH)"

lemma sample_parts:
  "\<not> DISABLED (\<lambda>s. s) sample_gate" "\<not> STRICT_REFS sample_gate"
  "read_text sample_gate MAP_PATH = Some sample_map" "readMetricsBlock sample_map = Some []"
  "inventory_complete sample_gate sample_map" "changedFiles sample_gate = []"
  "referenceTargets sample_gate = [[js ''AGENTS.md'']]" "read_text sample_gate [js ''AGENTS.md''] = Some []"
  "file_exists sample_gate (js ''a.ts'')" "read_text sample_gate (split_on 47 (js ''a.ts'')) = Some (js ''ok();'')"
  by code_simp+

lemma sample_holds: "assertion_holds sample_gate a" if "a \<in> set sample_assertions"
proof -
  have a: "as_file a = js ''a.ts''" "as_mustContain a = [js ''ok()'']" "as_mustNotContain a = [js ''no'']" "as_count a = []"
    using that by (simp_all add: sample_assertions_def)
  have "list_ex (line_hit (js ''ok()'')) (crlf_lines (js ''ok();''))" "\<not> list_ex (line_hit (js ''no'')) (crlf_lines (js ''ok();''))"
    by code_simp+
  then show ?thesis using sample_parts(9) unfolding assertion_holds_def a sample_parts by (simp add: list_ex_iff)
qed

lemma sample_passes: "gate_main (\<lambda>s. s) sample_gate sample_assertions = 0"
  unfolding gate_passes_iff documents_in_step_def
  using sample_holds sample_parts(8) by (simp add: sample_parts metrics_agree_def changes_documented_def references_exist_def)

text \<open>C33. What a success of the gate promises of the files, when it is not switched off: the map can be read and names
  every folder and every \<open>.md\<close> file of \<open>docs\<close>; a staged change of a watched source, before a commit, comes with a
  staged change of a document; and every asserted file can be read, has each text of a line that is asserted of it and
  has none of those forbidden to it, up to the kind of quotes. It does not promise the numbers of the map (an empty block
  passes) nor, without \<open>--strict-refs\<close>, that references exist.\<close>

theorem gate_success_promises:
  assumes "gate_main lower e as = 0" and "\<not> DISABLED lower e"
  shows "\<exists>m. read_text e MAP_PATH = Some m
    \<and> (\<forall>name n. find_node [js ''docs'', name] (ge_tree e) = Some n \<longrightarrow>
         (if is_folder n then sublist (js ''docs/'' @ name @ [47]) m else suffix (js ''.md'') name \<longrightarrow> sublist (js ''docs/'' @ name) m))
    \<and> (\<forall>out l. \<not> MODE_PUSH e \<longrightarrow> ge_git e (js ''git diff --cached --name-only'') = Some out \<longrightarrow>
         l \<in> set (split_on 10 out) \<longrightarrow> begins_with SOURCE_PATTERNS l \<longrightarrow> list_ex (begins_with DOC_PATTERNS) (split_on 10 out))
    \<and> (\<forall>a\<in>set as. \<exists>t. read_text e (split_on 47 (as_file a)) = Some t
         \<and> (\<forall>n\<in>set (as_mustContain a). one_line n \<longrightarrow> sublist (normalizeQuotes n) (normalizeQuotes t))
         \<and> (\<forall>n\<in>set (as_mustNotContain a). one_line n \<longrightarrow> \<not> sublist (normalizeQuotes n) (normalizeQuotes t)))"
proof -
  have "documents_in_step e as" using assms gate_passes_iff by blast
  then obtain m where m: "read_text e MAP_PATH = Some m" "inventory_complete e m" "changes_documented e" "\<forall>a\<in>set as. assertion_holds e a"
    by (auto simp: documents_in_step_def)
  have a: "\<exists>t. read_text e (split_on 47 (as_file a)) = Some t
         \<and> (\<forall>n\<in>set (as_mustContain a). one_line n \<longrightarrow> sublist (normalizeQuotes n) (normalizeQuotes t))
         \<and> (\<forall>n\<in>set (as_mustNotContain a). one_line n \<longrightarrow> \<not> sublist (normalizeQuotes n) (normalizeQuotes t))" if "a \<in> set as" for a
    using m(4) that by (auto simp: assertion_holds_def one_line_def hit_in_text [symmetric])
  show ?thesis
    using m(1) docs_listed [OF m(2)] staged_documented [OF m(3)] a by (intro exI [of _ m]) (auto simp: list_ex_iff)
qed

theorem gate_success_promises_witness: "find_node [js ''docs'', js ''DOCUMENTATION_MAP.md''] (ge_tree sample_gate) \<noteq> None
    \<and> sublist (normalizeQuotes (js ''ok()'')) (normalizeQuotes (js ''ok();''))"
proof
  show "find_node [js ''docs'', js ''DOCUMENTATION_MAP.md''] (ge_tree sample_gate) \<noteq> None" by code_simp
  let ?a = "\<lparr> as_label = js ''A'', as_file = js ''a.ts'', as_mustContain = [js ''ok()''], as_mustNotContain = [js ''no''], as_count = [] \<rparr>"
  have "?a \<in> set sample_assertions" "one_line (js ''ok()'')" by code_simp+
  then show "sublist (normalizeQuotes (js ''ok()'')) (normalizeQuotes (js ''ok();''))"
    using gate_success_promises [OF sample_passes sample_parts(1)] sample_parts(10) by fastforce
qed

end
