(* ===== verification/Receipts.thy ===== *)
theory Receipts
  imports Money Machines Pages
begin

text \<open>
  What is printed of a sale: the content of the receipt on A4 and on a thermal roll
  (\<open>components/ReceiptTemplate.tsx\<close>), its code (\<open>components/QRCode.tsx\<close>) and the portal that prints it
  (\<open>components/PrintPortal.tsx\<close>). Elements are records of the texts they show; classes and styles are left out, but
  for the colour and the size of the paper. \<open>clock\<close> is the time of day of a moment as the locale writes it.
\<close>

section \<open>Texts\<close>

text \<open>\<open>formatCurrency(x, cur).replace(cur, '')\<close>: the first occurrence of the currency is left out.\<close>

fun remove_first :: "jstr \<Rightarrow> jstr \<Rightarrow> jstr" where
  "remove_first d [] = []"
| "remove_first d (c # s) = (if prefix d (c # s) then drop (length d) (c # s) else c # remove_first d s)"

definition bare_amount :: "jsnum \<Rightarrow> jstr \<Rightarrow> jstr" where
  "bare_amount x cur = remove_first cur (formatCurrency x cur)"

definition line_total :: "sale_item \<Rightarrow> jsnum" where
  "line_total p = num_or (l_total p) (js_round (l_price p * l_qty p))"

text \<open>A text that is shown when it is not empty.\<close>

definition shown_text :: "jstr \<Rightarrow> jstr option" where
  "shown_text t = (if t = [] then None else Some t)"

definition header_color :: "jstr \<Rightarrow> jstr" where
  "header_color color =
     (if color = [] \<or> color = js ''#000000'' \<or> color = js ''#000'' \<or> color = js ''#18181b'' \<or> color = js ''#0f172a'' \<or> color = js ''#111827''
      then js ''#059669'' else color)"

section \<open>A4\<close>

record receipt_row =
  rr_number :: jstr
  rr_name :: jstr
  rr_qty :: jstr
  rr_price :: jstr
  rr_total :: jstr

record receipt_installment =
  ri_number :: jstr
  ri_dueDate :: jstr
  ri_amount :: jstr
  ri_paid :: bool

record a4_info =
  ai_customer :: jstr
  ai_date :: jstr
  ai_payment :: jstr
  ai_code :: jstr

record a4_totals =
  at_plan :: "(jstr \<times> jstr \<times> jstr \<times> receipt_installment list) option"
  at_footer :: "jstr option"
  at_subtotal :: jstr
  at_discount :: "jstr option"
  at_total :: jstr

datatype a4_footer = A4_totals a4_totals | A4_continued nat nat

record a4_page =
  pg_color :: jstr
  pg_logo :: "jstr option"
  pg_storeName :: jstr
  pg_phone :: "jstr option"
  pg_id :: jstr
  pg_number :: "(nat \<times> nat) option"
  pg_info :: "a4_info option"
  pg_rows :: "receipt_row list"
  pg_footer :: a4_footer

definition ITEMS_PER_PAGE :: nat where
  "ITEMS_PER_PAGE = 18"

definition receipt_pages :: "'a list \<Rightarrow> nat" where
  "receipt_pages items = max 1 ((length items + (ITEMS_PER_PAGE - 1)) div ITEMS_PER_PAGE)"

definition a4_row :: "app_preferences \<Rightarrow> nat \<Rightarrow> sale_item \<Rightarrow> receipt_row" where
  "a4_row prefs k p = \<lparr> rr_number = show_nat (k + 1), rr_name = l_name p, rr_qty = num_to_string (l_qty p),
     rr_price = bare_amount (l_price p) (a_currency prefs), rr_total = bare_amount (line_total p) (a_currency prefs) \<rparr>"

definition a4_payment :: "payment_method \<Rightarrow> jstr" where
  "a4_payment m = (case m of Cash \<Rightarrow> [1606, 1602, 1583,
    1610] | Card \<Rightarrow> [1576, 1591, 1575, 1602, 1577] | _ \<Rightarrow> [1570, 1580, 1604])"

definition receipt_installment_of :: "jstr \<Rightarrow> installment \<Rightarrow> receipt_installment" where
  "receipt_installment_of cur i = \<lparr> ri_number = num_to_string (n_number i), ri_dueDate = n_dueDate i,
     ri_amount = formatCurrency (n_amount i) cur, ri_paid = (n_status i = js ''paid'') \<rparr>"

definition a4_totals_of :: "sale \<Rightarrow> app_preferences \<Rightarrow> a4_totals" where
  "a4_totals_of x prefs = (let cur = a_currency prefs in
     \<lparr> at_plan = map_option (\<lambda>p. (num_to_string (ip_months p), formatCurrency (ip_downPayment p) cur,
         formatCurrency (x_total x - ip_downPayment p) cur, map (receipt_installment_of cur) (ip_schedule p))) (x_installmentPlan x),
       at_footer = shown_text (a_receiptFooter prefs),
       at_subtotal = bare_amount (x_subtotal x) cur,
       at_discount = (if Fin 0 < x_discount x then Some (js ''- '' @ bare_amount (x_discount x) cur) else None),
       at_total = formatCurrency (x_total x) cur \<rparr>)"

definition a4_info_of :: "sale \<Rightarrow> a4_info" where
  "a4_info_of x = \<lparr> ai_customer = (if x_customer x = [] then [1593, 1605, 1610, 1604, 32,
    1593, 1575, 1605] else x_customer x), ai_date = x_date x,
     ai_payment = a4_payment (x_paymentMethod x), ai_code = js ''INV:'' @ x_id x @ js ''|T:'' @ num_to_string (x_total x) \<rparr>"

definition a4_page_of :: "sale \<Rightarrow> app_preferences \<Rightarrow> nat \<Rightarrow> nat \<Rightarrow> a4_page" where
  "a4_page_of x prefs n i =
     \<lparr> pg_color = header_color (a_accentColor prefs),
       pg_logo = (if i = 0 then Option.bind (a_storeLogo prefs) shown_text else None),
       pg_storeName = a_storeName prefs,
       pg_phone = (if i = 0 then shown_text (a_storePhone prefs) else None),
       pg_id = x_id x,
       pg_number = (if 1 < n then Some (i + 1, n) else None),
       pg_info = (if i = 0 then Some (a4_info_of x) else None),
       pg_rows = map (\<lambda>(p, k). a4_row prefs k p)
         (zip (window (i * ITEMS_PER_PAGE) ITEMS_PER_PAGE (x_items x)) [i * ITEMS_PER_PAGE..<(i + 1) * ITEMS_PER_PAGE]),
       pg_footer = (if i = n - 1 then A4_totals (a4_totals_of x prefs) else A4_continued (i + 2) n) \<rparr>"

definition a4_receipt :: "sale \<Rightarrow> app_preferences \<Rightarrow> a4_page list" where
  "a4_receipt x prefs = (let n = receipt_pages (x_items x) in map (a4_page_of x prefs n) [0..<n])"

section \<open>A roll\<close>

text \<open>\<open>a || b\<close> in front of \<open>&&\<close> is what is shown when it is false: the number 0 is, an absent value is not.\<close>

datatype discount_line = No_discount | Stray_number jstr | Discount_line jstr

record thermal_receipt =
  tr_paper :: jstr
  tr_width :: jstr
  tr_logo :: "jstr option"
  tr_storeName :: jstr
  tr_address :: "jstr option"
  tr_phone :: "jstr option"
  tr_id :: jstr
  tr_date :: jstr
  tr_customer :: "jstr option"
  tr_rows :: "receipt_row list"
  tr_subtotal :: jstr
  tr_discount :: discount_line
  tr_total :: jstr
  tr_payment :: jstr
  tr_plan :: "(jstr \<times> jstr \<times> receipt_installment list) option"
  tr_code :: jstr
  tr_footer :: "jstr option"

definition content_width :: "jstr \<Rightarrow> jstr" where
  "content_width paper =
     (if paper = js ''58mm'' then js ''50mm'' else if paper = js ''110mm'' then js ''100mm'' else js ''72mm'')"

definition thermal_payment :: "payment_method \<Rightarrow> jstr" where
  "thermal_payment m = (case m of Cash \<Rightarrow> [1606, 1602, 1583,
    1610] | Card \<Rightarrow> [1576, 1591, 1575, 1602, 1577] | Credit \<Rightarrow> [1570, 1580,
    1604]
     | Installment \<Rightarrow> [1571, 1602, 1587, 1575, 1591] | Split \<Rightarrow> [1605,
       1580, 1586, 1571])"

definition thermal_row :: "app_preferences \<Rightarrow> sale_item \<Rightarrow> receipt_row" where
  "thermal_row prefs p = \<lparr> rr_number = [], rr_name = l_name p, rr_qty = num_to_string (l_qty p),
     rr_price = bare_amount (l_price p) (a_currency prefs),
     rr_total = bare_amount (num_or (l_total p) (js_round (l_qty p * l_price p))) (a_currency prefs) \<rparr>"

definition thermal_discount :: "sale \<Rightarrow> jstr \<Rightarrow> discount_line" where
  "thermal_discount x cur =
     (if Fin 0 < x_discount x \<or> (case x_pointsRedeemed x of Some p \<Rightarrow> truthy p | None \<Rightarrow> False)
      then Discount_line (js ''- '' @ bare_amount (x_discount x + opt_num_or (x_pointsRedeemed x) (Fin 0)) cur)
      else (case x_pointsRedeemed x of None \<Rightarrow> No_discount | Some p \<Rightarrow> Stray_number (num_to_string p)))"

definition thermal_of :: "(int \<Rightarrow> jstr) \<Rightarrow> sale \<Rightarrow> app_preferences \<Rightarrow> thermal_receipt" where
  "thermal_of clock x prefs = (let cur = a_currency prefs; paper = (if a_thermalPaperSize prefs = [] then js ''80mm'' else a_thermalPaperSize prefs) in
     \<lparr> tr_paper = paper, tr_width = content_width paper,
       tr_logo = Option.bind (a_storeLogo prefs) shown_text, tr_storeName = a_storeName prefs,
       tr_address = shown_text (a_storeAddress prefs), tr_phone = shown_text (a_storePhone prefs),
       tr_id = x_id x, tr_date = x_date x @ js '' - '' @ clock (x_timestamp x),
       tr_customer = (if x_customer x = [] \<or> x_customer x = [1586, 1576, 1608, 1606, 32,
         1593, 1575, 1605] then None else Some (x_customer x)),
       tr_rows = map (thermal_row prefs) (x_items x),
       tr_subtotal = bare_amount (x_subtotal x) cur, tr_discount = thermal_discount x cur, tr_total = formatCurrency (x_total x) cur,
       tr_payment = thermal_payment (x_paymentMethod x),
       tr_plan = (case x_installmentPlan x of None \<Rightarrow> None
         | Some p \<Rightarrow> if ip_schedule p = [] then None
             else Some (num_to_string (ip_months p), formatCurrency (ip_downPayment p) cur, map (receipt_installment_of cur) (ip_schedule p))),
       tr_code = js ''INV:'' @ x_id x @ js ''|T:'' @ num_to_string (x_total x) @ js ''|D:'' @ x_date x,
       tr_footer = shown_text (a_receiptFooter prefs) \<rparr>)"

datatype receipt = No_receipt | A4_receipt "a4_page list" | Thermal_receipt thermal_receipt

definition ReceiptTemplate :: "(int \<Rightarrow> jstr) \<Rightarrow> sale option \<Rightarrow> app_preferences \<Rightarrow> bool \<Rightarrow> receipt" where
  "ReceiptTemplate clock x prefs a4 = (case x of None \<Rightarrow> No_receipt
     | Some s \<Rightarrow> if a4 then A4_receipt (a4_receipt s prefs) else Thermal_receipt (thermal_of clock s prefs))"

section \<open>Every item is printed\<close>

lemma receipt_pages_enough: "length items \<le> receipt_pages items * ITEMS_PER_PAGE"
  by (simp add: receipt_pages_def ITEMS_PER_PAGE_def)

lemma receipt_pages_pos [simp]: "0 < receipt_pages items"
  by (simp add: receipt_pages_def)

text \<open>No page but the first is empty.\<close>

lemma last_page_used:
  assumes "items \<noteq> []"
  shows "(receipt_pages items - 1) * ITEMS_PER_PAGE < length items"
proof -
  have "1 \<le> length items" using assms by (cases items) auto
  then show ?thesis by (simp add: receipt_pages_def ITEMS_PER_PAGE_def)
qed

lemma zip_upt_offset: "zip (window k n xs) [k..<k + n] = window k n (zip xs [0..<length xs])"
proof (rule nth_equalityI)
  show "length (zip (window k n xs) [k..<k + n]) = length (window k n (zip xs [0..<length xs]))"
    by (simp add: length_window)
next
  fix i
  assume "i < length (zip (window k n xs) [k..<k + n])"
  then have "k \<le> length xs" "i < n" "k + i < length xs" by (auto simp: length_window)
  then show "zip (window k n xs) [k..<k + n] ! i = window k n (zip xs [0..<length xs]) ! i"
    by (simp add: window_def)
qed

lemma a4_page_rows:
  "pg_rows (a4_page_of x prefs n i) = map (\<lambda>(p, k). a4_row prefs k p)
     (window (i * ITEMS_PER_PAGE) ITEMS_PER_PAGE (zip (x_items x) [0..<length (x_items x)]))"
  using zip_upt_offset [of "i * ITEMS_PER_PAGE" ITEMS_PER_PAGE "x_items x"] by (simp add: a4_page_of_def add.commute)

lemma a4_rows:
  "concat (map pg_rows (a4_receipt x prefs)) = map (\<lambda>(p, k). a4_row prefs k p) (zip (x_items x) [0..<length (x_items x)])"
proof -
  let ?n = "receipt_pages (x_items x)" and ?items = "zip (x_items x) [0..<length (x_items x)]"
  have "concat (map pg_rows (a4_receipt x prefs))
      = map (\<lambda>(p, k). a4_row prefs k p) (concat (map (\<lambda>i. window (i * ITEMS_PER_PAGE) ITEMS_PER_PAGE ?items) [0..<?n]))"
    by (simp add: a4_receipt_def Let_def a4_page_rows map_concat comp_def)
  then show ?thesis using receipt_pages_enough [of "x_items x"] by (simp add: concat_windows)
qed

text \<open>C34. The pages of an A4 receipt show every item of the sale once, in its order and numbered from one, at most
  eighteen on a page, and only the last of them shows the totals.\<close>

theorem a4_receipt_complete:
  "let pages = a4_receipt x prefs; n = receipt_pages (x_items x)
   in length pages = n
    \<and> concat (map pg_rows pages) = map (\<lambda>(p, k). a4_row prefs k p) (zip (x_items x) [0..<length (x_items x)])
    \<and> list_all (\<lambda>g. length (pg_rows g) \<le> 18) pages
    \<and> map pg_footer pages = map (\<lambda>i. A4_continued (i + 2) n) [0..<n - 1] @ [A4_totals (a4_totals_of x prefs)]"
proof -
  let ?n = "receipt_pages (x_items x)"
  have "[0..<?n] = [0..<?n - 1] @ [?n - 1]"
    using upt_Suc_append [of 0 "?n - 1"] by simp
  then have "map pg_footer (a4_receipt x prefs)
      = map (\<lambda>i. A4_continued (i + 2) ?n) [0..<?n - 1] @ [A4_totals (a4_totals_of x prefs)]"
    by (simp add: a4_receipt_def Let_def a4_page_of_def)
  moreover have "list_all (\<lambda>g. length (pg_rows g) \<le> 18) (a4_receipt x prefs)"
    by (simp add: a4_receipt_def Let_def list_all_iff a4_page_rows length_window ITEMS_PER_PAGE_def)
  ultimately show ?thesis using a4_rows [of x prefs] by (simp add: Let_def a4_receipt_def)
qed

text \<open>The roll shows the same items, numbers aside.\<close>

lemma thermal_rows_agree:
  assumes "\<And>p. p \<in> set (x_items x) \<Longrightarrow> truthy (l_total p)"
  shows "map (\<lambda>r. (rr_name r, rr_qty r, rr_price r, rr_total r)) (tr_rows (thermal_of clock x prefs))
    = map (\<lambda>r. (rr_name r, rr_qty r, rr_price r, rr_total r)) (concat (map pg_rows (a4_receipt x prefs)))"
  unfolding a4_rows
  by (intro nth_equalityI) (simp_all add: thermal_of_def Let_def thermal_row_def a4_row_def line_total_def num_or_def assms)

section \<open>What the two receipts do not tell alike\<close>

text \<open>On A4 a sale paid in parts or in instalments is told as one on credit.\<close>

lemma a4_payment_as_credit:
  "a4_payment Split = a4_payment Credit" "a4_payment Installment = a4_payment Credit"
  "thermal_payment Split \<noteq> thermal_payment Credit" "thermal_payment Installment \<noteq> thermal_payment Credit"
  by (simp_all add: a4_payment_def thermal_payment_def)

text \<open>The points that were redeemed are part of the discount of the roll alone; with no discount and no points redeemed
  the roll shows a lonely zero.\<close>

lemma points_not_on_a4: "a4_totals_of (x\<lparr>x_pointsRedeemed := p\<rparr>) prefs = a4_totals_of x prefs"
  by (simp add: a4_totals_of_def Let_def)

lemma stray_zero:
  assumes "x_discount x = Fin 0" "x_pointsRedeemed x = Some (Fin 0)"
  shows "tr_discount (thermal_of clock x prefs) = Stray_number (js ''0'')"
  using assms num_to_string_int [of 0] by (simp add: thermal_of_def Let_def thermal_discount_def truthy_def show_int_def js_def show_nat.simps [of 0])

text \<open>Neither shows the tax, so that with one the amounts shown do not add up to the total.\<close>

lemma tax_not_shown:
  "a4_receipt (x\<lparr>x_vat := v\<rparr>) prefs = a4_receipt x prefs" "thermal_of clock (x\<lparr>x_vat := v\<rparr>) prefs = thermal_of clock x prefs"
  by (simp_all add: a4_receipt_def a4_page_of_def [abs_def] a4_totals_of_def a4_info_of_def thermal_of_def thermal_discount_def Let_def)

section \<open>The code of a receipt\<close>

text \<open>\<open>encodeURIComponent\<close>: UTF-8 of the code points, escaped; a lone surrogate throws.\<close>

fun code_points :: "jstr \<Rightarrow> nat list option" where
  "code_points [] = Some []"
| "code_points (c # s) =
     (if c < 55296 \<or> 57343 < c then map_option (\<lambda>r. c # r) (code_points s)
      else if 56319 < c then None
      else (case s of d # t \<Rightarrow> if 56320 \<le> d \<and> d \<le> 57343
              then map_option (\<lambda>r. (65536 + (c - 55296) * 1024 + (d - 56320)) # r) (code_points t) else None
            | [] \<Rightarrow> None))"

definition utf8 :: "nat \<Rightarrow> nat list" where
  "utf8 p = (if p < 128 then [p] else if p < 2048 then [192 + p div 64, 128 + p mod 64]
     else if p < 65536 then [224 + p div 4096, 128 + p div 64 mod 64, 128 + p mod 64]
     else [240 + p div 262144, 128 + p div 4096 mod 64, 128 + p div 64 mod 64, 128 + p mod 64])"

definition url_hex :: "nat \<Rightarrow> nat" where
  "url_hex d = (if d < 10 then 48 + d else 55 + d)"

definition unreserved :: "nat \<Rightarrow> bool" where
  "unreserved c = (48 \<le> c \<and> c \<le> 57 \<or> 65 \<le> c \<and> c \<le> 90 \<or> 97 \<le> c \<and> c \<le> 122 \<or> c \<in> {33, 39, 40, 41, 42, 45, 46, 95, 126})"

definition encodeURIComponent :: "jstr \<Rightarrow> jstr option" where
  "encodeURIComponent s = map_option (\<lambda>ps. concat (map (\<lambda>p. if unreserved p then [p]
     else concat (map (\<lambda>b. [37, url_hex (b div 16), url_hex (b mod 16)]) (utf8 p))) ps)) (code_points s)"

record code_view =
  qr_data :: jstr
  qr_src :: jstr
  qr_loading :: bool

datatype code_request = Generate_code jstr nat

type_synonym code_world = "(code_view, code_request) page_world"

definition generateQR :: "nat \<Rightarrow> code_world \<Rightarrow> code_world" where
  "generateQR sz W = (if qr_data (pw_page W) = [] then W
     else asks (Generate_code (qr_data (pw_page W)) sz) (turns (\<lambda>p. p\<lparr>qr_loading := True\<rparr>) W))"

definition qr_mount :: "jstr \<Rightarrow> nat \<Rightarrow> code_world" where
  "qr_mount d sz = generateQR sz (fresh_page \<lparr> qr_data = d, qr_src = [], qr_loading = True \<rparr>)"

definition fallback_src :: "jstr \<Rightarrow> nat \<Rightarrow> jstr option" where
  "fallback_src d sz = map_option (\<lambda>e. js ''https://api.qrserver.com/v1/create-qr-code/?size='' @ show_nat sz @ js ''x'' @ show_nat sz
     @ js ''&data='' @ e) (encodeURIComponent d)"

definition code_generated :: "code_request \<Rightarrow> jstr option \<Rightarrow> code_view \<Rightarrow> code_view" where
  "code_generated r a p = (case r of Generate_code d sz \<Rightarrow>
     (case a of
        Some base64 \<Rightarrow> p\<lparr> qr_src := js ''data:image/png;base64,'' @ base64, qr_loading := False \<rparr>
      | None \<Rightarrow> (case fallback_src d sz of Some u \<Rightarrow> p\<lparr> qr_src := u, qr_loading := False \<rparr> | None \<Rightarrow> p\<lparr>qr_loading := False\<rparr>)))"

datatype code_event = New_data jstr | Code_answered nat "jstr option"

definition qr_step :: "nat \<Rightarrow> code_world \<Rightarrow> code_event \<Rightarrow> code_world" where
  "qr_step sz W e = (case e of
     New_data d \<Rightarrow> (if d = qr_data (pw_page W) then W else generateQR sz (turns (\<lambda>p. p\<lparr>qr_data := d\<rparr>) W))
   | Code_answered k a \<Rightarrow> answers k (\<lambda>r. turns (code_generated r a)) W)"

text \<open>When the backend makes no code the number and the total of the sale are sent to a service on the network.\<close>

lemma total_sent_abroad:
  assumes "d \<noteq> []" "encodeURIComponent d = Some e"
  shows "qr_src (pw_page (run (qr_step sz) (qr_mount d sz) [Code_answered 0 None]))
    = js ''https://api.qrserver.com/v1/create-qr-code/?size='' @ show_nat sz @ js ''x'' @ show_nat sz @ js ''&data='' @ e"
  using assms by (simp add: qr_mount_def generateQR_def qr_step_def answers_def code_generated_def fallback_src_def)

text \<open>The answers are not matched with the data: the one that comes last is shown.\<close>

lemma older_code_shown:
  assumes "d \<noteq> []" "d' \<noteq> []" "d \<noteq> d'"
  shows "qr_src (pw_page (run (qr_step sz) (qr_mount d sz) [New_data d', Code_answered 1 (Some b'), Code_answered 0 (Some b)]))
    = js ''data:image/png;base64,'' @ b"
  using assms by (simp add: qr_mount_def generateQR_def qr_step_def answers_def code_generated_def)

section \<open>Printing\<close>

text \<open>A run of \<open>processPrint\<close>: it captures, shows its container until it is cleaned up, and has timers.\<close>

datatype job_phase = Job_capturing | Job_shown | Job_ended

record print_job =
  jb_phase :: job_phase
  jb_printDue :: bool
  jb_fallbackDue :: bool

datatype portal_phase = Phase_render | Phase_capture | Phase_done

datatype portal_call = Window_print nat | After_print nat

record portal =
  po_phase :: portal_phase
  po_jobs :: "print_job list"
  po_calls :: "portal_call list"

definition portal_start :: portal where
  "portal_start = \<lparr> po_phase = Phase_render, po_jobs = [], po_calls = [] \<rparr>"

definition fresh_job :: print_job where
  "fresh_job = \<lparr> jb_phase = Job_capturing, jb_printDue = False, jb_fallbackDue = False \<rparr>"

definition processPrint :: "portal \<Rightarrow> portal" where
  "processPrint s = s\<lparr>po_jobs := po_jobs s @ [fresh_job]\<rparr>"

definition end_job :: "nat \<Rightarrow> portal \<Rightarrow> portal" where
  "end_job k s = s\<lparr> po_jobs := (po_jobs s)[k := (po_jobs s ! k)\<lparr>jb_phase := Job_ended\<rparr>], po_phase := Phase_done,
     po_calls := po_calls s @ [After_print k] \<rparr>"

definition cleanup :: "nat \<Rightarrow> portal \<Rightarrow> portal" where
  "cleanup k s = (if jb_phase (po_jobs s ! k) = Job_shown then end_job k s else s)"

datatype portal_event =
    Fonts_settled
  | New_callback
  | Captured nat bool
  | Print_due nat
  | Fallback_due nat
  | Afterprint

definition portal_step :: "portal \<Rightarrow> portal_event \<Rightarrow> portal" where
  "portal_step s e = (case e of
     Fonts_settled \<Rightarrow> (if po_phase s = Phase_render then processPrint (s\<lparr>po_phase := Phase_capture\<rparr>) else s)
   | New_callback \<Rightarrow> (if po_phase s = Phase_capture then processPrint s else s)
   | Captured k ok \<Rightarrow>
       (if k < length (po_jobs s) \<and> jb_phase (po_jobs s ! k) = Job_capturing
        then if ok then s\<lparr>po_jobs := (po_jobs s)[k := \<lparr> jb_phase = Job_shown, jb_printDue = True, jb_fallbackDue = False \<rparr>]\<rparr>
             else end_job k s
        else s)
   | Print_due k \<Rightarrow>
       (if k < length (po_jobs s) \<and> jb_printDue (po_jobs s ! k)
        then s\<lparr> po_jobs := (po_jobs s)[k := (po_jobs s ! k)\<lparr> jb_printDue := False, jb_fallbackDue := True \<rparr>],
          po_calls := po_calls s @ [Window_print k] \<rparr>
        else s)
   | Fallback_due k \<Rightarrow>
       (if k < length (po_jobs s) \<and> jb_fallbackDue (po_jobs s ! k)
        then cleanup k (s\<lparr>po_jobs := (po_jobs s)[k := (po_jobs s ! k)\<lparr>jb_fallbackDue := False\<rparr>]\<rparr>) else s)
   | Afterprint \<Rightarrow> foldl (\<lambda>s k. cleanup k s) s [0..<length (po_jobs s)])"

definition portal_inv :: "portal \<Rightarrow> bool" where
  "portal_inv s = (\<forall>k. count_list (po_calls s) (After_print k) = of_bool (k < length (po_jobs s) \<and> jb_phase (po_jobs s ! k) = Job_ended))"

lemma portal_inv_end: "portal_inv s \<Longrightarrow> k < length (po_jobs s) \<Longrightarrow> jb_phase (po_jobs s ! k) \<noteq> Job_ended \<Longrightarrow> portal_inv (end_job k s)"
  by (auto simp: portal_inv_def end_job_def nth_list_update)

lemma portal_inv_cleanup: "portal_inv s \<Longrightarrow> k < length (po_jobs s) \<Longrightarrow> portal_inv (cleanup k s)"
  by (simp add: cleanup_def portal_inv_end)

lemma cleanup_length [simp]: "length (po_jobs (cleanup k s)) = length (po_jobs s)"
  by (simp add: cleanup_def end_job_def)

lemma portal_inv_cleanups:
  "portal_inv s \<Longrightarrow> \<forall>k\<in>set ks. k < length (po_jobs s) \<Longrightarrow> portal_inv (foldl (\<lambda>s k. cleanup k s) s ks)"
  by (induction ks arbitrary: s) (simp_all add: portal_inv_cleanup)

text \<open>A job that neither begins nor ends.\<close>

lemma portal_inv_job:
  assumes "portal_inv s" "k < length (po_jobs s)"
    and "(jb_phase j = Job_ended) = (jb_phase (po_jobs s ! k) = Job_ended)" "\<And>i. After_print i \<notin> set cs"
  shows "portal_inv (s\<lparr> po_jobs := (po_jobs s)[k := j], po_calls := po_calls s @ cs \<rparr>)"
  using assms by (auto simp: portal_inv_def nth_list_update count_list_0_iff)

lemma portal_inv_process: "portal_inv s \<Longrightarrow> portal_inv (processPrint (s\<lparr>po_phase := f\<rparr>))"
  by (auto simp: portal_inv_def processPrint_def fresh_job_def nth_append less_Suc_eq)

interpretation portal: machine portal_step portal_inv "\<lambda>_. True"
proof
  fix s e
  assume inv: "portal_inv s"
  show "portal_inv (portal_step s e)"
  proof (cases e)
    case Fonts_settled
    then show ?thesis using inv portal_inv_process by (simp add: portal_step_def)
  next
    case New_callback
    then show ?thesis using inv portal_inv_process [of s "po_phase s"] by (simp add: portal_step_def)
  next
    case (Captured k ok)
    then show ?thesis using inv portal_inv_end [of s k] portal_inv_job [of s k _ "[]"] by (simp add: portal_step_def)
  next
    case (Print_due k)
    then show ?thesis using inv portal_inv_job [of s k _ "[Window_print k]"] by (simp add: portal_step_def)
  next
    case (Fallback_due k)
    then show ?thesis using inv portal_inv_cleanup portal_inv_job [of s k _ "[]"] by (simp add: portal_step_def)
  next
    case Afterprint
    then show ?thesis using inv portal_inv_cleanups [of s "[0..<length (po_jobs s)]"] by (simp add: portal_step_def)
  qed
qed

text \<open>C35. In every run of the portal each print calls back once when it has ended, by the event, its fallback or an error,
  and not before.\<close>

theorem portal_calls_back_once:
  "let s = run portal_step portal_start es
   in count_list (po_calls s) (After_print k) = of_bool (k < length (po_jobs s) \<and> jb_phase (po_jobs s ! k) = Job_ended)"
  using portal.run_inv [of portal_start es] by (simp add: portal_inv_def portal_start_def Let_def)

text \<open>But a new callback, which the page of invoices hands over with every render, starts another print while the first
  one captures.\<close>

lemma printed_twice:
  "po_calls (run portal_step portal_start [Fonts_settled, New_callback, Captured 0 True, Captured 1 True, Print_due 0, Print_due 1, Afterprint])
    = [Window_print 0, Window_print 1, After_print 0, After_print 1]"
  by (simp add: portal_step_def portal_start_def processPrint_def fresh_job_def cleanup_def end_job_def)

end
