(* ===== verification/AdminConsole.thy ===== *)
theory AdminConsole
  imports Pages
begin

text \<open>
  The frame of the administrators' dashboard (\<open>admin-dashboard/src\<close>): who is let in (\<open>App.tsx\<close>, \<open>pages/Login.tsx\<close>), the
  log of their actions (\<open>pages/AuditLogs.tsx\<close>), the keys of the language models (\<open>pages/Settings.tsx\<close>) and the details of
  an account (\<open>components/modals/DetailsModal.tsx\<close>). The database is asked like a backend; a failure is its message.
  The sign that something loads, which all pages share, is a part of each page here.
\<close>

section \<open>Who is let in\<close>

type_synonym admin_session = "jstr \<times> jstr"

record console =
  cs_session :: "admin_session option"
  cs_isAdmin :: bool
  cs_loadingAuth :: bool
  cs_dark :: bool

datatype console_request =
    Get_session
  | Check_admin jstr
  | Sign_out
  | Insert_log jstr jstr jstr jstr

type_synonym console_world = "(console, console_request) page_world"

definition console_mount :: console_world where
  "console_mount = asks Get_session (fresh_page \<lparr> cs_session = None, cs_isAdmin = False, cs_loadingAuth = True, cs_dark = True \<rparr>)"

definition handleSession :: "admin_session option \<Rightarrow> console_world \<Rightarrow> console_world" where
  "handleSession s W = (case s of
     Some u \<Rightarrow> asks (Check_admin (fst u)) (turns (\<lambda>p. p\<lparr> cs_session := s, cs_loadingAuth := True \<rparr>) W)
   | None \<Rightarrow> turns (\<lambda>p. p\<lparr> cs_session := None, cs_isAdmin := False, cs_loadingAuth := False \<rparr>) W)"

definition message_else :: "jstr \<Rightarrow> jstr \<Rightarrow> jstr" where
  "message_else m d = (if m = [] then d else m)"

text \<open>The answer: whether there is a row and no error, or what was thrown.\<close>

definition admin_checked :: "bool + jstr \<Rightarrow> console_world \<Rightarrow> console_world" where
  "admin_checked a W = turns (\<lambda>p. p\<lparr>cs_loadingAuth := False\<rparr>)
     (if a = Inl True then turns (\<lambda>p. p\<lparr>cs_isAdmin := True\<rparr>) W
      else asks Sign_out (turns (\<lambda>p. p\<lparr>cs_isAdmin := False\<rparr>) (tells [Says (case a of
          Inl b \<Rightarrow> [1571, 1606, 1578, 32, 1604, 1575, 32, 1578, 1605, 1604, 1603, 32,
            1589, 1604, 1575, 1581, 1610,
  1575, 1578, 32, 1605, 1587, 1572, 1608, 1604, 32, 1575, 1604, 1606, 1592, 1575, 1605, 32, 1601,
  1610, 32, 66, 101, 105, 100, 97, 114, 46]
        | Inr m \<Rightarrow> message_else m [1575, 1604, 1583, 1582, 1608, 1604, 32, 1605, 1585,
          1601, 1608, 1590, 58, 32, 1604, 1587, 1578,
  32, 1605, 1587, 1572, 1608, 1604, 1575, 1611, 46]) T_error] W)))"

definition console_logAdminAction :: "jstr \<Rightarrow> jstr \<Rightarrow> jstr \<Rightarrow> console_world \<Rightarrow> console_world" where
  "console_logAdminAction action target details W = (case cs_session (pw_page W) of
     Some u \<Rightarrow> if snd u = [] then W else asks (Insert_log (snd u) action target details) W
   | None \<Rightarrow> W)"

datatype console_view = Console_spinner | Console_login | Console_pages

definition console_view :: "console \<Rightarrow> console_view" where
  "console_view p = (if cs_loadingAuth p then Console_spinner
     else if cs_session p = None \<or> \<not> cs_isAdmin p then Console_login else Console_pages)"

datatype console_answer = Session_answer "admin_session option" | Admin_answer "bool + jstr" | Console_done

definition console_answered :: "console_answer \<Rightarrow> console_request \<Rightarrow> console_world \<Rightarrow> console_world" where
  "console_answered a r W = (case (r, a) of
     (Get_session, Session_answer s) \<Rightarrow> handleSession s W
   | (Check_admin u, Admin_answer x) \<Rightarrow> admin_checked x W
   | _ \<Rightarrow> W)"

datatype console_event =
    Auth_changed "admin_session option"
  | Logout_click
  | Theme_click
  | Console_answered nat console_answer

definition console_step :: "console_world \<Rightarrow> console_event \<Rightarrow> console_world" where
  "console_step W e = (case e of
     Auth_changed s \<Rightarrow> handleSession s W
   | Logout_click \<Rightarrow> (if console_view (pw_page W) = Console_pages then asks Sign_out W else W)
   | Theme_click \<Rightarrow> (if console_view (pw_page W) = Console_pages then turns (\<lambda>p. p\<lparr>cs_dark := \<not> cs_dark p\<rparr>) W else W)
   | Console_answered k a \<Rightarrow> answers k (console_answered a) W)"

text \<open>Nobody is let in whom no check has found among the administrators.\<close>

definition unproved :: "console_event \<Rightarrow> bool" where
  "unproved e = (case e of Console_answered k a \<Rightarrow> a \<noteq> Admin_answer (Inl True) | _ \<Rightarrow> True)"

lemma unproved_answered:
  "\<not> cs_isAdmin (pw_page W) \<Longrightarrow> a \<noteq> Admin_answer (Inl True) \<Longrightarrow> \<not> cs_isAdmin (pw_page (console_answered a r W))"
  by (cases r; cases a) (auto simp: console_answered_def handleSession_def admin_checked_def split: option.split sum.split)

interpretation console: machine console_step "\<lambda>W :: console_world. \<not> cs_isAdmin (pw_page W)" unproved
proof
  fix W :: console_world and e
  assume "\<not> cs_isAdmin (pw_page W)" "unproved e"
  then show "\<not> cs_isAdmin (pw_page (console_step W e))"
    by (cases e) (auto simp: console_step_def unproved_def handleSession_def answers_def unproved_answered split: option.split)
qed

lemma let_in_by_check:
  assumes "\<forall>e\<in>set es. unproved e"
  shows "console_view (pw_page (run console_step console_mount es)) \<noteq> Console_pages"
  using console.run_inv [of console_mount es] assms by (simp add: console_mount_def console_view_def)

text \<open>But the answer is not matched with the account: the late answer for an administrator who has left lets in the one who
  came after.\<close>

lemma let_in_by_other:
  "let p = pw_page (run console_step console_mount
      [Console_answered 0 (Session_answer (Some (js ''boss'', m))), Auth_changed None, Auth_changed (Some (js ''clerk'', m')),
       Console_answered 0 (Admin_answer (Inl True))])
   in console_view p = Console_pages \<and> cs_session p = Some (js ''clerk'', m')"
  by (simp add: console_mount_def console_step_def answers_def console_answered_def handleSession_def admin_checked_def console_view_def)

section \<open>Their login\<close>

record console_login =
  lg_email :: jstr
  lg_password :: jstr
  lg_error :: jstr
  lg_busy :: bool

datatype console_login_request = Sign_in jstr jstr

definition console_handleLogin :: "(console_login, console_login_request) page_world \<Rightarrow> (console_login, console_login_request) page_world" where
  "console_handleLogin W =
     (let p = pw_page W
      in if lg_email p = [] \<or> lg_password p = []
         then turns (\<lambda>p. p\<lparr>lg_error := [1610, 1585, 1580, 1609, 32, 1603, 1578,
           1575, 1576, 1577, 32, 1575, 1604, 1576, 1585, 1610,
  1583, 32, 1575, 1604, 1573, 1604, 1603, 1578, 1585, 1608, 1606, 1610, 32, 1608, 1603, 1604,
  1605, 1577, 32, 1575, 1604, 1605, 1585, 1608, 1585, 46]\<rparr>) W
         else asks (Sign_in (lg_email p) (lg_password p)) (turns (\<lambda>p. p\<lparr> lg_busy := True, lg_error := [] \<rparr>) W))"

text \<open>After a success the login is replaced when the session changes.\<close>

definition signed_in :: "jstr option \<Rightarrow> console_login \<Rightarrow> console_login" where
  "signed_in err p = (case err of None \<Rightarrow> p | Some m \<Rightarrow> p\<lparr> lg_error := message_else m [1601, 1588, 1604, 32, 1578, 1587, 1580, 1610, 1604, 32, 1575, 1604, 1583, 1582, 1608, 1604, 46], lg_busy := False \<rparr>)"

section \<open>The log\<close>

record audit_entry =
  ae_admin :: jstr
  ae_action :: jstr
  ae_license :: jstr
  ae_details :: jstr
  ae_created :: jstr

record audit_page =
  ap_logs :: "audit_entry list"
  ap_loading :: bool
  ap_global :: bool

text \<open>The newest hundred are asked for.\<close>

datatype audit_request = Fetch_logs nat

definition fetchLogs :: "(audit_page, audit_request) page_world \<Rightarrow> (audit_page, audit_request) page_world" where
  "fetchLogs W = asks (Fetch_logs 100) (turns (\<lambda>p. p\<lparr> ap_loading := True, ap_global := True \<rparr>) W)"

definition logs_fetched :: "audit_entry list + jstr \<Rightarrow> (audit_page, audit_request) page_world \<Rightarrow> (audit_page, audit_request) page_world" where
  "logs_fetched a W = turns (\<lambda>p. p\<lparr> ap_loading := False, ap_global := False \<rparr>) (case a of
     Inl ls \<Rightarrow> turns (\<lambda>p. p\<lparr>ap_logs := ls\<rparr>) W
   | Inr m \<Rightarrow> tells [Says ([1582, 1591, 1571, 32, 1601, 1610, 32, 1578, 1581, 1605,
     1610, 1604, 32, 1575, 1604, 1587, 1580,
  1604, 1575, 1578, 58, 32] @ m) T_error] W)"

section \<open>The keys of the models\<close>

datatype key_status = Key_checking | Key_active | Key_error

datatype key_provider = Gemini | Groq

record keys_page =
  ak_gemini :: "jstr list"
  ak_newKey :: jstr
  ak_groq :: "jstr list"
  ak_newGroqKey :: jstr
  ak_statuses :: "(jstr \<times> key_status) list"
  ak_global :: bool
  ak_clipboard :: "jstr option"

definition maskKey :: "jstr \<Rightarrow> jstr" where
  "maskKey key = (if length key \<le> 12 then key else take 8 key @ js ''...'' @ drop (length key - 6) key)"

text \<open>What is stored: an object with two lists, one list as it was once, or anything else.\<close>

datatype stored_keys = Keys_object "jstr list option" "jstr list option" | Keys_array "jstr list" | Keys_other

datatype keys_request =
    Fetch_keys
  | Fetch_row "jstr list" "jstr list"
  | Update_keys "jstr list" "jstr list"
  | Insert_keys "jstr list" "jstr list"
  | Log_keys "jstr list" "jstr list" jstr
  | Try_key jstr key_provider

type_synonym keys_world = "(keys_page, keys_request) page_world"

definition fetchAIKeys :: "keys_world \<Rightarrow> keys_world" where
  "fetchAIKeys W = asks Fetch_keys (turns (\<lambda>p. p\<lparr>ak_global := True\<rparr>) W)"

definition keys_mount :: keys_world where
  "keys_mount = fetchAIKeys (fresh_page \<lparr> ak_gemini = [], ak_newKey = [], ak_groq = [], ak_newGroqKey = [], ak_statuses = [],
     ak_global = False, ak_clipboard = None \<rparr>)"

definition keys_fetched :: "stored_keys + jstr \<Rightarrow> keys_world \<Rightarrow> keys_world" where
  "keys_fetched a W = turns (\<lambda>p. p\<lparr>ak_global := False\<rparr>) (case a of
     Inr m \<Rightarrow> tells [Says ([1582, 1591, 1571, 32, 1601, 1610, 32, 1578, 1581, 1605,
       1610, 1604, 32, 1605, 1601, 1575, 1578,
  1610, 1581, 32, 1575, 1604, 1584, 1603, 1575, 1569, 32, 1575, 1604, 1575, 1589, 1591, 1606,
  1575, 1593, 1610, 58, 32] @ m) T_error] W
   | Inl (Keys_object g q) \<Rightarrow> turns (\<lambda>p. p\<lparr> ak_gemini := opt_default [] g, ak_groq := opt_default [] q \<rparr>) W
   | Inl (Keys_array g) \<Rightarrow> turns (\<lambda>p. p\<lparr> ak_gemini := g, ak_groq := [] \<rparr>) W
   | Inl Keys_other \<Rightarrow> turns (\<lambda>p. p\<lparr> ak_gemini := [], ak_groq := [] \<rparr>) W)"

definition saveAIKeys :: "jstr list \<Rightarrow> jstr list \<Rightarrow> keys_world \<Rightarrow> keys_world" where
  "saveAIKeys g q W = asks (Fetch_row g q) (turns (\<lambda>p. p\<lparr>ak_global := True\<rparr>) W)"

definition keys_failed :: "jstr \<Rightarrow> keys_world \<Rightarrow> keys_world" where
  "keys_failed m W = turns (\<lambda>p. p\<lparr>ak_global := False\<rparr>) (tells [Says ([1601,
    1588, 1604, 32, 1578, 1593, 1583, 1610, 1604, 32, 1575, 1604, 1605, 1601, 1575, 1578,
  1610, 1581, 58, 32] @ m) T_error] W)"

definition row_fetched :: "jstr list \<Rightarrow> jstr list \<Rightarrow> bool + jstr \<Rightarrow> keys_world \<Rightarrow> keys_world" where
  "row_fetched g q a W = (case a of
     Inr m \<Rightarrow> keys_failed m W
   | Inl present \<Rightarrow> asks (if present then Update_keys g q else Insert_keys g q) W)"

definition keys_written :: "jstr list \<Rightarrow> jstr list \<Rightarrow> jstr option \<Rightarrow> keys_world \<Rightarrow> keys_world" where
  "keys_written g q err W = (case err of
     Some m \<Rightarrow> keys_failed m W
   | None \<Rightarrow> asks (Log_keys g q ([1578, 1605, 32, 1578, 1593, 1583, 1610, 1604, 32,
     1605, 1601, 1575, 1578, 1610, 1581, 32, 1575,
  1604, 1584, 1603, 1575, 1569, 32, 1575, 1604, 1575, 1589, 1591, 1606, 1575, 1593, 1610, 32, 40,
  71, 101, 109, 105, 110, 105, 58, 32] @ show_nat (length g) @ [1548, 32, 71, 114, 111, 113, 58,
    32] @ show_nat (length q) @ js '')'')) W)"

definition keys_logged :: "jstr list \<Rightarrow> jstr list \<Rightarrow> keys_world \<Rightarrow> keys_world" where
  "keys_logged g q W = turns (\<lambda>p. p\<lparr> ak_gemini := g, ak_groq := q, ak_global := False \<rparr>)
     (tells [Says [1578, 1605, 32, 1581, 1601, 1592, 32, 1575, 1604, 1605, 1601, 1575, 1578,
       1610, 1581, 32, 1601,
  1610, 32, 1575, 1604, 1587, 1581, 1575, 1576, 1577, 32, 1576, 1606, 1580, 1575,
    1581] T_success] W)"

definition set_status :: "jstr \<Rightarrow> key_status \<Rightarrow> keys_page \<Rightarrow> keys_page" where
  "set_status key s p = p\<lparr>ak_statuses := obj_put key s (ak_statuses p)\<rparr>"

definition checkKeyHealth :: "jstr \<Rightarrow> key_provider \<Rightarrow> keys_world \<Rightarrow> keys_world" where
  "checkKeyHealth key v W = asks (Try_key key v) (turns (set_status key Key_checking) W)"

text \<open>Where a key is tried, and the header that is sent.\<close>

definition key_request :: "jstr \<Rightarrow> key_provider \<Rightarrow> jstr \<times> jstr option" where
  "key_request key v = (case v of
     Gemini \<Rightarrow> (js ''https://generativelanguage.googleapis.com/v1beta/models?key='' @ key, None)
   | Groq \<Rightarrow> (js ''https://api.groq.com/openai/v1/models'', Some (js ''Bearer '' @ key)))"

text \<open>The status of the answer, or \<open>None\<close> when there is none.\<close>

definition key_tried :: "jstr \<Rightarrow> nat option \<Rightarrow> keys_world \<Rightarrow> keys_world" where
  "key_tried key a W = (case a of
     Some st \<Rightarrow> if st = 200
       then tells [Says [1605, 1601, 1578, 1575, 1581, 32, 1575, 1604, 1584, 1603, 1575, 1569,
         32, 1575, 1604, 1575,
  1589, 1591, 1606, 1575, 1593, 1610, 32, 1589, 1575, 1604, 1581, 32, 1608, 1606, 1588, 1591,
    33] T_success] (turns (set_status key Key_active) W)
       else tells [Says [1601, 1588, 1604, 32, 1575, 1604, 1578, 1581, 1602, 1602, 58, 32, 1575,
         1604, 1605, 1601, 1578,
  1575, 1581, 32, 1594, 1610, 1585, 32, 1589, 1575, 1604, 1581, 32, 1571, 1608, 32, 1605, 1606,
  1578, 1607, 1610, 33] T_error] (turns (set_status key Key_error) W)
   | None \<Rightarrow> tells [Says [1582, 1591, 1571, 32, 1601, 1610, 32, 1575, 1604, 1575,
     1578, 1589, 1575, 1604, 32, 1571, 1579,
  1606, 1575, 1569, 32, 1575, 1604, 1578, 1581, 1602, 1602,
    33] T_error] (turns (set_status key Key_error) W))"

definition addAIKey :: "keys_world \<Rightarrow> keys_world" where
  "addAIKey W = (let p = pw_page W; k = trim (ak_newKey p) in if k = [] then W
     else saveAIKeys (ak_gemini p @ [k]) (ak_groq p) (turns (\<lambda>p. p\<lparr>ak_newKey := []\<rparr>) W))"

definition addGroqKey :: "keys_world \<Rightarrow> keys_world" where
  "addGroqKey W = (let p = pw_page W; k = trim (ak_newGroqKey p) in if k = [] then W
     else saveAIKeys (ak_gemini p) (ak_groq p @ [k]) (turns (\<lambda>p. p\<lparr>ak_newGroqKey := []\<rparr>) W))"

definition without_nth :: "nat \<Rightarrow> 'a list \<Rightarrow> 'a list" where
  "without_nth k xs = take k xs @ drop (Suc k) xs"

definition removeAIKey :: "nat \<Rightarrow> bool \<Rightarrow> keys_world \<Rightarrow> keys_world" where
  "removeAIKey k confirmed W = (if confirmed then saveAIKeys (without_nth k (ak_gemini (pw_page W))) (ak_groq (pw_page W)) W else W)"

definition removeGroqKey :: "nat \<Rightarrow> bool \<Rightarrow> keys_world \<Rightarrow> keys_world" where
  "removeGroqKey k confirmed W = (if confirmed then saveAIKeys (ak_gemini (pw_page W)) (without_nth k (ak_groq (pw_page W))) W else W)"

definition keys_copyText :: "jstr \<Rightarrow> keys_world \<Rightarrow> keys_world" where
  "keys_copyText t W = tells [Says [1578, 1605, 32, 1575, 1604, 1606, 1587, 1582, 32, 1573, 1604,
    1609, 32, 1575, 1604, 1581, 1575,
  1601, 1592, 1577] T_success] (turns (\<lambda>p. p\<lparr>ak_clipboard := Some t\<rparr>) W)"

datatype keys_answer = Stored_answer "stored_keys + jstr" | Row_answer "bool + jstr" | Written_answer "jstr option" | Keys_logged | Tried_answer "nat option"

definition keys_answered :: "keys_answer \<Rightarrow> keys_request \<Rightarrow> keys_world \<Rightarrow> keys_world" where
  "keys_answered a r W = (case (r, a) of
     (Fetch_keys, Stored_answer x) \<Rightarrow> keys_fetched x W
   | (Fetch_row g q, Row_answer x) \<Rightarrow> row_fetched g q x W
   | (Update_keys g q, Written_answer x) \<Rightarrow> keys_written g q x W
   | (Insert_keys g q, Written_answer x) \<Rightarrow> keys_written g q x W
   | (Log_keys g q t, Keys_logged) \<Rightarrow> keys_logged g q W
   | (Try_key k v, Tried_answer x) \<Rightarrow> key_tried k x W
   | _ \<Rightarrow> W)"

datatype keys_event =
    Type_key jstr
  | Type_groqKey jstr
  | Add_key
  | Add_groqKey
  | Remove_key nat bool
  | Remove_groqKey nat bool
  | Try_click nat key_provider
  | Copy_key nat key_provider
  | Keys_answered nat keys_answer

definition keys_of :: "key_provider \<Rightarrow> keys_page \<Rightarrow> jstr list" where
  "keys_of v p = (case v of Gemini \<Rightarrow> ak_gemini p | Groq \<Rightarrow> ak_groq p)"

definition keys_step :: "keys_world \<Rightarrow> keys_event \<Rightarrow> keys_world" where
  "keys_step W e = (let p = pw_page W in case e of
     Type_key t \<Rightarrow> turns (\<lambda>p. p\<lparr>ak_newKey := t\<rparr>) W
   | Type_groqKey t \<Rightarrow> turns (\<lambda>p. p\<lparr>ak_newGroqKey := t\<rparr>) W
   | Add_key \<Rightarrow> addAIKey W
   | Add_groqKey \<Rightarrow> addGroqKey W
   | Remove_key k c \<Rightarrow> if k < length (ak_gemini p) then removeAIKey k c W else W
   | Remove_groqKey k c \<Rightarrow> if k < length (ak_groq p) then removeGroqKey k c W else W
   | Try_click k v \<Rightarrow> if k < length (keys_of v p) \<and> map_of (ak_statuses p) (keys_of v p ! k) \<noteq> Some Key_checking
       then checkKeyHealth (keys_of v p ! k) v W else W
   | Copy_key k v \<Rightarrow> if k < length (keys_of v p) then keys_copyText (keys_of v p ! k) W else W
   | Keys_answered k a \<Rightarrow> answers k (keys_answered a) W)"

text \<open>A masked key shows at most fourteen of its characters.\<close>

lemma masked_key_short: "length (maskKey key) \<le> 17"
  by (simp add: maskKey_def js_def)

text \<open>The whole lists are written from the page. A second key that is added before the first is saved replaces it.\<close>

lemma added_key_lost:
  assumes "pw_open W = []" "trim k = k" "k \<noteq> []" "trim l = l" "l \<noteq> []"
  shows "let W' = run keys_step W [Type_key k, Add_key, Type_key l, Add_key,
      Keys_answered 0 (Row_answer (Inl True)), Keys_answered 1 (Written_answer None), Keys_answered 1 Keys_logged,
      Keys_answered 0 (Row_answer (Inl True)), Keys_answered 0 (Written_answer None), Keys_answered 0 Keys_logged]
    in ak_gemini (pw_page W') = ak_gemini (pw_page W) @ [l]"
  using assms by (simp add: keys_step_def addAIKey_def saveAIKeys_def answers_def keys_answered_def row_fetched_def
      keys_written_def keys_logged_def Let_def)

section \<open>The details of an account\<close>

text \<open>A backup: its id, its path, the store, its bytes and its date; a session: its device, and two dates.\<close>

type_synonym account_backup = "jstr \<times> jstr \<times> jstr \<times> jsnum \<times> jstr"
type_synonym account_session = "jstr option \<times> jstr \<times> jstr"

text \<open>What the database tells of a user: e-mail, name of the store, and two dates.\<close>

type_synonym account_row = "jstr option \<times> jstr option \<times> jstr option \<times> jstr option"

record user_details =
  ud_user :: jstr
  ud_email :: jstr
  ud_store :: jstr
  ud_created :: jstr
  ud_lastSignIn :: jstr
  ud_backups :: "account_backup list"
  ud_sessions :: "(jstr \<times> jstr \<times> jstr) list"

datatype details_tab = Tab_info | Tab_backups | Tab_sessions

record details_modal =
  dm_user :: "jstr option"
  dm_store :: "jstr option"
  dm_details :: "user_details option"
  dm_loading :: bool
  dm_tab :: details_tab
  dm_downloading :: "jstr option"
  dm_downloaded :: "(jstr \<times> jstr) list"

text \<open>The three questions follow one another; what the first two have answered is kept.\<close>

type_synonym user_answer = "account_row option \<times> jstr option"

datatype details_request =
    Get_user jstr "jstr option"
  | Get_backups jstr "jstr option" user_answer
  | Get_sessions jstr "jstr option" user_answer "account_backup list option"
  | Download_backup jstr

type_synonym details_world = "(details_modal, details_request) page_world"

definition fetchUserDetails :: "details_world \<Rightarrow> details_world" where
  "fetchUserDetails W = (case dm_user (pw_page W) of
     Some u \<Rightarrow> if u = [] then W else asks (Get_user u (dm_store (pw_page W))) (turns (\<lambda>p. p\<lparr>dm_loading := True\<rparr>) W)
   | None \<Rightarrow> W)"

definition details_mount :: "jstr option \<Rightarrow> jstr option \<Rightarrow> details_world" where
  "details_mount user store = fetchUserDetails (fresh_page \<lparr> dm_user = user, dm_store = store, dm_details = None, dm_loading = False,
     dm_tab = Tab_info, dm_downloading = None, dm_downloaded = [] \<rparr>)"

definition text_of :: "jstr option \<Rightarrow> jstr" where
  "text_of t = opt_default [] t"

definition details_of :: "jstr \<Rightarrow> jstr option \<Rightarrow> account_row option \<Rightarrow> account_backup list option \<Rightarrow> account_session list option \<Rightarrow> user_details" where
  "details_of u store row bs ss = (case opt_default (None, None, None, None) row of (email, name, created, signIn) \<Rightarrow>
     \<lparr> ud_user = u, ud_email = text_of email, ud_store = (if text_of name \<noteq> [] then text_of name else text_of store),
       ud_created = text_of created, ud_lastSignIn = text_of signIn, ud_backups = opt_default [] bs,
       ud_sessions = map (\<lambda>(d, l, t). (message_else (text_of d) [1580, 1607, 1575, 1586,
         32, 1594, 1610, 1585, 32, 1605, 1593, 1585, 1608, 1601], l,
         t)) (opt_default [] ss) \<rparr>)"

definition details_failed :: "jstr \<Rightarrow> details_world \<Rightarrow> details_world" where
  "details_failed m W = turns (\<lambda>p. p\<lparr>dm_loading := False\<rparr>) (tells [Says ([1601, 1588, 1604, 32, 1578, 1581, 1605, 1610, 1604, 32, 1578, 1601, 1575, 1589, 1610, 1604, 32,
  1575, 1604, 1605, 1587, 1578, 1582, 1583, 1605, 58, 32] @ m) T_error] W)"

definition sessions_got :: "jstr \<Rightarrow> jstr option \<Rightarrow> user_answer \<Rightarrow> account_backup list option \<Rightarrow> account_session list option \<Rightarrow> details_world \<Rightarrow> details_world" where
  "sessions_got u store a bs ss W = (case snd a of
     Some m \<Rightarrow> details_failed m W
   | None \<Rightarrow> turns (\<lambda>p. p\<lparr> dm_details := Some (details_of u store (fst a) bs ss), dm_loading := False \<rparr>) W)"

text \<open>\<open>formatSize\<close>.\<close>

definition formatSize :: "jsnum \<Rightarrow> jstr" where
  "formatSize bytes =
     (if bytes < Fin 1024 then num_to_string bytes @ js '' B''
      else if bytes < Fin (1024 * 1024) then to_fixed 1 (bytes / Fin 1024) @ js '' KB''
      else to_fixed 1 (bytes / Fin (1024 * 1024)) @ js '' MB'')"

definition downloadBackup :: "jstr \<Rightarrow> details_world \<Rightarrow> details_world" where
  "downloadBackup path W = asks (Download_backup path) (turns (\<lambda>p. p\<lparr>dm_downloading := Some path\<rparr>) W)"

definition download_name :: "jstr \<Rightarrow> jstr" where
  "download_name path = message_else (last (split_on 47 path)) (js ''backup.sql'')"

text \<open>A link is made for what came and clicked.\<close>

definition backup_downloaded :: "jstr \<Rightarrow> jstr + jstr \<Rightarrow> details_world \<Rightarrow> details_world" where
  "backup_downloaded path a W = turns (\<lambda>p. p\<lparr>dm_downloading := None\<rparr>) (case a of
     Inl d \<Rightarrow> tells [Says [1578, 1605, 32, 1578, 1606, 1586, 1610, 1604, 32, 1575,
       1604, 1606, 1587, 1582, 1577, 32, 1575,
  1604, 1575, 1581, 1578, 1610, 1575, 1591, 1610, 1577, 32, 1576, 1606, 1580, 1575, 1581] T_success]
       (turns (\<lambda>p. p\<lparr>dm_downloaded := dm_downloaded p @ [(download_name path, d)]\<rparr>) W)
   | Inr m \<Rightarrow> tells [Says ([1601, 1588, 1604, 32, 1578, 1606, 1586, 1610, 1604, 32,
     1575, 1604, 1606, 1587, 1582, 1577, 32,
  1575, 1604, 1575, 1581, 1578, 1610, 1575, 1591, 1610, 1577, 58, 32] @ m) T_error] W)"

text \<open>Any of the questions may throw instead.\<close>

datatype details_answer =
    User_answer user_answer
  | Backups_answer "account_backup list option"
  | Sessions_answer "account_session list option"
  | Download_answer "jstr + jstr"
  | Details_thrown jstr

definition details_answered :: "details_answer \<Rightarrow> details_request \<Rightarrow> details_world \<Rightarrow> details_world" where
  "details_answered x r W = (case r of
     Get_user u st \<Rightarrow> (case x of User_answer a \<Rightarrow> asks (Get_backups u st a) W | Details_thrown m \<Rightarrow> details_failed m W | _ \<Rightarrow> W)
   | Get_backups u st a \<Rightarrow> (case x of Backups_answer bs \<Rightarrow> asks (Get_sessions u st a bs) W | Details_thrown m \<Rightarrow> details_failed m W | _ \<Rightarrow> W)
   | Get_sessions u st a bs \<Rightarrow> (case x of Sessions_answer ss \<Rightarrow> sessions_got u st a bs ss W | Details_thrown m \<Rightarrow> details_failed m W | _ \<Rightarrow> W)
   | Download_backup path \<Rightarrow> (case x of Download_answer a \<Rightarrow> backup_downloaded path a W | Details_thrown m \<Rightarrow> backup_downloaded path (Inr m) W | _ \<Rightarrow> W))"

datatype details_event = Details_tab details_tab | Download_click jstr | Details_answered nat details_answer

definition details_step :: "details_world \<Rightarrow> details_event \<Rightarrow> details_world" where
  "details_step W e = (case e of
     Details_tab t \<Rightarrow> turns (\<lambda>p. p\<lparr>dm_tab := t\<rparr>) W
   | Download_click path \<Rightarrow> (if dm_downloading (pw_page W) = None then downloadBackup path W else W)
   | Details_answered k a \<Rightarrow> answers k (details_answered a) W)"

text \<open>Only the error of the first question is told: backups that could not be listed are shown as none.\<close>

lemma unlisted_backups_shown_as_none:
  assumes "u \<noteq> []"
  shows "let W' = run details_step (details_mount (Some u) st)
      [Details_answered 0 (User_answer (Some row, None)), Details_answered 0 (Backups_answer None), Details_answered 0 (Sessions_answer ss)]
    in said_calls (pw_calls W') = [] \<and> map_option ud_backups (dm_details (pw_page W')) = Some []"
  using assms by (cases row) (simp add: details_mount_def fetchUserDetails_def details_step_def answers_def details_answered_def sessions_got_def
      details_of_def Let_def opt_default_def)

end
