(* ===== verification/Chat.thy ===== *)
theory Chat
  imports Pages ForceDelete
begin

text \<open>
  The window of the assistant (\<open>components/AIChatWindow.tsx\<close>): what is sent, the answer that arrives in pieces, and the
  end of an answer, by itself, by an error or by the stop button, as steps of a page. The pieces are events of the
  backend, of which none says to which question it belongs. \<open>context\<close> is what \<open>JSON.stringify\<close> makes of the figures.
\<close>

datatype chat_role = Role_user | Role_model

type_synonym chat_message = "chat_role \<times> jstr"

record chat =
  ch_messages :: "chat_message list"
  ch_input :: jstr
  ch_loading :: bool
  ch_streaming :: jstr
  ch_stopped :: bool

definition chat_start :: chat where
  "chat_start = \<lparr> ch_messages = [], ch_input = [], ch_loading = False, ch_streaming = [], ch_stopped = False \<rparr>"

datatype chat_request = Generate_stream jstr

type_synonym chat_world = "(chat, chat_request) page_world"

text \<open>The text of the last message, when it is the model's.\<close>

definition set_last :: "jstr \<Rightarrow> chat_message list \<Rightarrow> chat_message list" where
  "set_last t ms = (if ms \<noteq> [] \<and> fst (last ms) = Role_model then butlast ms @ [(Role_model, t)] else ms)"

definition system_instruction :: "jstr \<Rightarrow> jstr" where
  "system_instruction context = [1571, 1606, 1578, 32, 34, 1605, 1587, 1575, 1593, 1583, 32,
    1576, 1610, 1583, 1585, 34, 32,
  55358, 56605, 32, 45, 32, 1605, 1587, 1575, 1593, 1583, 32, 1605, 1576, 1610, 1593, 1575, 1578,
  32, 1584, 1603, 1610, 32, 1608, 1605, 1582, 1578, 1589, 1585, 32, 1604, 1589, 1575, 1581, 1576,
  32, 1575, 1604, 1605, 1578, 1580, 1585, 46, 10, 1576, 1610, 1575, 1606, 1575, 1578, 32, 1575,
  1604, 1605, 1578, 1580, 1585, 32, 1575, 1604, 1581, 1575, 1604, 1610, 1577, 58,
    32] @ context @ [10, 10, 1602, 1608, 1575, 1593, 1583, 32, 1575, 1604, 1573, 1580, 1575,
    1576, 1577, 58, 10, 49,
  46, 32, 1571, 1580, 1576, 32, 1576, 1575, 1604, 1604, 1594, 1577, 32, 1575, 1604, 1593, 1585,
  1576, 1610, 1577, 32, 1575, 1604, 1601, 1589, 1581, 1609, 32, 1575, 1604, 1605, 1576, 1587,
  1591, 1577, 32, 1576, 1571, 1587, 1604, 1608, 1576, 32, 1608, 1583, 1608, 1583, 32, 1608, 1605,
  1608, 1580, 1586, 32, 1608, 1605, 1576, 1575, 1588, 1585, 32, 1580, 1583, 1575, 1611, 46, 10,
  50, 46, 32, 1585, 1603, 1586, 32, 1578, 1605, 1575, 1605, 1575, 1611, 32, 1593, 1604, 1609, 32,
  1575, 1604, 1571, 1585, 1602, 1575, 1605, 32, 1608, 1575, 1604, 1606, 1602, 1575, 1591, 32,
  1575, 1604, 1593, 1605, 1604, 1610, 1577, 32, 1575, 1604, 1605, 1601, 1610, 1583, 1577, 32,
  1604, 1586, 1610, 1575, 1583, 1577, 32, 1575, 1604, 1605, 1576, 1610, 1593, 1575, 1578, 1548,
  32, 1608, 1578, 1580, 1606, 1576, 32, 1575, 1604, 1588, 1585, 1581, 32, 1575, 1604, 1591, 1608,
  1610, 1604, 46, 10, 51, 46, 32, 9888, 65039, 32, 1578, 1581, 1584, 1610, 1585, 58, 32, 1605,
  1605, 1606, 1608, 1593, 32, 1606, 1607, 1575, 1574, 1610, 1575, 1611, 32, 1591, 1576, 1575,
  1593, 1577, 32, 1607, 1584, 1607, 32, 1575, 1604, 1578, 1593, 1604, 1610, 1605, 1575, 1578,
  1548, 32, 1571, 1608, 32, 1573, 1583, 1585, 1575, 1580, 32, 1602, 1575, 1574, 1605, 1577, 32,
  1575, 1604, 1578, 1581, 1602, 1602, 32, 1605, 1606, 32, 1575, 1604, 1588, 1585, 1608, 1591, 32,
  40, 1605, 1579, 1604, 32, 70, 114, 105, 101, 110, 100, 108, 121, 63, 32, 89, 101, 115, 41,
  1548, 32, 1571, 1608, 32, 1573, 1593, 1575, 1583, 1577, 32, 1589, 1610, 1575, 1594, 1577, 32,
  1575, 1604, 1602, 1608, 1575, 1593, 1583, 32, 1575, 1604, 1605, 1608, 1580, 1607, 1577, 32,
  1573, 1604, 1610, 1603, 46, 32, 1571, 1580, 1576, 32, 1601, 1602, 1591, 32, 1608, 1576, 1588,
  1603, 1604, 32, 1605, 1576, 1575, 1588, 1585, 32, 1593, 1604, 1609, 32, 1587, 1572, 1575, 1604,
  32, 1575, 1604, 1605, 1587, 1578, 1582, 1583, 1605, 46]"

definition chat_prompt :: "jstr \<Rightarrow> jstr \<Rightarrow> jstr" where
  "chat_prompt context t = system_instruction context @ [10, 10] @ js ''---'' @ [10] @ js ''User Request: '' @ t"

definition stream_chunk :: "jstr \<Rightarrow> chat \<Rightarrow> chat" where
  "stream_chunk t p = (if ch_stopped p then p else p\<lparr>ch_streaming := ch_streaming p @ t\<rparr>)"

definition stream_complete :: "chat \<Rightarrow> chat" where
  "stream_complete p =
     (if ch_stopped p then p
      else p\<lparr> ch_loading := False, ch_streaming := [],
        ch_messages := (if ch_streaming p = [] then ch_messages p else set_last (ch_streaming p) (ch_messages p)) \<rparr>)"

definition stream_error :: "jstr \<Rightarrow> chat \<Rightarrow> chat" where
  "stream_error e p =
     (if ch_stopped p then p
      else p\<lparr> ch_loading := False, ch_streaming := [], ch_messages := set_last ([9888,
        65039, 32, 1581, 1583, 1579, 32, 1582, 1591, 1571, 58, 32] @ e) (ch_messages p) \<rparr>)"

definition chat_handleSend :: "jstr \<Rightarrow> chat_world \<Rightarrow> chat_world" where
  "chat_handleSend context W =
     (let p = pw_page W
      in if trim (ch_input p) = [] \<or> ch_loading p then W
         else asks (Generate_stream (chat_prompt context (ch_input p)))
           (turns (\<lambda>p. p\<lparr> ch_stopped := False, ch_messages := ch_messages p @ [(Role_user, ch_input p), (Role_model, [])],
              ch_input := [], ch_loading := True, ch_streaming := [] \<rparr>) W))"

definition stream_started :: "unit + thrown \<Rightarrow> chat \<Rightarrow> chat" where
  "stream_started a p = (case a of
     Inl u \<Rightarrow> p
   | Inr e \<Rightarrow> p\<lparr> ch_loading := False, ch_messages := set_last ([10060, 32,
     1601, 1588, 1604, 32, 1575, 1604, 1575, 1578, 1589, 1575, 1604, 32, 1576, 1575, 1604,
  1582, 1583, 1605, 1577, 58, 32] @ thrown_text e) (ch_messages p) \<rparr>)"

definition chat_handleStop :: "chat \<Rightarrow> chat" where
  "chat_handleStop p = p\<lparr> ch_stopped := True, ch_loading := False, ch_streaming := [],
     ch_messages := set_last (ch_streaming p @ [32, 40, 1578, 1605, 32, 1575, 1604, 1573, 1610,
       1602, 1575, 1601, 41]) (ch_messages p) \<rparr>"

definition displayMessages :: "chat \<Rightarrow> chat_message list" where
  "displayMessages p = (if \<not> ch_loading p \<or> ch_streaming p = [] then ch_messages p else set_last (ch_streaming p) (ch_messages p))"

definition quick_questions :: "jstr list" where
  "quick_questions = [[1603, 1610, 1601, 32, 1571, 1586, 1610, 1583, 32, 1575, 1604, 1605, 1576,
    1610, 1593, 1575,
  1578, 1567], [1581, 1604, 1604, 32, 1571, 1583, 1575, 1569, 32, 1575, 1604, 1605, 1578, 1580,
    1585], [1606, 1589, 1575, 1574, 1581, 32, 1604, 1604, 1605, 1582, 1586, 1608, 1606]]"

datatype chat_event =
    Stream_chunk jstr
  | Stream_complete
  | Stream_error jstr
  | Type_question jstr
  | Quick_question nat
  | Send_question
  | Stop_answer
  | Clear_chat
  | Stream_answered nat "unit + thrown"

definition chat_step :: "jstr \<Rightarrow> chat_world \<Rightarrow> chat_event \<Rightarrow> chat_world" where
  "chat_step context W e = (case e of
     Stream_chunk t \<Rightarrow> turns (stream_chunk t) W
   | Stream_complete \<Rightarrow> turns stream_complete W
   | Stream_error m \<Rightarrow> turns (stream_error m) W
   | Type_question t \<Rightarrow> (if ch_loading (pw_page W) then W else turns (\<lambda>p. p\<lparr>ch_input := t\<rparr>) W)
   | Quick_question k \<Rightarrow> (if ch_messages (pw_page W) = [] \<and> k < length quick_questions
       then turns (\<lambda>p. p\<lparr>ch_input := quick_questions ! k\<rparr>) W else W)
   | Send_question \<Rightarrow> chat_handleSend context W
   | Stop_answer \<Rightarrow> (if ch_loading (pw_page W) then turns chat_handleStop W else W)
   | Clear_chat \<Rightarrow> turns (\<lambda>p. p\<lparr> ch_messages := [], ch_streaming := [] \<rparr>) W
   | Stream_answered k a \<Rightarrow> answers k (\<lambda>r. turns (stream_started a)) W)"

section \<open>Question and answer\<close>

fun alternating :: "chat_role list \<Rightarrow> bool" where
  "alternating [] = True"
| "alternating [r] = False"
| "alternating (r # r' # rs) = (r = Role_user \<and> r' = Role_model \<and> alternating rs)"

lemma alternating_snoc: "alternating rs \<Longrightarrow> alternating (rs @ [Role_user, Role_model])"
  by (induction rs rule: alternating.induct) auto

lemma roles_set_last [simp]: "map fst (set_last t ms) = map fst ms"
proof (cases ms rule: rev_cases)
  case (snoc qs m)
  then show ?thesis by (cases m) (simp add: set_last_def)
qed (simp add: set_last_def)

interpretation chat: machine "chat_step context" "\<lambda>W :: chat_world. alternating (map fst (ch_messages (pw_page W)))" "\<lambda>_. True"
proof
  fix W :: chat_world and e
  assume "alternating (map fst (ch_messages (pw_page W)))"
  then show "alternating (map fst (ch_messages (pw_page (chat_step context W e))))"
    by (cases e) (auto simp: chat_step_def stream_chunk_def stream_complete_def stream_error_def chat_handleSend_def chat_handleStop_def
        stream_started_def answers_def alternating_snoc Let_def split: sum.split)
qed

text \<open>C36. In every run of the chat the messages are questions, each followed by its one answer, whatever the pieces, ends,
  errors and stops that arrive.\<close>

theorem chat_alternates:
  "alternating (map fst (ch_messages (pw_page (run (chat_step context) (fresh_page chat_start) es))))"
  using chat.run_inv [of "fresh_page chat_start" es] by (simp add: chat_start_def)

text \<open>An answer that is not stopped is what arrived.\<close>

lemma answer_collected:
  assumes "\<not> ch_stopped (pw_page W)" "ch_streaming (pw_page W) = []" "concat ts \<noteq> []"
  shows "ch_messages (pw_page (run (chat_step context) W (map Stream_chunk ts @ [Stream_complete]))) = set_last (concat ts) (ch_messages (pw_page W))"
proof -
  have "pw_page (run (chat_step context) W (map Stream_chunk ts)) = (pw_page W)\<lparr>ch_streaming := ch_streaming (pw_page W) @ concat ts\<rparr>"
    using assms(1)
  proof (induction ts arbitrary: W)
    case (Cons t ts)
    have "\<not> ch_stopped (pw_page (chat_step context W (Stream_chunk t)))"
      using Cons.prems by (simp add: chat_step_def stream_chunk_def)
    then show ?case using Cons.IH [of "chat_step context W (Stream_chunk t)"] Cons.prems
      by (simp add: chat_step_def stream_chunk_def)
  qed simp
  then show ?thesis using assms by (auto simp: run_append chat_step_def stream_complete_def)
qed

text \<open>The pieces of a stopped answer become part of the next one when it is asked for before they have all come.\<close>

lemma stopped_answer_leaks:
  assumes "trim q = q" "q \<noteq> []"
  shows "displayMessages (pw_page (run (chat_step context) (fresh_page chat_start)
      [Type_question q, Send_question, Stop_answer, Type_question q, Send_question, Stream_chunk (js ''old'')]))
    = [(Role_user, q), (Role_model, [32, 40, 1578, 1605, 32, 1575, 1604, 1573, 1610, 1602, 1575,
      1601, 41]), (Role_user, q), (Role_model, js ''old'')]"
  using assms by (simp add: chat_step_def chat_start_def chat_handleSend_def chat_handleStop_def stream_chunk_def displayMessages_def
      set_last_def js_def Let_def)

text \<open>What arrives after the chat was cleared is lost, and a stopped answer is overwritten when its request fails.\<close>

lemma cleared_answer_lost:
  assumes "trim q = q" "q \<noteq> []"
  shows "ch_messages (pw_page (run (chat_step context) (fresh_page chat_start)
      [Type_question q, Send_question, Clear_chat, Stream_chunk t, Stream_complete])) = []"
  using assms by (simp add: chat_step_def chat_start_def chat_handleSend_def stream_chunk_def stream_complete_def set_last_def Let_def)

end
