(* ===== verification/CloudBackups.thy ===== *)
theory CloudBackups
  imports Pages ForceDelete
begin

text \<open>
  The backups in the cloud (\<open>features/settings/components/CloudBackupSettings.tsx\<close>) as steps of a page: the account,
  the list, the confirmations, and the check every half minute whether another device has signed in.
\<close>

type_synonym cloud_user = "jstr \<times> jstr \<times> jstr"

record cloud_backup =
  bk_id :: jstr
  bk_store :: jstr
  bk_size :: jsnum
  bk_created :: jstr

datatype backup_task = Restore_backup jstr | Delete_backup jstr

record backups_page =
  cb_loggedIn :: bool
  cb_user :: "cloud_user option"
  cb_backups :: "cloud_backup list"
  cb_autoSync :: bool
  cb_backupLoading :: bool
  cb_restoreLoading :: "jstr option"
  cb_message :: "(bool \<times> jstr) option"
  cb_confirm :: "backup_task confirm_state"
  cb_clearings :: nat
  cb_reloads :: nat

definition backups_page_start :: backups_page where
  "backups_page_start = \<lparr> cb_loggedIn = False, cb_user = None, cb_backups = [], cb_autoSync = False, cb_backupLoading = False,
     cb_restoreLoading = None, cb_message = None, cb_confirm = confirm_initial, cb_clearings = 0, cb_reloads = 0 \<rparr>"

datatype backup_request =
    Check_session
  | List_backups
  | Get_config
  | Is_logged_in
  | Get_cloud_user
  | Set_autoSync bool
  | Cloud_logout
  | Backup_now
  | Do_task backup_task

type_synonym backup_world = "(backups_page, backup_request) page_world"

definition checkLoginStatus :: "backup_world \<Rightarrow> backup_world" where
  "checkLoginStatus W = asks Is_logged_in W"

definition cloud_mount :: backup_world where
  "cloud_mount = checkLoginStatus (fresh_page backups_page_start)"

definition loadBackups :: "backup_world \<Rightarrow> backup_world" where
  "loadBackups W = asks List_backups W"

definition signed_out :: "backups_page \<Rightarrow> backups_page" where
  "signed_out p = p\<lparr> cb_loggedIn := False, cb_user := None, cb_backups := [] \<rparr>"

definition session_checked :: "(bool \<times> jstr) + thrown \<Rightarrow> backups_page \<Rightarrow> backups_page" where
  "session_checked a p = (case a of
     Inl (valid, m) \<Rightarrow> if valid then p else signed_out (p\<lparr>cb_message := Some (False, m)\<rparr>)
   | Inr e \<Rightarrow> p)"

text \<open>The list may be \<open>null\<close>. The settings are asked for after the list has come.\<close>

definition backups_listed :: "cloud_backup list option + thrown \<Rightarrow> backup_world \<Rightarrow> backup_world" where
  "backups_listed a W = (case a of
     Inl l \<Rightarrow> asks Get_config (turns (\<lambda>p. p\<lparr>cb_backups := opt_default [] l\<rparr>) W)
   | Inr e \<Rightarrow> W)"

definition config_got :: "bool + thrown \<Rightarrow> backups_page \<Rightarrow> backups_page" where
  "config_got a p = (case a of Inl b \<Rightarrow> p\<lparr>cb_autoSync := b\<rparr> | Inr e \<Rightarrow> p)"

definition login_known :: "bool + thrown \<Rightarrow> backup_world \<Rightarrow> backup_world" where
  "login_known a W = (case a of
     Inl b \<Rightarrow> (let W' = turns (\<lambda>p. p\<lparr>cb_loggedIn := b\<rparr>) W in if b then asks Get_cloud_user W' else W')
   | Inr e \<Rightarrow> W)"

definition user_got :: "cloud_user option + thrown \<Rightarrow> backup_world \<Rightarrow> backup_world" where
  "user_got a W = (case a of Inl u \<Rightarrow> loadBackups (turns (\<lambda>p. p\<lparr>cb_user := u\<rparr>) W) | Inr e \<Rightarrow> W)"

definition handleAutoSyncToggle :: "backup_world \<Rightarrow> backup_world" where
  "handleAutoSyncToggle W = asks (Set_autoSync (\<not> cb_autoSync (pw_page W))) W"

definition autoSync_set :: "bool \<Rightarrow> unit + thrown \<Rightarrow> backups_page \<Rightarrow> backups_page" where
  "autoSync_set b a p = (case a of
     Inl u \<Rightarrow> p\<lparr> cb_autoSync := b, cb_clearings := cb_clearings p + 1,
       cb_message := Some (True, if b then [1578, 1605, 32, 1578, 1601, 1593, 1610, 1604, 32,
         1575, 1604, 1606, 1587, 1582, 32, 1575, 1604,
  1587, 1581, 1575, 1576, 1610, 32, 1575, 1604, 1578, 1604, 1602, 1575, 1574, 1610] else [1578,
    1605, 32, 1573, 1610, 1602, 1575, 1601, 32, 1575, 1604, 1606, 1587, 1582, 32, 1575, 1604,
  1587, 1581, 1575, 1576, 1610, 32, 1575, 1604, 1578, 1604, 1602, 1575, 1574, 1610]) \<rparr>
   | Inr e \<Rightarrow> p\<lparr>cb_message := Some (False, [1601, 1588, 1604, 32, 1578, 1594,
     1610, 1610, 1585, 32, 1575, 1604, 1573, 1593, 1583, 1575,
  1583, 1575, 1578])\<rparr>)"

definition logged_out :: "unit + thrown \<Rightarrow> backups_page \<Rightarrow> backups_page" where
  "logged_out a p = (case a of
     Inl u \<Rightarrow> (signed_out p)\<lparr> cb_message := Some (True, [1578, 1605, 32, 1578,
       1587, 1580, 1610, 1604, 32, 1575, 1604, 1582, 1585, 1608, 1580]),
       cb_reloads := cb_reloads p + 1 \<rparr>
   | Inr e \<Rightarrow> p)"

definition handleBackup :: "backup_world \<Rightarrow> backup_world" where
  "handleBackup W = asks Backup_now (turns (\<lambda>p. p\<lparr> cb_backupLoading := True, cb_message := None \<rparr>) W)"

text \<open>The message of an error, or the text of what was thrown.\<close>

definition thrown_message :: "thrown \<Rightarrow> jstr" where
  "thrown_message e = (case e of Thrown_error m \<Rightarrow> m | Thrown_value v \<Rightarrow> js_string v)"

definition backup_made :: "unit + thrown \<Rightarrow> backup_world \<Rightarrow> backup_world" where
  "backup_made a W = turns (\<lambda>p. p\<lparr>cb_backupLoading := False\<rparr>) (case a of
     Inl u \<Rightarrow> loadBackups (turns (\<lambda>p. p\<lparr>cb_message := Some (True,
       [1578, 1605, 32, 1575, 1604, 1606, 1587, 1582, 32, 1575, 1604, 1575, 1581, 1578, 1610, 1575,
  1591, 1610, 32, 1575, 1604, 1587, 1581, 1575, 1576, 1610, 32, 1576, 1606, 1580, 1575, 1581, 33,
  32, 9989])\<rparr>) W)
   | Inr e \<Rightarrow> turns (\<lambda>p. p\<lparr>cb_message := Some (False, [1601, 1588,
     1604, 32, 1575, 1604, 1606, 1587, 1582, 58, 32] @ thrown_message e)\<rparr>) W)"

definition confirmRestore :: "jstr \<Rightarrow> backups_page \<Rightarrow> backups_page" where
  "confirmRestore i p = p\<lparr> cb_confirm := openConfirm \<lparr> co_title = [1575, 1587,
    1578, 1593, 1575, 1583, 1577, 32, 1575, 1604, 1606, 1587, 1582, 1577, 32, 1575,
  1604, 1575, 1581, 1578, 1610, 1575, 1591, 1610, 1577],
     co_message = [1607, 1604, 32, 1571, 1606, 1578, 32, 1605, 1578, 1571, 1603, 1583, 32, 1605,
       1606, 32, 1575,
  1587, 1578, 1593, 1575, 1583, 1577, 32, 1607, 1584, 1607, 32, 1575, 1604, 1606, 1587, 1582,
  1577, 1567, 32, 1587, 1610, 1578, 1605, 32, 1575, 1587, 1578, 1576, 1583, 1575, 1604, 32, 1580,
  1605, 1610, 1593, 32, 1575, 1604, 1576, 1610, 1575, 1606, 1575, 1578, 32, 1575, 1604, 1581,
  1575, 1604, 1610, 1577, 46],
     co_type = Some Mt_warning, co_confirmText = None, co_onConfirm = Restore_backup i \<rparr> (cb_confirm p) \<rparr>"

definition confirmDelete :: "jstr \<Rightarrow> backups_page \<Rightarrow> backups_page" where
  "confirmDelete i p = p\<lparr> cb_confirm := openConfirm \<lparr> co_title = [1578, 1571, 1603,
    1610, 1583, 32, 1575, 1604, 1581, 1584, 1601],
     co_message = [1607, 1604, 32, 1571, 1606, 1578, 32, 1605, 1578, 1571, 1603, 1583, 32, 1571,
       1606, 1603, 32,
  1578, 1585, 1610, 1583, 32, 1581, 1584, 1601, 32, 1607, 1584, 1607, 32, 1575, 1604, 1606, 1587,
  1582, 1577, 32, 1575, 1604, 1575, 1581, 1578, 1610, 1575, 1591, 1610, 1577, 32, 1606, 1607,
  1575, 1574, 1610, 1575, 1611, 1567],
     co_type = Some Mt_error, co_confirmText = None, co_onConfirm = Delete_backup i \<rparr> (cb_confirm p) \<rparr>"

definition confirm_backup_task :: "backup_world \<Rightarrow> backup_world" where
  "confirm_backup_task W = (case cn_onConfirm (cb_confirm (pw_page W)) of
     Some t \<Rightarrow> asks (Do_task t) (turns (\<lambda>p. p\<lparr> cb_confirm := closeConfirm (cb_confirm p),
       cb_restoreLoading := (case t of Restore_backup i \<Rightarrow> Some i | Delete_backup i \<Rightarrow> cb_restoreLoading p) \<rparr>) W)
   | None \<Rightarrow> W)"

definition backup_task_done :: "backup_task \<Rightarrow> unit + thrown \<Rightarrow> backup_world \<Rightarrow> backup_world" where
  "backup_task_done t a W = (case t of
     Restore_backup i \<Rightarrow> turns (\<lambda>p. p\<lparr>cb_restoreLoading := None\<rparr>) (case a of
         Inl u \<Rightarrow> turns (\<lambda>p. p\<lparr> cb_message := Some (True, [1578, 1605,
           32, 1575, 1587, 1578, 1593, 1575, 1583, 1577, 32, 1575, 1604, 1606, 1587, 1582,
  1577, 32, 1575, 1604, 1575, 1581, 1578, 1610, 1575, 1591, 1610, 1577, 33, 32, 1580, 1575, 1585,
  1610, 32, 1573, 1593, 1575, 1583, 1577, 32, 1575, 1604, 1578, 1588, 1594, 1610, 1604, 46, 46,
    46]),
           cb_reloads := cb_reloads p + 1 \<rparr>) W
       | Inr e \<Rightarrow> turns (\<lambda>p. p\<lparr>cb_message := Some (False, [1601, 1588,
         1604, 32, 1575, 1604, 1575, 1587, 1578, 1593, 1575, 1583, 1577, 58,
         32] @ thrown_message e)\<rparr>) W)
   | Delete_backup i \<Rightarrow> (case a of
         Inl u \<Rightarrow> loadBackups (turns (\<lambda>p. p\<lparr>cb_message := Some (True,
           [1578, 1605, 32, 1581, 1584, 1601, 32, 1575, 1604, 1606, 1587, 1582, 1577, 32, 1575,
           1604, 1575,
  1581, 1578, 1610, 1575, 1591, 1610, 1577])\<rparr>) W)
       | Inr e \<Rightarrow> turns (\<lambda>p. p\<lparr>cb_message := Some (False, [1601, 1588,
         1604, 32, 1575, 1604, 1581, 1584, 1601, 58, 32] @ thrown_message e)\<rparr>) W))"

text \<open>The panel of the account is shown with the user.\<close>

definition account_shown :: "backups_page \<Rightarrow> bool" where
  "account_shown p = (cb_loggedIn p \<and> cb_user p \<noteq> None)"

datatype backup_answer =
    Valid_answer "(bool \<times> jstr) + thrown"
  | List_answer "cloud_backup list option + thrown"
  | Flag_answer "bool + thrown"
  | Cloud_user_answer "cloud_user option + thrown"
  | Cloud_done "unit + thrown"

definition backup_answered :: "backup_answer \<Rightarrow> backup_request \<Rightarrow> backup_world \<Rightarrow> backup_world" where
  "backup_answered a r W = (case (r, a) of
     (Check_session, Valid_answer x) \<Rightarrow> turns (session_checked x) W
   | (List_backups, List_answer x) \<Rightarrow> backups_listed x W
   | (Get_config, Flag_answer x) \<Rightarrow> turns (config_got x) W
   | (Is_logged_in, Flag_answer x) \<Rightarrow> login_known x W
   | (Get_cloud_user, Cloud_user_answer x) \<Rightarrow> user_got x W
   | (Set_autoSync b, Cloud_done x) \<Rightarrow> turns (autoSync_set b x) W
   | (Cloud_logout, Cloud_done x) \<Rightarrow> turns (logged_out x) W
   | (Backup_now, Cloud_done x) \<Rightarrow> backup_made x W
   | (Do_task t, Cloud_done x) \<Rightarrow> backup_task_done t x W
   | _ \<Rightarrow> W)"

datatype backups_event =
    Session_tick
  | Clear_message
  | AutoSync_click
  | Cloud_logout_click
  | Backup_click
  | Reload_list
  | Restore_backup_click jstr
  | Delete_backup_click jstr
  | Confirm_backup
  | Cancel_backup
  | Backup_answered nat backup_answer

definition backups_step :: "backup_world \<Rightarrow> backups_event \<Rightarrow> backup_world" where
  "backups_step W e = (let p = pw_page W; known = (\<lambda>i. i \<in> bk_id ` set (cb_backups p)) in case e of
     Session_tick \<Rightarrow> if cb_loggedIn p then asks Check_session W else W
   | Clear_message \<Rightarrow> if 0 < cb_clearings p then turns (\<lambda>p. p\<lparr> cb_message := None, cb_clearings := cb_clearings p - 1 \<rparr>) W else W
   | AutoSync_click \<Rightarrow> if account_shown p then handleAutoSyncToggle W else W
   | Cloud_logout_click \<Rightarrow> if account_shown p then asks Cloud_logout W else W
   | Backup_click \<Rightarrow> if account_shown p \<and> \<not> cb_backupLoading p then handleBackup W else W
   | Reload_list \<Rightarrow> if account_shown p then loadBackups W else W
   | Restore_backup_click i \<Rightarrow> if account_shown p \<and> known i \<and> cb_restoreLoading p \<noteq> Some i then turns (confirmRestore i) W else W
   | Delete_backup_click i \<Rightarrow> if account_shown p \<and> known i then turns (confirmDelete i) W else W
   | Confirm_backup \<Rightarrow> if cn_open (cb_confirm p) then confirm_backup_task W else W
   | Cancel_backup \<Rightarrow> turns (\<lambda>p. p\<lparr>cb_confirm := closeConfirm (cb_confirm p)\<rparr>) W
   | Backup_answered k a \<Rightarrow> answers k (backup_answered a) W)"

section \<open>What is confirmed\<close>

definition is_backup_task :: "backup_request \<Rightarrow> bool" where
  "is_backup_task r = (case r of Do_task t \<Rightarrow> True | _ \<Rightarrow> False)"

lemma is_backup_task_simps [simp]:
  "\<not> is_backup_task Check_session" "\<not> is_backup_task List_backups" "\<not> is_backup_task Get_config" "\<not> is_backup_task Is_logged_in"
  "\<not> is_backup_task Get_cloud_user" "\<not> is_backup_task (Set_autoSync b)" "\<not> is_backup_task Cloud_logout" "\<not> is_backup_task Backup_now"
  "is_backup_task (Do_task t)"
  by (simp_all add: is_backup_task_def)

lemma answered_no_task: "filter is_backup_task (asked (backup_answered a r W)) = filter is_backup_task (asked W)"
  by (cases r; cases a) (auto simp: backup_answered_def backups_listed_def login_known_def user_got_def backup_made_def
      backup_task_done_def loadBackups_def Let_def split: sum.split backup_task.split)

interpretation backups: metered_machine backups_step "\<lambda>W. length (filter is_backup_task (asked W))" "\<lambda>e. e = Confirm_backup"
proof
  fix W e
  show "length (filter is_backup_task (asked (backups_step W e))) \<le> length (filter is_backup_task (asked W)) + of_bool (e = Confirm_backup)"
    by (cases e) (auto simp: backups_step_def Let_def handleAutoSyncToggle_def handleBackup_def loadBackups_def confirm_backup_task_def
        answers_def answered_no_task split: option.split)
qed

text \<open>No backup is restored or deleted without a confirmation of its own.\<close>

lemma tasks_confirmed:
  "length (filter is_backup_task (asked (run backups_step cloud_mount es))) \<le> length (filter (\<lambda>e. e = Confirm_backup) es)"
  using backups.run_cost [of cloud_mount es] by (simp add: cloud_mount_def checkLoginStatus_def)

text \<open>The button is only disabled for the backup that is being restored: two can be restored at once, and a backup made
  meanwhile; the end of the first ends the sign of the second.\<close>

lemma two_restores_run:
  assumes "account_shown (pw_page W)" "pw_open W = []" "cb_restoreLoading (pw_page W) = None" "cb_backupLoading (pw_page W) = False"
    and "i \<in> bk_id ` set (cb_backups (pw_page W))" "j \<in> bk_id ` set (cb_backups (pw_page W))" "i \<noteq> j"
  shows "pw_open (run backups_step W [Restore_backup_click i, Confirm_backup, Restore_backup_click j, Confirm_backup, Backup_click])
    = [Do_task (Restore_backup i), Do_task (Restore_backup j), Backup_now]"
  using assms by (simp add: backups_step_def confirmRestore_def confirm_backup_task_def openConfirm_def closeConfirm_def account_shown_def
      handleBackup_def Let_def)

text \<open>The message of a sign-out by another device can be cleared by the timer of an older one.\<close>

lemma message_cleared_early:
  assumes "pw_open W = [Set_autoSync b, Check_session]" "cb_clearings (pw_page W) = 0"
  shows "cb_message (pw_page (run backups_step W
    [Backup_answered 0 (Cloud_done (Inl ())), Backup_answered 0 (Valid_answer (Inl (False, m))), Clear_message])) = None"
  using assms by (simp add: backups_step_def answers_def backup_answered_def autoSync_set_def session_checked_def signed_out_def Let_def)

end
