(* ===== verification/DesktopPanel.thy ===== *)
theory DesktopPanel
  imports Pages ForceDelete
begin

text \<open>
  The panel of the desktop application (\<open>features/settings/components/DesktopSettingsPanel.tsx\<close>): start with the system,
  simulated printing, printers, updates and crash reports, as steps of a page.
\<close>

text \<open>A printer is its name and status; an update its version, its address and whether it is newer.\<close>

type_synonym printer = "jstr \<times> jstr option"

record update_info =
  un_version :: jstr
  un_url :: jstr
  un_available :: bool

record desktop_page =
  dt_autoStart :: bool
  dt_autoLoading :: bool
  dt_simulate :: bool
  dt_stored :: "jstr option"
  dt_printers :: "printer list"
  dt_default :: jstr
  dt_selected :: jstr
  dt_printersLoading :: bool
  dt_version :: jstr
  dt_info :: "update_info option"
  dt_available :: bool
  dt_checking :: bool
  dt_downloading :: bool
  dt_progress :: jsnum
  dt_polling :: bool
  dt_installing :: "jstr option"
  dt_reports :: "jstr list"
  dt_testing :: bool

text \<open>What the four questions of the first load have answered; \<open>None\<close> when one was rejected.\<close>

type_synonym printer_data = "printer list option \<times> jstr option"

record desktop_data =
  dd_autoStart :: "bool option"
  dd_printers :: "printer_data option"
  dd_version :: "jstr option"
  dd_reports :: "jstr list option option"

datatype desktop_request =
    Load_all
  | Set_autoStart bool
  | Get_printers jstr
  | Test_printer jstr
  | Check_updates
  | Download_update jstr
  | Get_status
  | Install_update jstr
  | Clear_reports

type_synonym desktop_world = "(desktop_page, desktop_request) page_world"

text \<open>\<open>beidar_simulate_print\<close> is read from the storage.\<close>

definition desktop_start :: "jstr option \<Rightarrow> desktop_page" where
  "desktop_start stored = \<lparr> dt_autoStart = False, dt_autoLoading = False, dt_simulate = (stored = Some (js ''true'')), dt_stored = stored,
     dt_printers = [], dt_default = [], dt_selected = [], dt_printersLoading = False, dt_version = js ''1.0.0'', dt_info = None,
     dt_available = False, dt_checking = False, dt_downloading = False, dt_progress = Fin 0, dt_polling = False,
     dt_installing = None, dt_reports = [], dt_testing = False \<rparr>"

definition desktop_mount :: "jstr option \<Rightarrow> desktop_world" where
  "desktop_mount stored = asks Load_all (fresh_page (desktop_start stored))"

definition first_printer :: "printer_data \<Rightarrow> jstr" where
  "first_printer d =
     (if opt_default [] (snd d) \<noteq> [] then opt_default [] (snd d)
      else (case opt_default [] (fst d) of q # qs \<Rightarrow> fst q | [] \<Rightarrow> []))"

definition all_loaded :: "desktop_data \<Rightarrow> desktop_page \<Rightarrow> desktop_page" where
  "all_loaded d p =
     (let p1 = (case dd_autoStart d of Some b \<Rightarrow> p\<lparr>dt_autoStart := b\<rparr> | None \<Rightarrow> p);
          p2 = (case dd_printers d of
              Some q \<Rightarrow> p1\<lparr> dt_printers := opt_default [] (fst q), dt_default := opt_default [] (snd q),
                dt_selected := first_printer q, dt_printersLoading := False \<rparr>
            | None \<Rightarrow> p1);
          p3 = (case dd_version d of Some v \<Rightarrow> p2\<lparr>dt_version := v\<rparr> | None \<Rightarrow> p2)
      in (case dd_reports d of Some r \<Rightarrow> p3\<lparr>dt_reports := opt_default [] r\<rparr> | None \<Rightarrow> p3))"

definition toggleAutoStart :: "desktop_world \<Rightarrow> desktop_world" where
  "toggleAutoStart W = asks (Set_autoStart (\<not> dt_autoStart (pw_page W))) (turns (\<lambda>p. p\<lparr>dt_autoLoading := True\<rparr>) W)"

definition autoStart_set :: "bool \<Rightarrow> unit + thrown \<Rightarrow> desktop_world \<Rightarrow> desktop_world" where
  "autoStart_set b a W = turns (\<lambda>p. p\<lparr>dt_autoLoading := False\<rparr>) (case a of
     Inl u \<Rightarrow> tells [Says (if b then [1578, 1605, 32, 1578, 1601, 1593, 1610, 1604,
       32, 1575, 1604, 1578, 1588, 1594, 1610, 1604, 32,
  1575, 1604, 1578, 1604, 1602, 1575, 1574, 1610, 32, 9989] else [1578, 1605, 32, 1573, 1604,
    1594, 1575, 1569, 32, 1575, 1604, 1578, 1588, 1594, 1610, 1604, 32,
  1575, 1604, 1578, 1604, 1602, 1575, 1574, 1610]) T_success]
       (turns (\<lambda>p. p\<lparr>dt_autoStart := b\<rparr>) W)
   | Inr e \<Rightarrow> tells [Says [1601, 1588, 1604, 32, 1578, 1594, 1610, 1610, 1585, 32,
     1573, 1593, 1583, 1575, 1583, 32, 1575,
  1604, 1578, 1588, 1594, 1610, 1604, 32, 1575, 1604, 1578, 1604, 1602, 1575, 1574,
    1610] T_error] W)"

text \<open>The closure keeps the printer that was selected.\<close>

definition refreshPrinters :: "desktop_world \<Rightarrow> desktop_world" where
  "refreshPrinters W = asks (Get_printers (dt_selected (pw_page W))) (turns (\<lambda>p. p\<lparr>dt_printersLoading := True\<rparr>) W)"

definition printers_got :: "jstr \<Rightarrow> printer_data + thrown \<Rightarrow> desktop_page \<Rightarrow> desktop_page" where
  "printers_got selected a p = (case a of
     Inl d \<Rightarrow> (let q = p\<lparr> dt_printers := opt_default [] (fst d), dt_default := opt_default [] (snd d), dt_printersLoading := False \<rparr>
       in if selected \<in> fst ` set (opt_default [] (fst d)) then q else q\<lparr>dt_selected := first_printer d\<rparr>)
   | Inr e \<Rightarrow> p\<lparr>dt_printersLoading := False\<rparr>)"

definition testPrinter :: "desktop_world \<Rightarrow> desktop_world" where
  "testPrinter W = (let s = dt_selected (pw_page W) in
     if s = [] then tells [Says [1575, 1582, 1578, 1585, 32, 1591, 1575, 1576, 1593, 1577, 32,
       1571, 1608, 1604, 1575, 1611] T_error] W
     else asks (Test_printer s) (turns (\<lambda>p. p\<lparr>dt_testing := True\<rparr>) W))"

definition printer_tested :: "unit + thrown \<Rightarrow> desktop_world \<Rightarrow> desktop_world" where
  "printer_tested a W = turns (\<lambda>p. p\<lparr>dt_testing := False\<rparr>) (case a of
     Inl u \<Rightarrow> tells [Says [1578, 1605, 32, 1573, 1585, 1587, 1575, 1604, 32, 1589,
       1601, 1581, 1577, 32, 1575, 1604, 1575,
  1582, 1578, 1576, 1575, 1585, 32, 9989] T_success] W
   | Inr e \<Rightarrow> tells [Says [1601, 1588, 1604, 32, 1575, 1582, 1578, 1576, 1575, 1585,
     32, 1575, 1604, 1591, 1575, 1576,
  1593, 1577] T_error] W)"

definition desktop_checkForUpdates :: "desktop_world \<Rightarrow> desktop_world" where
  "desktop_checkForUpdates W = asks Check_updates (turns (\<lambda>p. p\<lparr>dt_checking := True\<rparr>) W)"

text \<open>The message of an error, or the text of what was thrown.\<close>

definition desktop_message :: "thrown \<Rightarrow> jstr" where
  "desktop_message e = (case e of Thrown_error m \<Rightarrow> m | Thrown_value v \<Rightarrow> js_string v)"

definition updates_checked :: "update_info option + thrown \<Rightarrow> desktop_world \<Rightarrow> desktop_world" where
  "updates_checked a W = (case a of
     Inl i \<Rightarrow> (let new = (case i of Some u \<Rightarrow> un_available u | None \<Rightarrow> False)
       in tells [if new then Says ([1578, 1581, 1583, 1610, 1579, 32, 1580, 1583, 1610, 1583, 32,
         1605, 1578, 1608, 1601, 1585, 58,
  32, 118] @ (case i of Some u \<Rightarrow> un_version u | None \<Rightarrow> [])) T_info
                 else Says [1571, 1606, 1578, 32, 1578, 1587, 1578, 1582, 1583, 1605, 32, 1571,
                   1581, 1583, 1579, 32, 1573,
  1589, 1583, 1575, 1585, 32, 9989] T_success]
         (turns (\<lambda>p. p\<lparr> dt_info := i, dt_available := new, dt_checking := False \<rparr>) W))
   | Inr e \<Rightarrow> turns (\<lambda>p. p\<lparr>dt_checking := False\<rparr>) (tells [Says ([1601, 1588, 1604, 32, 1601, 1581, 1589, 32, 1575, 1604, 1578, 1581, 1583, 1610, 1579, 1575,
  1578, 58, 32] @ desktop_message e) T_error] W))"

definition downloadUpdate :: "desktop_world \<Rightarrow> desktop_world" where
  "downloadUpdate W = (case dt_info (pw_page W) of
     Some u \<Rightarrow> if un_url u = [] then tells [Says [1585, 1575, 1576, 1591, 32, 1575,
       1604, 1578, 1581, 1583, 1610, 1579, 32, 1594, 1610, 1585, 32,
  1605, 1578, 1608, 1601, 1585] T_error] W
       else asks (Download_update (un_url u)) (tells [Says [1580, 1575, 1585, 1610, 32, 1578,
         1581, 1605, 1610, 1604, 32, 1575, 1604, 1578, 1581, 1583,
  1610, 1579, 46, 46, 46] T_info]
         (turns (\<lambda>p. p\<lparr> dt_downloading := True, dt_progress := Fin 0, dt_polling := True \<rparr>) W))
   | None \<Rightarrow> tells [Says [1585, 1575, 1576, 1591, 32, 1575, 1604, 1578, 1581, 1583,
     1610, 1579, 32, 1594, 1610, 1585, 32,
  1605, 1578, 1608, 1601, 1585] T_error] W)"

text \<open>A status without progress, or with the progress 0, changes nothing.\<close>

definition status_got :: "jsnum option + thrown \<Rightarrow> desktop_page \<Rightarrow> desktop_page" where
  "status_got a p = (case a of Inl (Some n) \<Rightarrow> if truthy n then p\<lparr>dt_progress := n\<rparr> else p | _ \<Rightarrow> p)"

definition update_failed :: "thrown \<Rightarrow> desktop_world \<Rightarrow> desktop_world" where
  "update_failed e W = turns (\<lambda>p. p\<lparr> dt_downloading := False, dt_progress := Fin 0, dt_polling := False \<rparr>)
     (tells [Says ([1601, 1588, 1604, 32, 1575, 1604, 1578, 1581, 1583, 1610, 1579, 58,
       32] @ desktop_message e) T_error] W)"

text \<open>The installer is started a moment after the download.\<close>

definition update_downloaded :: "jstr + thrown \<Rightarrow> desktop_world \<Rightarrow> desktop_world" where
  "update_downloaded a W = (case a of
     Inl path \<Rightarrow> tells [Says [1578, 1605, 32, 1575, 1604, 1578, 1581, 1605, 1610,
       1604, 33, 32, 1580, 1575, 1585, 1610, 32,
  1575, 1604, 1578, 1579, 1576, 1610, 1578, 46, 46, 46, 32, 40, 1587, 1610, 1615, 1593, 1575,
  1583, 32, 1578, 1588, 1594, 1610, 1604, 32, 1575, 1604, 1578, 1591, 1576, 1610, 1602, 41] T_info]
       (turns (\<lambda>p. p\<lparr> dt_polling := False, dt_progress := Fin 100, dt_installing := Some path \<rparr>) W)
   | Inr e \<Rightarrow> update_failed e W)"

definition install_started :: "unit + thrown \<Rightarrow> desktop_world \<Rightarrow> desktop_world" where
  "install_started a W = (case a of Inl u \<Rightarrow> W | Inr e \<Rightarrow> update_failed e W)"

definition reports_cleared :: "unit + thrown \<Rightarrow> desktop_world \<Rightarrow> desktop_world" where
  "reports_cleared a W = (case a of
     Inl u \<Rightarrow> tells [Says [1578, 1605, 32, 1581, 1584, 1601, 32, 1575, 1604, 1578,
       1602, 1575, 1585, 1610,
       1585] T_success] (turns (\<lambda>p. p\<lparr>dt_reports := []\<rparr>) W)
   | Inr e \<Rightarrow> tells [Says [1601, 1588, 1604, 32, 1581, 1584, 1601, 32, 1575, 1604,
     1578, 1602, 1575, 1585, 1610, 1585] T_error] W)"

definition toggleSimulatePrint :: "desktop_world \<Rightarrow> desktop_world" where
  "toggleSimulatePrint W = (let b = (\<not> dt_simulate (pw_page W))
     in tells [Says (if b then [1578, 1605, 32, 1578, 1601, 1593, 1610, 1604, 32, 1608, 1590,
       1593, 32, 1605, 1581, 1575, 1603,
  1575, 1577, 32, 1575, 1604, 1591, 1576, 1575, 1593, 1577] else [1578, 1605, 32, 1578, 1593,
    1591, 1610, 1604, 32, 1608, 1590, 1593, 32, 1605, 1581, 1575, 1603,
  1575, 1577, 32, 1575, 1604, 1591, 1576, 1575, 1593, 1577]) T_success]
       (turns (\<lambda>p. p\<lparr> dt_simulate := b, dt_stored := Some (js_string (JBool b)) \<rparr>) W))"

datatype desktop_answer =
    Data_answer desktop_data
  | Desktop_done "unit + thrown"
  | Printers_answer "printer_data + thrown"
  | Update_answer "update_info option + thrown"
  | Path_answer "jstr + thrown"
  | Status_answer "jsnum option + thrown"

definition desktop_answered :: "desktop_answer \<Rightarrow> desktop_request \<Rightarrow> desktop_world \<Rightarrow> desktop_world" where
  "desktop_answered a r W = (case (r, a) of
     (Load_all, Data_answer d) \<Rightarrow> turns (all_loaded d) W
   | (Set_autoStart b, Desktop_done x) \<Rightarrow> autoStart_set b x W
   | (Get_printers s, Printers_answer x) \<Rightarrow> turns (printers_got s x) W
   | (Test_printer s, Desktop_done x) \<Rightarrow> printer_tested x W
   | (Check_updates, Update_answer x) \<Rightarrow> updates_checked x W
   | (Download_update u, Path_answer x) \<Rightarrow> update_downloaded x W
   | (Get_status, Status_answer x) \<Rightarrow> turns (status_got x) W
   | (Install_update t, Desktop_done x) \<Rightarrow> install_started x W
   | (Clear_reports, Desktop_done x) \<Rightarrow> reports_cleared x W
   | _ \<Rightarrow> W)"

definition desktop_kind :: "desktop_request \<Rightarrow> desktop_answer \<Rightarrow> bool" where
  "desktop_kind r a = (case (r, a) of
     (Load_all, Data_answer d) \<Rightarrow> True | (Set_autoStart b, Desktop_done x) \<Rightarrow> True | (Get_printers s, Printers_answer x) \<Rightarrow> True
   | (Test_printer s, Desktop_done x) \<Rightarrow> True | (Check_updates, Update_answer x) \<Rightarrow> True | (Download_update u, Path_answer x) \<Rightarrow> True
   | (Get_status, Status_answer x) \<Rightarrow> True | (Install_update t, Desktop_done x) \<Rightarrow> True | (Clear_reports, Desktop_done x) \<Rightarrow> True
   | _ \<Rightarrow> False)"

datatype desktop_event =
    AutoStart_click
  | Simulate_click
  | Refresh_click
  | Select_printer jstr
  | Test_click
  | Check_click
  | Download_click_update
  | Poll_tick
  | Install_due
  | Clear_click bool
  | Desktop_answered nat desktop_answer

definition update_offered :: "desktop_page \<Rightarrow> bool" where
  "update_offered p = (dt_available p \<and> dt_info p \<noteq> None)"

definition desktop_step :: "desktop_world \<Rightarrow> desktop_event \<Rightarrow> desktop_world" where
  "desktop_step W e = (let p = pw_page W in case e of
     AutoStart_click \<Rightarrow> if dt_autoLoading p then W else toggleAutoStart W
   | Simulate_click \<Rightarrow> toggleSimulatePrint W
   | Refresh_click \<Rightarrow> refreshPrinters W
   | Select_printer s \<Rightarrow> if \<not> dt_printersLoading p \<and> s \<in> fst ` set (dt_printers p) then turns (\<lambda>p. p\<lparr>dt_selected := s\<rparr>) W else W
   | Test_click \<Rightarrow> if dt_testing p \<or> dt_selected p = [] then W else testPrinter W
   | Check_click \<Rightarrow> if update_offered p \<or> dt_checking p then W else desktop_checkForUpdates W
   | Download_click_update \<Rightarrow> if update_offered p \<and> \<not> dt_downloading p then downloadUpdate W else W
   | Poll_tick \<Rightarrow> if dt_polling p then asks Get_status W else W
   | Install_due \<Rightarrow> (case dt_installing p of Some t \<Rightarrow> asks (Install_update t) (turns (\<lambda>p. p\<lparr>dt_installing := None\<rparr>) W) | None \<Rightarrow> W)
   | Clear_click confirmed \<Rightarrow> if dt_reports p \<noteq> [] \<and> confirmed then asks Clear_reports W else W
   | Desktop_answered k a \<Rightarrow> if k < length (pw_open W) \<and> desktop_kind (pw_open W ! k) a then answers k (desktop_answered a) W else W)"

section \<open>One download at a time\<close>

definition is_download :: "desktop_request \<Rightarrow> bool" where
  "is_download r = (case r of Download_update u \<Rightarrow> True | Install_update t \<Rightarrow> True | _ \<Rightarrow> False)"

lemma is_download_simps [simp]:
  "\<not> is_download Load_all" "\<not> is_download (Set_autoStart b)" "\<not> is_download (Get_printers s)" "\<not> is_download (Test_printer s)"
  "\<not> is_download Check_updates" "is_download (Download_update u)" "\<not> is_download Get_status" "is_download (Install_update t)"
  "\<not> is_download Clear_reports"
  by (simp_all add: is_download_def)

text \<open>What of a page matters for a download.\<close>

definition download_view :: "desktop_world \<Rightarrow> bool \<times> bool \<times> jstr option \<times> desktop_request list" where
  "download_view W = (dt_downloading (pw_page W), dt_polling (pw_page W), dt_installing (pw_page W), filter is_download (pw_open W))"

text \<open>While nothing is downloaded nothing of a download is under way; otherwise at most one thing is.\<close>

definition download_ok :: "nat \<Rightarrow> desktop_world \<Rightarrow> bool" where
  "download_ok n W = (case download_view W of (downloading, polling, installing, os) \<Rightarrow>
     n + length os + of_bool (installing \<noteq> None) \<le> of_bool downloading \<and> (polling \<longrightarrow> downloading))"

lemma download_ok_view: "download_view W' = download_view W \<Longrightarrow> download_ok n W' = download_ok n W"
  by (simp add: download_ok_def)

lemma view_loaded: "download_view (turns (all_loaded d) W) = download_view W"
  by (simp add: download_view_def all_loaded_def Let_def split: option.split)

lemma view_desktop:
  "download_view (autoStart_set b x W) = download_view W" "download_view (turns (printers_got s y) W) = download_view W"
  "download_view (printer_tested x W) = download_view W" "download_view (updates_checked z W) = download_view W"
  "download_view (turns (status_got w) W) = download_view W" "download_view (reports_cleared x W) = download_view W"
  by (auto simp: download_view_def autoStart_set_def printers_got_def printer_tested_def updates_checked_def status_got_def
      reports_cleared_def Let_def split: sum.split option.split)

lemma view_clicks:
  "download_view (toggleAutoStart W) = download_view W" "download_view (toggleSimulatePrint W) = download_view W"
  "download_view (refreshPrinters W) = download_view W" "download_view (testPrinter W) = download_view W"
  "download_view (desktop_checkForUpdates W) = download_view W" "download_view (turns (\<lambda>p. p\<lparr>dt_selected := s\<rparr>) W) = download_view W"
  "download_view (asks Get_status W) = download_view W" "download_view (asks Clear_reports W) = download_view W"
  by (simp_all add: download_view_def toggleAutoStart_def toggleSimulatePrint_def refreshPrinters_def testPrinter_def
      desktop_checkForUpdates_def Let_def)

lemma failed_ok: "download_ok 1 W \<Longrightarrow> download_ok 0 (update_failed e W)"
  by (auto simp: download_ok_def download_view_def update_failed_def of_bool_def split: if_splits)

lemma downloaded_ok: "download_ok 1 W \<Longrightarrow> download_ok 0 (update_downloaded x W)"
proof (cases x)
  case (Inl t)
  assume "download_ok 1 W"
  then show ?thesis
    by (auto simp: Inl download_ok_def download_view_def update_downloaded_def of_bool_def split: if_splits)
qed (simp add: update_downloaded_def failed_ok)

lemma install_ok: "download_ok 1 W \<Longrightarrow> download_ok 0 (install_started x W)"
  by (cases x) (simp_all add: install_started_def failed_ok, simp add: download_ok_def download_view_def)

lemma desktop_answered_ok:
  assumes "download_ok (of_bool (is_download r)) W" and "desktop_kind r a"
  shows "download_ok 0 (desktop_answered a r W)"
proof (cases "is_download r")
  case False
  have "download_view (desktop_answered a r W) = download_view W"
    using False assms(2) by (cases r; cases a) (simp_all add: desktop_answered_def desktop_kind_def view_loaded view_desktop)
  then have "download_ok 0 (desktop_answered a r W) = download_ok 0 W" by (rule download_ok_view)
  then show ?thesis using assms(1) False by simp
next
  case True
  with assms(1) have "download_ok 1 W" by simp
  then show ?thesis using True assms(2)
    by (cases r; cases a) (simp_all add: desktop_answered_def desktop_kind_def downloaded_ok install_ok)
qed

interpretation desktop: machine desktop_step "download_ok 0" "\<lambda>_. True"
proof
  fix W e
  assume inv: "download_ok 0 W"
  show "download_ok 0 (desktop_step W e)"
  proof (cases e)
    case Download_click_update
    with inv show ?thesis
      by (auto simp: desktop_step_def Let_def downloadUpdate_def download_ok_def download_view_def update_offered_def of_bool_def split: option.splits if_splits)
  next
    case Install_due
    with inv show ?thesis
      by (auto simp: desktop_step_def Let_def download_ok_def download_view_def of_bool_def split: option.splits if_splits)
  next
    case (Desktop_answered k a)
    show ?thesis
    proof (cases "k < length (pw_open W) \<and> desktop_kind (pw_open W ! k) a")
      case True
      with inv filter_nth [of k "pw_open W" is_download]
      have "download_ok (of_bool (is_download (pw_open W ! k))) (W\<lparr>pw_open := take k (pw_open W) @ drop (Suc k) (pw_open W)\<rparr>)"
        by (simp add: download_ok_def download_view_def)
      with True Desktop_answered show ?thesis by (simp add: desktop_step_def answers_def desktop_answered_ok Let_def)
    qed (use inv Desktop_answered in \<open>auto simp: desktop_step_def Let_def\<close>)
  qed (use inv in \<open>simp_all add: desktop_step_def Let_def view_clicks [THEN download_ok_view]\<close>)
qed

text \<open>C37. In every run of the desktop panel at most one download or installation of an update is under way, and none while
  the panel does not show one.\<close>

theorem one_update_at_a_time:
  "let W = run desktop_step (desktop_mount stored) es
   in length (filter is_download (pw_open W)) \<le> of_bool (dt_downloading (pw_page W))"
  using desktop.run_inv [of "desktop_mount stored" es]
  by (simp add: download_ok_def download_view_def desktop_mount_def desktop_start_def Let_def)

text \<open>A status that was asked for before the end may set the progress back after it.\<close>

lemma progress_set_back:
  assumes "pw_open W = [Download_update u, Get_status]" "truthy n"
  shows "dt_progress (pw_page (run desktop_step W
      [Desktop_answered 0 (Path_answer (Inl path)), Desktop_answered 0 (Status_answer (Inl (Some n)))])) = n"
  using assms by (simp add: desktop_step_def answers_def desktop_kind_def desktop_answered_def update_downloaded_def status_got_def Let_def)

text \<open>A printer selected while the list is refreshed is replaced when the one selected before has gone.\<close>

lemma selection_replaced:
  assumes "pw_open W = []" "s \<notin> fst ` set ps" "dt_selected (pw_page W) = s" "ps \<noteq> []"
  shows "dt_selected (pw_page (run desktop_step W [Refresh_click, Desktop_answered 0 (Printers_answer (Inl (Some ps, None)))])) = fst (hd ps)"
  using assms by (cases ps) (auto simp: desktop_step_def refreshPrinters_def answers_def desktop_kind_def desktop_answered_def printers_got_def
      first_printer_def opt_default_def Let_def)

end
