(* ===== verification/Charts.thy ===== *)
theory Charts
  imports Reports
begin

text \<open>
  The charts (\<open>components/charts.tsx\<close>): the geometry of the area chart of sales, with its labels, tooltip and the index
  that is hovered, and the slices and legend of the donut. A chart is a record of what is drawn, with the coordinates as
  binary64 numbers and the paths as texts; colours of the area chart, filters and sizes of strokes are left out.
  \<open>num\<close> is \<open>toLocaleString\<close> of a number.
\<close>

section \<open>A smooth path\<close>

type_synonym chart_point = "jsnum \<times> jsnum"

definition comma_point :: "jsnum \<Rightarrow> jsnum \<Rightarrow> jstr" where
  "comma_point x y = num_to_string x @ js '','' @ num_to_string y"

text \<open>The two control points in front of point \<open>i + 1\<close>.\<close>

definition control_points :: "chart_point list \<Rightarrow> nat \<Rightarrow> chart_point \<times> chart_point" where
  "control_points ps i =
     (let (x0, y0) = (if 0 < i then ps ! (i - 1) else ps ! 0);
          (x1, y1) = ps ! i;
          (x2, y2) = ps ! (i + 1);
          (x3, y3) = (if i \<noteq> length ps - 2 then ps ! (i + 2) else (x2, y2))
      in ((x1 + (x2 - x0) / Fin 6, y1 + (y2 - y0) / Fin 6), (x2 - (x3 - x1) / Fin 6, y2 - (y3 - y1) / Fin 6)))"

definition curve_part :: "chart_point list \<Rightarrow> nat \<Rightarrow> jstr" where
  "curve_part ps i = (case control_points ps i of ((cp1x, cp1y), (cp2x, cp2y)) \<Rightarrow>
     js '' C '' @ comma_point cp1x cp1y @ js '' '' @ comma_point cp2x cp2y @ js '' ''
       @ comma_point (fst (ps ! (i + 1))) (snd (ps ! (i + 1))))"

definition getPath :: "chart_point list \<Rightarrow> jsnum \<Rightarrow> jstr" where
  "getPath ps height = (case ps of
     [] \<Rightarrow> []
   | [(x, y)] \<Rightarrow> js ''M 0,'' @ num_to_string height @ js '' L '' @ comma_point x y @ js '' L 1000,'' @ num_to_string height
   | (x, y) # _ \<Rightarrow> js ''M '' @ comma_point x y @ concat (map (curve_part ps) [0..<length ps - 1]))"

section \<open>The chart of sales\<close>

type_synonym chart_datum = "jstr \<times> jsnum \<times> jstr"

record area_chart =
  ac_axis :: "(jsnum \<times> jstr) list"
  ac_path :: jstr
  ac_fill :: jstr
  ac_points :: "chart_point list"
  ac_labels :: "(jsnum \<times> jstr) list"
  ac_hoverLine :: "jsnum option"
  ac_tooltip :: "(jstr \<times> jstr) option"

definition safeData :: "chart_datum list \<Rightarrow> chart_datum list" where
  "safeData data = (if data \<noteq> [] then data else replicate 7 (js ''-'', Fin 0, js ''0''))"

definition chart_value_of :: "chart_datum \<Rightarrow> jsnum" where
  "chart_value_of d = fst (snd d)"

definition maxVal :: "chart_datum list \<Rightarrow> jsnum" where
  "maxVal ds = num_or (foldl js_max NInf (map chart_value_of ds) * rnd (115 / 100)) (Fin 100)"

definition chart_x :: "nat \<Rightarrow> nat \<Rightarrow> jsnum" where
  "chart_x n i = Fin 50 + (jint (int i) / js_max (Fin 1) (jint (int n - 1))) * Fin 930"

definition chart_y :: "jsnum \<Rightarrow> jsnum \<Rightarrow> jsnum" where
  "chart_y peak v = (Fin 20 + Fin 270) - ((v - Fin 0) / (peak - Fin 0)) * Fin 270"

definition chart_points :: "chart_datum list \<Rightarrow> chart_point list" where
  "chart_points ds = map (\<lambda>(i, d). (chart_x (length ds) i, chart_y (maxVal ds) (chart_value_of d))) (zip [0..<length ds] ds)"

definition axis_label :: "jsnum \<Rightarrow> jstr" where
  "axis_label v = (if Fin 1000000 \<le> v then to_fixed 1 (v / Fin 1000000) @ js ''M''
     else if Fin 1000 \<le> v then to_fixed 0 (v / Fin 1000) @ js ''K'' else to_fixed 0 v)"

definition yAxisLabels :: "jsnum \<Rightarrow> (jsnum \<times> jstr) list" where
  "yAxisLabels peak = map (\<lambda>v. ((Fin 20 + Fin 270) - (v / peak) * Fin 270, axis_label v))
     [Fin 0, peak * Fin (1 / 4), peak * Fin (1 / 2), peak * Fin (3 / 4), peak]"

text \<open>\<open>None\<close> is an exception: the line of the hovered point has no guard, the tooltip has one.\<close>

definition SalesAreaChart :: "chart_datum list \<Rightarrow> nat option \<Rightarrow> area_chart option" where
  "SalesAreaChart data hoveredIndex =
     (let ds = safeData data; ps = chart_points ds
      in if (case hoveredIndex of Some i \<Rightarrow> length ps \<le> i | None \<Rightarrow> False) then None
         else Some \<lparr> ac_axis = yAxisLabels (maxVal ds),
           ac_path = getPath ps (Fin 350),
           ac_fill = getPath ps (Fin 350) @ js '' L 980,290 L 50,290 Z'',
           ac_points = ps,
           ac_labels = map (\<lambda>(i, d). (chart_x (length ds) i, fst d)) (zip [0..<length ds] ds),
           ac_hoverLine = map_option (\<lambda>i. fst (ps ! i)) hoveredIndex,
           ac_tooltip = map_option (\<lambda>i. (fst (ds ! i), snd (snd (ds ! i)))) hoveredIndex \<rparr>)"

datatype chart_event = Hover_point nat | Leave_chart

definition chart_hover :: "chart_event \<Rightarrow> nat option" where
  "chart_hover e = (case e of Hover_point i \<Rightarrow> Some i | Leave_chart \<Rightarrow> None)"

section \<open>The donut\<close>

type_synonym donut_datum = "jstr \<times> jsnum"

record donut_slice =
  ds_color :: jstr
  ds_dash :: jstr
  ds_offset :: jsnum
  ds_title :: jstr

record donut =
  do_slices :: "donut_slice list"
  do_total :: jstr
  do_legend :: "(jstr \<times> jstr \<times> jstr) list"

definition donut_total :: "donut_datum list \<Rightarrow> jsnum" where
  "donut_total data = js_sum (Fin 0) (map snd data)"

definition donut_palette :: "jstr list" where
  "donut_palette = [js ''var(--color-primary)'', js ''var(--color-success)'', js ''var(--color-warning)'', js ''var(--color-danger)'',
     js ''var(--color-info)'', js ''#64748b'']"

definition sliceColor :: "nat \<Rightarrow> jstr" where
  "sliceColor i = donut_palette ! (i mod length donut_palette)"

definition circumference :: jsnum where
  "circumference = rnd (10053 / 100)"

definition donut_gap :: "donut_datum list \<Rightarrow> jsnum" where
  "donut_gap data = (if 1 < length data then rnd (15 / 1000) else Fin 0)"

definition slice_of :: "(jsnum \<Rightarrow> jstr) \<Rightarrow> jsnum \<Rightarrow> jsnum \<Rightarrow> jsnum \<Rightarrow> nat \<Rightarrow> donut_datum \<Rightarrow> donut_slice" where
  "slice_of num whole gap before i d =
     (let drawn = js_max (Fin 0) (snd d / whole - gap) * circumference
      in \<lparr> ds_color = sliceColor i, ds_dash = num_to_string drawn @ js '' '' @ num_to_string (circumference - drawn),
           ds_offset = rnd (2513 / 100) - before * circumference, ds_title = fst d @ js '': '' @ num (snd d) \<rparr>)"

fun donut_slices :: "(jsnum \<Rightarrow> jstr) \<Rightarrow> jsnum \<Rightarrow> jsnum \<Rightarrow> jsnum \<Rightarrow> (nat \<times> donut_datum) list \<Rightarrow> donut_slice list" where
  "donut_slices num whole gap before [] = []"
| "donut_slices num whole gap before ((i, d) # ds) =
     (if snd d = Fin 0 then donut_slices num whole gap before ds
      else slice_of num whole gap before i d # donut_slices num whole gap (before + snd d / whole) ds)"

definition donut_legend :: "jsnum \<Rightarrow> donut_datum list \<Rightarrow> (jstr \<times> jstr \<times> jstr) list" where
  "donut_legend whole data =
     (let shown = filter (\<lambda>d. Fin 0 < snd d) data
      in map (\<lambda>(i, d). (sliceColor i, fst d, num_to_string (js_round ((snd d / whole) * Fin 100)) @ js ''%''))
        (zip [0..<length shown] shown))"

text \<open>\<open>None\<close> is the circle without data.\<close>

definition DonutChart :: "(jsnum \<Rightarrow> jstr) \<Rightarrow> donut_datum list \<Rightarrow> donut option" where
  "DonutChart num data =
     (let whole = donut_total data
      in if whole = Fin 0 then None
         else Some \<lparr> do_slices = donut_slices num whole (donut_gap data) (Fin 0) (zip [0..<length data] data),
           do_total = num whole, do_legend = donut_legend whole data \<rparr>)"
section \<open>The points lie in the frame\<close>

text \<open>A value that is drawn: a number of the amount a shop may take.\<close>

definition drawable :: "jsnum \<Rightarrow> bool" where
  "drawable v = (case v of Fin x \<Rightarrow> rnd x = Fin x \<and> 0 \<le> x \<and> x \<le> 10 ^ 15 | _ \<Rightarrow> False)"

lemma drawableE: "drawable v \<Longrightarrow> \<exists>x. v = Fin x \<and> rnd x = Fin x \<and> 0 \<le> x \<and> x \<le> 10 ^ 15"
  by (cases v) (auto simp: drawable_def)

lemma between_rnd:
  assumes "a \<le> x" "x \<le> b" "rnd a = Fin a" "rnd b = Fin b"
  shows "\<exists>y. rnd x = Fin y \<and> a \<le> y \<and> y \<le> b"
  using rnd_mono [OF assms(1)] rnd_mono [OF assms(2)] assms(3, 4) by (cases "rnd x") auto

lemma rnd_small: "n \<le> 1000 \<Longrightarrow> rnd (of_nat n) = Fin (of_nat n)"
  using rnd_int [of "int n"] by simp

text \<open>A part of the whole, rounded, and its height.\<close>

lemma part_rnd:
  assumes "0 \<le> v" "v \<le> m" "0 < m"
  shows "\<exists>q. rnd (v / m) = Fin q \<and> 0 \<le> q \<and> q \<le> 1"
  by (rule between_rnd [of 0 "v / m" 1]) (use assms rnd_small [of 1] in auto)

lemma scaled_rnd:
  assumes "0 \<le> q" "q \<le> 1" "n \<le> 1000"
  shows "\<exists>h. rnd (q * of_nat n) = Fin h \<and> 0 \<le> h \<and> h \<le> of_nat n"
  by (rule between_rnd) (use assms rnd_small [of n] mult_right_mono [of q 1 "of_nat n :: rat"] in auto)

lemma chart_x_frame:
  assumes "i < n"
  shows "Fin 50 \<le> chart_x n i \<and> chart_x n i \<le> Fin 980"
proof -
  let ?m = "max 1 (rat_of_int (int n - 1))"
  have "rat_of_nat i \<le> ?m" using assms by linarith
  then obtain q where q: "rnd (of_nat i / ?m) = Fin q" "0 \<le> q" "q \<le> 1" using part_rnd [of "of_nat i" ?m] by (auto simp: less_max_iff_disj)
  then obtain h where h: "rnd (q * of_nat 930) = Fin h" "0 \<le> h" "h \<le> of_nat 930" using scaled_rnd [of q 930] by auto
  have "\<exists>y. rnd (50 + h) = Fin y \<and> 50 \<le> y \<and> y \<le> 980"
    by (rule between_rnd) (use h rnd_small [of 50] rnd_small [of 980] in auto)
  then show ?thesis using q h by (auto simp: chart_x_def js_max_Fin)
qed

text \<open>The greatest value and what is added on top of it.\<close>

lemma greatest_drawable:
  assumes "list_all drawable vs" "vs \<noteq> []"
  shows "\<exists>m. foldl js_max NInf vs = Fin m \<and> rnd m = Fin m \<and> 0 \<le> m \<and> m \<le> 10 ^ 15 \<and> (\<forall>v\<in>set vs. v \<le> Fin m)"
  using assms
proof (induction vs rule: rev_induct)
  case (snoc v vs)
  obtain x where x: "v = Fin x" "rnd x = Fin x" "0 \<le> x" "x \<le> 10 ^ 15" using drawableE [of v] snoc.prems(1) by auto
  show ?case
  proof (cases "vs = []")
    case True
    then show ?thesis using x by (simp add: js_max_def)
  next
    case False
    then obtain m where "foldl js_max NInf vs = Fin m" "rnd m = Fin m" "0 \<le> m" "m \<le> 10 ^ 15" "\<forall>v\<in>set vs. v \<le> Fin m"
      using snoc by auto
    then show ?thesis using x by (intro exI [of _ "max m x"]) (auto simp: js_max_Fin max_def intro: js_le_trans)
  qed
qed simp

lemma lift_bounds: "\<exists>c. rnd (115 / 100) = Fin c \<and> 1 \<le> c \<and> c \<le> 2"
  by (rule between_rnd) (use rnd_small [of 1] rnd_small [of 2] in auto)

lemma maxVal_bounds:
  assumes "list_all (\<lambda>d. drawable (chart_value_of d)) ds" "ds \<noteq> []"
  shows "\<exists>p. maxVal ds = Fin p \<and> rnd p = Fin p \<and> 0 < p \<and> (\<forall>d\<in>set ds. \<exists>x. chart_value_of d = Fin x \<and> rnd x = Fin x \<and> 0 \<le> x \<and> x \<le> p)"
proof -
  obtain m where m: "foldl js_max NInf (map chart_value_of ds) = Fin m" "rnd m = Fin m" "0 \<le> m" "m \<le> 10 ^ 15"
    "\<forall>d\<in>set ds. chart_value_of d \<le> Fin m"
    using greatest_drawable [of "map chart_value_of ds"] assms by (auto simp: list.pred_map o_def)
  obtain c where c: "rnd (115 / 100) = Fin c" "1 \<le> c" "c \<le> 2" using lift_bounds by blast
  have "m * 1 \<le> m * c" "m * c \<le> (10 ^ 15) * 2" 
    using mult_left_mono [of 1 c m] mult_mono [of m "10 ^ 15" c 2] c m by auto
  then have "\<exists>p. rnd (m * c) = Fin p \<and> m \<le> p \<and> p \<le> 2 * 10 ^ 15"
    by (intro between_rnd) (use m rnd_int [of "2 * 10 ^ 15"] in auto)
  then obtain p where le: "rnd (m * c) = Fin p" "m \<le> p" by blast
  have "rnd p = Fin p" using js_wf_rnd [of "m * c"] unfolding le(1) by simp
  note p = le this
  have vals: "\<exists>x. chart_value_of d = Fin x \<and> rnd x = Fin x \<and> 0 \<le> x \<and> x \<le> m" if "d \<in> set ds" for d
    using that assms(1) m(5) drawableE [of "chart_value_of d"] by (auto simp: list_all_iff)
  show ?thesis
  proof (cases "p = 0")
    case True
    then have "maxVal ds = Fin 100" using m(1) c(1) p(1) by (simp add: maxVal_def num_or_def truthy_def)
    then show ?thesis using vals True p(2) rnd_small [of 100] by force
  next
    case False
    then have "maxVal ds = Fin p" using m(1) c(1) p(1) by (simp add: maxVal_def num_or_def truthy_def)
    then show ?thesis using vals False p(2, 3) m(3) by force
  qed
qed

lemma chart_y_fin:
  assumes "rnd p = Fin p" "rnd x = Fin x" "0 \<le> x" "x \<le> p" "0 < p"
  shows "\<exists>q h. rnd (x / p) = Fin q \<and> rnd (q * 270) = Fin h \<and> 0 \<le> h \<and> h \<le> 270 \<and> chart_y (Fin p) (Fin x) = rnd (290 - h)"
proof -
  obtain q where q: "rnd (x / p) = Fin q" "0 \<le> q" "q \<le> 1" using part_rnd [of x p] assms by auto
  then obtain h where "rnd (q * of_nat 270) = Fin h" "0 \<le> h" "h \<le> of_nat 270" using scaled_rnd [of q 270] by auto
  then show ?thesis using q assms rnd_small [of 290]
    by (auto simp: chart_y_def minus_jsnum_def)
qed

definition in_frame :: "chart_point \<Rightarrow> bool" where
  "in_frame p = (Fin 50 \<le> fst p \<and> fst p \<le> Fin 980 \<and> Fin 20 \<le> snd p \<and> snd p \<le> Fin 290)"

lemma chart_y_frame:
  assumes "rnd p = Fin p" "rnd x = Fin x" "0 \<le> x" "x \<le> p" "0 < p"
  shows "Fin 20 \<le> chart_y (Fin p) (Fin x) \<and> chart_y (Fin p) (Fin x) \<le> Fin 290"
proof -
  obtain h where "0 \<le> h" "h \<le> 270" "chart_y (Fin p) (Fin x) = rnd (290 - h)" using chart_y_fin [OF assms] by auto
  moreover have "\<exists>y. rnd (290 - h) = Fin y \<and> 20 \<le> y \<and> y \<le> 290" if "0 \<le> h" "h \<le> 270" for h :: rat
    by (rule between_rnd) (use that rnd_small [of 20] rnd_small [of 290] in auto)
  ultimately show ?thesis by fastforce
qed

lemma chart_y_mono:
  assumes "rnd p = Fin p" "rnd x = Fin x" "rnd z = Fin z" "0 \<le> x" "x \<le> z" "z \<le> p" "0 < p"
  shows "chart_y (Fin p) (Fin z) \<le> chart_y (Fin p) (Fin x)"
proof -
  have "x / p \<le> z / p" using assms by (simp add: divide_right_mono)
  then have le: "rnd (x / p) \<le> rnd (z / p)" by (rule rnd_mono)
  obtain q h where q: "rnd (x / p) = Fin q" "rnd (q * 270) = Fin h" "chart_y (Fin p) (Fin x) = rnd (290 - h)"
    using chart_y_fin [of p x] assms by auto
  obtain r k where k: "rnd (z / p) = Fin r" "rnd (r * 270) = Fin k" "chart_y (Fin p) (Fin z) = rnd (290 - k)"
    using chart_y_fin [of p z] assms by auto
  have "rnd (q * 270) \<le> rnd (r * 270)" using le q k by (intro rnd_mono) simp
  then show ?thesis using q k rnd_mono [of "290 - k" "290 - h"] by simp
qed

lemma chart_points_nth: "i < length ds \<Longrightarrow> chart_points ds ! i = (chart_x (length ds) i, chart_y (maxVal ds) (chart_value_of (ds ! i)))"
  by (simp add: chart_points_def)

lemma chart_points_length [simp]: "length (chart_points ds) = length ds"
  by (simp add: chart_points_def)

lemma safeData_drawable: "list_all (\<lambda>d. drawable (chart_value_of d)) data \<Longrightarrow> list_all (\<lambda>d. drawable (chart_value_of d)) (safeData data)"
  by (simp add: safeData_def drawable_def chart_value_of_def list_all_iff)

lemma safeData_some [simp]: "safeData data \<noteq> []"
  by (simp add: safeData_def)

text \<open>C38. Whatever amounts from nothing to a thousand millions of millions are drawn, every point lies in the frame between the
  axes, in spite of the rounding, and of two amounts the greater one is not drawn below the smaller one.\<close>

theorem chart_in_frame:
  assumes "list_all (\<lambda>d. drawable (chart_value_of d)) data"
  shows "let ds = safeData data; ps = chart_points ds
    in list_all in_frame ps \<and> (\<forall>i<length ds. \<forall>j<length ds. chart_value_of (ds ! i) \<le> chart_value_of (ds ! j)
      \<longrightarrow> snd (ps ! j) \<le> snd (ps ! i))"
proof -
  let ?ds = "safeData data"
  obtain p where p: "maxVal ?ds = Fin p" "rnd p = Fin p" "0 < p"
      "\<forall>d\<in>set ?ds. \<exists>x. chart_value_of d = Fin x \<and> rnd x = Fin x \<and> 0 \<le> x \<and> x \<le> p"
    using maxVal_bounds [OF safeData_drawable [OF assms] safeData_some] by blast
  have val: "\<exists>x. chart_value_of (?ds ! i) = Fin x \<and> rnd x = Fin x \<and> 0 \<le> x \<and> x \<le> p" if "i < length ?ds" for i
    using p(4) that nth_mem by blast
  have "in_frame (chart_points ?ds ! i)" if "i < length ?ds" for i
  proof -
    obtain x where "chart_value_of (?ds ! i) = Fin x" "rnd x = Fin x" "0 \<le> x" "x \<le> p"
      using val [OF \<open>i < length ?ds\<close>] by blast
    then show ?thesis using p chart_y_frame [of p x] chart_x_frame [OF that] that by (simp add: in_frame_def chart_points_nth)
  qed
  moreover have "snd (chart_points ?ds ! j) \<le> snd (chart_points ?ds ! i)"
    if "i < length ?ds" "j < length ?ds" "chart_value_of (?ds ! i) \<le> chart_value_of (?ds ! j)" for i j
  proof -
    obtain x where "chart_value_of (?ds ! i) = Fin x" "rnd x = Fin x" "0 \<le> x"
      using val [OF \<open>i < length ?ds\<close>] by blast
    moreover obtain z where "chart_value_of (?ds ! j) = Fin z" "rnd z = Fin z" "z \<le> p"
      using val [OF \<open>j < length ?ds\<close>] by blast
    ultimately show ?thesis using p chart_y_mono [of p x z] that by (simp add: chart_points_nth)
  qed
  ultimately show ?thesis by (auto simp: Let_def list_all_length)
qed

theorem chart_in_frame_witness:
  "let ds = safeData [(js ''Mon'', Fin 3, js ''3''), (js ''Tue'', Fin 5, js ''5'')]; ps = chart_points ds
   in list_all in_frame ps \<and> (\<forall>i<length ds. \<forall>j<length ds. chart_value_of (ds ! i) \<le> chart_value_of (ds ! j)
      \<longrightarrow> snd (ps ! j) \<le> snd (ps ! i))"
  by (rule chart_in_frame) (use rnd_small [of 3] rnd_small [of 5] in \<open>simp add: drawable_def chart_value_of_def\<close>)

text \<open>The curve between them may leave it: its second control point lies below the axis where the amounts begin to rise.\<close>

lemma curve_below_axis:
  "let ps = [(Fin 50, Fin 290), (Fin 515, Fin 290), (Fin 980, Fin 20)]
   in Fin 290 < snd (snd (control_points ps 0))"
  by (simp add: control_points_def minus_jsnum_def rnd_def rnd_rat_def) code_simp

text \<open>The line of a hovered point is drawn without a guard: the chart throws when the amounts become fewer.\<close>

lemma hover_breaks: "data \<noteq> [] \<Longrightarrow> length data \<le> i \<Longrightarrow> SalesAreaChart data (Some i) = None"
  by (simp add: SalesAreaChart_def safeData_def Let_def)

lemma chart_drawn: "SalesAreaChart data None \<noteq> None"
  by (simp add: SalesAreaChart_def Let_def)

section \<open>Colours of the donut\<close>

text \<open>Without a slice of nothing the legend has the colours of the slices, in their order.\<close>

lemma slices_colors:
  "\<forall>(i, d)\<in>set ids. Fin 0 < snd d \<Longrightarrow> map ds_color (donut_slices num w g b ids) = map (sliceColor \<circ> fst) ids"
  by (induction num w g b ids rule: donut_slices.induct) (auto simp: slice_of_def Let_def)

lemma legend_matches:
  assumes "list_all (\<lambda>d. Fin 0 < snd d) data" "DonutChart num data = Some c"
  shows "map fst (do_legend c) = map ds_color (do_slices c)"
proof -
  have "filter (\<lambda>d. Fin 0 < snd d) data = data" using assms(1) by (simp add: list_all_iff)
  moreover have "\<forall>(i, d)\<in>set (zip [0..<length data] data). Fin 0 < snd d"
    using assms(1) by (auto simp: list_all_iff dest: set_zip_rightD)
  ultimately show ?thesis using assms(2)
    by (auto simp: DonutChart_def Let_def donut_legend_def slices_colors o_def split_def split: if_splits)
qed

text \<open>With one the legend counts the slices anew: the colours of what follows are those of other slices.\<close>

lemma legend_shifted:
  "let data = [(a, Fin 0), (b, Fin 1)] in
   map_option (map ds_color \<circ> do_slices) (DonutChart num data) = Some [js ''var(--color-success)'']
    \<and> map_option (map fst \<circ> do_legend) (DonutChart num data) = Some [js ''var(--color-primary)'']"
  using rnd_small [of 1]
  by (simp add: DonutChart_def Let_def donut_total_def donut_legend_def slice_of_def sliceColor_def donut_palette_def upt_rec)

end
