(* ===== verification/Views.thy ===== *)
theory Views
  imports Money Machines
begin

text \<open>
  The elements that the pages are built of, as records of what they show: cards of figures (\<open>components/blocks/StatsGrid.tsx\<close>),
  tables (\<open>components/shared/DataTable.tsx\<close>), and from \<open>components/ui.tsx\<close> badges, bars, numbers that move to their value and the
  detection of scanned codes. Classes of styles are left out, but for the colour that tells a state. The library of tables
  is a parameter: which rows of the data it shows on the page.
\<close>

section \<open>Figures\<close>

datatype stat_color = Emerald | Blue | Red | Orange | Purple | Amber | Primary_color

datatype tone = Tone_success | Tone_primary | Tone_danger | Tone_warning | Tone_info | Tone_muted

definition colorMap :: "stat_color \<Rightarrow> tone" where
  "colorMap c = (case c of Emerald \<Rightarrow> Tone_success | Red \<Rightarrow> Tone_danger | Orange \<Rightarrow> Tone_warning | Amber \<Rightarrow> Tone_warning
     | _ \<Rightarrow> Tone_primary)"

record stat_card =
  sc_label :: jstr
  sc_value :: jstr
  sc_tone :: tone
  sc_subtitle :: "jstr option"

definition StatCard :: "jstr \<Rightarrow> jstr \<Rightarrow> stat_color \<Rightarrow> jstr \<Rightarrow> stat_card" where
  "StatCard label value color subtitle = \<lparr> sc_label = label, sc_value = value, sc_tone = colorMap color,
     sc_subtitle = (if subtitle = [] then None else Some subtitle) \<rparr>"

definition StatsGrid :: "bool \<Rightarrow> stat_card list \<Rightarrow> stat_card list option" where
  "StatsGrid visible cards = (if visible then Some cards else None)"

section \<open>Tables\<close>

record empty_state =
  em_icon :: bool
  em_title :: jstr
  em_description :: jstr

record 'c table_view =
  tv_rows :: "('c list \<times> tone option) list"
  tv_noResults :: "jstr option"
  tv_page :: jstr
  tv_pages :: jstr
  tv_pageSize :: nat
  tv_canPrevious :: bool
  tv_canNext :: bool

datatype 'c table_shown = Table_empty empty_state | Table_shown "'c table_view"

definition rowColorMap :: "jstr \<Rightarrow> tone option" where
  "rowColorMap c = map_of [(js ''emerald'', Tone_success), (js ''orange'', Tone_warning), (js ''red'', Tone_danger),
     (js ''default'', Tone_muted)] c"

text \<open>What the library knows of a table: the index and the size of the page, the number of pages, and the rows of the page.\<close>

record table_state =
  tb_pageIndex :: nat
  tb_pageSize :: nat
  tb_pageCount :: nat

definition no_results :: jstr where
  "no_results = [1604, 1575, 32, 1578, 1608, 1580, 1583, 32, 1606, 1578, 1575, 1574, 1580, 32,
    1605, 1591, 1575,
  1576, 1602, 1577, 32, 1604, 1576, 1581, 1579, 1603, 46]"

definition DataTable ::
  "(table_state \<Rightarrow> 'r list \<Rightarrow> 'r list) \<Rightarrow> ('r \<Rightarrow> 'c list) \<Rightarrow> ('r \<Rightarrow> jstr) option \<Rightarrow> empty_state \<Rightarrow> table_state \<Rightarrow> 'r list
     \<Rightarrow> 'c table_shown" where
  "DataTable page_rows cells getRowColor blank s data =
     (if data = [] then Table_empty blank
      else Table_shown \<lparr>
        tv_rows = map (\<lambda>r. (cells r, rowColorMap (case getRowColor of
            Some f \<Rightarrow> if f r = [] then js ''default'' else f r | None \<Rightarrow> js ''default''))) (page_rows s data),
        tv_noResults = (if page_rows s data = [] then Some no_results else None),
        tv_page = show_nat (tb_pageIndex s + 1),
        tv_pages = show_nat (if tb_pageCount s = 0 then 1 else tb_pageCount s),
        tv_pageSize = tb_pageSize s,
        tv_canPrevious = (0 < tb_pageIndex s),
        tv_canNext = (tb_pageIndex s + 1 < tb_pageCount s) \<rparr>)"

definition pageSizes :: "nat list" where
  "pageSizes = [10, 20, 30, 40, 50]"

text \<open>A page without rows has no buttons: there is no way back from it in the table.\<close>

lemma empty_page_stuck:
  "DataTable page_rows cells color blank (s\<lparr>tb_pageIndex := Suc k\<rparr>) [] = Table_empty blank"
  by (simp add: DataTable_def)

section \<open>Badges and bars\<close>

datatype badge_icon = Icon_check | Icon_triangle | Icon_cross | Icon_info

record badge =
  bd_tone :: tone
  bd_icon :: badge_icon
  bd_text :: jstr

definition badgeStyles :: "jstr \<Rightarrow> tone option" where
  "badgeStyles t = map_of [(js ''success'', Tone_success), (js ''error'', Tone_danger), (js ''warning'', Tone_warning),
     (js ''info'', Tone_primary), (js ''default'', Tone_muted), (js ''completed'', Tone_success), (js ''returned'', Tone_danger),
     (js ''pending'', Tone_warning)] t"

definition badge_icon_of :: "jstr \<Rightarrow> badge_icon" where
  "badge_icon_of t =
     (if str_includes t (js ''success'') \<or> t = js ''completed'' then Icon_check
      else if str_includes t (js ''warn'') \<or> t = js ''pending'' then Icon_triangle
      else if str_includes t (js ''err'') \<or> t = js ''returned'' then Icon_cross
      else Icon_info)"

definition Badge :: "jstr \<Rightarrow> jstr \<Rightarrow> badge" where
  "Badge t shown = \<lparr> bd_tone = opt_default Tone_primary (badgeStyles t), bd_icon = badge_icon_of t, bd_text = shown \<rparr>"

definition shimmer_width :: "jsnum \<Rightarrow> jstr" where
  "shimmer_width progress = num_to_string (js_min (Fin 100) progress) @ js ''%''"

definition shimmer_moves :: "jsnum \<Rightarrow> bool" where
  "shimmer_moves progress = (\<not> Fin 100 \<le> progress)"

section \<open>A number that moves\<close>

text \<open>\<open>pow\<close> is \<open>Math.pow(2, x)\<close>. An animation keeps where it starts, what is to be added, its first moment and its end.\<close>

record animation =
  am_start :: jsnum
  am_difference :: jsnum
  am_startTime :: jsnum
  am_value :: jsnum

record moving_number =
  mv_display :: jsnum
  mv_prev :: jsnum
  mv_running :: "animation option"

definition moving_start :: "jsnum \<Rightarrow> moving_number" where
  "moving_start v = \<lparr> mv_display = v, mv_prev = v, mv_running = None \<rparr>"

text \<open>The effect for a new value, after the one before was cleaned up.\<close>

definition moving_value :: "jsnum \<Rightarrow> jsnum \<Rightarrow> moving_number \<Rightarrow> moving_number" where
  "moving_value now v s =
     (let s = s\<lparr>mv_running := None\<rparr>; d = v - mv_prev s
      in if js_eq (mv_prev s) v then s
         else if js_abs d < Fin 1 then s\<lparr> mv_display := v, mv_prev := v \<rparr>
         else s\<lparr>mv_running := Some \<lparr> am_start = mv_prev s, am_difference = d, am_startTime = now, am_value = v \<rparr>\<rparr>)"

definition eased :: "(jsnum \<Rightarrow> jsnum) \<Rightarrow> jsnum \<Rightarrow> jsnum" where
  "eased pow progress = Fin 1 - pow (Fin (- 10) * progress)"

definition animate :: "(jsnum \<Rightarrow> jsnum) \<Rightarrow> jsnum \<Rightarrow> jsnum \<Rightarrow> moving_number \<Rightarrow> moving_number" where
  "animate pow duration now s = (case mv_running s of
     None \<Rightarrow> s
   | Some a \<Rightarrow>
       (let progress = js_min ((now - am_startTime a) / duration) (Fin 1);
            s = s\<lparr>mv_display := js_round (am_start a + am_difference a * eased pow progress)\<rparr>
        in if progress < Fin 1 then s else s\<lparr> mv_prev := am_value a, mv_running := None \<rparr>))"

datatype moving_event = New_value jsnum jsnum | Frame_at jsnum

definition moving_step :: "(jsnum \<Rightarrow> jsnum) \<Rightarrow> jsnum \<Rightarrow> moving_number \<Rightarrow> moving_event \<Rightarrow> moving_number" where
  "moving_step pow duration s e = (case e of New_value now v \<Rightarrow> moving_value now v s | Frame_at now \<Rightarrow> animate pow duration now s)"

definition moving_text :: "(jsnum \<Rightarrow> jstr) \<Rightarrow> jstr \<Rightarrow> jstr \<Rightarrow> moving_number \<Rightarrow> jstr" where
  "moving_text num pre post s = pre @ num (mv_display s) @ post"

text \<open>The last step of the animation adds 1023 of 1024 parts: a million is shown as 999023, and stays.\<close>

lemma last_step_short:
  "let pow = (\<lambda>x. if x = Fin (- 10) then Fin (1 / 1024) else Fin 1);
       s = run (moving_step pow (Fin 800)) (moving_start (Fin 0)) [New_value (Fin 0) (Fin 1000000), Frame_at (Fin 800)]
   in mv_running s = None \<and> mv_prev s = Fin 1000000 \<and> mv_display s = Fin 999023"
  by code_simp

text \<open>A value that returns while its animation runs leaves the number where it is.\<close>

lemma returned_value_stuck:
  "let pow = (\<lambda>x. if x = Fin (- 5) then Fin (1 / 32) else Fin 1);
       s = run (moving_step pow (Fin 800)) (moving_start (Fin 0))
         [New_value (Fin 0) (Fin 1000), Frame_at (Fin 400), New_value (Fin 500) (Fin 0), Frame_at (Fin 900)]
   in mv_running s = None \<and> mv_prev s = Fin 0 \<and> mv_display s = Fin 969"
  by code_simp

text \<open>A change of less than one is shown at once.\<close>

lemma small_change_shown:
  "js_abs (v - mv_prev s) < Fin 1 \<Longrightarrow> \<not> js_eq (mv_prev s) v \<Longrightarrow> mv_display (moving_value now v s) = v"
  by (simp add: moving_value_def Let_def)

section \<open>Scanned codes\<close>

text \<open>\<open>useScanDetection\<close>: a key with its moment, and whether it goes to a field; a render hands over a new callback, and the
  effect starts anew.\<close>

record scan_buffer =
  sb_buffer :: jstr
  sb_lastTime :: int
  sb_scans :: "jstr list"

datatype scan_key = Scan_key jstr int bool | New_onScan

definition scan_buffer_start :: scan_buffer where
  "scan_buffer_start = \<lparr> sb_buffer = [], sb_lastTime = 0, sb_scans = [] \<rparr>"

definition scan_step :: "scan_buffer \<Rightarrow> scan_key \<Rightarrow> scan_buffer" where
  "scan_step s e = (case e of
     New_onScan \<Rightarrow> s\<lparr> sb_buffer := [], sb_lastTime := 0 \<rparr>
   | Scan_key key now inField \<Rightarrow>
       (if inField then s
        else let s = s\<lparr> sb_buffer := (if 50 < now - sb_lastTime s then [] else sb_buffer s), sb_lastTime := now \<rparr>
          in if key = js ''Enter''
             then (if 3 \<le> length (sb_buffer s) then s\<lparr> sb_buffer := [], sb_scans := sb_scans s @ [sb_buffer s] \<rparr> else s)
             else if length key = 1 then s\<lparr>sb_buffer := sb_buffer s @ key\<rparr> else s))"

text \<open>Keys that come more than a twentieth of a second apart.\<close>

fun slow :: "int \<Rightarrow> scan_key list \<Rightarrow> bool" where
  "slow prev [] = True"
| "slow prev (New_onScan # es) = slow 0 es"
| "slow prev (Scan_key k now inField # es) = (if inField then slow prev es else 50 < now - prev \<and> slow now es)"

lemma slow_run:
  "slow (sb_lastTime s) es \<Longrightarrow> length (sb_buffer s) \<le> 1 \<Longrightarrow> sb_scans (run scan_step s es) = sb_scans s"
proof (induction es arbitrary: s)
  case (Cons e es)
  show ?case
  proof (cases e)
    case New_onScan
    then show ?thesis using Cons.prems Cons.IH [of "scan_step s e"] by (simp add: scan_step_def)
  next
    case (Scan_key k now f)
    then show ?thesis using Cons.prems Cons.IH [of "scan_step s e"] by (cases f) (auto simp: scan_step_def Let_def)
  qed
qed simp

text \<open>Keys that come within a twentieth of a second.\<close>

fun fast :: "int \<Rightarrow> (nat \<times> int) list \<Rightarrow> bool" where
  "fast prev [] = True"
| "fast prev ((c, now) # ks) = (now - prev \<le> 50 \<and> fast now ks)"

definition scan_keys :: "(nat \<times> int) list \<Rightarrow> scan_key list" where
  "scan_keys ks = map (\<lambda>(c, now). Scan_key [c] now False) ks"

lemma not_Enter: "[c] \<noteq> js ''Enter''"
  by (simp add: js_def)

lemma fast_run:
  "fast (sb_lastTime s) ks \<Longrightarrow> run scan_step s (scan_keys ks) =
     s\<lparr> sb_buffer := sb_buffer s @ map fst ks, sb_lastTime := (if ks = [] then sb_lastTime s else snd (last ks)) \<rparr>"
proof (induction ks arbitrary: s)
  case (Cons k ks)
  obtain c now where k: "k = (c, now)" by (cases k)
  have "scan_step s (Scan_key [c] now False) = s\<lparr> sb_buffer := sb_buffer s @ [c], sb_lastTime := now \<rparr>"
    using Cons.prems k by (simp add: scan_step_def Let_def not_Enter)
  then show ?case using Cons.IH [of "s\<lparr> sb_buffer := sb_buffer s @ [c], sb_lastTime := now \<rparr>"] Cons.prems k
    by (simp add: scan_keys_def)
qed (simp add: scan_keys_def)

text \<open>C39. Keys more than a twentieth of a second apart are never taken for a scanned code, whatever is typed, in fields
  or not, with renders in between. After a pause of that length, a code of three characters or more and Enter that come
  at most a twentieth of a second apart, with no field focused and no render that hands over a new callback between
  them, is handed on whole, once; a render in between cuts it (\<open>code_cut\<close>).\<close>

theorem scans_told_apart:
  assumes "slow (sb_lastTime s) es" "length (sb_buffer s) \<le> 1"
    and "50 < t - sb_lastTime (run scan_step s es)" "fast t ks" "2 \<le> length ks" "now - snd (last ks) \<le> 50"
  shows "sb_scans (run scan_step s es) = sb_scans s
    \<and> sb_scans (run scan_step (run scan_step s es) (scan_keys ((c, t) # ks) @ [Scan_key (js ''Enter'') now False]))
      = sb_scans s @ [c # map fst ks]"
proof -
  let ?s = "run scan_step s es"
  have scans: "sb_scans ?s = sb_scans s" using assms(1, 2) by (rule slow_run)
  have "scan_step ?s (Scan_key [c] t False) = ?s\<lparr> sb_buffer := [c], sb_lastTime := t \<rparr>"
    using assms(3) by (simp add: scan_step_def Let_def not_Enter)
  then have "run scan_step ?s (scan_keys ((c, t) # ks)) = ?s\<lparr> sb_buffer := c # map fst ks, sb_lastTime := snd (last ks) \<rparr>"
    using fast_run [of "?s\<lparr> sb_buffer := [c], sb_lastTime := t \<rparr>" ks] assms(4, 5) by (auto simp: scan_keys_def)
  then show ?thesis using scans assms(5, 6) by (simp add: run_append scan_step_def Let_def js_def)
qed

theorem scans_told_apart_witness:
  "let es = [Scan_key [65] 1000 False, Scan_key (js ''Enter'') 1200 False]; ks = [(50, 1510), (51, 1520)]
   in sb_scans (run scan_step scan_buffer_start es) = sb_scans scan_buffer_start
    \<and> sb_scans (run scan_step (run scan_step scan_buffer_start es) (scan_keys ((49, 1500) # ks) @ [Scan_key (js ''Enter'') 1530 False]))
      = sb_scans scan_buffer_start @ [49 # map fst ks]"
  unfolding Let_def by (rule scans_told_apart) (simp_all add: scan_buffer_start_def scan_step_def js_def)

text \<open>A render while a code is typed cuts it: what follows is handed on as a code of its own.\<close>

lemma code_cut:
  "sb_scans (run scan_step scan_buffer_start
      (scan_keys [(73, 1000), (78, 1010), (86, 1020), (58, 1030)] @ [New_onScan] @ scan_keys [(49, 1040), (50, 1050), (51, 1060)]
        @ [Scan_key (js ''Enter'') 1070 False])) = [js ''123'']"
  by code_simp

end
