(* ===== verification/ReportViews.thy ===== *)
theory ReportViews
  imports Views Charts Receipts
begin

text \<open>
  What the page of reports shows (\<open>features/reports/reports.tsx\<close>): its tabs, the cards, lists and tables of each, over the
  figures of theory \<open>Reports\<close>. A table is given by its headers and the texts of a row, with the tone of its state.
  \<open>day\<close> is a date as the locale writes it.
\<close>

section \<open>The page\<close>

definition report_tab_label :: "report_tab \<Rightarrow> jstr" where
  "report_tab_label t = (case t of
     T_overview \<Rightarrow> [1606, 1592, 1585, 1577, 32, 1593, 1575, 1605, 1577]
   | T_sales \<Rightarrow> [1575, 1604, 1605, 1576, 1610, 1593, 1575, 1578]
   | T_inventory \<Rightarrow> [1575, 1604, 1605, 1582, 1586, 1608, 1606]
   | T_customers \<Rightarrow> [1575, 1604, 1593, 1605, 1604, 1575, 1569]
   | T_staff \<Rightarrow> [1575, 1604, 1605, 1608, 1592, 1601, 1610, 1606]
   | T_monthly \<Rightarrow> [1575, 1604, 1605, 1602, 1575, 1585, 1606, 1577, 32, 1575, 1604,
     1588, 1607, 1585, 1610, 1577])"

definition report_tabs :: "report_tab list" where
  "report_tabs = [T_overview, T_sales, T_inventory, T_customers, T_staff, T_monthly]"

record reports_page =
  rp_activeTab :: report_tab
  rp_dateRange :: date_range
  rp_forecast :: forecast_state
  rp_showExportMenu :: bool

definition reports_start :: reports_page where
  "reports_start = \<lparr> rp_activeTab = T_overview, rp_dateRange = R_week,
     rp_forecast = \<lparr> fc_forecast = None, fc_isForecasting = False \<rparr>, rp_showExportMenu = False \<rparr>"

datatype reports_event =
    Report_tab report_tab
  | Report_range date_range
  | Toggle_exportMenu
  | Export_click report_format
  | Forecast_click
  | Forecast_answer "jstr option"

text \<open>The button of the forecast is disabled while one is made; the formats are shown in the menu, which the export closes.\<close>

definition reports_step :: "reports_page \<Rightarrow> reports_event \<Rightarrow> reports_page" where
  "reports_step p e = (case e of
     Report_tab t \<Rightarrow> p\<lparr>rp_activeTab := t\<rparr>
   | Report_range r \<Rightarrow> p\<lparr>rp_dateRange := r\<rparr>
   | Toggle_exportMenu \<Rightarrow> p\<lparr>rp_showExportMenu := \<not> rp_showExportMenu p\<rparr>
   | Export_click f \<Rightarrow> if rp_showExportMenu p then p\<lparr>rp_showExportMenu := False\<rparr> else p
   | Forecast_click \<Rightarrow> if rp_activeTab p = T_overview \<and> \<not> fc_isForecasting (rp_forecast p)
       then p\<lparr>rp_forecast := handleForecast (rp_forecast p)\<rparr> else p
   | Forecast_answer a \<Rightarrow> if fc_isForecasting (rp_forecast p)
       then p\<lparr>rp_forecast := forecast_answered a (rp_forecast p)\<rparr> else p)"

section \<open>Overview\<close>

record overview_stats =
  os_totalRevenue :: "jsnum option"
  os_netProfit :: "jsnum option"
  os_totalExpenses :: "jsnum option"
  os_totalOrders :: "jsnum option"
  os_chartData :: "chart_datum list option"
  os_topSelling :: "(jstr \<times> jsnum) list option"
  os_topCustomers :: "(jstr \<times> jsnum) list option"

text \<open>A place in a ranking: its number, whether it is marked, the name and the amount.\<close>

record rank_row =
  rk_rank :: jstr
  rk_marked :: bool
  rk_name :: jstr
  rk_amount :: jstr

definition CustomerRank :: "nat \<Rightarrow> jstr \<Rightarrow> jsnum \<Rightarrow> jstr \<Rightarrow> rank_row" where
  "CustomerRank rank name amount cur = \<lparr> rk_rank = show_nat rank, rk_marked = (rank \<in> {1, 2, 3}), rk_name = name,
     rk_amount = bare_amount amount cur \<rparr>"

definition product_rank :: "nat \<Rightarrow> jstr \<times> jsnum \<Rightarrow> rank_row" where
  "product_rank i p = \<lparr> rk_rank = show_nat (i + 1), rk_marked = (i = 0), rk_name = fst p,
     rk_amount = num_to_string (snd p) @ [32, 1602, 1591, 1593, 1577] \<rparr>"

record overview_tab =
  ot_cards :: "stat_card list"
  ot_highest :: jstr
  ot_chart :: "chart_datum list"
  ot_forecast :: jstr
  ot_hasForecast :: bool
  ot_products :: "rank_row list"
  ot_customers :: "rank_row list"
  ot_noCustomers :: bool

definition overview_cards :: "overview_stats \<Rightarrow> jstr \<Rightarrow> stat_card list" where
  "overview_cards s cur =
     (let revenue = opt_num_or (os_totalRevenue s) (Fin 0);
          netProfit = opt_num_or (os_netProfit s) (Fin 0);
          expenses = opt_num_or (os_totalExpenses s) (Fin 0);
          completedCount = opt_num_or (os_totalOrders s) (Fin 0);
          profitMargin = (if Fin 0 < revenue then (netProfit / revenue) * Fin 100 else Fin 0);
          avgOrderValue = (if Fin 0 < completedCount then revenue / completedCount else Fin 0)
      in [StatCard [1573, 1580, 1605, 1575, 1604, 1610, 32, 1575, 1604, 1573, 1610, 1585, 1575,
        1583, 1575, 1578] (bare_amount revenue cur) Emerald cur,
          StatCard [1589, 1575, 1601, 1610, 32, 1575, 1604, 1585, 1576,
            1581] (bare_amount netProfit cur) (if Fin 0 \<le> netProfit then Emerald else Red)
            ([1607, 1575, 1605, 1588, 32] @ to_fixed 1 profitMargin @ js ''%''),
          StatCard [1575, 1604, 1605, 1589, 1585, 1608, 1601, 1575,
            1578] (bare_amount expenses cur) Red cur,
          StatCard [1605, 1578, 1608, 1587, 1591, 32, 1575, 1604, 1591, 1604,
            1576] (bare_amount avgOrderValue cur) Purple
            (num_to_string completedCount @ [32, 1591, 1604, 1576, 32, 1605, 1603, 1578, 1605,
              1604])])"

definition OverviewTab :: "overview_stats \<Rightarrow> jstr \<Rightarrow> jstr option \<Rightarrow> overview_tab" where
  "OverviewTab s cur forecast =
     (let chart = opt_default [] (os_chartData s); products = opt_default [] (os_topSelling s);
          customers = opt_default [] (os_topCustomers s)
      in \<lparr> ot_cards = overview_cards s cur,
           ot_highest = formatCurrency (foldl js_max (Fin 0) (map chart_value_of chart)) cur,
           ot_chart = chart,
           ot_forecast = (if opt_default [] forecast \<noteq> [] then opt_default [] forecast
             else [1575, 1590, 1594, 1591, 32, 1604, 1578, 1581, 1604, 1610, 1604, 32, 1575,
               1604, 1576, 1610,
  1575, 1606, 1575, 1578, 32, 1608, 1578, 1608, 1602, 1593, 32, 1575, 1604, 1605, 1576, 1610,
  1593, 1575, 1578]),
           ot_hasForecast = (opt_default [] forecast \<noteq> []),
           ot_products = map (\<lambda>(i, p). product_rank i p) (zip [0..<length (take 5 products)] (take 5 products)),
           ot_customers = map (\<lambda>(i, c). CustomerRank (i + 1) (fst c) (snd c) cur)
             (zip [0..<length (take 5 customers)] (take 5 customers)),
           ot_noCustomers = (customers = []) \<rparr>)"
section \<open>Sales\<close>

datatype sales_filter = All_sales | Only_completed | Only_pending | Only_returned

record sales_tab =
  st_pageIndex :: nat
  st_pageSize :: nat
  st_filter :: sales_filter
  st_dateFilter :: jstr

definition sales_tab_start :: sales_tab where
  "sales_tab_start = \<lparr> st_pageIndex = 0, st_pageSize = 20, st_filter = All_sales, st_dateFilter = js ''all'' \<rparr>"

definition filter_key :: "sales_filter \<Rightarrow> jstr" where
  "filter_key f = (case f of All_sales \<Rightarrow> js ''all'' | Only_completed \<Rightarrow> js ''completed'' | Only_pending \<Rightarrow> js ''pending''
     | Only_returned \<Rightarrow> js ''returned'')"

text \<open>The key the answer is kept under, and what the backend is asked: page, size, search, status and period.\<close>

definition sales_tab_key :: "sales_tab \<Rightarrow> jstr list" where
  "sales_tab_key s = [js ''reports'', js ''salesList'', show_nat (st_pageIndex s), filter_key (st_filter s), st_dateFilter s]"

definition sales_tab_query :: "sales_tab \<Rightarrow> nat \<times> nat \<times> jstr \<times> jstr \<times> jstr" where
  "sales_tab_query s = (st_pageIndex s, st_pageSize s, [],
     (if st_filter s = All_sales then [] else filter_key (st_filter s)), st_dateFilter s)"

datatype sales_tab_event = Set_filter sales_filter | Set_dateFilter jstr | Set_pagination nat nat

definition sales_tab_step :: "sales_tab \<Rightarrow> sales_tab_event \<Rightarrow> sales_tab" where
  "sales_tab_step s e = (case e of
     Set_filter f \<Rightarrow> s\<lparr> st_filter := f, st_pageIndex := 0 \<rparr>
   | Set_dateFilter d \<Rightarrow> s\<lparr> st_dateFilter := d, st_pageIndex := 0 \<rparr>
   | Set_pagination i n \<Rightarrow> s\<lparr> st_pageIndex := i, st_pageSize := n \<rparr>)"

definition sales_cards :: "invoice_stats option \<Rightarrow> jstr \<Rightarrow> stat_card list" where
  "sales_cards st cur =
     [StatCard [1573, 1580, 1605, 1575, 1604, 1610, 32, 1575, 1604, 1605, 1576, 1610, 1593, 1575,
       1578] (bare_amount (case st of Some s \<Rightarrow> is_total s | None \<Rightarrow> Fin 0) cur) Emerald cur,
      StatCard [1593, 1583, 1583, 32, 1575, 1604, 1601, 1608, 1575, 1578, 1610,
        1585] (num_to_string (case st of Some s \<Rightarrow> is_count s | None \<Rightarrow> Fin 0)) Blue [1601, 1575, 1578, 1608, 1585, 1577, 32, 1605, 1603, 1578, 1605, 1604, 1577],
      StatCard [1605, 1578, 1608, 1587, 1591, 32, 1575, 1604, 1601, 1575, 1578, 1608, 1585,
        1577] (bare_amount (sales_tab_average st) cur) Purple cur]"

definition method_tone :: "payment_method \<Rightarrow> tone" where
  "method_tone m = (case m of Cash \<Rightarrow> Tone_success | Card \<Rightarrow> Tone_info | _ \<Rightarrow> Tone_warning)"

definition method_label :: "payment_method \<Rightarrow> jstr" where
  "method_label m = (case m of Cash \<Rightarrow> [1606, 1602, 1583,
    1610] | Card \<Rightarrow> [1576, 1591, 1575, 1602, 1577] | _ \<Rightarrow> [1570, 1580, 1604])"

definition status_tone :: "sale_status \<Rightarrow> tone" where
  "status_tone s = (case s of Completed \<Rightarrow> Tone_success | Pending \<Rightarrow> Tone_warning | _ \<Rightarrow> Tone_danger)"

definition status_label :: "sale_status \<Rightarrow> jstr" where
  "status_label s = (case s of Completed \<Rightarrow> [1605, 1603, 1578, 1605,
    1604] | Pending \<Rightarrow> [1605, 1593, 1604, 1602] | _ \<Rightarrow> [1605, 1585, 1578,
    1580, 1593])"

definition sales_headers :: "jstr list" where
  "sales_headers = [[1585, 1602, 1605, 32, 1575, 1604, 1601, 1575, 1578, 1608, 1585, 1577],
    [1575, 1604, 1578, 1575, 1585, 1610, 1582], [1575, 1604, 1593, 1605, 1610, 1604], [1575,
    1604, 1591, 1585, 1610, 1602, 1577], [1575, 1604, 1581, 1575, 1604, 1577], [1575, 1604, 1605,
    1576, 1604, 1594]]"

definition sales_cells :: "(jstr \<Rightarrow> jstr) \<Rightarrow> jstr \<Rightarrow> sale \<Rightarrow> (jstr \<times> tone) list" where
  "sales_cells day cur s = [(x_id s, Tone_muted), (day (x_date s), Tone_muted),
     ((if x_customer s = [] then [1586, 1576, 1608, 1606, 32, 1593, 1575,
       1605] else x_customer s), Tone_muted), (method_label (x_paymentMethod s), method_tone (x_paymentMethod s)),
     (status_label (x_status s), status_tone (x_status s)), (formatCurrency (x_total s) cur, Tone_muted)]"

definition sales_row_color :: "sale \<Rightarrow> jstr" where
  "sales_row_color s = (case x_status s of Completed \<Rightarrow> js ''emerald'' | Pending \<Rightarrow> js ''orange'' | _ \<Rightarrow> js ''red'')"

definition SalesReportTab ::
  "(table_state \<Rightarrow> sale list \<Rightarrow> sale list) \<Rightarrow> (jstr \<Rightarrow> jstr) \<Rightarrow> jstr \<Rightarrow> (sale list \<times> nat \<times> invoice_stats option) option \<Rightarrow> sales_tab
     \<Rightarrow> stat_card list \<times> (jstr \<times> tone) table_shown" where
  "SalesReportTab page_rows day cur data s =
     (let sales = (case data of Some (l, _) \<Rightarrow> l | None \<Rightarrow> []);
          pages = (case data of Some (_, n, _) \<Rightarrow> if n = 0 then 1 else n | None \<Rightarrow> 1)
      in (sales_cards (case data of Some (_, _, st) \<Rightarrow> st | None \<Rightarrow> None) cur,
          DataTable page_rows (sales_cells day cur) (Some sales_row_color)
            \<lparr> em_icon = True, em_title = [1604, 1575, 32, 1578, 1608, 1580, 1583, 32,
              1605, 1576, 1610, 1593, 1575, 1578], em_description = [1604, 1605, 32, 1610, 1578,
              1605, 32, 1575, 1604, 1593, 1579, 1608, 1585, 32, 1593, 1604, 1609,
  32, 1605, 1576, 1610, 1593, 1575, 1578, 32, 1601, 1610, 32, 1607, 1584, 1607, 32, 1575, 1604,
  1601, 1578, 1585, 1577, 46] \<rparr>
            \<lparr> tb_pageIndex = st_pageIndex s, tb_pageSize = st_pageSize s, tb_pageCount = pages \<rparr> sales))"

text \<open>The size of the page is asked for, but is not part of the key: when it changes on the first page the kept answer
  of the old size is shown.\<close>

lemma page_size_not_in_key:
  "sales_tab_key (sales_tab_step s (Set_pagination (st_pageIndex s) n)) = sales_tab_key s
   \<and> (n \<noteq> st_pageSize s \<longrightarrow> sales_tab_query (sales_tab_step s (Set_pagination (st_pageIndex s) n)) \<noteq> sales_tab_query s)"
  by (simp add: sales_tab_key_def sales_tab_query_def sales_tab_step_def)

text \<open>All else that is asked for is.\<close>

lemma key_tells_query:
  assumes "sales_tab_key s = sales_tab_key s'" "st_pageSize s = st_pageSize s'"
  shows "sales_tab_query s = sales_tab_query s'"
proof -
  have "filter_key (st_filter s) = filter_key (st_filter s') \<Longrightarrow> st_filter s = st_filter s'"
    by (cases "st_filter s"; cases "st_filter s'") (simp_all add: filter_key_def js_def)
  then show ?thesis using assms by (auto simp: sales_tab_key_def sales_tab_query_def dest: show_nat_inj)
qed

text \<open>A cancelled sale is told as a returned one, and one paid in parts or instalments as one on credit.\<close>

lemma cancelled_as_returned: "status_label Cancelled = status_label Returned" "method_label Split = method_label Credit"
    "method_label Installment = method_label Credit"
  by (simp_all add: status_label_def method_label_def)

section \<open>Inventory\<close>

record stock_alert =
  sa_image :: jstr
  sa_name :: jstr
  sa_minimum :: jstr
  sa_stock :: jstr
  sa_tone :: tone

definition stock_alert_of :: "product \<Rightarrow> stock_alert" where
  "stock_alert_of p = \<lparr> sa_image = p_image p, sa_name = p_name p,
     sa_minimum = [1575, 1604, 1581, 1583, 32, 1575, 1604, 1571, 1583, 1606, 1609, 58,
       32] @ num_to_string (p_minStock p), sa_stock = num_to_string (p_stock p),
     sa_tone = (if js_eq (p_stock p) (Fin 0) then Tone_danger else Tone_warning) \<rparr>"

text \<open>A movement: the product, the reason, the type as the backend writes it, and the quantity. The types are \<open>in\<close> and \<open>out\<close> for
  changes by hand, \<open>restock\<close>, \<open>return\<close> and \<open>sale\<close>, whose quantity is negative.\<close>

type_synonym report_movement = "jstr \<times> jstr option \<times> jstr \<times> jsnum"

definition movement_in :: "jstr \<Rightarrow> bool" where
  "movement_in t = (t = js ''in'' \<or> t = js ''restock'')"

definition movement_row :: "report_movement \<Rightarrow> jstr \<times> jstr \<times> jstr \<times> tone" where
  "movement_row m = (case m of (name, reason, t, qty) \<Rightarrow>
     (name, opt_default [] reason, (if movement_in t then js ''+'' else js ''-'') @ num_to_string qty,
       (if movement_in t then Tone_success else Tone_danger)))"

record inventory_tab =
  vt_cards :: "stat_card list"
  vt_alerts :: "stock_alert list"
  vt_allWell :: bool
  vt_movements :: "(jstr \<times> jstr \<times> jstr \<times> tone) list"
  vt_noMovements :: bool

definition InventoryReportTab :: "product list \<Rightarrow> report_movement list \<Rightarrow> jstr \<Rightarrow> inventory_tab" where
  "InventoryReportTab products movements cur =
     \<lparr> vt_cards =
         [StatCard [1573, 1580, 1605, 1575, 1604, 1610, 32, 1575, 1604, 1605, 1606, 1578, 1580,
           1575, 1578] (show_nat (length products)) Blue [1605, 1575, 1583, 1577, 32, 1576, 1575,
           1604, 1605, 1582, 1586, 1606],
          StatCard [1602, 1610, 1605, 1577, 32, 1575, 1604, 1605, 1582, 1586, 1608,
            1606] (bare_amount (inventory_value products) cur) Emerald cur,
          StatCard [1605, 1582, 1586, 1608, 1606, 32, 1605, 1606, 1582, 1601,
            1590] (show_nat (length (lowStockProducts products))) Amber [1576, 1581, 1575, 1580,
            1577, 32, 1604, 1573, 1593, 1575, 1583, 1577, 32, 1575, 1604, 1578,
  1586, 1608, 1610, 1583],
          StatCard [1606, 1601, 1584, 32, 1605, 1606, 32, 1575, 1604, 1605, 1582, 1586, 1608,
            1606] (show_nat (length (outOfStockProducts products))) Red [1585, 1589, 1610, 1583,
            32, 48]],
       vt_alerts = map stock_alert_of (take 10 (lowStockProducts products)),
       vt_allWell = (lowStockProducts products = []),
       vt_movements = map movement_row (take 10 movements),
       vt_noMovements = (movements = []) \<rparr>"

text \<open>What a customer brings back is shown as if it had left the stock, and a sale, whose quantity is negative, with two signs.\<close>

lemma return_shown_as_loss: "snd (snd (movement_row (name, reason, js ''return'', Fin 2))) = (js ''-2'', Tone_danger)"
  by (simp add: movement_row_def movement_in_def js_def) code_simp

lemma sale_shown_twice_negative: "snd (snd (movement_row (name, reason, js ''sale'', Fin (- 5)))) = (js ''--5'', Tone_danger)"
  by (simp add: movement_row_def movement_in_def js_def) code_simp

section \<open>Customers and staff\<close>

definition report_customer_headers :: "jstr list" where
  "report_customer_headers = [[1575, 1604, 1593, 1605, 1610, 1604], [1575, 1604, 1607, 1575,
    1578, 1601], [1593, 1583, 1583, 32, 1575, 1604, 1591, 1604, 1576, 1575, 1578], [1573, 1580,
    1605, 1575, 1604, 1610, 32, 1575, 1604, 1605, 1588, 1578, 1585, 1610, 1575, 1578], [1575,
    1604, 1583, 1610, 1608, 1606, 32, 1575, 1604, 1605, 1587, 1578, 1581, 1602, 1577]]"

definition report_customer_cells :: "jstr \<Rightarrow> customer_stat \<Rightarrow> (jstr \<times> tone) list" where
  "report_customer_cells cur c =
     [(c_name (ct_customer c), Tone_muted), ((if c_phone (ct_customer c) = [] then js ''-'' else c_phone (ct_customer c)), Tone_muted),
      (show_nat (ct_orderCount c), Tone_muted), (formatCurrency (ct_totalSpent c) cur, Tone_success),
      (if Fin 0 < ct_pendingDebt c then (formatCurrency (ct_pendingDebt c) cur, Tone_danger) else (js ''-'', Tone_muted))]"

definition CustomersReportTab ::
  "(table_state \<Rightarrow> customer_stat list \<Rightarrow> customer_stat list) \<Rightarrow> table_state \<Rightarrow> customer list \<Rightarrow> sale list \<Rightarrow> jstr
     \<Rightarrow> stat_card list \<times> (jstr \<times> tone) table_shown" where
  "CustomersReportTab page_rows ts customers sales cur =
     (let st = customerStats sales customers
      in ([StatCard [1573, 1580, 1605, 1575, 1604, 1610, 32, 1575, 1604, 1593, 1605, 1604, 1575,
        1569] (show_nat (length customers)) Purple [1593, 1605, 1610, 1604, 32, 1605, 1587, 1580,
        1604],
           StatCard [1573, 1580, 1605, 1575, 1604, 1610, 32, 1575, 1604, 1605, 1588, 1578, 1585,
             1610, 1575, 1578] (bare_amount (report_totalSpent st) cur) Emerald cur,
           StatCard [1573, 1580, 1605, 1575, 1604, 1610, 32, 1575, 1604, 1583, 1610, 1608,
             1606] (bare_amount (report_totalDebt st) cur) Red cur],
          DataTable page_rows (report_customer_cells cur) None
            \<lparr> em_icon = False, em_title = [1604, 1575, 32, 1610, 1608, 1580, 1583, 32,
              1593, 1605, 1604, 1575, 1569],
              em_description = [1604, 1605, 32, 1610, 1578, 1605, 32, 1575, 1604, 1593, 1579,
                1608, 1585, 32, 1593, 1604, 1609,
  32, 1571, 1610, 32, 1576, 1610, 1575, 1606, 1575, 1578, 32, 1604, 1604, 1593, 1605, 1604, 1575,
  1569, 32, 1601, 1610, 32, 1607, 1584, 1607, 32, 1575, 1604, 1601, 1578, 1585, 1577,
    46] \<rparr> ts st))"

record staff_card =
  fc_rank :: jstr
  fc_first :: bool
  fc_name :: jstr
  fc_role :: jstr
  fc_sales :: jstr
  fc_count :: jstr
  fc_width :: jstr
  fc_share :: jstr

definition staff_percentage :: "jsnum \<Rightarrow> jsnum \<Rightarrow> jsnum" where
  "staff_percentage whole t = (if Fin 0 < whole then (t / whole) * Fin 100 else Fin 0)"

definition role_label :: "jstr \<Rightarrow> jstr" where
  "role_label r = (if r = js ''admin'' then [1605, 1583, 1610,
    1585] else if r = js ''manager'' then [1605, 1588, 1585, 1601] else [1603, 1575, 1588, 1610,
    1585])"

definition staff_card_of :: "jstr \<Rightarrow> jsnum \<Rightarrow> nat \<Rightarrow> staff \<times> nat \<times> jsnum \<Rightarrow> staff_card" where
  "staff_card_of cur whole i r = (case r of (s, n, t) \<Rightarrow>
     \<lparr> fc_rank = show_nat (i + 1), fc_first = (i = 0), fc_name = Auth.staff.sf_name s, fc_role = role_label (Auth.staff.sf_role s),
       fc_sales = bare_amount t cur, fc_count = show_nat n,
       fc_width = num_to_string (staff_percentage whole t) @ js ''%'',
       fc_share = to_fixed 1 (staff_percentage whole t) @ [37, 32, 1605, 1606, 32, 1575, 1604,
         1573, 1580, 1605, 1575, 1604, 1610] \<rparr>)"

definition StaffReportTab :: "staff list \<Rightarrow> sale list \<Rightarrow> jstr \<Rightarrow> stat_card list \<times> staff_card list" where
  "StaffReportTab staffList sales cur =
     (let st = staffStats sales staffList; whole = totalSalesValue st
      in ([StatCard [1593, 1583, 1583, 32, 1575, 1604, 1605, 1608, 1592, 1601, 1610,
        1606] (show_nat (length staffList)) Blue [1605, 1608, 1592, 1601, 32, 1605, 1587, 1580,
        1604],
           StatCard [1573, 1580, 1605, 1575, 1604, 1610, 32, 1575, 1604, 1605, 1576, 1610, 1593,
             1575, 1578] (bare_amount whole cur) Emerald cur,
           StatCard [1605, 1578, 1608, 1587, 1591, 32, 1604, 1604, 1605, 1608, 1592, 1601]
             (bare_amount (if staffList \<noteq> [] then whole / jint (int (length staffList)) else Fin 0) cur) Purple cur],
          map (\<lambda>(i, r). staff_card_of cur whole i r) (zip [0..<length st] st)))"

text \<open>A share lies between none and the whole, in spite of the rounding.\<close>

definition small_amount :: "jsnum \<Rightarrow> bool" where
  "small_amount t = (case t of Fin x \<Rightarrow> rnd x = Fin x \<and> 0 \<le> x \<and> x \<le> 10 ^ 9 | _ \<Rightarrow> False)"

lemma js_sum_bounds:
  assumes "list_all small_amount ts" "rnd a = Fin a" "0 \<le> a" "a \<le> of_int (int n * 10 ^ 9)" "n + length ts \<le> 10 ^ 6"
  shows "\<exists>b. js_sum (Fin a) ts = Fin b \<and> a \<le> b \<and> (\<forall>t\<in>set ts. t \<le> Fin b)"
  using assms
proof (induction ts arbitrary: a n)
  case (Cons t ts)
  obtain x where x: "t = Fin x" "rnd x = Fin x" "0 \<le> x" "x \<le> 10 ^ 9"
    using Cons.prems(1) by (cases t) (auto simp: small_amount_def)
  have "a + x \<le> of_int (int (Suc n) * 10 ^ 9)" using Cons.prems(4) x(4) by (simp add: algebra_simps)
  moreover have "rnd (of_int (int (Suc n) * 10 ^ 9)) = Fin (of_int (int (Suc n) * 10 ^ 9))"
    using Cons.prems(5) by (intro rnd_int) auto
  ultimately obtain c where c: "rnd (a + x) = Fin c" "a \<le> c" "x \<le> c" "c \<le> of_int (int (Suc n) * 10 ^ 9)"
    using between_rnd [of a "a + x" "of_int (int (Suc n) * 10 ^ 9)"] between_rnd [of x "a + x" "of_int (int (Suc n) * 10 ^ 9)"]
      Cons.prems(2, 3) x(2, 3) by auto
  have "rnd c = Fin c" using js_wf_rnd [of "a + x"] unfolding c(1) by simp
  then obtain b where "js_sum (Fin c) ts = Fin b" "c \<le> b" "\<forall>t\<in>set ts. t \<le> Fin b"
    using Cons.IH [of c "Suc n"] Cons.prems c by auto
  then show ?case using x c by auto
qed simp

lemma staff_share_bounds:
  assumes "list_all (\<lambda>(s, n, t). small_amount t \<and> js_round t = t) st" "length st \<le> 10 ^ 6" "(s, n, t) \<in> set st"
  shows "Fin 0 \<le> staff_percentage (totalSalesValue st) t \<and> staff_percentage (totalSalesValue st) t \<le> Fin 100"
proof -
  let ?ts = "map (\<lambda>(s, n, t). t) st"
  have "list_all small_amount ?ts" using assms(1) by (auto simp: list_all_iff)
  then obtain b where b: "js_sum (Fin 0) ?ts = Fin b" "\<forall>t\<in>set ?ts. t \<le> Fin b"
    using js_sum_bounds [of ?ts 0 0] assms(2) by auto
  obtain x where x: "t = Fin x" "0 \<le> x" using assms(1, 3) by (cases t) (auto simp: list_all_iff small_amount_def)
  have "t \<le> Fin b" using b(2) assms(3) by force
  then have "js_round t \<le> js_round (Fin b)" by (rule js_round_mono)
  then have le: "t \<le> totalSalesValue st" using assms(1, 3) b(1) by (auto simp: totalSalesValue_def list_all_iff)
  obtain w where w: "totalSalesValue st = Fin w" using b(1) by (simp add: totalSalesValue_def)
  show ?thesis
  proof (cases "0 < w")
    case True
    then obtain q where "rnd (x / w) = Fin q" "0 \<le> q" "q \<le> 1" using part_rnd [of x w] x le w by auto
    then show ?thesis using scaled_rnd [of q 100] True x w by (auto simp: staff_percentage_def)
  qed (simp add: staff_percentage_def w)
qed

section \<open>Two months\<close>

record change_indicator =
  ci_up :: bool
  ci_text :: jstr
  ci_label :: jstr

definition ChangeIndicator :: "jsnum \<Rightarrow> jstr \<Rightarrow> change_indicator" where
  "ChangeIndicator v label = \<lparr> ci_up = (Fin 0 \<le> v), ci_text = to_fixed 1 (js_abs v) @ js ''%'', ci_label = label \<rparr>"

record month_card =
  mk_label :: jstr
  mk_note :: jstr
  mk_revenue :: jstr
  mk_netProfit :: "jstr \<times> tone"
  mk_orders :: jstr
  mk_avgOrder :: jstr
  mk_expenses :: jstr

definition MonthCard :: "jstr \<Rightarrow> month_data \<Rightarrow> bool \<Rightarrow> month_card" where
  "MonthCard cur m isCurrent = \<lparr> mk_label = mo_label m,
    mk_note = (if isCurrent then [1575, 1604, 1588, 1607, 1585, 32, 1575, 1604, 1581, 1575, 1604,
    1610] else [1575, 1604, 1588, 1607, 1585, 32, 1575, 1604, 1587, 1575, 1576, 1602]),
     mk_revenue = bare_amount (mo_revenue m) cur,
     mk_netProfit = (bare_amount (mo_netProfit m) cur, (if Fin 0 \<le> mo_netProfit m then Tone_success else Tone_danger)),
     mk_orders = num_to_string (mo_orders m), mk_avgOrder = bare_amount (mo_avgOrder m) cur,
     mk_expenses = bare_amount (mo_expenses m) cur \<rparr>"

record monthly_tab =
  mt_indicators :: "change_indicator list"
  mt_cards :: "month_card list"
  mt_bars :: "(jstr \<times> jstr \<times> jstr) list"

definition comparison_bar :: "jstr \<Rightarrow> monthly_comparison \<Rightarrow> month_data \<Rightarrow> jstr \<times> jstr \<times> jstr" where
  "comparison_bar cur d m = (mo_label m, formatCurrency (mo_revenue m) cur,
     num_to_string (comparison_width (mo_revenue m) (mo_revenue (mc_currentMonth d)) (mo_revenue (mc_previousMonth d))) @ js ''%'')"

text \<open>\<open>None\<close> while it loads.\<close>

definition MonthlyComparisonTab :: "monthly_comparison option \<Rightarrow> bool \<Rightarrow> jstr \<Rightarrow> monthly_tab option" where
  "MonthlyComparisonTab data isLoading cur =
     (if isLoading then None
      else let d = useMonthlyComparison data
        in Some \<lparr> mt_indicators = [ChangeIndicator (mc_revenueChange d) [1575, 1604, 1573,
          1610, 1585, 1575, 1583, 1575, 1578], ChangeIndicator (mc_profitChange d) [1575, 1604,
          1571, 1585, 1576, 1575, 1581],
               ChangeIndicator (mc_ordersChange d) [1575, 1604, 1591, 1604, 1576, 1575, 1578]],
             mt_cards = [MonthCard cur (mc_currentMonth d) True, MonthCard cur (mc_previousMonth d) False],
             mt_bars = [comparison_bar cur d (mc_currentMonth d), comparison_bar cur d (mc_previousMonth d)] \<rparr>)"

text \<open>The greater month fills its bar.\<close>

lemma comparison_width_full:
  assumes "0 < x" "y \<le> x"
  shows "comparison_width (Fin x) (Fin x) (Fin y) = Fin 100"
  using assms rnd_small [of 1] rnd_small [of 100] by (simp add: comparison_width_def js_max_Fin js_min_Fin max_def)

lemma comparison_width_bounds:
  assumes "0 \<le> x" "0 \<le> y"
  shows "Fin 0 \<le> comparison_width (Fin x) (Fin x) (Fin y) \<and> comparison_width (Fin x) (Fin x) (Fin y) \<le> Fin 100"
proof (cases "0 < max x y")
  case True
  then obtain q where q: "rnd (x / max x y) = Fin q" "0 \<le> q" "q \<le> 1" using part_rnd [of x "max x y"] assms by auto
  then obtain h where "rnd (q * of_nat 100) = Fin h" "0 \<le> h" "h \<le> of_nat 100" using scaled_rnd [of q 100] by auto
  then show ?thesis using True q by (simp add: comparison_width_def js_max_Fin js_min_Fin)
qed (simp add: comparison_width_def js_max_Fin)

end
