(* ===== verification/Frame.thy ===== *)
theory Frame
  imports AppShell Auth Pages
begin

text \<open>
  The frame around the pages: the root component with its listeners and effects (\<open>main.tsx\<close>), the title bar with the
  navigation (\<open>components/NativeTitleBar.tsx\<close>), the boundary that catches errors (\<open>components/ErrorBoundary.tsx\<close>), the dock of
  tools (\<open>components/UtilitiesDock.tsx\<close>), the dialog before the end (\<open>components/AppCloseDialog.tsx\<close>) and the warning before
  an idle logout (\<open>components/SessionTimeoutWarning.tsx\<close>). \<open>t\<close> is the translation of a key.
\<close>

section \<open>Keys and input\<close>

text \<open>\<open>preventZoom\<close>, \<open>preventKeys\<close> and \<open>preventBackspace\<close>: whether the default of the browser is prevented.\<close>

definition preventZoom :: "bool \<Rightarrow> bool" where
  "preventZoom ctrlKey = ctrlKey"

definition preventKeys :: "key_event \<Rightarrow> bool" where
  "preventKeys e =
     (let key = ky_key e; ctrl = ky_ctrl e;
          isReload = (key = js ''F5'' \<or> ctrl \<and> (key = js ''r'' \<or> key = js ''R''));
          isDevTools = (key = js ''F12'' \<or> ctrl \<and> ky_shift e \<and> (key = js ''i'' \<or> key = js ''I''));
          isPrint = (ctrl \<and> (key = js ''p'' \<or> key = js ''P''));
          isSave = (ctrl \<and> (key = js ''s'' \<or> key = js ''S''));
          isFind = (ctrl \<and> (key = js ''f'' \<or> key = js ''F''));
          isZoom = (ctrl \<and> (key = js ''='' \<or> key = js ''+'' \<or> key = js ''-'' \<or> key = js ''0''))
      in isReload \<or> isDevTools \<or> isPrint \<or> isSave \<or> isFind \<or> isZoom)"

definition preventBackspace :: "jstr \<Rightarrow> jstr \<Rightarrow> bool \<Rightarrow> bool" where
  "preventBackspace key tag editable = (key = js ''Backspace'' \<and> tag \<notin> {js ''INPUT'', js ''TEXTAREA''} \<and> \<not> editable)"

text \<open>The attributes a focused field is given, those it has aside.\<close>

definition put_missing :: "jstr \<Rightarrow> jstr \<Rightarrow> (jstr \<times> jstr) list \<Rightarrow> (jstr \<times> jstr) list" where
  "put_missing k v m = (if map_of m k = None then obj_put k v m else m)"

definition disableInputAssist :: "jstr \<Rightarrow> bool \<Rightarrow> (jstr \<times> jstr) list \<Rightarrow> (jstr \<times> jstr) list" where
  "disableInputAssist tag editable attrs =
     (if tag = js ''INPUT'' \<or> tag = js ''TEXTAREA'' \<or> editable
      then put_missing (js ''spellcheck'') (js ''false'') (put_missing (js ''autocorrect'') (js ''off'')
        (put_missing (js ''autocomplete'') (js ''off'') attrs))
      else attrs)"

text \<open>A field that gains the focus: whether its text is selected, and its text.\<close>

definition autoSelectInput :: "jstr \<Rightarrow> jstr \<Rightarrow> bool \<times> jstr" where
  "autoSelectInput type value =
     (type \<in> {js ''text'', js ''number'', js ''email'', js ''password''},
      if type = js ''number'' \<and> value \<in> {js ''0'', js ''0.00'', js ''0.0''} then [] else value)"

text \<open>Keys are told by the letter they type: with an Arabic layout none of the letters is blocked.\<close>

lemma arabic_letter_passes:
  "length k = 1 \<Longrightarrow> 127 < hd k \<Longrightarrow> \<not> preventKeys \<lparr> ky_key = k, ky_ctrl = True, ky_meta = False, ky_shift = s, ky_tag = tag \<rparr>"
  by (auto simp: preventKeys_def js_def Let_def)

lemma input_assist_off:
  "map_of (disableInputAssist (js ''INPUT'') False attrs) k \<noteq> None \<longleftrightarrow>
     map_of attrs k \<noteq> None \<or> k \<in> {js ''autocomplete'', js ''autocorrect'', js ''spellcheck''}"
  by (auto simp: disableInputAssist_def put_missing_def map_of_obj_put js_def)

section \<open>The root component\<close>

record ai_figures =
  af_revenue :: jsnum
  af_orders :: jsnum
  af_lowStock :: jsnum

record app_root =
  ro_version :: jstr
  ro_aiContext :: ai_figures
  ro_prefs :: app_preferences
  ro_stored :: "app_preferences option"

datatype root_request = Current_version | Check_app_updates | Dashboard_figures

type_synonym root_world = "(app_root, root_request) page_world"

text \<open>\<open>stored\<close>: the preferences of the storage, laid over the default ones, if there are any.\<close>

definition root_start :: "app_preferences option \<Rightarrow> app_root" where
  "root_start stored = \<lparr> ro_version = js ''...'', ro_aiContext = \<lparr> af_revenue = Fin 0, af_orders = Fin 0, af_lowStock = Fin 0 \<rparr>,
     ro_prefs = opt_default DEFAULT_PREFS stored, ro_stored = stored \<rparr>"

text \<open>The effects when the state of the application changes; the figures are asked for a second later.\<close>

definition app_entered :: "life_cycle \<Rightarrow> root_world \<Rightarrow> root_world" where
  "app_entered a W = (let W = asks Current_version W in if a = App_screen then asks Check_app_updates W else W)"

definition figures_due :: "root_world \<Rightarrow> root_world" where
  "figures_due W = asks Dashboard_figures W"

definition version_known :: "jstr option \<Rightarrow> app_root \<Rightarrow> app_root" where
  "version_known v p = p\<lparr>ro_version := (if opt_default [] v = [] then js ''dev'' else opt_default [] v)\<rparr>"

definition app_updates_known :: "(bool \<times> jstr) option \<Rightarrow> root_world \<Rightarrow> root_world" where
  "app_updates_known info W = (case info of
     Some (available, v) \<Rightarrow> if available then tells [Says ([55357, 56960, 32, 1578,
       1581, 1583, 1610, 1579, 32, 1580, 1583, 1610, 1583, 32, 1605, 1578,
  1608, 1601, 1585, 58, 32, 118] @ v) T_info] W else W
   | None \<Rightarrow> W)"

definition figures_known :: "(jsnum option \<times> jsnum option \<times> jsnum option) option \<Rightarrow> app_root \<Rightarrow> app_root" where
  "figures_known stats p = (case stats of
     Some (r, n, l) \<Rightarrow> p\<lparr>ro_aiContext := \<lparr> af_revenue = opt_num_or r (Fin 0), af_orders = opt_num_or n (Fin 0), af_lowStock = opt_num_or l (Fin 0) \<rparr>\<rparr>
   | None \<Rightarrow> p)"

definition root_toggleTheme :: "app_root \<Rightarrow> app_root" where
  "root_toggleTheme p = (let next' = (ro_prefs p)\<lparr>a_theme := (if a_theme (ro_prefs p) = Dark then Light else Dark)\<rparr>
     in p\<lparr> ro_prefs := next', ro_stored := Some (stored_prefs next') \<rparr>)"

text \<open>The view of a path: its first part, or the dashboard. It is not compared with the views there are.\<close>

definition view_of_path :: "jstr \<Rightarrow> jstr" where
  "view_of_path pathname = (let path = (if drop 1 pathname = [] then js ''dashboard'' else drop 1 pathname) in hd (split_on 47 path))"

definition follow_path :: "jstr \<Rightarrow> jstr \<Rightarrow> jstr" where
  "follow_path pathname activeView = (let v = view_of_path pathname in if v \<noteq> [] then v else activeView)"

datatype root_shown = Splash_screen | Cloud_login | License_view | Login_view | Layout_view

definition root_shown :: "life_cycle \<Rightarrow> root_shown" where
  "root_shown a = (case a of Splash \<Rightarrow> Splash_screen | Cloud_auth \<Rightarrow> Cloud_login | License_screen \<Rightarrow> License_view
     | Login_screen \<Rightarrow> Login_view | App_screen \<Rightarrow> Layout_view)"

lemma followed_views: "follow_path (47 # view_name v) w = view_name v"
  by (cases v) (simp_all add: follow_path_def view_of_path_def view_name_def js_def)

lemma unknown_view_taken: "follow_path (js ''/nowhere/else'') w = js ''nowhere''"
  by (simp add: follow_path_def view_of_path_def js_def)

lemma theme_toggles_back: "a_theme (ro_prefs (root_toggleTheme (root_toggleTheme p))) = a_theme (ro_prefs p)"
  by (cases "a_theme (ro_prefs p)") (simp_all add: root_toggleTheme_def Let_def)

section \<open>The title bar\<close>

record nav_item =
  nv_id :: view
  nv_labelKey :: jstr
  nv_permission :: "jstr option"

definition nav_of :: "view \<Rightarrow> jstr \<Rightarrow> jstr option \<Rightarrow> nav_item" where
  "nav_of v key p = \<lparr> nv_id = v, nv_labelKey = key, nv_permission = p \<rparr>"

definition NAV_ITEMS :: "nav_item list" where
  "NAV_ITEMS =
     [nav_of V_dashboard (js ''nav.dashboard'') None, nav_of V_sales (js ''nav.sales'') (Some (js ''sales'')),
      nav_of V_products (js ''nav.products'') (Some (js ''products'')), nav_of V_inventory (js ''nav.inventory'') (Some (js ''inventory'')),
      nav_of V_invoices (js ''nav.invoices'') (Some (js ''invoices'')), nav_of V_customers (js ''nav.customers'') (Some (js ''customers'')),
      nav_of V_finance (js ''nav.finance'') (Some (js ''finance'')), nav_of V_shifts (js ''nav.shifts'') (Some (js ''finance'')),
      nav_of V_reports (js ''nav.reports'') (Some (js ''reports'')), nav_of V_settings (js ''nav.settings'') (Some (js ''settings''))]"

definition is_admin :: "auth \<Rightarrow> bool" where
  "is_admin s = (case au_user s of Some u \<Rightarrow> sf_role u = js ''admin'' | None \<Rightarrow> False)"

definition isAllowed :: "auth \<Rightarrow> jstr option \<Rightarrow> bool" where
  "isAllowed s permission = (case permission of None \<Rightarrow> True | Some p \<Rightarrow> p = [] \<or> is_admin s \<or> hasPermission s p)"

record nav_shown =
  ns_view :: view
  ns_label :: jstr
  ns_active :: bool
  ns_badge :: "jstr option"

definition nav_badge :: "view \<Rightarrow> jsnum \<Rightarrow> jstr option" where
  "nav_badge v lowStockCount = (if v = V_inventory \<and> Fin 0 < lowStockCount
     then Some (if Fin 9 < lowStockCount then js ''9+'' else num_to_string lowStockCount) else None)"

definition nav_items :: "(jstr \<Rightarrow> jstr) \<Rightarrow> auth \<Rightarrow> view \<Rightarrow> jsnum \<Rightarrow> nav_shown list" where
  "nav_items t s activeView lowStockCount =
     map (\<lambda>i. \<lparr> ns_view = nv_id i, ns_label = t (nv_labelKey i), ns_active = (activeView = nv_id i),
         ns_badge = nav_badge (nv_id i) lowStockCount \<rparr>) (filter (\<lambda>i. isAllowed s (nv_permission i)) NAV_ITEMS)"

text \<open>The bar of the pages, or the brand in front of them.\<close>

datatype title_shown = Title_nav "nav_shown list" | Title_brand jstr

definition title_left :: "(jstr \<Rightarrow> jstr) \<Rightarrow> bool \<Rightarrow> auth \<Rightarrow> view \<Rightarrow> jsnum \<Rightarrow> jstr option \<Rightarrow> title_shown" where
  "title_left t navigates s activeView lowStockCount appVersion =
     (if navigates then Title_nav (nav_items t s activeView lowStockCount)
      else Title_brand (if opt_default [] appVersion = [] then js ''v2.1.0'' else opt_default [] appVersion))"

text \<open>Whether the window is maximised: what it answers, or else its size and that of the screen.\<close>

definition checkMaximizedState :: "bool option \<Rightarrow> jsnum \<times> jsnum \<Rightarrow> jsnum \<times> jsnum \<Rightarrow> bool" where
  "checkMaximizedState answer outer avail = (case answer of
     Some m \<Rightarrow> m
   | None \<Rightarrow> fst avail \<le> fst outer \<and> snd avail \<le> snd outer)"

definition maximize_title :: "bool \<Rightarrow> jstr" where
  "maximize_title isMaximized = (if isMaximized then [1575, 1587, 1578, 1593, 1575, 1583, 1577,
    32, 1604, 1604, 1571, 1587, 1601, 1604] else [1578, 1603, 1576, 1610, 1585])"

text \<open>C40. What the title bar offers to a user can be visited: no item leads back to the dashboard for want of a permission.\<close>

theorem nav_only_reachable:
  "list_all (\<lambda>i. app_route s (ns_view i) = Page (ns_view i)) (nav_items t s v n)"
proof -
  have ok: "app_route s (nv_id i) = Page (nv_id i)" if "i \<in> set NAV_ITEMS" "isAllowed s (nv_permission i)" for i
    using that by (auto simp: NAV_ITEMS_def nav_of_def isAllowed_def is_admin_def app_route_def route_permission_def
        protected_route_def hasPermission_def split: option.splits)
  show ?thesis by (auto simp: nav_items_def list_all_iff ok)
qed

text \<open>But what it does not offer can be visited as well, by a function key: the routes ask for three permissions only.\<close>

lemma hidden_page_by_key:
  assumes "au_user s = Some u" "sf_role u \<noteq> js ''admin''" "au_perms s = []" "ky_key e = js ''F3''"
  shows "V_products \<notin> ns_view ` set (nav_items t s v n) \<and> on_key App_screen e = Navigate V_products \<and> app_route s V_products = Page V_products"
  using assms by (auto simp: nav_items_def NAV_ITEMS_def nav_of_def isAllowed_def is_admin_def hasPermission_def on_key_def
      shortcut_handler_def VIEW_MAP_def app_route_def route_permission_def js_def)

section \<open>The boundary of errors\<close>

text \<open>An error: its message, its stack and how it is written.\<close>

record caught_error =
  ce_message :: jstr
  ce_stack :: "jstr option"
  ce_text :: jstr

record boundary =
  eb_hasError :: bool
  eb_error :: "caught_error option"
  eb_info :: "jstr option"
  eb_retryCount :: nat
  eb_copied :: bool
  eb_timers :: nat
  eb_clipboard :: "jstr list"
  eb_reloads :: nat
  eb_homes :: nat

definition MAX_RETRIES :: nat where
  "MAX_RETRIES = 3"

definition boundary_start :: boundary where
  "boundary_start = \<lparr> eb_hasError = False, eb_error = None, eb_info = None, eb_retryCount = 0, eb_copied = False, eb_timers = 0,
     eb_clipboard = [], eb_reloads = 0, eb_homes = 0 \<rparr>"

definition getDerivedStateFromError :: "caught_error \<Rightarrow> boundary \<Rightarrow> boundary" where
  "getDerivedStateFromError e s = s\<lparr> eb_hasError := True, eb_error := Some e \<rparr>"

definition componentDidCatch :: "jstr \<Rightarrow> boundary \<Rightarrow> boundary" where
  "componentDidCatch info s = s\<lparr>eb_info := Some info\<rparr>"

definition handleRetry :: "boundary \<Rightarrow> boundary" where
  "handleRetry s =
     (if eb_retryCount s < MAX_RETRIES
      then s\<lparr> eb_hasError := False, eb_error := None, eb_info := None, eb_retryCount := eb_retryCount s + 1 \<rparr>
      else s\<lparr>eb_reloads := eb_reloads s + 1\<rparr>)"

definition boundary_home :: "boundary \<Rightarrow> boundary" where
  "boundary_home s = s\<lparr> eb_hasError := False, eb_error := None, eb_retryCount := 0, eb_homes := eb_homes s + 1 \<rparr>"

definition or_undefined :: "jstr option \<Rightarrow> jstr" where
  "or_undefined t = opt_default (js ''undefined'') t"

definition boundary_text :: "jstr \<Rightarrow> boundary \<Rightarrow> jstr" where
  "boundary_text now s = trim ([10] @ js ''Error: '' @ or_undefined (map_option ce_message (eb_error s)) @ [10] @
     js ''Stack: '' @ or_undefined (Option.bind (eb_error s) ce_stack) @ [10] @
     js ''Component Stack: '' @ or_undefined (eb_info s) @ [10] @ js ''Timestamp: '' @ now @ [10] @ js ''    '')"

text \<open>The clipboard has taken the text; two seconds later the sign goes.\<close>

definition error_copied :: "jstr \<Rightarrow> boundary \<Rightarrow> boundary" where
  "error_copied t s = s\<lparr> eb_copied := True, eb_timers := eb_timers s + 1, eb_clipboard := eb_clipboard s @ [t] \<rparr>"

record boundary_view =
  bv_remaining :: "jstr option"
  bv_button :: jstr
  bv_details :: "(jstr \<times> jstr option) option"
  bv_tries :: "jstr option"

definition boundary_view :: "boundary \<Rightarrow> boundary_view option" where
  "boundary_view s = (if \<not> eb_hasError s then None
     else let canRetry = (eb_retryCount s < MAX_RETRIES) in Some \<lparr>
       bv_remaining = (if canRetry then Some ([32, 1610, 1605, 1603, 1606, 1603, 32, 1575, 1604,
         1605, 1581, 1575, 1608, 1604, 1577, 32, 1605,
  1585, 1577, 32, 1571, 1582, 1585, 1609, 32, 40] @ show_nat (MAX_RETRIES - eb_retryCount s)
         @ [32, 1605, 1581, 1575, 1608, 1604, 1575, 1578, 32, 1605, 1578, 1576, 1602, 1610, 1577,
           41, 46]) else None),
       bv_button = (if canRetry then [1573, 1593, 1575, 1583, 1577, 32, 1575, 1604, 1605, 1581,
         1575, 1608, 1604, 1577] else [1573, 1593, 1575, 1583, 1577, 32, 1578, 1588, 1594, 1610,
         1604, 32, 1575, 1604, 1606, 1592,
  1575, 1605]),
       bv_details = map_option (\<lambda>e. (ce_text e, ce_stack e)) (eb_error s),
       bv_tries = (if 0 < eb_retryCount s then Some ([1605, 1581, 1575, 1608, 1604, 1577,
         32] @ show_nat (eb_retryCount s) @ [32, 1605, 1606, 32] @ show_nat MAX_RETRIES)
         else None) \<rparr>)"

datatype boundary_event =
    Render_throws caught_error
  | Did_catch jstr
  | Retry_click
  | Home_click
  | Copy_done jstr
  | Copied_timer

definition boundary_step :: "boundary \<Rightarrow> boundary_event \<Rightarrow> boundary" where
  "boundary_step s e = (case e of
     Render_throws x \<Rightarrow> if eb_hasError s then s else getDerivedStateFromError x s
   | Did_catch i \<Rightarrow> if eb_hasError s then componentDidCatch i s else s
   | Retry_click \<Rightarrow> if eb_hasError s then handleRetry s else s
   | Home_click \<Rightarrow> if eb_hasError s then boundary_home s else s
   | Copy_done now \<Rightarrow> if eb_hasError s \<and> eb_error s \<noteq> None then error_copied (boundary_text now s) s else s
   | Copied_timer \<Rightarrow> if 0 < eb_timers s then s\<lparr> eb_copied := False, eb_timers := eb_timers s - 1 \<rparr> else s)"

definition boundary_ok :: "boundary \<Rightarrow> bool" where
  "boundary_ok s = (eb_retryCount s \<le> MAX_RETRIES \<and> eb_hasError s = (eb_error s \<noteq> None))"

interpretation boundary: machine boundary_step boundary_ok "\<lambda>_. True"
proof
  fix s e
  assume "boundary_ok s" "True"
  then show "boundary_ok (boundary_step s e)"
    by (cases e) (auto simp: boundary_ok_def boundary_step_def getDerivedStateFromError_def componentDidCatch_def handleRetry_def
        boundary_home_def error_copied_def MAX_RETRIES_def)
qed

text \<open>What is shown for an error always has its text, and at most three retries are counted.\<close>

lemma boundary_shown:
  "let s = run boundary_step boundary_start es
   in eb_retryCount s \<le> 3 \<and> (eb_hasError s \<longrightarrow> (\<exists>v d. boundary_view s = Some v \<and> bv_details v = Some d))"
  using boundary.run_inv [of boundary_start es] by (auto simp: boundary_ok_def boundary_start_def boundary_view_def MAX_RETRIES_def Let_def)

text \<open>An error that comes back each time is retried three times, then the application is loaded anew.\<close>

lemma fourth_retry_reloads:
  "let s = run boundary_step boundary_start (concat (replicate 4 [Render_throws x, Retry_click]))
   in eb_reloads s = 1 \<and> eb_retryCount s = 3 \<and> eb_hasError s"
  by (simp add: numeral_eq_Suc boundary_step_def boundary_start_def getDerivedStateFromError_def handleRetry_def MAX_RETRIES_def)

text \<open>Retries that succeed count as well: the fourth error in the life of the application cannot be retried.\<close>

lemma success_not_forgotten:
  "let s = run boundary_step boundary_start (concat (replicate 3 [Render_throws x, Retry_click]) @ [Render_throws y])
   in map_option bv_remaining (boundary_view s) = Some None"
  by (simp add: numeral_eq_Suc boundary_step_def boundary_start_def getDerivedStateFromError_def handleRetry_def MAX_RETRIES_def
      boundary_view_def Let_def)

section \<open>The dock of tools\<close>

datatype dock_tool = Dock_calculator | Dock_profit | Dock_notes

record dock =
  dk_expanded :: bool
  dk_tool :: "dock_tool option"
  dk_dragging :: bool
  dk_startX :: int

definition dock_start :: dock where
  "dock_start = \<lparr> dk_expanded = False, dk_tool = None, dk_dragging = False, dk_startX = 0 \<rparr>"

definition toggleTool :: "dock_tool \<Rightarrow> dock \<Rightarrow> dock" where
  "toggleTool t s = s\<lparr>dk_tool := (if dk_tool s = Some t then None else Some t)\<rparr>"

definition dock_label :: "dock_tool \<Rightarrow> jstr" where
  "dock_label t = (case t of Dock_calculator \<Rightarrow> [1575, 1604, 1570, 1604, 1577, 32,
    1575, 1604, 1581, 1575, 1587, 1576, 1577] | Dock_profit \<Rightarrow> [1581, 1575, 1587,
    1576, 1577, 32, 1575, 1604, 1571, 1585, 1576, 1575, 1581] | Dock_notes \<Rightarrow> [1575,
    1604, 1605, 1604, 1575, 1581, 1592, 1575, 1578])"

definition tool_title :: "dock_tool \<Rightarrow> jstr" where
  "tool_title t = (case t of Dock_calculator \<Rightarrow> [1575, 1604, 1570, 1604, 1577, 32,
    1575, 1604, 1581, 1575, 1587, 1576, 1577] | Dock_profit \<Rightarrow> [1581, 1575, 1587,
    1576, 1577, 32, 1575, 1604, 1571, 1585, 1576, 1575, 1581] | Dock_notes \<Rightarrow> [1605,
    1604, 1575, 1581, 1592, 1575, 1578, 32, 1587, 1585, 1610, 1593, 1577])"

datatype dock_event =
    Handle_down int
  | Handle_click
  | Mouse_move int
  | Mouse_up
  | Click_outside
  | Tool_click dock_tool
  | Dock_close
  | Tool_close

definition dock_step :: "dock \<Rightarrow> dock_event \<Rightarrow> dock" where
  "dock_step s e = (case e of
     Handle_down x \<Rightarrow> s\<lparr> dk_dragging := True, dk_startX := x \<rparr>
   | Handle_click \<Rightarrow> s\<lparr>dk_expanded := \<not> dk_expanded s\<rparr>
   | Mouse_move x \<Rightarrow> if dk_dragging s \<and> 50 < x - dk_startX s then s\<lparr> dk_expanded := True, dk_dragging := False \<rparr> else s
   | Mouse_up \<Rightarrow> s\<lparr>dk_dragging := False\<rparr>
   | Click_outside \<Rightarrow> if dk_expanded s \<or> dk_tool s \<noteq> None then s\<lparr> dk_expanded := False, dk_tool := None \<rparr> else s
   | Tool_click t \<Rightarrow> if dk_expanded s then toggleTool t s else s
   | Dock_close \<Rightarrow> if dk_expanded s then s\<lparr> dk_expanded := False, dk_tool := None \<rparr> else s
   | Tool_close \<Rightarrow> s\<lparr>dk_tool := None\<rparr>)"

lemma drag_opens: "50 < y - x \<Longrightarrow> dk_expanded (run dock_step s [Handle_down x, Mouse_move y])"
  by (simp add: dock_step_def)

text \<open>The handle closes the dock, but not the tool.\<close>

lemma tool_outlives_dock:
  "run dock_step dock_start [Handle_click, Tool_click t, Handle_click] = dock_start\<lparr>dk_tool := Some t\<rparr>"
  by (simp add: dock_step_def dock_start_def toggleTool_def)

section \<open>The end and the warning\<close>

datatype close_event = Close_requested | Close_cancel | Minimize_click | Force_close

datatype close_call = Force_close_app | Minimize_window

text \<open>Whether the dialog is open, and what the desktop has been told.\<close>

definition close_step :: "bool \<times> close_call list \<Rightarrow> close_event \<Rightarrow> bool \<times> close_call list" where
  "close_step s e = (case s of (isOpen, calls) \<Rightarrow> (case e of
     Close_requested \<Rightarrow> (True, calls)
   | Close_cancel \<Rightarrow> (False, calls)
   | Minimize_click \<Rightarrow> if isOpen then (False, calls @ [Minimize_window]) else s
   | Force_close \<Rightarrow> if isOpen then (True, calls @ [Force_close_app]) else s))"

interpretation closing: machine close_step
  "\<lambda>s. \<not> fst s \<and> snd s = []" "\<lambda>e. e \<noteq> Close_requested"
  by unfold_locales (auto simp: close_step_def split: close_event.splits)

lemma never_closed_unasked: "\<forall>e\<in>set es. e \<noteq> Close_requested \<Longrightarrow> snd (run close_step (False, []) es) = []"
  using closing.run_inv [of "(False, [])" es] by simp

definition SessionTimeoutWarning :: "auth \<Rightarrow> jstr option" where
  "SessionTimeoutWarning s = (if au_warning s then Some [1637, 32, 1583, 1602, 1575, 1574, 1602,
    32, 1605, 1578, 1576, 1602, 1610, 1577] else None)"

text \<open>The warning tells five minutes, however many are left.\<close>

lemma warning_tells_five: "SessionTimeoutWarning (s\<lparr> au_warning := True,
  au_remaining := r \<rparr>) = Some [1637, 32, 1583, 1602, 1575, 1574, 1602, 32, 1605, 1578,
  1576, 1602, 1610, 1577]"
  by (simp add: SessionTimeoutWarning_def)

end
