(* ===== verification/ProductViews.thy ===== *)
theory ProductViews
  imports Products Views Receipts
begin

text \<open>
  What is shown of products: the card (\<open>components/ProductCard.tsx\<close>) and the grid of the point of sale
  (\<open>features/pos/components/VirtualProductGrid.tsx\<close>), and from \<open>features/products/components\<close> the list, the grid, the filters,
  the figures and the bar of the selection, the window of a scanned product, the form of a product and the window of
  categories. Clicks are given by what they call, with what bubbles up to the row.
\<close>

section \<open>Images and stock\<close>

definition local_image :: "jstr \<Rightarrow> jstr" where
  "local_image img = js ''/local-image/'' @ img"

definition web_image :: "jstr \<Rightarrow> bool" where
  "web_image img = (starts_with img (js ''data'') \<or> starts_with img (js ''http''))"

definition resolveImage :: "jstr \<Rightarrow> jstr option" where
  "resolveImage img = (if img = [] then None else if web_image img then Some img
     else if str_includes img (js ''.'') then Some (local_image img) else None)"

definition low_limit :: "product \<Rightarrow> jsnum" where
  "low_limit p = num_or (p_minStock p) (Fin 5)"

definition stock_badge :: "jstr \<Rightarrow> product \<Rightarrow> badge" where
  "stock_badge lowText p =
     (if js_eq (p_stock p) (Fin 0) then Badge (js ''error'') [1606, 1575, 1601, 1584]
      else if p_stock p \<le> low_limit p then Badge (js ''warning'') lowText
      else Badge (js ''success'') [1605, 1578, 1608, 1601, 1585])"

text \<open>The classes A, B and C: in the list by the share of the whole stock, in the window of a scanned product by the amount.\<close>

definition list_class :: "jsnum \<Rightarrow> jsnum \<Rightarrow> jstr" where
  "list_class v whole =
     (if js_eq whole (Fin 0) then js ''C''
      else let share = (v / whole) * Fin 100
        in if Fin 1 < share then js ''A'' else if Fin (1 / 2) < share then js ''B'' else js ''C'')"

definition scanned_class :: "product \<Rightarrow> jstr" where
  "scanned_class p = (let stockValue = p_stock p * p_price p
     in if Fin 100000 < stockValue then js ''A'' else if Fin 50000 < stockValue then js ''B'' else js ''C'')"

section \<open>The card\<close>

record product_card =
  pc_image :: "jstr option"
  pc_letter :: jstr
  pc_stock :: "jstr option"
  pc_low :: bool
  pc_name :: jstr
  pc_price :: jstr
  pc_currency :: jstr
  pc_wholesale :: bool
  pc_added :: bool
  pc_canPrint :: bool

definition card_image :: "jstr \<Rightarrow> jstr option" where
  "card_image img =
     (let url = (if img \<noteq> [] \<and> \<not> starts_with img (js ''data'') \<and> \<not> starts_with img (js ''http'') \<and> str_includes img (js ''.'')
        then local_image img else img)
      in if url \<noteq> [] \<and> (starts_with url (js ''data'') \<or> starts_with url (js ''http'') \<or> starts_with url (js ''/local-image/''))
         then Some url else None)"

definition ProductCard :: "product \<Rightarrow> bool \<Rightarrow> bool \<Rightarrow> jstr \<Rightarrow> bool \<Rightarrow> product_card" where
  "ProductCard p isJustAdded canPrint cur isWholesale =
     (let isOut = (p_stock p \<le> Fin 0); isLow = (p_stock p \<le> low_limit p \<and> \<not> isOut)
      in \<lparr> pc_image = card_image (p_image p), pc_letter = take 1 (p_name p),
           pc_stock = (if isOut then None else Some (num_to_string (p_stock p))), pc_low = isLow, pc_name = p_name p,
           pc_price = bare_amount (if isWholesale then num_or (p_wholesalePrice p) (p_price p) else p_price p) cur,
           pc_currency = cur, pc_wholesale = isWholesale, pc_added = isJustAdded, pc_canPrint = canPrint \<rparr>)"

text \<open>The card and the list show the same image, if the path does not begin like one of the server.\<close>

lemma card_image_resolves:
  "\<not> starts_with img (js ''/local-image/'') \<Longrightarrow> card_image img = resolveImage img"
  by (auto simp: card_image_def resolveImage_def web_image_def local_image_def Let_def js_def starts_with_def)

section \<open>Rows of a grid\<close>

definition CARD_HEIGHT :: nat where "CARD_HEIGHT = 184"

definition GAP :: nat where "GAP = 12"

definition grid_row :: "nat \<Rightarrow> product list \<Rightarrow> nat \<Rightarrow> product list" where
  "grid_row columns products i = window (i * columns) columns products"

definition empty_slots :: "nat \<Rightarrow> product list \<Rightarrow> nat" where
  "empty_slots columns row = (if length row < columns then columns - length row else 0)"

definition rowCount :: "nat \<Rightarrow> product list \<Rightarrow> jsnum" where
  "rowCount columns products = js_ceil (jint (int (length products)) / jint (int columns))"

definition VirtualProductGrid :: "nat \<Rightarrow> product list \<Rightarrow> jstr option \<Rightarrow> jstr \<Rightarrow> bool \<Rightarrow> nat list \<Rightarrow> (product_card list \<times> nat) list option" where
  "VirtualProductGrid columns products justAddedId cur isWholesale rows =
     (if products = [] then None
      else Some (map (\<lambda>i. let row = grid_row columns products i
        in (map (\<lambda>p. ProductCard p (justAddedId = Some (p_id p)) False cur isWholesale) row, empty_slots columns row)) rows))"

definition getColumns :: "jsnum option \<Rightarrow> nat" where
  "getColumns width = (case width of None \<Rightarrow> 4 | Some w \<Rightarrow>
     if w < Fin 400 then 2 else if w < Fin 600 then 3 else if w < Fin 900 then 4 else 5)"

text \<open>The columns follow the container, which there is only with products; it is observed if it is there at the first render.\<close>

record grid_columns =
  gc_columns :: nat
  gc_width :: "jsnum option"
  gc_observed :: bool
  gc_timer :: bool

definition grid_mount :: "jsnum option \<Rightarrow> grid_columns" where
  "grid_mount width = \<lparr> gc_columns = getColumns width, gc_width = width, gc_observed = (width \<noteq> None), gc_timer = False \<rparr>"

datatype grid_event = Container_is "jsnum option" | Window_resized | Resize_timer

definition grid_step :: "grid_columns \<Rightarrow> grid_event \<Rightarrow> grid_columns" where
  "grid_step s e = (case e of
     Container_is w \<Rightarrow> (let s = s\<lparr>gc_width := w\<rparr> in if gc_observed s \<and> w \<noteq> None then s\<lparr>gc_columns := getColumns w\<rparr> else s)
   | Window_resized \<Rightarrow> s\<lparr>gc_timer := True\<rparr>
   | Resize_timer \<Rightarrow> if gc_timer s then s\<lparr> gc_timer := False, gc_columns := getColumns (gc_width s) \<rparr> else s)"

lemma late_products_unobserved:
  "gc_columns (run grid_step (grid_mount None) [Container_is (Some w), Container_is (Some w')]) = 4"
  by (simp add: grid_step_def grid_mount_def getColumns_def Let_def)

text \<open>Division and rounding up agree with whole numbers.\<close>

lemma ceil_division:
  assumes "0 < c" "c \<le> 1000" "n \<le> 10 ^ 9"
  shows "js_ceil (jint (int n) / jint (int c)) = jint (int ((n + c - 1) div c))"
proof -
  let ?k = "(n + c - 1) div c"
  have k: "n \<le> ?k * c" "?k * c \<le> n + c - 1"
    using assms(1) div_mult_mod_eq [of "n + c - 1" c] mod_less_divisor [of c "n + c - 1"] by linarith+
  let ?x = "rat_of_nat n / of_nat c"
  have "n + c - 1 \<le> 2 ^ 53" using assms by simp
  then have kb: "?k \<le> 2 ^ 53" by (rule order_trans [OF div_le_dividend])
  have c: "1 \<le> rat_of_nat c" "rat_of_nat c \<le> 1000" using assms by simp_all
  have "rat_of_nat n \<le> of_nat (?k * c)" "rat_of_nat (?k * c) \<le> of_nat (n + c - 1)"
    using k by (simp_all only: of_nat_le_iff)
  then have up: "?x \<le> of_nat ?k" and lo: "rat_of_nat ?k * of_nat c + 1 - of_nat c \<le> of_nat n"
    using c by (simp_all add: divide_le_eq of_nat_diff)
  have "(rat_of_nat ?k * of_nat c + 1 - of_nat c) / of_nat c \<le> ?x" using lo c by (intro divide_right_mono) simp_all
  moreover have "(rat_of_nat ?k * of_nat c + 1 - of_nat c) / of_nat c = rat_of_nat ?k - 1 + 1 / of_nat c"
    using c(1) by (simp add: diff_divide_distrib add_divide_distrib)
  moreover have "1 / 1000 \<le> 1 / rat_of_nat c" using c by (intro divide_left_mono) auto
  ultimately have low: "rat_of_nat ?k - 1 + 1 / 1000 \<le> ?x" by linarith
  have nn: "rat_of_nat n \<le> 10 ^ 9" using assms(3) by (metis of_nat_le_iff of_nat_numeral of_nat_power)
  have small: "0 \<le> ?x" "?x \<le> 10 ^ 9" using c nn by (simp_all add: divide_le_eq order_trans [OF nn])
  have "rnd ?x = Fin (rnd_rat ?x)" using small by (intro rnd_Fin) simp
  moreover have "rnd_rat ?x \<le> of_nat ?k"
    using rnd_rat_mono [OF up] rnd_rat_int [of "int ?k"] kb by simp
  moreover have "rat_of_nat ?k - 1 < rnd_rat ?x"
    using rnd_rat_err [of ?x] low small by simp
  moreover from calculation have "\<lceil>rnd_rat ?x\<rceil> = int ?k" by (intro ceiling_unique) simp_all
  ultimately show ?thesis using assms(1) by simp
qed
lemma grid_rows_cover:
  assumes "0 < columns"
  shows "concat (map (grid_row columns products) [0..<(length products + columns - 1) div columns]) = products"
proof -
  let ?k = "(length products + columns - 1) div columns"
  have "length products \<le> ?k * columns"
    using assms div_mult_mod_eq [of "length products + columns - 1" columns]
      mod_less_divisor [of columns "length products + columns - 1"] by linarith
  then show ?thesis using concat_windows [of columns products ?k] by (simp add: grid_row_def [abs_def])
qed

text \<open>The rows of the grid, as many as are counted, show every product once and in order, and with the empty slots every row
  has as many places as there are columns.\<close>

lemma grid_complete:
  assumes "length products \<le> 10 ^ 9" "2 \<le> columns" "columns \<le> 5"
  shows "rowCount columns products = jint (int ((length products + columns - 1) div columns))
    \<and> concat (map (grid_row columns products) [0..<(length products + columns - 1) div columns]) = products
    \<and> list_all (\<lambda>i. length (grid_row columns products i) + empty_slots columns (grid_row columns products i) = columns)
        [0..<(length products + columns - 1) div columns]"
proof -
  let ?n = "length products" and ?k = "(length products + columns - 1) div columns"
  have "rowCount columns products = jint (int ?k)"
    unfolding rowCount_def by (rule ceil_division) (use assms in auto)
  moreover have "concat (map (grid_row columns products) [0..<?k]) = products"
    using assms(2) by (intro grid_rows_cover) simp
  moreover have "length (grid_row columns products i) \<le> columns" for i
    by (simp add: grid_row_def length_window)
  ultimately show ?thesis by (auto simp: list_all_iff empty_slots_def le_antisym not_less)
qed

lemma grid_complete_witness:
  "rowCount 4 (replicate 9 p) = jint (int ((length (replicate 9 p) + 4 - 1) div 4))
    \<and> concat (map (grid_row 4 (replicate 9 p)) [0..<(length (replicate 9 p) + 4 - 1) div 4]) = replicate 9 p
    \<and> list_all (\<lambda>i. length (grid_row 4 (replicate 9 p) i) + empty_slots 4 (grid_row 4 (replicate 9 p) i) = 4)
        [0..<(length (replicate 9 p) + 4 - 1) div 4]"
  by (rule grid_complete) simp_all

section \<open>The list, the filters and the figures\<close>

record product_row =
  pr_selected :: bool
  pr_image :: "jstr option"
  pr_letter :: jstr
  pr_name :: jstr
  pr_barcode :: jstr
  pr_category :: jstr
  pr_supplier :: jstr
  pr_class :: jstr
  pr_price :: jstr
  pr_margin :: "jstr option"
  pr_stock :: jstr
  pr_badge :: badge

definition list_row :: "jstr list \<Rightarrow> jsnum \<Rightarrow> jstr \<Rightarrow> product \<Rightarrow> product_row" where
  "list_row selectedIds whole cur p =
     \<lparr> pr_selected = (p_id p \<noteq> [] \<and> p_id p \<in> set selectedIds), pr_image = resolveImage (p_image p), pr_letter = take 1 (p_name p),
       pr_name = p_name p, pr_barcode = p_barcode p, pr_category = p_category p, pr_supplier = opt_default [] (p_supplier p),
       pr_class = list_class (js_round (p_stock p * p_price p)) whole,
       pr_price = bare_amount (p_price p) cur,
       pr_margin = (if Fin 0 < p_cost p
         then Some (to_fixed 0 ((p_price p - p_cost p) / p_cost p * Fin 100) @ [37, 32, 1607,
           1575, 1605, 1588]) else None),
       pr_stock = num_to_string (p_stock p), pr_badge = stock_badge [1605, 1606, 1582, 1601,
         1590] p \<rparr>"

datatype row_target = Row_itself | Row_checkbox | Row_cell_of_checkbox | Row_minus | Row_plus | Row_print | Row_delete

datatype row_call = Call_edit product | Call_toggle jstr | Call_stock product int | Call_queue product nat | Call_delete jstr

text \<open>What a click calls: the handler of the target, then that of the row unless the click was stopped.\<close>

definition list_click :: "product \<Rightarrow> row_target \<Rightarrow> row_call list" where
  "list_click p t = (case t of
     Row_itself \<Rightarrow> [Call_edit p]
   | Row_checkbox \<Rightarrow> (if p_id p = [] then [] else [Call_toggle (p_id p)])
   | Row_cell_of_checkbox \<Rightarrow> []
   | Row_minus \<Rightarrow> [Call_stock p (- 1)]
   | Row_plus \<Rightarrow> [Call_stock p 1]
   | Row_print \<Rightarrow> [Call_queue p 1]
   | Row_delete \<Rightarrow> (if p_id p = [] then [] else [Call_delete (p_id p)]))"

text \<open>The buttons in the row stop the click: only the row itself opens the form of the product.\<close>

lemma only_row_edits: "Call_edit p \<in> set (list_click p t) \<longleftrightarrow> t = Row_itself"
  by (cases t) (simp_all add: list_click_def)

definition product_figures :: "nat \<Rightarrow> product_stats \<Rightarrow> jstr \<Rightarrow> stat_card list" where
  "product_figures records s cur =
     [StatCard [1573, 1580, 1605, 1575, 1604, 1610, 32, 1575, 1604, 1605, 1606, 1578, 1580, 1575,
       1578] (show_nat records) Blue [],
      StatCard [1602, 1610, 1605, 1577, 32, 1575, 1604, 1605, 1582, 1586, 1608, 1606, 32, 40,
        1588, 1585, 1575,
  1569, 41] (bare_amount (t_totalCost s) cur) Blue cur,
      StatCard [1602, 1610, 1605, 1577, 32, 1575, 1604, 1605, 1582, 1586, 1608, 1606, 32, 40,
        1576, 1610, 1593, 41] (bare_amount (t_totalValue s) cur) Emerald cur,
      StatCard [1575, 1604, 1571, 1585, 1576, 1575, 1581, 32, 1575, 1604, 1605, 1578, 1608, 1602,
        1593, 1577] (bare_amount (t_profit s) cur) Purple cur]"

definition BulkActions :: "nat \<Rightarrow> jstr option" where
  "BulkActions selectedCount = (if selectedCount = 0 then None
     else Some ([1578, 1605, 32, 1578, 1581, 1583, 1610, 1583,
       32] @ show_nat selectedCount @ [32, 1605, 1606, 1578, 1580]))"

text \<open>The choices of a filter, value and text; the value of the first is written out.\<close>

definition all_choice_ar :: jstr where "all_choice_ar = [1575, 1604, 1603, 1604]"

definition category_choices :: "category_def list \<Rightarrow> (jstr \<times> jstr) list" where
  "category_choices cats = (all_choice_ar, [1580, 1605, 1610, 1593, 32, 1575, 1604, 1601, 1574,
    1575, 1578]) # map (\<lambda>c. (cd_name c, cd_name c)) cats"

definition supplier_choices :: "(jstr \<times> jstr) list \<Rightarrow> (jstr \<times> jstr) list" where
  "supplier_choices suppliers = (all_choice_ar, [1580, 1605, 1610, 1593, 32, 1575, 1604, 1605,
    1608, 1585, 1583, 1610, 1606]) # map (\<lambda>s. (snd s, snd s)) suppliers"

text \<open>The page takes all for the translated word: in English the choice of all categories is a category of its own.\<close>

lemma all_categories_filtered:
  assumes "\<forall>p\<in>set ps. p_category p \<noteq> all_choice_ar"
  shows "shown_products lower (js ''All'') search (fst (hd (category_choices cats))) supplier status ps = []"
proof -
  have all: "all_choice_ar \<noteq> js ''All''" by (simp add: all_choice_ar_def js_def)
  have "filter (\<lambda>p. p_category p = all_choice_ar) (by_search lower search ps) = []"
    using assms by (auto simp: filter_empty_conv by_search_def split: if_splits)
  then show ?thesis using all by (simp add: shown_products_def category_choices_def Let_def split: status_filter.split)
qed

section \<open>A scanned product\<close>

record scanned_view =
  sv_image :: "jstr option"
  sv_badge :: badge
  sv_class :: jstr
  sv_name :: jstr
  sv_barcode :: jstr
  sv_category :: jstr
  sv_supplier :: "jstr option"
  sv_price :: jstr
  sv_cost :: jstr
  sv_profit :: jstr
  sv_margin :: "jstr \<times> tone"
  sv_stock :: "jstr \<times> tone"
  sv_minimum :: jstr
  sv_description :: "jstr option"
  sv_value :: jstr
  sv_expected :: jstr

definition scanned_margin :: "product \<Rightarrow> jsnum" where
  "scanned_margin p = (if Fin 0 < p_cost p then (p_price p - p_cost p) / p_cost p * Fin 100 else Fin 0)"

definition stock_tone :: "product \<Rightarrow> tone" where
  "stock_tone p = (if js_eq (p_stock p) (Fin 0) then Tone_danger else if p_stock p \<le> low_limit p then Tone_warning else Tone_muted)"

definition ScannedProductModal :: "jstr \<Rightarrow> product \<Rightarrow> scanned_view" where
  "ScannedProductModal cur p =
     (let amount = p_price p - num_or (p_cost p) (Fin 0); margin = scanned_margin p
      in \<lparr> sv_image = resolveImage (p_image p), sv_badge = stock_badge [1605, 1582, 1586,
        1608, 1606, 32, 1605, 1606, 1582, 1601, 1590] p, sv_class = [1578, 1589, 1606, 1610,
        1601, 32] @ scanned_class p,
           sv_name = p_name p, sv_barcode = p_barcode p, sv_category = p_category p,
           sv_supplier = Option.bind (p_supplier p) shown_text,
           sv_price = bare_amount (p_price p) cur, sv_cost = bare_amount (num_or (p_cost p) (Fin 0)) cur,
           sv_profit = bare_amount amount cur,
           sv_margin = (to_fixed 1 margin @ [37, 32, 1607, 1575, 1605, 1588, 32, 1585, 1576, 1581],
             if Fin 20 \<le> margin then Tone_success else if Fin 10 \<le> margin then Tone_warning else Tone_danger),
           sv_stock = (num_to_string (p_stock p), stock_tone p),
           sv_minimum = [1575, 1604, 1581, 1583, 32, 1575, 1604, 1571, 1583, 1606, 1609, 58,
             32] @ num_to_string (low_limit p),
           sv_description = Option.bind (p_description p) shown_text,
           sv_value = bare_amount (p_stock p * p_price p) cur,
           sv_expected = bare_amount (amount * p_stock p) cur \<rparr>)"

datatype scanned_target = Scan_minus | Scan_plus | Scan_print | Scan_duplicate | Scan_show | Scan_delete | Scan_edit

datatype scanned_call = Does row_call | Call_notify jstr | Call_duplicate product | Call_search jstr

text \<open>What is shown after the click, and what is called.\<close>

definition scanned_click :: "product \<Rightarrow> scanned_target \<Rightarrow> product option \<times> scanned_call list" where
  "scanned_click p t = (case t of
     Scan_minus \<Rightarrow> (Some (p\<lparr>p_stock := js_max (Fin 0) (p_stock p - Fin 1)\<rparr>), [Does (Call_stock p (- 1))])
   | Scan_plus \<Rightarrow> (Some (p\<lparr>p_stock := p_stock p + Fin 1\<rparr>), [Does (Call_stock p 1)])
   | Scan_print \<Rightarrow> (Some p, [Does (Call_queue p 1), Call_notify [1578, 1605, 1578, 32,
     1575, 1604, 1573, 1590, 1575, 1601, 1577, 32, 1604, 1602, 1575, 1574,
  1605, 1577, 32, 1575, 1604, 1591, 1576, 1575, 1593, 1577]])
   | Scan_duplicate \<Rightarrow> (None, [Call_duplicate p])
   | Scan_show \<Rightarrow> (None, [Call_search (p_barcode p)])
   | Scan_delete \<Rightarrow> (None, if p_id p = [] then [] else [Does (Call_delete (p_id p))])
   | Scan_edit \<Rightarrow> (None, [Does (Call_edit p)]))"

text \<open>What the window shows after a change of the stock is what is asked to be saved, as long as the stock is not negative.\<close>

lemma shown_stock_saved:
  assumes "p_stock p = jint n" "0 \<le> n" "n < 2 ^ 53" "p_id p \<noteq> []"
    and "(t, change) \<in> {(Scan_minus, Fin (- 1)), (Scan_plus, Fin 1)}"
  shows "asked (updateStock p change W) = asked W @ [Save_stock (the (fst (scanned_click p t))) change]"
proof -
  have "jint n - Fin 1 = jint (n - 1)" "jint n + Fin 1 = jint (n + 1)" "jint n + Fin (- 1) = jint (n - 1)"
    using assms(2, 3) jint_diff [of n 1] jint_add [of n 1] jint_add [of n "- 1"] by simp_all
  moreover have "js_max (Fin 0) (jint (n + 1)) = jint (n + 1)" using assms(2) by (simp add: js_max_Fin)
  ultimately show ?thesis using assms(1, 4, 5) by (auto simp: updateStock_def scanned_click_def)
qed

text \<open>A negative stock, which the preferences may allow, is shown one higher and saved as nothing; and taking one away from it
  saves nothing as well: the stock rises.\<close>

lemma negative_stock_raised:
  assumes "p_stock p = Fin (- 3)" "p_id p \<noteq> []"
  shows "asked (updateStock p (Fin (- 1)) W) = asked W @ [Save_stock (p\<lparr>p_stock := Fin 0\<rparr>) (Fin (- 1))]
    \<and> p_stock (the (fst (scanned_click p Scan_plus))) = Fin (- 2)"
  using assms rnd_int [of "- 4"] rnd_int [of "- 2"] by (simp add: updateStock_def scanned_click_def js_max_Fin)

section \<open>The form of a product\<close>

text \<open>\<open>value={form.x || ''}\<close>: a number of nothing is shown as an empty field.\<close>

definition number_field :: "jsnum option \<Rightarrow> jstr" where
  "number_field v = (case v of Some x \<Rightarrow> if truthy x then num_to_string x else [] | None \<Rightarrow> [])"

datatype image_shown = Image_empty | Image_file jstr | Image_icon

definition form_image :: "jstr option \<Rightarrow> image_shown" where
  "form_image img = (let i = opt_default [] img
     in if i = [] then Image_empty else if web_image i \<or> str_includes i (js ''.'') then Image_file i else Image_icon)"

definition form_profit :: "product_form \<Rightarrow> jsnum \<times> jsnum" where
  "form_profit f = (opt_default (Fin 0) (f_price f), opt_default (Fin 0) (f_cost f))"

text \<open>The expected profit and its share of the cost, when there is one.\<close>

definition profit_widget :: "jstr \<Rightarrow> product_form \<Rightarrow> (jstr \<times> (jstr \<times> tone) option) option" where
  "profit_widget cur f = (case form_profit f of (price, cost) \<Rightarrow>
     if Fin 0 < price \<or> Fin 0 < cost
     then Some (bare_amount (price - cost) cur,
       if truthy cost \<and> Fin 0 < cost
       then let roi = (price - cost) / cost * Fin 100
         in Some (to_fixed 1 roi @ js ''%'', if Fin 20 \<le> roi then Tone_success else if Fin 0 < roi then Tone_warning else Tone_danger)
       else None)
     else None)"

record history_row =
  hr_badge :: badge
  hr_date :: jstr
  hr_reason :: "jstr option"
  hr_qty :: "jstr \<times> tone"

definition history_row_of :: "(jstr \<Rightarrow> jstr) \<Rightarrow> jstr \<times> jstr \<times> jstr option \<times> jsnum \<Rightarrow> history_row" where
  "history_row_of day m = (case m of (t, time, reason, qty) \<Rightarrow>
     \<lparr> hr_badge = Badge (if t = js ''sale'' then js ''success'' else if t = js ''restock'' then js ''info'' else js ''warning'')
         (if t = js ''sale'' then [1605, 1576, 1610, 1593, 1575,
           1578] else if t = js ''restock'' then [1578, 1608, 1585, 1610, 1583, 32, 1605, 1582,
           1586, 1608, 1606] else [1578, 1581, 1583, 1610, 1579, 32, 1576, 1610, 1575, 1606,
           1575, 1578]),
       hr_date = day time, hr_reason = Option.bind reason shown_text,
       hr_qty = ((if Fin 0 < qty then js ''+'' else []) @ num_to_string qty, if Fin 0 < qty then Tone_success else Tone_danger) \<rparr>)"

datatype form_input =
    In_name jstr
  | In_barcode jstr
  | In_random jsnum
  | In_category jstr
  | In_supplier jstr
  | In_description jstr
  | In_price jstr
  | In_cost jstr
  | In_wholesale jstr
  | In_stock jstr
  | In_custom jstr jstr
  | In_noImage

definition random_barcode :: "jsnum \<Rightarrow> jstr" where
  "random_barcode r = num_to_string (js_floor (Fin 100000000000 + r * Fin 900000000000))"

definition without_error :: "jstr \<Rightarrow> (jstr \<times> jstr) list \<Rightarrow> (jstr \<times> jstr) list" where
  "without_error k es = filter (\<lambda>e. fst e \<noteq> k) es"

text \<open>The form and its errors after an input.\<close>

definition form_input_step :: "product_form \<times> (jstr \<times> jstr) list \<Rightarrow> form_input \<Rightarrow> product_form \<times> (jstr \<times> jstr) list" where
  "form_input_step s i = (case s of (f, es) \<Rightarrow> (case i of
     In_name t \<Rightarrow> (f\<lparr>f_name := Some t\<rparr>, without_error (js ''name'') es)
   | In_barcode t \<Rightarrow> (f\<lparr>f_barcode := Some t\<rparr>, es)
   | In_random r \<Rightarrow> (f\<lparr>f_barcode := Some (random_barcode r)\<rparr>, without_error (js ''barcode'') es)
   | In_category t \<Rightarrow> (f\<lparr>f_category := Some t\<rparr>, es)
   | In_supplier t \<Rightarrow> (f\<lparr>f_supplier := Some t\<rparr>, es)
   | In_description t \<Rightarrow> (f\<lparr>f_description := Some t\<rparr>, es)
   | In_price t \<Rightarrow> (f\<lparr>f_price := Some (js_number t)\<rparr>, es)
   | In_cost t \<Rightarrow> (f\<lparr>f_cost := Some (js_number t)\<rparr>, es)
   | In_wholesale t \<Rightarrow> (f\<lparr>f_wholesalePrice := Some (js_number t)\<rparr>, es)
   | In_stock t \<Rightarrow> (f\<lparr>f_stock := Some (js_number t)\<rparr>, es)
   | In_custom k t \<Rightarrow> (f\<lparr>f_customDetails := Some (obj_put k (JStr t) (opt_default [] (f_customDetails f)))\<rparr>, es)
   | In_noImage \<Rightarrow> (f\<lparr>f_image := Some []\<rparr>, es)))"

definition form_tabs :: "product option \<Rightarrow> jstr list" where
  "form_tabs editing = [1578, 1601, 1575, 1589, 1610, 1604, 32, 1575, 1604, 1605, 1606, 1578,
    1580] # (if editing = None then [] else [[1587, 1580, 1604, 32, 1575, 1604, 1581, 1585, 1603,
    1575, 1578]])"

definition form_title :: "product option \<Rightarrow> jstr" where
  "form_title editing = (if editing = None then [1573, 1590, 1575, 1601, 1577, 32, 1605, 1606,
    1578, 1580, 32, 1580, 1583, 1610, 1583] else [1578, 1593, 1583, 1610, 1604, 32, 1575, 1604,
    1605, 1606, 1578, 1580])"

definition form_save_text :: "product option \<Rightarrow> jstr" where
  "form_save_text editing = (if editing = None then [1573, 1590, 1575, 1601, 1577, 32, 1575,
    1604, 1605, 1606, 1578, 1580, 32, 1575, 1604, 1580,
  1583, 1610, 1583] else [1581, 1601, 1592, 32, 1575, 1604, 1578, 1594, 1610, 1610, 1585, 1575,
    1578, 32, 1608, 1575,
  1604, 1605, 1586, 1575, 1605, 1606, 1577])"

definition category_options :: "category_def list \<Rightarrow> (jstr \<times> jstr) list" where
  "category_options cats = (js ''General'', [1593, 1575, 1605]) # map (\<lambda>c. (cd_name c, cd_name c)) cats"

text \<open>A stored image of a product is shown in the list, but the form asks for it at a wrong place.\<close>

lemma stored_image_not_found:
  "form_image (Some (js ''milk.png'')) = Image_file (js ''milk.png'') \<and> resolveImage (js ''milk.png'') = Some (js ''/local-image/milk.png'')"
  by (simp add: form_image_def resolveImage_def web_image_def local_image_def starts_with_def js_def Let_def)

text \<open>No input changes the least stock: it stays what it was.\<close>

lemma minimum_not_editable: "f_minStock (fst (foldl form_input_step s is)) = f_minStock (fst s)"
proof (induction "is" arbitrary: s)
  case (Cons i "is")
  have "f_minStock (fst (form_input_step s i)) = f_minStock (fst s)"
    by (cases s; cases i) (simp_all add: form_input_step_def)
  then show ?case using Cons.IH [of "form_input_step s i"] by simp
qed simp

text \<open>A random barcode has twelve digits: the greatest random number below one does not round up to a thirteenth.\<close>

lemma random_barcode_bounds:
  assumes "r = Fin x" "0 \<le> x" "x \<le> 1 - 1 / 2 ^ 53"
  shows "\<exists>n. js_floor (Fin 100000000000 + r * Fin 900000000000) = jint n \<and> 10 ^ 11 \<le> n \<and> n < 10 ^ 12"
proof -
  let ?v = "7372799999999999 / 8192 :: rat"
  have v: "rnd ((1 - 1 / 2 ^ 53) * 900000000000) = Fin ?v" by code_simp
  have w: "rnd (100000000000 + ?v) = Fin (8191999999999999 / 8192)" by code_simp
  have "x * 900000000000 \<le> (1 - 1 / 2 ^ 53) * 900000000000" using assms(3) by (intro mult_right_mono) simp_all
  then have le: "rnd (x * 900000000000) \<le> Fin ?v" using rnd_mono v by metis
  have "Fin 0 \<le> rnd (x * 900000000000)" using assms(2) by (intro rnd_nonneg) simp
  with le obtain y where y: "rnd (x * 900000000000) = Fin y" "0 \<le> y" "y \<le> ?v" by (cases "rnd (x * 900000000000)") auto
  have "rnd (100000000000 + y) \<le> Fin (8191999999999999 / 8192)"
    using rnd_mono [of "100000000000 + y" "100000000000 + ?v"] y(3) w by simp
  moreover have "Fin 100000000000 \<le> rnd (100000000000 + y)"
    using rnd_mono [of 100000000000 "100000000000 + y"] y(2) rnd_int [of "10 ^ 11"] by simp
  ultimately obtain z where z: "rnd (100000000000 + y) = Fin z" "100000000000 \<le> z" "z \<le> 8191999999999999 / 8192"
    by (cases "rnd (100000000000 + y)") auto
  have "(100000000000::int) \<le> \<lfloor>z\<rfloor>" "\<lfloor>z\<rfloor> < 1000000000000" using z by (simp_all add: le_floor_iff floor_less_iff)
  then show ?thesis using assms(1) y(1) z(1) by (intro exI [of _ "\<lfloor>z\<rfloor>"]) simp
qed

section \<open>Categories\<close>

record new_field =
  nf_name :: jstr
  nf_type :: jstr
  nf_options :: jstr

definition empty_field :: new_field where
  "empty_field = \<lparr> nf_name = [], nf_type = js ''text'', nf_options = [] \<rparr>"

text \<open>The options of a list are split at commas as they were typed.\<close>

definition field_of :: "new_field \<Rightarrow> category_field" where
  "field_of n = \<lparr> cf_name = nf_name n, cf_type = nf_type n,
     cf_options = (if nf_type n = js ''select'' then Some (split_on 44 (nf_options n)) else None) \<rparr>"

definition add_field :: "category_form \<times> new_field \<Rightarrow> category_form \<times> new_field" where
  "add_field s = (case s of (g, n) \<Rightarrow>
     if nf_name n \<noteq> [] then (g\<lparr>g_fields := g_fields g @ [field_of n]\<rparr>, empty_field) else s)"

definition remove_field :: "nat \<Rightarrow> category_form \<Rightarrow> category_form" where
  "remove_field i g = g\<lparr>g_fields := take i (g_fields g) @ drop (Suc i) (g_fields g)\<rparr>"

definition can_save_category :: "category_form \<Rightarrow> bool" where
  "can_save_category g = (g_name g \<noteq> [])"

definition category_title :: "category_def option \<Rightarrow> jstr" where
  "category_title editing = (if editing = None then [1573, 1583, 1575, 1585, 1577, 32, 1575,
    1604, 1601, 1574, 1575, 1578] else [1578, 1593, 1583, 1610, 1604, 32, 1575, 1604, 1601, 1574,
    1577])"

definition category_save_text :: "category_def option \<Rightarrow> jstr" where
  "category_save_text editing = (if editing = None then [1573, 1590, 1575, 1601, 1577, 32, 1575,
    1604, 1601, 1574, 1577] else [1581, 1601, 1592, 32, 1575, 1604, 1578, 1593, 1583, 1610, 1604,
    1575, 1578])"

text \<open>The categories there are, with the number of their fields; none while one of them is edited.\<close>

definition shown_categories :: "category_def option \<Rightarrow> category_def list \<Rightarrow> (jstr \<times> jstr option) list" where
  "shown_categories editing cats = (if editing = None then map (\<lambda>c. (cd_name c,
     let k = length (opt_default [] (cd_fields c)) in if 0 < k then Some (show_nat k @ [32, 1581,
       1602, 1608, 1604, 32, 1605, 1582, 1589, 1589, 1577]) else None)) cats else [])"

lemma field_added: "nf_name n \<noteq> [] \<Longrightarrow> remove_field (length (g_fields g)) (fst (add_field (g, n))) = g"
  by (simp add: add_field_def remove_field_def)

text \<open>Spaces after the commas become part of the options.\<close>

lemma option_with_space:
  "cf_options (field_of \<lparr> nf_name = js ''size'', nf_type = js ''select'', nf_options = js ''big, small'' \<rparr>)
     = Some [js ''big'', js '' small'']"
  by (simp add: field_of_def js_def)

section \<open>The grid of the product page\<close>

definition ProductGridView :: "nat \<Rightarrow> jstr list \<Rightarrow> jstr \<Rightarrow> product list \<Rightarrow> nat list \<Rightarrow> (bool \<times> product_card) list list" where
  "ProductGridView columns selectedIds cur products rows =
     map (\<lambda>i. map (\<lambda>p. (p_id p \<noteq> [] \<and> p_id p \<in> set selectedIds, ProductCard p False True cur False)) (grid_row columns products i)) rows"

text \<open>As many boxes are ticked in the grid as there are products of the page that are selected.\<close>

lemma ticked_are_selected:
  assumes "0 < columns"
  shows "map fst (concat (ProductGridView columns selectedIds cur products [0..<(length products + columns - 1) div columns]))
    = map (\<lambda>p. p_id p \<noteq> [] \<and> p_id p \<in> set selectedIds) products"
proof -
  let ?k = "(length products + columns - 1) div columns"
  have "concat (map (grid_row columns products) [0..<?k]) = products" using assms by (rule grid_rows_cover)
  then have "map f (concat (map (grid_row columns products) [0..<?k])) = map f products" for f :: "product \<Rightarrow> bool" by simp
  then show ?thesis by (simp add: ProductGridView_def map_concat comp_def)
qed

end
