(* ===== verification/Spec2Isabelle.thy ===== *)
theory Spec2Isabelle
  imports Cart Money Utils Export Logger License AppShell Auth Scanner Ai StaffErrors Catalog Sales PrintQueue Queries ForceDelete Finance Customers Shifts Products Reports Orders Calculator Invoices Tools Discounts Staff Login Admin Settings Palette Inventory Lan Markdown CsvTransfer Camera Labels DocsGate Receipts AdminConsole Chat CloudBackups DesktopPanel Charts Views ReportViews Frame ProductViews
begin

text \<open>
  A verification library of the Beidar point of sale: its React frontend (\<open>src/frontend/src\<close>), the service of
  its licences (\<open>src/supabase/functions\<close>) and the dashboard of its administrators (\<open>src/admin-dashboard/src\<close>),
  all in TypeScript. The desktop backend, written in Go, is what the frontend calls; it is not modelled, and its answers
  are inputs of the model: every theorem holds whatever it answers and in whatever order.

  \<^bold>\<open>Parts and how they interact.\<close> A page keeps its state in React hooks, computes amounts from it, and calls the
  backend; the answers come asynchronously, with other events between them. The point of sale joins the cart, parked
  sales, the scanner and the printer of receipts; the management pages share the query cache, the dialogs for deleting
  and the toasts of the shell; the shell holds the preferences, the session and the view. The licence service keeps
  the table that the dashboard edits and that the login of the shop and the activation depend on.

  \<^bold>\<open>Foundations.\<close> \<open>Prelude\<close>: generic lemmas and the collections. \<open>Js_Number\<close>: binary64 as exact rationals rounded to
  the nearest double, with NaN and the infinities. \<open>Js_Value\<close>, \<open>Js_Text\<close>, \<open>Json_Text\<close>: strings as lists of
  UTF-16 code units, structured values, numbers as text and back, \<open>JSON.parse\<close> and \<open>JSON.stringify\<close>. \<open>Calendar\<close>: local
  dates. \<open>Domain\<close>: the interfaces of \<open>core/types.ts\<close> and \<open>core/api/types.ts\<close> as records, optional fields as
  options, unions of strings as datatypes. \<open>Machines\<close>: the contract of a component, a step function with
  an invariant, and the locale in which invariants of one step are carried over to runs. \<open>Pages\<close>: what the
  management pages share. A handler that awaits is cut at the \<open>await\<close>: its first half asks, the second is applied to the
  page of the moment the answer comes, with what the closure had kept in the request. Forms with and without a guard,
  forms that validate and machines whose actions must be paid for or whose invariant speaks of what has been observed so far are locales there, interpreted by the pages.

  \<^bold>\<open>Point of sale.\<close> \<open>Cart\<close> (\<open>features/pos/hooks/useCart.ts\<close>): the state, the actions and the effects with their
  dependencies, run until they settle; a refinement to a map, bounds of the total, what a reload keeps. \<open>Sales\<close>
  (\<open>features/pos/views/SalesPage.tsx\<close>, \<open>hooks/useParkedSales.ts\<close>): checkout, parking, scans; one sale at a time,
  amounts that add up, refused sales. \<open>Scanner\<close> (\<open>hooks/useUsbScannerDetection.ts\<close>), \<open>PrintQueue\<close> (\<open>SalesModals.tsx\<close>),
  \<open>Tools\<close> and \<open>Calculator\<close> (the number pad and the tools of the dock), \<open>Palette\<close> (\<open>CommandPalette.tsx\<close>), \<open>Camera\<close>
  (\<open>BarcodeScannerOverlay.tsx\<close>): one scan at a time, and not the same one twice in a moment. \<open>Receipts\<close>
  (\<open>ReceiptTemplate.tsx\<close>, \<open>QRCode.tsx\<close>, \<open>PrintPortal.tsx\<close>): every item printed once, every print ended once. \<open>ProductViews\<close>
  (\<open>ProductCard.tsx\<close>, \<open>VirtualProductGrid.tsx\<close> and what \<open>features/products/components\<close> shows): cards, grids, rows and forms
  of products; the grid shows every product once, in as many rows as are counted.

  \<^bold>\<open>Management.\<close> \<open>Catalog\<close>, \<open>Products\<close>, \<open>Inventory\<close>, \<open>Customers\<close>, \<open>Finance\<close>, \<open>Orders\<close>, \<open>Invoices\<close>, \<open>Reports\<close>,
  \<open>Shifts\<close>, \<open>Staff\<close>, \<open>Discounts\<close> and \<open>Settings\<close> model the page of the same name, \<open>ForceDelete\<close> the deletions of
  five of them, \<open>Labels\<close> (\<open>BarcodeDesigner.tsx\<close>) the labels printed for products, their columns and markup, \<open>CsvTransfer\<close>
  (\<open>ImportExportModal.tsx\<close>) import and export, \<open>CloudBackups\<close> and \<open>DesktopPanel\<close> two parts of the settings, \<open>Queries\<close> the query keys and hooks, \<open>Validation\<close> and \<open>StaffErrors\<close> what forms make of issues and errors.
  \<open>ReportViews\<close> shows the six reports as records of their cards, rows and bars, \<open>Views\<close> (\<open>StatsGrid.tsx\<close>, \<open>DataTable.tsx\<close>,
  \<open>ui.tsx\<close>) and \<open>Charts\<close> (\<open>charts.tsx\<close>) what pages are built of: the points of a chart lie in its frame, scanned codes are told from typing.
  The groups of lemmas show that requests are well formed, that dangerous ones are preceded by what they need, that
  pages are not left loading, and in examples where a page does not do what it means to.

  \<^bold>\<open>Shell and core.\<close> \<open>AppShell\<close> (\<open>store/appStore.ts\<close> and the layout), \<open>Auth\<close> (\<open>core/AuthContext.tsx\<close>), \<open>Login\<close> (the three
  login screens), \<open>Lan\<close> (the network panel and the licence screen), \<open>Money\<close> and \<open>Utils\<close> (\<open>core/utils.ts\<close>), \<open>Export\<close>
  (\<open>core/export.ts\<close>), \<open>Logger\<close> (\<open>core/logger.ts\<close>), \<open>Ai\<close> (\<open>core/ai.ts\<close>), \<open>Markdown\<close> (\<open>MarkdownRenderer.tsx\<close>), \<open>Chat\<close>
  (\<open>AIChatWindow.tsx\<close>): questions and answers that arrive in pieces. \<open>Frame\<close> (\<open>main.tsx\<close>, \<open>NativeTitleBar.tsx\<close>, \<open>ErrorBoundary.tsx\<close>,
  \<open>UtilitiesDock.tsx\<close> and two dialogs): the window around the pages; its bar shows only what can be visited.

  \<^bold>\<open>Repository.\<close> \<open>DocsGate\<close> (\<open>scripts/docs-gate.mjs\<close>): the gate that keeps documents and code in step, with the
  checks its exit code stands for and what its success promises of the files.

  \<^bold>\<open>Licences.\<close> \<open>License\<close>: the functions of the service one at a time and interleaved between their reads and writes.
  \<open>Admin\<close>: the dashboard, and the effect of its requests on the same table. \<open>AdminConsole\<close>: who is let in there, the log,
  the keys of the language models, the details of an account.

  \<^bold>\<open>Bounds and fuel.\<close> The parser of JSON takes twice the length of the text and two as fuel: every call consumes a
  character or closes a value. Effects of React are run until the state is stable, a bounded number of times; that
  this is enough is proved where it is used. Each
  interleaved request of the licence service takes two steps. All other recursion is structural.

  \<^bold>\<open>Parameters.\<close> Code that is not in the repository is a parameter: the issues of a schema of the library \<open>zod\<close>, the
  power function, translations, \<open>toLowerCase\<close> and \<open>toUpperCase\<close>, what a browser takes for an e-mail, the distance of
  local time to UTC (constant over the year, as it is in Iraq), numbers and dates as the locale writes them, the rows that the library of tables puts on a page, the answers
  of \<open>git\<close>, the figures the assistant is told, random digits and clocks, which are inputs of the events.

  \<^bold>\<open>Not modelled.\<close> Rendering: the markup, the styles, and most cards and tables, beyond the handlers
  and conditions on their buttons. Generated bindings (\<open>wailsjs\<close>), thin wrappers around them, schemas of \<open>zod\<close>,
  sounds, focus and scrolling, tests, and the build.
\<close>

end
